(* ===== verification/Prelude.thy ===== *)
theory Prelude
  imports Main "HOL-Library.Word"
begin

text \<open>
  Shared vocabulary of the development: the machine types of the Rust sources, the result
  type in which errors and panics are values, checked \<open>usize\<close> arithmetic, the byte view of
  strings, and the generic facts on lists and words that the components share. The collection
  \<open>rust_simps\<close> gathers the unfoldings of the Rust primitives.
\<close>

unbundle bit_operations_syntax

named_theorems rust_simps \<open>unfoldings of the Rust primitives\<close>

section \<open>Machine types\<close>

text \<open>
  \<open>u8\<close>, \<open>u16\<close>, \<open>u32\<close>, \<open>u64\<close> are words of their width. A \<open>usize\<close> that counts or
  indexes memory is a \<open>nat\<close>; where the source checks a \<open>usize\<close> computation for overflow,
  the 64-bit bound is written out (the checked operations below).
\<close>

type_synonym u8 = "8 word"
type_synonym u16 = "16 word"
type_synonym u32 = "32 word"
type_synonym u64 = "64 word"
type_synonym i32 = "32 word"
type_synonym bytes = "u8 list"

text \<open>A Rust call returns a value, returns an error, or panics.\<close>

datatype ('a, 'e) rust_result = Ok 'a | Err 'e | Panic

text \<open>What the operator \<open>?\<close> does: an error and a panic leave the function.\<close>

lemma try_Ok_iff:
  "(case r of Ok x \<Rightarrow> f x | Err e \<Rightarrow> Err e | Panic \<Rightarrow> Panic) = Ok y \<longleftrightarrow> (\<exists>x. r = Ok x \<and> f x = Ok y)"
  by (cases r) auto

abbreviation usize_limit :: nat where
  "usize_limit \<equiv> 2 ^ 64"

definition usize_checked_shl :: "nat \<Rightarrow> nat \<Rightarrow> nat option" where
  "usize_checked_shl x n = (if n < 64 then Some ((x * 2 ^ n) mod usize_limit) else None)"

definition usize_checked_mul :: "nat \<Rightarrow> nat \<Rightarrow> nat option" where
  "usize_checked_mul x y = (if x * y < usize_limit then Some (x * y) else None)"

definition usize_checked_add :: "nat \<Rightarrow> nat \<Rightarrow> nat option" where
  "usize_checked_add x y = (if x + y < usize_limit then Some (x + y) else None)"

lemmas [rust_simps] = usize_checked_shl_def usize_checked_mul_def usize_checked_add_def

lemma pow2_less_usize: "n < 64 \<Longrightarrow> (2::nat) ^ n < usize_limit"
  by (rule power_strict_increasing) simp_all

section \<open>Strings as bytes\<close>

text \<open>
  A Rust \<open>String\<close> is its bytes; here it is a \<open>string\<close> whose characters are those bytes, so
  \<open>len\<close> is \<open>length\<close>. \<open>as_bytes\<close> and \<open>from_utf8_unchecked\<close> convert without a check.
\<close>

definition byte_of_char :: "char \<Rightarrow> u8" where
  "byte_of_char c = word_of_nat (of_char c)"

definition char_of_byte :: "u8 \<Rightarrow> char" where
  "char_of_byte b = char_of (unat b)"

definition as_bytes :: "string \<Rightarrow> bytes" where
  "as_bytes s = map byte_of_char s"

definition from_utf8_unchecked :: "bytes \<Rightarrow> string" where
  "from_utf8_unchecked bs = map char_of_byte bs"

lemma char_of_byte_of_char [simp]: "char_of_byte (byte_of_char c) = c"
proof -
  have "(of_char c :: nat) mod 256 = of_char c" by simp
  then have "unat (word_of_nat (of_char c) :: u8) = of_char c"
    by (simp add: unat_of_nat)
  then show ?thesis by (simp add: char_of_byte_def byte_of_char_def)
qed

lemma byte_of_char_of_byte [simp]: "byte_of_char (char_of_byte b) = b"
proof -
  have "unat b < 256" using unsigned_less [of b, where ?'a = nat] by simp
  then show ?thesis by (simp add: char_of_byte_def byte_of_char_def)
qed

lemma from_utf8_as_bytes [simp]: "from_utf8_unchecked (as_bytes s) = s"
  by (simp add: from_utf8_unchecked_def as_bytes_def o_def)

lemma as_bytes_from_utf8 [simp]: "as_bytes (from_utf8_unchecked bs) = bs"
  by (simp add: from_utf8_unchecked_def as_bytes_def o_def)

lemma length_as_bytes [simp]: "length (as_bytes s) = length s"
  by (simp add: as_bytes_def)

lemma length_from_utf8 [simp]: "length (from_utf8_unchecked bs) = length bs"
  by (simp add: from_utf8_unchecked_def)

section \<open>Bits of bytes\<close>

lemma unat_u8_less [simp]: "unat (b::u8) < 256"
  using unsigned_less [of b, where ?'a = nat] by simp

lemma nat_and_7f [simp]: "(i::nat) AND 0x7f = i mod 128"
  using take_bit_eq_mask [of 7 i] by (simp add: mask_eq_exp_minus_1 take_bit_eq_mod)

lemma unat_and_7f [simp]: "unat ((b::u8) AND 0x7f) = unat b mod 128"
  by (simp add: unsigned_and_eq)

lemma bit_u8_7: "bit (b::u8) 7 \<longleftrightarrow> 128 \<le> unat b"
proof -
  have "bit b 7 = bit (unat b) 7" by (simp add: bit_unsigned_iff)
  also have "\<dots> = odd (unat b div 128)" by (simp add: bit_iff_odd)
  also have "unat b div 128 = (if unat b < 128 then 0 else 1)"
    using unat_u8_less [of b] by (simp add: div_nat_eqI)
  also have "odd (if unat b < 128 then 0 else 1 :: nat) = (128 \<le> unat b)" by simp
  finally show ?thesis .
qed

lemma and_80_zero [simp]: "(b::u8) AND 0x80 = 0 \<longleftrightarrow> unat b < 128"
proof -
  have "(b AND 0x80 = 0) = (\<not> bit b 7)" using and_exp_eq_0_iff_not_bit [of b 7] by simp
  then show ?thesis unfolding bit_u8_7 by linarith
qed

lemma and_80_set [simp]: "(b::u8) AND 0x80 = 0x80 \<longleftrightarrow> 128 \<le> unat b"
proof -
  have "b AND 2 ^ 7 = (if bit b 7 then 2 ^ 7 else 0)"
    by (rule bit_eqI) (auto simp: bit_and_iff bit_exp_iff simp del: power_numeral)
  then show ?thesis by (simp flip: bit_u8_7)
qed

lemma unat_or_80:
  assumes "v < 128"
  shows "unat (word_of_nat v OR 0x80 :: u8) = v + 128"
proof -
  have v: "unat (word_of_nat v :: u8) = v" using assms by (simp add: unat_of_nat)
  then have "(word_of_nat v :: u8) AND 0x80 = 0" using assms by simp
  then have "word_of_nat v OR 0x80 = (word_of_nat v + 0x80 :: u8)"
    by (rule disjunctive_add_eq_or [symmetric])
  then show ?thesis using v assms by (simp add: unat_word_ariths)
qed

text \<open>A list cut at two places; simplification rules where the encoders write front pieces.\<close>

lemma drop_cut: "take n (drop i xs) @ drop (i + n) xs = drop i xs"
  by (metis add.commute append_take_drop_id drop_drop)

lemma drop_cut_append: "take n (drop i xs) @ drop (i + n) xs @ ys = drop i xs @ ys"
  by (metis append_assoc drop_cut)

end
