(* ===== verification/H2_Error.thy ===== *)
theory H2_Error
  imports Prelude
begin

text \<open>
  The error codes and the error type of the HTTP/2 layer
  (\<open>ylong_http/src/h2/error.rs\<close>).
\<close>

datatype ErrorCode =
    NoError | ProtocolError | IntervalError | FlowControlError | SettingsTimeout
  | StreamClosed | FrameSizeError | RefusedStream | Cancel | CompressionError
  | ConnectError | EnhanceYourCalm | InadequateSecurity | Http1_1Required

datatype H2Error = StreamError u32 ErrorCode | ConnectionError ErrorCode

fun ErrorCode_into_code :: "ErrorCode \<Rightarrow> u32" where
  "ErrorCode_into_code NoError = 0x00"
| "ErrorCode_into_code ProtocolError = 0x01"
| "ErrorCode_into_code IntervalError = 0x02"
| "ErrorCode_into_code FlowControlError = 0x03"
| "ErrorCode_into_code SettingsTimeout = 0x04"
| "ErrorCode_into_code StreamClosed = 0x05"
| "ErrorCode_into_code FrameSizeError = 0x06"
| "ErrorCode_into_code RefusedStream = 0x07"
| "ErrorCode_into_code Cancel = 0x08"
| "ErrorCode_into_code CompressionError = 0x09"
| "ErrorCode_into_code ConnectError = 0x0a"
| "ErrorCode_into_code EnhanceYourCalm = 0x0b"
| "ErrorCode_into_code InadequateSecurity = 0x0c"
| "ErrorCode_into_code Http1_1Required = 0x0d"

definition ErrorCode_try_from :: "u32 \<Rightarrow> (ErrorCode, H2Error) rust_result" where
  "ErrorCode_try_from value =
     (if value = 0x00 then Ok NoError
      else if value = 0x01 then Ok ProtocolError
      else if value = 0x02 then Ok IntervalError
      else if value = 0x03 then Ok FlowControlError
      else if value = 0x04 then Ok SettingsTimeout
      else if value = 0x05 then Ok StreamClosed
      else if value = 0x06 then Ok FrameSizeError
      else if value = 0x07 then Ok RefusedStream
      else if value = 0x08 then Ok Cancel
      else if value = 0x09 then Ok CompressionError
      else if value = 0x0a then Ok ConnectError
      else if value = 0x0b then Ok EnhanceYourCalm
      else if value = 0x0c then Ok InadequateSecurity
      else if value = 0x0d then Ok Http1_1Required
      else Err (ConnectionError ProtocolError))"

lemma try_from_into_code: "ErrorCode_try_from (ErrorCode_into_code c) = Ok c"
  by (cases c) (simp_all add: ErrorCode_try_from_def)

lemma try_from_Ok_iff: "ErrorCode_try_from v = Ok c \<longleftrightarrow> v = ErrorCode_into_code c"
proof
  assume "ErrorCode_try_from v = Ok c"
  then show "v = ErrorCode_into_code c"
    by (auto simp: ErrorCode_try_from_def split: if_splits)
qed (simp add: try_from_into_code)

end
