(* ===== verification/Hpack_Integer.thy ===== *)
theory Hpack_Integer
  imports H2_Error
begin

text \<open>
  The integer representation of HPACK (\<open>ylong_http/src/h2/hpack/integer.rs\<close>): a decoder
  fed byte by byte with overflow checks, an encoder that yields byte by byte, and the proof
  that every \<open>usize\<close> survives the trip with every prefix length.
\<close>

section \<open>Decoder\<close>

record IntegerDecoder =
  idec_index :: nat
  idec_shift :: nat

definition IntegerDecoder_first_byte :: "u8 \<Rightarrow> u8 \<Rightarrow> IntegerDecoder + nat" where
  "IntegerDecoder_first_byte byte msk =
     (let index = byte AND msk
      in if index < msk then Inr (unat index)
         else Inl \<lparr>idec_index = unat index, idec_shift = 1\<rparr>)"

definition IntegerDecoder_next_byte ::
    "IntegerDecoder \<Rightarrow> u8 \<Rightarrow> H2Error + nat option \<times> IntegerDecoder" where
  "IntegerDecoder_next_byte d byte =
     (case Option.bind (usize_checked_shl 1 (idec_shift d - 1))
             (\<lambda>res. Option.bind (usize_checked_mul res (unat (byte AND 0x7f)))
                (\<lambda>res. usize_checked_add res (idec_index d))) of
        None \<Rightarrow> Inl (ConnectionError CompressionError)
      | Some index \<Rightarrow>
          let d' = \<lparr>idec_index = index, idec_shift = idec_shift d + 7\<rparr>
          in if byte AND 0x80 = 0x00 then Inr (Some index, d') else Inr (None, d'))"

section \<open>Encoder\<close>

datatype IntegerEncodeState = First | Other | Finish

record IntegerEncoder =
  ienc_i :: nat
  ienc_mask :: u8
  ienc_pre :: u8
  ienc_state :: IntegerEncodeState

definition IntegerEncoder_new :: "nat \<Rightarrow> u8 \<Rightarrow> u8 \<Rightarrow> IntegerEncoder" where
  "IntegerEncoder_new i msk pre =
     \<lparr>ienc_i = i, ienc_mask = msk, ienc_pre = pre, ienc_state = First\<rparr>"

definition IntegerEncoder_next_byte :: "IntegerEncoder \<Rightarrow> u8 option \<times> IntegerEncoder" where
  "IntegerEncoder_next_byte e =
     (case ienc_state e of
        First \<Rightarrow>
          if ienc_i e < unat (ienc_mask e)
          then (Some (ienc_pre e OR word_of_nat (ienc_i e)), e\<lparr>ienc_state := Finish\<rparr>)
          else (Some (ienc_pre e OR ienc_mask e),
                e\<lparr>ienc_i := ienc_i e - unat (ienc_mask e), ienc_state := Other\<rparr>)
      | Other \<Rightarrow>
          if 128 \<le> ienc_i e
          then (Some (word_of_nat (ienc_i e AND 0x7f) OR 0x80),
                e\<lparr>ienc_i := drop_bit 7 (ienc_i e)\<rparr>)
          else (Some (word_of_nat (ienc_i e AND 0x7f)), e\<lparr>ienc_state := Finish\<rparr>)
      | Finish \<Rightarrow> (None, e))"

definition IntegerEncoder_is_finish :: "IntegerEncoder \<Rightarrow> bool" where
  "IntegerEncoder_is_finish e = (ienc_state e = Finish)"


section \<open>Running the two to the end\<close>

text \<open>
  \<open>IntegerEncoder_run\<close> calls \<open>next_byte\<close> until it returns \<open>None\<close>; \<open>IntegerDecoder_feed\<close>
  feeds bytes until a value is complete (\<open>Inr\<close>, with the bytes left over), the input ends
  (\<open>Inl\<close>, with the decoder to resume) or the value overflows.
\<close>

fun ienc_rank :: "IntegerEncoder \<Rightarrow> nat" where
  "ienc_rank e = (case ienc_state e of First \<Rightarrow> ienc_i e + 2 | Other \<Rightarrow> ienc_i e + 1 | Finish \<Rightarrow> 0)"

lemma drop_bit_7_less: "128 \<le> (i::nat) \<Longrightarrow> drop_bit 7 i < i"
  by (simp add: drop_bit_eq_div)

lemma next_byte_rank:
  "IntegerEncoder_next_byte e = (Some b, e') \<Longrightarrow> ienc_rank e' < ienc_rank e"
  by (auto simp: IntegerEncoder_next_byte_def drop_bit_7_less
      split: IntegerEncodeState.splits if_splits)

function IntegerEncoder_run :: "IntegerEncoder \<Rightarrow> bytes" where
  "IntegerEncoder_run e =
     (case IntegerEncoder_next_byte e of
        (None, _) \<Rightarrow> []
      | (Some b, e') \<Rightarrow> b # IntegerEncoder_run e')"
  by pat_completeness auto
termination
  by (relation "measure ienc_rank") (auto dest: next_byte_rank [OF sym] simp del: ienc_rank.simps)

declare IntegerEncoder_run.simps [simp del]

fun IntegerDecoder_feed ::
    "IntegerDecoder \<Rightarrow> bytes \<Rightarrow> H2Error + (IntegerDecoder + nat \<times> bytes)" where
  "IntegerDecoder_feed d [] = Inr (Inl d)"
| "IntegerDecoder_feed d (b # bs) =
     (case IntegerDecoder_next_byte d b of
        Inr (Some i, _) \<Rightarrow> Inr (Inr (i, bs))
      | Inr (None, d') \<Rightarrow> IntegerDecoder_feed d' bs
      | Inl e \<Rightarrow> Inl e)"

definition IntegerDecoder_start ::
    "u8 \<Rightarrow> u8 \<Rightarrow> bytes \<Rightarrow> H2Error + (IntegerDecoder + nat \<times> bytes)" where
  "IntegerDecoder_start msk b bs =
     (case IntegerDecoder_first_byte b msk of
        Inr i \<Rightarrow> Inr (Inr (i, bs))
      | Inl d \<Rightarrow> IntegerDecoder_feed d bs)"

section \<open>Round trip\<close>

lemma run_Finish [simp]: "ienc_state e = Finish \<Longrightarrow> IntegerEncoder_run e = []"
  by (subst IntegerEncoder_run.simps) (simp add: IntegerEncoder_next_byte_def)

lemma run_Other:
  "ienc_state e = Other \<Longrightarrow> IntegerEncoder_run e =
     (if 128 \<le> ienc_i e
      then (word_of_nat (ienc_i e mod 128) OR 0x80) # IntegerEncoder_run (e\<lparr>ienc_i := ienc_i e div 128\<rparr>)
      else [word_of_nat (ienc_i e mod 128)])"
  by (subst IntegerEncoder_run.simps)
    (simp add: IntegerEncoder_next_byte_def drop_bit_eq_div)

lemma run_new:
  "IntegerEncoder_run (IntegerEncoder_new i msk pre) =
     (if i < unat msk then [pre OR word_of_nat i]
      else (pre OR msk) # IntegerEncoder_run
             \<lparr>ienc_i = i - unat msk, ienc_mask = msk, ienc_pre = pre, ienc_state = Other\<rparr>)"
  by (subst IntegerEncoder_run.simps)
    (simp add: IntegerEncoder_next_byte_def IntegerEncoder_new_def)

lemma next_byte_more:
  assumes "idec_shift d = Suc s" "s < 64" "idec_index d + m * 2 ^ s < usize_limit" "m < 128"
    and "unat b = m + 128"
  shows "IntegerDecoder_next_byte d b
    = Inr (None, \<lparr>idec_index = idec_index d + m * 2 ^ s, idec_shift = Suc (s + 7)\<rparr>)"
proof -
  have "(2::nat) ^ s < usize_limit" using assms(2) by (rule pow2_less_usize)
  moreover have "2 ^ s * m < usize_limit" using assms(3) by (simp add: mult.commute)
  ultimately show ?thesis using assms
    by (simp add: IntegerDecoder_next_byte_def rust_simps algebra_simps)
qed

lemma next_byte_last:
  assumes "idec_shift d = Suc s" "s < 64" "idec_index d + m * 2 ^ s < usize_limit" "m < 128"
    and "unat b = m"
  shows "IntegerDecoder_next_byte d b
    = Inr (Some (idec_index d + m * 2 ^ s),
          \<lparr>idec_index = idec_index d + m * 2 ^ s, idec_shift = Suc (s + 7)\<rparr>)"
proof -
  have "(2::nat) ^ s < usize_limit" using assms(2) by (rule pow2_less_usize)
  moreover have "2 ^ s * m < usize_limit" using assms(3) by (simp add: mult.commute)
  ultimately show ?thesis using assms
    by (simp add: IntegerDecoder_next_byte_def rust_simps algebra_simps)
qed

lemma feed_run_Other:
  assumes "ienc_state e = Other" "idec_shift d = Suc s" "s < 64"
    and "idec_index d + ienc_i e * 2 ^ s < usize_limit"
  shows "IntegerDecoder_feed d (IntegerEncoder_run e @ rest)
    = Inr (Inr (idec_index d + ienc_i e * 2 ^ s, rest))"
  using assms
proof (induction "ienc_i e" arbitrary: e d s rule: less_induct)
  case less
  let ?i = "ienc_i e"
  show ?case
  proof (cases "128 \<le> ?i")
    case False
    have "unat (word_of_nat (?i mod 128) :: u8) = ?i"
      using False by (simp add: unat_of_nat)
    then show ?thesis using less.prems False
      by (simp add: run_Other next_byte_last [OF less.prems(2,3), of ?i])
  next
    case True
    let ?e = "e\<lparr>ienc_i := ?i div 128\<rparr>"
    let ?d = "\<lparr>idec_index = idec_index d + (?i mod 128) * 2 ^ s, idec_shift = Suc (s + 7)\<rparr>"
    have split: "(?i mod 128) * 2 ^ s + (?i div 128) * 2 ^ (s + 7) = ?i * 2 ^ s"
    proof -
      have "(?i mod 128) * 2 ^ s + (?i div 128) * 2 ^ (s + 7)
          = (?i mod 128 + 128 * (?i div 128)) * 2 ^ s"
        by (simp only: power_add algebra_simps) simp
      then show ?thesis by (simp only: mod_mult_div_eq)
    qed
    have "2 ^ (s + 7) \<le> ?i * 2 ^ s" using True by (simp add: power_add)
    then have "(2::nat) ^ (s + 7) < 2 ^ 64" using less.prems(4) by linarith
    then have s7: "s + 7 < 64" by (rule power_less_imp_less_exp [rotated]) simp
    have byte: "unat (word_of_nat (?i mod 128) OR 0x80 :: u8) = ?i mod 128 + 128"
      by (rule unat_or_80) simp
    have "idec_index d + (?i mod 128) * 2 ^ s < usize_limit"
      using less.prems(4) split by linarith
    then have nb: "IntegerDecoder_next_byte d (word_of_nat (?i mod 128) OR 0x80) = Inr (None, ?d)"
      using less.prems(2,3) byte by (intro next_byte_more) auto
    have lt: "ienc_i ?e < ?i" using True by simp
    have "IntegerDecoder_feed ?d (IntegerEncoder_run ?e @ rest)
        = Inr (Inr (idec_index ?d + ienc_i ?e * 2 ^ (s + 7), rest))"
      using less.hyps [OF lt, of ?d "s + 7"] less.prems s7 split by (simp add: add.assoc)
    then show ?thesis using True less.prems(1) nb split
      by (simp add: run_Other add.assoc)
  qed
qed

lemma first_byte_mask:
  assumes "pre AND msk = 0" "word_of_nat v AND msk = (word_of_nat v :: u8)" "v < 256"
  shows "unat ((pre OR word_of_nat v) AND msk) = v"
proof -
  have "(pre OR word_of_nat v) AND msk = (word_of_nat v :: u8)"
    using assms(1,2) by (simp add: bit.conj_disj_distrib2)
  then show ?thesis using assms(3) by (simp add: unat_of_nat)
qed

lemma and_mask_small:
  assumes "n \<le> 8" "v < 2 ^ n"
  shows "word_of_nat v AND mask n = (word_of_nat v :: u8)"
proof -
  have "take_bit n (word_of_nat v :: u8) = word_of_nat v"
    using assms by (metis of_nat_take_bit take_bit_nat_eq_self)
  then show ?thesis by (simp add: take_bit_eq_mask)
qed

lemma unat_mask_u8: "n \<le> 8 \<Longrightarrow> unat (mask n :: u8) = 2 ^ n - 1"
proof -
  assume "n \<le> 8"
  then have "(2::nat) ^ n \<le> 2 ^ 8" by (intro power_increasing) simp_all
  moreover have "unat (mask n :: u8) = mask n mod 2 ^ LENGTH(8)"
    using unat_of_nat [of "mask n", where ?'a = 8] by (simp add: of_nat_mask_eq)
  ultimately show ?thesis by (simp add: mask_eq_exp_minus_1)
qed

lemma start_run:
  assumes "i < usize_limit" "n \<le> 8" "pre AND mask n = 0"
    and "IntegerEncoder_run (IntegerEncoder_new i (mask n) pre) = b # bs"
  shows "IntegerDecoder_start (mask n) b (bs @ rest) = Inr (Inr (i, rest))"
proof (cases "i < unat (mask n :: u8)")
  case True
  then have "i < 2 ^ n" "i < 256"
    using assms(2) unat_u8_less [of "mask n"] by (simp_all add: unat_mask_u8)
  then have "unat (b AND mask n) = i" "bs = []"
    using assms True first_byte_mask [OF assms(3) and_mask_small [OF assms(2)]]
    by (simp_all add: run_new split: if_splits) auto
  then show ?thesis using True
    by (simp add: IntegerDecoder_start_def IntegerDecoder_first_byte_def word_less_nat_alt Let_def)
next
  case False
  let ?e = "\<lparr>ienc_i = i - unat (mask n :: u8), ienc_mask = mask n, ienc_pre = pre,
             ienc_state = Other\<rparr>"
  have b: "b = pre OR mask n" and bs: "bs = IntegerEncoder_run ?e"
    using assms(4) False by (simp_all add: run_new)
  have m: "b AND mask n = mask n"
    using assms(3) by (simp add: b bit.conj_disj_distrib2)
  then show ?thesis using False assms(1) feed_run_Other [of ?e "\<lparr>idec_index = unat (mask n :: u8), idec_shift = 1\<rparr>" 0 rest]
    by (simp add: IntegerDecoder_start_def IntegerDecoder_first_byte_def bs)
qed

text \<open>
  C19. Every \<open>usize\<close> value, written by the encoder with an \<open>n\<close>-bit prefix behind any pattern
  of the remaining high bits, is read back by the decoder exactly, and the decoder stops at
  the end of the representation: what follows it is left unread.
\<close>

theorem integer_roundtrip:
  assumes "i < usize_limit" "n \<le> 8" "pre AND mask n = 0"
    and "IntegerEncoder_run (IntegerEncoder_new i (mask n) pre) = b # bs"
  shows "IntegerDecoder_start (mask n) b (bs @ rest) = Inr (Inr (i, rest))"
  using assms by (rule start_run)

theorem integer_roundtrip_witness:
  "IntegerDecoder_start (mask 5) 0x3f ([0x9a, 0x0a] @ [0xff]) = Inr (Inr (1337, [0xff]))"
  by (rule integer_roundtrip [of 1337 5 "0x20" "0x3f" "[0x9a, 0x0a]" "[0xff]"])
    (simp_all add: run_new run_Other mask_eq_exp_minus_1)

end
