(* ===== verification/Hpack_Repr.thy ===== *)
theory Hpack_Repr
  imports Hpack_Integer
begin

text \<open>
  The representations of header fields and their prefixes
  (\<open>ylong_http/src/h2/hpack/representation/mod.rs\<close>).
\<close>

datatype Name = Name_Index nat | Name_Literal bytes

datatype Representation =
    Repr_Indexed nat
  | LiteralWithIndexing Name bytes
  | LiteralWithoutIndexing Name bytes
  | LiteralNeverIndexed Name bytes
  | SizeUpdate nat

datatype PrefixBit = PrefixBit (prefix_byte: u8)

definition PrefixBit_INDEXED :: PrefixBit where "PrefixBit_INDEXED = PrefixBit 0x80"
definition PrefixBit_LITERAL_WITH_INDEXING :: PrefixBit where
  "PrefixBit_LITERAL_WITH_INDEXING = PrefixBit 0x40"
definition PrefixBit_SIZE_UPDATE :: PrefixBit where "PrefixBit_SIZE_UPDATE = PrefixBit 0x20"
definition PrefixBit_LITERAL_NEVER_INDEXED :: PrefixBit where
  "PrefixBit_LITERAL_NEVER_INDEXED = PrefixBit 0x10"
definition PrefixBit_LITERAL_WITHOUT_INDEXING :: PrefixBit where
  "PrefixBit_LITERAL_WITHOUT_INDEXING = PrefixBit 0x00"

datatype PrefixIndexMask = PrefixIndexMask (mask_byte: u8)

definition PrefixIndexMask_INDEXED :: PrefixIndexMask where
  "PrefixIndexMask_INDEXED = PrefixIndexMask 0x7f"
definition PrefixIndexMask_LITERAL_WITH_INDEXING :: PrefixIndexMask where
  "PrefixIndexMask_LITERAL_WITH_INDEXING = PrefixIndexMask 0x3f"
definition PrefixIndexMask_SIZE_UPDATE :: PrefixIndexMask where
  "PrefixIndexMask_SIZE_UPDATE = PrefixIndexMask 0x1f"
definition PrefixIndexMask_LITERAL_NEVER_INDEXED :: PrefixIndexMask where
  "PrefixIndexMask_LITERAL_NEVER_INDEXED = PrefixIndexMask 0x0f"
definition PrefixIndexMask_LITERAL_WITHOUT_INDEXING :: PrefixIndexMask where
  "PrefixIndexMask_LITERAL_WITHOUT_INDEXING = PrefixIndexMask 0x0f"

lemmas prefix_consts =
  PrefixBit_INDEXED_def PrefixBit_LITERAL_WITH_INDEXING_def PrefixBit_SIZE_UPDATE_def
  PrefixBit_LITERAL_NEVER_INDEXED_def PrefixBit_LITERAL_WITHOUT_INDEXING_def
  PrefixIndexMask_INDEXED_def PrefixIndexMask_LITERAL_WITH_INDEXING_def
  PrefixIndexMask_SIZE_UPDATE_def PrefixIndexMask_LITERAL_NEVER_INDEXED_def
  PrefixIndexMask_LITERAL_WITHOUT_INDEXING_def

definition PrefixBit_from_u8 :: "u8 \<Rightarrow> PrefixBit" where
  "PrefixBit_from_u8 byte =
     (if byte \<ge> 0x80 then PrefixBit_INDEXED
      else if byte \<ge> 0x40 then PrefixBit_LITERAL_WITH_INDEXING
      else if byte \<ge> 0x20 then PrefixBit_SIZE_UPDATE
      else if byte \<ge> 0x10 then PrefixBit_LITERAL_NEVER_INDEXED
      else PrefixBit_LITERAL_WITHOUT_INDEXING)"

definition PrefixBit_prefix_index_mask :: "PrefixBit \<Rightarrow> PrefixIndexMask" where
  "PrefixBit_prefix_index_mask p =
     (if prefix_byte p = 0x80 then PrefixIndexMask_INDEXED
      else if prefix_byte p = 0x40 then PrefixIndexMask_LITERAL_WITH_INDEXING
      else if prefix_byte p = 0x20 then PrefixIndexMask_SIZE_UPDATE
      else if prefix_byte p = 0x10 then PrefixIndexMask_LITERAL_NEVER_INDEXED
      else PrefixIndexMask_LITERAL_WITHOUT_INDEXING)"

definition Representation_prefix_bit :: "Representation \<Rightarrow> PrefixBit" where
  "Representation_prefix_bit r =
     (case r of
        Repr_Indexed _ \<Rightarrow> PrefixBit_INDEXED
      | LiteralWithIndexing _ _ \<Rightarrow> PrefixBit_LITERAL_WITH_INDEXING
      | SizeUpdate _ \<Rightarrow> PrefixBit_SIZE_UPDATE
      | LiteralNeverIndexed _ _ \<Rightarrow> PrefixBit_LITERAL_NEVER_INDEXED
      | LiteralWithoutIndexing _ _ \<Rightarrow> PrefixBit_LITERAL_WITHOUT_INDEXING)"

definition Representation_prefix_index_mask :: "Representation \<Rightarrow> PrefixIndexMask" where
  "Representation_prefix_index_mask r =
     (case r of
        Repr_Indexed _ \<Rightarrow> PrefixIndexMask_INDEXED
      | LiteralWithIndexing _ _ \<Rightarrow> PrefixIndexMask_LITERAL_WITH_INDEXING
      | SizeUpdate _ \<Rightarrow> PrefixIndexMask_SIZE_UPDATE
      | LiteralNeverIndexed _ _ \<Rightarrow> PrefixIndexMask_LITERAL_NEVER_INDEXED
      | LiteralWithoutIndexing _ _ \<Rightarrow> PrefixIndexMask_LITERAL_WITHOUT_INDEXING)"

end
