(* ===== verification/Resumable.thy ===== *)
theory Resumable
  imports H2_Error
begin

text \<open>
  The two contracts behind the segmented codecs. A resumable decoder consumes what it is given
  and either returns a value and the unread rest, or a state from which it goes on as if it had
  never been interrupted. A resumable writer fills what room it is given and either reports how
  much it wrote or returns a state that stands for exactly the bytes still to come.
\<close>

section \<open>Resumable decoders\<close>

datatype ('d, 's) DecResult = Decoded 'd | NeedMore 's | DecResult_Error H2Error

text \<open>After an error the unread bytes do not matter.\<close>

definition same_result :: "('d, 's) DecResult \<times> 'b list \<Rightarrow> ('d, 's) DecResult \<times> 'b list \<Rightarrow> bool" where
  "same_result p q \<longleftrightarrow> fst p = fst q \<and> (snd p = snd q \<or> (\<exists>e. fst p = DecResult_Error e))"

lemma same_result_refl [simp]: "same_result p p"
  by (simp add: same_result_def)

lemma same_resultD:
  "same_result p (Decoded d, r) \<Longrightarrow> p = (Decoded d, r)"
  "same_result p (NeedMore s, r) \<Longrightarrow> p = (NeedMore s, r)"
  "same_result p (DecResult_Error e, r) \<Longrightarrow> fst p = DecResult_Error e"
  by (auto simp: same_result_def prod_eq_iff)

lemma same_result_trans: "same_result p q \<Longrightarrow> same_result q r \<Longrightarrow> same_result p r"
  by (cases "fst r") (auto simp: same_result_def)

text \<open>Feeding a list of segments until a value or an error comes out.\<close>

fun feed_segments ::
    "('s \<Rightarrow> 'b list \<Rightarrow> ('d, 's) DecResult \<times> 'b list) \<Rightarrow> 's \<Rightarrow> 'b list list \<Rightarrow>
     ('d, 's) DecResult \<times> 'b list" where
  "feed_segments decode s [] = (NeedMore s, [])"
| "feed_segments decode s (seg # segs) =
     (case decode s seg of
        (NeedMore s', _) \<Rightarrow> feed_segments decode s' segs
      | (r, rest) \<Rightarrow> (r, rest @ concat segs))"

locale resumable_decoder =
  fixes decode :: "'s \<Rightarrow> 'b list \<Rightarrow> ('d, 's) DecResult \<times> 'b list"
  assumes more_rest: "decode s xs = (NeedMore s', r) \<Longrightarrow> r = []"
    and more: "decode s xs = (NeedMore s', r) \<Longrightarrow> same_result (decode s (xs @ ys)) (decode s' ys)"
    and complete: "decode s xs = (Decoded d, r) \<Longrightarrow> decode s (xs @ ys) = (Decoded d, r @ ys)"
    and shrink: "decode s xs = (Decoded d, r) \<Longrightarrow> length r \<le> length xs"
    and failed: "decode s xs = (DecResult_Error e, r) \<Longrightarrow> fst (decode s (xs @ ys)) = DecResult_Error e"
begin

lemma more_again: "decode s xs = (NeedMore s', r) \<Longrightarrow> decode s' [] = (NeedMore s', [])"
  using more [of s xs s' r "[]"] more_rest [of s xs s' r]
  by (auto simp: same_result_def prod_eq_iff)

lemma feed_concat:
  assumes "decode s [] = (NeedMore s, [])"
  shows "same_result (decode s (concat segs)) (feed_segments decode s segs)"
  using assms
proof (induction segs arbitrary: s)
  case (Cons seg segs)
  obtain res r where step: "decode s seg = (res, r)" by force
  show ?case
  proof (cases res)
    case (Decoded d)
    then show ?thesis using step complete [of s seg d r "concat segs"] by simp
  next
    case (NeedMore s')
    then show ?thesis
      using step Cons.IH [of s'] more_again [of s seg s' r] more [of s seg s' r "concat segs"]
      by (auto intro: same_result_trans)
  next
    case (DecResult_Error e)
    then show ?thesis using step failed [of s seg e r "concat segs"] by (simp add: same_result_def)
  qed
qed simp

end

text \<open>
  How such decoders are built. \<open>resumes cont f\<close> says of one decoding function that it can be
  interrupted: \<open>cont\<close> continues from the states it leaves.
\<close>

definition resumes_at ::
    "('s \<Rightarrow> 'b list \<Rightarrow> ('d, 's) DecResult \<times> 'b list) \<Rightarrow> ('b list \<Rightarrow> ('d, 's) DecResult \<times> 'b list) \<Rightarrow>
     'b list \<Rightarrow> 'b list \<Rightarrow> bool" where
  "resumes_at cont f xs ys =
     (case f xs of
        (NeedMore s', r) \<Rightarrow> r = [] \<and> same_result (f (xs @ ys)) (cont s' ys)
      | (Decoded d, r) \<Rightarrow> f (xs @ ys) = (Decoded d, r @ ys) \<and> length r \<le> length xs
      | (DecResult_Error e, r) \<Rightarrow> fst (f (xs @ ys)) = DecResult_Error e)"

definition resumes ::
    "('s \<Rightarrow> 'b list \<Rightarrow> ('d, 's) DecResult \<times> 'b list) \<Rightarrow> ('b list \<Rightarrow> ('d, 's) DecResult \<times> 'b list) \<Rightarrow> bool"
  where
  "resumes cont f \<longleftrightarrow> (\<forall>xs ys. resumes_at cont f xs ys)"

lemma resumesD:
  assumes "resumes cont f"
  shows "f xs = (NeedMore s', r) \<Longrightarrow> r = [] \<and> same_result (f (xs @ ys)) (cont s' ys)"
    and "f xs = (Decoded d, r) \<Longrightarrow> f (xs @ ys) = (Decoded d, r @ ys) \<and> length r \<le> length xs"
    and "f xs = (DecResult_Error e, r) \<Longrightarrow> fst (f (xs @ ys)) = DecResult_Error e"
proof -
  have "resumes_at cont f xs ys" using assms by (simp add: resumes_def)
  then show "f xs = (NeedMore s', r) \<Longrightarrow> r = [] \<and> same_result (f (xs @ ys)) (cont s' ys)"
    and "f xs = (Decoded d, r) \<Longrightarrow> f (xs @ ys) = (Decoded d, r @ ys) \<and> length r \<le> length xs"
    and "f xs = (DecResult_Error e, r) \<Longrightarrow> fst (f (xs @ ys)) = DecResult_Error e"
    by (simp_all add: resumes_at_def)
qed

lemma resumesI: "(\<And>xs ys. resumes_at cont f xs ys) \<Longrightarrow> resumes cont f"
  by (simp add: resumes_def)

lemma resumable_decoderI:
  assumes "\<And>s. resumes decode (decode s)"
  shows "resumable_decoder decode"
  by unfold_locales (use resumesD [OF assms] in blast)+

lemma resumes_return: "resumes cont (\<lambda>buf. (Decoded d, buf))"
  by (rule resumesI) (simp add: resumes_at_def)

lemma resumes_fail: "resumes cont (\<lambda>buf. (DecResult_Error e, buf))"
  by (rule resumesI) (simp add: resumes_at_def)

text \<open>One decoder after another, and a decoder that begins with a byte.\<close>

definition dec_bind ::
    "('b list \<Rightarrow> ('a, 'i) DecResult \<times> 'b list) \<Rightarrow> ('i \<Rightarrow> 's) \<Rightarrow>
     ('a \<Rightarrow> 'b list \<Rightarrow> ('d, 's) DecResult \<times> 'b list) \<Rightarrow> 'b list \<Rightarrow> ('d, 's) DecResult \<times> 'b list" where
  "dec_bind f wrap g buf =
     (case f buf of
        (Decoded a, buf) \<Rightarrow> g a buf
      | (NeedMore i, buf) \<Rightarrow> (NeedMore (wrap i), buf)
      | (DecResult_Error e, buf) \<Rightarrow> (DecResult_Error e, buf))"

lemma same_result_bind:
  "same_result (f xs) (f' ys) \<Longrightarrow> same_result (dec_bind f wrap g xs) (dec_bind f' wrap g ys)"
  by (auto simp: dec_bind_def same_result_def split: prod.splits DecResult.splits)

lemma resumes_bind:
  assumes f: "resumes c f" and g: "\<And>a. resumes cont (g a)"
    and wrap: "\<And>i. cont (wrap i) = dec_bind (c i) wrap g"
  shows "resumes cont (dec_bind f wrap g)"
proof -
  have "resumes_at cont (dec_bind f wrap g) xs ys" for xs ys
  proof -
    obtain res r where fx: "f xs = (res, r)" by force
    show ?thesis
    proof (cases res)
      case (Decoded a)
      have fxy: "f (xs @ ys) = (Decoded a, r @ ys)" and len: "length r \<le> length xs"
        using resumesD(2) [OF f, of xs a r ys] fx Decoded by simp_all
      have "resumes_at cont (g a) r ys" using g [of a] by (simp add: resumes_def)
      then show ?thesis using fx fxy Decoded len
        by (auto simp: dec_bind_def resumes_at_def split: prod.splits DecResult.splits)
    next
      case (NeedMore i)
      then have "r = []" "same_result (f (xs @ ys)) (c i ys)"
        using fx resumesD(1) [OF f, of xs i r ys] by simp_all
      moreover have "dec_bind f wrap g xs = (NeedMore (wrap i), r)"
        using fx NeedMore by (simp add: dec_bind_def)
      ultimately show ?thesis by (simp add: resumes_at_def wrap same_result_bind)
    next
      case (DecResult_Error e)
      then show ?thesis using fx resumesD(3) [OF f, of xs e r ys]
        by (auto simp: resumes_at_def dec_bind_def split: prod.splits)
    qed
  qed
  then show ?thesis by (rule resumesI)
qed

lemma resumes_at_Cons:
  assumes "\<And>bs. f (b # bs) = g bs" and "resumes_at cont g xs ys"
  shows "resumes_at cont f (b # xs) ys"
  using assms(2) by (auto simp: resumes_at_def assms(1) split: prod.splits DecResult.splits)

lemma resumes_byte:
  assumes "\<And>b. resumes cont (g b)" and "cont s = f"
    and "\<And>buf. f buf = (case buf of [] \<Rightarrow> (NeedMore s, []) | b # bs \<Rightarrow> g b bs)"
  shows "resumes cont f"
proof -
  have "resumes_at cont f xs ys" for xs ys
  proof (cases xs)
    case Nil
    then show ?thesis using assms(2) by (simp add: resumes_at_def assms(3))
  next
    case (Cons b bs)
    have "resumes_at cont (g b) bs ys" using assms(1) [of b] by (simp add: resumes_def)
    then show ?thesis by (auto simp: Cons resumes_at_def assms(3) split: prod.splits DecResult.splits)
  qed
  then show ?thesis by (rule resumesI)
qed

section \<open>Resumable writers\<close>

text \<open>
  \<open>encode s n\<close> writes into a buffer of length \<open>n\<close>: the bytes it writes from the start of the
  buffer, and \<open>Ok\<close> their number when it is finished or \<open>Err\<close> the state to resume from.
\<close>

type_synonym 's writer = "'s \<Rightarrow> nat \<Rightarrow> bytes \<times> (nat, 's) rust_result"

text \<open>Offering a list of buffers, one after the other.\<close>

fun write_segments :: "'s writer \<Rightarrow> 's \<Rightarrow> nat list \<Rightarrow> bytes list \<times> 's option" where
  "write_segments encode s [] = ([], Some s)"
| "write_segments encode s (n # ns) =
     (case encode s n of
        (w, Err s') \<Rightarrow> (case write_segments encode s' ns of (ws, r) \<Rightarrow> (w # ws, r))
      | (w, _) \<Rightarrow> ([w], None))"

locale resumable_writer =
  fixes encode :: "'s writer"
    and pending_output :: "'s \<Rightarrow> bytes"
  assumes finishes: "length (pending_output s) \<le> n \<Longrightarrow>
      encode s n = (pending_output s, Ok (length (pending_output s)))"
    and suspends: "n < length (pending_output s) \<Longrightarrow>
      \<exists>s'. encode s n = (take n (pending_output s), Err s') \<and>
        pending_output s' = drop n (pending_output s)"
begin

lemma encode_cases:
  obtains (finished) "length (pending_output s) \<le> n"
      "encode s n = (pending_output s, Ok (length (pending_output s)))"
  | (suspended) s' where "n < length (pending_output s)"
      "encode s n = (take n (pending_output s), Err s')"
      "pending_output s' = drop n (pending_output s)"
  using finishes [of s n] suspends [of n s]
  by (cases "length (pending_output s) \<le> n") (auto simp: not_le)

lemma encode_ok: "encode s n = (w, Ok k) \<Longrightarrow> w = pending_output s \<and> k = length w \<and> k \<le> n"
  by (rule encode_cases [of s n]) auto

lemma encode_err:
  "encode s n = (w, Err s') \<Longrightarrow>
   pending_output s = w @ pending_output s' \<and> length w = n \<and> pending_output s' \<noteq> []"
  by (rule encode_cases [of s n]) auto

lemma encode_not_Panic: "encode s n \<noteq> (w, Panic)"
  by (rule encode_cases [of s n]) auto

lemma segments_prefix:
  "write_segments encode s ns = (ws, r) \<Longrightarrow>
   pending_output s = concat ws @ (case r of None \<Rightarrow> [] | Some s' \<Rightarrow> pending_output s')"
proof (induction ns arbitrary: s ws)
  case (Cons n ns)
  show ?case
  proof (rule encode_cases [of s n])
    assume "encode s n = (pending_output s, Ok (length (pending_output s)))"
    then show ?thesis using Cons.prems by auto
  next
    fix s' assume "encode s n = (take n (pending_output s), Err s')"
      "pending_output s' = drop n (pending_output s)"
    then show ?thesis using Cons.prems Cons.IH [of s'] append_take_drop_id [of n "pending_output s"]
      by (auto split: prod.splits simp del: append_take_drop_id)
  qed
qed auto

lemma segments_finish:
  "length (pending_output s) \<le> sum_list ns \<Longrightarrow> ns \<noteq> [] \<Longrightarrow> snd (write_segments encode s ns) = None"
proof (induction ns arbitrary: s)
  case (Cons n ns)
  show ?case
  proof (rule encode_cases [of s n])
    assume "encode s n = (pending_output s, Ok (length (pending_output s)))"
    then show ?thesis by simp
  next
    fix s' assume s: "n < length (pending_output s)" "encode s n = (take n (pending_output s), Err s')"
      "pending_output s' = drop n (pending_output s)"
    then have "ns \<noteq> []" using Cons.prems(1) by auto
    then show ?thesis using s Cons.prems(1) Cons.IH [of s'] by (auto split: prod.splits)
  qed
qed simp

end

end
