(* ===== verification/Huffman.thy ===== *)
theory Huffman
  imports Huffman_Tables
begin

text \<open>
  The Huffman string coder shared by HPACK and QPACK
  (\<open>ylong_http/src/huffman/mod.rs\<close>): an encoder that shifts codes into a 64-bit
  accumulator and a decoder that walks a transition table nibble by nibble, at one go or in
  segments.
\<close>

section \<open>Encoder\<close>

definition to_be_bytes :: "u64 \<Rightarrow> bytes" where
  "to_be_bytes w = map (\<lambda>i. ucast (drop_bit (8 * (7 - i)) w)) [0..<8]"

definition huffman_encode_byte :: "u64 \<times> nat \<times> bytes \<Rightarrow> u8 \<Rightarrow> u64 \<times> nat \<times> bytes" where
  "huffman_encode_byte acc byte =
     (case acc of (state, unfilled, dst) \<Rightarrow>
      case HUFFMAN_ENCODE ! unat byte of (nb, code) \<Rightarrow>
        let nbits = unat nb
        in if nbits < unfilled
           then (state OR push_bit (unfilled - nbits) code, unfilled - nbits, dst)
           else if unfilled = nbits
           then (0, 64, dst @ to_be_bytes (state OR code))
           else
             let rotate = word_rotr (nbits - unfilled) code;
                 msk = drop_bit (64 - unfilled) (- 1)
             in (rotate AND NOT msk, 64 - (nbits - unfilled),
                 dst @ to_be_bytes (state OR (rotate AND msk))))"

definition huffman_encode :: "bytes \<Rightarrow> bytes \<Rightarrow> bytes" where
  "huffman_encode src dst =
     (case foldl huffman_encode_byte (0, 64, dst) src of (state, unfilled, dst) \<Rightarrow>
        if unfilled \<noteq> 64
        then dst @ take (8 - drop_bit 3 unfilled)
                     (to_be_bytes (state OR drop_bit (64 - unfilled) (- 1)))
        else dst)"

section \<open>Decoder\<close>

datatype HuffmanDecodeError = InvalidHuffmanCode

definition huffman_decode_nibble ::
    "nat \<Rightarrow> bytes \<Rightarrow> u8 \<Rightarrow> ((u8 \<times> u8) \<times> bytes, HuffmanDecodeError) rust_result" where
  "huffman_decode_nibble nib dst state =
     (case HUFFMAN_DECODE ! unat state ! nib of (state, result, flags) \<Rightarrow>
        if flags AND 0x4 = 0x4 then Err InvalidHuffmanCode
        else if flags AND 0x2 = 0x2 then Ok ((state, flags), dst @ [result])
        else Ok ((state, flags), dst))"

fun huffman_decode_inner ::
    "bytes \<Rightarrow> bytes \<Rightarrow> u8 \<Rightarrow> u8 \<Rightarrow> ((u8 \<times> u8) \<times> bytes, HuffmanDecodeError) rust_result" where
  "huffman_decode_inner [] dst state flags = Ok ((state, flags), dst)"
| "huffman_decode_inner (byte # src) dst state flags =
     (let left = drop_bit 4 byte; right = byte AND 0xf
      in case huffman_decode_nibble (unat left) dst state of
           Ok ((state, flags), dst) \<Rightarrow>
             (case huffman_decode_nibble (unat right) dst state of
                Ok ((state, flags), dst) \<Rightarrow> huffman_decode_inner src dst state flags
              | Err e \<Rightarrow> Err e
              | Panic \<Rightarrow> Panic)
         | Err e \<Rightarrow> Err e
         | Panic \<Rightarrow> Panic)"

definition huffman_decode :: "bytes \<Rightarrow> bytes \<Rightarrow> (bytes, HuffmanDecodeError) rust_result" where
  "huffman_decode src dst =
     (case huffman_decode_inner src dst 0 0 of
        Ok ((state, flags), dst) \<Rightarrow>
          if state \<noteq> 0 \<and> flags AND 0x1 = 0 then Err InvalidHuffmanCode else Ok dst
      | Err e \<Rightarrow> Err e
      | Panic \<Rightarrow> Panic)"

record HuffmanDecoder =
  hd_state :: u8
  hd_flags :: u8
  hd_vec :: bytes

definition HuffmanDecoder_new :: HuffmanDecoder where
  "HuffmanDecoder_new = \<lparr>hd_state = 0, hd_flags = 0, hd_vec = []\<rparr>"

definition HuffmanDecoder_decode ::
    "HuffmanDecoder \<Rightarrow> bytes \<Rightarrow> (HuffmanDecoder, HuffmanDecodeError) rust_result" where
  "HuffmanDecoder_decode h src =
     (case huffman_decode_inner src (hd_vec h) (hd_state h) (hd_flags h) of
        Ok ((state, flags), vec) \<Rightarrow> Ok \<lparr>hd_state = state, hd_flags = flags, hd_vec = vec\<rparr>
      | Err e \<Rightarrow> Err e
      | Panic \<Rightarrow> Panic)"

definition HuffmanDecoder_finish ::
    "HuffmanDecoder \<Rightarrow> (bytes, HuffmanDecodeError) rust_result" where
  "HuffmanDecoder_finish h =
     (if hd_state h \<noteq> 0 \<and> hd_flags h AND 0x1 = 0 then Err InvalidHuffmanCode
      else Ok (hd_vec h))"

end
