(* ===== verification/Huffman_Check.thy ===== *)
theory Huffman_Check
  imports Huffman
begin

text \<open>
  Verification of the tables by evaluation in the kernel. Each decoder state stands for the
  bits of a code read so far (\<open>STATE_BITS\<close>, a length and a value); every one of the 4096
  transitions is checked against the codes of \<open>HUFFMAN_ENCODE\<close>: reading a nibble either
  completes the code of the decoded byte and leaves the bits of the next state, or only extends
  the bits, or hits the end-of-string code and raises the error flag; and the flag that allows
  the string to end is set exactly for fewer than eight one-bits. \<open>CODE_ORDER\<close> lists the
  symbols by code, which shows that no code is a prefix of another.
\<close>

section \<open>The codes as lengths and values\<close>

definition CODE_BITS :: "(nat \<times> nat) list" where
  "CODE_BITS = map (\<lambda>(n, c). (unat n, unat c)) HUFFMAN_ENCODE"

lemma CODE_BITS_eq: "CODE_BITS = [
     (13, 8184), (23, 8388568), (28, 268435426), (28, 268435427), (28, 268435428), (28, 268435429),
     (28, 268435430), (28, 268435431), (28, 268435432), (24, 16777194), (30, 1073741820), (28, 268435433),
     (28, 268435434), (30, 1073741821), (28, 268435435), (28, 268435436), (28, 268435437), (28, 268435438),
     (28, 268435439), (28, 268435440), (28, 268435441), (28, 268435442), (30, 1073741822), (28, 268435443),
     (28, 268435444), (28, 268435445), (28, 268435446), (28, 268435447), (28, 268435448), (28, 268435449),
     (28, 268435450), (28, 268435451), (6, 20), (10, 1016), (10, 1017), (12, 4090),
     (13, 8185), (6, 21), (8, 248), (11, 2042), (10, 1018), (10, 1019),
     (8, 249), (11, 2043), (8, 250), (6, 22), (6, 23), (6, 24),
     (5, 0), (5, Suc 0), (5, 2), (6, 25), (6, 26), (6, 27),
     (6, 28), (6, 29), (6, 30), (6, 31), (7, 92), (8, 251),
     (15, 32764), (6, 32), (12, 4091), (10, 1020), (13, 8186), (6, 33),
     (7, 93), (7, 94), (7, 95), (7, 96), (7, 97), (7, 98),
     (7, 99), (7, 100), (7, 101), (7, 102), (7, 103), (7, 104),
     (7, 105), (7, 106), (7, 107), (7, 108), (7, 109), (7, 110),
     (7, 111), (7, 112), (7, 113), (7, 114), (8, 252), (7, 115),
     (8, 253), (13, 8187), (19, 524272), (13, 8188), (14, 16380), (6, 34),
     (15, 32765), (5, 3), (6, 35), (5, 4), (6, 36), (5, 5),
     (6, 37), (6, 38), (6, 39), (5, 6), (7, 116), (7, 117),
     (6, 40), (6, 41), (6, 42), (5, 7), (6, 43), (7, 118),
     (6, 44), (5, 8), (5, 9), (6, 45), (7, 119), (7, 120),
     (7, 121), (7, 122), (7, 123), (15, 32766), (11, 2044), (14, 16381),
     (13, 8189), (28, 268435452), (20, 1048550), (22, 4194258), (20, 1048551), (20, 1048552),
     (22, 4194259), (22, 4194260), (22, 4194261), (23, 8388569), (22, 4194262), (23, 8388570),
     (23, 8388571), (23, 8388572), (23, 8388573), (23, 8388574), (24, 16777195), (23, 8388575),
     (24, 16777196), (24, 16777197), (22, 4194263), (23, 8388576), (24, 16777198), (23, 8388577),
     (23, 8388578), (23, 8388579), (23, 8388580), (21, 2097116), (22, 4194264), (23, 8388581),
     (22, 4194265), (23, 8388582), (23, 8388583), (24, 16777199), (22, 4194266), (21, 2097117),
     (20, 1048553), (22, 4194267), (22, 4194268), (23, 8388584), (23, 8388585), (21, 2097118),
     (23, 8388586), (22, 4194269), (22, 4194270), (24, 16777200), (21, 2097119), (22, 4194271),
     (23, 8388587), (23, 8388588), (21, 2097120), (21, 2097121), (22, 4194272), (21, 2097122),
     (23, 8388589), (22, 4194273), (23, 8388590), (23, 8388591), (20, 1048554), (22, 4194274),
     (22, 4194275), (22, 4194276), (23, 8388592), (22, 4194277), (22, 4194278), (23, 8388593),
     (26, 67108832), (26, 67108833), (20, 1048555), (19, 524273), (22, 4194279), (23, 8388594),
     (22, 4194280), (25, 33554412), (26, 67108834), (26, 67108835), (26, 67108836), (27, 134217694),
     (27, 134217695), (26, 67108837), (24, 16777201), (25, 33554413), (19, 524274), (21, 2097123),
     (26, 67108838), (27, 134217696), (27, 134217697), (26, 67108839), (27, 134217698), (24, 16777202),
     (21, 2097124), (21, 2097125), (26, 67108840), (26, 67108841), (28, 268435453), (27, 134217699),
     (27, 134217700), (27, 134217701), (20, 1048556), (24, 16777203), (20, 1048557), (21, 2097126),
     (22, 4194281), (21, 2097127), (21, 2097128), (23, 8388595), (22, 4194282), (22, 4194283),
     (25, 33554414), (25, 33554415), (24, 16777204), (24, 16777205), (26, 67108842), (23, 8388596),
     (26, 67108843), (27, 134217702), (26, 67108844), (26, 67108845), (27, 134217703), (27, 134217704),
     (27, 134217705), (27, 134217706), (27, 134217707), (28, 268435454), (27, 134217708), (27, 134217709),
     (27, 134217710), (27, 134217711), (27, 134217712), (26, 67108846), (30, 1073741823)]"
  by (simp add: CODE_BITS_def HUFFMAN_ENCODE_def)

definition STATE_BITS :: "(nat \<times> nat) list" where
  "STATE_BITS = [
     (0, 0), (Suc 0, 0), (2, 0), (3, 0), (4, 0), (4, Suc 0),
     (3, Suc 0), (4, 2), (4, 3), (2, Suc 0), (3, 2), (4, 4),
     (4, 5), (5, 10), (5, 11), (3, 3), (4, 6), (5, 12),
     (5, 13), (4, 7), (5, 14), (5, 15), (Suc 0, Suc 0), (2, 2),
     (3, 4), (4, 8), (5, 16), (5, 17), (4, 9), (5, 18),
     (5, 19), (3, 5), (4, 10), (5, 20), (5, 21), (4, 11),
     (5, 22), (5, 23), (6, 46), (6, 47), (2, 3), (3, 6),
     (4, 12), (5, 24), (6, 48), (6, 49), (5, 25), (6, 50),
     (6, 51), (4, 13), (5, 26), (6, 52), (6, 53), (5, 27),
     (6, 54), (6, 55), (3, 7), (4, 14), (5, 28), (6, 56),
     (6, 57), (5, 29), (6, 58), (6, 59), (4, 15), (5, 30),
     (6, 60), (6, 61), (5, 31), (6, 62), (7, 124), (7, 125),
     (6, 63), (7, 126), (7, 127), (8, 254), (9, 508), (9, 509),
     (8, 255), (9, 510), (10, 1021), (9, 511), (10, 1022), (11, 2045),
     (10, 1023), (11, 2046), (12, 4092), (12, 4093), (11, 2047), (12, 4094),
     (12, 4095), (13, 8190), (13, 8191), (14, 16382), (14, 16383), (15, 32767),
     (16, 65534), (17, 131068), (18, 262136), (18, 262137), (19, 524275), (17, 131069),
     (18, 262138), (19, 524276), (19, 524277), (18, 262139), (19, 524278), (19, 524279),
     (20, 1048558), (20, 1048559), (16, 65535), (17, 131070), (18, 262140), (19, 524280),
     (20, 1048560), (20, 1048561), (19, 524281), (20, 1048562), (20, 1048563), (18, 262141),
     (19, 524282), (20, 1048564), (21, 2097129), (20, 1048565), (21, 2097130), (21, 2097131),
     (19, 524283), (20, 1048566), (21, 2097132), (21, 2097133), (20, 1048567), (21, 2097134),
     (21, 2097135), (17, 131071), (18, 262142), (19, 524284), (20, 1048568), (21, 2097136),
     (21, 2097137), (20, 1048569), (21, 2097138), (21, 2097139), (19, 524285), (20, 1048570),
     (21, 2097140), (21, 2097141), (20, 1048571), (21, 2097142), (22, 4194284), (22, 4194285),
     (21, 2097143), (22, 4194286), (22, 4194287), (18, 262143), (19, 524286), (20, 1048572),
     (21, 2097144), (22, 4194288), (22, 4194289), (21, 2097145), (22, 4194290), (22, 4194291),
     (20, 1048573), (21, 2097146), (22, 4194292), (22, 4194293), (21, 2097147), (22, 4194294),
     (22, 4194295), (19, 524287), (20, 1048574), (21, 2097148), (22, 4194296), (22, 4194297),
     (21, 2097149), (22, 4194298), (23, 8388597), (22, 4194299), (23, 8388598), (23, 8388599),
     (20, 1048575), (21, 2097150), (22, 4194300), (23, 8388600), (23, 8388601), (22, 4194301),
     (23, 8388602), (23, 8388603), (24, 16777206), (24, 16777207), (21, 2097151), (22, 4194302),
     (23, 8388604), (24, 16777208), (25, 33554416), (25, 33554417), (24, 16777209), (25, 33554418),
     (25, 33554419), (23, 8388605), (24, 16777210), (25, 33554420), (25, 33554421), (24, 16777211),
     (25, 33554422), (25, 33554423), (26, 67108847), (22, 4194303), (23, 8388606), (24, 16777212),
     (25, 33554424), (26, 67108848), (26, 67108849), (25, 33554425), (26, 67108850), (26, 67108851),
     (24, 16777213), (25, 33554426), (26, 67108852), (26, 67108853), (25, 33554427), (26, 67108854),
     (26, 67108855), (23, 8388607), (24, 16777214), (25, 33554428), (26, 67108856), (27, 134217713),
     (26, 67108857), (27, 134217714), (27, 134217715), (25, 33554429), (26, 67108858), (27, 134217716),
     (27, 134217717), (26, 67108859), (27, 134217718), (27, 134217719), (24, 16777215), (25, 33554430),
     (26, 67108860), (27, 134217720), (27, 134217721), (26, 67108861), (27, 134217722), (27, 134217723),
     (25, 33554431), (26, 67108862), (27, 134217724), (27, 134217725), (26, 67108863), (27, 134217726),
     (27, 134217727), (28, 268435455), (29, 536870910), (29, 536870911)]"

text \<open>For each state, a symbol whose code properly extends the bits of the state.\<close>

definition STATE_EXT :: "nat list" where
  "STATE_EXT = [
     0, 32, 48, 48, 48, 50, 99, 99, 105, 32, 32, 115, 32, 32, 45, 47,
     47, 47, 52, 54, 54, 56, 0, 58, 61, 61, 61, 95, 100, 100, 103, 58,
     108, 108, 110, 58, 114, 58, 58, 67, 0, 69, 69, 69, 69, 71, 73, 73,
     75, 77, 77, 77, 79, 81, 81, 83, 0, 85, 85, 85, 87, 106, 106, 113,
     0, 119, 119, 121, 0, 38, 38, 44, 0, 88, 0, 33, 33, 40, 0, 39,
     39, 0, 35, 35, 0, 0, 0, 64, Suc 0, 93, Suc 0, 94, Suc 0, 60, Suc 0, Suc 0,
     92, 92, 92, 128, 128, 131, 131, 131, 184, 153, 224, 153, 153, 167, Suc 0, 129,
     176, 176, 176, 179, 216, 216, 227, 129, 129, 129, 129, 133, 133, 136, 154, 154,
     154, 160, 164, 164, 170, Suc 0, Suc 0, 178, 178, 178, 185, 187, 187, 190, Suc 0, 198,
     198, 232, Suc 0, Suc 0, Suc 0, 137, 139, 139, 141, 2, 147, 147, 147, 147, 150, 152,
     152, 157, 165, 165, 165, 168, 175, 175, 182, 2, 9, 188, 188, 197, 9, 9,
     9, 144, 144, 148, 2, 171, 171, 171, 215, 199, 236, 199, 199, 234, 2, 192,
     192, 192, 192, 200, 202, 202, 210, 203, 218, 218, 238, 203, 242, 203, 203, 2,
     211, 211, 211, 211, 214, 222, 222, 241, 245, 245, 245, 247, 250, 250, 252, 2,
     2, 2, 2, 2, 4, 4, 6, 8, 8, 8, 12, 15, 15, 17, 10, 19,
     19, 19, 21, 24, 24, 26, 10, 28, 28, 30, 10, 127, 10, 10, 10, 22]"

definition CODE_ORDER :: "nat list" where
  "CODE_ORDER = [
     48, 49, 50, 97, 99, 101, 105, 111, 115, 116, 32, 37, 45, 46, 47, 51,
     52, 53, 54, 55, 56, 57, 61, 65, 95, 98, 100, 102, 103, 104, 108, 109,
     110, 112, 114, 117, 58, 66, 67, 68, 69, 70, 71, 72, 73, 74, 75, 76,
     77, 78, 79, 80, 81, 82, 83, 84, 85, 86, 87, 89, 106, 107, 113, 118,
     119, 120, 121, 122, 38, 42, 44, 59, 88, 90, 33, 34, 40, 41, 63, 39,
     43, 124, 35, 62, 0, 36, 64, 91, 93, 126, 94, 125, 60, 96, 123, 92,
     195, 208, 128, 130, 131, 162, 184, 194, 224, 226, 153, 161, 167, 172, 176, 177,
     179, 209, 216, 217, 227, 229, 230, 129, 132, 133, 134, 136, 146, 154, 156, 160,
     163, 164, 169, 170, 173, 178, 181, 185, 186, 187, 189, 190, 196, 198, 228, 232,
     233, Suc 0, 135, 137, 138, 139, 140, 141, 143, 147, 149, 150, 151, 152, 155, 157,
     158, 165, 166, 168, 174, 175, 180, 182, 183, 188, 191, 197, 231, 239, 9, 142,
     144, 145, 148, 159, 171, 206, 215, 225, 236, 237, 199, 207, 234, 235, 192, 193,
     200, 201, 202, 205, 210, 213, 218, 219, 238, 240, 242, 243, 255, 203, 204, 211,
     212, 214, 221, 222, 223, 241, 244, 245, 246, 247, 248, 250, 251, 252, 253, 254,
     2, 3, 4, 5, 6, 7, 8, 11, 12, 14, 15, 16, 17, 18, 19, 20,
     21, 23, 24, 25, 26, 27, 28, 29, 30, 31, 127, 220, 249, 10, 13, 22,
     256]"

section \<open>Lookup rules\<close>

lemma map_nth_upto: "length xs = n \<Longrightarrow> map ((!) xs) [0..<n] = xs"
  by (metis map_nth)

lemma length_CODE_BITS: "length CODE_BITS = 257"
  by (simp add: CODE_BITS_eq)

lemma length_STATE_BITS: "length STATE_BITS = 256"
  by (simp add: STATE_BITS_def)

lemma length_HUFFMAN_ENCODE: "length HUFFMAN_ENCODE = 257"
  using length_CODE_BITS by (simp add: CODE_BITS_def)

lemma upt_256: "[0..<256] = [
     0, Suc 0, 2, 3, 4, 5, 6, 7, 8, 9, 10, 11, 12, 13, 14, 15,
     16, 17, 18, 19, 20, 21, 22, 23, 24, 25, 26, 27, 28, 29, 30, 31,
     32, 33, 34, 35, 36, 37, 38, 39, 40, 41, 42, 43, 44, 45, 46, 47,
     48, 49, 50, 51, 52, 53, 54, 55, 56, 57, 58, 59, 60, 61, 62, 63,
     64, 65, 66, 67, 68, 69, 70, 71, 72, 73, 74, 75, 76, 77, 78, 79,
     80, 81, 82, 83, 84, 85, 86, 87, 88, 89, 90, 91, 92, 93, 94, 95,
     96, 97, 98, 99, 100, 101, 102, 103, 104, 105, 106, 107, 108, 109, 110, 111,
     112, 113, 114, 115, 116, 117, 118, 119, 120, 121, 122, 123, 124, 125, 126, 127,
     128, 129, 130, 131, 132, 133, 134, 135, 136, 137, 138, 139, 140, 141, 142, 143,
     144, 145, 146, 147, 148, 149, 150, 151, 152, 153, 154, 155, 156, 157, 158, 159,
     160, 161, 162, 163, 164, 165, 166, 167, 168, 169, 170, 171, 172, 173, 174, 175,
     176, 177, 178, 179, 180, 181, 182, 183, 184, 185, 186, 187, 188, 189, 190, 191,
     192, 193, 194, 195, 196, 197, 198, 199, 200, 201, 202, 203, 204, 205, 206, 207,
     208, 209, 210, 211, 212, 213, 214, 215, 216, 217, 218, 219, 220, 221, 222, 223,
     224, 225, 226, 227, 228, 229, 230, 231, 232, 233, 234, 235, 236, 237, 238, 239,
     240, 241, 242, 243, 244, 245, 246, 247, 248, 249, 250, 251, 252, 253, 254, 255]"
  by (simp add: upt_conv_Cons)

lemma upt_257: "[0..<257] = [
     0, Suc 0, 2, 3, 4, 5, 6, 7, 8, 9, 10, 11, 12, 13, 14, 15,
     16, 17, 18, 19, 20, 21, 22, 23, 24, 25, 26, 27, 28, 29, 30, 31,
     32, 33, 34, 35, 36, 37, 38, 39, 40, 41, 42, 43, 44, 45, 46, 47,
     48, 49, 50, 51, 52, 53, 54, 55, 56, 57, 58, 59, 60, 61, 62, 63,
     64, 65, 66, 67, 68, 69, 70, 71, 72, 73, 74, 75, 76, 77, 78, 79,
     80, 81, 82, 83, 84, 85, 86, 87, 88, 89, 90, 91, 92, 93, 94, 95,
     96, 97, 98, 99, 100, 101, 102, 103, 104, 105, 106, 107, 108, 109, 110, 111,
     112, 113, 114, 115, 116, 117, 118, 119, 120, 121, 122, 123, 124, 125, 126, 127,
     128, 129, 130, 131, 132, 133, 134, 135, 136, 137, 138, 139, 140, 141, 142, 143,
     144, 145, 146, 147, 148, 149, 150, 151, 152, 153, 154, 155, 156, 157, 158, 159,
     160, 161, 162, 163, 164, 165, 166, 167, 168, 169, 170, 171, 172, 173, 174, 175,
     176, 177, 178, 179, 180, 181, 182, 183, 184, 185, 186, 187, 188, 189, 190, 191,
     192, 193, 194, 195, 196, 197, 198, 199, 200, 201, 202, 203, 204, 205, 206, 207,
     208, 209, 210, 211, 212, 213, 214, 215, 216, 217, 218, 219, 220, 221, 222, 223,
     224, 225, 226, 227, 228, 229, 230, 231, 232, 233, 234, 235, 236, 237, 238, 239,
     240, 241, 242, 243, 244, 245, 246, 247, 248, 249, 250, 251, 252, 253, 254, 255,
     256]"
  by (simp add: upt_conv_Cons)

lemmas STATE_BITS_nth =
  trans [OF map_nth_upto [OF length_STATE_BITS] STATE_BITS_def,
    simplified upt_256 list.map list.inject]

lemmas CODE_BITS_nth =
  trans [OF map_nth_upto [OF length_CODE_BITS] CODE_BITS_eq,
    simplified upt_257 list.map list.inject]

section \<open>Checks\<close>

definition entry_ok :: "nat \<times> nat \<Rightarrow> nat \<Rightarrow> u8 \<times> u8 \<times> u8 \<Rightarrow> bool" where
  "entry_ok p n e = (case p of (l, v) \<Rightarrow> case e of (s, b, f) \<Rightarrow>
     if f AND 4 = 4 then 26 \<le> l \<and> (v * 16 + n) div 2 ^ (l + 4 - 30) = 2 ^ 30 - 1
     else case STATE_BITS ! unat s of (l', v') \<Rightarrow>
       (if f AND 2 = 2
        then case CODE_BITS ! unat b of (cl, cv) \<Rightarrow>
               l + 4 = cl + l' \<and> v * 16 + n = cv * 2 ^ l' + v'
        else l + 4 = l' \<and> v * 16 + n = v') \<and>
       (s = 0 \<or> (f AND 1 = 1) = (l' < 8 \<and> v' = 2 ^ l' - 1)))"

definition row_ok :: "nat \<times> nat \<Rightarrow> (u8 \<times> u8 \<times> u8) list \<Rightarrow> bool" where
  "row_ok p row = list_all2 (entry_ok p) [0, 1, 2, 3, 4, 5, 6, 7, 8, 9, 10, 11, 12, 13, 14, 15] row"

definition ext_ok :: "nat \<times> nat \<Rightarrow> nat \<Rightarrow> bool" where
  "ext_ok p x = (case p of (l, v) \<Rightarrow> case CODE_BITS ! x of (cl, cv) \<Rightarrow>
     l < cl \<and> x \<le> 256 \<and> v = cv div 2 ^ (cl - l))"

definition code_ok :: "nat \<times> nat \<Rightarrow> bool" where
  "code_ok p = (case p of (l, v) \<Rightarrow> 5 \<le> l \<and> l \<le> 30 \<and> v < 2 ^ l)"

fun chain_ok :: "nat \<Rightarrow> nat list \<Rightarrow> bool" where
  "chain_ok h [] = True"
| "chain_ok h (x # xs) =
     (case CODE_BITS ! x of (l, v) \<Rightarrow>
        h \<le> v * 2 ^ (30 - l) \<and> chain_ok ((v + 1) * 2 ^ (30 - l)) xs)"

text \<open>The blocks of the table, each against its part of \<open>STATE_BITS\<close>.\<close>

definition state_block :: "nat \<Rightarrow> (nat \<times> nat) list" where
  "state_block k = take 16 (drop (16 * k) STATE_BITS)"

lemmas state_blocks =
  state_block_def [of 0, unfolded STATE_BITS_def, simplified]
  state_block_def [of 1, unfolded STATE_BITS_def, simplified]
  state_block_def [of 2, unfolded STATE_BITS_def, simplified]
  state_block_def [of 3, unfolded STATE_BITS_def, simplified]
  state_block_def [of 4, unfolded STATE_BITS_def, simplified]
  state_block_def [of 5, unfolded STATE_BITS_def, simplified]
  state_block_def [of 6, unfolded STATE_BITS_def, simplified]
  state_block_def [of 7, unfolded STATE_BITS_def, simplified]
  state_block_def [of 8, unfolded STATE_BITS_def, simplified]
  state_block_def [of 9, unfolded STATE_BITS_def, simplified]
  state_block_def [of 10, unfolded STATE_BITS_def, simplified]
  state_block_def [of 11, unfolded STATE_BITS_def, simplified]
  state_block_def [of 12, unfolded STATE_BITS_def, simplified]
  state_block_def [of 13, unfolded STATE_BITS_def, simplified]
  state_block_def [of 14, unfolded STATE_BITS_def, simplified]
  state_block_def [of 15, unfolded STATE_BITS_def, simplified]

lemmas entry_eval = entry_ok_def STATE_BITS_nth CODE_BITS_nth

lemma block_00: "list_all2 row_ok (state_block 0) HUFFMAN_DECODE_00"
  by (simp add: state_blocks HUFFMAN_DECODE_00_def, simp add: row_ok_def, simp add: entry_eval)

lemma block_10: "list_all2 row_ok (state_block 1) HUFFMAN_DECODE_10"
  by (simp add: state_blocks HUFFMAN_DECODE_10_def, simp add: row_ok_def, simp add: entry_eval)

lemma block_20: "list_all2 row_ok (state_block 2) HUFFMAN_DECODE_20"
  by (simp add: state_blocks HUFFMAN_DECODE_20_def, simp add: row_ok_def, simp add: entry_eval)

lemma block_30: "list_all2 row_ok (state_block 3) HUFFMAN_DECODE_30"
  by (simp add: state_blocks HUFFMAN_DECODE_30_def, simp add: row_ok_def, simp add: entry_eval)

lemma block_40: "list_all2 row_ok (state_block 4) HUFFMAN_DECODE_40"
  by (simp add: state_blocks HUFFMAN_DECODE_40_def, simp add: row_ok_def, simp add: entry_eval)

lemma block_50: "list_all2 row_ok (state_block 5) HUFFMAN_DECODE_50"
  by (simp add: state_blocks HUFFMAN_DECODE_50_def, simp add: row_ok_def, simp add: entry_eval)

lemma block_60: "list_all2 row_ok (state_block 6) HUFFMAN_DECODE_60"
  by (simp add: state_blocks HUFFMAN_DECODE_60_def, simp add: row_ok_def, simp add: entry_eval)

lemma block_70: "list_all2 row_ok (state_block 7) HUFFMAN_DECODE_70"
  by (simp add: state_blocks HUFFMAN_DECODE_70_def, simp add: row_ok_def, simp add: entry_eval)

lemma block_80: "list_all2 row_ok (state_block 8) HUFFMAN_DECODE_80"
  by (simp add: state_blocks HUFFMAN_DECODE_80_def, simp add: row_ok_def, simp add: entry_eval)

lemma block_90: "list_all2 row_ok (state_block 9) HUFFMAN_DECODE_90"
  by (simp add: state_blocks HUFFMAN_DECODE_90_def, simp add: row_ok_def, simp add: entry_eval)

lemma block_a0: "list_all2 row_ok (state_block 10) HUFFMAN_DECODE_a0"
  by (simp add: state_blocks HUFFMAN_DECODE_a0_def, simp add: row_ok_def, simp add: entry_eval)

lemma block_b0: "list_all2 row_ok (state_block 11) HUFFMAN_DECODE_b0"
  by (simp add: state_blocks HUFFMAN_DECODE_b0_def, simp add: row_ok_def, simp add: entry_eval)

lemma block_c0: "list_all2 row_ok (state_block 12) HUFFMAN_DECODE_c0"
  by (simp add: state_blocks HUFFMAN_DECODE_c0_def, simp add: row_ok_def, simp add: entry_eval)

lemma block_d0: "list_all2 row_ok (state_block 13) HUFFMAN_DECODE_d0"
  by (simp add: state_blocks HUFFMAN_DECODE_d0_def, simp add: row_ok_def, simp add: entry_eval)

lemma block_e0: "list_all2 row_ok (state_block 14) HUFFMAN_DECODE_e0"
  by (simp add: state_blocks HUFFMAN_DECODE_e0_def, simp add: row_ok_def, simp add: entry_eval)

lemma block_f0: "list_all2 row_ok (state_block 15) HUFFMAN_DECODE_f0"
  by (simp add: state_blocks HUFFMAN_DECODE_f0_def, simp add: row_ok_def, simp add: entry_eval)

lemma codes_ok: "list_all code_ok CODE_BITS"
  by (simp add: CODE_BITS_eq code_ok_def)

lemma exts_ok: "list_all2 ext_ok STATE_BITS STATE_EXT"
  apply (simp add: STATE_BITS_def STATE_EXT_def)
  apply (simp add: ext_ok_def CODE_BITS_nth)
  done

lemma states_ok: "list_all (\<lambda>(l, v). l \<le> 29 \<and> v < 2 ^ l) STATE_BITS"
  by (simp add: STATE_BITS_def)

lemma order_ok: "chain_ok 0 CODE_ORDER"
  apply (simp only: CODE_ORDER_def)
  apply (simp add: CODE_BITS_nth)
  done

lemma order_complete: "list_all (\<lambda>c. c \<in> set CODE_ORDER) [0..<257]"
  by (simp add: upt_257 CODE_ORDER_def)

end
