(* ===== verification/Bit_Lists.thy ===== *)
theory Bit_Lists
  imports Prelude
begin

text \<open>
  Big-endian bit lists of natural numbers, bytes and 64-bit words: the vocabulary in which the
  Huffman coder is specified.
\<close>

section \<open>Bits of a natural number\<close>

fun nat_bits :: "nat \<Rightarrow> nat \<Rightarrow> bool list" where
  "nat_bits 0 v = []"
| "nat_bits (Suc l) v = nat_bits l (v div 2) @ [odd v]"

lemma length_nat_bits [simp]: "length (nat_bits l v) = l"
  by (induction l arbitrary: v) auto

lemma nat_bits_append:
  "y < 2 ^ b \<Longrightarrow> nat_bits (a + b) (x * 2 ^ b + y) = nat_bits a x @ nat_bits b y"
proof (induction b arbitrary: y)
  case (Suc b)
  have "(x * 2 ^ Suc b + y) div 2 = x * 2 ^ b + y div 2" by simp
  moreover have "y div 2 < 2 ^ b" using Suc.prems by (simp add: less_mult_imp_div_less)
  ultimately show ?case using Suc.IH [of "y div 2"] by simp
qed simp

lemma nat_bits_split:
  "nat_bits (a + b) v = nat_bits a (v div 2 ^ b) @ nat_bits b (v mod 2 ^ b)"
  using nat_bits_append [of "v mod 2 ^ b" b a "v div 2 ^ b"] by (simp add: div_mult_mod_eq)

lemma nat_bits_mod: "nat_bits l (v mod 2 ^ l) = nat_bits l v"
  using nat_bits_split [of 0 l v] by simp

lemma nat_bits_eq_iff: "v < 2 ^ l \<Longrightarrow> w < 2 ^ l \<Longrightarrow> nat_bits l v = nat_bits l w \<longleftrightarrow> v = w"
proof (induction l arbitrary: v w)
  case (Suc l)
  have "v div 2 < 2 ^ l" "w div 2 < 2 ^ l"
    using Suc.prems by (simp_all add: less_mult_imp_div_less)
  then have "nat_bits (Suc l) v = nat_bits (Suc l) w \<longleftrightarrow> v div 2 = w div 2 \<and> odd v = odd w"
    using Suc.IH by simp
  also have "\<dots> \<longleftrightarrow> v = w"
    by (auto elim: evenE oddE)
  finally show ?case .
qed simp

lemma nat_bits_ones: "nat_bits l (2 ^ l - 1) = replicate l True"
proof (induction l)
  case (Suc l)
  have "(2 ^ Suc l - 1) div 2 = (2 ^ l - 1 :: nat)" "odd (2 ^ Suc l - 1 :: nat)"
    by simp_all
  then show ?case using Suc.IH by (simp del: power_Suc add: replicate_append_same)
qed simp

lemma nat_bits_ones_iff: "v < 2 ^ l \<Longrightarrow> nat_bits l v = replicate l True \<longleftrightarrow> v = 2 ^ l - 1"
  using nat_bits_eq_iff [of v l "2 ^ l - 1"] by (simp add: nat_bits_ones [simplified])

lemma nth_nat_bits: "i < l \<Longrightarrow> nat_bits l v ! i = bit v (l - 1 - i)"
proof (induction l arbitrary: v i)
  case (Suc l)
  show ?case
  proof (cases "i < l")
    case True
    then have "l - i = Suc (l - 1 - i)" by simp
    then show ?thesis using True Suc.IH [OF True, of "v div 2"]
      by (simp add: nth_append bit_Suc)
  next
    case False
    then show ?thesis using Suc.prems by (simp add: nth_append bit_0)
  qed
qed simp

section \<open>Bits of bytes and words\<close>

definition byte_bits :: "u8 \<Rightarrow> bool list" where
  "byte_bits b = nat_bits 8 (unat b)"

definition bytes_bits :: "bytes \<Rightarrow> bool list" where
  "bytes_bits bs = concat (map byte_bits bs)"

definition word_bits :: "u64 \<Rightarrow> bool list" where
  "word_bits w = nat_bits 64 (unat w)"

lemma bytes_bits_simps [simp]:
  "bytes_bits [] = []"
  "bytes_bits (b # bs) = byte_bits b @ bytes_bits bs"
  "bytes_bits (bs @ cs) = bytes_bits bs @ bytes_bits cs"
  by (simp_all add: bytes_bits_def)

lemma length_byte_bits [simp]: "length (byte_bits b) = 8"
  by (simp add: byte_bits_def)

lemma length_bytes_bits [simp]: "length (bytes_bits bs) = 8 * length bs"
  by (induction bs) simp_all

lemma length_word_bits [simp]: "length (word_bits w) = 64"
  by (simp add: word_bits_def)

lemma byte_bits_eq_iff [simp]: "byte_bits b = byte_bits c \<longleftrightarrow> b = c"
  using nat_bits_eq_iff [of "unat b" 8 "unat c"] by (simp add: byte_bits_def word_unat_eq_iff)

lemma byte_bits_not_Nil [simp]: "byte_bits b \<noteq> []" "[] \<noteq> byte_bits b"
  using length_byte_bits [of b] by (fastforce simp del: length_byte_bits)+

lemma bytes_bits_eq_iff: "bytes_bits bs = bytes_bits cs \<longleftrightarrow> bs = cs"
proof (induction bs arbitrary: cs)
  case Nil
  show ?case by (cases cs) simp_all
next
  case (Cons b bs)
  then show ?case by (cases cs) simp_all
qed

lemma take_bytes_bits: "take (8 * k) (bytes_bits bs) = bytes_bits (take k bs)"
proof (induction bs arbitrary: k)
  case (Cons b bs)
  then show ?case by (cases k) simp_all
qed simp

lemma nth_word_bits: "i < 64 \<Longrightarrow> word_bits w ! i = bit w (63 - i)"
  by (simp add: word_bits_def nth_nat_bits bit_unsigned_iff)

lemma byte_nibbles:
  "byte_bits b = nat_bits 4 (unat (drop_bit 4 b)) @ nat_bits 4 (unat (b AND 0xf))"
proof -
  have "unat (b AND 0xf) = unat b mod 2 ^ 4"
    using take_bit_eq_mask [of 4 "unat b"]
    by (simp add: unsigned_and_eq mask_eq_exp_minus_1 take_bit_eq_mod)
  moreover have "unat (drop_bit 4 b) = unat b div 2 ^ 4"
    by (simp add: drop_bit_eq_div unat_div_distrib)
  ultimately show ?thesis using nat_bits_split [of 4 4 "unat b"] by (simp add: byte_bits_def)
qed

end
