(* ===== verification/Huffman_Encode_Correct.thy ===== *)
theory Huffman_Encode_Correct
  imports Huffman_Check Bit_Lists
begin

text \<open>
  The encoder against its specification: the bits it emits are the concatenated codes of the
  source bytes, padded with less than one byte of ones.
\<close>

definition code_bits :: "nat \<Rightarrow> bool list" where
  "code_bits c = (case CODE_BITS ! c of (l, v) \<Rightarrow> nat_bits l v)"

definition huffman_bits :: "bytes \<Rightarrow> bool list" where
  "huffman_bits bs = concat (map (\<lambda>b. code_bits (unat b)) bs)"

lemma huffman_bits_simps [simp]:
  "huffman_bits [] = []"
  "huffman_bits (b # bs) = code_bits (unat b) @ huffman_bits bs"
  "huffman_bits (bs @ cs) = huffman_bits bs @ huffman_bits cs"
  by (simp_all add: huffman_bits_def)

section \<open>Word operations on bit lists\<close>

lemma word_bits_or: "word_bits (a OR b) = map2 (\<or>) (word_bits a) (word_bits b)"
  by (rule nth_equalityI) (simp_all add: nth_word_bits bit_or_iff)

lemma map2_or_False [simp]:
  "length xs = n \<Longrightarrow> map2 (\<or>) (replicate n False) xs = xs"
  "length xs = n \<Longrightarrow> map2 (\<or>) xs (replicate n False) = xs"
  by (auto intro!: nth_equalityI)

lemma word_bits_0: "word_bits 0 = replicate 64 False"
  by (rule nth_equalityI) (simp_all add: nth_word_bits)

lemma word_bits_code:
  assumes "unat c < 2 ^ n" "n + k \<le> 64"
  shows "word_bits (push_bit k c)
    = replicate (64 - n - k) False @ nat_bits n (unat c) @ replicate k False"
proof (rule nth_equalityI)
  fix i assume "i < length (word_bits (push_bit k c))"
  then have i: "i < 64" by simp
  have hi: "\<not> bit c j" if "j \<ge> n" for j
  proof -
    have "unat c < 2 ^ j" using assms(1) that by (meson order_less_le_trans one_le_numeral power_increasing)
    then have "\<not> bit (unat c) j" by (simp add: bit_iff_odd)
    then show ?thesis by (auto simp: bit_unsigned_iff dest: bit_imp_le_length)
  qed
  have lo: "bit (unat c) j = bit c j" for j
    by (auto simp: bit_unsigned_iff dest: bit_imp_le_length)
  show "word_bits (push_bit k c) ! i
      = (replicate (64 - n - k) False @ nat_bits n (unat c) @ replicate k False) ! i"
    using i assms(2)
    by (auto simp: nth_word_bits nth_append nth_nat_bits bit_push_bit_iff lo hi
        intro!: arg_cong [where f = "bit c"])
qed (use assms in simp)

lemma word_bits_rotr:
  assumes "word_bits w = xs @ ys" "length ys = k"
  shows "word_bits (word_rotr k w) = ys @ xs"
proof (rule nth_equalityI)
  have len: "length xs + k = 64" using assms length_word_bits [of w] by simp
  then show "length (word_bits (word_rotr k w)) = length (ys @ xs)" using assms by simp
  fix i assume "i < length (word_bits (word_rotr k w))"
  then have i: "i < 64" by simp
  have nth: "(xs @ ys) ! j = bit w (63 - j)" if "j < 64" for j
    using nth_word_bits [OF that, of w] assms(1) by simp
  show "word_bits (word_rotr k w) ! i = (ys @ xs) ! i"
  proof (cases "i < k")
    case True
    have "(63 - i + k) mod 64 = 63 - (64 - k + i)" using True i len by (simp add: mod_if)
    moreover have "64 - k + i = length xs + i" using len by simp
    moreover have "63 - i < (64 :: nat)" by arith
    ultimately show ?thesis using True i len assms(2) nth [of "length xs + i"]
      by (simp only: nth_word_bits bit_word_rotr_iff nth_append) simp
  next
    case False
    have "(63 - i + k) mod 64 = 63 - (i - k)" using False i len by (simp add: mod_if)
    moreover have "i - k < length xs" "i - k < 64" "63 - i < (64 :: nat)"
      using False i len by arith+
    ultimately show ?thesis using False i assms(2) nth [of "i - k"]
      by (simp add: nth_word_bits bit_word_rotr_iff nth_append)
  qed
qed

lemma low_mask: "u \<le> 64 \<Longrightarrow> drop_bit (64 - u) (- 1 :: u64) = mask u"
  by simp

lemma word_bits_low:
  assumes "word_bits w = xs @ ys" "length ys = u"
  shows "word_bits (w AND mask u) = replicate (length xs) False @ ys"
    and "word_bits (w AND NOT (mask u)) = xs @ replicate u False"
    and "word_bits (w OR mask u) = xs @ replicate u True"
proof -
  have len: "length xs + u = 64" using assms length_word_bits [of w] by simp
  have nth: "bit w (63 - j) = (xs @ ys) ! j" if "j < 64" for j
    using nth_word_bits [OF that, of w] assms(1) by simp
  show "word_bits (w AND mask u) = replicate (length xs) False @ ys"
    using len assms(2)
    by (intro nth_equalityI) (auto simp: nth_word_bits bit_and_iff bit_mask_iff nth nth_append)
  show "word_bits (w AND NOT (mask u)) = xs @ replicate u False"
    using len assms(2)
    by (intro nth_equalityI)
      (auto simp: nth_word_bits bit_and_iff bit_not_iff bit_mask_iff nth nth_append)
  show "word_bits (w OR mask u) = xs @ replicate u True"
    using len assms(2)
    by (intro nth_equalityI) (auto simp: nth_word_bits bit_or_iff bit_mask_iff nth nth_append)
qed

lemma bytes_bits_to_be_bytes: "bytes_bits (to_be_bytes w) = word_bits w"
proof -
  have step: "nat_bits (n + 8) v = nat_bits n (v div 256) @ nat_bits 8 v" for n v
    using nat_bits_split [of n 8 v] nat_bits_mod [of 8 v] by simp
  have "unat (ucast (drop_bit k w) :: u8) = unat w div 2 ^ k mod 2 ^ 8" for k
    by (simp only: unsigned_ucast_eq unat_drop_bit_eq) (simp add: take_bit_eq_mod drop_bit_eq_div)
  then have byte: "byte_bits (ucast (drop_bit k w)) = nat_bits 8 (unat w div 2 ^ k)" for k
    using nat_bits_mod [of 8 "unat w div 2 ^ k"] by (simp only: byte_bits_def)
  have "word_bits w = nat_bits (0 + 8 + 8 + 8 + 8 + 8 + 8 + 8 + 8) (unat w)"
    by (simp add: word_bits_def)
  then show ?thesis unfolding step
    by (simp add: to_be_bytes_def upt_rec byte byte [of 0, simplified] div_mult2_eq [symmetric])
qed

section \<open>The encoder\<close>

text \<open>
  The accumulator holds the bits \<open>pend\<close> not yet written, left-aligned, followed by
  \<open>unfilled\<close> zeros.
\<close>

definition pending :: "u64 \<Rightarrow> nat \<Rightarrow> bool list \<Rightarrow> bool" where
  "pending state unfilled pend \<longleftrightarrow>
     1 \<le> unfilled \<and> unfilled \<le> 64 \<and> word_bits state = pend @ replicate unfilled False"

lemma pending_length: "pending st u p \<Longrightarrow> length p + u = 64"
  using length_word_bits [of st] by (auto simp: pending_def simp del: length_word_bits)

lemma encode_entry:
  fixes b :: u8
  obtains nb c where "HUFFMAN_ENCODE ! unat b = (nb, c)"
    "code_bits (unat b) = nat_bits (unat nb) (unat c)"
    "5 \<le> unat nb" "unat nb \<le> 30" "unat c < 2 ^ unat nb"
proof -
  obtain nb c where e: "HUFFMAN_ENCODE ! unat b = (nb, c)" by force
  have b: "unat b < 257" by (rule less_trans [OF unat_u8_less]) simp
  then have "CODE_BITS ! unat b = (unat nb, unat c)"
    by (simp add: CODE_BITS_def e length_HUFFMAN_ENCODE)
  moreover from this have "code_ok (unat nb, unat c)"
    using codes_ok b by (auto simp: list_all_length length_CODE_BITS dest!: spec [of _ "unat b"])
  ultimately show ?thesis using that e by (auto simp: code_bits_def code_ok_def)
qed

lemma pending_or:
  assumes "word_bits st = p @ replicate u False"
    and "word_bits c = replicate (length p) False @ q" "length q = u"
  shows "word_bits (st OR c) = p @ q"
  using assms by (simp add: word_bits_or zip_append)

lemma huffman_encode_byte_bits:
  assumes "pending st u p" and "huffman_encode_byte (st, u, dst) b = (st', u', dst')"
  obtains p' where "pending st' u' p'"
    "bytes_bits dst' @ p' = bytes_bits dst @ p @ code_bits (unat b)"
proof -
  obtain nb c where e: "HUFFMAN_ENCODE ! unat b = (nb, c)"
    and cb: "code_bits (unat b) = nat_bits (unat nb) (unat c)"
    and n: "5 \<le> unat nb" "unat nb \<le> 30" "unat c < 2 ^ unat nb"
    by (rule encode_entry)
  note st = assms(1) [unfolded pending_def] and len = pending_length [OF assms(1)]
  let ?n = "unat nb" and ?cs = "nat_bits (unat nb) (unat c)"
  consider (fits) "?n < u" | (exact) "u = ?n" | (over) "u < ?n" by linarith
  then show thesis
  proof cases
    case fits
    have "word_bits (push_bit (u - ?n) c)
        = replicate (length p) False @ ?cs @ replicate (u - ?n) False"
      using word_bits_code [OF n(3), of "u - ?n"] fits len n by simp
    then have "word_bits (st OR push_bit (u - ?n) c) = p @ ?cs @ replicate (u - ?n) False"
      using st fits by (intro pending_or) simp_all
    moreover have "st' = st OR push_bit (u - ?n) c" "u' = u - ?n" "dst' = dst"
      using assms(2) fits e by (auto simp: huffman_encode_byte_def Let_def)
    ultimately show thesis using fits st cb by (intro that [of "p @ ?cs"]) (auto simp: pending_def)
  next
    case exact
    have "word_bits c = replicate (length p) False @ ?cs"
      using word_bits_code [OF n(3), of 0] exact len n by simp
    then have "word_bits (st OR c) = p @ ?cs"
      using st exact by (intro pending_or) simp_all
    moreover have "st' = 0" "u' = 64" "dst' = dst @ to_be_bytes (st OR c)"
      using assms(2) exact e by (auto simp: huffman_encode_byte_def Let_def)
    ultimately show thesis using cb
      by (intro that [of "[]"]) (simp_all add: pending_def word_bits_0 bytes_bits_to_be_bytes)
  next
    case over
    let ?A = "take u ?cs" and ?B = "drop u ?cs" and ?r = "word_rotr (?n - u) c"
    have "word_bits c = (replicate (64 - ?n) False @ ?A) @ ?B"
      using word_bits_code [OF n(3), of 0] n by simp
    then have rot: "word_bits ?r = (?B @ replicate (64 - ?n) False) @ ?A"
      using over by (subst word_bits_rotr) simp_all
    have "length (?B @ replicate (64 - ?n) False) = length p" using over len n by simp
    then have "word_bits (?r AND mask u) = replicate (length p) False @ ?A"
      using word_bits_low(1) [OF rot, of u] over by (simp del: append_assoc)
    then have out: "word_bits (st OR (?r AND mask u)) = p @ ?A"
      using st over by (intro pending_or) simp_all
    have "word_bits (?r AND NOT (mask u)) = ?B @ replicate (64 - (?n - u)) False"
      using word_bits_low(2) [OF rot, of u] over n
      by (simp add: replicate_add [symmetric])
    then have "pending (?r AND NOT (mask u)) (64 - (?n - u)) ?B"
      using over n st by (auto simp: pending_def)
    moreover have "st' = ?r AND NOT (mask u)" "u' = 64 - (?n - u)"
      "dst' = dst @ to_be_bytes (st OR (?r AND mask u))"
      using assms(2) over st e by (auto simp: huffman_encode_byte_def Let_def)
    ultimately show thesis using cb out
      by (intro that [of ?B]) (simp_all add: bytes_bits_to_be_bytes)
  qed
qed

lemma huffman_encode_fold_bits:
  "pending st u p \<Longrightarrow> foldl huffman_encode_byte (st, u, dst) src = (st', u', dst') \<Longrightarrow>
   \<exists>p'. pending st' u' p' \<and> bytes_bits dst' @ p' = bytes_bits dst @ p @ huffman_bits src"
proof (induction src arbitrary: st u p dst)
  case (Cons b src)
  obtain st1 u1 dst1 where s: "huffman_encode_byte (st, u, dst) b = (st1, u1, dst1)"
    by (metis prod_cases3)
  obtain p1 where "pending st1 u1 p1"
    "bytes_bits dst1 @ p1 = bytes_bits dst @ p @ code_bits (unat b)"
    by (rule huffman_encode_byte_bits [OF Cons.prems(1) s])
  moreover from this obtain p' where
    "pending st' u' p'" "bytes_bits dst' @ p' = bytes_bits dst1 @ p1 @ huffman_bits src"
    using Cons.IH [of st1 u1 p1 dst1] Cons.prems(2) s by auto
  ultimately show ?case by (metis append_assoc huffman_bits_simps(2))
qed auto

lemma huffman_encode_bits:
  obtains k where "k < 8"
    "bytes_bits (huffman_encode src dst) = bytes_bits dst @ huffman_bits src @ replicate k True"
proof -
  obtain st u dst' where f: "foldl huffman_encode_byte (0, 64, dst) src = (st, u, dst')"
    by (metis prod_cases3)
  have "pending 0 64 []" by (simp add: pending_def word_bits_0)
  from huffman_encode_fold_bits [OF this f] obtain p where
    p: "pending st u p" and bits: "bytes_bits dst' @ p = bytes_bits dst @ huffman_bits src" by auto
  note st = p [unfolded pending_def] and len = pending_length [OF p]
  show thesis
  proof (cases "u = 64")
    case True
    then show thesis using that [of 0] len bits f by (simp add: huffman_encode_def)
  next
    case False
    have "8 * (8 - u div 8) = length p + u mod 8"
      using len mult_div_mod_eq [of 8 u] by linarith
    then have "bytes_bits (take (8 - u div 8) (to_be_bytes (st OR mask u)))
        = take (length p + u mod 8) (p @ replicate u True)"
      using st word_bits_low(3) [of st p "replicate u False" u]
      by (simp flip: take_bytes_bits add: bytes_bits_to_be_bytes)
    also have "\<dots> = p @ replicate (u mod 8) True" by (simp add: min_def)
    finally have "bytes_bits (huffman_encode src dst)
        = (bytes_bits dst' @ p) @ replicate (u mod 8) True"
      using f False st by (simp add: huffman_encode_def drop_bit_eq_div [of 3 u])
    then show thesis using bits by (intro that [of "u mod 8"]) simp_all
  qed
qed

end
