(* ===== verification/Huffman_Correct.thy ===== *)
theory Huffman_Correct
  imports Huffman_Encode_Correct "HOL-Library.Sublist"
begin

text \<open>
  The table-driven decoder against the same specification. The code is prefix free, every state
  of the decoder stands for the bits it has read past the last complete code, and every table
  entry moves to the state of the bits that remain. Hence the decoder accepts exactly the
  encoder's output.
\<close>

section \<open>The code is prefix free\<close>

definition code_lo :: "nat \<Rightarrow> nat" where
  "code_lo c = (case CODE_BITS ! c of (l, v) \<Rightarrow> v * 2 ^ (30 - l))"

definition code_hi :: "nat \<Rightarrow> nat" where
  "code_hi c = (case CODE_BITS ! c of (l, v) \<Rightarrow> (v + 1) * 2 ^ (30 - l))"

lemma code_lo_hi: "code_lo c < code_hi c"
  by (simp add: code_lo_def code_hi_def split: prod.split)

lemma chain_ok_Cons: "chain_ok h (x # xs) \<longleftrightarrow> h \<le> code_lo x \<and> chain_ok (code_hi x) xs"
  by (simp add: code_lo_def code_hi_def split: prod.split)

lemma chain_lower: "chain_ok h xs \<Longrightarrow> y \<in> set xs \<Longrightarrow> h \<le> code_lo y"
proof (induction xs arbitrary: h)
  case (Cons x xs)
  then show ?case using code_lo_hi [of x]
    by (auto simp: chain_ok_Cons simp del: chain_ok.simps dest: Cons.IH)
qed simp

lemma chain_disjoint:
  "chain_ok h xs \<Longrightarrow> x \<in> set xs \<Longrightarrow> y \<in> set xs \<Longrightarrow> x \<noteq> y \<Longrightarrow>
   code_hi x \<le> code_lo y \<or> code_hi y \<le> code_lo x"
  by (induction xs arbitrary: h)
    (auto simp: chain_ok_Cons simp del: chain_ok.simps(2) dest: chain_lower)

lemma code_entry:
  assumes "c < 257"
  obtains l v where "CODE_BITS ! c = (l, v)" "5 \<le> l" "l \<le> 30" "v < 2 ^ l"
proof -
  obtain l v where "CODE_BITS ! c = (l, v)" by force
  moreover have "code_ok (CODE_BITS ! c)"
    using codes_ok assms by (simp add: list_all_length length_CODE_BITS)
  ultimately show thesis using that by (auto simp: code_ok_def)
qed

lemma prefix_nat_bits:
  assumes "prefix (nat_bits l v) (nat_bits m w)" "v < 2 ^ l" "w < 2 ^ m"
  shows "l \<le> m" "v = w div 2 ^ (m - l)"
proof -
  show lm: "l \<le> m" using prefix_length_le [OF assms(1)] by simp
  have "nat_bits m w = nat_bits l (w div 2 ^ (m - l)) @ nat_bits (m - l) (w mod 2 ^ (m - l))"
    using nat_bits_split [of l "m - l" w] lm by simp
  then have "nat_bits l v = nat_bits l (w div 2 ^ (m - l))"
    using assms(1) by (auto simp: prefix_def append_eq_append_conv)
  moreover have "w div 2 ^ (m - l) < 2 ^ l"
    using assms(3) lm by (simp add: less_mult_imp_div_less flip: power_add)
  ultimately show "v = w div 2 ^ (m - l)" using nat_bits_eq_iff assms(2) by blast
qed

lemma code_overlap:
  assumes "c < 257" "d < 257" "prefix (code_bits c) (code_bits d)"
  shows "code_lo c \<le> code_lo d" "code_lo d < code_hi c"
proof -
  obtain l v where c: "CODE_BITS ! c = (l, v)" "l \<le> 30" "v < 2 ^ l"
    using code_entry [OF assms(1)] by metis
  obtain m w where d: "CODE_BITS ! d = (m, w)" "m \<le> 30" "w < 2 ^ m"
    using code_entry [OF assms(2)] by metis
  have lm: "l \<le> m" and v: "v = w div 2 ^ (m - l)"
    using prefix_nat_bits [of l v m w] assms(3) c d by (auto simp: code_bits_def)
  have p: "(2::nat) ^ (30 - l) = 2 ^ (m - l) * 2 ^ (30 - m)"
    using lm d(2) by (simp flip: power_add)
  have "v * 2 ^ (m - l) \<le> w" by (simp add: v)
  then show "code_lo c \<le> code_lo d"
    by (simp add: code_lo_def c d p flip: mult.assoc)
  have "w < (v + 1) * 2 ^ (m - l)"
    using dividend_less_div_times [of "2 ^ (m - l)" w] by (simp add: v)
  then have "w * 2 ^ (30 - m) < (v + 1) * 2 ^ (m - l) * 2 ^ (30 - m)" by simp
  then show "code_lo d < code_hi c"
    by (simp only: code_lo_def code_hi_def c d p prod.case mult.assoc)
qed

theorem code_prefix_free:
  assumes "c < 257" "d < 257" "prefix (code_bits c) (code_bits d)"
  shows "c = d"
proof (rule ccontr)
  assume "c \<noteq> d"
  moreover have "c \<in> set CODE_ORDER" "d \<in> set CODE_ORDER"
    using order_complete assms(1,2) by (auto simp: list_all_iff)
  ultimately show False
    using chain_disjoint [OF order_ok] code_overlap [OF assms] code_lo_hi [of d] by fastforce
qed

corollary codes_comparable:
  assumes "c < 257" "d < 257" "prefix (code_bits c) bs" "prefix (code_bits d) bs"
  shows "c = d"
  using prefix_same_cases [OF assms(3,4)] code_prefix_free assms(1,2) by blast

section \<open>States and table entries\<close>

definition state_bits :: "u8 \<Rightarrow> bool list" where
  "state_bits s = (case STATE_BITS ! unat s of (l, v) \<Rightarrow> nat_bits l v)"

lemma table_rows: "list_all2 row_ok STATE_BITS HUFFMAN_DECODE"
proof -
  have "STATE_BITS = state_block 0 @ state_block 1 @ state_block 2 @ state_block 3
      @ state_block 4 @ state_block 5 @ state_block 6 @ state_block 7
      @ state_block 8 @ state_block 9 @ state_block 10 @ state_block 11
      @ state_block 12 @ state_block 13 @ state_block 14 @ state_block 15"
    by (simp add: state_blocks, simp add: STATE_BITS_def)
  then show ?thesis unfolding HUFFMAN_DECODE_def
    using block_00 block_10 block_20 block_30 block_40 block_50 block_60 block_70 block_80
      block_90 block_a0 block_b0 block_c0 block_d0 block_e0 block_f0
    by (metis list_all2_appendI)
qed

lemma length_HUFFMAN_DECODE: "length HUFFMAN_DECODE = 256"
  using list_all2_lengthD [OF table_rows] by (simp add: length_STATE_BITS)

lemma table_entry:
  fixes s :: u8
  assumes "n < 16"
  shows "entry_ok (STATE_BITS ! unat s) n (HUFFMAN_DECODE ! unat s ! n)"
proof -
  have "row_ok (STATE_BITS ! unat s) (HUFFMAN_DECODE ! unat s)"
    by (rule list_all2_nthD [OF table_rows]) (simp add: length_STATE_BITS)
  moreover have "[0, 1, 2, 3, 4, 5, 6, 7, 8, 9, 10, 11, 12, 13, 14, 15] = [0..<16]"
    by (simp add: upt_rec)
  ultimately have "list_all2 (entry_ok (STATE_BITS ! unat s)) [0..<16] (HUFFMAN_DECODE ! unat s)"
    by (simp only: row_ok_def)
  from list_all2_nthD [OF this, of n] show ?thesis using assms by simp
qed

lemma state_entry:
  fixes s :: u8
  obtains l v where "STATE_BITS ! unat s = (l, v)" "l \<le> 29" "v < 2 ^ l"
proof -
  have "case STATE_BITS ! unat s of (l, v) \<Rightarrow> l \<le> 29 \<and> v < 2 ^ l"
    using states_ok by (simp add: list_all_length length_STATE_BITS)
  then show thesis using that by (auto split: prod.splits)
qed

text \<open>No code is complete inside the bits of a state: they begin a longer code.\<close>

lemma state_bits_extend:
  obtains x where "x < 257" "strict_prefix (state_bits s) (code_bits x)"
proof -
  obtain l v where s: "STATE_BITS ! unat s = (l, v)" by force
  define x where "x = STATE_EXT ! unat s"
  have "ext_ok (l, v) x"
    using list_all2_nthD [OF exts_ok, of "unat s"] s by (simp add: length_STATE_BITS x_def)
  then obtain m w where c: "CODE_BITS ! x = (m, w)" "l < m" "x \<le> 256" "v = w div 2 ^ (m - l)"
    by (auto simp: ext_ok_def split: prod.splits)
  then have "code_bits x = state_bits s @ nat_bits (m - l) (w mod 2 ^ (m - l))"
    using nat_bits_split [of l "m - l" w] s by (simp add: code_bits_def state_bits_def)
  moreover have "nat_bits (m - l) (w mod 2 ^ (m - l)) \<noteq> []"
    using c(2) length_nat_bits [of "m - l"] by (metis list.size(3) zero_less_diff less_numeral_extra(3))
  ultimately show thesis using that [of x] c(3) by (auto simp: strict_prefix_def)
qed

definition pad_ok :: "u8 \<Rightarrow> u8 \<Rightarrow> bool" where
  "pad_ok s f \<longleftrightarrow>
     s = 0 \<or> (f AND 1 = 1) = (\<exists>k < 8. state_bits s = replicate k True)"

lemma state_bits_0 [simp]: "state_bits 0 = []"
  by (simp add: state_bits_def STATE_BITS_nth)

lemma eos_bits: "code_bits 256 = replicate 30 True"
  using nat_bits_ones [of 30] by (simp add: code_bits_def CODE_BITS_nth)

lemma pad_iff:
  assumes "STATE_BITS ! unat s = (l, v)" "v < 2 ^ l"
  shows "(\<exists>k < 8. state_bits s = replicate k True) \<longleftrightarrow> l < 8 \<and> v = 2 ^ l - 1"
proof -
  have "k = l" if "nat_bits l v = replicate k True" for k
    using arg_cong [OF that, of length] by simp
  then show ?thesis using assms nat_bits_ones_iff [of v l] by (auto simp: state_bits_def)
qed

lemma table_step:
  assumes "n < 16" "HUFFMAN_DECODE ! unat s ! n = (s', b, f)"
  shows "f AND 4 = 4 \<Longrightarrow> prefix (code_bits 256) (state_bits s @ nat_bits 4 n)"
    and "f AND 4 \<noteq> 4 \<Longrightarrow> f AND 2 = 2 \<Longrightarrow>
      state_bits s @ nat_bits 4 n = code_bits (unat b) @ state_bits s'"
    and "f AND 4 \<noteq> 4 \<Longrightarrow> f AND 2 \<noteq> 2 \<Longrightarrow> state_bits s @ nat_bits 4 n = state_bits s'"
    and "f AND 4 \<noteq> 4 \<Longrightarrow> pad_ok s' f"
proof -
  obtain l v where s: "STATE_BITS ! unat s = (l, v)" by (rule state_entry)
  obtain m w where s': "STATE_BITS ! unat s' = (m, w)" "w < 2 ^ m" by (rule state_entry)
  have e: "entry_ok (l, v) n (s', b, f)" using table_entry [OF assms(1), of s] assms(2) s by simp
  have bits: "state_bits s @ nat_bits 4 n = nat_bits (l + 4) (v * 16 + n)"
    using nat_bits_append [of n 4 l v] assms(1) s by (simp add: state_bits_def)
  show "prefix (code_bits 256) (state_bits s @ nat_bits 4 n)" if "f AND 4 = 4"
  proof -
    have "26 \<le> l" "(v * 16 + n) div 2 ^ (l - 26) = 2 ^ 30 - 1"
      using e that by (auto simp: entry_ok_def)
    then show ?thesis
      using nat_bits_split [of 30 "l - 26" "v * 16 + n"] nat_bits_ones [of 30]
      by (simp add: bits eos_bits add.commute)
  qed
  show "state_bits s @ nat_bits 4 n = code_bits (unat b) @ state_bits s'"
    if "f AND 4 \<noteq> 4" "f AND 2 = 2"
  proof -
    obtain cl cv where c: "CODE_BITS ! unat b = (cl, cv)" by force
    then show ?thesis unfolding bits using e that s' nat_bits_append [of w m cl cv]
      by (simp add: entry_ok_def code_bits_def state_bits_def)
  qed
  show "state_bits s @ nat_bits 4 n = state_bits s'" if "f AND 4 \<noteq> 4" "f AND 2 \<noteq> 2"
    unfolding bits using e that s' by (simp add: entry_ok_def state_bits_def)
  show "pad_ok s' f" if "f AND 4 \<noteq> 4"
    using e that s' pad_iff [OF s'] by (auto simp: entry_ok_def pad_ok_def)
qed

section \<open>The decoder over nibbles\<close>

definition nibbles :: "bytes \<Rightarrow> nat list" where
  "nibbles src = concat (map (\<lambda>b. [unat (drop_bit 4 b), unat (b AND 0xf)]) src)"

definition nibbles_bits :: "nat list \<Rightarrow> bool list" where
  "nibbles_bits ns = concat (map (nat_bits 4) ns)"

fun decode_nibbles ::
    "nat list \<Rightarrow> bytes \<Rightarrow> u8 \<Rightarrow> u8 \<Rightarrow> ((u8 \<times> u8) \<times> bytes, HuffmanDecodeError) rust_result" where
  "decode_nibbles [] dst s f = Ok ((s, f), dst)"
| "decode_nibbles (n # ns) dst s f =
     (case huffman_decode_nibble n dst s of
        Ok ((s, f), dst) \<Rightarrow> decode_nibbles ns dst s f
      | Err e \<Rightarrow> Err e
      | Panic \<Rightarrow> Panic)"

lemma decode_inner_nibbles:
  "huffman_decode_inner src dst s f = decode_nibbles (nibbles src) dst s f"
  by (induction src arbitrary: dst s f)
    (auto simp: nibbles_def Let_def split: rust_result.splits prod.splits)

lemma nibbles_bits_nibbles: "nibbles_bits (nibbles src) = bytes_bits src"
  by (induction src) (simp_all add: nibbles_def nibbles_bits_def byte_nibbles)

lemma nibbles_bits_Cons [simp]: "nibbles_bits (n # ns) = nat_bits 4 n @ nibbles_bits ns"
  by (simp add: nibbles_bits_def)

lemma nibbles_less: "\<forall>n \<in> set (nibbles src). n < 16"
proof -
  have "unat (drop_bit 4 b) < 16" "unat (b AND 0xf) < 16" for b :: u8
  proof -
    show "unat (drop_bit 4 b) < 16"
      using unat_u8_less [of b] by (simp add: drop_bit_eq_div unat_div_distrib less_mult_imp_div_less)
    have "unat (b AND 0xf) = unat b mod 16"
      using take_bit_eq_mask [of 4 "unat b"]
      by (simp add: unsigned_and_eq mask_eq_exp_minus_1 take_bit_eq_mod)
    then show "unat (b AND 0xf) < 16" by simp
  qed
  then show ?thesis by (auto simp: nibbles_def)
qed

text \<open>What the decoder returns is right.\<close>

lemma decode_nibbles_sound:
  "\<lbrakk>\<forall>n \<in> set ns. n < 16; decode_nibbles ns dst s f = Ok ((s', f'), dst'); pad_ok s f\<rbrakk> \<Longrightarrow>
   \<exists>out. dst' = dst @ out \<and> state_bits s @ nibbles_bits ns = huffman_bits out @ state_bits s'
     \<and> pad_ok s' f'"
proof (induction ns arbitrary: dst s f)
  case Nil
  then show ?case by (simp add: nibbles_bits_def)
next
  case (Cons n ns)
  obtain s1 b f1 where e: "HUFFMAN_DECODE ! unat s ! n = (s1, b, f1)" by (metis prod_cases3)
  have n: "n < 16" using Cons.prems by simp
  note step = table_step [OF n e]
  let ?out1 = "if f1 AND 2 = 2 then [b] else []"
  have f1: "f1 AND 4 \<noteq> 4" and rest: "decode_nibbles ns (dst @ ?out1) s1 f1 = Ok ((s', f'), dst')"
    using Cons.prems(2) e by (auto simp: huffman_decode_nibble_def split: if_splits)
  obtain out where out: "dst' = (dst @ ?out1) @ out"
    "state_bits s1 @ nibbles_bits ns = huffman_bits out @ state_bits s'" "pad_ok s' f'"
    using Cons.IH [OF _ rest step(4) [OF f1]] Cons.prems(1) by auto
  have "state_bits s @ nat_bits 4 n = huffman_bits ?out1 @ state_bits s1"
    using step(2,3) [OF f1] by simp
  then have "state_bits s @ nibbles_bits (n # ns) = huffman_bits (?out1 @ out) @ state_bits s'"
    using out(2) by (simp del: append_assoc add: append_assoc [symmetric]) simp
  then show ?case using out by (intro exI [of _ "?out1 @ out"]) simp
qed

text \<open>The decoder reads every padded code word.\<close>

lemma code_not_ones:
  assumes "c < 256" "k \<le> 30"
  shows "\<not> prefix (code_bits c) (replicate k True)"
proof
  assume "prefix (code_bits c) (replicate k True)"
  moreover have "prefix (replicate k True) (code_bits 256)"
    using assms(2) by (intro prefixI [of _ _ "replicate (30 - k) True"])
      (simp add: eos_bits flip: replicate_add)
  ultimately show False using code_prefix_free [of c 256] assms(1) by (auto dest: prefix_order.trans)
qed

lemma no_code_in_state:
  assumes "c < 256"
  shows "\<not> prefix (code_bits c) (state_bits s)"
proof
  assume pre: "prefix (code_bits c) (state_bits s)"
  obtain x where x: "x < 257" "strict_prefix (state_bits s) (code_bits x)"
    by (rule state_bits_extend)
  then have "strict_prefix (code_bits c) (code_bits x)"
    using pre by (meson prefix_order.le_less_trans)
  then show False using code_prefix_free [of c x] assms x(1) by (auto simp: strict_prefix_def)
qed

lemma first_code:
  assumes "x < 257" "prefix (code_bits x) (huffman_bits out @ replicate k True)" "k < 8"
  obtains c cs where "out = c # cs" "x = unat c"
proof (cases out)
  case Nil
  then have "prefix (code_bits x) (replicate k True)" using assms(2) by simp
  moreover from prefix_length_le [OF this] have "x \<noteq> 256"
    using assms(3) by (auto simp: eos_bits)
  ultimately show thesis using code_not_ones [of x k] assms(1,3) by simp
next
  case (Cons c cs)
  have "x = unat c"
    by (rule codes_comparable [OF assms(1) _ assms(2)])
      (simp_all add: Cons less_trans [OF unat_u8_less])
  then show thesis using that Cons by simp
qed

lemma decode_nibbles_complete:
  "\<lbrakk>\<forall>n \<in> set ns. n < 16; k < 8;
    state_bits s @ nibbles_bits ns = huffman_bits out @ replicate k True\<rbrakk> \<Longrightarrow>
   \<exists>s' f'. decode_nibbles ns dst s f = Ok ((s', f'), dst @ out) \<and> state_bits s' = replicate k True"
proof (induction ns arbitrary: dst s f out)
  case Nil
  have "out = []"
  proof (cases out)
    case (Cons c cs)
    then have "prefix (code_bits (unat c)) (state_bits s)" using Nil.prems
      by (simp add: nibbles_bits_def)
    then show ?thesis using no_code_in_state [of "unat c" s] by simp
  qed
  then show ?case using Nil.prems by (simp add: nibbles_bits_def)
next
  case (Cons n ns)
  obtain s1 b f1 where e: "HUFFMAN_DECODE ! unat s ! n = (s1, b, f1)" by (metis prod_cases3)
  have n: "n < 16" and ns: "\<forall>n \<in> set ns. n < 16" using Cons.prems(1) by simp_all
  note step = table_step [OF n e]
  have all: "huffman_bits out @ replicate k True = (state_bits s @ nat_bits 4 n) @ nibbles_bits ns"
    using Cons.prems(3) by simp
  have f1: "f1 AND 4 \<noteq> 4"
  proof
    assume "f1 AND 4 = 4"
    then have "prefix (code_bits 256) (huffman_bits out @ replicate k True)"
      unfolding all by (simp only: step(1) prefix_prefix)
    then obtain c :: u8 where "256 = unat c" using first_code [of 256 out k] Cons.prems(2) by auto
    then show False by (metis less_irrefl unat_u8_less)
  qed
  show ?case
  proof (cases "f1 AND 2 = 2")
    case True
    note bits = step(2) [OF f1 True]
    have "prefix (code_bits (unat b)) (huffman_bits out @ replicate k True)"
      by (simp add: all [unfolded bits])
    then obtain cs where cs: "out = b # cs"
      by (rule first_code [rotated 1]) (simp_all add: less_trans [OF unat_u8_less] Cons.prems(2) word_unat_eq_iff)
    then have "state_bits s1 @ nibbles_bits ns = huffman_bits cs @ replicate k True"
      using all [unfolded bits] by simp
    from Cons.IH [OF ns Cons.prems(2) this, of "dst @ [b]" f1] show ?thesis
      using e f1 True cs by (simp add: huffman_decode_nibble_def)
  next
    case False
    note bits = step(3) [OF f1 False]
    have "state_bits s1 @ nibbles_bits ns = huffman_bits out @ replicate k True"
      using all [unfolded bits] by simp
    from Cons.IH [OF ns Cons.prems(2) this, of dst f1] show ?thesis
      using e f1 False by (simp add: huffman_decode_nibble_def)
  qed
qed

section \<open>Decoding and encoding are inverse\<close>

lemma decode_nibble_not_Panic [simp]: "huffman_decode_nibble n dst s \<noteq> Panic"
  by (simp add: huffman_decode_nibble_def split: prod.split)

lemma decode_inner_not_Panic [simp]: "huffman_decode_inner src dst s f \<noteq> Panic"
  by (induction src arbitrary: dst s f) (simp_all add: Let_def split: rust_result.split prod.split)

lemma huffman_decode_not_Panic [simp]: "huffman_decode src dst \<noteq> Panic"
  by (simp add: huffman_decode_def split: rust_result.split prod.split)

lemma pad_length_unique:
  assumes "bytes_bits xs = bs @ replicate j True" "bytes_bits ys = bs @ replicate k True"
    "j < 8" "k < 8"
  shows "xs = ys"
proof -
  have "(length bs + j) mod 8 = 0" "(length bs + k) mod 8 = 0"
    using arg_cong [OF assms(1), of length] arg_cong [OF assms(2), of length]
    by (metis length_append length_bytes_bits length_replicate mod_mult_self1_is_0)+
  then have "j = k" using assms(3,4) by presburger
  then show ?thesis using assms(1,2) by (simp flip: bytes_bits_eq_iff)
qed

lemma encode_unique:
  assumes "bytes_bits src = huffman_bits out @ replicate k True" "k < 8"
  shows "src = huffman_encode out []"
  using huffman_encode_bits [of out "[]"] pad_length_unique [OF assms(1) _ assms(2)] by fastforce

lemma pad_ok_start: "pad_ok 0 f" by (simp add: pad_ok_def)

lemma and_1_cases: "(f :: u8) AND 1 = 0 \<longleftrightarrow> f AND 1 \<noteq> 1"
  by (simp add: and_one_eq)

lemma huffman_decode_encode:
  "huffman_decode src dst = Ok (dst @ out) \<longleftrightarrow> src = huffman_encode out []"
proof
  assume "huffman_decode src dst = Ok (dst @ out)"
  then obtain s f where run: "decode_nibbles (nibbles src) dst 0 0 = Ok ((s, f), dst @ out)"
    and ok: "s = 0 \<or> f AND 1 = 1"
    by (auto simp: huffman_decode_def decode_inner_nibbles and_1_cases
        split: rust_result.splits if_splits)
  have bits: "bytes_bits src = huffman_bits out @ state_bits s" and pad: "pad_ok s f"
    using decode_nibbles_sound [OF nibbles_less run pad_ok_start]
    by (simp_all add: nibbles_bits_nibbles)
  obtain k where "k < 8" "state_bits s = replicate k True"
    using ok pad state_bits_0 by (auto simp: pad_ok_def)
  then show "src = huffman_encode out []" using encode_unique bits by simp
next
  assume "src = huffman_encode out []"
  then obtain k where k: "k < 8" "bytes_bits src = huffman_bits out @ replicate k True"
    using huffman_encode_bits [of out "[]"] by auto
  then obtain s f where run: "decode_nibbles (nibbles src) dst 0 0 = Ok ((s, f), dst @ out)"
    and s: "state_bits s = replicate k True"
    using decode_nibbles_complete [OF nibbles_less k(1), of 0 src out dst 0]
    by (auto simp: nibbles_bits_nibbles)
  have "pad_ok s f" using decode_nibbles_sound [OF nibbles_less run pad_ok_start] by simp
  then have "s = 0 \<or> f AND 1 = 1" using s k(1) by (auto simp: pad_ok_def)
  then show "huffman_decode src dst = Ok (dst @ out)"
    using run by (auto simp: huffman_decode_def decode_inner_nibbles and_1_cases)
qed

text \<open>
  C9. The Huffman decoder and encoder are inverse: decoding succeeds with \<open>out\<close> appended to the
  destination exactly when the source is what the encoder writes for \<open>out\<close>. In particular every
  encoded string decodes to itself, and padding that is too long, is not all ones, or holds the
  end-of-string code is refused.
\<close>

theorem huffman_decode_iff:
  "huffman_decode src dst = Ok (dst @ out) \<longleftrightarrow> src = huffman_encode out []"
  by (rule huffman_decode_encode)

lemma huffman_decode_extends:
  "huffman_decode src dst = Ok dst' \<Longrightarrow> \<exists>out. dst' = dst @ out"
  using decode_nibbles_sound [OF nibbles_less _ pad_ok_start, of src dst 0]
  by (fastforce simp: huffman_decode_def decode_inner_nibbles
      split: rust_result.splits if_splits prod.splits)

section \<open>Decoding in segments\<close>

fun HuffmanDecoder_decode_all ::
    "HuffmanDecoder \<Rightarrow> bytes list \<Rightarrow> (HuffmanDecoder, HuffmanDecodeError) rust_result" where
  "HuffmanDecoder_decode_all h [] = Ok h"
| "HuffmanDecoder_decode_all h (seg # segs) =
     (case HuffmanDecoder_decode h seg of
        Ok h \<Rightarrow> HuffmanDecoder_decode_all h segs
      | Err e \<Rightarrow> Err e
      | Panic \<Rightarrow> Panic)"

lemma decode_inner_append:
  "huffman_decode_inner (xs @ ys) dst s f =
     (case huffman_decode_inner xs dst s f of
        Ok ((s, f), dst) \<Rightarrow> huffman_decode_inner ys dst s f
      | Err e \<Rightarrow> Err e
      | Panic \<Rightarrow> Panic)"
  by (induction xs arbitrary: dst s f) (simp_all add: Let_def split: rust_result.split prod.split)

lemma decode_append:
  "HuffmanDecoder_decode h (xs @ ys) =
     (case HuffmanDecoder_decode h xs of
        Ok h \<Rightarrow> HuffmanDecoder_decode h ys
      | Err e \<Rightarrow> Err e
      | Panic \<Rightarrow> Panic)"
  by (simp add: HuffmanDecoder_decode_def decode_inner_append split: rust_result.split prod.split)

lemma decode_Nil [simp]: "HuffmanDecoder_decode h [] = Ok h"
  by (simp add: HuffmanDecoder_decode_def)

lemma decode_all_concat: "HuffmanDecoder_decode_all h segs = HuffmanDecoder_decode h (concat segs)"
  by (induction segs arbitrary: h) (simp_all add: decode_append split: rust_result.split)

text \<open>
  C20. The resumable Huffman decoder does not depend on how its input is cut: feeding any sequence
  of segments to a fresh decoder and finishing gives what the one-shot decoder gives on their
  concatenation, errors included.
\<close>

theorem huffman_segments:
  "(case HuffmanDecoder_decode_all HuffmanDecoder_new segs of
      Ok h \<Rightarrow> HuffmanDecoder_finish h
    | Err e \<Rightarrow> Err e
    | Panic \<Rightarrow> Panic) = huffman_decode (concat segs) []"
  by (simp add: decode_all_concat HuffmanDecoder_decode_def HuffmanDecoder_new_def
      HuffmanDecoder_finish_def huffman_decode_def split: rust_result.split)

end
