(* ===== verification/Hpack_Repr_Decoder.thy ===== *)
theory Hpack_Repr_Decoder
  imports Hpack_Repr Resumable Huffman_Correct
begin

text \<open>
  The decoder of representations (\<open>ylong_http/src/h2/hpack/representation/decoder.rs\<close>): a
  hierarchy of states, each of which takes what bytes there are and returns a value, the state to
  resume from, or an error. Every \<open>decode\<close> takes the unread bytes and returns what is left of
  them.
\<close>

section \<open>States\<close>

datatype IndexInner =
    IndexInner_FirstByte
  | IndexInner_TrailingBytes PrefixBit IntegerDecoder

datatype LiteralString =
    LengthFirstByte
  | LengthTrailingBytes bool IntegerDecoder
  | AsciiStringBytes bytes nat
  | HuffmanStringBytes HuffmanDecoder nat nat

datatype ReprDecodeState =
    DecodeState_Index IndexInner
  | NameString PrefixBit LiteralString
  | ValueString PrefixBit Name LiteralString

section \<open>Index\<close>

fun TrailingBytes_decode ::
    "PrefixBit \<Rightarrow> IntegerDecoder \<Rightarrow> bytes \<Rightarrow> (PrefixBit \<times> nat, IndexInner) DecResult \<times> bytes" where
  "TrailingBytes_decode repr index [] = (NeedMore (IndexInner_TrailingBytes repr index), [])"
| "TrailingBytes_decode repr index (byte # buf) =
     (case IntegerDecoder_next_byte index byte of
        Inr (None, index) \<Rightarrow> TrailingBytes_decode repr index buf
      | Inr (Some idx, index) \<Rightarrow> (Decoded (repr, idx), buf)
      | Inl e \<Rightarrow> (DecResult_Error e, buf))"

definition FirstByte_decode :: "bytes \<Rightarrow> (PrefixBit \<times> nat, IndexInner) DecResult \<times> bytes" where
  "FirstByte_decode buf =
     (case buf of
        [] \<Rightarrow> (NeedMore IndexInner_FirstByte, [])
      | byte # buf \<Rightarrow>
          let repr = PrefixBit_from_u8 byte;
              msk = PrefixBit_prefix_index_mask repr
          in case IntegerDecoder_first_byte byte (mask_byte msk) of
               Inr idx \<Rightarrow> (Decoded (repr, idx), buf)
             | Inl dec \<Rightarrow> TrailingBytes_decode repr dec buf)"

definition IndexInner_decode ::
    "IndexInner \<Rightarrow> bytes \<Rightarrow> (PrefixBit \<times> nat, IndexInner) DecResult \<times> bytes" where
  "IndexInner_decode s buf =
     (case s of
        IndexInner_FirstByte \<Rightarrow> FirstByte_decode buf
      | IndexInner_TrailingBytes repr index \<Rightarrow> TrailingBytes_decode repr index buf)"

section \<open>Strings\<close>

definition AsciiStringBytes_decode ::
    "bytes \<Rightarrow> nat \<Rightarrow> bytes \<Rightarrow> (bytes, LiteralString) DecResult \<times> bytes" where
  "AsciiStringBytes_decode octets len buf =
     (if length buf + length octets \<ge> len
      then let pos = len - length octets
           in (Decoded (octets @ take pos buf), drop pos buf)
      else (NeedMore (AsciiStringBytes (octets @ buf) len), []))"

definition HuffmanStringBytes_decode ::
    "HuffmanDecoder \<Rightarrow> nat \<Rightarrow> nat \<Rightarrow> bytes \<Rightarrow> (bytes, LiteralString) DecResult \<times> bytes" where
  "HuffmanStringBytes_decode huffman read_bytes len buf =
     (if length buf + read_bytes \<ge> len
      then let pos = len - read_bytes
           in case HuffmanDecoder_decode huffman (take pos buf) of
                Ok huffman \<Rightarrow>
                  (case HuffmanDecoder_finish huffman of
                     Ok vec \<Rightarrow> (Decoded vec, drop pos buf)
                   | _ \<Rightarrow> (DecResult_Error (ConnectionError CompressionError), drop pos buf))
              | _ \<Rightarrow> (DecResult_Error (ConnectionError CompressionError), buf)
      else case HuffmanDecoder_decode huffman buf of
             Ok huffman \<Rightarrow> (NeedMore (HuffmanStringBytes huffman (read_bytes + length buf) len), [])
           | _ \<Rightarrow> (DecResult_Error (ConnectionError CompressionError), buf))"

definition string_bytes_decode ::
    "bool \<Rightarrow> nat \<Rightarrow> bytes \<Rightarrow> (bytes, LiteralString) DecResult \<times> bytes" where
  "string_bytes_decode is_huffman len buf =
     (if is_huffman then HuffmanStringBytes_decode HuffmanDecoder_new 0 len buf
      else AsciiStringBytes_decode [] len buf)"

fun LengthTrailingBytes_decode ::
    "bool \<Rightarrow> IntegerDecoder \<Rightarrow> bytes \<Rightarrow> (bytes, LiteralString) DecResult \<times> bytes" where
  "LengthTrailingBytes_decode is_huffman len [] =
     (NeedMore (LengthTrailingBytes is_huffman len), [])"
| "LengthTrailingBytes_decode is_huffman len (byte # buf) =
     (case IntegerDecoder_next_byte len byte of
        Inr (None, len) \<Rightarrow> LengthTrailingBytes_decode is_huffman len buf
      | Inl e \<Rightarrow> (DecResult_Error e, buf)
      | Inr (Some l, len) \<Rightarrow> string_bytes_decode is_huffman l buf)"

definition LengthFirstByte_decode :: "bytes \<Rightarrow> (bytes, LiteralString) DecResult \<times> bytes" where
  "LengthFirstByte_decode buf =
     (case buf of
        [] \<Rightarrow> (NeedMore LengthFirstByte, [])
      | byte # buf \<Rightarrow>
          (case IntegerDecoder_first_byte byte 0x7f of
             Inr len \<Rightarrow> string_bytes_decode (byte AND 0x80 = 0x80) len buf
           | Inl dec \<Rightarrow> LengthTrailingBytes_decode (byte AND 0x80 = 0x80) dec buf))"

definition LiteralString_decode ::
    "LiteralString \<Rightarrow> bytes \<Rightarrow> (bytes, LiteralString) DecResult \<times> bytes" where
  "LiteralString_decode s buf =
     (case s of
        LengthFirstByte \<Rightarrow> LengthFirstByte_decode buf
      | LengthTrailingBytes is_huffman len \<Rightarrow> LengthTrailingBytes_decode is_huffman len buf
      | AsciiStringBytes octets len \<Rightarrow> AsciiStringBytes_decode octets len buf
      | HuffmanStringBytes huffman read_bytes len \<Rightarrow>
          HuffmanStringBytes_decode huffman read_bytes len buf)"

section \<open>Representations\<close>

definition ValueString_decode ::
    "PrefixBit \<Rightarrow> Name \<Rightarrow> LiteralString \<Rightarrow> bytes \<Rightarrow>
     (Representation, ReprDecodeState) DecResult \<times> bytes" where
  "ValueString_decode repr name inner buf =
     (case LiteralString_decode inner buf of
        (Decoded value, buf) \<Rightarrow>
          (Decoded (if repr = PrefixBit_LITERAL_WITH_INDEXING then LiteralWithIndexing name value
                    else if repr = PrefixBit_LITERAL_WITHOUT_INDEXING
                    then LiteralWithoutIndexing name value
                    else LiteralNeverIndexed name value), buf)
      | (NeedMore inner, buf) \<Rightarrow> (NeedMore (ValueString repr name inner), buf)
      | (DecResult_Error e, buf) \<Rightarrow> (DecResult_Error e, buf))"

definition NameString_decode ::
    "PrefixBit \<Rightarrow> LiteralString \<Rightarrow> bytes \<Rightarrow> (Representation, ReprDecodeState) DecResult \<times> bytes" where
  "NameString_decode repr inner buf =
     (case LiteralString_decode inner buf of
        (Decoded octets, buf) \<Rightarrow> ValueString_decode repr (Name_Literal octets) LengthFirstByte buf
      | (NeedMore inner, buf) \<Rightarrow> (NeedMore (NameString repr inner), buf)
      | (DecResult_Error e, buf) \<Rightarrow> (DecResult_Error e, buf))"

definition Index_decode ::
    "IndexInner \<Rightarrow> bytes \<Rightarrow> (Representation, ReprDecodeState) DecResult \<times> bytes" where
  "Index_decode inner buf =
     (case IndexInner_decode inner buf of
        (Decoded (repr, index), buf) \<Rightarrow>
          (if repr = PrefixBit_INDEXED
           then if index = 0 then (DecResult_Error (ConnectionError CompressionError), buf)
                else (Decoded (Repr_Indexed index), buf)
           else if repr = PrefixBit_SIZE_UPDATE then (Decoded (SizeUpdate index), buf)
           else if index = 0 then NameString_decode repr LengthFirstByte buf
           else ValueString_decode repr (Name_Index index) LengthFirstByte buf)
      | (NeedMore inner, buf) \<Rightarrow> (NeedMore (DecodeState_Index inner), buf)
      | (DecResult_Error e, buf) \<Rightarrow> (DecResult_Error e, buf))"

definition ReprDecodeState_decode ::
    "ReprDecodeState \<Rightarrow> bytes \<Rightarrow> (Representation, ReprDecodeState) DecResult \<times> bytes" where
  "ReprDecodeState_decode s buf =
     (case s of
        DecodeState_Index inner \<Rightarrow> Index_decode inner buf
      | NameString repr inner \<Rightarrow> NameString_decode repr inner buf
      | ValueString repr name inner \<Rightarrow> ValueString_decode repr name inner buf)"

section \<open>The decoder\<close>

record ReprDecoder =
  rd_buf :: bytes
  rd_state :: "ReprDecodeState option"

definition ReprDecoder_new :: "bytes \<Rightarrow> ReprDecoder" where
  "ReprDecoder_new buf = \<lparr>rd_buf = buf, rd_state = None\<rparr>"

definition ReprDecoder_decode ::
    "ReprDecoder \<Rightarrow> ReprDecoder \<times> (Representation option, H2Error) rust_result" where
  "ReprDecoder_decode d =
     (if rd_buf d = [] then (d, Ok None)
      else case ReprDecodeState_decode
                  (case rd_state d of None \<Rightarrow> DecodeState_Index IndexInner_FirstByte | Some s \<Rightarrow> s)
                  (rd_buf d) of
             (NeedMore state, buf) \<Rightarrow> (\<lparr>rd_buf = buf, rd_state = Some state\<rparr>, Ok None)
           | (Decoded repr, buf) \<Rightarrow> (\<lparr>rd_buf = buf, rd_state = None\<rparr>, Ok (Some repr))
           | (DecResult_Error e, buf) \<Rightarrow> (\<lparr>rd_buf = buf, rd_state = None\<rparr>, Err e))"

section \<open>Every state can be interrupted\<close>

lemma TrailingBytes_resumes: "resumes IndexInner_decode (TrailingBytes_decode repr index)"
proof (rule resumesI)
  fix xs ys
  show "resumes_at IndexInner_decode (TrailingBytes_decode repr index) xs ys"
  proof (induction xs arbitrary: index)
    case Nil
    show ?case by (simp add: resumes_at_def IndexInner_decode_def)
  next
    case (Cons b xs)
    show ?case
    proof (cases "IntegerDecoder_next_byte index b")
      case (Inl e)
      then show ?thesis by (simp add: resumes_at_def)
    next
      case (Inr p)
      then show ?thesis
      proof (cases p)
        case (Pair r d)
        then show ?thesis using Inr Cons.IH [of d]
          by (cases r) (simp add: resumes_at_Cons, simp add: resumes_at_def)
      qed
    qed
  qed
qed

lemma FirstByte_resumes: "resumes IndexInner_decode FirstByte_decode"
proof (rule resumes_byte)
  show "IndexInner_decode IndexInner_FirstByte = FirstByte_decode"
    by (simp add: fun_eq_iff IndexInner_decode_def)
  show "FirstByte_decode buf = (case buf of [] \<Rightarrow> (NeedMore IndexInner_FirstByte, [])
      | b # bs \<Rightarrow> FirstByte_decode (b # bs))" for buf
    by (cases buf) (simp_all add: FirstByte_decode_def)
  fix b :: u8
  let ?p = "PrefixBit_from_u8 b"
  let ?i = "IntegerDecoder_first_byte b (mask_byte (PrefixBit_prefix_index_mask ?p))"
  have "(\<lambda>bs. FirstByte_decode (b # bs)) =
     (case ?i of Inr idx \<Rightarrow> (\<lambda>bs. (Decoded (?p, idx), bs)) | Inl d \<Rightarrow> TrailingBytes_decode ?p d)"
    by (simp add: FirstByte_decode_def Let_def fun_eq_iff split: sum.split)
  then show "resumes IndexInner_decode (\<lambda>bs. FirstByte_decode (b # bs))"
    by (simp add: resumes_return TrailingBytes_resumes split: sum.split)
qed

lemma IndexInner_resumes: "resumes IndexInner_decode (IndexInner_decode inner)"
  using FirstByte_resumes TrailingBytes_resumes
  by (cases inner) (simp_all add: IndexInner_decode_def [abs_def])

interpretation index_dec: resumable_decoder IndexInner_decode
  by (rule resumable_decoderI) (rule IndexInner_resumes)

lemma AsciiStringBytes_resumes:
  "resumes LiteralString_decode (AsciiStringBytes_decode octets len)"
  by (rule resumesI)
    (auto simp: resumes_at_def AsciiStringBytes_decode_def LiteralString_decode_def Let_def)

lemma HuffmanStringBytes_resumes:
  "resumes LiteralString_decode (HuffmanStringBytes_decode huffman read_bytes len)"
proof (rule resumesI)
  fix xs ys
  let ?f = "HuffmanStringBytes_decode huffman read_bytes len"
  show "resumes_at LiteralString_decode ?f xs ys"
  proof (cases "len \<le> length xs + read_bytes")
    case True
    then have "take (len - read_bytes) (xs @ ys) = take (len - read_bytes) xs"
      "drop (len - read_bytes) (xs @ ys) = drop (len - read_bytes) xs @ ys" by simp_all
    then show ?thesis using True
      by (simp add: resumes_at_def HuffmanStringBytes_decode_def Let_def split: rust_result.split)
  next
    case False
    then have "take (len - read_bytes) (xs @ ys) = xs @ take (len - (read_bytes + length xs)) ys"
      "drop (len - read_bytes) (xs @ ys) = drop (len - (read_bytes + length xs)) ys" by simp_all
    then show ?thesis using False
      by (cases "HuffmanDecoder_decode huffman xs")
        (simp_all add: resumes_at_def HuffmanStringBytes_decode_def LiteralString_decode_def
          same_result_def decode_append Let_def add.assoc add.left_commute add.commute split: rust_result.split)
  qed
qed

lemma string_bytes_resumes: "resumes LiteralString_decode (string_bytes_decode is_huffman len)"
  using AsciiStringBytes_resumes HuffmanStringBytes_resumes
  by (cases is_huffman) (simp_all add: string_bytes_decode_def [abs_def])

lemma LengthTrailingBytes_resumes:
  "resumes LiteralString_decode (LengthTrailingBytes_decode is_huffman len)"
proof (rule resumesI)
  fix xs ys
  show "resumes_at LiteralString_decode (LengthTrailingBytes_decode is_huffman len) xs ys"
  proof (induction xs arbitrary: len)
    case Nil
    show ?case by (simp add: resumes_at_def LiteralString_decode_def)
  next
    case (Cons b xs)
    show ?case
    proof (cases "IntegerDecoder_next_byte len b")
      case (Inl e)
      then show ?thesis by (simp add: resumes_at_def)
    next
      case (Inr p)
      have "resumes_at LiteralString_decode (string_bytes_decode is_huffman l) xs ys" for l
        using string_bytes_resumes by (simp add: resumes_def)
      then show ?thesis using Inr Cons.IH [of "snd p"]
        by (cases p; cases "fst p") (simp_all add: resumes_at_Cons)
    qed
  qed
qed

lemma LengthFirstByte_resumes: "resumes LiteralString_decode LengthFirstByte_decode"
proof (rule resumes_byte)
  show "LiteralString_decode LengthFirstByte = LengthFirstByte_decode"
    by (simp add: fun_eq_iff LiteralString_decode_def)
  show "LengthFirstByte_decode buf = (case buf of [] \<Rightarrow> (NeedMore LengthFirstByte, [])
      | b # bs \<Rightarrow> LengthFirstByte_decode (b # bs))" for buf
    by (cases buf) (simp_all add: LengthFirstByte_decode_def)
  fix b :: u8
  have "(\<lambda>bs. LengthFirstByte_decode (b # bs)) =
     (case IntegerDecoder_first_byte b 0x7f of
        Inr len \<Rightarrow> string_bytes_decode (b AND 0x80 = 0x80) len
      | Inl d \<Rightarrow> LengthTrailingBytes_decode (b AND 0x80 = 0x80) d)"
    by (simp add: LengthFirstByte_decode_def fun_eq_iff split: sum.split)
  then show "resumes LiteralString_decode (\<lambda>bs. LengthFirstByte_decode (b # bs))"
    by (simp add: string_bytes_resumes LengthTrailingBytes_resumes split: sum.split)
qed

lemma LiteralString_resumes: "resumes LiteralString_decode (LiteralString_decode s)"
  using LengthFirstByte_resumes LengthTrailingBytes_resumes AsciiStringBytes_resumes
    HuffmanStringBytes_resumes
  by (cases s) (simp_all add: LiteralString_decode_def [abs_def])

interpretation string_dec: resumable_decoder LiteralString_decode
  by (rule resumable_decoderI) (rule LiteralString_resumes)

lemma ValueString_decode_bind:
  "ValueString_decode repr name inner =
     dec_bind (LiteralString_decode inner) (ValueString repr name)
       (\<lambda>value buf. (Decoded (if repr = PrefixBit_LITERAL_WITH_INDEXING then LiteralWithIndexing name value
                    else if repr = PrefixBit_LITERAL_WITHOUT_INDEXING
                    then LiteralWithoutIndexing name value
                    else LiteralNeverIndexed name value), buf))"
  by (simp add: fun_eq_iff ValueString_decode_def dec_bind_def)

lemma NameString_decode_bind:
  "NameString_decode repr inner =
     dec_bind (LiteralString_decode inner) (NameString repr)
       (\<lambda>octets. ValueString_decode repr (Name_Literal octets) LengthFirstByte)"
  by (simp add: fun_eq_iff NameString_decode_def dec_bind_def)

definition index_decoded ::
    "PrefixBit \<times> nat \<Rightarrow> bytes \<Rightarrow> (Representation, ReprDecodeState) DecResult \<times> bytes" where
  "index_decoded p =
     (if fst p = PrefixBit_INDEXED
      then if snd p = 0 then (\<lambda>buf. (DecResult_Error (ConnectionError CompressionError), buf))
           else (\<lambda>buf. (Decoded (Repr_Indexed (snd p)), buf))
      else if fst p = PrefixBit_SIZE_UPDATE then (\<lambda>buf. (Decoded (SizeUpdate (snd p)), buf))
      else if snd p = 0 then NameString_decode (fst p) LengthFirstByte
      else ValueString_decode (fst p) (Name_Index (snd p)) LengthFirstByte)"

lemma Index_decode_bind:
  "Index_decode inner = dec_bind (IndexInner_decode inner) DecodeState_Index index_decoded"
  by (auto simp: fun_eq_iff Index_decode_def dec_bind_def index_decoded_def
      split: prod.split DecResult.split)

lemma ValueString_resumes: "resumes ReprDecodeState_decode (ValueString_decode repr name inner)"
  unfolding ValueString_decode_bind
  by (rule resumes_bind [OF LiteralString_resumes resumes_return])
    (simp add: fun_eq_iff ReprDecodeState_decode_def ValueString_decode_bind)

lemma NameString_resumes: "resumes ReprDecodeState_decode (NameString_decode repr inner)"
  unfolding NameString_decode_bind
  by (rule resumes_bind [OF LiteralString_resumes ValueString_resumes])
    (simp add: fun_eq_iff ReprDecodeState_decode_def NameString_decode_bind)

lemma Index_resumes: "resumes ReprDecodeState_decode (Index_decode inner)"
  unfolding Index_decode_bind
  by (rule resumes_bind [OF IndexInner_resumes])
    (auto simp: index_decoded_def resumes_fail resumes_return NameString_resumes
      ValueString_resumes fun_eq_iff ReprDecodeState_decode_def Index_decode_bind)

interpretation repr_dec: resumable_decoder ReprDecodeState_decode
proof (rule resumable_decoderI)
  fix s
  show "resumes ReprDecodeState_decode (ReprDecodeState_decode s)"
    using Index_resumes NameString_resumes ValueString_resumes
    by (cases s) (simp_all add: ReprDecodeState_decode_def [abs_def])
qed

text \<open>
  A representation is decoded the same however its bytes are cut: feeding any sequence of
  segments to a fresh decoder state gives the result of decoding their concatenation at once, with
  the same unread rest; an error in one cut is the same error in every cut.
\<close>

theorem repr_segments:
  "same_result
     (ReprDecodeState_decode (DecodeState_Index IndexInner_FirstByte) (concat segs))
     (feed_segments ReprDecodeState_decode (DecodeState_Index IndexInner_FirstByte) segs)"
  by (rule repr_dec.feed_concat)
    (simp add: ReprDecodeState_decode_def Index_decode_def IndexInner_decode_def FirstByte_decode_def)

section \<open>Progress\<close>

lemma Index_decode_progress:
  assumes "Index_decode IndexInner_FirstByte buf = (Decoded repr, rest)"
  shows "length rest < length buf"
proof -
  obtain p r where inner: "IndexInner_decode IndexInner_FirstByte buf = (Decoded p, r)"
    and cont: "index_decoded p r = (Decoded repr, rest)"
    using assms by (auto simp: Index_decode_bind dec_bind_def split: prod.splits DecResult.splits)
  obtain b bs where buf: "buf = b # bs"
    using inner by (cases buf) (auto simp: IndexInner_decode_def FirstByte_decode_def)
  have "length r \<le> length bs"
  proof (cases "IntegerDecoder_first_byte b (mask_byte (PrefixBit_prefix_index_mask (PrefixBit_from_u8 b)))")
    case (Inl d)
    then show ?thesis using inner resumesD(2) [OF TrailingBytes_resumes]
      by (auto simp: buf IndexInner_decode_def FirstByte_decode_def)
  next
    case (Inr i)
    then show ?thesis using inner by (simp add: buf IndexInner_decode_def FirstByte_decode_def)
  qed
  moreover have "length rest \<le> length r"
    using cont resumesD(2) [OF NameString_resumes] resumesD(2) [OF ValueString_resumes]
    by (auto simp: index_decoded_def split: if_splits)
  ultimately show ?thesis by (simp add: buf)
qed

definition rd_rank :: "ReprDecoder \<Rightarrow> nat" where
  "rd_rank d = 2 * length (rd_buf d) + (if rd_state d = None then 0 else 1)"

lemma ReprDecoder_decode_progress:
  assumes "ReprDecoder_decode d = (d', Ok (Some repr))"
  shows "rd_rank d' < rd_rank d"
proof -
  let ?s = "case rd_state d of None \<Rightarrow> DecodeState_Index IndexInner_FirstByte | Some s \<Rightarrow> s"
  have dec: "ReprDecodeState_decode ?s (rd_buf d) = (Decoded repr, rd_buf d')"
    and d': "rd_state d' = None"
    using assms by (auto simp: ReprDecoder_decode_def split: if_splits prod.splits DecResult.splits)
  show ?thesis
  proof (cases "rd_state d")
    case None
    then show ?thesis using dec d' Index_decode_progress
      by (simp add: rd_rank_def ReprDecodeState_decode_def)
  next
    case (Some s)
    then show ?thesis using dec d' repr_dec.shrink [of s "rd_buf d" repr "rd_buf d'"]
      by (simp add: rd_rank_def)
  qed
qed

end
