(* ===== verification/Hpack_Repr_Encoder.thy ===== *)
theory Hpack_Repr_Encoder
  imports Resumable Hpack_Repr Huffman_Correct
begin

text \<open>
  The states of the representation encoder
  (\<open>ylong_http/src/h2/hpack/representation/encoder.rs\<close>): each writes into a buffer of a given
  length and, when the buffer is too short, returns the state to resume from. A call returns the
  bytes it writes to the front of the buffer and the result.
\<close>

section \<open>Integers and octets\<close>

definition pre_mask :: "bool \<Rightarrow> u8" where
  "pre_mask is_huffman = (if is_huffman then 0x80 else 0)"

definition Integer_index :: "nat \<Rightarrow> u8 \<Rightarrow> u8 \<Rightarrow> IntegerEncoder" where
  "Integer_index index msk pre = IntegerEncoder_new index msk pre"

definition Integer_length :: "nat \<Rightarrow> bool \<Rightarrow> IntegerEncoder" where
  "Integer_length len is_huffman = IntegerEncoder_new len 0x7f (pre_mask is_huffman)"

fun Integer_encode :: "IntegerEncoder writer" where
  "Integer_encode e 0 = (if IntegerEncoder_is_finish e then ([], Ok 0) else ([], Err e))"
| "Integer_encode e (Suc n) =
     (if IntegerEncoder_is_finish e then ([], Ok 0)
      else case IntegerEncoder_next_byte e of
             (None, e) \<Rightarrow> ([], Panic)
           | (Some b, e) \<Rightarrow>
               (case Integer_encode e n of
                  (w, Ok cur) \<Rightarrow> (b # w, Ok (cur + 1))
                | (w, r) \<Rightarrow> (b # w, r)))"

record Octets =
  oct_src :: bytes
  oct_idx :: nat

definition Octets_new :: "bytes \<Rightarrow> bool \<Rightarrow> Octets" where
  "Octets_new src is_huffman =
     (if is_huffman then \<lparr>oct_src = huffman_encode src [], oct_idx = 0\<rparr>
      else \<lparr>oct_src = src, oct_idx = 0\<rparr>)"

definition Octets_len :: "Octets \<Rightarrow> nat" where
  "Octets_len s = length (oct_src s)"

definition Octets_encode :: "Octets writer" where
  "Octets_encode s output_len =
     (let input_len = length (oct_src s) - oct_idx s
      in if input_len = 0 then ([], Ok 0)
         else if output_len \<ge> input_len then (drop (oct_idx s) (oct_src s), Ok input_len)
         else (take output_len (drop (oct_idx s) (oct_src s)),
               Err (s\<lparr>oct_idx := oct_idx s + output_len\<rparr>)))"

section \<open>Sequences of items\<close>

text \<open>
  The macro \<open>check_and_encode\<close>: encode an item that is still there behind the \<open>cur\<close> bytes written
  so far, drop it when it is done, and otherwise put back what is left of it and stop.
\<close>

fun check_and_encode ::
    "'i writer \<Rightarrow> ('s \<Rightarrow> 'i option) \<Rightarrow> ('i option \<Rightarrow> 's \<Rightarrow> 's) \<Rightarrow> nat \<Rightarrow>
     bytes \<times> (nat \<times> 's, 's) rust_result \<Rightarrow> bytes \<times> (nat \<times> 's, 's) rust_result" where
  "check_and_encode enc item put dst_len (w, Ok (cur, self)) =
     (case item self of
        None \<Rightarrow> (w, Ok (cur, self))
      | Some i \<Rightarrow>
          (case enc i (dst_len - cur) of
             (w', Ok len) \<Rightarrow> (w @ w', Ok (cur + len, put None self))
           | (w', Err e) \<Rightarrow> (w @ w', Err (put (Some e) self))
           | (w', Panic) \<Rightarrow> (w @ w', Panic)))"
| "check_and_encode enc item put dst_len (w, Err self) = (w, Err self)"
| "check_and_encode enc item put dst_len (w, Panic) = (w, Panic)"

definition items_done :: "bytes \<times> (nat \<times> 's, 's) rust_result \<Rightarrow> bytes \<times> (nat, 's) rust_result" where
  "items_done p =
     (case p of
        (w, Ok (cur, self)) \<Rightarrow> (w, Ok cur)
      | (w, Err self) \<Rightarrow> (w, Err self)
      | (w, Panic) \<Rightarrow> (w, Panic))"

record IndexAndValue =
  iv_index :: "IntegerEncoder option"
  iv_value_length :: "IntegerEncoder option"
  iv_value_octets :: "Octets option"

definition IndexAndValue_new :: IndexAndValue where
  "IndexAndValue_new = \<lparr>iv_index = None, iv_value_length = None, iv_value_octets = None\<rparr>"

definition IndexAndValue_set_index :: "IndexAndValue \<Rightarrow> nat \<Rightarrow> u8 \<Rightarrow> u8 \<Rightarrow> IndexAndValue" where
  "IndexAndValue_set_index s index msk pre = s\<lparr>iv_index := Some (Integer_index index msk pre)\<rparr>"

definition IndexAndValue_set_value :: "IndexAndValue \<Rightarrow> bytes \<Rightarrow> bool \<Rightarrow> IndexAndValue" where
  "IndexAndValue_set_value s value is_huffman =
     (let octets = Octets_new value is_huffman
      in s\<lparr>iv_value_length := Some (Integer_length (Octets_len octets) is_huffman),
           iv_value_octets := Some octets\<rparr>)"

definition IndexAndValue_encode :: "IndexAndValue writer" where
  "IndexAndValue_encode self dst_len =
     items_done
       (check_and_encode Octets_encode iv_value_octets (\<lambda>x s. s\<lparr>iv_value_octets := x\<rparr>) dst_len
         (check_and_encode Integer_encode iv_value_length (\<lambda>x s. s\<lparr>iv_value_length := x\<rparr>) dst_len
           (check_and_encode Integer_encode iv_index (\<lambda>x s. s\<lparr>iv_index := x\<rparr>) dst_len
             ([], Ok (0, self)))))"

record NameAndValue =
  nv_index :: "IntegerEncoder option"
  nv_name_length :: "IntegerEncoder option"
  nv_name_octets :: "Octets option"
  nv_value_length :: "IntegerEncoder option"
  nv_value_octets :: "Octets option"

definition NameAndValue_new :: NameAndValue where
  "NameAndValue_new =
     \<lparr>nv_index = None, nv_name_length = None, nv_name_octets = None,
      nv_value_length = None, nv_value_octets = None\<rparr>"

definition NameAndValue_set_index :: "NameAndValue \<Rightarrow> u8 \<Rightarrow> u8 \<Rightarrow> NameAndValue" where
  "NameAndValue_set_index s msk pre = s\<lparr>nv_index := Some (Integer_index 0 msk pre)\<rparr>"

definition NameAndValue_set_name_and_value ::
    "NameAndValue \<Rightarrow> bytes \<Rightarrow> bytes \<Rightarrow> bool \<Rightarrow> NameAndValue" where
  "NameAndValue_set_name_and_value s name value is_huffman =
     (let name_octets = Octets_new name is_huffman;
          value_octets = Octets_new value is_huffman
      in s\<lparr>nv_name_length := Some (Integer_length (Octets_len name_octets) is_huffman),
           nv_name_octets := Some name_octets,
           nv_value_length := Some (Integer_length (Octets_len value_octets) is_huffman),
           nv_value_octets := Some value_octets\<rparr>)"

definition NameAndValue_encode :: "NameAndValue writer" where
  "NameAndValue_encode self dst_len =
     items_done
       (check_and_encode Octets_encode nv_value_octets (\<lambda>x s. s\<lparr>nv_value_octets := x\<rparr>) dst_len
         (check_and_encode Integer_encode nv_value_length (\<lambda>x s. s\<lparr>nv_value_length := x\<rparr>) dst_len
           (check_and_encode Octets_encode nv_name_octets (\<lambda>x s. s\<lparr>nv_name_octets := x\<rparr>) dst_len
             (check_and_encode Integer_encode nv_name_length (\<lambda>x s. s\<lparr>nv_name_length := x\<rparr>) dst_len
               (check_and_encode Integer_encode nv_index (\<lambda>x s. s\<lparr>nv_index := x\<rparr>) dst_len
                 ([], Ok (0, self)))))))"

section \<open>Representations\<close>

datatype ReprEncodeState =
    EncodeState_Indexed IntegerEncoder
  | Indexing IndexAndValue
  | IndexingWithName NameAndValue
  | WithoutIndexing IndexAndValue
  | WithoutIndexingWithName NameAndValue
  | NeverIndexed IndexAndValue
  | NeverIndexedWithName NameAndValue

definition Indexed_new :: "nat \<Rightarrow> ReprEncodeState" where
  "Indexed_new index =
     EncodeState_Indexed (Integer_index index (mask_byte PrefixIndexMask_INDEXED) 0x80)"

definition Indexing_new :: "nat \<Rightarrow> bytes \<Rightarrow> bool \<Rightarrow> ReprEncodeState" where
  "Indexing_new index value is_huffman =
     Indexing (IndexAndValue_set_value (IndexAndValue_set_index IndexAndValue_new index
       (mask_byte PrefixIndexMask_LITERAL_WITH_INDEXING) 0x40) value is_huffman)"

definition IndexingWithName_new :: "bytes \<Rightarrow> bytes \<Rightarrow> bool \<Rightarrow> ReprEncodeState" where
  "IndexingWithName_new name value is_huffman =
     IndexingWithName (NameAndValue_set_name_and_value (NameAndValue_set_index NameAndValue_new
       (mask_byte PrefixIndexMask_LITERAL_WITH_INDEXING) 0x40) name value is_huffman)"

definition WithoutIndexing_new :: "nat \<Rightarrow> bytes \<Rightarrow> bool \<Rightarrow> ReprEncodeState" where
  "WithoutIndexing_new index value is_huffman =
     WithoutIndexing (IndexAndValue_set_value (IndexAndValue_set_index IndexAndValue_new index
       (mask_byte PrefixIndexMask_LITERAL_WITHOUT_INDEXING) 0x00) value is_huffman)"

definition WithoutIndexingWithName_new :: "bytes \<Rightarrow> bytes \<Rightarrow> bool \<Rightarrow> ReprEncodeState" where
  "WithoutIndexingWithName_new name value is_huffman =
     WithoutIndexingWithName (NameAndValue_set_name_and_value (NameAndValue_set_index NameAndValue_new
       (mask_byte PrefixIndexMask_LITERAL_WITHOUT_INDEXING) 0x00) name value is_huffman)"

definition NeverIndexed_new :: "nat \<Rightarrow> bytes \<Rightarrow> bool \<Rightarrow> ReprEncodeState" where
  "NeverIndexed_new index value is_huffman =
     NeverIndexed (IndexAndValue_set_value (IndexAndValue_set_index IndexAndValue_new index
       (mask_byte PrefixIndexMask_LITERAL_NEVER_INDEXED) 0x10) value is_huffman)"

definition NeverIndexedWithName_new :: "bytes \<Rightarrow> bytes \<Rightarrow> bool \<Rightarrow> ReprEncodeState" where
  "NeverIndexedWithName_new name value is_huffman =
     NeverIndexedWithName (NameAndValue_set_name_and_value (NameAndValue_set_index NameAndValue_new
       (mask_byte PrefixIndexMask_LITERAL_NEVER_INDEXED) 0x10) name value is_huffman)"

definition map_err ::
    "('s \<Rightarrow> 't) \<Rightarrow> bytes \<times> (nat, 's) rust_result \<Rightarrow> bytes \<times> (nat, 't) rust_result" where
  "map_err f p =
     (case p of
        (w, Ok n) \<Rightarrow> (w, Ok n)
      | (w, Err s) \<Rightarrow> (w, Err (f s))
      | (w, Panic) \<Rightarrow> (w, Panic))"

definition ReprEncodeState_encode :: "ReprEncodeState writer" where
  "ReprEncodeState_encode s dst_len =
     (case s of
        EncodeState_Indexed i \<Rightarrow> map_err EncodeState_Indexed (Integer_encode i dst_len)
      | Indexing i \<Rightarrow> map_err Indexing (IndexAndValue_encode i dst_len)
      | IndexingWithName i \<Rightarrow> map_err IndexingWithName (NameAndValue_encode i dst_len)
      | WithoutIndexing i \<Rightarrow> map_err WithoutIndexing (IndexAndValue_encode i dst_len)
      | WithoutIndexingWithName i \<Rightarrow> map_err WithoutIndexingWithName (NameAndValue_encode i dst_len)
      | NeverIndexed i \<Rightarrow> map_err NeverIndexed (IndexAndValue_encode i dst_len)
      | NeverIndexedWithName i \<Rightarrow> map_err NeverIndexedWithName (NameAndValue_encode i dst_len))"

section \<open>Every state is a resumable writer\<close>

definition writes :: "('s \<Rightarrow> bytes) \<Rightarrow> 's \<Rightarrow> nat \<Rightarrow> bytes \<times> (nat, 's) rust_result \<Rightarrow> bool" where
  "writes out s n p \<longleftrightarrow>
     (case p of
        (w, Ok k) \<Rightarrow> w = out s \<and> k = length w \<and> k \<le> n
      | (w, Err s') \<Rightarrow> length w = n \<and> w @ out s' = out s \<and> out s' \<noteq> []
      | (w, Panic) \<Rightarrow> False)"

lemma resumable_writerI:
  assumes "\<And>s n. writes out s n (enc s n)"
  shows "resumable_writer enc out"
proof
  fix s n
  have w: "writes out s n (enc s n)" by (rule assms)
  show "length (out s) \<le> n \<Longrightarrow> enc s n = (out s, Ok (length (out s)))"
  proof (cases "enc s n")
    case (Pair v r)
    assume le: "length (out s) \<le> n"
    show ?thesis
    proof (cases r)
      case (Err s')
      have "length (v @ out s') \<le> n" "length v = n" "out s' \<noteq> []"
        using w Pair Err le by (simp_all add: writes_def)
      then show ?thesis by simp
    qed (use w Pair in \<open>auto simp: writes_def\<close>)
  qed
  assume "n < length (out s)"
  then obtain w s' where "enc s n = (w, Err s')" "length w = n" "w @ out s' = out s"
    using w by (auto simp: writes_def split: prod.splits rust_result.splits)
  moreover from this have "w = take n (out s)" "out s' = drop n (out s)"
    by (metis append_eq_conv_conj)+
  ultimately show "\<exists>s'. enc s n = (take n (out s), Err s') \<and> out s' = drop n (out s)" by auto
qed

context resumable_writer
begin

lemma encode_writes: "writes pending_output s n (encode s n)"
  by (rule encode_cases [of s n]) (auto simp: writes_def)

end

lemma run_step:
  assumes "IntegerEncoder_next_byte e = (Some b, e')"
  shows "IntegerEncoder_run e = b # IntegerEncoder_run e'"
  using assms by (subst IntegerEncoder_run.simps) simp

lemma next_byte_None_iff: "fst (IntegerEncoder_next_byte e) = None \<longleftrightarrow> IntegerEncoder_is_finish e"
  by (simp add: IntegerEncoder_next_byte_def IntegerEncoder_is_finish_def
      split: IntegerEncodeState.split)

lemma next_byte_Some:
  assumes "\<not> IntegerEncoder_is_finish e"
  obtains b e' where "IntegerEncoder_next_byte e = (Some b, e')"
  using assms next_byte_None_iff [of e] by (cases "IntegerEncoder_next_byte e") auto

lemma run_finished: "IntegerEncoder_is_finish e \<Longrightarrow> IntegerEncoder_run e = []"
  by (simp add: IntegerEncoder_is_finish_def)

lemma run_unfinished: "\<not> IntegerEncoder_is_finish e \<Longrightarrow> IntegerEncoder_run e \<noteq> []"
  by (erule next_byte_Some) (simp add: run_step)

lemma Integer_writes: "writes IntegerEncoder_run e n (Integer_encode e n)"
proof (induction n arbitrary: e)
  case 0
  then show ?case using run_finished [of e] run_unfinished [of e] by (simp add: writes_def)
next
  case (Suc n)
  show ?case
  proof (cases "IntegerEncoder_is_finish e")
    case True
    then show ?thesis by (simp add: writes_def run_finished)
  next
    case False
    then obtain b e' where "IntegerEncoder_next_byte e = (Some b, e')" by (rule next_byte_Some)
    then show ?thesis using False Suc.IH [of e']
      by (auto simp: writes_def run_step split: prod.splits rust_result.splits)
  qed
qed

interpretation integer_writer: resumable_writer Integer_encode IntegerEncoder_run
  by (rule resumable_writerI) (rule Integer_writes)

definition Octets_output :: "Octets \<Rightarrow> bytes" where
  "Octets_output s = drop (oct_idx s) (oct_src s)"

interpretation octets_writer: resumable_writer Octets_encode Octets_output
proof (rule resumable_writerI)
  fix s n
  show "writes Octets_output s n (Octets_encode s n)"
    by (auto simp: writes_def Octets_encode_def Octets_output_def Let_def add.commute
        simp flip: drop_drop)
qed

subsection \<open>Sequences\<close>

definition opt_output :: "('i \<Rightarrow> bytes) \<Rightarrow> 'i option \<Rightarrow> bytes" where
  "opt_output out x = (case x of None \<Rightarrow> [] | Some i \<Rightarrow> out i)"

lemma opt_output_simps [simp]: "opt_output out None = []" "opt_output out (Some i) = out i"
  by (simp_all add: opt_output_def)

text \<open>
  \<open>progress Q n whole out p\<close>: so far a part of \<open>whole\<close> is written, the state stands for the rest,
  and \<open>Q\<close> holds of a state that may go on.
\<close>

definition progress ::
    "('s \<Rightarrow> bool) \<Rightarrow> nat \<Rightarrow> bytes \<Rightarrow> ('s \<Rightarrow> bytes) \<Rightarrow> bytes \<times> (nat \<times> 's, 's) rust_result \<Rightarrow> bool" where
  "progress Q n whole out p \<longleftrightarrow>
     (case p of
        (w, Ok (cur, s)) \<Rightarrow> Q s \<and> cur = length w \<and> cur \<le> n \<and> w @ out s = whole
      | (w, Err s) \<Rightarrow> length w = n \<and> w @ out s = whole \<and> out s \<noteq> []
      | (w, Panic) \<Rightarrow> False)"

context resumable_writer
begin

lemma check_progress:
  assumes p: "progress Q n whole out p"
    and head: "\<And>s. Q s \<Longrightarrow> out s = opt_output pending_output (item s) @ tail_out s"
    and put: "\<And>x s. Q s \<Longrightarrow> item (put x s) = x \<and> tail_out (put x s) = tail_out s \<and> Q (put x s)"
  shows "progress (\<lambda>s. Q s \<and> item s = None) n whole out (check_and_encode encode item put n p)"
proof (cases p)
  case (Pair w r)
  show ?thesis
  proof (cases r)
    case (Ok cs)
    obtain cur s where cs: "cs = (cur, s)" by force
    have s: "Q s" "cur = length w" "cur \<le> n" "w @ out s = whole"
      using p Pair Ok cs by (simp_all add: progress_def)
    show ?thesis
    proof (cases "item s")
      case None
      then show ?thesis using s Pair Ok cs by (simp add: progress_def)
    next
      case (Some i)
      obtain w' r' where enc: "encode i (n - cur) = (w', r')" by force
      have "writes pending_output i (n - cur) (w', r')"
        using encode_writes [of i "n - cur"] enc by simp
      then show ?thesis using s Pair Ok cs Some enc head [OF s(1)] put [OF s(1)]
          head [OF put [OF s(1), THEN conjunct2, THEN conjunct2]]
        by (cases r') (auto simp: writes_def progress_def)
    qed
  qed (use p Pair in \<open>auto simp: progress_def\<close>)
qed

end

lemma items_done_writes:
  assumes "progress Q n (out s) out p" and "\<And>s. Q s \<Longrightarrow> out s = []"
  shows "writes out s n (items_done p)"
  using assms by (auto simp: progress_def writes_def items_done_def split: prod.splits rust_result.splits)

lemma progress_start: "progress (\<lambda>_. True) n (out s) out ([], Ok (0, s))"
  by (simp add: progress_def)

definition IndexAndValue_output :: "IndexAndValue \<Rightarrow> bytes" where
  "IndexAndValue_output s =
     opt_output IntegerEncoder_run (iv_index s) @ opt_output IntegerEncoder_run (iv_value_length s) @
     opt_output Octets_output (iv_value_octets s)"

interpretation index_value_writer: resumable_writer IndexAndValue_encode IndexAndValue_output
proof (rule resumable_writerI)
  fix s n
  show "writes IndexAndValue_output s n (IndexAndValue_encode s n)"
    unfolding IndexAndValue_encode_def
    by (rule items_done_writes,
        rule octets_writer.check_progress [where tail_out = "\<lambda>s. []"],
        rule integer_writer.check_progress [where tail_out = "\<lambda>s. opt_output Octets_output (iv_value_octets s)"],
        rule integer_writer.check_progress [where tail_out = "\<lambda>s. opt_output IntegerEncoder_run (iv_value_length s) @ opt_output Octets_output (iv_value_octets s)"],
        rule progress_start)
      (auto simp: IndexAndValue_output_def)
qed

definition NameAndValue_output :: "NameAndValue \<Rightarrow> bytes" where
  "NameAndValue_output s =
     opt_output IntegerEncoder_run (nv_index s) @ opt_output IntegerEncoder_run (nv_name_length s) @
     opt_output Octets_output (nv_name_octets s) @ opt_output IntegerEncoder_run (nv_value_length s) @
     opt_output Octets_output (nv_value_octets s)"

interpretation name_value_writer: resumable_writer NameAndValue_encode NameAndValue_output
proof (rule resumable_writerI)
  fix s n
  show "writes NameAndValue_output s n (NameAndValue_encode s n)"
    unfolding NameAndValue_encode_def
    by (rule items_done_writes,
        rule octets_writer.check_progress [where tail_out = "\<lambda>s. []"],
        rule integer_writer.check_progress [where tail_out = "\<lambda>s. opt_output Octets_output (nv_value_octets s)"],
        rule octets_writer.check_progress [where tail_out = "\<lambda>s. opt_output IntegerEncoder_run (nv_value_length s) @ opt_output Octets_output (nv_value_octets s)"],
        rule integer_writer.check_progress [where tail_out = "\<lambda>s. opt_output Octets_output (nv_name_octets s) @ opt_output IntegerEncoder_run (nv_value_length s) @ opt_output Octets_output (nv_value_octets s)"],
        rule integer_writer.check_progress [where tail_out = "\<lambda>s. opt_output IntegerEncoder_run (nv_name_length s) @ opt_output Octets_output (nv_name_octets s) @ opt_output IntegerEncoder_run (nv_value_length s) @ opt_output Octets_output (nv_value_octets s)"],
        rule progress_start)
      (auto simp: NameAndValue_output_def)
qed

fun ReprEncodeState_output :: "ReprEncodeState \<Rightarrow> bytes" where
  "ReprEncodeState_output (EncodeState_Indexed i) = IntegerEncoder_run i"
| "ReprEncodeState_output (Indexing i) = IndexAndValue_output i"
| "ReprEncodeState_output (IndexingWithName i) = NameAndValue_output i"
| "ReprEncodeState_output (WithoutIndexing i) = IndexAndValue_output i"
| "ReprEncodeState_output (WithoutIndexingWithName i) = NameAndValue_output i"
| "ReprEncodeState_output (NeverIndexed i) = IndexAndValue_output i"
| "ReprEncodeState_output (NeverIndexedWithName i) = NameAndValue_output i"

lemma writes_map_err:
  "writes out s n p \<Longrightarrow> (\<And>s. out' (f s) = out s) \<Longrightarrow> writes out' (f s) n (map_err f p)"
  by (auto simp: writes_def map_err_def split: prod.splits rust_result.splits)

interpretation repr_writer: resumable_writer ReprEncodeState_encode ReprEncodeState_output
proof (rule resumable_writerI)
  fix s n
  show "writes ReprEncodeState_output s n (ReprEncodeState_encode s n)"
    by (cases s)
      (simp_all add: ReprEncodeState_encode_def, rule writes_map_err [OF integer_writer.encode_writes],
       simp, (rule writes_map_err [OF index_value_writer.encode_writes]
         writes_map_err [OF name_value_writer.encode_writes], simp)+)
qed

text \<open>
  Encoding a representation into buffers of any lengths yields its bytes: the buffers filled
  before the encoder reports completion are, concatenated, a prefix of the representation followed
  by exactly what the suspended state still stands for, and once the buffers together are long
  enough the encoder is done and has written all of it.
\<close>

theorem repr_write_segments:
  assumes "write_segments ReprEncodeState_encode s ns = (ws, r)"
  shows "ReprEncodeState_output s =
      concat ws @ (case r of None \<Rightarrow> [] | Some s' \<Rightarrow> ReprEncodeState_output s')
    \<and> (ns \<noteq> [] \<and> length (ReprEncodeState_output s) \<le> sum_list ns \<longrightarrow> r = None)"
  using repr_writer.segments_prefix [OF assms] repr_writer.segments_finish [of s ns] assms by auto

theorem repr_write_segments_witness:
  "ReprEncodeState_output (Indexing_new 1 [0x61, 0x62] False) = [0x41, 0x02, 0x61, 0x62]"
proof -
  have "write_segments ReprEncodeState_encode (Indexing_new 1 [0x61, 0x62] False) [1, 1, 0, 5]
      = ([[0x41], [0x02], [], [0x61, 0x62]], None)" by code_simp
  from repr_write_segments [OF this] show ?thesis by simp
qed

end
