(* ===== verification/Hpack_Repr_Roundtrip.thy ===== *)
theory Hpack_Repr_Roundtrip
  imports Hpack_Repr_Decoder Hpack_Repr_Encoder
begin

text \<open>
  Encoding and decoding of representations: the decoder reads back every representation the
  encoder can write and stops exactly at its end.
\<close>

section \<open>Integers in place\<close>

lemma masks: "0x7f = (mask 7 :: u8)" "0x3f = (mask 6 :: u8)" "0x0f = (mask 4 :: u8)"
  by (simp_all add: mask_eq_exp_minus_1)

lemma unat_or_disjoint:
  fixes a b :: u8
  assumes "a AND b = 0" "unat a + unat b < 256"
  shows "unat (a OR b) = unat a + unat b"
proof -
  have "a OR b = a + b" using assms(1) by (simp add: disjunctive_add_eq_or)
  then show ?thesis using assms(2) by (simp add: unat_plus_if')
qed

lemma run_first_byte:
  assumes "IntegerEncoder_run (IntegerEncoder_new i (mask n) pre) = b # bs"
    and "pre AND mask n = 0" "n \<le> 8" "unat pre + 2 ^ n \<le> 256"
  shows "unat b = unat pre + min i (2 ^ n - 1)"
proof -
  let ?v = "min i (2 ^ n - 1)"
  have v: "?v < 2 ^ n" by (simp add: min_less_iff_disj)
  then have v256: "?v < 256" using assms(4) by linarith
  have "word_of_nat (2 ^ n - 1) = (mask n :: u8)" by (simp add: mask_eq_exp_minus_1 of_nat_diff)
  then have b: "b = pre OR word_of_nat ?v"
    using assms(1) by (auto simp: run_new unat_mask_u8 [OF assms(3)] min_def split: if_splits)
  have "pre AND word_of_nat ?v = pre AND (word_of_nat ?v AND mask n)"
    by (simp only: and_mask_small [OF assms(3) v])
  also have "\<dots> = (pre AND mask n) AND word_of_nat ?v" by (simp only: ac_simps)
  finally have "pre AND word_of_nat ?v = 0" using assms(2) by simp
  moreover have "unat (word_of_nat ?v :: u8) = ?v" using v256 by (simp add: unat_of_nat)
  ultimately show ?thesis using b v assms(4) unat_or_disjoint [of pre "word_of_nat ?v"] by simp
qed

lemma run_not_Nil: "IntegerEncoder_run (IntegerEncoder_new i msk pre) \<noteq> []"
  by (simp add: run_new)

lemma TrailingBytes_feed:
  "IntegerDecoder_feed d bs = Inr (Inr (i, rest)) \<Longrightarrow>
   TrailingBytes_decode repr d bs = (Decoded (repr, i), rest)"
  by (induction d bs rule: IntegerDecoder_feed.induct) (auto split: sum.splits option.splits)

lemma LengthTrailingBytes_feed:
  "IntegerDecoder_feed d bs = Inr (Inr (i, rest)) \<Longrightarrow>
   LengthTrailingBytes_decode h d bs = string_bytes_decode h i rest"
  by (induction d bs rule: IntegerDecoder_feed.induct) (auto split: sum.splits option.splits)

lemma IndexInner_run:
  assumes "i < usize_limit" "pre AND mask n = 0" "n \<le> 8" "unat pre + 2 ^ n \<le> 256"
    and prefix: "\<And>b. unat pre \<le> unat b \<Longrightarrow> unat b < unat pre + 2 ^ n \<Longrightarrow> PrefixBit_from_u8 b = p"
    and "mask_byte (PrefixBit_prefix_index_mask p) = mask n"
  shows "IndexInner_decode IndexInner_FirstByte
      (IntegerEncoder_run (IntegerEncoder_new i (mask n) pre) @ rest) = (Decoded (p, i), rest)"
proof -
  obtain b bs where run: "IntegerEncoder_run (IntegerEncoder_new i (mask n) pre) = b # bs"
    using run_not_Nil by (cases "IntegerEncoder_run (IntegerEncoder_new i (mask n) pre)") auto
  have "unat b = unat pre + min i (2 ^ n - 1)" by (rule run_first_byte [OF run assms(2-4)])
  then have p: "PrefixBit_from_u8 b = p" by (intro prefix) (simp_all add: min_less_iff_disj)
  have "IntegerDecoder_start (mask n) b (bs @ rest) = Inr (Inr (i, rest))"
    by (rule start_run [OF assms(1,3,2) run])
  then show ?thesis using assms(6) p TrailingBytes_feed
    by (auto simp: run IndexInner_decode_def FirstByte_decode_def IntegerDecoder_start_def
        split: sum.splits)
qed

lemma prefix_mask:
  "mask_byte (PrefixBit_prefix_index_mask PrefixBit_INDEXED) = mask 7"
  "mask_byte (PrefixBit_prefix_index_mask PrefixBit_LITERAL_WITH_INDEXING) = mask 6"
  "mask_byte (PrefixBit_prefix_index_mask PrefixBit_LITERAL_NEVER_INDEXED) = mask 4"
  "mask_byte (PrefixBit_prefix_index_mask PrefixBit_LITERAL_WITHOUT_INDEXING) = mask 4"
  by (simp_all add: PrefixBit_prefix_index_mask_def prefix_consts masks)

lemma from_u8_ranges:
  "128 \<le> unat b \<Longrightarrow> PrefixBit_from_u8 b = PrefixBit_INDEXED"
  "64 \<le> unat b \<Longrightarrow> unat b < 128 \<Longrightarrow> PrefixBit_from_u8 b = PrefixBit_LITERAL_WITH_INDEXING"
  "16 \<le> unat b \<Longrightarrow> unat b < 32 \<Longrightarrow> PrefixBit_from_u8 b = PrefixBit_LITERAL_NEVER_INDEXED"
  "unat b < 16 \<Longrightarrow> PrefixBit_from_u8 b = PrefixBit_LITERAL_WITHOUT_INDEXING"
  by (simp_all add: PrefixBit_from_u8_def word_le_nat_alt)

lemma IndexInner_prefixes:
  assumes "i < usize_limit"
  shows "IndexInner_decode IndexInner_FirstByte
      (IntegerEncoder_run (IntegerEncoder_new i (mask 7) 0x80) @ rest) = (Decoded (PrefixBit_INDEXED, i), rest)"
    and "IndexInner_decode IndexInner_FirstByte
      (IntegerEncoder_run (IntegerEncoder_new i (mask 6) 0x40) @ rest)
        = (Decoded (PrefixBit_LITERAL_WITH_INDEXING, i), rest)"
    and "IndexInner_decode IndexInner_FirstByte
      (IntegerEncoder_run (IntegerEncoder_new i (mask 4) 0x10) @ rest)
        = (Decoded (PrefixBit_LITERAL_NEVER_INDEXED, i), rest)"
    and "IndexInner_decode IndexInner_FirstByte
      (IntegerEncoder_run (IntegerEncoder_new i (mask 4) 0x00) @ rest)
        = (Decoded (PrefixBit_LITERAL_WITHOUT_INDEXING, i), rest)"
proof -
  have disj: "(0x80 :: u8) AND mask 7 = 0" "(0x40 :: u8) AND mask 6 = 0" "(0x10 :: u8) AND mask 4 = 0"
    by (simp_all flip: masks)
  show "IndexInner_decode IndexInner_FirstByte
      (IntegerEncoder_run (IntegerEncoder_new i (mask 7) 0x80) @ rest) = (Decoded (PrefixBit_INDEXED, i), rest)"
    by (rule IndexInner_run [OF assms disj(1)]) (simp_all add: prefix_mask from_u8_ranges)
  show "IndexInner_decode IndexInner_FirstByte
      (IntegerEncoder_run (IntegerEncoder_new i (mask 6) 0x40) @ rest)
        = (Decoded (PrefixBit_LITERAL_WITH_INDEXING, i), rest)"
    by (rule IndexInner_run [OF assms disj(2)]) (simp_all add: prefix_mask from_u8_ranges)
  show "IndexInner_decode IndexInner_FirstByte
      (IntegerEncoder_run (IntegerEncoder_new i (mask 4) 0x10) @ rest)
        = (Decoded (PrefixBit_LITERAL_NEVER_INDEXED, i), rest)"
    by (rule IndexInner_run [OF assms disj(3)]) (simp_all add: prefix_mask from_u8_ranges)
  show "IndexInner_decode IndexInner_FirstByte
      (IntegerEncoder_run (IntegerEncoder_new i (mask 4) 0x00) @ rest)
        = (Decoded (PrefixBit_LITERAL_WITHOUT_INDEXING, i), rest)"
    by (rule IndexInner_run [OF assms]) (simp_all add: prefix_mask from_u8_ranges)
qed

section \<open>Strings in place\<close>

lemma Octets_new_output:
  "Octets_output (Octets_new v h) = (if h then huffman_encode v [] else v)"
  "Octets_len (Octets_new v h) = length (Octets_output (Octets_new v h))"
  by (simp_all add: Octets_new_def Octets_output_def Octets_len_def)

lemma HuffmanDecoder_encoded:
  obtains h where "HuffmanDecoder_decode HuffmanDecoder_new (huffman_encode v []) = Ok h"
    "HuffmanDecoder_finish h = Ok v"
proof -
  have "huffman_decode (huffman_encode v []) [] = Ok ([] @ v)"
    by (simp only: huffman_decode_encode)
  then show thesis using that
    by (auto simp: huffman_decode_def HuffmanDecoder_decode_def HuffmanDecoder_finish_def
        HuffmanDecoder_new_def split: rust_result.splits if_splits)
qed

lemma string_bytes_octets:
  "string_bytes_decode h (Octets_len (Octets_new v h)) (Octets_output (Octets_new v h) @ rest)
     = (Decoded v, rest)"
proof (cases h)
  case True
  obtain d where "HuffmanDecoder_decode HuffmanDecoder_new (huffman_encode v []) = Ok d"
    "HuffmanDecoder_finish d = Ok v" by (rule HuffmanDecoder_encoded)
  then show ?thesis using True
    by (simp add: string_bytes_decode_def HuffmanStringBytes_decode_def Octets_new_output Let_def)
next
  case False
  then show ?thesis
    by (simp add: string_bytes_decode_def AsciiStringBytes_decode_def Octets_new_output Let_def)
qed

definition literal_bytes :: "bytes \<Rightarrow> bool \<Rightarrow> bytes" where
  "literal_bytes v h =
     IntegerEncoder_run (Integer_length (Octets_len (Octets_new v h)) h) @ Octets_output (Octets_new v h)"

lemma LiteralString_literal:
  assumes "Octets_len (Octets_new v h) < usize_limit"
  shows "LiteralString_decode LengthFirstByte (literal_bytes v h @ rest) = (Decoded v, rest)"
proof -
  let ?len = "Octets_len (Octets_new v h)" and ?o = "Octets_output (Octets_new v h)"
  have run_eq: "IntegerEncoder_run (Integer_length ?len h)
      = IntegerEncoder_run (IntegerEncoder_new ?len (mask 7) (pre_mask h))"
    by (simp add: Integer_length_def masks)
  obtain b bs where run: "IntegerEncoder_run (IntegerEncoder_new ?len (mask 7) (pre_mask h)) = b # bs"
    using run_not_Nil by (cases "IntegerEncoder_run (IntegerEncoder_new ?len (mask 7) (pre_mask h))") auto
  have pre: "pre_mask h AND mask 7 = 0" by (simp add: pre_mask_def flip: masks)
  have b: "unat b = unat (pre_mask h) + min ?len (2 ^ 7 - 1)"
    by (rule run_first_byte [OF run pre]) (simp_all add: pre_mask_def)
  have huff: "128 \<le> unat b \<longleftrightarrow> h"
    using b by (cases h) (simp_all add: pre_mask_def)
  have "IntegerDecoder_start (mask 7) b (bs @ ?o @ rest) = Inr (Inr (?len, ?o @ rest))"
    by (rule start_run [OF assms _ pre run]) simp
  then show ?thesis using LengthTrailingBytes_feed [of _ "bs @ ?o @ rest" ?len "?o @ rest" h]
    by (auto simp: literal_bytes_def run_eq run LiteralString_decode_def LengthFirstByte_decode_def
        huff masks string_bytes_octets IntegerDecoder_start_def split: sum.splits)
qed

section \<open>Representations\<close>

text \<open>The encoder state for a representation; there is none for a size update.\<close>

fun encode_state :: "bool \<Rightarrow> Representation \<Rightarrow> ReprEncodeState option" where
  "encode_state h (Repr_Indexed i) = Some (Indexed_new i)"
| "encode_state h (LiteralWithIndexing (Name_Index i) v) = Some (Indexing_new i v h)"
| "encode_state h (LiteralWithIndexing (Name_Literal n) v) = Some (IndexingWithName_new n v h)"
| "encode_state h (LiteralWithoutIndexing (Name_Index i) v) = Some (WithoutIndexing_new i v h)"
| "encode_state h (LiteralWithoutIndexing (Name_Literal n) v) = Some (WithoutIndexingWithName_new n v h)"
| "encode_state h (LiteralNeverIndexed (Name_Index i) v) = Some (NeverIndexed_new i v h)"
| "encode_state h (LiteralNeverIndexed (Name_Literal n) v) = Some (NeverIndexedWithName_new n v h)"
| "encode_state h (SizeUpdate m) = None"

text \<open>What the wire format can carry: a proper index and strings whose length is a \<open>usize\<close>.\<close>

definition name_fits :: "bool \<Rightarrow> Name \<Rightarrow> bool" where
  "name_fits h n \<longleftrightarrow>
     (case n of
        Name_Index i \<Rightarrow> 0 < i \<and> i < usize_limit
      | Name_Literal s \<Rightarrow> Octets_len (Octets_new s h) < usize_limit)"

fun repr_fits :: "bool \<Rightarrow> Representation \<Rightarrow> bool" where
  "repr_fits h (Repr_Indexed i) \<longleftrightarrow> 0 < i \<and> i < usize_limit"
| "repr_fits h (LiteralWithIndexing n v) \<longleftrightarrow> name_fits h n \<and> Octets_len (Octets_new v h) < usize_limit"
| "repr_fits h (LiteralWithoutIndexing n v) \<longleftrightarrow> name_fits h n \<and> Octets_len (Octets_new v h) < usize_limit"
| "repr_fits h (LiteralNeverIndexed n v) \<longleftrightarrow> name_fits h n \<and> Octets_len (Octets_new v h) < usize_limit"
| "repr_fits h (SizeUpdate m) \<longleftrightarrow> False"

lemma IndexAndValue_bytes:
  "IndexAndValue_output (IndexAndValue_set_value (IndexAndValue_set_index IndexAndValue_new i m p) v h)
     = IntegerEncoder_run (IntegerEncoder_new i m p) @ literal_bytes v h"
  by (simp add: IndexAndValue_output_def IndexAndValue_set_value_def IndexAndValue_set_index_def
      IndexAndValue_new_def Integer_index_def literal_bytes_def Let_def)

lemma NameAndValue_bytes:
  "NameAndValue_output (NameAndValue_set_name_and_value (NameAndValue_set_index NameAndValue_new m p) n v h)
     = IntegerEncoder_run (IntegerEncoder_new 0 m p) @ literal_bytes n h @ literal_bytes v h"
  by (simp add: NameAndValue_output_def NameAndValue_set_name_and_value_def NameAndValue_set_index_def
      NameAndValue_new_def Integer_index_def literal_bytes_def Let_def)

lemmas state_new_defs =
  Indexed_new_def Indexing_new_def IndexingWithName_new_def WithoutIndexing_new_def
  WithoutIndexingWithName_new_def NeverIndexed_new_def NeverIndexedWithName_new_def

lemma prefix_distinct:
  "PrefixBit_LITERAL_WITH_INDEXING \<noteq> PrefixBit_INDEXED"
  "PrefixBit_LITERAL_WITH_INDEXING \<noteq> PrefixBit_SIZE_UPDATE"
  "PrefixBit_LITERAL_WITHOUT_INDEXING \<noteq> PrefixBit_INDEXED"
  "PrefixBit_LITERAL_WITHOUT_INDEXING \<noteq> PrefixBit_SIZE_UPDATE"
  "PrefixBit_LITERAL_NEVER_INDEXED \<noteq> PrefixBit_INDEXED"
  "PrefixBit_LITERAL_NEVER_INDEXED \<noteq> PrefixBit_SIZE_UPDATE"
  "PrefixBit_LITERAL_WITHOUT_INDEXING \<noteq> PrefixBit_LITERAL_WITH_INDEXING"
  "PrefixBit_LITERAL_NEVER_INDEXED \<noteq> PrefixBit_LITERAL_WITH_INDEXING"
  "PrefixBit_LITERAL_NEVER_INDEXED \<noteq> PrefixBit_LITERAL_WITHOUT_INDEXING"
  by (simp_all add: prefix_consts)

lemma index_masks:
  "mask_byte PrefixIndexMask_INDEXED = mask 7"
  "mask_byte PrefixIndexMask_LITERAL_WITH_INDEXING = mask 6"
  "mask_byte PrefixIndexMask_LITERAL_WITHOUT_INDEXING = mask 4"
  "mask_byte PrefixIndexMask_LITERAL_NEVER_INDEXED = mask 4"
  by (simp_all add: prefix_consts masks)

lemma repr_decode_encoded:
  assumes "encode_state h repr = Some s" "repr_fits h repr"
  shows "ReprDecodeState_decode (DecodeState_Index IndexInner_FirstByte) (ReprEncodeState_output s @ rest)
    = (Decoded repr, rest)"
  using assms
  by (cases "(h, repr)" rule: encode_state.cases)
    (auto simp: state_new_defs index_masks IndexAndValue_bytes NameAndValue_bytes Integer_index_def
      ReprDecodeState_decode_def Index_decode_def IndexInner_prefixes prefix_distinct name_fits_def
      NameString_decode_def ValueString_decode_def LiteralString_literal)

text \<open>
  C15. Every representation the encoder can produce is read back: for an indexed field and for the
  three kinds of literals, with an indexed or a literal name, plain or Huffman coded, the decoder
  applied to the encoded bytes returns the representation and leaves what follows it unread.
\<close>

theorem repr_roundtrip:
  assumes "encode_state h repr = Some s" "repr_fits h repr"
  shows "ReprDecodeState_decode (DecodeState_Index IndexInner_FirstByte) (ReprEncodeState_output s @ rest)
    = (Decoded repr, rest)"
  using assms by (rule repr_decode_encoded)

theorem repr_roundtrip_witness:
  "ReprDecodeState_decode (DecodeState_Index IndexInner_FirstByte)
     (ReprEncodeState_output (Indexing_new 1 [0x61] False) @ [0x82])
   = (Decoded (LiteralWithIndexing (Name_Index 1) [0x61]), [0x82])"
  by (rule repr_roundtrip [of False])
    (simp_all add: name_fits_def Octets_len_def Octets_new_def)

end
