(* ===== verification/Headers.thy ===== *)
theory Headers
  imports H2_Error
begin

text \<open>
  Header names, header values and the header map (\<open>ylong_http/src/headers.rs\<close>), with the error
  type they return (\<open>error.rs\<close>). The hash map is a partial function; the order in which it
  iterates is not part of it.
\<close>

section \<open>Errors\<close>

datatype InvalidUri =
    InvalidScheme | InvalidAuthority | InvalidPath | InvalidByte | InvalidFormat | InvalidPort
  | UriMissScheme | UriMissPath | UriMissQuery | UriMissAuthority | UriMissHost | UriContainUserinfo
  | UriTooLong

datatype H1Error = InvalidRequest | InvalidResponse

datatype ErrorKind =
    InvalidInput | ErrorKind_Uri InvalidUri | ErrorKind_H1 H1Error | ErrorKind_H2 H2Error

datatype HttpError = HttpError (http_error_kind: ErrorKind)

section \<open>Header names\<close>

definition HEADER_CHARS :: "u8 list" where
  "HEADER_CHARS = [
     0, 0, 0, 0, 0, 0, 0, 0, 0, 0, 0, 0, 0, 0, 0, 0,
     0, 0, 0, 0, 0, 0, 0, 0, 0, 0, 0, 0, 0, 0, 0, 0,
     32, 33, 34, 35, 36, 37, 38, 39, 0, 0, 42, 43, 44, 45, 46, 47,
     48, 49, 50, 51, 52, 53, 54, 55, 56, 57, 0, 0, 0, 0, 0, 0,
     0, 97, 98, 99, 100, 101, 102, 103, 104, 105, 106, 107, 108, 109, 110, 111,
     112, 113, 114, 115, 116, 117, 118, 119, 120, 121, 122, 0, 0, 0, 94, 95,
     96, 97, 98, 99, 100, 101, 102, 103, 104, 105, 106, 107, 108, 109, 110, 111,
     112, 113, 114, 115, 116, 117, 118, 119, 120, 121, 122, 0, 124, 0, 126, 0,
     0, 0, 0, 0, 0, 0, 0, 0, 0, 0, 0, 0, 0, 0, 0, 0,
     0, 0, 0, 0, 0, 0, 0, 0, 0, 0, 0, 0, 0, 0, 0, 0,
     0, 0, 0, 0, 0, 0, 0, 0, 0, 0, 0, 0, 0, 0, 0, 0,
     0, 0, 0, 0, 0, 0, 0, 0, 0, 0, 0, 0, 0, 0, 0, 0,
     0, 0, 0, 0, 0, 0, 0, 0, 0, 0, 0, 0, 0, 0, 0, 0,
     0, 0, 0, 0, 0, 0, 0, 0, 0, 0, 0, 0, 0, 0, 0, 0,
     0, 0, 0, 0, 0, 0, 0, 0, 0, 0, 0, 0, 0, 0, 0, 0,
     0, 0, 0, 0, 0, 0, 0, 0, 0, 0, 0, 0, 0, 0, 0, 0]"

datatype HeaderName = HeaderName (header_name: string)

fun HeaderName_normalize_loop :: "bytes \<Rightarrow> bytes \<Rightarrow> (string, HttpError) rust_result" where
  "HeaderName_normalize_loop dst [] = Ok (from_utf8_unchecked dst)"
| "HeaderName_normalize_loop dst (b # input) =
     (let b = HEADER_CHARS ! unat b
      in if b = 0 then Err (HttpError InvalidInput)
         else HeaderName_normalize_loop (dst @ [b]) input)"

definition HeaderName_normalize :: "bytes \<Rightarrow> (string, HttpError) rust_result" where
  "HeaderName_normalize input = HeaderName_normalize_loop [] input"

definition HeaderName_from_bytes :: "bytes \<Rightarrow> (HeaderName, HttpError) rust_result" where
  "HeaderName_from_bytes bs =
     (case HeaderName_normalize bs of
        Ok name \<Rightarrow> Ok (HeaderName name)
      | Err e \<Rightarrow> Err e
      | Panic \<Rightarrow> Panic)"

definition HeaderName_as_bytes :: "HeaderName \<Rightarrow> bytes" where
  "HeaderName_as_bytes n = as_bytes (header_name n)"

definition make_ascii_lowercase :: "bytes \<Rightarrow> bytes" where
  "make_ascii_lowercase = map (\<lambda>b. if 65 \<le> b \<and> b \<le> 90 then b + 32 else b)"

definition HeaderName_from_validated_h1_name :: "bytes \<Rightarrow> HeaderName" where
  "HeaderName_from_validated_h1_name bs =
     HeaderName (from_utf8_unchecked (make_ascii_lowercase bs))"

section \<open>Header values\<close>

record HeaderValue =
  hv_inner :: "bytes list"
  hv_is_sensitive :: bool

definition HeaderValue_is_valid :: "u8 \<Rightarrow> bool" where
  "HeaderValue_is_valid b \<longleftrightarrow> b \<ge> 32 \<and> b \<noteq> 127 \<or> b = 9"

definition HeaderValue_from_bytes :: "bytes \<Rightarrow> (HeaderValue, HttpError) rust_result" where
  "HeaderValue_from_bytes bs =
     (if \<not> list_all HeaderValue_is_valid bs then Err (HttpError InvalidInput)
      else Ok \<lparr>hv_inner = [bs], hv_is_sensitive = False\<rparr>)"

definition HeaderValue_append :: "HeaderValue \<Rightarrow> HeaderValue \<Rightarrow> HeaderValue" where
  "HeaderValue_append v other = v\<lparr>hv_inner := hv_inner v @ hv_inner other\<rparr>"

definition HeaderValue_append_bytes ::
    "HeaderValue \<Rightarrow> bytes \<Rightarrow> HeaderValue \<times> (unit, HttpError) rust_result" where
  "HeaderValue_append_bytes v bs =
     (if \<not> list_all HeaderValue_is_valid bs then (v, Err (HttpError InvalidInput))
      else (v\<lparr>hv_inner := hv_inner v @ [bs]\<rparr>, Ok ()))"

fun HeaderValue_join :: "nat \<Rightarrow> bytes list \<Rightarrow> bytes" where
  "HeaderValue_join n [] = []"
| "HeaderValue_join n (i # inner) =
     (if n \<noteq> 0 then as_bytes '', '' else []) @ i @ HeaderValue_join (n + 1) inner"

definition HeaderValue_to_vec :: "HeaderValue \<Rightarrow> bytes" where
  "HeaderValue_to_vec v = HeaderValue_join 0 (hv_inner v)"

definition HeaderValue_to_string :: "HeaderValue \<Rightarrow> (string, HttpError) rust_result" where
  "HeaderValue_to_string v = Ok (from_utf8_unchecked (HeaderValue_join 0 (hv_inner v)))"

definition HeaderValue_set_sensitive :: "HeaderValue \<Rightarrow> bool \<Rightarrow> HeaderValue" where
  "HeaderValue_set_sensitive v is_sensitive = v\<lparr>hv_is_sensitive := is_sensitive\<rparr>"

definition HeaderValue_from_validated_h1_value :: "bytes \<Rightarrow> HeaderValue" where
  "HeaderValue_from_validated_h1_value bs = \<lparr>hv_inner = [bs], hv_is_sensitive = False\<rparr>"

section \<open>The header map\<close>

record Headers =
  headers_map :: "HeaderName \<rightharpoonup> HeaderValue"

definition Headers_new :: Headers where
  "Headers_new = \<lparr>headers_map = Map.empty\<rparr>"

definition Headers_len :: "Headers \<Rightarrow> nat" where
  "Headers_len h = card (dom (headers_map h))"

definition Headers_is_empty :: "Headers \<Rightarrow> bool" where
  "Headers_is_empty h \<longleftrightarrow> headers_map h = Map.empty"

definition Headers_get :: "Headers \<Rightarrow> bytes \<Rightarrow> HeaderValue option" where
  "Headers_get h name =
     (case HeaderName_from_bytes name of
        Ok name \<Rightarrow> headers_map h name
      | _ \<Rightarrow> None)"

definition Headers_get_lowercase :: "Headers \<Rightarrow> string \<Rightarrow> HeaderValue option" where
  "Headers_get_lowercase h name = headers_map h (HeaderName name)"

definition Headers_insert ::
    "Headers \<Rightarrow> bytes \<Rightarrow> bytes \<Rightarrow> Headers \<times> (HeaderValue option, HttpError) rust_result" where
  "Headers_insert h name value =
     (case HeaderName_from_bytes name of
        Ok name \<Rightarrow>
          (case HeaderValue_from_bytes value of
             Ok value \<Rightarrow>
               (h\<lparr>headers_map := (headers_map h)(name \<mapsto> value)\<rparr>, Ok (headers_map h name))
           | Err e \<Rightarrow> (h, Err e)
           | Panic \<Rightarrow> (h, Panic))
      | Err e \<Rightarrow> (h, Err e)
      | Panic \<Rightarrow> (h, Panic))"

definition Headers_entry_append :: "Headers \<Rightarrow> HeaderName \<Rightarrow> HeaderValue \<Rightarrow> Headers" where
  "Headers_entry_append h name value =
     (case headers_map h name of
        Some o1 \<Rightarrow> h\<lparr>headers_map := (headers_map h)(name \<mapsto> HeaderValue_append o1 value)\<rparr>
      | None \<Rightarrow> h\<lparr>headers_map := (headers_map h)(name \<mapsto> value)\<rparr>)"

definition Headers_append ::
    "Headers \<Rightarrow> bytes \<Rightarrow> bytes \<Rightarrow> Headers \<times> (unit, HttpError) rust_result" where
  "Headers_append h name value =
     (case HeaderName_from_bytes name of
        Ok name \<Rightarrow>
          (case HeaderValue_from_bytes value of
             Ok value \<Rightarrow> (Headers_entry_append h name value, Ok ())
           | Err e \<Rightarrow> (h, Err e)
           | Panic \<Rightarrow> (h, Panic))
      | Err e \<Rightarrow> (h, Err e)
      | Panic \<Rightarrow> (h, Panic))"

definition Headers_append_validated_h1 :: "Headers \<Rightarrow> bytes \<Rightarrow> bytes \<Rightarrow> Headers" where
  "Headers_append_validated_h1 h name value =
     Headers_entry_append h (HeaderName_from_validated_h1_name name)
       (HeaderValue_from_validated_h1_value value)"

definition Headers_remove :: "Headers \<Rightarrow> bytes \<Rightarrow> Headers \<times> HeaderValue option" where
  "Headers_remove h name =
     (case HeaderName_from_bytes name of
        Ok name \<Rightarrow> (h\<lparr>headers_map := (headers_map h)(name := None)\<rparr>, headers_map h name)
      | _ \<Rightarrow> (h, None))"

section \<open>Legitimate header bytes\<close>

text \<open>The token tables of \<open>util/header_bytes.rs\<close> that the HTTP/1 parsers use.\<close>

definition HEADER_NAME_BYTES :: "bool list" where
  "HEADER_NAME_BYTES = (let xx = False; TT = True in [
     xx, xx, xx, xx, xx, xx, xx, xx, xx, xx, xx, xx, xx, xx, xx, xx,
     xx, xx, xx, xx, xx, xx, xx, xx, xx, xx, xx, xx, xx, xx, xx, xx,
     xx, TT, xx, TT, TT, TT, TT, TT, xx, xx, TT, TT, xx, TT, TT, xx,
     TT, TT, TT, TT, TT, TT, TT, TT, TT, TT, xx, xx, xx, xx, xx, xx,
     xx, TT, TT, TT, TT, TT, TT, TT, TT, TT, TT, TT, TT, TT, TT, TT,
     TT, TT, TT, TT, TT, TT, TT, TT, TT, TT, TT, xx, xx, xx, TT, TT,
     TT, TT, TT, TT, TT, TT, TT, TT, TT, TT, TT, TT, TT, TT, TT, TT,
     TT, TT, TT, TT, TT, TT, TT, TT, TT, TT, TT, xx, TT, xx, TT, xx,
     xx, xx, xx, xx, xx, xx, xx, xx, xx, xx, xx, xx, xx, xx, xx, xx,
     xx, xx, xx, xx, xx, xx, xx, xx, xx, xx, xx, xx, xx, xx, xx, xx,
     xx, xx, xx, xx, xx, xx, xx, xx, xx, xx, xx, xx, xx, xx, xx, xx,
     xx, xx, xx, xx, xx, xx, xx, xx, xx, xx, xx, xx, xx, xx, xx, xx,
     xx, xx, xx, xx, xx, xx, xx, xx, xx, xx, xx, xx, xx, xx, xx, xx,
     xx, xx, xx, xx, xx, xx, xx, xx, xx, xx, xx, xx, xx, xx, xx, xx,
     xx, xx, xx, xx, xx, xx, xx, xx, xx, xx, xx, xx, xx, xx, xx, xx,
     xx, xx, xx, xx, xx, xx, xx, xx, xx, xx, xx, xx, xx, xx, xx, xx])"

definition HEADER_VALUE_BYTES :: "bool list" where
  "HEADER_VALUE_BYTES = (let xx = False; TT = True in [
     xx, xx, xx, xx, xx, xx, xx, xx, xx, TT, xx, xx, xx, xx, xx, xx,
     xx, xx, xx, xx, xx, xx, xx, xx, xx, xx, xx, xx, xx, xx, xx, xx,
     TT, TT, TT, TT, TT, TT, TT, TT, TT, TT, TT, TT, TT, TT, TT, TT,
     TT, TT, TT, TT, TT, TT, TT, TT, TT, TT, TT, TT, TT, TT, TT, TT,
     TT, TT, TT, TT, TT, TT, TT, TT, TT, TT, TT, TT, TT, TT, TT, TT,
     TT, TT, TT, TT, TT, TT, TT, TT, TT, TT, TT, TT, TT, TT, TT, TT,
     TT, TT, TT, TT, TT, TT, TT, TT, TT, TT, TT, TT, TT, TT, TT, TT,
     TT, TT, TT, TT, TT, TT, TT, TT, TT, TT, TT, TT, TT, TT, TT, xx,
     TT, TT, TT, TT, TT, TT, TT, TT, TT, TT, TT, TT, TT, TT, TT, TT,
     TT, TT, TT, TT, TT, TT, TT, TT, TT, TT, TT, TT, TT, TT, TT, TT,
     TT, TT, TT, TT, TT, TT, TT, TT, TT, TT, TT, TT, TT, TT, TT, TT,
     TT, TT, TT, TT, TT, TT, TT, TT, TT, TT, TT, TT, TT, TT, TT, TT,
     TT, TT, TT, TT, TT, TT, TT, TT, TT, TT, TT, TT, TT, TT, TT, TT,
     TT, TT, TT, TT, TT, TT, TT, TT, TT, TT, TT, TT, TT, TT, TT, TT,
     TT, TT, TT, TT, TT, TT, TT, TT, TT, TT, TT, TT, TT, TT, TT, TT,
     TT, TT, TT, TT, TT, TT, TT, TT, TT, TT, TT, TT, TT, TT, TT, TT])"

section \<open>Header names are normalised\<close>

lemma length_HEADER_CHARS: "length HEADER_CHARS = 256"
  by (simp add: HEADER_CHARS_def)

lemma HEADER_CHARS_idem: "list_all (\<lambda>c. c = 0 \<or> HEADER_CHARS ! unat c = c) HEADER_CHARS"
  by code_simp

definition ascii_lowercase :: "u8 \<Rightarrow> u8" where
  "ascii_lowercase b = (if 65 \<le> b \<and> b \<le> 90 then b + 32 else b)"

lemma HEADER_CHARS_lowercase:
  "map (\<lambda>i. HEADER_CHARS ! unat (ascii_lowercase (word_of_nat i))) [0..<256] = HEADER_CHARS"
  by code_simp

lemma HEADER_CHARS_token:
  "list_all (\<lambda>i. HEADER_NAME_BYTES ! i \<longrightarrow>
     HEADER_CHARS ! i = ascii_lowercase (word_of_nat i) \<and> HEADER_CHARS ! i \<noteq> 0) [0..<256]"
  by code_simp

lemma HEADER_VALUE_BYTES_valid:
  "list_all (\<lambda>i. HEADER_VALUE_BYTES ! i \<longrightarrow> HeaderValue_is_valid (word_of_nat i)) [0..<256]"
  by code_simp

lemma make_ascii_lowercase_eq: "make_ascii_lowercase = map ascii_lowercase"
  by (simp add: make_ascii_lowercase_def ascii_lowercase_def fun_eq_iff)

lemma u8_table:
  assumes "list_all P [0..<256]"
  shows "P (unat (b :: u8))"
  using assms by (simp add: list_all_iff)

lemma header_char_idem:
  fixes b :: u8
  assumes "HEADER_CHARS ! unat b \<noteq> 0"
  shows "HEADER_CHARS ! unat (HEADER_CHARS ! unat b) = HEADER_CHARS ! unat b"
proof -
  have "unat b < length HEADER_CHARS" by (simp add: length_HEADER_CHARS)
  then show ?thesis using assms HEADER_CHARS_idem unfolding list_all_length by blast
qed

lemma header_char_lowercase: "HEADER_CHARS ! unat (ascii_lowercase b) = HEADER_CHARS ! unat b"
proof -
  have "map (\<lambda>i. HEADER_CHARS ! unat (ascii_lowercase (word_of_nat i))) [0..<256] ! unat b
      = HEADER_CHARS ! unat b"
    by (simp only: HEADER_CHARS_lowercase)
  then show ?thesis by simp
qed

lemma normalize_loop_eq:
  "HeaderName_normalize_loop dst input =
     (if list_all (\<lambda>b. HEADER_CHARS ! unat b \<noteq> 0) input
      then Ok (from_utf8_unchecked (dst @ map (\<lambda>b. HEADER_CHARS ! unat b) input))
      else Err (HttpError InvalidInput))"
  by (induction input arbitrary: dst) (simp_all add: Let_def)

lemma from_bytes_eq:
  "HeaderName_from_bytes bs =
     (if list_all (\<lambda>b. HEADER_CHARS ! unat b \<noteq> 0) bs
      then Ok (HeaderName (from_utf8_unchecked (map (\<lambda>b. HEADER_CHARS ! unat b) bs)))
      else Err (HttpError InvalidInput))"
  by (simp add: HeaderName_from_bytes_def HeaderName_normalize_def normalize_loop_eq)

lemma from_bytes_lowercase:
  "HeaderName_from_bytes (make_ascii_lowercase bs) = HeaderName_from_bytes bs"
  by (simp add: from_bytes_eq make_ascii_lowercase_eq header_char_lowercase list_all_iff o_def)

text \<open>
  C21. A header name is normalised once and for all: the bytes of a name that was accepted are
  accepted again and give the same name, and upper case does not matter.
\<close>

theorem header_name_normal:
  assumes "HeaderName_from_bytes bs = Ok n"
  shows "HeaderName_from_bytes (HeaderName_as_bytes n) = Ok n
    \<and> HeaderName_from_bytes (make_ascii_lowercase bs) = Ok n"
proof -
  have ok: "list_all (\<lambda>b. HEADER_CHARS ! unat b \<noteq> 0) bs"
    and n: "n = HeaderName (from_utf8_unchecked (map (\<lambda>b. HEADER_CHARS ! unat b) bs))"
    using assms by (simp_all add: from_bytes_eq split: if_splits)
  then have "HeaderName_from_bytes (HeaderName_as_bytes n) = Ok n"
    by (simp add: from_bytes_eq HeaderName_as_bytes_def list_all_iff header_char_idem o_def
        cong: map_cong)
  then show ?thesis by (simp add: from_bytes_lowercase assms)
qed

theorem header_name_normal_witness:
  "HeaderName_from_bytes (HeaderName_as_bytes (HeaderName ''accept'')) = Ok (HeaderName ''accept'')
    \<and> HeaderName_from_bytes (make_ascii_lowercase (as_bytes ''Accept'')) = Ok (HeaderName ''accept'')"
  by (rule header_name_normal [of "as_bytes ''Accept''" "HeaderName ''accept''"]) code_simp

section \<open>The unchecked constructors\<close>

text \<open>
  C22. The unchecked append that the HTTP/1 parsers use on validated bytes does what the checked
  append does: when every byte of the name is a token byte and every byte of the value a field
  byte by the parsers' tables, the checked append accepts and leaves the same map.
\<close>

theorem append_validated_agrees:
  assumes "list_all (\<lambda>b. HEADER_NAME_BYTES ! unat b) name"
    and "list_all (\<lambda>b. HEADER_VALUE_BYTES ! unat b) value"
  shows "Headers_append h name value = (Headers_append_validated_h1 h name value, Ok ())"
proof -
  have "HEADER_CHARS ! unat b = ascii_lowercase b \<and> HEADER_CHARS ! unat b \<noteq> 0"
    if "b \<in> set name" for b
    using u8_table [OF HEADER_CHARS_token, of b] assms(1) that by (auto simp: list_all_iff)
  then have "map (\<lambda>b. HEADER_CHARS ! unat b) name = map ascii_lowercase name"
    and "\<forall>b \<in> set name. HEADER_CHARS ! unat b \<noteq> 0" by (simp cong: map_cong, blast)
  then have "HeaderName_from_bytes name = Ok (HeaderName_from_validated_h1_name name)"
    by (simp add: from_bytes_eq HeaderName_from_validated_h1_name_def make_ascii_lowercase_eq
        list_all_iff cong: map_cong)
  moreover have "list_all HeaderValue_is_valid value"
    using u8_table [OF HEADER_VALUE_BYTES_valid] assms(2) by (auto simp: list_all_iff)
  then have "HeaderValue_from_bytes value = Ok (HeaderValue_from_validated_h1_value value)"
    by (simp add: HeaderValue_from_bytes_def HeaderValue_from_validated_h1_value_def)
  ultimately show ?thesis by (simp add: Headers_append_def Headers_append_validated_h1_def)
qed

theorem append_validated_agrees_witness:
  "Headers_append Headers_new (as_bytes ''Host'') (as_bytes ''a b'')
     = (Headers_append_validated_h1 Headers_new (as_bytes ''Host'') (as_bytes ''a b''), Ok ())"
  by (rule append_validated_agrees) code_simp+

section \<open>A map of value lists\<close>

text \<open>
  What clients of the header map rely on: a map from names to lists of values in which adding a
  field appends to the list of its name and leaves the others alone.
\<close>

locale field_map =
  fixes empty_map :: 'm
    and field_values :: "'m \<Rightarrow> 'k \<Rightarrow> 'v list"
    and add_field :: "'m \<Rightarrow> 'k \<Rightarrow> 'v \<Rightarrow> 'm"
  assumes values_empty: "field_values empty_map k = []"
    and values_add: "field_values (add_field m k v) k' =
      (if k' = k then field_values m k @ [v] else field_values m k')"
begin

lemma values_add_all:
  "field_values (foldl (\<lambda>m (k, v). add_field m k v) m fs) k =
     field_values m k @ map snd (filter (\<lambda>(k', v). k' = k) fs)"
  by (induction fs arbitrary: m) (auto simp: values_add)

lemma values_collect:
  "field_values (foldl (\<lambda>m (k, v). add_field m k v) empty_map fs) k =
     map snd (filter (\<lambda>(k', v). k' = k) fs)"
  by (simp add: values_add_all values_empty)

lemma values_add_commute:
  "k \<noteq> k' \<Longrightarrow> field_values (add_field (add_field m k v) k' v') =
     field_values (add_field (add_field m k' v') k v)"
  by (auto simp: values_add fun_eq_iff)

end

definition Headers_values :: "Headers \<Rightarrow> HeaderName \<Rightarrow> bytes list" where
  "Headers_values h n = (case headers_map h n of None \<Rightarrow> [] | Some v \<Rightarrow> hv_inner v)"

definition Headers_add :: "Headers \<Rightarrow> HeaderName \<Rightarrow> bytes \<Rightarrow> Headers" where
  "Headers_add h n v = Headers_entry_append h n \<lparr>hv_inner = [v], hv_is_sensitive = False\<rparr>"

interpretation header_fields: field_map Headers_new Headers_values Headers_add
  by unfold_locales
    (auto simp: Headers_values_def Headers_add_def Headers_new_def Headers_entry_append_def
      HeaderValue_append_def split: option.splits)

lemma append_add:
  "HeaderName_from_bytes name = Ok n \<Longrightarrow> list_all HeaderValue_is_valid value \<Longrightarrow>
   Headers_append h name value = (Headers_add h n value, Ok ())"
  by (simp add: Headers_append_def Headers_add_def HeaderValue_from_bytes_def)

lemma append_error:
  "snd (Headers_append h name value) \<noteq> Ok () \<Longrightarrow>
   fst (Headers_append h name value) = h \<and>
   snd (Headers_append h name value) = Err (HttpError InvalidInput)"
  by (auto simp: Headers_append_def HeaderValue_from_bytes_def from_bytes_eq split: if_splits)

text \<open>
  The header map collects: after any sequence of accepted appends to an empty map, the values
  stored under a name are the values appended under it, in the order they were appended.
\<close>

theorem headers_collect:
  assumes "list_all2 (\<lambda>(name, value) (n, v). HeaderName_from_bytes name = Ok n
      \<and> list_all HeaderValue_is_valid value \<and> v = value) raw fs"
  shows "Headers_values (foldl (\<lambda>h (name, value). fst (Headers_append h name value))
      Headers_new raw) n = map snd (filter (\<lambda>(n', v). n' = n) fs)"
proof -
  have "foldl (\<lambda>h (name, value). fst (Headers_append h name value)) h raw
      = foldl (\<lambda>h (n, v). Headers_add h n v) h fs" for h
    using assms
  proof (induction raw fs arbitrary: h rule: list_all2_induct)
    case (Cons x xs y ys)
    then show ?case by (cases x; cases y) (simp add: append_add)
  qed simp
  then show ?thesis by (simp add: header_fields.values_collect)
qed

theorem headers_collect_witness:
  "Headers_values (foldl (\<lambda>h (name, value). fst (Headers_append h name value)) Headers_new
      [(as_bytes ''A'', as_bytes ''1''), (as_bytes ''b'', as_bytes ''2''),
       (as_bytes ''a'', as_bytes ''3'')]) (HeaderName ''a'')
    = map snd (filter (\<lambda>(n', v). n' = HeaderName ''a'')
        [(HeaderName ''a'', as_bytes ''1''), (HeaderName ''b'', as_bytes ''2''),
         (HeaderName ''a'', as_bytes ''3'')])"
  by (rule headers_collect) code_simp

end
