(* ===== verification/Hpack_Table.thy ===== *)
theory Hpack_Table
  imports Prelude
begin

text \<open>
  The static and the dynamic table of HPACK and the searcher over both
  (\<open>ylong_http/src/h2/hpack/table.rs\<close>).
\<close>

section \<open>Headers\<close>

datatype Header = Authority | Method | Path | Scheme | Status | Other string

definition Header_len :: "Header \<Rightarrow> nat" where
  "Header_len h =
     (case h of
        Header.Authority \<Rightarrow> 10
      | Header.Method \<Rightarrow> 7
      | Header.Path \<Rightarrow> 5
      | Header.Scheme \<Rightarrow> 7
      | Header.Status \<Rightarrow> 7
      | Header.Other s \<Rightarrow> length s)"

definition Header_into_string :: "Header \<Rightarrow> string" where
  "Header_into_string h =
     (case h of
        Header.Authority \<Rightarrow> '':authority''
      | Header.Method \<Rightarrow> '':method''
      | Header.Path \<Rightarrow> '':path''
      | Header.Scheme \<Rightarrow> '':scheme''
      | Header.Status \<Rightarrow> '':status''
      | Header.Other s \<Rightarrow> s)"

section \<open>The static table\<close>

datatype TableIndex = TableIndex_Header nat | TableIndex_HeaderName nat

definition StaticTable_header_name :: "nat \<Rightarrow> Header option" where
  "StaticTable_header_name index =
     (if index = 1 then Some Header.Authority
      else if 2 \<le> index \<and> index \<le> 3 then Some Header.Method
      else if 4 \<le> index \<and> index \<le> 5 then Some Header.Path
      else if 6 \<le> index \<and> index \<le> 7 then Some Header.Scheme
      else if 8 \<le> index \<and> index \<le> 14 then Some Header.Status
      else if index = 15 then Some (Header.Other ''accept-charset'')
      else if index = 16 then Some (Header.Other ''accept-encoding'')
      else if index = 17 then Some (Header.Other ''accept-language'')
      else if index = 18 then Some (Header.Other ''accept-ranges'')
      else if index = 19 then Some (Header.Other ''accept'')
      else if index = 20 then Some (Header.Other ''access-control-allow-origin'')
      else if index = 21 then Some (Header.Other ''age'')
      else if index = 22 then Some (Header.Other ''allow'')
      else if index = 23 then Some (Header.Other ''authorization'')
      else if index = 24 then Some (Header.Other ''cache-control'')
      else if index = 25 then Some (Header.Other ''content-disposition'')
      else if index = 26 then Some (Header.Other ''content-encoding'')
      else if index = 27 then Some (Header.Other ''content-language'')
      else if index = 28 then Some (Header.Other ''content-length'')
      else if index = 29 then Some (Header.Other ''content-location'')
      else if index = 30 then Some (Header.Other ''content-range'')
      else if index = 31 then Some (Header.Other ''content-type'')
      else if index = 32 then Some (Header.Other ''cookie'')
      else if index = 33 then Some (Header.Other ''date'')
      else if index = 34 then Some (Header.Other ''etag'')
      else if index = 35 then Some (Header.Other ''expect'')
      else if index = 36 then Some (Header.Other ''expires'')
      else if index = 37 then Some (Header.Other ''from'')
      else if index = 38 then Some (Header.Other ''host'')
      else if index = 39 then Some (Header.Other ''if-match'')
      else if index = 40 then Some (Header.Other ''if-modified-since'')
      else if index = 41 then Some (Header.Other ''if-none-match'')
      else if index = 42 then Some (Header.Other ''if-range'')
      else if index = 43 then Some (Header.Other ''if-unmodified-since'')
      else if index = 44 then Some (Header.Other ''last-modified'')
      else if index = 45 then Some (Header.Other ''link'')
      else if index = 46 then Some (Header.Other ''location'')
      else if index = 47 then Some (Header.Other ''max-forwards'')
      else if index = 48 then Some (Header.Other ''proxy-authenticate'')
      else if index = 49 then Some (Header.Other ''proxy-authorization'')
      else if index = 50 then Some (Header.Other ''range'')
      else if index = 51 then Some (Header.Other ''referer'')
      else if index = 52 then Some (Header.Other ''refresh'')
      else if index = 53 then Some (Header.Other ''retry-after'')
      else if index = 54 then Some (Header.Other ''server'')
      else if index = 55 then Some (Header.Other ''set-cookie'')
      else if index = 56 then Some (Header.Other ''strict-transport-security'')
      else if index = 57 then Some (Header.Other ''transfer-encoding'')
      else if index = 58 then Some (Header.Other ''user-agent'')
      else if index = 59 then Some (Header.Other ''vary'')
      else if index = 60 then Some (Header.Other ''via'')
      else if index = 61 then Some (Header.Other ''www-authenticate'')
      else None)"

definition StaticTable_header :: "nat \<Rightarrow> (Header \<times> string) option" where
  "StaticTable_header index =
     (if index = 1 then Some (Header.Authority, '''')
      else if index = 2 then Some (Header.Method, ''GET'')
      else if index = 3 then Some (Header.Method, ''POST'')
      else if index = 4 then Some (Header.Path, ''/'')
      else if index = 5 then Some (Header.Path, ''/index.html'')
      else if index = 6 then Some (Header.Scheme, ''http'')
      else if index = 7 then Some (Header.Scheme, ''https'')
      else if index = 8 then Some (Header.Status, ''200'')
      else if index = 9 then Some (Header.Status, ''204'')
      else if index = 10 then Some (Header.Status, ''206'')
      else if index = 11 then Some (Header.Status, ''304'')
      else if index = 12 then Some (Header.Status, ''400'')
      else if index = 13 then Some (Header.Status, ''404'')
      else if index = 14 then Some (Header.Status, ''500'')
      else if index = 15 then Some (Header.Other ''accept-charset'', '''')
      else if index = 16 then Some (Header.Other ''accept-encoding'', ''gzip, deflate'')
      else if index = 17 then Some (Header.Other ''accept-language'', '''')
      else if index = 18 then Some (Header.Other ''accept-ranges'', '''')
      else if index = 19 then Some (Header.Other ''accept'', '''')
      else if index = 20 then Some (Header.Other ''access-control-allow-origin'', '''')
      else if index = 21 then Some (Header.Other ''age'', '''')
      else if index = 22 then Some (Header.Other ''allow'', '''')
      else if index = 23 then Some (Header.Other ''authorization'', '''')
      else if index = 24 then Some (Header.Other ''cache-control'', '''')
      else if index = 25 then Some (Header.Other ''content-disposition'', '''')
      else if index = 26 then Some (Header.Other ''content-encoding'', '''')
      else if index = 27 then Some (Header.Other ''content-language'', '''')
      else if index = 28 then Some (Header.Other ''content-length'', '''')
      else if index = 29 then Some (Header.Other ''content-location'', '''')
      else if index = 30 then Some (Header.Other ''content-range'', '''')
      else if index = 31 then Some (Header.Other ''content-type'', '''')
      else if index = 32 then Some (Header.Other ''cookie'', '''')
      else if index = 33 then Some (Header.Other ''date'', '''')
      else if index = 34 then Some (Header.Other ''etag'', '''')
      else if index = 35 then Some (Header.Other ''expect'', '''')
      else if index = 36 then Some (Header.Other ''expires'', '''')
      else if index = 37 then Some (Header.Other ''from'', '''')
      else if index = 38 then Some (Header.Other ''host'', '''')
      else if index = 39 then Some (Header.Other ''if-match'', '''')
      else if index = 40 then Some (Header.Other ''if-modified-since'', '''')
      else if index = 41 then Some (Header.Other ''if-none-match'', '''')
      else if index = 42 then Some (Header.Other ''if-range'', '''')
      else if index = 43 then Some (Header.Other ''if-unmodified-since'', '''')
      else if index = 44 then Some (Header.Other ''last-modified'', '''')
      else if index = 45 then Some (Header.Other ''link'', '''')
      else if index = 46 then Some (Header.Other ''location'', '''')
      else if index = 47 then Some (Header.Other ''max-forwards'', '''')
      else if index = 48 then Some (Header.Other ''proxy-authenticate'', '''')
      else if index = 49 then Some (Header.Other ''proxy-authorization'', '''')
      else if index = 50 then Some (Header.Other ''range'', '''')
      else if index = 51 then Some (Header.Other ''referer'', '''')
      else if index = 52 then Some (Header.Other ''refresh'', '''')
      else if index = 53 then Some (Header.Other ''retry-after'', '''')
      else if index = 54 then Some (Header.Other ''server'', '''')
      else if index = 55 then Some (Header.Other ''set-cookie'', '''')
      else if index = 56 then Some (Header.Other ''strict-transport-security'', '''')
      else if index = 57 then Some (Header.Other ''transfer-encoding'', '''')
      else if index = 58 then Some (Header.Other ''user-agent'', '''')
      else if index = 59 then Some (Header.Other ''vary'', '''')
      else if index = 60 then Some (Header.Other ''via'', '''')
      else if index = 61 then Some (Header.Other ''www-authenticate'', '''')
      else None)"

definition StaticTable_index_headers :: "string \<Rightarrow> string \<Rightarrow> TableIndex option" where
  "StaticTable_index_headers key value =
     (if key = ''accept-charset'' then Some (TableIndex_HeaderName 15)
      else if key = ''accept-encoding'' \<and> value = ''gzip, deflate'' then Some (TableIndex_Header 16)
      else if key = ''accept-encoding'' then Some (TableIndex_HeaderName 16)
      else if key = ''accept-language'' then Some (TableIndex_HeaderName 17)
      else if key = ''accept-ranges'' then Some (TableIndex_HeaderName 18)
      else if key = ''accept'' then Some (TableIndex_HeaderName 19)
      else if key = ''access-control-allow-origin'' then Some (TableIndex_HeaderName 20)
      else if key = ''age'' then Some (TableIndex_HeaderName 21)
      else if key = ''allow'' then Some (TableIndex_HeaderName 22)
      else if key = ''authorization'' then Some (TableIndex_HeaderName 23)
      else if key = ''cache-control'' then Some (TableIndex_HeaderName 24)
      else if key = ''content-disposition'' then Some (TableIndex_HeaderName 25)
      else if key = ''content-encoding'' then Some (TableIndex_HeaderName 26)
      else if key = ''content-language'' then Some (TableIndex_HeaderName 27)
      else if key = ''content-length'' then Some (TableIndex_HeaderName 28)
      else if key = ''content-location'' then Some (TableIndex_HeaderName 29)
      else if key = ''content-range'' then Some (TableIndex_HeaderName 30)
      else if key = ''content-type'' then Some (TableIndex_HeaderName 31)
      else if key = ''cookie'' then Some (TableIndex_HeaderName 32)
      else if key = ''date'' then Some (TableIndex_HeaderName 33)
      else if key = ''etag'' then Some (TableIndex_HeaderName 34)
      else if key = ''expect'' then Some (TableIndex_HeaderName 35)
      else if key = ''expires'' then Some (TableIndex_HeaderName 36)
      else if key = ''from'' then Some (TableIndex_HeaderName 37)
      else if key = ''host'' then Some (TableIndex_HeaderName 38)
      else if key = ''if-match'' then Some (TableIndex_HeaderName 39)
      else if key = ''if-modified-since'' then Some (TableIndex_HeaderName 40)
      else if key = ''if-none-match'' then Some (TableIndex_HeaderName 41)
      else if key = ''if-range'' then Some (TableIndex_HeaderName 42)
      else if key = ''if-unmodified-since'' then Some (TableIndex_HeaderName 43)
      else if key = ''last-modified'' then Some (TableIndex_HeaderName 44)
      else if key = ''link'' then Some (TableIndex_HeaderName 45)
      else if key = ''location'' then Some (TableIndex_HeaderName 46)
      else if key = ''max-forwards'' then Some (TableIndex_HeaderName 47)
      else if key = ''proxy-authenticate'' then Some (TableIndex_HeaderName 48)
      else if key = ''proxy-authorization'' then Some (TableIndex_HeaderName 49)
      else if key = ''range'' then Some (TableIndex_HeaderName 50)
      else if key = ''referer'' then Some (TableIndex_HeaderName 51)
      else if key = ''refresh'' then Some (TableIndex_HeaderName 52)
      else if key = ''retry-after'' then Some (TableIndex_HeaderName 53)
      else if key = ''server'' then Some (TableIndex_HeaderName 54)
      else if key = ''set-cookie'' then Some (TableIndex_HeaderName 55)
      else if key = ''strict-transport-security'' then Some (TableIndex_HeaderName 56)
      else if key = ''transfer-encoding'' then Some (TableIndex_HeaderName 57)
      else if key = ''user-agent'' then Some (TableIndex_HeaderName 58)
      else if key = ''vary'' then Some (TableIndex_HeaderName 59)
      else if key = ''via'' then Some (TableIndex_HeaderName 60)
      else if key = ''www-authenticate'' then Some (TableIndex_HeaderName 61)
      else None)"

definition StaticTable_index :: "Header \<Rightarrow> string \<Rightarrow> TableIndex option" where
  "StaticTable_index header value =
     (case header of
        Header.Authority \<Rightarrow>
             Some (TableIndex_HeaderName 1)
      | Header.Method \<Rightarrow>
             if value = ''GET'' then Some (TableIndex_Header 2) else
             if value = ''POST'' then Some (TableIndex_Header 3) else
             Some (TableIndex_HeaderName 2)
      | Header.Path \<Rightarrow>
             if value = ''/'' then Some (TableIndex_Header 4) else
             if value = ''/index.html'' then Some (TableIndex_Header 5) else
             Some (TableIndex_HeaderName 4)
      | Header.Scheme \<Rightarrow>
             if value = ''http'' then Some (TableIndex_Header 6) else
             if value = ''https'' then Some (TableIndex_Header 7) else
             Some (TableIndex_HeaderName 6)
      | Header.Status \<Rightarrow>
             if value = ''200'' then Some (TableIndex_Header 8) else
             if value = ''204'' then Some (TableIndex_Header 9) else
             if value = ''206'' then Some (TableIndex_Header 10) else
             if value = ''304'' then Some (TableIndex_Header 11) else
             if value = ''400'' then Some (TableIndex_Header 12) else
             if value = ''404'' then Some (TableIndex_Header 13) else
             if value = ''500'' then Some (TableIndex_Header 14) else
             Some (TableIndex_HeaderName 8)
      | Header.Other s \<Rightarrow> StaticTable_index_headers s value)"

section \<open>The dynamic table\<close>

record DynamicTable =
  dt_queue :: "(Header \<times> string) list"
  dt_curr_size :: nat
  dt_max_size :: nat

definition DynamicTable_with_max_size :: "nat \<Rightarrow> DynamicTable" where
  "DynamicTable_with_max_size max_size =
     \<lparr>dt_queue = [], dt_curr_size = 0, dt_max_size = max_size\<rparr>"

definition DynamicTable_header :: "DynamicTable \<Rightarrow> nat \<Rightarrow> (Header \<times> string) option" where
  "DynamicTable_header t index =
     (if index < length (dt_queue t) then Some (dt_queue t ! index) else None)"

definition DynamicTable_header_name :: "DynamicTable \<Rightarrow> nat \<Rightarrow> Header option" where
  "DynamicTable_header_name t index =
     (if index < length (dt_queue t) then Some (fst (dt_queue t ! index)) else None)"

function DynamicTable_fit_size :: "DynamicTable \<Rightarrow> DynamicTable" where
  "DynamicTable_fit_size t =
     (if dt_curr_size t > dt_max_size t \<and> dt_queue t \<noteq> []
      then let (key, str) = last (dt_queue t)
           in DynamicTable_fit_size
                (t\<lparr>dt_queue := butlast (dt_queue t),
                   dt_curr_size := dt_curr_size t - (Header_len key + length str + 32)\<rparr>)
      else t)"
  by pat_completeness auto
termination
  by (relation "measure (\<lambda>t. length (dt_queue t))") auto

declare DynamicTable_fit_size.simps [simp del]

definition DynamicTable_update :: "DynamicTable \<Rightarrow> Header \<Rightarrow> string \<Rightarrow> DynamicTable" where
  "DynamicTable_update t header value =
     DynamicTable_fit_size
       (t\<lparr>dt_curr_size := dt_curr_size t + (Header_len header + length value + 32),
          dt_queue := (header, value) # dt_queue t\<rparr>)"

definition DynamicTable_update_size :: "DynamicTable \<Rightarrow> nat \<Rightarrow> DynamicTable" where
  "DynamicTable_update_size t max_size = DynamicTable_fit_size (t\<lparr>dt_max_size := max_size\<rparr>)"

fun DynamicTable_index_loop ::
    "Header \<Rightarrow> string \<Rightarrow> TableIndex option \<Rightarrow> nat \<Rightarrow> (Header \<times> string) list \<Rightarrow> TableIndex option" where
  "DynamicTable_index_loop header value index n [] = index"
| "DynamicTable_index_loop header value index n ((h, v) # queue) =
     (if header = h \<and> value = v then Some (TableIndex_Header n)
      else if header = h \<and> index = None
      then DynamicTable_index_loop header value (Some (TableIndex_HeaderName n)) (n + 1) queue
      else DynamicTable_index_loop header value index (n + 1) queue)"

definition DynamicTable_index :: "DynamicTable \<Rightarrow> Header \<Rightarrow> string \<Rightarrow> TableIndex option" where
  "DynamicTable_index t header value = DynamicTable_index_loop header value None 0 (dt_queue t)"

section \<open>The searcher\<close>

definition TableSearcher_search_header_name :: "DynamicTable \<Rightarrow> nat \<Rightarrow> Header option" where
  "TableSearcher_search_header_name dynamic index =
     (if index \<le> 61 then StaticTable_header_name index
      else DynamicTable_header_name dynamic (index - 62))"

definition TableSearcher_search_header :: "DynamicTable \<Rightarrow> nat \<Rightarrow> (Header \<times> string) option" where
  "TableSearcher_search_header dynamic index =
     (if index \<le> 61 then StaticTable_header index
      else DynamicTable_header dynamic (index - 62))"

definition TableSearcher_index :: "DynamicTable \<Rightarrow> Header \<Rightarrow> string \<Rightarrow> TableIndex option" where
  "TableSearcher_index dynamic header value =
     (case (StaticTable_index header value, DynamicTable_index dynamic header value) of
        (Some (TableIndex_Header i), _) \<Rightarrow> Some (TableIndex_Header i)
      | (_, Some (TableIndex_Header i)) \<Rightarrow> Some (TableIndex_Header (i + 62))
      | (Some (TableIndex_HeaderName i), _) \<Rightarrow> Some (TableIndex_HeaderName i)
      | (_, Some (TableIndex_HeaderName i)) \<Rightarrow> Some (TableIndex_Header (i + 62))
      | _ \<Rightarrow> None)"

section \<open>The static table is consistent\<close>

lemma static_rows:
  "list_all (\<lambda>i. StaticTable_header_name i = map_option fst (StaticTable_header i)) [0..<62]"
  by code_simp

lemma static_none: "61 < i \<Longrightarrow> StaticTable_header i = None \<and> StaticTable_header_name i = None"
  by (simp add: StaticTable_header_def StaticTable_header_name_def)

lemma StaticTable_header_name_eq:
  "StaticTable_header_name i = map_option fst (StaticTable_header i)"
proof (cases "i \<le> 61")
  case True
  then show ?thesis using static_rows by (simp add: list_all_iff)
qed (simp add: static_none)

definition index_sound ::
    "(nat \<Rightarrow> (Header \<times> string) option) \<Rightarrow> Header \<Rightarrow> string \<Rightarrow> TableIndex option \<Rightarrow> bool" where
  "index_sound lookup h v r =
     (case r of
        None \<Rightarrow> True
      | Some (TableIndex_Header i) \<Rightarrow> lookup i = Some (h, v)
      | Some (TableIndex_HeaderName i) \<Rightarrow> map_option fst (lookup i) = Some h)"

lemma index_sound_simps [simp]:
  "index_sound lookup h v None"
  "index_sound lookup h v (Some (TableIndex_Header i)) \<longleftrightarrow> lookup i = Some (h, v)"
  "index_sound lookup h v (Some (TableIndex_HeaderName i)) \<longleftrightarrow> map_option fst (lookup i) = Some h"
  by (simp_all add: index_sound_def)

lemma static_index_headers_sound:
  "index_sound StaticTable_header (Header.Other key) value (StaticTable_index_headers key value)"
  by (simp add: StaticTable_index_headers_def StaticTable_header_def)

lemma static_index_sound:
  "index_sound StaticTable_header header value (StaticTable_index header value)"
  by (simp add: StaticTable_index_def static_index_headers_sound split: Header.split)
    (simp add: StaticTable_header_def)

section \<open>The dynamic table keeps its size\<close>

definition entry_size :: "Header \<times> string \<Rightarrow> nat" where
  "entry_size e = Header_len (fst e) + length (snd e) + 32"

definition queue_size :: "(Header \<times> string) list \<Rightarrow> nat" where
  "queue_size q = sum_list (map entry_size q)"

lemma queue_size_simps [simp]:
  "queue_size [] = 0"
  "queue_size (e # q) = entry_size e + queue_size q"
  "queue_size (q @ q') = queue_size q + queue_size q'"
  by (simp_all add: queue_size_def)

text \<open>The reference: the newest entries that fit, and nothing after the first that does not.\<close>

fun fit_prefix :: "nat \<Rightarrow> (Header \<times> string) list \<Rightarrow> (Header \<times> string) list" where
  "fit_prefix m [] = []"
| "fit_prefix m (e # q) = (if entry_size e \<le> m then e # fit_prefix (m - entry_size e) q else [])"

lemma fit_prefix_id: "queue_size q \<le> m \<Longrightarrow> fit_prefix m q = q"
  by (induction q arbitrary: m) auto

lemma fit_prefix_snoc: "m < queue_size (q @ [e]) \<Longrightarrow> fit_prefix m (q @ [e]) = fit_prefix m q"
  by (induction q arbitrary: m) auto

lemma fit_prefix_size: "queue_size (fit_prefix m q) \<le> m"
proof (induction q arbitrary: m)
  case (Cons e q)
  show ?case using Cons.IH [of "m - entry_size e"] by auto
qed simp

lemma fit_prefix_take: "\<exists>k. fit_prefix m q = take k q"
proof (induction q arbitrary: m)
  case (Cons e q)
  then obtain k where "fit_prefix (m - entry_size e) q = take k q" by blast
  then show ?case by (cases "entry_size e \<le> m") (auto intro: exI [of _ "Suc k"] exI [of _ 0])
qed simp

definition DynamicTable_wf :: "DynamicTable \<Rightarrow> bool" where
  "DynamicTable_wf t \<longleftrightarrow> dt_curr_size t = queue_size (dt_queue t) \<and> dt_curr_size t \<le> dt_max_size t"

lemma fit_size_eq:
  "dt_curr_size t = queue_size (dt_queue t) \<Longrightarrow>
   DynamicTable_fit_size t = t\<lparr>dt_queue := fit_prefix (dt_max_size t) (dt_queue t),
     dt_curr_size := queue_size (fit_prefix (dt_max_size t) (dt_queue t))\<rparr>"
proof (induction t rule: DynamicTable_fit_size.induct)
  case (1 t)
  show ?case
  proof (cases "dt_max_size t < dt_curr_size t \<and> dt_queue t \<noteq> []")
    case True
    then obtain q k v where q: "dt_queue t = q @ [(k, v)]" by (metis rev_exhaust surj_pair)
    have "m < queue_size (q @ [(k, v)]) \<Longrightarrow> fit_prefix m (q @ [(k, v)]) = fit_prefix m q" for m
      by (rule fit_prefix_snoc)
    then show ?thesis using "1.IH" [OF True, of "(k, v)" k v] "1.prems" True q
      by (subst DynamicTable_fit_size.simps) (simp add: entry_size_def)
  next
    case False
    then have "queue_size (dt_queue t) \<le> dt_max_size t" using "1.prems" by auto
    then show ?thesis using False "1.prems"
      by (subst DynamicTable_fit_size.simps) (simp add: fit_prefix_id)
  qed
qed

lemma update_eq:
  "DynamicTable_wf t \<Longrightarrow>
   DynamicTable_update t h v = t\<lparr>dt_queue := fit_prefix (dt_max_size t) ((h, v) # dt_queue t),
     dt_curr_size := queue_size (fit_prefix (dt_max_size t) ((h, v) # dt_queue t))\<rparr>"
  unfolding DynamicTable_update_def
  by (subst fit_size_eq) (simp_all add: DynamicTable_wf_def entry_size_def)

text \<open>
  C23. Insertion into the dynamic table follows the size rule of HPACK: on a table whose recorded
  size is the sum of its entries, the new table holds the longest run of entries, newest first
  and starting with the new one, that fits the maximum; its recorded size is again the sum of its
  entries, within the maximum, and the recorded size never underflows. An entry larger than the
  maximum empties the table.
\<close>

theorem dynamic_table_update:
  assumes "DynamicTable_wf t"
  shows "dt_queue (DynamicTable_update t h v) = fit_prefix (dt_max_size t) ((h, v) # dt_queue t)
    \<and> DynamicTable_wf (DynamicTable_update t h v)
    \<and> dt_max_size (DynamicTable_update t h v) = dt_max_size t"
  using assms fit_prefix_size by (simp add: update_eq DynamicTable_wf_def del: fit_prefix.simps)

theorem dynamic_table_update_witness:
  "dt_queue (DynamicTable_update (DynamicTable_with_max_size 40) (Header.Other ''ab'') ''cd'')
     = fit_prefix 40 [(Header.Other ''ab'', ''cd'')]
   \<and> DynamicTable_wf (DynamicTable_update (DynamicTable_with_max_size 40) (Header.Other ''ab'') ''cd'')
   \<and> dt_max_size (DynamicTable_update (DynamicTable_with_max_size 40) (Header.Other ''ab'') ''cd'') = 40"
  using dynamic_table_update [of "DynamicTable_with_max_size 40" "Header.Other ''ab''" "''cd''"]
  by (simp add: DynamicTable_wf_def DynamicTable_with_max_size_def)

lemma DynamicTable_wf_new [simp]: "DynamicTable_wf (DynamicTable_with_max_size m)"
  by (simp add: DynamicTable_wf_def DynamicTable_with_max_size_def)

lemma DynamicTable_wf_update: "DynamicTable_wf t \<Longrightarrow> DynamicTable_wf (DynamicTable_update t h v)"
  using fit_prefix_size by (simp add: update_eq DynamicTable_wf_def del: fit_prefix.simps)

lemma DynamicTable_wf_update_size:
  "DynamicTable_wf t \<Longrightarrow> DynamicTable_wf (DynamicTable_update_size t m)"
  using fit_prefix_size
  by (simp add: DynamicTable_update_size_def DynamicTable_wf_def fit_size_eq)

text \<open>
  Changing the maximum size keeps the newest entries that fit the new maximum, drops the
  oldest, and leaves the size bookkeeping intact.
\<close>

theorem dynamic_table_resize:
  assumes "DynamicTable_wf t"
  shows "dt_queue (DynamicTable_update_size t m) = fit_prefix m (dt_queue t)
    \<and> DynamicTable_wf (DynamicTable_update_size t m)
    \<and> dt_max_size (DynamicTable_update_size t m) = m"
  using assms fit_prefix_size
  by (simp add: DynamicTable_update_size_def DynamicTable_wf_def fit_size_eq)

theorem dynamic_table_resize_witness:
  "dt_queue (DynamicTable_update_size (DynamicTable_with_max_size 40) 0) = fit_prefix 0 []
   \<and> DynamicTable_wf (DynamicTable_update_size (DynamicTable_with_max_size 40) 0)
   \<and> dt_max_size (DynamicTable_update_size (DynamicTable_with_max_size 40) 0) = 0"
  using dynamic_table_resize [of "DynamicTable_with_max_size 40" 0]
  by (simp add: DynamicTable_wf_def DynamicTable_with_max_size_def)

section \<open>Searching\<close>

lemma index_loop_exact:
  "(h, v) \<in> set q \<Longrightarrow> DynamicTable_index_loop h v index n q =
     Some (TableIndex_Header (n + length (takeWhile (\<lambda>e. e \<noteq> (h, v)) q)))"
  by (induction h v index n q rule: DynamicTable_index_loop.induct) auto

lemma index_loop_name:
  "(h, v) \<notin> set q \<Longrightarrow> DynamicTable_index_loop h v index n q =
     (if index \<noteq> None then index
      else if list_ex (\<lambda>e. fst e = h) q
      then Some (TableIndex_HeaderName (n + length (takeWhile (\<lambda>e. fst e \<noteq> h) q)))
      else None)"
  by (induction h v index n q rule: DynamicTable_index_loop.induct)
    auto

lemma length_takeWhile_found:
  assumes "x \<in> set xs" "\<not> P x"
  shows "length (takeWhile P xs) < length xs" "\<not> P (xs ! length (takeWhile P xs))"
  using assms by (induction xs) auto

lemma dynamic_index_sound:
  "index_sound (DynamicTable_header t) h v (DynamicTable_index t h v)"
proof (cases "(h, v) \<in> set (dt_queue t)")
  case True
  then show ?thesis
    using length_takeWhile_found [of "(h, v)" "dt_queue t" "\<lambda>e. e \<noteq> (h, v)"]
    by (simp add: DynamicTable_index_def index_loop_exact DynamicTable_header_def)
next
  case False
  show ?thesis
  proof (cases "list_ex (\<lambda>e. fst e = h) (dt_queue t)")
    case True
    then obtain e where "e \<in> set (dt_queue t)" "fst e = h" by (auto simp: list_ex_iff)
    then show ?thesis
      using False True length_takeWhile_found [of e "dt_queue t" "\<lambda>e. fst e \<noteq> h"]
      by (simp add: DynamicTable_index_def index_loop_name DynamicTable_header_def)
  qed (use False in \<open>simp add: DynamicTable_index_def index_loop_name\<close>)
qed

lemma dynamic_index_name_only:
  "DynamicTable_index t h v = Some (TableIndex_HeaderName i) \<Longrightarrow> (h, v) \<notin> set (dt_queue t)"
  by (auto simp: DynamicTable_index_def index_loop_exact)

lemma header_name_eq_fst:
  "DynamicTable_header_name t i = map_option fst (DynamicTable_header t i)"
  by (simp add: DynamicTable_header_name_def DynamicTable_header_def)

lemma search_header_name_eq:
  "TableSearcher_search_header_name t i = map_option fst (TableSearcher_search_header t i)"
  by (simp add: TableSearcher_search_header_name_def TableSearcher_search_header_def
      StaticTable_header_name_eq header_name_eq_fst)

lemma search_static: "StaticTable_header i = Some e \<Longrightarrow> TableSearcher_search_header t i = Some e"
  using static_none [of i] by (cases "i \<le> 61") (simp_all add: TableSearcher_search_header_def)

lemma search_dynamic: "TableSearcher_search_header t (i + 62) = DynamicTable_header t i"
  by (simp add: TableSearcher_search_header_def)

text \<open>A search is confused when only the dynamic table knows the name, with another value.\<close>

definition search_confused :: "DynamicTable \<Rightarrow> Header \<Rightarrow> string \<Rightarrow> bool" where
  "search_confused t h v \<longleftrightarrow> StaticTable_index h v = None \<and>
     (case DynamicTable_index t h v of Some (TableIndex_HeaderName i) \<Rightarrow> True | _ \<Rightarrow> False)"

lemma searcher_index_sound:
  "search_confused t h v \<or> index_sound (TableSearcher_search_header t) h v (TableSearcher_index t h v)"
  using static_index_sound [of h v] dynamic_index_sound [of t h v]
  by (auto simp: TableSearcher_index_def search_confused_def search_dynamic search_static
      simp flip: add_2_eq_Suc' split: option.splits TableIndex.splits)

text \<open>
  The searcher's answer is right outside one case: a full match names an entry equal to the
  header field and a name match an entry with its name, in the static table below index 62 and in
  the dynamic table above, unless only the dynamic table knows the name and with another value.
\<close>

theorem searcher_sound:
  "search_confused t h v \<or> index_sound (TableSearcher_search_header t) h v (TableSearcher_index t h v)"
  by (rule searcher_index_sound)

lemma searcher_confuses_values:
  assumes "search_confused t h v"
  shows "\<exists>i v'. TableSearcher_index t h v = Some (TableIndex_Header i)
    \<and> TableSearcher_search_header t i = Some (h, v') \<and> v' \<noteq> v"
proof -
  obtain i where i: "DynamicTable_index t h v = Some (TableIndex_HeaderName i)"
    and s: "StaticTable_index h v = None"
    using assms by (auto simp: search_confused_def split: option.splits TableIndex.splits)
  obtain v' where e: "DynamicTable_header t i = Some (h, v')"
    using dynamic_index_sound [of t h v] by (auto simp: i)
  then have "(h, v') \<in> set (dt_queue t)"
    by (auto simp: DynamicTable_header_def split: if_splits dest: nth_mem)
  then show ?thesis using i s e dynamic_index_name_only [OF i]
    by (intro exI [of _ "i + 62"] exI [of _ v']) (auto simp: TableSearcher_index_def search_dynamic
      simp del: add_numeral_left)
qed

end
