(* ===== verification/H2_Parts.thy ===== *)
theory H2_Parts
  imports H2_Error Headers Hpack_Table
begin

text \<open>
  Pseudo headers (\<open>ylong_http/src/pseudo.rs\<close>) and the payload of a HEADERS frame
  (\<open>ylong_http/src/h2/parts.rs\<close>): the pseudo headers and the header map that the HPACK decoder
  fills and the HPACK encoder empties.
\<close>

section \<open>Pseudo headers\<close>

record PseudoHeaders =
  ps_authority :: "string option"
  ps_method :: "string option"
  ps_path :: "string option"
  ps_scheme :: "string option"
  ps_status :: "string option"

definition PseudoHeaders_new :: PseudoHeaders where
  "PseudoHeaders_new =
     \<lparr>ps_authority = None, ps_method = None, ps_path = None, ps_scheme = None, ps_status = None\<rparr>"

definition PseudoHeaders_is_empty :: "PseudoHeaders \<Rightarrow> bool" where
  "PseudoHeaders_is_empty p \<longleftrightarrow>
     ps_authority p = None \<and>
     ps_method p = None \<and>
     ps_path p = None \<and>
     ps_scheme p = None \<and>
     ps_status p = None"

definition PseudoHeaders_contains_authority :: "PseudoHeaders \<Rightarrow> bool" where
  "PseudoHeaders_contains_authority p \<longleftrightarrow> ps_authority p \<noteq> None"

definition PseudoHeaders_set_authority :: "PseudoHeaders \<Rightarrow> string option \<Rightarrow> PseudoHeaders" where
  "PseudoHeaders_set_authority p v = p\<lparr>ps_authority := v\<rparr>"

definition PseudoHeaders_take_authority :: "PseudoHeaders \<Rightarrow> string option \<times> PseudoHeaders" where
  "PseudoHeaders_take_authority p = (ps_authority p, p\<lparr>ps_authority := None\<rparr>)"

definition PseudoHeaders_contains_method :: "PseudoHeaders \<Rightarrow> bool" where
  "PseudoHeaders_contains_method p \<longleftrightarrow> ps_method p \<noteq> None"

definition PseudoHeaders_set_method :: "PseudoHeaders \<Rightarrow> string option \<Rightarrow> PseudoHeaders" where
  "PseudoHeaders_set_method p v = p\<lparr>ps_method := v\<rparr>"

definition PseudoHeaders_take_method :: "PseudoHeaders \<Rightarrow> string option \<times> PseudoHeaders" where
  "PseudoHeaders_take_method p = (ps_method p, p\<lparr>ps_method := None\<rparr>)"

definition PseudoHeaders_contains_path :: "PseudoHeaders \<Rightarrow> bool" where
  "PseudoHeaders_contains_path p \<longleftrightarrow> ps_path p \<noteq> None"

definition PseudoHeaders_set_path :: "PseudoHeaders \<Rightarrow> string option \<Rightarrow> PseudoHeaders" where
  "PseudoHeaders_set_path p v = p\<lparr>ps_path := v\<rparr>"

definition PseudoHeaders_take_path :: "PseudoHeaders \<Rightarrow> string option \<times> PseudoHeaders" where
  "PseudoHeaders_take_path p = (ps_path p, p\<lparr>ps_path := None\<rparr>)"

definition PseudoHeaders_contains_scheme :: "PseudoHeaders \<Rightarrow> bool" where
  "PseudoHeaders_contains_scheme p \<longleftrightarrow> ps_scheme p \<noteq> None"

definition PseudoHeaders_set_scheme :: "PseudoHeaders \<Rightarrow> string option \<Rightarrow> PseudoHeaders" where
  "PseudoHeaders_set_scheme p v = p\<lparr>ps_scheme := v\<rparr>"

definition PseudoHeaders_take_scheme :: "PseudoHeaders \<Rightarrow> string option \<times> PseudoHeaders" where
  "PseudoHeaders_take_scheme p = (ps_scheme p, p\<lparr>ps_scheme := None\<rparr>)"

definition PseudoHeaders_contains_status :: "PseudoHeaders \<Rightarrow> bool" where
  "PseudoHeaders_contains_status p \<longleftrightarrow> ps_status p \<noteq> None"

definition PseudoHeaders_set_status :: "PseudoHeaders \<Rightarrow> string option \<Rightarrow> PseudoHeaders" where
  "PseudoHeaders_set_status p v = p\<lparr>ps_status := v\<rparr>"

definition PseudoHeaders_take_status :: "PseudoHeaders \<Rightarrow> string option \<times> PseudoHeaders" where
  "PseudoHeaders_take_status p = (ps_status p, p\<lparr>ps_status := None\<rparr>)"

lemmas pseudo_defs =
  PseudoHeaders_new_def PseudoHeaders_is_empty_def
  PseudoHeaders_contains_authority_def PseudoHeaders_set_authority_def PseudoHeaders_take_authority_def
  PseudoHeaders_contains_method_def PseudoHeaders_set_method_def PseudoHeaders_take_method_def
  PseudoHeaders_contains_path_def PseudoHeaders_set_path_def PseudoHeaders_take_path_def
  PseudoHeaders_contains_scheme_def PseudoHeaders_set_scheme_def PseudoHeaders_take_scheme_def
  PseudoHeaders_contains_status_def PseudoHeaders_set_status_def PseudoHeaders_take_status_def

section \<open>Parts\<close>

record Parts =
  parts_pseudo :: PseudoHeaders
  parts_map :: Headers

definition Parts_new :: Parts where
  "Parts_new = \<lparr>parts_pseudo = PseudoHeaders_new, parts_map = Headers_new\<rparr>"

definition Parts_is_empty :: "Parts \<Rightarrow> bool" where
  "Parts_is_empty p \<longleftrightarrow>
     PseudoHeaders_is_empty (parts_pseudo p) \<and> Headers_is_empty (parts_map p)"

definition Parts_set_pseudo :: "Parts \<Rightarrow> PseudoHeaders \<Rightarrow> Parts" where
  "Parts_set_pseudo p pseudo = p\<lparr>parts_pseudo := pseudo\<rparr>"

definition Parts_set_header_lines :: "Parts \<Rightarrow> Headers \<Rightarrow> Parts" where
  "Parts_set_header_lines p headers = p\<lparr>parts_map := headers\<rparr>"

text \<open>The append is unwrapped: an error of it is a panic.\<close>

definition Parts_update :: "Parts \<Rightarrow> Header \<Rightarrow> string \<Rightarrow> (Parts, H2Error) rust_result" where
  "Parts_update p headers value =
     (case headers of
        Header.Authority \<Rightarrow>
          Ok (p\<lparr>parts_pseudo := PseudoHeaders_set_authority (parts_pseudo p) (Some value)\<rparr>)
      | Header.Method \<Rightarrow>
          Ok (p\<lparr>parts_pseudo := PseudoHeaders_set_method (parts_pseudo p) (Some value)\<rparr>)
      | Header.Path \<Rightarrow>
          Ok (p\<lparr>parts_pseudo := PseudoHeaders_set_path (parts_pseudo p) (Some value)\<rparr>)
      | Header.Scheme \<Rightarrow>
          Ok (p\<lparr>parts_pseudo := PseudoHeaders_set_scheme (parts_pseudo p) (Some value)\<rparr>)
      | Header.Status \<Rightarrow>
          Ok (p\<lparr>parts_pseudo := PseudoHeaders_set_status (parts_pseudo p) (Some value)\<rparr>)
      | Header.Other header \<Rightarrow>
          (case Headers_append (parts_map p) (as_bytes header) (as_bytes value) of
             (m, Ok _) \<Rightarrow> Ok (p\<lparr>parts_map := m\<rparr>)
           | (m, _) \<Rightarrow> Panic))"

text \<open>A header field that the map takes.\<close>

definition field_ok :: "Header \<Rightarrow> string \<Rightarrow> bool" where
  "field_ok h v \<longleftrightarrow>
     (case h of
        Header.Other s \<Rightarrow>
          list_all (\<lambda>b. HEADER_CHARS ! unat b \<noteq> 0) (as_bytes s) \<and>
          list_all HeaderValue_is_valid (as_bytes v)
      | _ \<Rightarrow> True)"

lemma Parts_update_Ok_iff: "(\<exists>p'. Parts_update p h v = Ok p') \<longleftrightarrow> field_ok h v"
  by (auto simp: Parts_update_def field_ok_def Headers_append_def from_bytes_eq
      HeaderValue_from_bytes_def split: Header.splits)

lemma Parts_update_Panic_iff: "Parts_update p h v = Panic \<longleftrightarrow> \<not> field_ok h v"
  by (auto simp: Parts_update_def field_ok_def Headers_append_def from_bytes_eq
      HeaderValue_from_bytes_def split: Header.splits)

lemma Parts_update_not_Err [simp]: "Parts_update p h v \<noteq> Err e"
  by (auto simp: Parts_update_def Headers_append_def from_bytes_eq
      HeaderValue_from_bytes_def split: Header.splits)

end
