(* ===== verification/Hpack_Decoder.thy ===== *)
theory Hpack_Decoder
  imports Hpack_Repr_Decoder H2_Parts
begin

text \<open>
  The HPACK decoder (\<open>ylong_http/src/h2/hpack/decoder.rs\<close>): representations are decoded one by
  one from the bytes at hand and each updates the dynamic table and the header lines. Every
  operation returns the state it leaves, also when it fails.
\<close>

section \<open>The updater\<close>

record HeaderLines =
  hl_parts :: Parts
  hl_header_size :: nat

definition header_line_length :: "nat \<Rightarrow> nat \<Rightarrow> nat" where
  "header_line_length key_size value_size = key_size + value_size + 32"

definition Updater_check_header_list_size ::
    "nat \<Rightarrow> HeaderLines \<Rightarrow> Header \<Rightarrow> string \<Rightarrow> HeaderLines \<times> (unit, H2Error) rust_result" where
  "Updater_check_header_list_size header_list_size lines key value =
     (let line_size = header_line_length (Header_len key) (length value);
          lines = lines\<lparr>hl_header_size := hl_header_size lines + line_size\<rparr>
      in if hl_header_size lines > header_list_size
         then (lines, Err (ConnectionError ConnectError))
         else (lines, Ok ()))"

definition Updater_get_header_by_name_and_value ::
    "DynamicTable \<Rightarrow> Name \<Rightarrow> bytes \<Rightarrow> (Header \<times> string, H2Error) rust_result" where
  "Updater_get_header_by_name_and_value table name value =
     (case name of
        Name_Index index \<Rightarrow>
          (case TableSearcher_search_header_name table index of
             Some h \<Rightarrow> Ok (h, from_utf8_unchecked value)
           | None \<Rightarrow> Err (ConnectionError CompressionError))
      | Name_Literal octets \<Rightarrow>
          Ok (Header.Other (from_utf8_unchecked octets), from_utf8_unchecked value))"

definition HeaderLines_update_parts ::
    "HeaderLines \<Rightarrow> Header \<Rightarrow> string \<Rightarrow> HeaderLines \<times> (unit, H2Error) rust_result" where
  "HeaderLines_update_parts lines h v =
     (case Parts_update (hl_parts lines) h v of
        Ok parts \<Rightarrow> (lines\<lparr>hl_parts := parts\<rparr>, Ok ())
      | Err e \<Rightarrow> (lines, Err e)
      | Panic \<Rightarrow> (lines, Panic))"

type_synonym updater_result = "DynamicTable \<times> HeaderLines \<times> (unit, H2Error) rust_result"

definition Updater_update_indexed ::
    "nat \<Rightarrow> DynamicTable \<Rightarrow> HeaderLines \<Rightarrow> nat \<Rightarrow> updater_result" where
  "Updater_update_indexed header_list_size table lines index =
     (case TableSearcher_search_header table index of
        None \<Rightarrow> (table, lines, Err (ConnectionError CompressionError))
      | Some (h, v) \<Rightarrow>
          (case Updater_check_header_list_size header_list_size lines h v of
             (lines, Ok _) \<Rightarrow> (table, HeaderLines_update_parts lines h v)
           | (lines, r) \<Rightarrow> (table, lines, r)))"

definition Updater_update_literal_with_indexing ::
    "nat \<Rightarrow> DynamicTable \<Rightarrow> HeaderLines \<Rightarrow> Name \<Rightarrow> bytes \<Rightarrow> updater_result" where
  "Updater_update_literal_with_indexing header_list_size table lines name value =
     (case Updater_get_header_by_name_and_value table name value of
        Err e \<Rightarrow> (table, lines, Err e)
      | Panic \<Rightarrow> (table, lines, Panic)
      | Ok (h, v) \<Rightarrow>
          (case Updater_check_header_list_size header_list_size lines h v of
             (lines, Ok _) \<Rightarrow>
               (DynamicTable_update table h v, HeaderLines_update_parts lines h v)
           | (lines, r) \<Rightarrow> (table, lines, r)))"

definition Updater_update_literal_without_indexing ::
    "nat \<Rightarrow> DynamicTable \<Rightarrow> HeaderLines \<Rightarrow> Name \<Rightarrow> bytes \<Rightarrow> updater_result" where
  "Updater_update_literal_without_indexing header_list_size table lines name value =
     (case Updater_get_header_by_name_and_value table name value of
        Err e \<Rightarrow> (table, lines, Err e)
      | Panic \<Rightarrow> (table, lines, Panic)
      | Ok (h, v) \<Rightarrow>
          (case Updater_check_header_list_size header_list_size lines h v of
             (lines, Ok _) \<Rightarrow> (table, HeaderLines_update_parts lines h v)
           | (lines, r) \<Rightarrow> (table, lines, r)))"

definition Updater_update_literal_never_indexing ::
    "nat \<Rightarrow> DynamicTable \<Rightarrow> HeaderLines \<Rightarrow> Name \<Rightarrow> bytes \<Rightarrow> updater_result" where
  "Updater_update_literal_never_indexing = Updater_update_literal_without_indexing"

definition Updater_update ::
    "nat \<Rightarrow> DynamicTable \<Rightarrow> HeaderLines \<Rightarrow> Representation \<Rightarrow> updater_result" where
  "Updater_update header_list_size table lines repr =
     (case repr of
        Repr_Indexed index \<Rightarrow> Updater_update_indexed header_list_size table lines index
      | LiteralWithIndexing n v \<Rightarrow>
          Updater_update_literal_with_indexing header_list_size table lines n v
      | LiteralWithoutIndexing n v \<Rightarrow>
          Updater_update_literal_without_indexing header_list_size table lines n v
      | LiteralNeverIndexed n v \<Rightarrow>
          Updater_update_literal_never_indexing header_list_size table lines n v
      | SizeUpdate max_size \<Rightarrow> (DynamicTable_update_size table max_size, lines, Ok ()))"

section \<open>The decoder\<close>

record HpackDecoder =
  hpd_header_list_size :: nat
  hpd_table :: DynamicTable
  hpd_lines :: HeaderLines
  hpd_holder :: "ReprDecodeState option"

definition HpackDecoder_with_max_size :: "nat \<Rightarrow> nat \<Rightarrow> HpackDecoder" where
  "HpackDecoder_with_max_size header_table_size max_header_list_size =
     \<lparr>hpd_header_list_size = max_header_list_size,
      hpd_table = DynamicTable_with_max_size header_table_size,
      hpd_lines = \<lparr>hl_parts = Parts_new, hl_header_size = 0\<rparr>,
      hpd_holder = None\<rparr>"

function HpackDecoder_decode_loop ::
    "nat \<Rightarrow> ReprDecoder \<Rightarrow> DynamicTable \<Rightarrow> HeaderLines \<Rightarrow>
     ReprDecodeState option \<times> updater_result" where
  "HpackDecoder_decode_loop header_list_size d table lines =
     (case ReprDecoder_decode d of
        (d, Ok None) \<Rightarrow> (rd_state d, table, lines, Ok ())
      | (d, Ok (Some repr)) \<Rightarrow>
          (case Updater_update header_list_size table lines repr of
             (table, lines, Ok _) \<Rightarrow> HpackDecoder_decode_loop header_list_size d table lines
           | (table, lines, r) \<Rightarrow> (None, table, lines, r))
      | (d, Err e) \<Rightarrow> (None, table, lines, Err e)
      | (d, Panic) \<Rightarrow> (None, table, lines, Panic))"
  by pat_completeness auto
termination
  by (relation "measure (\<lambda>(_, d, _, _). rd_rank d)")
    (auto dest: ReprDecoder_decode_progress [OF sym])

declare HpackDecoder_decode_loop.simps [simp del]

definition HpackDecoder_decode ::
    "HpackDecoder \<Rightarrow> bytes \<Rightarrow> HpackDecoder \<times> (unit, H2Error) rust_result" where
  "HpackDecoder_decode h buf =
     (case HpackDecoder_decode_loop (hpd_header_list_size h)
             \<lparr>rd_buf = buf, rd_state = hpd_holder h\<rparr> (hpd_table h) (hpd_lines h) of
        (holder, table, lines, r) \<Rightarrow>
          (h\<lparr>hpd_holder := holder, hpd_table := table, hpd_lines := lines\<rparr>, r))"

definition HpackDecoder_finish :: "HpackDecoder \<Rightarrow> HpackDecoder \<times> (Parts, H2Error) rust_result" where
  "HpackDecoder_finish h =
     (if hpd_holder h \<noteq> None then (h, Err (ConnectionError CompressionError))
      else (h\<lparr>hpd_lines := \<lparr>hl_parts = Parts_new, hl_header_size = 0\<rparr>\<rparr>,
            Ok (hl_parts (hpd_lines h))))"

definition HpackDecoder_update_header_list_size :: "HpackDecoder \<Rightarrow> nat \<Rightarrow> HpackDecoder" where
  "HpackDecoder_update_header_list_size h size1 = h\<lparr>hpd_header_list_size := size1\<rparr>"

section \<open>Decoding in segments\<close>

definition dec_start :: "ReprDecodeState option \<Rightarrow> ReprDecodeState" where
  "dec_start st = (case st of None \<Rightarrow> DecodeState_Index IndexInner_FirstByte | Some s \<Rightarrow> s)"

lemma loop_unfold:
  "HpackDecoder_decode_loop hls \<lparr>rd_buf = buf, rd_state = st\<rparr> table lines =
     (if buf = [] then (st, table, lines, Ok ())
      else case ReprDecodeState_decode (dec_start st) buf of
        (NeedMore s, _) \<Rightarrow> (Some s, table, lines, Ok ())
      | (DecResult_Error e, _) \<Rightarrow> (None, table, lines, Err e)
      | (Decoded repr, rest) \<Rightarrow>
          (case Updater_update hls table lines repr of
             (table, lines, Ok _) \<Rightarrow>
               HpackDecoder_decode_loop hls \<lparr>rd_buf = rest, rd_state = None\<rparr> table lines
           | (table, lines, r) \<Rightarrow> (None, table, lines, r)))"
  by (subst HpackDecoder_decode_loop.simps)
    (simp add: ReprDecoder_decode_def dec_start_def split: DecResult.split prod.split)

lemma loop_same_result:
  assumes "buf \<noteq> []" "buf' \<noteq> []"
    and "same_result (ReprDecodeState_decode (dec_start st) buf)
      (ReprDecodeState_decode (dec_start st') buf')"
  shows "HpackDecoder_decode_loop hls \<lparr>rd_buf = buf, rd_state = st\<rparr> table lines =
    HpackDecoder_decode_loop hls \<lparr>rd_buf = buf', rd_state = st'\<rparr> table lines"
  using assms
  by (auto simp: loop_unfold same_result_def split: prod.splits DecResult.splits)

text \<open>Induction along the representations of a buffer.\<close>

lemma loop_induct [case_names step]:
  assumes "\<And>buf st table lines.
    (\<And>repr rest table' lines'. buf \<noteq> [] \<Longrightarrow>
       ReprDecodeState_decode (dec_start st) buf = (Decoded repr, rest) \<Longrightarrow>
       Updater_update hls table lines repr = (table', lines', Ok ()) \<Longrightarrow>
       P rest None table' lines') \<Longrightarrow> P buf st table lines"
  shows "P buf st table lines"
proof (induction "rd_rank \<lparr>rd_buf = buf, rd_state = st\<rparr>" arbitrary: buf st table lines
    rule: less_induct)
  case less
  show ?case
  proof (rule assms)
    fix repr rest table' lines'
    assume "buf \<noteq> []" "ReprDecodeState_decode (dec_start st) buf = (Decoded repr, rest)"
    then have "ReprDecoder_decode \<lparr>rd_buf = buf, rd_state = st\<rparr>
        = (\<lparr>rd_buf = rest, rd_state = None\<rparr>, Ok (Some repr))"
      by (simp add: ReprDecoder_decode_def dec_start_def)
    then show "P rest None table' lines'"
      by (intro less ReprDecoder_decode_progress)
  qed
qed

lemma loop_append:
  "HpackDecoder_decode_loop hls \<lparr>rd_buf = xs @ ys, rd_state = st\<rparr> table lines =
     (case HpackDecoder_decode_loop hls \<lparr>rd_buf = xs, rd_state = st\<rparr> table lines of
        (st, table, lines, Ok _) \<Rightarrow>
          HpackDecoder_decode_loop hls \<lparr>rd_buf = ys, rd_state = st\<rparr> table lines
      | r \<Rightarrow> r)"
proof (induction xs st table lines rule: loop_induct [where hls = hls])
  case (step xs st table lines)
  show ?case
  proof (cases "xs = []")
    case True
    then show ?thesis by (simp add: loop_unfold [of hls "[]"])
  next
    case False
    obtain res r where dec: "ReprDecodeState_decode (dec_start st) xs = (res, r)" by force
    show ?thesis
    proof (cases res)
      case (Decoded repr)
      have "ReprDecodeState_decode (dec_start st) (xs @ ys) = (Decoded repr, r @ ys)"
        using repr_dec.complete dec Decoded by blast
      then show ?thesis using False dec Decoded step
        by (simp add: loop_unfold [of hls "xs @ ys"] loop_unfold [of hls xs]
            split: prod.split rust_result.split)
    next
      case (NeedMore s)
      have "same_result (ReprDecodeState_decode (dec_start st) (xs @ ys))
          (ReprDecodeState_decode (dec_start (Some s)) ys)"
        using repr_dec.more [of "dec_start st" xs s r ys] dec NeedMore by (simp add: dec_start_def)
      then have "ys \<noteq> [] \<Longrightarrow> HpackDecoder_decode_loop hls \<lparr>rd_buf = xs @ ys, rd_state = st\<rparr> table lines
          = HpackDecoder_decode_loop hls \<lparr>rd_buf = ys, rd_state = Some s\<rparr> table lines"
        using False by (intro loop_same_result) simp_all
      then show ?thesis using False dec NeedMore
        by (cases "ys = []") (simp_all add: loop_unfold [of hls xs] loop_unfold [of hls "[]"])
    next
      case (DecResult_Error e)
      then have "fst (ReprDecodeState_decode (dec_start st) (xs @ ys)) = DecResult_Error e"
        using repr_dec.failed dec by blast
      then show ?thesis using False dec DecResult_Error
        by (auto simp: loop_unfold [of hls "xs @ ys"] loop_unfold [of hls xs] split: prod.split)
    qed
  qed
qed

lemma hpack_decode_segments:
  "HpackDecoder_decode h (xs @ ys) =
     (case HpackDecoder_decode h xs of
        (h', Ok _) \<Rightarrow> HpackDecoder_decode h' ys
      | (h', r) \<Rightarrow> (h', r))"
  by (simp add: HpackDecoder_decode_def loop_append split: prod.split rust_result.split)

text \<open>
  C14. The HPACK decoder does not depend on how a header block is cut: decoding a block at once
  leaves the decoder, its dynamic table, its header lines and its suspended state, and the result,
  exactly as decoding a first part and, unless that fails, the rest. A failure of the first part is
  the failure of the whole.
\<close>

theorem hpack_decode_append:
  "HpackDecoder_decode h (xs @ ys) =
     (case HpackDecoder_decode h xs of
        (h', Ok _) \<Rightarrow> HpackDecoder_decode h' ys
      | (h', r) \<Rightarrow> (h', r))"
  by (rule hpack_decode_segments)

section \<open>What an update does\<close>

text \<open>The header field a representation stands for, and whether it enters the dynamic table.\<close>

definition repr_field :: "DynamicTable \<Rightarrow> Representation \<Rightarrow> (Header \<times> string) option" where
  "repr_field table repr =
     (case repr of
        Repr_Indexed index \<Rightarrow> TableSearcher_search_header table index
      | LiteralWithIndexing (Name_Index i) v \<Rightarrow>
          map_option (\<lambda>h. (h, from_utf8_unchecked v)) (TableSearcher_search_header_name table i)
      | LiteralWithoutIndexing (Name_Index i) v \<Rightarrow>
          map_option (\<lambda>h. (h, from_utf8_unchecked v)) (TableSearcher_search_header_name table i)
      | LiteralNeverIndexed (Name_Index i) v \<Rightarrow>
          map_option (\<lambda>h. (h, from_utf8_unchecked v)) (TableSearcher_search_header_name table i)
      | LiteralWithIndexing (Name_Literal n) v \<Rightarrow>
          Some (Header.Other (from_utf8_unchecked n), from_utf8_unchecked v)
      | LiteralWithoutIndexing (Name_Literal n) v \<Rightarrow>
          Some (Header.Other (from_utf8_unchecked n), from_utf8_unchecked v)
      | LiteralNeverIndexed (Name_Literal n) v \<Rightarrow>
          Some (Header.Other (from_utf8_unchecked n), from_utf8_unchecked v)
      | SizeUpdate _ \<Rightarrow> None)"

definition repr_table :: "DynamicTable \<Rightarrow> Representation \<Rightarrow> Header \<times> string \<Rightarrow> DynamicTable" where
  "repr_table table repr e =
     (case repr of LiteralWithIndexing _ _ \<Rightarrow> DynamicTable_update table (fst e) (snd e) | _ \<Rightarrow> table)"

definition grown :: "HeaderLines \<Rightarrow> Header \<times> string \<Rightarrow> HeaderLines" where
  "grown lines e = lines\<lparr>hl_header_size := hl_header_size lines + entry_size e\<rparr>"

lemma Updater_update_eq:
  assumes "\<nexists>m. repr = SizeUpdate m"
  shows "Updater_update hls table lines repr =
     (case repr_field table repr of
        None \<Rightarrow> (table, lines, Err (ConnectionError CompressionError))
      | Some (h, v) \<Rightarrow>
          if hls < hl_header_size lines + entry_size (h, v)
          then (table, grown lines (h, v), Err (ConnectionError ConnectError))
          else (repr_table table repr (h, v), HeaderLines_update_parts (grown lines (h, v)) h v))"
proof -
  have check: "Updater_check_header_list_size hls lines h v =
      (grown lines (h, v), if hls < hl_header_size lines + entry_size (h, v)
         then Err (ConnectionError ConnectError) else Ok ())" for h v
    by (simp add: Updater_check_header_list_size_def grown_def entry_size_def
        header_line_length_def Let_def add.assoc)
  show ?thesis
  proof (cases repr)
    case (SizeUpdate m)
    then show ?thesis using assms by simp
  qed (auto simp: Updater_update_def repr_field_def repr_table_def check
      Updater_update_indexed_def Updater_update_literal_with_indexing_def
      Updater_update_literal_without_indexing_def Updater_update_literal_never_indexing_def
      Updater_get_header_by_name_and_value_def split: Name.split option.split)
qed

lemma Updater_update_SizeUpdate:
  "Updater_update hls table lines (SizeUpdate m) = (DynamicTable_update_size table m, lines, Ok ())"
  by (simp add: Updater_update_def)

lemma update_parts_cases:
  "HeaderLines_update_parts lines h v = (lines', r) \<Longrightarrow>
   hl_header_size lines' = hl_header_size lines \<and> r = (if field_ok h v then Ok () else Panic)"
  using Parts_update_Ok_iff [of "hl_parts lines" h v] Parts_update_Panic_iff [of "hl_parts lines" h v]
  by (auto simp: HeaderLines_update_parts_def split: rust_result.splits)

lemma Updater_update_inv:
  assumes "Updater_update hls table lines repr = (table', lines', r)"
  shows "DynamicTable_wf table \<Longrightarrow> DynamicTable_wf table'"
    and "r = Ok () \<Longrightarrow> hl_header_size lines \<le> hls \<Longrightarrow> hl_header_size lines' \<le> hls"
proof (atomize (full), cases "\<exists>m. repr = SizeUpdate m")
  case True
  then show "(DynamicTable_wf table \<longrightarrow> DynamicTable_wf table') \<and>
    (r = Ok () \<longrightarrow> hl_header_size lines \<le> hls \<longrightarrow> hl_header_size lines' \<le> hls)"
    using assms by (auto simp: Updater_update_SizeUpdate DynamicTable_wf_update_size)
next
  case False
  then show "(DynamicTable_wf table \<longrightarrow> DynamicTable_wf table') \<and>
    (r = Ok () \<longrightarrow> hl_header_size lines \<le> hls \<longrightarrow> hl_header_size lines' \<le> hls)"
    using assms
    by (auto simp: Updater_update_eq repr_table_def DynamicTable_wf_update grown_def
        split: option.splits if_splits Representation.splits dest!: update_parts_cases)
qed

text \<open>
  C18. The decoder's memory stays bounded: on a decoder whose dynamic table keeps its size rule,
  decoding any bytes, in any segment and whatever the result, leaves a table that keeps it, and as
  long as decoding succeeds the header lines stay within the announced header list size.
\<close>

theorem hpack_decoder_bounded:
  assumes "DynamicTable_wf (hpd_table h)"
    and "hl_header_size (hpd_lines h) \<le> hpd_header_list_size h"
    and "HpackDecoder_decode h buf = (h', r)"
  shows "DynamicTable_wf (hpd_table h')
    \<and> (r = Ok () \<longrightarrow> hl_header_size (hpd_lines h') \<le> hpd_header_list_size h')
    \<and> hpd_header_list_size h' = hpd_header_list_size h"
proof -
  have "HpackDecoder_decode_loop hls \<lparr>rd_buf = buf, rd_state = st\<rparr> table lines = (st', table', lines', r)
      \<Longrightarrow> DynamicTable_wf table \<Longrightarrow> hl_header_size lines \<le> hls \<Longrightarrow>
      DynamicTable_wf table' \<and> (r = Ok () \<longrightarrow> hl_header_size lines' \<le> hls)"
    for hls st table lines st' table' lines'
  proof (induction buf st table lines rule: loop_induct [where hls = hls])
    case (step buf st table lines)
    then show ?case
      by (auto simp: loop_unfold [of hls buf st] split: if_splits prod.splits DecResult.splits
          rust_result.splits dest: Updater_update_inv)
  qed
  then show ?thesis using assms by (auto simp: HpackDecoder_decode_def split: prod.splits)
qed

theorem hpack_decoder_bounded_witness:
  "DynamicTable_wf (hpd_table (fst (HpackDecoder_decode (HpackDecoder_with_max_size 64 100) [0x82])))
    \<and> hl_header_size (hpd_lines (fst (HpackDecoder_decode (HpackDecoder_with_max_size 64 100) [0x82])))
        \<le> hpd_header_list_size (fst (HpackDecoder_decode (HpackDecoder_with_max_size 64 100) [0x82]))"
proof -
  let ?h = "HpackDecoder_with_max_size 64 100"
  have "snd (HpackDecoder_decode ?h [0x82]) = Ok ()" by code_simp
  then show ?thesis
    using hpack_decoder_bounded [of ?h "[0x82]" "fst (HpackDecoder_decode ?h [0x82])" "Ok ()"]
    by (simp add: HpackDecoder_with_max_size_def prod_eq_iff)
qed

text \<open>
  An update panics exactly when the header field its representation stands for is within the
  header list size and has a regular name or a value that the header map refuses.
\<close>

theorem updater_panic_iff:
  "(\<exists>table' lines'. Updater_update hls table lines repr = (table', lines', Panic)) \<longleftrightarrow>
   (\<exists>h v. repr_field table repr = Some (h, v) \<and> hl_header_size lines + entry_size (h, v) \<le> hls
      \<and> \<not> field_ok h v)"
proof (cases "\<exists>m. repr = SizeUpdate m")
  case True
  then show ?thesis by (auto simp: Updater_update_SizeUpdate repr_field_def)
next
  case False
  show ?thesis
  proof (cases "repr_field table repr")
    case None
    then show ?thesis using False by (simp add: Updater_update_eq)
  next
    case (Some e)
    obtain h v where e: "e = (h, v)" by force
    obtain lines' r where "HeaderLines_update_parts (grown lines (h, v)) h v = (lines', r)" by force
    then show ?thesis using False Some e update_parts_cases [of "grown lines (h, v)" h v lines' r]
      by (auto simp: Updater_update_eq)
  qed
qed

end
