(* ===== verification/Hpack_Encoder.thy ===== *)
theory Hpack_Encoder
  imports Hpack_Repr_Roundtrip Hpack_Decoder
begin

text \<open>
  The HPACK encoder (\<open>ylong_http/src/h2/hpack/encoder.rs\<close> and the \<open>ReprEncoder\<close> and \<open>PartsIter\<close>
  of \<open>ylong_http/src/h2/hpack/representation/encoder.rs\<close>): header fields are taken from an
  iterator over the parts one by one, looked up in the tables and written as representations into
  buffers of any length. The order in which the header map is traversed is a parameter.
\<close>

section \<open>Iterating over the parts\<close>

datatype PartsIterDirection =
    Dir_Authority | Dir_Method | Dir_Path | Dir_Scheme | Dir_Status | Dir_Other

type_synonym map_order = "(HeaderName \<rightharpoonup> HeaderValue) \<Rightarrow> (HeaderName \<times> HeaderValue) list"

record PartsIter =
  pi_pseudo :: PseudoHeaders
  pi_map :: "(HeaderName \<times> HeaderValue) list"
  pi_next_type :: PartsIterDirection

definition PartsIter_new :: "map_order \<Rightarrow> Parts \<Rightarrow> PartsIter" where
  "PartsIter_new order parts =
     \<lparr>pi_pseudo = parts_pseudo parts, pi_map = order (headers_map (parts_map parts)),
      pi_next_type = Dir_Method\<rparr>"

fun direction_rank :: "PartsIterDirection \<Rightarrow> nat" where
  "direction_rank Dir_Method = 5"
| "direction_rank Dir_Status = 4"
| "direction_rank Dir_Scheme = 3"
| "direction_rank Dir_Path = 2"
| "direction_rank Dir_Authority = 1"
| "direction_rank Dir_Other = 0"

function PartsIter_next :: "PartsIter \<Rightarrow> (Header \<times> string) option \<times> PartsIter" where
  "PartsIter_next it =
     (case pi_next_type it of
        Dir_Method \<Rightarrow>
          (case PseudoHeaders_take_method (pi_pseudo it) of
             (Some value, p) \<Rightarrow> (Some (Header.Method, value), it\<lparr>pi_pseudo := p\<rparr>)
           | (None, p) \<Rightarrow> PartsIter_next (it\<lparr>pi_pseudo := p, pi_next_type := Dir_Status\<rparr>))
      | Dir_Status \<Rightarrow>
          (case PseudoHeaders_take_status (pi_pseudo it) of
             (Some value, p) \<Rightarrow> (Some (Header.Status, value), it\<lparr>pi_pseudo := p\<rparr>)
           | (None, p) \<Rightarrow> PartsIter_next (it\<lparr>pi_pseudo := p, pi_next_type := Dir_Scheme\<rparr>))
      | Dir_Scheme \<Rightarrow>
          (case PseudoHeaders_take_scheme (pi_pseudo it) of
             (Some value, p) \<Rightarrow> (Some (Header.Scheme, value), it\<lparr>pi_pseudo := p\<rparr>)
           | (None, p) \<Rightarrow> PartsIter_next (it\<lparr>pi_pseudo := p, pi_next_type := Dir_Path\<rparr>))
      | Dir_Path \<Rightarrow>
          (case PseudoHeaders_take_path (pi_pseudo it) of
             (Some value, p) \<Rightarrow> (Some (Header.Path, value), it\<lparr>pi_pseudo := p\<rparr>)
           | (None, p) \<Rightarrow> PartsIter_next (it\<lparr>pi_pseudo := p, pi_next_type := Dir_Authority\<rparr>))
      | Dir_Authority \<Rightarrow>
          (case PseudoHeaders_take_authority (pi_pseudo it) of
             (Some value, p) \<Rightarrow> (Some (Header.Authority, value), it\<lparr>pi_pseudo := p\<rparr>)
           | (None, p) \<Rightarrow> PartsIter_next (it\<lparr>pi_pseudo := p, pi_next_type := Dir_Other\<rparr>))
      | Dir_Other \<Rightarrow>
          (case pi_map it of
             [] \<Rightarrow> (None, it)
           | (h, v) # m \<Rightarrow>
               (Some (Header.Other (header_name h), from_utf8_unchecked (HeaderValue_join 0 (hv_inner v))),
                it\<lparr>pi_map := m\<rparr>)))"
  by pat_completeness auto
termination
  by (relation "measure (\<lambda>it. direction_rank (pi_next_type it))") auto

declare PartsIter_next.simps [simp del]

text \<open>The fields an iterator still has to give, in order.\<close>

definition opt_field :: "Header \<Rightarrow> string option \<Rightarrow> (Header \<times> string) list" where
  "opt_field h x = (case x of None \<Rightarrow> [] | Some v \<Rightarrow> [(h, v)])"

definition map_fields :: "(HeaderName \<times> HeaderValue) list \<Rightarrow> (Header \<times> string) list" where
  "map_fields m = map (\<lambda>(h, v). (Header.Other (header_name h),
     from_utf8_unchecked (HeaderValue_join 0 (hv_inner v)))) m"

definition PartsIter_fields :: "PartsIter \<Rightarrow> (Header \<times> string) list" where
  "PartsIter_fields it =
     (let p = pi_pseudo it; r = direction_rank (pi_next_type it)
      in (if 5 \<le> r then opt_field Header.Method (ps_method p) else []) @
         (if 4 \<le> r then opt_field Header.Status (ps_status p) else []) @
         (if 3 \<le> r then opt_field Header.Scheme (ps_scheme p) else []) @
         (if 2 \<le> r then opt_field Header.Path (ps_path p) else []) @
         (if 1 \<le> r then opt_field Header.Authority (ps_authority p) else []) @
         map_fields (pi_map it))"

lemma PartsIter_next_fields:
  "case PartsIter_next it of
     (None, it') \<Rightarrow> PartsIter_fields it = []
   | (Some f, it') \<Rightarrow> PartsIter_fields it = f # PartsIter_fields it'"
proof (induction it rule: PartsIter_next.induct)
  case (1 it)
  then show ?case
    by (subst PartsIter_next.simps, cases "pi_next_type it")
      (auto simp: pseudo_defs PartsIter_fields_def opt_field_def map_fields_def
        split: prod.splits option.splits list.split)
qed

lemma PartsIter_next_None:
  "PartsIter_next it = (None, it') \<Longrightarrow> PartsIter_fields it = []"
  using PartsIter_next_fields [of it] by simp

lemma PartsIter_next_Some:
  "PartsIter_next it = (Some f, it') \<Longrightarrow> PartsIter_fields it = f # PartsIter_fields it'"
  using PartsIter_next_fields [of it] by simp

section \<open>The encoder\<close>

text \<open>The state that is encoded for a field, and the dynamic table after it.\<close>

definition ReprEncoder_field ::
    "bool \<Rightarrow> DynamicTable \<Rightarrow> Header \<Rightarrow> string \<Rightarrow> ReprEncodeState \<times> DynamicTable" where
  "ReprEncoder_field use_huffman table h v =
     (case TableSearcher_index table h v of
        Some (TableIndex_Header index) \<Rightarrow> (Indexed_new index, table)
      | Some (TableIndex_HeaderName index) \<Rightarrow>
          (Indexing_new index (as_bytes v) use_huffman, DynamicTable_update table h v)
      | None \<Rightarrow>
          (IndexingWithName_new (as_bytes (Header_into_string h)) (as_bytes v) use_huffman,
           DynamicTable_update table h v))"

type_synonym encode_result =
  "(DynamicTable \<times> PartsIter option \<times> ReprEncodeState option \<times> bytes \<times> nat, unit) rust_result"

function ReprEncoder_encode_loop ::
    "bool \<Rightarrow> nat \<Rightarrow> DynamicTable \<Rightarrow> PartsIter \<Rightarrow> bytes \<Rightarrow> nat \<Rightarrow> encode_result" where
  "ReprEncoder_encode_loop use_huffman dst_len table iter w cur =
     (case PartsIter_next iter of
        (None, iter) \<Rightarrow> Ok (table, None, None, w, cur)
      | (Some (h, v), iter) \<Rightarrow>
          (case ReprEncoder_field use_huffman table h v of
             (state, table) \<Rightarrow>
               (case ReprEncodeState_encode state (dst_len - cur) of
                  (w', Ok size1) \<Rightarrow>
                    ReprEncoder_encode_loop use_huffman dst_len table iter (w @ w') (cur + size1)
                | (w', Err state) \<Rightarrow> Ok (table, Some iter, Some state, w @ w', dst_len)
                | (w', Panic) \<Rightarrow> Panic)))"
  by pat_completeness auto
termination
  by (relation "measure (\<lambda>(_, _, _, it, _, _). length (PartsIter_fields it))")
    (auto dest: PartsIter_next_Some [OF sym])

declare ReprEncoder_encode_loop.simps [simp del]

definition ReprEncoder_encode ::
    "bool \<Rightarrow> nat \<Rightarrow> DynamicTable \<Rightarrow> PartsIter option \<Rightarrow> ReprEncodeState option \<Rightarrow> encode_result" where
  "ReprEncoder_encode use_huffman dst_len table iter state =
     (if dst_len = 0 then Ok (table, iter, state, [], 0)
      else
        let rest = (\<lambda>w cur.
              case iter of
                Some it \<Rightarrow> ReprEncoder_encode_loop use_huffman dst_len table it w cur
              | None \<Rightarrow> Ok (table, None, None, w, cur))
        in case state of
             None \<Rightarrow> rest [] 0
           | Some s \<Rightarrow>
               (case ReprEncodeState_encode s dst_len of
                  (w, Ok size1) \<Rightarrow> rest w size1
                | (w, Err s) \<Rightarrow> Ok (table, iter, Some s, w, dst_len)
                | (w, Panic) \<Rightarrow> Panic))"

record HpackEncoder =
  hpe_table :: DynamicTable
  hpe_iter :: "PartsIter option"
  hpe_state :: "ReprEncodeState option"
  hpe_use_huffman :: bool

definition HpackEncoder_new :: "nat \<Rightarrow> bool \<Rightarrow> HpackEncoder" where
  "HpackEncoder_new max_size use_huffman =
     \<lparr>hpe_table = DynamicTable_with_max_size max_size, hpe_iter = None, hpe_state = None,
      hpe_use_huffman = use_huffman\<rparr>"

definition HpackEncoder_set_parts :: "map_order \<Rightarrow> HpackEncoder \<Rightarrow> Parts \<Rightarrow> HpackEncoder" where
  "HpackEncoder_set_parts order h parts = h\<lparr>hpe_iter := Some (PartsIter_new order parts)\<rparr>"

definition HpackEncoder_encode ::
    "HpackEncoder \<Rightarrow> nat \<Rightarrow> (HpackEncoder \<times> bytes \<times> nat, unit) rust_result" where
  "HpackEncoder_encode h dst_len =
     (case ReprEncoder_encode (hpe_use_huffman h) dst_len (hpe_table h) (hpe_iter h) (hpe_state h) of
        Ok (table, iter, state, w, size1) \<Rightarrow>
          (if size1 = dst_len
           then Ok (h\<lparr>hpe_table := table, hpe_iter := iter, hpe_state := state\<rparr>, w, size1)
           else Ok (h\<lparr>hpe_table := table, hpe_iter := None, hpe_state := None\<rparr>, w, size1))
      | Err e \<Rightarrow> Err e
      | Panic \<Rightarrow> Panic)"

definition HpackEncoder_is_finished :: "HpackEncoder \<Rightarrow> bool" where
  "HpackEncoder_is_finished h \<longleftrightarrow> hpe_iter h = None \<and> hpe_state h = None"

section \<open>Encoding in segments\<close>

text \<open>The bytes of a list of fields, and the dynamic table after them.\<close>

fun block_bytes :: "bool \<Rightarrow> DynamicTable \<Rightarrow> (Header \<times> string) list \<Rightarrow> bytes" where
  "block_bytes hf table [] = []"
| "block_bytes hf table ((h, v) # fs) =
     (case ReprEncoder_field hf table h v of
        (s, table') \<Rightarrow> ReprEncodeState_output s @ block_bytes hf table' fs)"

fun block_table :: "bool \<Rightarrow> DynamicTable \<Rightarrow> (Header \<times> string) list \<Rightarrow> DynamicTable" where
  "block_table hf table [] = table"
| "block_table hf table ((h, v) # fs) =
     block_table hf (snd (ReprEncoder_field hf table h v)) fs"

definition iter_fields :: "PartsIter option \<Rightarrow> (Header \<times> string) list" where
  "iter_fields it = (case it of None \<Rightarrow> [] | Some i \<Rightarrow> PartsIter_fields i)"

text \<open>
  \<open>encoded hf n whole final r\<close>: of the bytes \<open>whole\<close> the encoder either wrote all and left the
  dynamic table \<open>final\<close>, or filled the buffer and kept a state that stands for the rest.
\<close>

definition encoded ::
    "bool \<Rightarrow> nat \<Rightarrow> bytes \<Rightarrow> DynamicTable \<Rightarrow> encode_result \<Rightarrow> bool" where
  "encoded hf n whole final r \<longleftrightarrow>
     (\<exists>table' it st w. r = Ok (table', it, st, w, length w) \<and>
        (if length whole \<le> n then it = None \<and> st = None \<and> w = whole \<and> table' = final
         else length w = n \<and> st \<noteq> None \<and>
           w @ opt_output ReprEncodeState_output st @ block_bytes hf table' (iter_fields it) = whole \<and>
           block_table hf table' (iter_fields it) = final))"

lemma encode_loop_encoded:
  "length w \<le> n \<Longrightarrow>
   encoded hf n (w @ block_bytes hf table (PartsIter_fields it))
     (block_table hf table (PartsIter_fields it)) (ReprEncoder_encode_loop hf n table it w (length w))"
proof (induction hf n table it w "length w" rule: ReprEncoder_encode_loop.induct)
  case (1 hf n table it w)
  obtain f it' where nx: "PartsIter_next it = (f, it')" by force
  show ?case
  proof (cases f)
    case None
    then have "PartsIter_fields it = []" using nx PartsIter_next_None by blast
    then show ?thesis using nx None "1.prems"
      by (subst ReprEncoder_encode_loop.simps) (simp add: encoded_def)
  next
    case (Some hv)
    obtain h v where hv: "hv = (h, v)" by force
    then have fields: "PartsIter_fields it = (h, v) # PartsIter_fields it'"
      using nx Some PartsIter_next_Some by blast
    obtain s table' where field: "ReprEncoder_field hf table h v = (s, table')" by force
    show ?thesis
    proof (rule repr_writer.encode_cases [of s "n - length w"])
      assume fin: "length (ReprEncodeState_output s) \<le> n - length w"
        "ReprEncodeState_encode s (n - length w)
          = (ReprEncodeState_output s, Ok (length (ReprEncodeState_output s)))"
      then have "encoded hf n ((w @ ReprEncodeState_output s) @ block_bytes hf table' (PartsIter_fields it'))
          (block_table hf table' (PartsIter_fields it'))
          (ReprEncoder_encode_loop hf n table' it' (w @ ReprEncodeState_output s)
            (length (w @ ReprEncodeState_output s)))"
        using "1.hyps" [OF nx [symmetric] Some hv [symmetric] field [symmetric] fin(2) [symmetric] refl] "1.prems" by simp
      then show ?thesis using nx Some hv field fields fin
        by (subst ReprEncoder_encode_loop.simps) simp
    next
      fix s' assume "n - length w < length (ReprEncodeState_output s)"
        "ReprEncodeState_encode s (n - length w) = (take (n - length w) (ReprEncodeState_output s), Err s')"
        "ReprEncodeState_output s' = drop (n - length w) (ReprEncodeState_output s)"
      then show ?thesis using nx Some hv field fields "1.prems"
        by (subst ReprEncoder_encode_loop.simps) (auto simp: encoded_def iter_fields_def)
    qed
  qed
qed

definition HpackEncoder_output :: "HpackEncoder \<Rightarrow> bytes" where
  "HpackEncoder_output h =
     opt_output ReprEncodeState_output (hpe_state h) @
     block_bytes (hpe_use_huffman h) (hpe_table h) (iter_fields (hpe_iter h))"

definition HpackEncoder_final_table :: "HpackEncoder \<Rightarrow> DynamicTable" where
  "HpackEncoder_final_table h =
     block_table (hpe_use_huffman h) (hpe_table h) (iter_fields (hpe_iter h))"

lemma ReprEncoder_encode_encoded:
  assumes "0 < n"
  shows "encoded hf n (opt_output ReprEncodeState_output st @ block_bytes hf table (iter_fields it))
    (block_table hf table (iter_fields it)) (ReprEncoder_encode hf n table it st)"
proof -
  have rest: "encoded hf n (w @ block_bytes hf table (iter_fields it)) (block_table hf table (iter_fields it))
      (case it of Some i \<Rightarrow> ReprEncoder_encode_loop hf n table i w (length w)
       | None \<Rightarrow> Ok (table, None, None, w, length w))" if "length w \<le> n" for w
    using encode_loop_encoded [OF that] that
    by (cases it) (simp_all add: iter_fields_def encoded_def)
  show ?thesis
  proof (cases st)
    case None
    then show ?thesis using assms rest [of "[]"]
      by (cases it) (simp_all add: ReprEncoder_encode_def)
  next
    case (Some s)
    show ?thesis
    proof (rule repr_writer.encode_cases [of s n])
      assume "length (ReprEncodeState_output s) \<le> n" "ReprEncodeState_encode s n
          = (ReprEncodeState_output s, Ok (length (ReprEncodeState_output s)))"
      then show ?thesis using assms Some rest [of "ReprEncodeState_output s"]
        by (simp add: ReprEncoder_encode_def Let_def)
    next
      fix s' assume "n < length (ReprEncodeState_output s)"
        "ReprEncodeState_encode s n = (take n (ReprEncodeState_output s), Err s')"
        "ReprEncodeState_output s' = drop n (ReprEncodeState_output s)"
      then show ?thesis using assms Some by (auto simp: ReprEncoder_encode_def encoded_def)
    qed
  qed
qed

lemma hpack_encode_step:
  assumes "0 < n"
  obtains h' w where "HpackEncoder_encode h n = Ok (h', w, length w)"
    "HpackEncoder_output h = w @ HpackEncoder_output h'"
    "HpackEncoder_final_table h' = HpackEncoder_final_table h"
    "hpe_use_huffman h' = hpe_use_huffman h"
    "length w = min n (length (HpackEncoder_output h))"
    "HpackEncoder_is_finished h' \<longleftrightarrow> length (HpackEncoder_output h) \<le> n"
proof -
  have "encoded (hpe_use_huffman h) n (HpackEncoder_output h) (HpackEncoder_final_table h)
      (ReprEncoder_encode (hpe_use_huffman h) n (hpe_table h) (hpe_iter h) (hpe_state h))"
    unfolding HpackEncoder_output_def HpackEncoder_final_table_def
    by (rule ReprEncoder_encode_encoded [OF assms])
  then obtain table' it st w where
    r: "ReprEncoder_encode (hpe_use_huffman h) n (hpe_table h) (hpe_iter h) (hpe_state h)
      = Ok (table', it, st, w, length w)" and
    c: "if length (HpackEncoder_output h) \<le> n
      then it = None \<and> st = None \<and> w = HpackEncoder_output h \<and> table' = HpackEncoder_final_table h
      else length w = n \<and> st \<noteq> None \<and>
        w @ opt_output ReprEncodeState_output st @ block_bytes (hpe_use_huffman h) table' (iter_fields it)
          = HpackEncoder_output h \<and>
        block_table (hpe_use_huffman h) table' (iter_fields it) = HpackEncoder_final_table h"
    unfolding encoded_def by (elim exE conjE)
  show thesis
  proof (cases "length (HpackEncoder_output h) \<le> n")
    case True
    let ?h = "h\<lparr>hpe_table := table', hpe_iter := None, hpe_state := None\<rparr>"
    have "HpackEncoder_encode h n = Ok (?h, w, length w)"
      using r c True by (simp add: HpackEncoder_encode_def)
    then show thesis by (rule that)
      (use c True in \<open>simp_all add: HpackEncoder_output_def HpackEncoder_final_table_def
        HpackEncoder_is_finished_def iter_fields_def\<close>)
  next
    case False
    let ?h = "h\<lparr>hpe_table := table', hpe_iter := it, hpe_state := st\<rparr>"
    have "HpackEncoder_encode h n = Ok (?h, w, length w)"
      using r c False by (simp add: HpackEncoder_encode_def)
    then show thesis by (rule that)
      (use c False in \<open>auto simp: HpackEncoder_output_def HpackEncoder_final_table_def
        HpackEncoder_is_finished_def\<close>)
  qed
qed

text \<open>Calling \<open>encode\<close> with one buffer after another.\<close>

fun HpackEncoder_encode_all ::
    "HpackEncoder \<Rightarrow> nat list \<Rightarrow> (HpackEncoder \<times> bytes list, unit) rust_result" where
  "HpackEncoder_encode_all h [] = Ok (h, [])"
| "HpackEncoder_encode_all h (n # ns) =
     (case HpackEncoder_encode h n of
        Ok (h, w, _) \<Rightarrow>
          (case HpackEncoder_encode_all h ns of
             Ok (h, ws) \<Rightarrow> Ok (h, w # ws)
           | Err e \<Rightarrow> Err e
           | Panic \<Rightarrow> Panic)
      | Err e \<Rightarrow> Err e
      | Panic \<Rightarrow> Panic)"

lemma hpack_encode_all:
  "list_all (\<lambda>n. 0 < n) ns \<Longrightarrow>
   \<exists>h' ws. HpackEncoder_encode_all h ns = Ok (h', ws)
     \<and> HpackEncoder_output h = concat ws @ HpackEncoder_output h'
     \<and> HpackEncoder_final_table h' = HpackEncoder_final_table h
     \<and> (ns \<noteq> [] \<and> length (HpackEncoder_output h) \<le> sum_list ns \<longrightarrow> HpackEncoder_is_finished h')"
proof (induction ns arbitrary: h)
  case (Cons n ns)
  have n: "0 < n" and ns: "list_all (\<lambda>n. 0 < n) ns" using Cons.prems by simp_all
  obtain h1 w where s: "HpackEncoder_encode h n = Ok (h1, w, length w)"
    "HpackEncoder_output h = w @ HpackEncoder_output h1"
    "HpackEncoder_final_table h1 = HpackEncoder_final_table h"
    and huff: "hpe_use_huffman h1 = hpe_use_huffman h"
    and t: "length w = min n (length (HpackEncoder_output h))"
    "HpackEncoder_is_finished h1 \<longleftrightarrow> length (HpackEncoder_output h) \<le> n"
    by (rule hpack_encode_step [OF n])
  obtain h' ws where r: "HpackEncoder_encode_all h1 ns = Ok (h', ws)"
    "HpackEncoder_output h1 = concat ws @ HpackEncoder_output h'"
    "HpackEncoder_final_table h' = HpackEncoder_final_table h1"
    "ns \<noteq> [] \<and> length (HpackEncoder_output h1) \<le> sum_list ns \<longrightarrow> HpackEncoder_is_finished h'"
    using Cons.IH [OF ns, of h1] by blast
  have "HpackEncoder_is_finished h'" if le: "length (HpackEncoder_output h) \<le> sum_list (n # ns)"
  proof (cases "ns = []")
    case True
    then show ?thesis using t(2) r(1) le by simp
  next
    case False
    have "length (HpackEncoder_output h1) \<le> sum_list ns"
      using s(2) t(1) le by (simp add: min_def split: if_splits)
    then show ?thesis using r(4) False by simp
  qed
  then show ?case using s r by (intro exI [of _ h'] exI [of _ "w # ws"]) simp
qed simp

end
