(* ===== verification/Hpack_Roundtrip.thy ===== *)
theory Hpack_Roundtrip
  imports Hpack_Encoder
begin

text \<open>
  The HPACK encoder against the HPACK decoder: a block written for a list of header fields, in any
  segments, is decoded, in any segments, to those fields, and leaves both sides with the same
  dynamic table.
\<close>

section \<open>Sizes\<close>

lemma code_bits_length: "length (code_bits (unat (b :: u8))) \<le> 30"
proof -
  obtain l v where "CODE_BITS ! unat b = (l, v)" "5 \<le> l" "l \<le> 30" "v < 2 ^ l"
    by (rule code_entry [of "unat b"]) (simp_all add: less_trans [OF unat_u8_less])
  then show ?thesis by (simp add: code_bits_def)
qed

lemma huffman_bits_length: "length (huffman_bits bs) \<le> 30 * length bs"
proof (induction bs)
  case (Cons b bs)
  then show ?case using code_bits_length [of b] by simp
qed simp

lemma huffman_encode_length: "length (huffman_encode bs []) \<le> 4 * length bs"
proof -
  obtain k where k: "k < 8" "bytes_bits (huffman_encode bs []) = huffman_bits bs @ replicate k True"
    using huffman_encode_bits [of bs "[]"] by auto
  have "8 * length (huffman_encode bs []) = length (huffman_bits bs) + k"
    using arg_cong [OF k(2), of length] by simp
  then show ?thesis using k(1) huffman_bits_length [of bs]
    by (cases bs) (auto simp: huffman_encode_def)
qed

lemma Octets_len_bound: "length v < 2 ^ 61 \<Longrightarrow> Octets_len (Octets_new v h) < usize_limit"
  using huffman_encode_length [of v] by (simp add: Octets_new_def Octets_len_def)

lemma queue_length: "32 * length q \<le> queue_size q"
proof (induction q)
  case (Cons e q)
  then show ?case by (simp add: entry_size_def)
qed simp

section \<open>One field\<close>

definition add_line :: "HeaderLines \<Rightarrow> Header \<Rightarrow> string \<Rightarrow> HeaderLines" where
  "add_line lines h v = fst (HeaderLines_update_parts (grown lines (h, v)) h v)"

lemma add_line_update:
  "field_ok h v \<Longrightarrow> HeaderLines_update_parts (grown lines (h, v)) h v = (add_line lines h v, Ok ())"
  using update_parts_cases [of "grown lines (h, v)" h v]
  by (cases "HeaderLines_update_parts (grown lines (h, v)) h v") (simp add: add_line_def)

lemma add_line_size [simp]: "hl_header_size (add_line lines h v) = hl_header_size lines + entry_size (h, v)"
  using update_parts_cases [of "grown lines (h, v)" h v]
  by (cases "HeaderLines_update_parts (grown lines (h, v)) h v") (simp add: add_line_def grown_def)

lemma search_index_bound:
  assumes "DynamicTable_wf t" "dt_max_size t < 2 ^ 63" "TableSearcher_search_header t i \<noteq> None"
  shows "0 < i \<and> i < usize_limit"
proof (cases "i \<le> 61")
  case True
  then show ?thesis using assms(3)
    by (cases "i = 0") (auto simp: TableSearcher_search_header_def StaticTable_header_def)
next
  case False
  then have "i - 62 < length (dt_queue t)"
    using assms(3) by (auto simp: TableSearcher_search_header_def DynamicTable_header_def split: if_splits)
  moreover have "length (dt_queue t) \<le> dt_max_size t"
    using assms(1) queue_length [of "dt_queue t"] by (simp add: DynamicTable_wf_def)
  ultimately show ?thesis using False assms(2) by simp
qed

lemma index_None_Other:
  "TableSearcher_index t h v = None \<Longrightarrow> \<exists>s. h = Header.Other s"
  by (cases h) (auto simp: TableSearcher_index_def StaticTable_index_def split: option.splits if_splits TableIndex.splits)

definition field_fits :: "Header \<Rightarrow> string \<Rightarrow> bool" where
  "field_fits h v \<longleftrightarrow> length (Header_into_string h) < 2 ^ 61 \<and> length v < 2 ^ 61"

text \<open>Each field becomes a representation that the updater turns back into the field.\<close>

lemma field_repr:
  assumes wf: "DynamicTable_wf t" "dt_max_size t < 2 ^ 63"
    and f: "\<not> search_confused t h v" "field_ok h v" "field_fits h v"
    and hls: "hl_header_size lines + entry_size (h, v) \<le> hls"
    and s: "ReprEncoder_field hf t h v = (s, t')"
  obtains repr where "encode_state hf repr = Some s" "repr_fits hf repr"
    "Updater_update hls t lines repr = (t', add_line lines h v, Ok ())"
proof -
  have sound: "index_sound (TableSearcher_search_header t) h v (TableSearcher_index t h v)"
    using searcher_index_sound f(1) by blast
  have v: "Octets_len (Octets_new (as_bytes v) hf) < usize_limit"
    using f(3) by (intro Octets_len_bound) (simp add: field_fits_def)
  consider (full) i where "TableSearcher_index t h v = Some (TableIndex_Header i)"
    | (name) i where "TableSearcher_index t h v = Some (TableIndex_HeaderName i)"
    | (none) "TableSearcher_index t h v = None"
    by (metis option.exhaust TableIndex.exhaust)
  then show thesis
  proof cases
    case full
    then have e: "TableSearcher_search_header t i = Some (h, v)" using sound by simp
    then show thesis
      using full s hls f(2) search_index_bound [OF wf, of i]
      by (intro that [of "Repr_Indexed i"])
        (auto simp: ReprEncoder_field_def Updater_update_eq repr_field_def repr_table_def add_line_update)
  next
    case name
    then have e: "map_option fst (TableSearcher_search_header t i) = Some h" using sound by simp
    then have "0 < i \<and> i < usize_limit" using search_index_bound [OF wf, of i] by auto
    then show thesis
      using name s hls f(2) v e
      by (intro that [of "LiteralWithIndexing (Name_Index i) (as_bytes v)"])
        (auto simp: ReprEncoder_field_def Updater_update_eq repr_field_def repr_table_def
          add_line_update name_fits_def search_header_name_eq)
  next
    case none
    then obtain n where n: "h = Header.Other n" using index_None_Other by blast
    then have "Octets_len (Octets_new (as_bytes n) hf) < usize_limit"
      using f(3) by (intro Octets_len_bound) (simp add: field_fits_def Header_into_string_def)
    then show thesis
      using none s hls f(2) v n
      by (intro that [of "LiteralWithIndexing (Name_Literal (as_bytes n)) (as_bytes v)"])
        (auto simp: ReprEncoder_field_def Updater_update_eq repr_field_def repr_table_def
          add_line_update name_fits_def Header_into_string_def)
  qed
qed

section \<open>A block of fields\<close>

text \<open>
  What a block needs: no field on which the searcher is confused at its turn, fields that the
  header map takes, and strings of a realistic length.
\<close>

fun block_ok :: "bool \<Rightarrow> DynamicTable \<Rightarrow> (Header \<times> string) list \<Rightarrow> bool" where
  "block_ok hf t [] = True"
| "block_ok hf t ((h, v) # fs) \<longleftrightarrow>
     \<not> search_confused t h v \<and> field_ok h v \<and> field_fits h v \<and>
     block_ok hf (snd (ReprEncoder_field hf t h v)) fs"

fun lines_after :: "HeaderLines \<Rightarrow> (Header \<times> string) list \<Rightarrow> HeaderLines" where
  "lines_after lines [] = lines"
| "lines_after lines ((h, v) # fs) = lines_after (add_line lines h v) fs"

lemma field_table_wf:
  assumes "DynamicTable_wf t" "ReprEncoder_field hf t h v = (s, t')"
  shows "DynamicTable_wf t' \<and> dt_max_size t' = dt_max_size t"
  using assms DynamicTable_wf_update [OF assms(1)] update_eq [OF assms(1)]
  by (auto simp: ReprEncoder_field_def split: option.splits TableIndex.splits)

lemma start_not_Nil:
  "ReprDecodeState_decode (DecodeState_Index IndexInner_FirstByte) buf = (Decoded r, rest) \<Longrightarrow> buf \<noteq> []"
  by (auto simp: ReprDecodeState_decode_def Index_decode_def IndexInner_decode_def FirstByte_decode_def)

lemma block_decode:
  assumes "DynamicTable_wf t" "dt_max_size t < 2 ^ 63" "block_ok hf t fs"
    and "hl_header_size lines + queue_size fs \<le> hls"
  shows "HpackDecoder_decode_loop hls \<lparr>rd_buf = block_bytes hf t fs, rd_state = None\<rparr> t lines
    = (None, block_table hf t fs, lines_after lines fs, Ok ())"
  using assms
proof (induction fs arbitrary: t lines)
  case Nil
  then show ?case by (simp add: loop_unfold)
next
  case (Cons f fs)
  obtain h v where f: "f = (h, v)" by force
  obtain s t' where s: "ReprEncoder_field hf t h v = (s, t')" by force
  obtain repr where repr: "encode_state hf repr = Some s" "repr_fits hf repr"
    "Updater_update hls t lines repr = (t', add_line lines h v, Ok ())"
    by (rule field_repr [OF Cons.prems(1,2) _ _ _ _ s, of lines hls]) (use Cons.prems f in auto)
  have dec: "ReprDecodeState_decode (DecodeState_Index IndexInner_FirstByte)
      (ReprEncodeState_output s @ block_bytes hf t' fs) = (Decoded repr, block_bytes hf t' fs)"
    by (rule repr_decode_encoded [OF repr(1,2)])
  have "HpackDecoder_decode_loop hls \<lparr>rd_buf = block_bytes hf t' fs, rd_state = None\<rparr> t' (add_line lines h v)
      = (None, block_table hf t' fs, lines_after (add_line lines h v) fs, Ok ())"
    using Cons.prems f s field_table_wf [OF Cons.prems(1) s]
    by (intro Cons.IH) (simp_all add: add.assoc)
  then show ?case using f s dec repr(3) start_not_Nil [OF dec]
    by (subst loop_unfold) (auto simp: dec_start_def)
qed

section \<open>End to end\<close>

fun HpackDecoder_decode_all ::
    "HpackDecoder \<Rightarrow> bytes list \<Rightarrow> HpackDecoder \<times> (unit, H2Error) rust_result" where
  "HpackDecoder_decode_all d [] = (d, Ok ())"
| "HpackDecoder_decode_all d (seg # segs) =
     (case HpackDecoder_decode d seg of
        (d, Ok _) \<Rightarrow> HpackDecoder_decode_all d segs
      | (d, r) \<Rightarrow> (d, r))"

lemma decode_nothing: "HpackDecoder_decode d [] = (d, Ok ())"
  by (simp add: HpackDecoder_decode_def loop_unfold)

lemma hpack_decode_all_concat: "HpackDecoder_decode_all d segs = HpackDecoder_decode d (concat segs)"
  by (induction segs arbitrary: d)
    (simp_all add: decode_nothing hpack_decode_segments split: prod.split rust_result.split)

text \<open>The parts that a traversal of the header map can rebuild.\<close>

definition traverses :: "map_order \<Rightarrow> (HeaderName \<rightharpoonup> HeaderValue) \<Rightarrow> bool" where
  "traverses order m \<longleftrightarrow> distinct (map fst (order m)) \<and> map_of (order m) = m"

definition plain_value :: "HeaderName \<times> HeaderValue \<Rightarrow> bool" where
  "plain_value e \<longleftrightarrow>
     HeaderName_from_bytes (as_bytes (header_name (fst e))) = Ok (fst e) \<and>
     (case hv_inner (snd e) of [b] \<Rightarrow> list_all HeaderValue_is_valid b | _ \<Rightarrow> False) \<and>
     \<not> hv_is_sensitive (snd e)"

lemma plain_valueD:
  assumes "plain_value (n, v)"
  obtains b where "v = \<lparr>hv_inner = [b], hv_is_sensitive = False\<rparr>" "list_all HeaderValue_is_valid b"
    "HeaderName_from_bytes (as_bytes (header_name n)) = Ok n"
  using assms that [of "hd (hv_inner v)"]
  by (cases v) (auto simp: plain_value_def split: list.splits)

lemma lines_after_append: "lines_after lines (fs @ gs) = lines_after (lines_after lines fs) gs"
  by (induction fs arbitrary: lines) auto

lemma lines_after_map:
  assumes "list_all plain_value m" "distinct (map fst m)"
    and "\<forall>n \<in> fst ` set m. headers_map (parts_map (hl_parts lines)) n = None"
  shows "hl_parts (lines_after lines (map_fields m)) =
    (hl_parts lines)\<lparr>parts_map :=
      \<lparr>headers_map = headers_map (parts_map (hl_parts lines)) ++ map_of m\<rparr>\<rparr>"
  using assms
proof (induction m arbitrary: lines)
  case Nil
  then show ?case by (simp add: map_fields_def)
next
  case (Cons e m)
  obtain n v where e: "e = (n, v)" by force
  obtain b where v: "v = \<lparr>hv_inner = [b], hv_is_sensitive = False\<rparr>" "list_all HeaderValue_is_valid b"
    "HeaderName_from_bytes (as_bytes (header_name n)) = Ok n"
    using Cons.prems(1) e by (auto elim: plain_valueD)
  let ?lines = "add_line lines (Header.Other (header_name n)) (from_utf8_unchecked b)"
  have parts: "hl_parts ?lines = (hl_parts lines)\<lparr>parts_map :=
      \<lparr>headers_map = (headers_map (parts_map (hl_parts lines)))(n \<mapsto> v)\<rparr>\<rparr>"
    using v Cons.prems(3) e
    by (simp add: add_line_def HeaderLines_update_parts_def Parts_update_def append_add grown_def
        Headers_add_def Headers_entry_append_def)
  have "hl_parts (lines_after ?lines (map_fields m)) = (hl_parts ?lines)\<lparr>parts_map :=
      \<lparr>headers_map = headers_map (parts_map (hl_parts ?lines)) ++ map_of m\<rparr>\<rparr>"
    using Cons.prems e parts by (intro Cons.IH) auto
  moreover have "m' ++ map_of (e # m) = m'(n \<mapsto> v) ++ map_of m" for m'
  proof -
    have "map_of m n = None" using Cons.prems(2) e by (simp add: map_of_eq_None_iff)
    then show ?thesis by (auto simp: e fun_eq_iff map_add_def split: option.split)
  qed
  ultimately show ?case using e v(1) parts by (simp add: map_fields_def del: map_of.simps)
qed

definition or_else :: "'a option \<Rightarrow> 'a option \<Rightarrow> 'a option" where
  "or_else x y = (case x of None \<Rightarrow> y | Some v \<Rightarrow> Some v)"

lemma or_else_None [simp]: "or_else x None = x"
  by (simp add: or_else_def split: option.split)

lemma lines_after_pseudo:
  "hl_parts (lines_after lines (opt_field Header.Method x)) = (hl_parts lines)
     \<lparr>parts_pseudo := (parts_pseudo (hl_parts lines))\<lparr>ps_method := or_else x (ps_method (parts_pseudo (hl_parts lines)))\<rparr>\<rparr>"
  "hl_parts (lines_after lines (opt_field Header.Status x)) = (hl_parts lines)
     \<lparr>parts_pseudo := (parts_pseudo (hl_parts lines))\<lparr>ps_status := or_else x (ps_status (parts_pseudo (hl_parts lines)))\<rparr>\<rparr>"
  "hl_parts (lines_after lines (opt_field Header.Scheme x)) = (hl_parts lines)
     \<lparr>parts_pseudo := (parts_pseudo (hl_parts lines))\<lparr>ps_scheme := or_else x (ps_scheme (parts_pseudo (hl_parts lines)))\<rparr>\<rparr>"
  "hl_parts (lines_after lines (opt_field Header.Path x)) = (hl_parts lines)
     \<lparr>parts_pseudo := (parts_pseudo (hl_parts lines))\<lparr>ps_path := or_else x (ps_path (parts_pseudo (hl_parts lines)))\<rparr>\<rparr>"
  "hl_parts (lines_after lines (opt_field Header.Authority x)) = (hl_parts lines)
     \<lparr>parts_pseudo := (parts_pseudo (hl_parts lines))\<lparr>ps_authority := or_else x (ps_authority (parts_pseudo (hl_parts lines)))\<rparr>\<rparr>"
  by (simp_all add: opt_field_def or_else_def add_line_def HeaderLines_update_parts_def Parts_update_def
      grown_def pseudo_defs split: option.split)

definition parts_fields :: "map_order \<Rightarrow> Parts \<Rightarrow> (Header \<times> string) list" where
  "parts_fields order parts = PartsIter_fields (PartsIter_new order parts)"

lemma lines_after_parts:
  assumes "traverses order (headers_map (parts_map parts))"
    and "list_all plain_value (order (headers_map (parts_map parts)))"
    and "hl_parts lines = Parts_new"
  shows "hl_parts (lines_after lines (parts_fields order parts)) = parts"
  using assms
  by (cases parts; cases "parts_pseudo parts"; cases "parts_map parts")
    (simp add: parts_fields_def PartsIter_fields_def PartsIter_new_def lines_after_append
      lines_after_pseudo lines_after_map Parts_new_def PseudoHeaders_new_def Headers_new_def traverses_def)

text \<open>
  C1. HPACK is faithful end to end. An encoder and a decoder whose dynamic tables agree exchange a
  message: the encoder writes the parts into buffers of any positive lengths that suffice together,
  the bytes are cut again in any way and handed to the decoder, and the decoder ends with exactly
  those parts and with the encoder's dynamic table. The parts must be such that the map's traversal
  visits each entry once, the values are single and not sensitive, the fields are accepted by the
  header map and fit the decoder's header list size, and no field hits the confusion of the searcher.
\<close>

theorem hpack_roundtrip:
  assumes enc: "HpackEncoder_encode_all (HpackEncoder_set_parts order e parts) ns = Ok (e', ws)"
    and start: "hpe_state e = None" "list_all (\<lambda>n. 0 < n) ns" "ns \<noteq> []"
    and room: "length (HpackEncoder_output (HpackEncoder_set_parts order e parts)) \<le> sum_list ns"
    and dec: "hpd_holder d = None" "hl_parts (hpd_lines d) = Parts_new" "hpd_table d = hpe_table e"
    and table: "DynamicTable_wf (hpe_table e)" "dt_max_size (hpe_table e) < 2 ^ 63"
    and parts: "traverses order (headers_map (parts_map parts))"
      "list_all plain_value (order (headers_map (parts_map parts)))"
      "block_ok (hpe_use_huffman e) (hpe_table e) (parts_fields order parts)"
    and size: "hl_header_size (hpd_lines d) + queue_size (parts_fields order parts) \<le> hpd_header_list_size d"
    and cut: "concat segs = concat ws"
  shows "\<exists>d'. HpackDecoder_decode_all d segs = (d', Ok ())
    \<and> snd (HpackDecoder_finish d') = Ok parts \<and> hpd_table d' = hpe_table e'
    \<and> HpackEncoder_is_finished e'"
proof -
  let ?e = "HpackEncoder_set_parts order e parts" and ?fs = "parts_fields order parts"
  let ?hf = "hpe_use_huffman e" and ?t = "hpe_table e"
  have out: "HpackEncoder_output ?e = block_bytes ?hf ?t ?fs" "HpackEncoder_final_table ?e = block_table ?hf ?t ?fs"
    using start(1) by (simp_all add: HpackEncoder_output_def HpackEncoder_final_table_def
        HpackEncoder_set_parts_def iter_fields_def parts_fields_def)
  have e': "block_bytes ?hf ?t ?fs = concat ws @ HpackEncoder_output e'"
    "HpackEncoder_final_table e' = block_table ?hf ?t ?fs" "HpackEncoder_is_finished e'"
    using hpack_encode_all [OF start(2), of ?e] enc room start(3) out by auto
  then have bytes: "concat segs = block_bytes ?hf ?t ?fs" and t': "hpe_table e' = block_table ?hf ?t ?fs"
    using cut by (simp_all add: HpackEncoder_is_finished_def HpackEncoder_output_def
        HpackEncoder_final_table_def iter_fields_def)
  have "HpackDecoder_decode d (concat segs) = (d\<lparr>hpd_holder := None,
      hpd_table := block_table ?hf ?t ?fs, hpd_lines := lines_after (hpd_lines d) ?fs\<rparr>, Ok ())"
    using block_decode [OF table parts(3) size] dec by (simp add: HpackDecoder_decode_def bytes)
  then show ?thesis using lines_after_parts [OF parts(1,2) dec(2)] t' e'(3)
    by (simp add: hpack_decode_all_concat HpackDecoder_finish_def)
qed

definition sample_value :: HeaderValue where
  "sample_value = \<lparr>hv_inner = [as_bytes ''1''], hv_is_sensitive = False\<rparr>"

definition sample_parts :: Parts where
  "sample_parts = \<lparr>parts_pseudo = PseudoHeaders_new\<lparr>ps_method := Some ''GET''\<rparr>,
     parts_map = \<lparr>headers_map = [HeaderName ''a'' \<mapsto> sample_value]\<rparr>\<rparr>"

definition sample_order :: map_order where
  "sample_order m = (case m (HeaderName ''a'') of None \<Rightarrow> [] | Some v \<Rightarrow> [(HeaderName ''a'', v)])"

theorem hpack_roundtrip_witness:
  "\<exists>d'. HpackDecoder_decode_all (HpackDecoder_with_max_size 128 200) [[0x82], [0x40, 0x01, 0x61], [0x01, 0x31]]
      = (d', Ok ())
    \<and> snd (HpackDecoder_finish d') = Ok sample_parts
    \<and> hpd_table d' = hpe_table (HpackEncoder_new 128 False\<lparr>hpe_table :=
        \<lparr>dt_queue = [(Header.Other ''a'', ''1'')], dt_curr_size = 34, dt_max_size = 128\<rparr>\<rparr>)
    \<and> HpackEncoder_is_finished (HpackEncoder_new 128 False\<lparr>hpe_table :=
        \<lparr>dt_queue = [(Header.Other ''a'', ''1'')], dt_curr_size = 34, dt_max_size = 128\<rparr>\<rparr>)"
proof (rule hpack_roundtrip)
  show "HpackEncoder_encode_all (HpackEncoder_set_parts sample_order (HpackEncoder_new 128 False) sample_parts)
      [2, 10] = Ok (HpackEncoder_new 128 False\<lparr>hpe_table :=
        \<lparr>dt_queue = [(Header.Other ''a'', ''1'')], dt_curr_size = 34, dt_max_size = 128\<rparr>\<rparr>,
        [[0x82, 0x40], [0x01, 0x61, 0x01, 0x31]])"
    by code_simp
  show "length (HpackEncoder_output (HpackEncoder_set_parts sample_order (HpackEncoder_new 128 False) sample_parts))
      \<le> sum_list [2, 10]" by code_simp
  show "traverses sample_order (headers_map (parts_map sample_parts))"
    by (auto simp: traverses_def sample_order_def sample_parts_def)
  show "list_all plain_value (sample_order (headers_map (parts_map sample_parts)))" by code_simp
  have fs: "parts_fields sample_order sample_parts = [(Header.Method, ''GET''), (Header.Other ''a'', ''1'')]"
    by code_simp
  have "\<not> search_confused (DynamicTable_with_max_size 128) Header.Method ''GET''"
    "\<not> search_confused (DynamicTable_with_max_size 128) (Header.Other ''a'') ''1''"
    "snd (ReprEncoder_field False (DynamicTable_with_max_size 128) Header.Method ''GET'')
      = DynamicTable_with_max_size 128"
    "field_ok Header.Method ''GET''" "field_ok (Header.Other ''a'') ''1''"
    by code_simp+
  then show "block_ok (hpe_use_huffman (HpackEncoder_new 128 False)) (hpe_table (HpackEncoder_new 128 False))
      (parts_fields sample_order sample_parts)"
    by (simp add: fs HpackEncoder_new_def field_fits_def Header_into_string_def)
  show "hl_header_size (hpd_lines (HpackDecoder_with_max_size 128 200))
      + queue_size (parts_fields sample_order sample_parts)
      \<le> hpd_header_list_size (HpackDecoder_with_max_size 128 200)" by code_simp
qed (simp_all add: HpackEncoder_new_def HpackDecoder_with_max_size_def DynamicTable_with_max_size_def
    DynamicTable_wf_def)

section \<open>The confused search\<close>

text \<open>
  C24. When only the dynamic table knows a field's name, and with another value, the encoder writes
  an indexed representation that stands for the old value: a decoder with the same table reads back
  the right name with a different value.
\<close>

theorem hpack_value_lost:
  assumes "search_confused t h v"
  shows "\<exists>i v'. ReprEncoder_field hf t h v = (Indexed_new i, t)
    \<and> repr_field t (Repr_Indexed i) = Some (h, v') \<and> v' \<noteq> v"
proof -
  obtain i v' where "TableSearcher_index t h v = Some (TableIndex_Header i)"
    "TableSearcher_search_header t i = Some (h, v')" "v' \<noteq> v"
    using searcher_confuses_values [OF assms] by blast
  then show ?thesis by (auto simp: ReprEncoder_field_def repr_field_def)
qed

theorem hpack_value_lost_witness:
  "\<exists>i v'. ReprEncoder_field True
      (DynamicTable_update (DynamicTable_with_max_size 100) (Header.Other ''x-a'') ''1'')
      (Header.Other ''x-a'') ''2''
    = (Indexed_new i, DynamicTable_update (DynamicTable_with_max_size 100) (Header.Other ''x-a'') ''1'')
    \<and> repr_field (DynamicTable_update (DynamicTable_with_max_size 100) (Header.Other ''x-a'') ''1'')
        (Repr_Indexed i) = Some (Header.Other ''x-a'', v') \<and> v' \<noteq> ''2''"
  by (rule hpack_value_lost) code_simp

section \<open>Literal pseudo headers\<close>

lemma colon_refused: "\<not> field_ok (Header.Other (CHR '':'' # n)) v"
  by (simp add: field_ok_def as_bytes_def) code_simp

text \<open>
  C25. A literal field whose name begins with a colon makes the HPACK decoder panic: for every state of
  the decoder between two fields, every such name and value, each of the three literal
  representations, with or without Huffman coding, and whatever follows, as long as the field fits
  into the header list size. RFC 7541 lets a peer send pseudo headers this way; only indexed names are
  recognised as pseudo headers, and the header map refuses the colon, which is unwrapped.
\<close>

theorem literal_pseudo_panics:
  assumes "hpd_holder d = None"
    and "repr = LiteralWithIndexing (Name_Literal (as_bytes (CHR '':'' # n))) v
      \<or> repr = LiteralWithoutIndexing (Name_Literal (as_bytes (CHR '':'' # n))) v
      \<or> repr = LiteralNeverIndexed (Name_Literal (as_bytes (CHR '':'' # n))) v"
    and "encode_state hf repr = Some s" "repr_fits hf repr"
    and "hl_header_size (hpd_lines d) + entry_size (Header.Other (CHR '':'' # n), from_utf8_unchecked v) \<le> hpd_header_list_size d"
  shows "snd (HpackDecoder_decode d (ReprEncodeState_output s @ rest)) = Panic"
proof -
  let ?f = "(Header.Other (CHR '':'' # n), from_utf8_unchecked v)"
  have dec: "ReprDecodeState_decode (DecodeState_Index IndexInner_FirstByte) (ReprEncodeState_output s @ rest) = (Decoded repr, rest)"
    by (rule repr_decode_encoded [OF assms(3,4)])
  have "repr_field (hpd_table d) repr = Some ?f" using assms(2) by (auto simp: repr_field_def)
  moreover have "\<not> field_ok (fst ?f) (snd ?f)" using colon_refused by simp
  ultimately have "\<exists>t' l'. Updater_update (hpd_header_list_size d) (hpd_table d) (hpd_lines d) repr = (t', l', Panic)"
    using updater_panic_iff assms(5) by (metis fst_conv snd_conv)
  then show ?thesis using dec start_not_Nil [OF dec] assms(1)
    by (auto simp: HpackDecoder_decode_def loop_unfold [of _ "ReprEncodeState_output s @ rest"] dec_start_def)
qed

theorem literal_pseudo_panics_witness:
  "snd (HpackDecoder_decode (HpackDecoder_with_max_size 64 128)
     (ReprEncodeState_output (WithoutIndexingWithName_new (as_bytes '':status'') (as_bytes ''200'') False) @ [0x82])) = Panic"
  by (rule literal_pseudo_panics [of _ "LiteralWithoutIndexing (Name_Literal (as_bytes '':status'')) (as_bytes ''200'')" "''status''" "as_bytes ''200''" False])
    (simp_all add: HpackDecoder_with_max_size_def name_fits_def Octets_len_def Octets_new_def as_bytes_def entry_size_def
      Header_len_def from_utf8_unchecked_def)

end
