(* ===== verification/H2_Frame.thy ===== *)
theory H2_Frame
  imports H2_Parts H2_Error
begin

text \<open>
  The HTTP/2 frames (\<open>ylong_http/src/h2/frame.rs\<close>): frame types and flags, the payloads, and
  the settings with their updates.
\<close>

section \<open>Flags\<close>

type_synonym StreamId = u32

definition END_STREAM_MASK :: u8 where "END_STREAM_MASK = 0x01"
definition RST_STREAM_MASK :: u8 where "RST_STREAM_MASK = 0x03"
definition END_HEADERS_MASK :: u8 where "END_HEADERS_MASK = 0x04"
definition PADDED_MASK :: u8 where "PADDED_MASK = 0x08"
definition HEADERS_PRIORITY_MASK :: u8 where "HEADERS_PRIORITY_MASK = 0x20"
definition ACK_MASK :: u8 where "ACK_MASK = 0x1"

datatype FrameFlags = FrameFlags u8

fun FrameFlags_bits :: "FrameFlags \<Rightarrow> u8" where
  "FrameFlags_bits (FrameFlags f) = f"

definition FrameFlags_empty :: FrameFlags where
  "FrameFlags_empty = FrameFlags 0"

definition FrameFlags_is_end_stream :: "FrameFlags \<Rightarrow> bool" where
  "FrameFlags_is_end_stream f \<longleftrightarrow> FrameFlags_bits f AND END_STREAM_MASK = END_STREAM_MASK"

definition FrameFlags_is_end_headers :: "FrameFlags \<Rightarrow> bool" where
  "FrameFlags_is_end_headers f \<longleftrightarrow> FrameFlags_bits f AND END_HEADERS_MASK = END_HEADERS_MASK"

definition FrameFlags_is_padded :: "FrameFlags \<Rightarrow> bool" where
  "FrameFlags_is_padded f \<longleftrightarrow> FrameFlags_bits f AND PADDED_MASK = PADDED_MASK"

definition FrameFlags_is_ack :: "FrameFlags \<Rightarrow> bool" where
  "FrameFlags_is_ack f \<longleftrightarrow> FrameFlags_bits f AND ACK_MASK = ACK_MASK"

definition FrameFlags_set_end_stream :: "FrameFlags \<Rightarrow> bool \<Rightarrow> FrameFlags" where
  "FrameFlags_set_end_stream f end_stream =
     (if end_stream then FrameFlags (FrameFlags_bits f OR END_STREAM_MASK)
      else FrameFlags (FrameFlags_bits f AND NOT END_STREAM_MASK))"

definition FrameFlags_set_end_headers :: "FrameFlags \<Rightarrow> bool \<Rightarrow> FrameFlags" where
  "FrameFlags_set_end_headers f end_headers =
     (if end_headers then FrameFlags (FrameFlags_bits f OR END_HEADERS_MASK)
      else FrameFlags (FrameFlags_bits f AND NOT END_HEADERS_MASK))"

definition FrameFlags_set_padded :: "FrameFlags \<Rightarrow> bool \<Rightarrow> FrameFlags" where
  "FrameFlags_set_padded f padded =
     (if padded then FrameFlags (FrameFlags_bits f OR PADDED_MASK)
      else FrameFlags (FrameFlags_bits f AND NOT PADDED_MASK))"

section \<open>Frames and payloads\<close>

datatype FrameType =
    FrameType_Data | FrameType_Headers | FrameType_Priority | FrameType_RstStream
  | FrameType_Settings | FrameType_PushPromise | FrameType_Ping | FrameType_Goaway
  | FrameType_WindowUpdate | FrameType_Continuation

fun FrameType_code :: "FrameType \<Rightarrow> u8" where
  "FrameType_code FrameType_Data = 0x0"
| "FrameType_code FrameType_Headers = 0x1"
| "FrameType_code FrameType_Priority = 0x2"
| "FrameType_code FrameType_RstStream = 0x03"
| "FrameType_code FrameType_Settings = 0x4"
| "FrameType_code FrameType_PushPromise = 0x5"
| "FrameType_code FrameType_Ping = 0x6"
| "FrameType_code FrameType_Goaway = 0x7"
| "FrameType_code FrameType_WindowUpdate = 0x8"
| "FrameType_code FrameType_Continuation = 0x9"

datatype Setting =
    HeaderTableSize u32 | EnablePush bool | MaxConcurrentStreams u32
  | InitialWindowSize u32 | MaxFrameSize u32 | MaxHeaderListSize u32

record Priority =
  prio_exclusive :: bool
  prio_stream_dependency :: u32
  prio_weight :: u8

record Goaway =
  goaway_error_code :: u32
  goaway_last_stream_id :: StreamId
  goaway_debug_data :: bytes

record PushPromise =
  pp_promised_stream_id :: StreamId
  pp_parts :: Parts

text \<open>
  The one-field structs \<open>Headers\<close>, \<open>Data\<close>, \<open>RstStream\<close>, \<open>Ping\<close>, \<open>Settings\<close> and
  \<open>WindowUpdate\<close> are their field.
\<close>

type_synonym Settings = "Setting list"

datatype Payload =
    Payload_Headers Parts
  | Payload_Data bytes
  | Payload_Priority Priority
  | Payload_RstStream u32
  | Payload_Ping bytes
  | Payload_Settings Settings
  | Payload_Goaway Goaway
  | Payload_WindowUpdate u32
  | Payload_PushPromise PushPromise

record Frame =
  frame_id :: StreamId
  frame_flags :: FrameFlags
  frame_payload :: Payload

definition Frame_new :: "StreamId \<Rightarrow> FrameFlags \<Rightarrow> Payload \<Rightarrow> Frame" where
  "Frame_new sid flags payload =
     \<lparr>frame_id = sid, frame_flags = flags, frame_payload = payload\<rparr>"

fun Payload_as_headers :: "Payload \<Rightarrow> Parts option" where
  "Payload_as_headers (Payload_Headers h) = Some h"
| "Payload_as_headers _ = None"

fun Payload_frame_type :: "Payload \<Rightarrow> FrameType" where
  "Payload_frame_type (Payload_Headers _) = FrameType_Headers"
| "Payload_frame_type (Payload_Data _) = FrameType_Data"
| "Payload_frame_type (Payload_Priority _) = FrameType_Priority"
| "Payload_frame_type (Payload_Ping _) = FrameType_Ping"
| "Payload_frame_type (Payload_RstStream _) = FrameType_RstStream"
| "Payload_frame_type (Payload_Settings _) = FrameType_Settings"
| "Payload_frame_type (Payload_Goaway _) = FrameType_Goaway"
| "Payload_frame_type (Payload_WindowUpdate _) = FrameType_WindowUpdate"
| "Payload_frame_type (Payload_PushPromise _) = FrameType_PushPromise"

definition RstStream_error :: "u32 \<Rightarrow> u32 \<Rightarrow> (H2Error, H2Error) rust_result" where
  "RstStream_error error_code sid =
     (case ErrorCode_try_from error_code of
        Ok code \<Rightarrow> Ok (StreamError sid code)
      | Err e \<Rightarrow> Err e
      | Panic \<Rightarrow> Panic)"

definition RstStream_is_no_error :: "u32 \<Rightarrow> bool" where
  "RstStream_is_no_error error_code \<longleftrightarrow> error_code = 0"

definition Ping_ack :: "bytes \<Rightarrow> Frame" where
  "Ping_ack ping = Frame_new 0 (FrameFlags 0x1) (Payload_Ping ping)"

definition Goaway_encoded_len :: "Goaway \<Rightarrow> nat" where
  "Goaway_encoded_len g = 8 + length (goaway_debug_data g)"

definition WindowUpdate_encoded_len :: "u32 \<Rightarrow> nat" where
  "WindowUpdate_encoded_len w = 4"

section \<open>Settings\<close>

fun Setting_setting_identifier :: "Setting \<Rightarrow> u16" where
  "Setting_setting_identifier (HeaderTableSize _) = 0x01"
| "Setting_setting_identifier (EnablePush _) = 0x02"
| "Setting_setting_identifier (MaxConcurrentStreams _) = 0x03"
| "Setting_setting_identifier (InitialWindowSize _) = 0x04"
| "Setting_setting_identifier (MaxFrameSize _) = 0x05"
| "Setting_setting_identifier (MaxHeaderListSize _) = 0x06"

text \<open>\<open>update_setting\<close> overwrites the first setting with the same identifier, or appends.\<close>

primrec Settings_update_setting :: "Settings \<Rightarrow> Setting \<Rightarrow> Settings" where
  "Settings_update_setting [] setting = [setting]"
| "Settings_update_setting (s # ss) setting =
     (if Setting_setting_identifier s = Setting_setting_identifier setting then setting # ss
      else s # Settings_update_setting ss setting)"

definition Settings_encoded_len :: "Settings \<Rightarrow> nat" where
  "Settings_encoded_len settings = length settings * 6"

definition Settings_ack :: Frame where
  "Settings_ack = Frame_new 0 (FrameFlags 0x1) (Payload_Settings [])"

definition SettingsBuilder_new :: Settings where
  "SettingsBuilder_new = []"

definition SettingsBuilder_header_table_size :: "Settings \<Rightarrow> u32 \<Rightarrow> Settings" where
  "SettingsBuilder_header_table_size b size1 = b @ [HeaderTableSize size1]"

definition SettingsBuilder_enable_push :: "Settings \<Rightarrow> bool \<Rightarrow> Settings" where
  "SettingsBuilder_enable_push b is_enable = b @ [EnablePush is_enable]"

definition SettingsBuilder_initial_window_size :: "Settings \<Rightarrow> u32 \<Rightarrow> Settings" where
  "SettingsBuilder_initial_window_size b size1 = b @ [InitialWindowSize size1]"

definition SettingsBuilder_max_frame_size :: "Settings \<Rightarrow> u32 \<Rightarrow> Settings" where
  "SettingsBuilder_max_frame_size b size1 = b @ [MaxFrameSize size1]"

definition SettingsBuilder_max_header_list_size :: "Settings \<Rightarrow> u32 \<Rightarrow> Settings" where
  "SettingsBuilder_max_header_list_size b size1 = b @ [MaxHeaderListSize size1]"

end
