(* ===== verification/H2_Frame_Encoder.thy ===== *)
theory H2_Frame_Encoder
  imports H2_Frame Hpack_Encoder
begin

text \<open>
  The encoder of HTTP/2 frames (\<open>ylong_http/src/h2/encoder.rs\<close>): the whole state machine, with the buffer
  that it fills. An operation returns the encoder, the buffer and the number of bytes written, also when it
  fails. An index or a slice out of range and the subtraction of a larger number are panics.
\<close>

section \<open>State\<close>

definition FrameEncoder_DEFAULT_MAX_FRAME_SIZE :: nat where
  "FrameEncoder_DEFAULT_MAX_FRAME_SIZE = 16384"

definition FrameEncoder_DEFAULT_HEADER_TABLE_SIZE :: nat where
  "FrameEncoder_DEFAULT_HEADER_TABLE_SIZE = 4096"

datatype FrameEncoderErr = EncodingData | UnexpectedPayloadType | NoCurrentFrame | InternalError | HeadersNotEnd

datatype FrameEncoderState =
    Idle
  | EncodingHeadersFrame | EncodingHeadersPayload | EncodingHeadersPadding | EncodingContinuationFrames | HeadersComplete
  | EncodingDataHeader | EncodingDataPayload | EncodingDataPadding
  | EncodingSettingsFrame | EncodingSettingsPayload
  | EncodingGoawayFrame | EncodingGoawayPayload
  | EncodingWindowUpdateFrame | EncodingWindowUpdatePayload
  | EncodingPriorityFrame | EncodingPriorityPayload
  | EncodingRstStreamFrame | EncodingRstStreamPayload
  | EncodingPingFrame | EncodingPingPayload
  | DataComplete

record FrameEncoder =
  fe_current_frame :: "Frame option"
  fe_max_frame_size :: nat
  fe_max_header_list_size :: nat
  fe_hpack_encoder :: HpackEncoder
  fe_state :: FrameEncoderState
  fe_encoded_bytes :: nat
  fe_data_offset :: nat
  fe_remaining_header_payload :: nat
  fe_remaining_payload_bytes :: nat
  fe_is_end_stream :: bool
  fe_is_end_headers :: bool
  fe_header_payload_buffer :: bytes
  fe_header_payload_index :: nat

type_synonym encoder_result = "FrameEncoder \<times> bytes \<times> (nat, FrameEncoderErr) rust_result"

definition FrameEncoder_new :: "nat \<Rightarrow> bool \<Rightarrow> FrameEncoder" where
  "FrameEncoder_new max_frame_size use_huffman =
     \<lparr>fe_current_frame = None, fe_max_frame_size = max_frame_size, fe_max_header_list_size = usize_limit - 1,
      fe_hpack_encoder = HpackEncoder_new FrameEncoder_DEFAULT_HEADER_TABLE_SIZE use_huffman,
      fe_state = Idle, fe_encoded_bytes = 0, fe_data_offset = 0, fe_remaining_header_payload = 0,
      fe_remaining_payload_bytes = 0, fe_is_end_stream = False, fe_is_end_headers = False,
      fe_header_payload_buffer = replicate FrameEncoder_DEFAULT_MAX_FRAME_SIZE 0,
      fe_header_payload_index = 0\<rparr>"

text \<open>The HPACK encoder writes to the front of the payload buffer.\<close>

definition read_rest_payload :: "FrameEncoder \<Rightarrow> FrameEncoder \<times> (unit, FrameEncoderErr) rust_result" where
  "read_rest_payload e =
     (let e = e\<lparr>fe_header_payload_index := 0\<rparr>
      in case HpackEncoder_encode (fe_hpack_encoder e) (length (fe_header_payload_buffer e)) of
           Ok (h, w, payload_size) \<Rightarrow>
             (e\<lparr>fe_hpack_encoder := h, fe_header_payload_buffer := w @ drop (length w) (fe_header_payload_buffer e),
                fe_remaining_header_payload := payload_size\<rparr>, Ok ())
         | Err _ \<Rightarrow> (e, Panic)
         | Panic \<Rightarrow> (e, Panic))"

text \<open>\<open>order\<close> is the order in which the header map yields its fields. A payload without a state keeps the old one.\<close>

definition FrameEncoder_set_frame ::
    "map_order \<Rightarrow> FrameEncoder \<Rightarrow> Frame \<Rightarrow> FrameEncoder \<times> (unit, FrameEncoderErr) rust_result" where
  "FrameEncoder_set_frame order e frame =
     (let e = e\<lparr>fe_is_end_stream := FrameFlags_is_end_stream (frame_flags frame),
                fe_is_end_headers := FrameFlags_is_end_headers (frame_flags frame),
                fe_current_frame := Some frame, fe_encoded_bytes := 0\<rparr>
      in case frame_payload frame of
           Payload_Headers headers \<Rightarrow>
             if \<not> fe_is_end_headers e then (e, Err HeadersNotEnd)
             else
               (case read_rest_payload (e\<lparr>fe_hpack_encoder := HpackEncoder_set_parts order (fe_hpack_encoder e) headers\<rparr>) of
                  (e, Ok _) \<Rightarrow> (e\<lparr>fe_state := EncodingHeadersFrame\<rparr>, Ok ())
                | (e, r) \<Rightarrow> (e, r))
         | Payload_Priority _ \<Rightarrow> (e\<lparr>fe_state := EncodingPriorityFrame\<rparr>, Ok ())
         | Payload_RstStream _ \<Rightarrow> (e\<lparr>fe_state := EncodingRstStreamFrame\<rparr>, Ok ())
         | Payload_Ping _ \<Rightarrow> (e\<lparr>fe_state := EncodingPingFrame\<rparr>, Ok ())
         | Payload_Data data \<Rightarrow>
             (e\<lparr>fe_data_offset := 0, fe_remaining_payload_bytes := length data, fe_state := EncodingDataHeader\<rparr>, Ok ())
         | Payload_Settings _ \<Rightarrow> (e\<lparr>fe_state := EncodingSettingsFrame\<rparr>, Ok ())
         | Payload_Goaway _ \<Rightarrow> (e\<lparr>fe_state := EncodingGoawayFrame\<rparr>, Ok ())
         | Payload_WindowUpdate _ \<Rightarrow> (e\<lparr>fe_state := EncodingWindowUpdateFrame\<rparr>, Ok ())
         | Payload_PushPromise _ \<Rightarrow> (e, Ok ()))"

definition FrameEncoder_update_setting :: "FrameEncoder \<Rightarrow> Setting \<Rightarrow> FrameEncoder" where
  "FrameEncoder_update_setting e setting =
     (case fe_current_frame e of
        Some frame \<Rightarrow>
          (case frame_payload frame of
             Payload_Settings settings \<Rightarrow>
               e\<lparr>fe_current_frame := Some (frame\<lparr>frame_payload := Payload_Settings (Settings_update_setting settings setting)\<rparr>)\<rparr>
           | _ \<Rightarrow> e)
      | None \<Rightarrow> e)"

definition FrameEncoder_update_max_frame_size :: "FrameEncoder \<Rightarrow> nat \<Rightarrow> FrameEncoder" where
  "FrameEncoder_update_max_frame_size e size1 = e\<lparr>fe_max_frame_size := size1\<rparr>"

text \<open>\<open>HpackEncoder::update_max_dynamic_table_size\<close> has an empty body.\<close>

definition FrameEncoder_update_header_table_size :: "FrameEncoder \<Rightarrow> nat \<Rightarrow> FrameEncoder" where
  "FrameEncoder_update_header_table_size e size1 = e"

definition FrameEncoder_update_max_header_list_size :: "FrameEncoder \<Rightarrow> nat \<Rightarrow> FrameEncoder" where
  "FrameEncoder_update_max_header_list_size e size1 = e\<lparr>fe_max_header_list_size := size1\<rparr>"

definition finish_current_frame :: "FrameEncoder \<Rightarrow> FrameEncoder" where
  "finish_current_frame e =
     e\<lparr>fe_header_payload_index := 0, fe_is_end_stream := False, fe_current_frame := None,
       fe_is_end_headers := False, fe_remaining_header_payload := 0, fe_encoded_bytes := 0\<rparr>"

section \<open>Writing bytes\<close>

text \<open>
  The loops over the first \<open>len\<close> places of a buffer: \<open>fill\<close> writes the byte for the index of the
  place itself, \<open>fill_at\<close> indexes the buffer anew.
\<close>

fun fill ::
    "(nat \<Rightarrow> (u8, FrameEncoderErr) rust_result) \<Rightarrow> nat \<Rightarrow> nat \<Rightarrow> bytes \<Rightarrow> bytes \<times> (unit, FrameEncoderErr) rust_result" where
  "fill f i len [] = ([], Ok ())"
| "fill f i len (b # bs) =
     (if len = 0 then (b # bs, Ok ())
      else
        (case f i of
           Ok x \<Rightarrow> (case fill f (i + 1) (len - 1) bs of (bs, r) \<Rightarrow> (x # bs, r))
         | Err e \<Rightarrow> (b # bs, Err e)
         | Panic \<Rightarrow> (b # bs, Panic)))"

fun fill_at ::
    "(nat \<Rightarrow> (nat \<times> u8, FrameEncoderErr) rust_result) \<Rightarrow> nat \<Rightarrow> nat \<Rightarrow> bytes \<Rightarrow> bytes \<times> (unit, FrameEncoderErr) rust_result" where
  "fill_at f i 0 buf = (buf, Ok ())"
| "fill_at f i (Suc len) buf =
     (case f i of
        Ok (p, x) \<Rightarrow> if p < length buf then fill_at f (i + 1) len (buf[p := x]) else (buf, Panic)
      | Err e \<Rightarrow> (buf, Err e)
      | Panic \<Rightarrow> (buf, Panic))"

text \<open>\<open>((n >> (16 - 8 * i)) & 0xFF) as u8\<close> and \<open>(w >> (24 - 8 * i)) as u8\<close>.\<close>

definition length_byte :: "nat \<Rightarrow> nat \<Rightarrow> u8" where
  "length_byte n i = word_of_nat (n div 2 ^ (16 - 8 * i))"

definition u32_byte :: "u32 \<Rightarrow> nat \<Rightarrow> u8" where
  "u32_byte w i = ucast (drop_bit (24 - 8 * i) w)"

text \<open>The match on the index of a byte in a frame header.\<close>

definition header_byte ::
    "(nat \<Rightarrow> u8) \<Rightarrow> u8 \<Rightarrow> u8 \<Rightarrow> (nat \<Rightarrow> u8) \<Rightarrow> nat \<Rightarrow> (u8, FrameEncoderErr) rust_result" where
  "header_byte payload_len frame_type flags stream_id i =
     (if i \<le> 2 then Ok (payload_len i)
      else if i = 3 then Ok frame_type
      else if i = 4 then Ok flags
      else if i \<le> 8 then Ok (stream_id (i - 5))
      else Err InternalError)"

text \<open>The rest of the nine bytes of a header that fits.\<close>

definition header_bytes_to_write :: "FrameEncoder \<Rightarrow> bytes \<Rightarrow> nat" where
  "header_bytes_to_write e buf =
     min (if fe_encoded_bytes e \<ge> 9 then 0 else 9 - fe_encoded_bytes e) (length buf)"

definition write_payload :: "FrameEncoder \<Rightarrow> bytes \<Rightarrow> nat \<Rightarrow> encoder_result" where
  "write_payload e buf payload_len =
     (if fe_header_payload_index e > payload_len then (e, buf, Panic)
      else
        let bytes_to_write = min (length buf) (payload_len - fe_header_payload_index e)
        in if fe_header_payload_index e + bytes_to_write > length (fe_header_payload_buffer e) then (e, buf, Panic)
           else
             (e\<lparr>fe_header_payload_index := fe_header_payload_index e + bytes_to_write\<rparr>,
              take bytes_to_write (drop (fe_header_payload_index e) (fe_header_payload_buffer e)) @ drop bytes_to_write buf,
              Ok bytes_to_write))"

definition encode_slice :: "FrameEncoder \<Rightarrow> bytes \<Rightarrow> bytes \<Rightarrow> bytes \<times> (nat, FrameEncoderErr) rust_result" where
  "encode_slice e buf data =
     (let start = fe_data_offset e
      in if start > fe_max_frame_size e then (buf, Panic)
         else
           let allow_to_write = min (fe_max_frame_size e - start) (fe_remaining_payload_bytes e);
               bytes_to_write = min allow_to_write (length buf)
           in if start + bytes_to_write > length data then (buf, Panic)
              else (take bytes_to_write (drop start data) @ drop bytes_to_write buf, Ok bytes_to_write))"

section \<open>HEADERS and CONTINUATION\<close>

definition headers_header_status :: "FrameEncoder \<Rightarrow> FrameEncoder \<times> (unit, FrameEncoderErr) rust_result" where
  "headers_header_status e =
     (if fe_header_payload_index e < fe_remaining_header_payload e then (e\<lparr>fe_state := EncodingHeadersPayload\<rparr>, Ok ())
      else if HpackEncoder_is_finished (fe_hpack_encoder e) then ((finish_current_frame e)\<lparr>fe_state := HeadersComplete\<rparr>, Ok ())
      else
        (case read_rest_payload e of
           (e, Ok _) \<Rightarrow> (e\<lparr>fe_state := EncodingContinuationFrames\<rparr>, Ok ())
         | (e, r) \<Rightarrow> (e, r)))"

definition iterate_headers_header ::
    "FrameEncoder \<Rightarrow> Frame \<Rightarrow> bytes \<Rightarrow> nat \<Rightarrow> bytes \<times> (unit, FrameEncoderErr) rust_result" where
  "iterate_headers_header e frame buf len =
     fill (\<lambda>buf_index.
        header_byte (length_byte (fe_remaining_header_payload e)) (FrameType_code FrameType_Headers)
          (if HpackEncoder_is_finished (fe_hpack_encoder e) then FrameFlags_bits (frame_flags frame)
           else FrameFlags_bits (frame_flags frame) AND 0xFB)
          (u32_byte (frame_id frame)) (fe_encoded_bytes e + buf_index))
       0 len buf"

text \<open>What follows a header or a payload that has been written: the counter and the next state.\<close>

definition payload_written :: "nat \<Rightarrow> encoder_result \<Rightarrow> encoder_result" where
  "payload_written before p =
     (case p of
        (e, buf, Ok n) \<Rightarrow>
          (case headers_header_status (e\<lparr>fe_encoded_bytes := fe_encoded_bytes e + n\<rparr>) of
             (e, Ok _) \<Rightarrow> (e, buf, Ok (before + n))
           | (e, Err x) \<Rightarrow> (e, buf, Err x)
           | (e, Panic) \<Rightarrow> (e, buf, Panic))
      | (e, buf, Err x) \<Rightarrow> (e, buf, Err x)
      | (e, buf, Panic) \<Rightarrow> (e, buf, Panic))"

definition encode_headers_frame :: "FrameEncoder \<Rightarrow> bytes \<Rightarrow> encoder_result" where
  "encode_headers_frame e buf =
     (case fe_current_frame e of
        None \<Rightarrow> (e, buf, Err NoCurrentFrame)
      | Some frame \<Rightarrow>
          (case frame_payload frame of
             Payload_Headers _ \<Rightarrow>
               (let bytes_to_write = header_bytes_to_write e buf
                in case iterate_headers_header e frame buf bytes_to_write of
                     (buf, Ok _) \<Rightarrow>
                       (let e = e\<lparr>fe_encoded_bytes := fe_encoded_bytes e + bytes_to_write\<rparr>
                        in if fe_encoded_bytes e \<ge> 9 then
                             (case payload_written bytes_to_write
                                 (write_payload e (drop bytes_to_write buf) (fe_remaining_header_payload e)) of
                                (e, rest, r) \<Rightarrow> (e, take bytes_to_write buf @ rest, r))
                           else (e, buf, Ok bytes_to_write))
                   | (buf, Err x) \<Rightarrow> (e, buf, Err x)
                   | (buf, Panic) \<Rightarrow> (e, buf, Panic))
           | _ \<Rightarrow> (e, buf, Err UnexpectedPayloadType)))"

definition encode_headers_payload :: "FrameEncoder \<Rightarrow> bytes \<Rightarrow> encoder_result" where
  "encode_headers_payload e buf =
     (case fe_current_frame e of
        None \<Rightarrow> (e, buf, Err NoCurrentFrame)
      | Some frame \<Rightarrow>
          (case frame_payload frame of
             Payload_Headers _ \<Rightarrow>
               if buf = [] then (e, buf, Ok 0)
               else payload_written 0 (write_payload e buf (fe_remaining_header_payload e))
           | _ \<Rightarrow> (e, buf, Err UnexpectedPayloadType)))"

text \<open>The nine bytes of the header are assigned one by one.\<close>

definition continuation_header :: "FrameEncoder \<Rightarrow> Frame \<Rightarrow> nat \<Rightarrow> bytes" where
  "continuation_header e frame continuation_frame_len =
     (let new_flags = FrameFlags_empty;
          new_flags = (if fe_remaining_header_payload e \<le> fe_max_frame_size e
                          \<and> HpackEncoder_is_finished (fe_hpack_encoder e) \<and> fe_is_end_headers e
                       then FrameFlags_set_end_headers new_flags True else new_flags)
      in map (length_byte continuation_frame_len) [0..<3] @ [FrameType_code FrameType_Continuation] @
         [FrameFlags_bits new_flags] @ map (u32_byte (frame_id frame)) [0..<4])"

definition encode_continuation_frames :: "FrameEncoder \<Rightarrow> bytes \<Rightarrow> encoder_result" where
  "encode_continuation_frames e buf =
     (case fe_current_frame e of
        None \<Rightarrow> (e, buf, Err NoCurrentFrame)
      | Some frame \<Rightarrow>
          (case frame_payload frame of
             Payload_Headers _ \<Rightarrow>
               if length buf < 9 then (e, buf, Ok 0)
               else
                 (let continuation_frame_len = min (fe_remaining_header_payload e) (fe_max_frame_size e)
                  in case payload_written 9 (write_payload e (drop 9 buf) continuation_frame_len) of
                       (e', rest, r) \<Rightarrow> (e', continuation_header e frame continuation_frame_len @ rest, r))
           | _ \<Rightarrow> (e, buf, Err UnexpectedPayloadType)))"

section \<open>DATA\<close>

definition iterate_data_header ::
    "FrameEncoder \<Rightarrow> Frame \<Rightarrow> bytes \<Rightarrow> nat \<Rightarrow> nat \<Rightarrow> bytes \<times> (unit, FrameEncoderErr) rust_result" where
  "iterate_data_header e frame buf payload_len len =
     fill (\<lambda>buf_index.
        header_byte (length_byte payload_len) (FrameType_code (Payload_frame_type (frame_payload frame)))
          (if fe_remaining_payload_bytes e \<le> fe_max_frame_size e then FrameFlags_bits (frame_flags frame)
           else FrameFlags_bits (frame_flags frame) AND 0xFE)
          (u32_byte (frame_id frame)) (fe_encoded_bytes e + buf_index))
       0 len buf"

definition encode_data_header :: "FrameEncoder \<Rightarrow> bytes \<Rightarrow> encoder_result" where
  "encode_data_header e buf =
     (case fe_current_frame e of
        None \<Rightarrow> (e, buf, Err NoCurrentFrame)
      | Some frame \<Rightarrow>
          (case frame_payload frame of
             Payload_Data _ \<Rightarrow>
               (let bytes_to_write = header_bytes_to_write e buf
                in case iterate_data_header e frame buf (min (fe_remaining_payload_bytes e) (fe_max_frame_size e)) bytes_to_write of
                     (buf, Ok _) \<Rightarrow>
                       (let e = e\<lparr>fe_encoded_bytes := fe_encoded_bytes e + bytes_to_write\<rparr>
                        in (if fe_encoded_bytes e = 9 then e\<lparr>fe_encoded_bytes := 0, fe_state := EncodingDataPayload\<rparr> else e,
                            buf, Ok bytes_to_write))
                   | (buf, Err x) \<Rightarrow> (e, buf, Err x)
                   | (buf, Panic) \<Rightarrow> (e, buf, Panic))
           | _ \<Rightarrow> (e, buf, Err UnexpectedPayloadType)))"

definition encode_data_payload :: "FrameEncoder \<Rightarrow> bytes \<Rightarrow> encoder_result" where
  "encode_data_payload e buf =
     (case fe_current_frame e of
        None \<Rightarrow> (e, buf, Err NoCurrentFrame)
      | Some frame \<Rightarrow>
          (case frame_payload frame of
             Payload_Data payload \<Rightarrow>
               (case encode_slice e buf payload of
                  (buf, Ok n) \<Rightarrow>
                    (let e = e\<lparr>fe_data_offset := fe_data_offset e + n, fe_remaining_payload_bytes := fe_remaining_payload_bytes e - n\<rparr>
                     in (if fe_remaining_payload_bytes e = 0 then e\<lparr>fe_data_offset := 0, fe_state := DataComplete\<rparr>
                         else if fe_data_offset e = fe_max_frame_size e
                         then e\<lparr>fe_data_offset := 0, fe_state := EncodingDataHeader\<rparr>
                         else e\<lparr>fe_state := EncodingDataPayload\<rparr>,
                         buf, Ok n))
                | (buf, Err x) \<Rightarrow> (e, buf, Err x)
                | (buf, Panic) \<Rightarrow> (e, buf, Panic))
           | _ \<Rightarrow> (e, buf, Err UnexpectedPayloadType)))"

definition encode_padding :: "FrameEncoder \<Rightarrow> bytes \<Rightarrow> encoder_result" where
  "encode_padding e buf =
     (case fe_current_frame e of
        None \<Rightarrow> (e, buf, Err NoCurrentFrame)
      | Some frame \<Rightarrow>
          if FrameFlags_is_padded (frame_flags frame) then
            (case frame_payload frame of
               Payload_Data data \<Rightarrow>
                 (let padding_len = length data
                  in if fe_encoded_bytes e > padding_len then (e, buf, Panic)
                     else
                       let bytes_to_write = min (padding_len - fe_encoded_bytes e) (length buf);
                           e = e\<lparr>fe_encoded_bytes := fe_encoded_bytes e + bytes_to_write\<rparr>
                       in (if fe_encoded_bytes e = padding_len then e\<lparr>fe_state := DataComplete\<rparr> else e,
                           replicate bytes_to_write 0 @ drop bytes_to_write buf, Ok bytes_to_write))
             | _ \<Rightarrow> (e, buf, Err UnexpectedPayloadType))
          else (e, buf, Ok 0))"

section \<open>GOAWAY\<close>

definition iterate_goaway_header ::
    "FrameEncoder \<Rightarrow> Frame \<Rightarrow> bytes \<Rightarrow> nat \<Rightarrow> bytes \<times> (unit, FrameEncoderErr) rust_result" where
  "iterate_goaway_header e frame buf len =
     fill (\<lambda>buf_index.
        let header_byte_index = fe_encoded_bytes e + buf_index
        in case frame_payload frame of
             Payload_Goaway goaway_payload \<Rightarrow>
               header_byte (length_byte (Goaway_encoded_len goaway_payload)) (FrameType_code FrameType_Goaway)
                 (FrameFlags_bits (frame_flags frame)) (u32_byte (frame_id frame)) header_byte_index
           | _ \<Rightarrow>
               if header_byte_index \<le> 2 then Err UnexpectedPayloadType
               else header_byte (\<lambda>_. 0) (FrameType_code FrameType_Goaway) (FrameFlags_bits (frame_flags frame))
                      (u32_byte (frame_id frame)) header_byte_index)
       0 len buf"

definition encode_goaway_frame :: "FrameEncoder \<Rightarrow> bytes \<Rightarrow> encoder_result" where
  "encode_goaway_frame e buf =
     (case fe_current_frame e of
        None \<Rightarrow> (e, buf, Err NoCurrentFrame)
      | Some frame \<Rightarrow>
          (case frame_payload frame of
             Payload_Goaway _ \<Rightarrow>
               (let bytes_to_write = header_bytes_to_write e buf
                in case iterate_goaway_header e frame buf bytes_to_write of
                     (buf, Ok _) \<Rightarrow>
                       (let e = e\<lparr>fe_encoded_bytes := fe_encoded_bytes e + bytes_to_write\<rparr>
                        in (if fe_encoded_bytes e = 9 then e\<lparr>fe_state := EncodingGoawayPayload\<rparr> else e, buf, Ok bytes_to_write))
                   | (buf, Err x) \<Rightarrow> (e, buf, Err x)
                   | (buf, Panic) \<Rightarrow> (e, buf, Panic))
           | _ \<Rightarrow> (e, buf, Err UnexpectedPayloadType)))"

text \<open>The index into the payload is a subtraction, which the states keep in range.\<close>

definition goaway_byte :: "Goaway \<Rightarrow> nat \<Rightarrow> (u8, FrameEncoderErr) rust_result" where
  "goaway_byte goaway i =
     (if i \<le> 3 then Ok (u32_byte (goaway_last_stream_id goaway) i)
      else if i \<le> 7 then Ok (u32_byte (goaway_error_code goaway) (i - 4))
      else if i - 8 < length (goaway_debug_data goaway) then Ok (goaway_debug_data goaway ! (i - 8))
      else Err InternalError)"

definition iterate_goaway_payload ::
    "FrameEncoder \<Rightarrow> Goaway \<Rightarrow> bytes \<Rightarrow> nat \<Rightarrow> bytes \<times> (unit, FrameEncoderErr) rust_result" where
  "iterate_goaway_payload e goaway buf len =
     fill (\<lambda>buf_index. if fe_encoded_bytes e < 9 then Panic else goaway_byte goaway (fe_encoded_bytes e - 9 + buf_index))
       0 len buf"

definition encode_goaway_payload :: "FrameEncoder \<Rightarrow> bytes \<Rightarrow> encoder_result" where
  "encode_goaway_payload e buf =
     (case fe_current_frame e of
        None \<Rightarrow> (e, buf, Err NoCurrentFrame)
      | Some frame \<Rightarrow>
          (case frame_payload frame of
             Payload_Goaway goaway \<Rightarrow>
               (let payload_size = Goaway_encoded_len goaway;
                    remaining_payload_bytes = payload_size - (fe_encoded_bytes e - 9);
                    bytes_to_write = min remaining_payload_bytes (length buf)
                in case iterate_goaway_payload e goaway buf bytes_to_write of
                     (buf, Ok _) \<Rightarrow>
                       (let e = e\<lparr>fe_encoded_bytes := fe_encoded_bytes e + bytes_to_write\<rparr>
                        in (if fe_encoded_bytes e = 9 + payload_size then e\<lparr>fe_state := DataComplete\<rparr> else e, buf, Ok bytes_to_write))
                   | (buf, Err x) \<Rightarrow> (e, buf, Err x)
                   | (buf, Panic) \<Rightarrow> (e, buf, Panic))
           | _ \<Rightarrow> (e, buf, Err UnexpectedPayloadType)))"

section \<open>WINDOW_UPDATE\<close>

definition iterate_window_update_header ::
    "FrameEncoder \<Rightarrow> Frame \<Rightarrow> bytes \<Rightarrow> nat \<Rightarrow> bytes \<times> (unit, FrameEncoderErr) rust_result" where
  "iterate_window_update_header e frame buf len =
     fill (\<lambda>buf_index.
        header_byte (\<lambda>i. if i \<le> 1 then 0 else 4) (FrameType_code FrameType_WindowUpdate)
          (FrameFlags_bits (frame_flags frame)) (u32_byte (frame_id frame)) (fe_encoded_bytes e + buf_index))
       0 len buf"

text \<open>The counter starts anew for the payload.\<close>

definition encode_window_update_frame :: "FrameEncoder \<Rightarrow> bytes \<Rightarrow> encoder_result" where
  "encode_window_update_frame e buf =
     (case fe_current_frame e of
        None \<Rightarrow> (e, buf, Err NoCurrentFrame)
      | Some frame \<Rightarrow>
          (case frame_payload frame of
             Payload_WindowUpdate _ \<Rightarrow>
               (let bytes_to_write = header_bytes_to_write e buf
                in case iterate_window_update_header e frame buf bytes_to_write of
                     (buf, Ok _) \<Rightarrow>
                       (let e = e\<lparr>fe_encoded_bytes := fe_encoded_bytes e + bytes_to_write\<rparr>
                        in (if fe_encoded_bytes e = 9 then e\<lparr>fe_state := EncodingWindowUpdatePayload, fe_encoded_bytes := 0\<rparr> else e, buf, Ok bytes_to_write))
                   | (buf, Err x) \<Rightarrow> (e, buf, Err x)
                   | (buf, Panic) \<Rightarrow> (e, buf, Panic))
           | _ \<Rightarrow> (e, buf, Err UnexpectedPayloadType)))"

definition encode_window_update_payload :: "FrameEncoder \<Rightarrow> bytes \<Rightarrow> encoder_result" where
  "encode_window_update_payload e buf =
     (case fe_current_frame e of
        None \<Rightarrow> (e, buf, Err NoCurrentFrame)
      | Some frame \<Rightarrow>
          (case frame_payload frame of
             Payload_WindowUpdate increment \<Rightarrow>
               (let payload_size = 4;
                    remaining_payload_bytes = payload_size - (fe_encoded_bytes e - 9);
                    bytes_to_write = min remaining_payload_bytes (length buf)
                in case fill (\<lambda>buf_index. Ok (u32_byte increment (fe_encoded_bytes e - 9 + buf_index))) 0 bytes_to_write buf of
                     (buf, Ok _) \<Rightarrow>
                       (let e = e\<lparr>fe_encoded_bytes := fe_encoded_bytes e + bytes_to_write\<rparr>
                        in (if fe_encoded_bytes e = payload_size then e\<lparr>fe_state := DataComplete\<rparr> else e, buf, Ok bytes_to_write))
                   | (buf, Err x) \<Rightarrow> (e, buf, Err x)
                   | (buf, Panic) \<Rightarrow> (e, buf, Panic))
           | _ \<Rightarrow> (e, buf, Err UnexpectedPayloadType)))"

section \<open>SETTINGS\<close>

text \<open>The length bytes are chosen by the place in the buffer, and the type and the flags have fixed places in it.\<close>

definition iterate_settings_header ::
    "FrameEncoder \<Rightarrow> Frame \<Rightarrow> bytes \<Rightarrow> nat \<Rightarrow> nat \<Rightarrow> bytes \<times> (unit, FrameEncoderErr) rust_result" where
  "iterate_settings_header e frame buf payload_len len =
     fill_at (\<lambda>buf_index.
        let header_byte_index = fe_encoded_bytes e + buf_index
        in if header_byte_index \<le> 2 then Ok (buf_index, length_byte payload_len buf_index)
           else if header_byte_index = 3 then Ok (3, FrameType_code FrameType_Settings)
           else if header_byte_index = 4 then Ok (4, FrameFlags_bits (frame_flags frame))
           else if header_byte_index \<le> 8 then Ok (buf_index, 0)
           else Err InternalError)
       0 len buf"

definition encode_settings_frame :: "FrameEncoder \<Rightarrow> bytes \<Rightarrow> encoder_result" where
  "encode_settings_frame e buf =
     (case fe_current_frame e of
        None \<Rightarrow> (e, buf, Err NoCurrentFrame)
      | Some frame \<Rightarrow>
          (case frame_payload frame of
             Payload_Settings settings \<Rightarrow>
               (let bytes_to_write = header_bytes_to_write e buf
                in case iterate_settings_header e frame buf (length settings * 6) bytes_to_write of
                     (buf, Ok _) \<Rightarrow>
                       (let e = e\<lparr>fe_encoded_bytes := fe_encoded_bytes e + bytes_to_write\<rparr>
                        in (if fe_encoded_bytes e = 9 then e\<lparr>fe_state := EncodingSettingsPayload\<rparr> else e, buf, Ok bytes_to_write))
                   | (buf, Err x) \<Rightarrow> (e, buf, Err x)
                   | (buf, Panic) \<Rightarrow> (e, buf, Panic))
           | _ \<Rightarrow> (e, buf, Err UnexpectedPayloadType)))"

fun setting_pair :: "Setting \<Rightarrow> u32 \<times> u32" where
  "setting_pair (HeaderTableSize v) = (0x1, v)"
| "setting_pair (EnablePush v) = (0x2, if v then 1 else 0)"
| "setting_pair (MaxConcurrentStreams v) = (0x3, v)"
| "setting_pair (InitialWindowSize v) = (0x4, v)"
| "setting_pair (MaxFrameSize v) = (0x5, v)"
| "setting_pair (MaxHeaderListSize v) = (0x6, v)"

definition setting_byte :: "Settings \<Rightarrow> nat \<Rightarrow> (u8, FrameEncoderErr) rust_result" where
  "setting_byte settings payload_byte_index =
     (let setting_index = payload_byte_index div 6;
          setting_byte_index = payload_byte_index mod 6
      in if setting_index < length settings then
           (case setting_pair (settings ! setting_index) of (sid, value) \<Rightarrow>
              if setting_byte_index \<le> 1 then Ok (ucast (drop_bit (8 * (1 - setting_byte_index)) sid))
              else if setting_byte_index \<le> 5 then Ok (ucast (drop_bit (8 * (3 - (setting_byte_index - 2))) value))
              else Err InternalError)
         else Err InternalError)"

definition iterate_settings_payload ::
    "FrameEncoder \<Rightarrow> Settings \<Rightarrow> bytes \<Rightarrow> nat \<Rightarrow> bytes \<times> (unit, FrameEncoderErr) rust_result" where
  "iterate_settings_payload e settings buf len =
     fill (\<lambda>buf_index. if fe_encoded_bytes e < 9 then Panic else setting_byte settings (fe_encoded_bytes e - 9 + buf_index))
       0 len buf"

definition encode_settings_payload :: "FrameEncoder \<Rightarrow> bytes \<Rightarrow> encoder_result" where
  "encode_settings_payload e buf =
     (case fe_current_frame e of
        None \<Rightarrow> (e, buf, Err NoCurrentFrame)
      | Some frame \<Rightarrow>
          (case frame_payload frame of
             Payload_Settings settings \<Rightarrow>
               (let settings_len = length settings * 6;
                    remaining_payload_bytes = settings_len - (fe_encoded_bytes e - 9);
                    bytes_to_write = min remaining_payload_bytes (length buf)
                in case iterate_settings_payload e settings buf bytes_to_write of
                     (buf, Ok _) \<Rightarrow>
                       (let e = e\<lparr>fe_encoded_bytes := fe_encoded_bytes e + bytes_to_write\<rparr>
                        in (if fe_encoded_bytes e = 9 + settings_len then e\<lparr>fe_state := DataComplete\<rparr> else e, buf, Ok bytes_to_write))
                   | (buf, Err x) \<Rightarrow> (e, buf, Err x)
                   | (buf, Panic) \<Rightarrow> (e, buf, Panic))
           | _ \<Rightarrow> (e, buf, Err UnexpectedPayloadType)))"

section \<open>PRIORITY\<close>

definition iterate_priority_header ::
    "FrameEncoder \<Rightarrow> Frame \<Rightarrow> bytes \<Rightarrow> nat \<Rightarrow> bytes \<times> (unit, FrameEncoderErr) rust_result" where
  "iterate_priority_header e frame buf len =
     fill (\<lambda>buf_index.
        header_byte (length_byte 5) (FrameType_code (Payload_frame_type (frame_payload frame)))
          (FrameFlags_bits (frame_flags frame)) (u32_byte (frame_id frame)) (fe_encoded_bytes e + buf_index))
       0 len buf"

definition encode_priority_frame :: "FrameEncoder \<Rightarrow> bytes \<Rightarrow> encoder_result" where
  "encode_priority_frame e buf =
     (case fe_current_frame e of
        None \<Rightarrow> (e, buf, Err NoCurrentFrame)
      | Some frame \<Rightarrow>
          (case frame_payload frame of
             Payload_Priority _ \<Rightarrow>
               (let bytes_to_write = header_bytes_to_write e buf
                in case iterate_priority_header e frame buf bytes_to_write of
                     (buf, Ok _) \<Rightarrow>
                       (let e = e\<lparr>fe_encoded_bytes := fe_encoded_bytes e + bytes_to_write\<rparr>
                        in (if fe_encoded_bytes e = 9 then e\<lparr>fe_state := EncodingPriorityPayload\<rparr> else e, buf, Ok bytes_to_write))
                   | (buf, Err x) \<Rightarrow> (e, buf, Err x)
                   | (buf, Panic) \<Rightarrow> (e, buf, Panic))
           | _ \<Rightarrow> (e, buf, Err UnexpectedPayloadType)))"

definition priority_byte :: "Priority \<Rightarrow> nat \<Rightarrow> (u8, FrameEncoderErr) rust_result" where
  "priority_byte priority i =
     (if i = 0 then
        Ok (push_bit 7 (if prio_exclusive priority then 1 else 0)
            OR ucast (drop_bit 24 (prio_stream_dependency priority) AND 0x7F))
      else if i \<le> 3 then Ok (ucast (drop_bit (16 - 8 * (i - 1)) (prio_stream_dependency priority)))
      else if i = 4 then Ok (prio_weight priority)
      else Err InternalError)"

definition iterate_priority_payload ::
    "FrameEncoder \<Rightarrow> Priority \<Rightarrow> bytes \<Rightarrow> nat \<Rightarrow> nat \<Rightarrow> bytes \<times> (unit, FrameEncoderErr) rust_result" where
  "iterate_priority_payload e priority buf frame_header_size len =
     fill (\<lambda>buf_index. priority_byte priority (fe_encoded_bytes e - frame_header_size + buf_index)) 0 len buf"

definition encode_priority_payload :: "FrameEncoder \<Rightarrow> bytes \<Rightarrow> encoder_result" where
  "encode_priority_payload e buf =
     (case fe_current_frame e of
        None \<Rightarrow> (e, buf, Err NoCurrentFrame)
      | Some frame \<Rightarrow>
          (case frame_payload frame of
             Payload_Priority priority \<Rightarrow>
               if fe_encoded_bytes e < 9 \<or> fe_encoded_bytes e - 9 > 5 then (e, buf, Panic)
               else
                 (let remaining_payload_bytes = 5 - (fe_encoded_bytes e - 9);
                      bytes_to_write = min remaining_payload_bytes (length buf)
                  in case iterate_priority_payload e priority buf 9 bytes_to_write of
                       (buf, Ok _) \<Rightarrow>
                         (let e = e\<lparr>fe_encoded_bytes := fe_encoded_bytes e + bytes_to_write\<rparr>
                          in (if fe_encoded_bytes e = 9 + 5 then e\<lparr>fe_state := DataComplete\<rparr> else e, buf, Ok bytes_to_write))
                     | (buf, Err x) \<Rightarrow> (e, buf, Err x)
                     | (buf, Panic) \<Rightarrow> (e, buf, Panic))
           | _ \<Rightarrow> (e, buf, Err UnexpectedPayloadType)))"

section \<open>RST_STREAM\<close>

text \<open>
  The length and the stream are chosen by the place in the buffer; for a place before the sixth the
  subtraction wraps around and the shift is taken modulo the width of the word.
\<close>

definition rst_stream_byte :: "FrameEncoder \<Rightarrow> Frame \<Rightarrow> nat \<Rightarrow> (u8, FrameEncoderErr) rust_result" where
  "rst_stream_byte e frame buf_index =
     header_byte (\<lambda>_. length_byte 4 buf_index) (FrameType_code FrameType_RstStream) (FrameFlags_bits (frame_flags frame))
       (\<lambda>_. ucast (drop_bit (nat ((24 - 8 * (int buf_index - 5)) mod 32)) (frame_id frame)))
       (fe_encoded_bytes e + buf_index)"

definition encode_rst_stream_frame :: "FrameEncoder \<Rightarrow> bytes \<Rightarrow> encoder_result" where
  "encode_rst_stream_frame e buf =
     (case fe_current_frame e of
        None \<Rightarrow> (e, buf, Err NoCurrentFrame)
      | Some frame \<Rightarrow>
          if fe_encoded_bytes e \<ge> 9 then (e, buf, Ok 0)
          else
            (let bytes_to_write = min (9 - fe_encoded_bytes e) (length buf)
             in case fill (rst_stream_byte e frame) 0 bytes_to_write buf of
                  (buf, Ok _) \<Rightarrow>
                    (let e = e\<lparr>fe_encoded_bytes := fe_encoded_bytes e + bytes_to_write\<rparr>
                     in (if fe_encoded_bytes e = 9 then e\<lparr>fe_state := EncodingRstStreamPayload\<rparr> else e, buf, Ok bytes_to_write))
                | (buf, Err x) \<Rightarrow> (e, buf, Err x)
                | (buf, Panic) \<Rightarrow> (e, buf, Panic)))"

definition encode_rst_stream_payload :: "FrameEncoder \<Rightarrow> bytes \<Rightarrow> encoder_result" where
  "encode_rst_stream_payload e buf =
     (case fe_current_frame e of
        None \<Rightarrow> (e, buf, Err NoCurrentFrame)
      | Some frame \<Rightarrow>
          (case frame_payload frame of
             Payload_RstStream error_code \<Rightarrow>
               if fe_encoded_bytes e < 9 then (e, buf, Ok 0)
               else
                 (let payload_size = 4;
                      encoded_payload_bytes = fe_encoded_bytes e - 9
                  in if encoded_payload_bytes \<ge> payload_size then (e, buf, Ok 0)
                     else
                       let bytes_to_write = min (payload_size - encoded_payload_bytes) (length buf)
                       in case fill (\<lambda>buf_index. Ok (u32_byte error_code (encoded_payload_bytes + buf_index))) 0 bytes_to_write buf of
                            (buf, Ok _) \<Rightarrow>
                              (let e = e\<lparr>fe_encoded_bytes := fe_encoded_bytes e + bytes_to_write\<rparr>
                               in (if fe_encoded_bytes e = 9 + payload_size then e\<lparr>fe_state := DataComplete\<rparr> else e,
                                   buf, Ok bytes_to_write))
                          | (buf, Err x) \<Rightarrow> (e, buf, Err x)
                          | (buf, Panic) \<Rightarrow> (e, buf, Panic))
           | _ \<Rightarrow> (e, buf, Err UnexpectedPayloadType)))"

section \<open>PING\<close>

definition iterate_ping_header ::
    "FrameEncoder \<Rightarrow> Frame \<Rightarrow> bytes \<Rightarrow> nat \<Rightarrow> bytes \<times> (unit, FrameEncoderErr) rust_result" where
  "iterate_ping_header e frame buf len =
     fill_at (\<lambda>buf_index.
        let header_byte_index = fe_encoded_bytes e + buf_index
        in if header_byte_index \<le> 2 then Ok (buf_index, length_byte 8 buf_index)
           else if header_byte_index = 3 then Ok (3, FrameType_code FrameType_Ping)
           else if header_byte_index = 4 then Ok (4, FrameFlags_bits (frame_flags frame))
           else if header_byte_index \<le> 8 then Ok (buf_index, 0)
           else Err InternalError)
       0 len buf"

definition encode_ping_frame :: "FrameEncoder \<Rightarrow> bytes \<Rightarrow> encoder_result" where
  "encode_ping_frame e buf =
     (case fe_current_frame e of
        None \<Rightarrow> (e, buf, Err NoCurrentFrame)
      | Some frame \<Rightarrow>
          (case frame_payload frame of
             Payload_Ping _ \<Rightarrow>
               (let bytes_to_write = header_bytes_to_write e buf
                in case iterate_ping_header e frame buf bytes_to_write of
                     (buf, Ok _) \<Rightarrow>
                       (let e = e\<lparr>fe_encoded_bytes := fe_encoded_bytes e + bytes_to_write\<rparr>
                        in (if fe_encoded_bytes e = 9 then e\<lparr>fe_state := EncodingPingPayload\<rparr> else e, buf, Ok bytes_to_write))
                   | (buf, Err x) \<Rightarrow> (e, buf, Err x)
                   | (buf, Panic) \<Rightarrow> (e, buf, Panic))
           | _ \<Rightarrow> (e, buf, Err UnexpectedPayloadType)))"

definition encode_ping_payload :: "FrameEncoder \<Rightarrow> bytes \<Rightarrow> encoder_result" where
  "encode_ping_payload e buf =
     (case fe_current_frame e of
        None \<Rightarrow> (e, buf, Err NoCurrentFrame)
      | Some frame \<Rightarrow>
          (case frame_payload frame of
             Payload_Ping ping \<Rightarrow>
               (let payload_size = 8;
                    remaining_payload_bytes = payload_size - (fe_encoded_bytes e - 9);
                    bytes_to_write = min remaining_payload_bytes (length buf)
                in case fill (\<lambda>buf_index.
                          let payload_byte_index = fe_encoded_bytes e - 9 + buf_index
                          in if payload_byte_index < length ping then Ok (ping ! payload_byte_index) else Panic)
                        0 bytes_to_write buf of
                     (buf, Ok _) \<Rightarrow>
                       (let e = e\<lparr>fe_encoded_bytes := fe_encoded_bytes e + bytes_to_write\<rparr>
                        in (if fe_encoded_bytes e = 9 + 8 then e\<lparr>fe_state := DataComplete\<rparr> else e, buf, Ok bytes_to_write))
                   | (buf, Err x) \<Rightarrow> (e, buf, Err x)
                   | (buf, Panic) \<Rightarrow> (e, buf, Panic))
           | _ \<Rightarrow> (e, buf, Err UnexpectedPayloadType)))"

section \<open>The loop\<close>

definition encoder_at_rest :: "FrameEncoder \<Rightarrow> bool" where
  "encoder_at_rest e \<longleftrightarrow> fe_state e = Idle \<or> fe_state e = HeadersComplete \<or> fe_state e = DataComplete"

definition FrameEncoder_encode_step :: "FrameEncoder \<Rightarrow> bytes \<Rightarrow> encoder_result" where
  "FrameEncoder_encode_step e buf =
     (case fe_state e of
        Idle \<Rightarrow> (e, buf, Ok 0)
      | HeadersComplete \<Rightarrow> (e, buf, Ok 0)
      | DataComplete \<Rightarrow> (e, buf, Ok 0)
      | EncodingHeadersFrame \<Rightarrow> encode_headers_frame e buf
      | EncodingHeadersPayload \<Rightarrow> encode_headers_payload e buf
      | EncodingHeadersPadding \<Rightarrow> encode_padding e buf
      | EncodingContinuationFrames \<Rightarrow> encode_continuation_frames e buf
      | EncodingDataHeader \<Rightarrow> encode_data_header e buf
      | EncodingDataPayload \<Rightarrow> encode_data_payload e buf
      | EncodingDataPadding \<Rightarrow> encode_padding e buf
      | EncodingSettingsFrame \<Rightarrow> encode_settings_frame e buf
      | EncodingGoawayFrame \<Rightarrow> encode_goaway_frame e buf
      | EncodingWindowUpdateFrame \<Rightarrow> encode_window_update_frame e buf
      | EncodingSettingsPayload \<Rightarrow> encode_settings_payload e buf
      | EncodingGoawayPayload \<Rightarrow> encode_goaway_payload e buf
      | EncodingWindowUpdatePayload \<Rightarrow> encode_window_update_payload e buf
      | EncodingPriorityFrame \<Rightarrow> encode_priority_frame e buf
      | EncodingPriorityPayload \<Rightarrow> encode_priority_payload e buf
      | EncodingRstStreamFrame \<Rightarrow> encode_rst_stream_frame e buf
      | EncodingRstStreamPayload \<Rightarrow> encode_rst_stream_payload e buf
      | EncodingPingFrame \<Rightarrow> encode_ping_frame e buf
      | EncodingPingPayload \<Rightarrow> encode_ping_payload e buf)"

text \<open>
  The loop ends: a turn that writes nothing and is not the last moves on to a later part of the frame.
  \<open>state_rank\<close> orders the parts; the header of a further DATA frame comes after a payload.
\<close>

definition state_rank :: "FrameEncoder \<Rightarrow> nat" where
  "state_rank e =
     (case fe_state e of
        Idle \<Rightarrow> 0
      | HeadersComplete \<Rightarrow> 0
      | DataComplete \<Rightarrow> 0
      | EncodingHeadersFrame \<Rightarrow> 5
      | EncodingHeadersPayload \<Rightarrow> 4
      | EncodingContinuationFrames \<Rightarrow> 3
      | EncodingDataHeader \<Rightarrow> if fe_encoded_bytes e = 9 then 3 else 1
      | EncodingDataPayload \<Rightarrow> if fe_encoded_bytes e = 9 then 4 else 2
      | EncodingSettingsFrame \<Rightarrow> 2
      | EncodingGoawayFrame \<Rightarrow> 2
      | EncodingWindowUpdateFrame \<Rightarrow> 2
      | EncodingPriorityFrame \<Rightarrow> 2
      | EncodingRstStreamFrame \<Rightarrow> 2
      | EncodingPingFrame \<Rightarrow> 2
      | _ \<Rightarrow> 1)"

lemma fill_length [simp]: "length (fst (fill f i len buf)) = length buf"
  by (induction f i len buf rule: fill.induct) (auto split: rust_result.split prod.split)

lemma fill_at_length [simp]: "length (fst (fill_at f i len buf)) = length buf"
  by (induction f i len buf rule: fill_at.induct) (auto split: rust_result.split)

lemma fill_lengthD: "fill f i len buf = (buf', r) \<Longrightarrow> length buf' = length buf"
  by (metis fill_length fst_conv)

lemma fill_at_lengthD: "fill_at f i len buf = (buf', r) \<Longrightarrow> length buf' = length buf"
  by (metis fill_at_length fst_conv)

lemma payload_written_buffer:
  assumes "payload_written k (write_payload e buf n) = (e', buf', r)"
  shows "length buf' = length buf" "r = Ok m \<Longrightarrow> k \<le> m \<and> m \<le> k + length buf"
proof -
  obtain e1 b1 r1 where w: "write_payload e buf n = (e1, b1, r1)" by (metis prod_cases3)
  then have "length b1 = length buf" "\<And>j. r1 = Ok j \<Longrightarrow> j \<le> length buf"
    by (auto simp: write_payload_def Let_def split: if_splits)
  with assms w show "length buf' = length buf" "r = Ok m \<Longrightarrow> k \<le> m \<and> m \<le> k + length buf"
    by (auto simp: payload_written_def split: rust_result.splits prod.splits)
qed

lemma payload_written_rank:
  assumes "payload_written k (write_payload e buf n) = (e', buf', Ok m)"
  shows "fe_state e' \<in> {EncodingHeadersPayload, HeadersComplete, EncodingContinuationFrames}"
  using assms
  by (auto simp: payload_written_def headers_header_status_def read_rest_payload_def Let_def
      split: rust_result.splits prod.splits if_splits)

lemmas headers_steps = encode_headers_frame_def encode_headers_payload_def encode_continuation_frames_def
  iterate_headers_header_def

lemmas other_steps = encode_data_header_def iterate_data_header_def encode_data_payload_def encode_padding_def
  encode_goaway_frame_def iterate_goaway_header_def encode_goaway_payload_def iterate_goaway_payload_def
  encode_window_update_frame_def iterate_window_update_header_def encode_window_update_payload_def
  encode_settings_frame_def iterate_settings_header_def encode_settings_payload_def iterate_settings_payload_def
  encode_priority_frame_def iterate_priority_header_def encode_priority_payload_def iterate_priority_payload_def
  encode_rst_stream_frame_def encode_rst_stream_payload_def
  encode_ping_frame_def iterate_ping_header_def encode_ping_payload_def

lemma headers_steps_length:
  "encode_headers_frame e buf = (e', buf', r) \<Longrightarrow> length buf' = length buf"
  "encode_headers_payload e buf = (e', buf', r) \<Longrightarrow> length buf' = length buf"
  "encode_continuation_frames e buf = (e', buf', r) \<Longrightarrow> length buf' = length buf"
  by (auto simp: headers_steps header_bytes_to_write_def continuation_header_def Let_def
      dest!: fill_lengthD payload_written_buffer(1)
      split: option.splits Payload.splits prod.splits rust_result.splits if_splits)

lemma other_steps_length:
  "encode_data_header e buf = (e', buf', r) \<Longrightarrow> length buf' = length buf"
  "encode_data_payload e buf = (e', buf', r) \<Longrightarrow> length buf' = length buf"
  "encode_padding e buf = (e', buf', r) \<Longrightarrow> length buf' = length buf"
  "encode_goaway_frame e buf = (e', buf', r) \<Longrightarrow> length buf' = length buf"
  "encode_goaway_payload e buf = (e', buf', r) \<Longrightarrow> length buf' = length buf"
  "encode_window_update_frame e buf = (e', buf', r) \<Longrightarrow> length buf' = length buf"
  "encode_window_update_payload e buf = (e', buf', r) \<Longrightarrow> length buf' = length buf"
  "encode_settings_frame e buf = (e', buf', r) \<Longrightarrow> length buf' = length buf"
  "encode_settings_payload e buf = (e', buf', r) \<Longrightarrow> length buf' = length buf"
  "encode_priority_frame e buf = (e', buf', r) \<Longrightarrow> length buf' = length buf"
  "encode_priority_payload e buf = (e', buf', r) \<Longrightarrow> length buf' = length buf"
  "encode_rst_stream_frame e buf = (e', buf', r) \<Longrightarrow> length buf' = length buf"
  "encode_rst_stream_payload e buf = (e', buf', r) \<Longrightarrow> length buf' = length buf"
  "encode_ping_frame e buf = (e', buf', r) \<Longrightarrow> length buf' = length buf"
  "encode_ping_payload e buf = (e', buf', r) \<Longrightarrow> length buf' = length buf"
  by (auto simp: other_steps encode_slice_def Let_def dest!: fill_lengthD fill_at_lengthD
      split: option.splits Payload.splits prod.splits rust_result.splits if_splits)

lemma encode_step_length: "FrameEncoder_encode_step e buf = (e', buf', r) \<Longrightarrow> length buf' = length buf"
  by (cases "fe_state e") (auto simp: FrameEncoder_encode_step_def dest: headers_steps_length other_steps_length)

lemma headers_steps_rank:
  assumes "fe_state e' \<noteq> fe_state e"
  shows "encode_headers_frame e buf = (e', buf', Ok n) \<Longrightarrow> fe_state e = EncodingHeadersFrame \<Longrightarrow> state_rank e' < state_rank e"
    "encode_headers_payload e buf = (e', buf', Ok n) \<Longrightarrow> fe_state e = EncodingHeadersPayload \<Longrightarrow> state_rank e' < state_rank e"
    "encode_continuation_frames e buf = (e', buf', Ok n) \<Longrightarrow> fe_state e = EncodingContinuationFrames \<Longrightarrow> 0 < n"
proof -
  show "encode_headers_frame e buf = (e', buf', Ok n) \<Longrightarrow> fe_state e = EncodingHeadersFrame \<Longrightarrow> state_rank e' < state_rank e"
    "encode_headers_payload e buf = (e', buf', Ok n) \<Longrightarrow> fe_state e = EncodingHeadersPayload \<Longrightarrow> state_rank e' < state_rank e"
    using assms by (auto simp: headers_steps state_rank_def Let_def dest!: payload_written_rank
        split: option.splits Payload.splits prod.splits rust_result.splits if_splits)
  show "encode_continuation_frames e buf = (e', buf', Ok n) \<Longrightarrow> fe_state e = EncodingContinuationFrames \<Longrightarrow> 0 < n"
    using assms by (auto simp: encode_continuation_frames_def Let_def dest!: payload_written_buffer(2) [OF _ refl]
        split: option.splits Payload.splits prod.splits if_splits)
qed

lemma data_steps_rank:
  assumes "fe_state e' \<noteq> fe_state e"
  shows "encode_data_header e buf = (e', buf', Ok n) \<Longrightarrow> fe_state e = EncodingDataHeader \<Longrightarrow> 0 < n \<or> state_rank e' < state_rank e"
    "encode_data_payload e buf = (e', buf', Ok n) \<Longrightarrow> fe_state e = EncodingDataPayload \<Longrightarrow> state_rank e' < state_rank e"
  using assms by (auto simp: encode_data_header_def encode_data_payload_def state_rank_def Let_def
      split: option.splits Payload.splits prod.splits rust_result.splits if_splits)

lemma other_steps_rank:
  assumes "fe_state e' \<noteq> fe_state e"
  shows "encode_padding e buf = (e', buf', Ok n) \<Longrightarrow> fe_state e = EncodingHeadersPadding \<Longrightarrow> state_rank e' < state_rank e"
    "encode_padding e buf = (e', buf', Ok n) \<Longrightarrow> fe_state e = EncodingDataPadding \<Longrightarrow> state_rank e' < state_rank e"
    "encode_goaway_frame e buf = (e', buf', Ok n) \<Longrightarrow> fe_state e = EncodingGoawayFrame \<Longrightarrow> state_rank e' < state_rank e"
    "encode_goaway_payload e buf = (e', buf', Ok n) \<Longrightarrow> fe_state e = EncodingGoawayPayload \<Longrightarrow> state_rank e' < state_rank e"
    "encode_window_update_frame e buf = (e', buf', Ok n) \<Longrightarrow> fe_state e = EncodingWindowUpdateFrame \<Longrightarrow> state_rank e' < state_rank e"
    "encode_window_update_payload e buf = (e', buf', Ok n) \<Longrightarrow> fe_state e = EncodingWindowUpdatePayload \<Longrightarrow> state_rank e' < state_rank e"
    "encode_settings_frame e buf = (e', buf', Ok n) \<Longrightarrow> fe_state e = EncodingSettingsFrame \<Longrightarrow> state_rank e' < state_rank e"
    "encode_settings_payload e buf = (e', buf', Ok n) \<Longrightarrow> fe_state e = EncodingSettingsPayload \<Longrightarrow> state_rank e' < state_rank e"
    "encode_priority_frame e buf = (e', buf', Ok n) \<Longrightarrow> fe_state e = EncodingPriorityFrame \<Longrightarrow> state_rank e' < state_rank e"
    "encode_priority_payload e buf = (e', buf', Ok n) \<Longrightarrow> fe_state e = EncodingPriorityPayload \<Longrightarrow> state_rank e' < state_rank e"
    "encode_rst_stream_frame e buf = (e', buf', Ok n) \<Longrightarrow> fe_state e = EncodingRstStreamFrame \<Longrightarrow> state_rank e' < state_rank e"
    "encode_rst_stream_payload e buf = (e', buf', Ok n) \<Longrightarrow> fe_state e = EncodingRstStreamPayload \<Longrightarrow> state_rank e' < state_rank e"
    "encode_ping_frame e buf = (e', buf', Ok n) \<Longrightarrow> fe_state e = EncodingPingFrame \<Longrightarrow> state_rank e' < state_rank e"
    "encode_ping_payload e buf = (e', buf', Ok n) \<Longrightarrow> fe_state e = EncodingPingPayload \<Longrightarrow> state_rank e' < state_rank e"
  using assms by (auto simp: other_steps state_rank_def Let_def
      split: option.splits Payload.splits prod.splits rust_result.splits if_splits)

lemma frame_step_rank:
  assumes "FrameEncoder_encode_step e buf = (e', buf', Ok n)" "fe_state e' \<noteq> fe_state e"
  shows "0 < n \<or> state_rank e' < state_rank e"
  using assms headers_steps_rank [OF assms(2), of buf buf' n] data_steps_rank [OF assms(2), of buf buf' n]
    other_steps_rank [OF assms(2), of buf buf' n]
  by (cases "fe_state e") (simp_all add: FrameEncoder_encode_step_def)

function FrameEncoder_encode_loop :: "FrameEncoder \<Rightarrow> bytes \<Rightarrow> bytes \<Rightarrow> encoder_result" where
  "FrameEncoder_encode_loop e done1 buf =
     (if buf = [] then (e, done1, Ok (length done1))
      else if encoder_at_rest e then (e, done1 @ buf, Ok (length done1))
      else
        (case FrameEncoder_encode_step e buf of
           (e', buf, Ok n) \<Rightarrow>
             if fe_state e' = fe_state e then (e', done1 @ buf, Ok (length done1 + n))
             else FrameEncoder_encode_loop e' (done1 @ take n buf) (drop n buf)
         | (e', buf, Err x) \<Rightarrow> (e', done1 @ buf, Err x)
         | (e', buf, Panic) \<Rightarrow> (e', done1 @ buf, Panic)))"
  by pat_completeness auto

termination
proof (relation "inv_image (less_than <*lex*> less_than) (\<lambda>(e, done1, buf). (length buf, state_rank e))", goal_cases)
  case (2 e done1 buf e' p b r n)
  then have step: "FrameEncoder_encode_step e buf = (e', b, Ok n)" by simp
  from encode_step_length [OF step] frame_step_rank [OF step] 2 show ?case by auto
qed (simp add: wf_lex_prod)

declare FrameEncoder_encode_loop.simps [simp del]

definition FrameEncoder_encode :: "FrameEncoder \<Rightarrow> bytes \<Rightarrow> encoder_result" where
  "FrameEncoder_encode e buf = FrameEncoder_encode_loop e [] buf"

end
