(* ===== verification/H2_Window.thy ===== *)
theory H2_Window
  imports H2_Frame
begin

text \<open>
  HTTP/2 flow control (\<open>ylong_http_client/src/util/h2/buffer/window.rs\<close> and
  \<open>buffer/settings.rs\<close>): the send window of a stream and of the connection, and the receive
  window with what the peer may still send (\<open>notification\<close>) and what the client offers
  (\<open>actual\<close>). An \<open>i32\<close> is a 32-bit word read with a sign; its arithmetic wraps.
\<close>

section \<open>The windows\<close>

definition MAX_FLOW_CONTROL_WINDOW :: u32 where
  "MAX_FLOW_CONTROL_WINDOW = 2147483647"

record SendWindow =
  sw_size :: i32

definition SendWindow_new :: "i32 \<Rightarrow> SendWindow" where
  "SendWindow_new n = \<lparr>sw_size = n\<rparr>"

definition SendWindow_size_available :: "SendWindow \<Rightarrow> u32" where
  "SendWindow_size_available w = (if sw_size w <s 0 then 0 else sw_size w)"

definition SendWindow_reduce_size :: "SendWindow \<Rightarrow> u32 \<Rightarrow> SendWindow" where
  "SendWindow_reduce_size w n = w\<lparr>sw_size := sw_size w - n\<rparr>"

text \<open>\<open>overflowing_add\<close>: the wrapped sum, and whether the sum of the signed values left the range.\<close>

definition i32_overflowing_add :: "i32 \<Rightarrow> i32 \<Rightarrow> i32 \<times> bool" where
  "i32_overflowing_add a b = (a + b, sint (a + b) \<noteq> sint a + sint b)"

definition SendWindow_increase_size :: "SendWindow \<Rightarrow> u32 \<Rightarrow> SendWindow \<times> (unit, H2Error) rust_result" where
  "SendWindow_increase_size w n =
     (case i32_overflowing_add (sw_size w) n of (current, overflow) \<Rightarrow>
        if overflow then (w, Err (ConnectionError FlowControlError))
        else if MAX_FLOW_CONTROL_WINDOW <s current then (w, Err (ConnectionError FlowControlError))
        else (w\<lparr>sw_size := current\<rparr>, Ok ()))"

definition SendWindow_send_data :: "SendWindow \<Rightarrow> u32 \<Rightarrow> SendWindow" where
  "SendWindow_send_data w n = w\<lparr>sw_size := sw_size w - n\<rparr>"

record RecvWindow =
  rw_notification :: i32
  rw_actual :: i32

definition RecvWindow_new :: "i32 \<Rightarrow> RecvWindow" where
  "RecvWindow_new n = \<lparr>rw_notification = n, rw_actual = n\<rparr>"

definition RecvWindow_unreleased_size :: "RecvWindow \<Rightarrow> u32 option" where
  "RecvWindow_unreleased_size w =
     (let unreleased = rw_actual w - rw_notification w in
      if unreleased \<le>s 0 then None
      else if rw_notification w <s unreleased * 2 then Some unreleased else None)"

definition RecvWindow_actual_size :: "RecvWindow \<Rightarrow> i32" where
  "RecvWindow_actual_size w = rw_actual w"

definition RecvWindow_notification_available :: "RecvWindow \<Rightarrow> u32" where
  "RecvWindow_notification_available w = (if rw_notification w <s 0 then 0 else rw_notification w)"

definition RecvWindow_reduce_actual :: "RecvWindow \<Rightarrow> u32 \<Rightarrow> RecvWindow" where
  "RecvWindow_reduce_actual w n = w\<lparr>rw_actual := rw_actual w - n\<rparr>"

definition RecvWindow_increase_actual :: "RecvWindow \<Rightarrow> u32 \<Rightarrow> RecvWindow" where
  "RecvWindow_increase_actual w n = w\<lparr>rw_actual := rw_actual w + n\<rparr>"

definition RecvWindow_reduce_notification :: "RecvWindow \<Rightarrow> u32 \<Rightarrow> RecvWindow" where
  "RecvWindow_reduce_notification w n = w\<lparr>rw_notification := rw_notification w - n\<rparr>"

definition RecvWindow_increase_notification :: "RecvWindow \<Rightarrow> u32 \<Rightarrow> RecvWindow" where
  "RecvWindow_increase_notification w n = w\<lparr>rw_notification := rw_notification w + n\<rparr>"

definition RecvWindow_check_window_update :: "RecvWindow \<Rightarrow> StreamId \<Rightarrow> RecvWindow \<times> Frame option" where
  "RecvWindow_check_window_update w sid =
     (case RecvWindow_unreleased_size w of
        Some n \<Rightarrow> (RecvWindow_increase_notification w n,
                   Some (Frame_new sid (FrameFlags 0) (Payload_WindowUpdate n)))
      | None \<Rightarrow> (w, None))"

definition RecvWindow_recv_data :: "RecvWindow \<Rightarrow> u32 \<Rightarrow> RecvWindow" where
  "RecvWindow_recv_data w n = w\<lparr>rw_notification := rw_notification w - n\<rparr>"

record FlowControl =
  fc_recv_window :: RecvWindow
  fc_send_window :: SendWindow

definition FlowControl_new :: "u32 \<Rightarrow> u32 \<Rightarrow> FlowControl" where
  "FlowControl_new conn_recv_window conn_send_window =
     \<lparr>fc_recv_window = RecvWindow_new conn_recv_window,
      fc_send_window = SendWindow_new conn_send_window\<rparr>"

definition FlowControl_check_conn_recv_window_update :: "FlowControl \<Rightarrow> FlowControl \<times> Frame option" where
  "FlowControl_check_conn_recv_window_update fc =
     (case RecvWindow_check_window_update (fc_recv_window fc) 0 of
        (w, frame) \<Rightarrow> (fc\<lparr>fc_recv_window := w\<rparr>, frame))"

definition FlowControl_setup_recv_window :: "FlowControl \<Rightarrow> u32 \<Rightarrow> FlowControl" where
  "FlowControl_setup_recv_window fc setup =
     (let actual = RecvWindow_actual_size (fc_recv_window fc) in
      if setup > actual
      then fc\<lparr>fc_recv_window := RecvWindow_increase_actual (fc_recv_window fc) (setup - actual)\<rparr>
      else fc\<lparr>fc_recv_window := RecvWindow_reduce_actual (fc_recv_window fc) (actual - setup)\<rparr>)"

definition FlowControl_increase_send_size :: "FlowControl \<Rightarrow> u32 \<Rightarrow> FlowControl \<times> (unit, H2Error) rust_result" where
  "FlowControl_increase_send_size fc n =
     (case SendWindow_increase_size (fc_send_window fc) n of
        (w, r) \<Rightarrow> (fc\<lparr>fc_send_window := w\<rparr>, r))"

definition FlowControl_send_size_available :: "FlowControl \<Rightarrow> nat" where
  "FlowControl_send_size_available fc = unat (SendWindow_size_available (fc_send_window fc))"

definition FlowControl_recv_notification_size_available :: "FlowControl \<Rightarrow> u32" where
  "FlowControl_recv_notification_size_available fc =
     RecvWindow_notification_available (fc_recv_window fc)"

definition FlowControl_send_data :: "FlowControl \<Rightarrow> u32 \<Rightarrow> FlowControl" where
  "FlowControl_send_data fc n = fc\<lparr>fc_send_window := SendWindow_send_data (fc_send_window fc) n\<rparr>"

definition FlowControl_recv_data :: "FlowControl \<Rightarrow> u32 \<Rightarrow> FlowControl" where
  "FlowControl_recv_data fc n = fc\<lparr>fc_recv_window := RecvWindow_recv_data (fc_recv_window fc) n\<rparr>"

section \<open>Signed words\<close>

lemma sint_i32_range: "- 2147483648 \<le> sint (x :: i32)" "sint x < 2147483648"
  using sint_greater_eq [of x] sint_less [of x] by simp_all

lemma sint_add_i32:
  "- (2 ^ 31) \<le> sint a + sint b \<Longrightarrow> sint a + sint b < 2 ^ 31 \<Longrightarrow> sint ((a :: i32) + b) = sint a + sint b"
  by (simp add: sint_word_ariths signed_take_bit_int_eq_self)

lemma sint_diff_i32:
  "- (2 ^ 31) \<le> sint a - sint b \<Longrightarrow> sint a - sint b < 2 ^ 31 \<Longrightarrow> sint ((a :: i32) - b) = sint a - sint b"
  by (simp add: sint_word_ariths signed_take_bit_int_eq_self)

lemma sint_small:
  assumes "unat (x :: u32) < 2147483648"
  shows "sint x = uint x"
proof -
  from assms have "int (unat x) < 2147483648" by linarith
  then have "uint x < 2147483648" by simp
  moreover have "- (2 ^ 31) \<le> uint x" by (rule order.trans [OF _ uint_ge_0]) simp
  ultimately have "signed_take_bit 31 (uint x) = uint x"
    by (intro signed_take_bit_int_eq_self) simp_all
  then show ?thesis by (simp add: sint_uint)
qed

lemma uint_sint:
  assumes "0 \<le> sint (x :: i32)"
  shows "uint x = sint x"
proof -
  have "sint x = signed_take_bit 31 (uint x)" by (simp add: sint_uint)
  moreover have "take_bit 32 (signed_take_bit 31 (uint x)) = take_bit 32 (uint x)"
    by (simp add: take_bit_signed_take_bit)
  moreover have "take_bit 32 (sint x) = sint x"
    using assms sint_i32_range(2) [of x] by (intro take_bit_int_eq_self) simp_all
  moreover have "take_bit 32 (uint x) = uint x"
    using uint_lt2p [of x] by (intro take_bit_int_eq_self) simp_all
  ultimately show ?thesis by simp
qed

lemma sless_sint: "(x :: i32) <s y \<longleftrightarrow> sint x < sint y" "x \<le>s y \<longleftrightarrow> sint x \<le> sint y"
  by (simp_all add: word_sless_alt word_sle_eq)

section \<open>The contract of a send window\<close>

text \<open>
  What a sender relies on: a window has an integer value, offers it when it is positive, grows by a
  credit unless the value would pass the limit of the protocol, and shrinks by what is sent.
\<close>

datatype window_event = Credit u32 | Sent u32

fun window_run :: "('w \<Rightarrow> u32 \<Rightarrow> 'w \<times> (unit, H2Error) rust_result) \<Rightarrow> ('w \<Rightarrow> u32 \<Rightarrow> 'w) \<Rightarrow>
    ('w \<Rightarrow> nat) \<Rightarrow> 'w \<Rightarrow> window_event list \<Rightarrow> 'w option" where
  "window_run credit consume available w [] = Some w"
| "window_run credit consume available w (Credit n # es) =
     (case credit w n of
        (w', Ok _) \<Rightarrow> window_run credit consume available w' es
      | _ \<Rightarrow> None)"
| "window_run credit consume available w (Sent n # es) =
     (if unat n \<le> available w then window_run credit consume available (consume w n) es else None)"

fun credited :: "window_event list \<Rightarrow> int" where
  "credited [] = 0"
| "credited (Credit n # es) = int (unat n) + credited es"
| "credited (Sent n # es) = credited es"

fun sent :: "window_event list \<Rightarrow> int" where
  "sent [] = 0"
| "sent (Credit n # es) = sent es"
| "sent (Sent n # es) = int (unat n) + sent es"

text \<open>Credits as a decoded WINDOW_UPDATE frame carries them.\<close>

definition credits_ok :: "window_event list \<Rightarrow> bool" where
  "credits_ok es \<longleftrightarrow> list_all (\<lambda>e. case e of Credit n \<Rightarrow> unat n < 2147483648 | Sent _ \<Rightarrow> True) es"

locale credit_window =
  fixes size_of :: "'w \<Rightarrow> int"
    and available :: "'w \<Rightarrow> nat"
    and credit :: "'w \<Rightarrow> u32 \<Rightarrow> 'w \<times> (unit, H2Error) rust_result"
    and consume :: "'w \<Rightarrow> u32 \<Rightarrow> 'w"
  assumes available: "int (available w) = max 0 (size_of w)"
    and credit_Ok: "unat n < 2147483648 \<Longrightarrow> size_of w + int (unat n) \<le> 2147483647 \<Longrightarrow>
        \<exists>w'. credit w n = (w', Ok ()) \<and> size_of w' = size_of w + int (unat n)"
    and credit_Err: "unat n < 2147483648 \<Longrightarrow> size_of w + int (unat n) > 2147483647 \<Longrightarrow>
        credit w n = (w, Err (ConnectionError FlowControlError))"
    and consume: "unat n \<le> available w \<Longrightarrow> size_of (consume w n) = size_of w - int (unat n)"
begin

lemma credit_cases:
  assumes "unat n < 2147483648" "credit w n = (w', r)"
  shows "r = Ok () \<and> size_of w' = size_of w + int (unat n)
    \<or> w' = w \<and> r = Err (ConnectionError FlowControlError)"
  using credit_Ok [OF assms(1), of w] credit_Err [OF assms(1), of w] assms(2)
  by (cases "size_of w + int (unat n) \<le> 2147483647") auto

lemma run_exact:
  assumes "credits_ok es" "window_run credit consume available w es = Some w'"
  shows "size_of w' = size_of w + credited es - sent es"
  using assms
proof (induction es arbitrary: w)
  case (Cons e es)
  show ?case
  proof (cases e)
    case (Credit n)
    obtain w1 r where w1: "credit w n = (w1, r)" by fastforce
    with credit_cases [OF _ w1] Cons Credit show ?thesis
      by (auto simp: credits_ok_def)
  next
    case (Sent n)
    with Cons consume [of n w] show ?thesis
      by (auto simp: credits_ok_def split: if_splits)
  qed
qed simp

text \<open>Nothing is sent that was not granted: the window, once not negative, stays so.\<close>

lemma run_nonneg:
  assumes "credits_ok es" "window_run credit consume available w es = Some w'" "0 \<le> size_of w"
  shows "0 \<le> size_of w'"
  using assms
proof (induction es arbitrary: w)
  case (Cons e es)
  show ?case
  proof (cases e)
    case (Credit n)
    obtain w1 r where w1: "credit w n = (w1, r)" by fastforce
    with credit_cases [OF _ w1] Cons Credit show ?thesis
      by (auto simp: credits_ok_def)
  next
    case (Sent n)
    with Cons.prems have n: "unat n \<le> available w" by (simp split: if_splits)
    then have "int (unat n) \<le> int (available w)" by linarith
    with consume [OF n] available [of w] Cons.prems(3) have "0 \<le> size_of (consume w n)" by simp
    with Cons Sent n show ?thesis by (simp add: credits_ok_def)
  qed
qed simp

lemma run_bounded:
  assumes "credits_ok es" "window_run credit consume available w es = Some w'" "0 \<le> size_of w"
  shows "sent es \<le> size_of w + credited es"
  using run_exact [OF assms(1,2)] run_nonneg [OF assms] by linarith

end

lemma increase_exact:
  assumes "unat n < 2147483648"
  shows "SendWindow_increase_size w n =
    (if sint (sw_size w) + int (unat n) \<le> 2147483647
     then (w\<lparr>sw_size := sw_size w + n\<rparr>, Ok ()) else (w, Err (ConnectionError FlowControlError)))"
    "sint (sw_size w) + int (unat n) \<le> 2147483647 \<Longrightarrow>
      sint (sw_size w + n) = sint (sw_size w) + int (unat n)"
proof -
  have n: "sint n = int (unat n)" using sint_small [OF assms] by simp
  have "sint MAX_FLOW_CONTROL_WINDOW = 2147483647"
    by (simp add: MAX_FLOW_CONTROL_WINDOW_def sint_small)
  then have max: "\<not> MAX_FLOW_CONTROL_WINDOW <s x" for x
    using sint_i32_range(2) [of x] by (simp add: sless_sint)
  show fits: "sint (sw_size w + n) = sint (sw_size w) + int (unat n)"
    if "sint (sw_size w) + int (unat n) \<le> 2147483647"
    using that sint_i32_range(1) [of "sw_size w"] n
    by (subst sint_add_i32) (simp_all add: add_increasing2)
  have "sint (sw_size w + n) \<noteq> sint (sw_size w) + int (unat n)"
    if "\<not> sint (sw_size w) + int (unat n) \<le> 2147483647"
    using that sint_i32_range(2) [of "sw_size w + n"] by linarith
  with fits n max show "SendWindow_increase_size w n =
    (if sint (sw_size w) + int (unat n) \<le> 2147483647
     then (w\<lparr>sw_size := sw_size w + n\<rparr>, Ok ()) else (w, Err (ConnectionError FlowControlError)))"
    by (simp add: SendWindow_increase_size_def i32_overflowing_add_def)
qed

lemma available_exact: "uint (SendWindow_size_available w) = max 0 (sint (sw_size w))"
  by (simp add: SendWindow_size_available_def sless_sint uint_sint max_def)

lemma send_data_exact:
  assumes "unat n \<le> unat (SendWindow_size_available w)"
  shows "sint (sw_size (SendWindow_send_data w n)) = sint (sw_size w) - uint n"
proof -
  have "int (unat n) \<le> int (unat (SendWindow_size_available w))" using assms by linarith
  then have le: "uint n \<le> max 0 (sint (sw_size w))" by (simp add: available_exact)
  with sint_i32_range(2) [of "sw_size w"] have "uint n < 2147483648" by linarith
  then have "int (unat n) < 2147483648" by simp
  then have "unat n < 2147483648" by linarith
  from sint_small [OF this] have n: "sint n = uint n" .
  have "sint (sw_size w) - uint n < 2147483648" "- 2147483648 \<le> sint (sw_size w) - uint n"
    using sint_i32_range [of "sw_size w"] le uint_ge_0 [of n] by linarith+
  then show ?thesis by (simp add: SendWindow_send_data_def sint_diff_i32 n)
qed

interpretation stream_send: credit_window "\<lambda>w. sint (sw_size w)"
  "\<lambda>w. unat (SendWindow_size_available w)" SendWindow_increase_size SendWindow_send_data
  by unfold_locales (simp_all add: increase_exact available_exact send_data_exact)

interpretation conn_send: credit_window "\<lambda>fc. sint (sw_size (fc_send_window fc))"
  FlowControl_send_size_available FlowControl_increase_send_size FlowControl_send_data
  by unfold_locales
    (simp_all add: FlowControl_increase_send_size_def FlowControl_send_size_available_def
      FlowControl_send_data_def increase_exact available_exact send_data_exact)

text \<open>
  A send window is exact and never overrun. Starting from \<open>n\<close> bytes, after any sequence of
  WINDOW_UPDATE credits and sends that each take at most the available size, the window of a
  stream and that of the connection hold \<open>n\<close> plus the credits minus what was sent, without
  wrap-around, and no more was sent than granted.
\<close>

theorem send_window_exact:
  assumes "credits_ok es" "unat n < 2147483648"
    and "window_run SendWindow_increase_size SendWindow_send_data
           (\<lambda>w. unat (SendWindow_size_available w)) (SendWindow_new n) es = Some w"
    and "window_run FlowControl_increase_send_size FlowControl_send_data
           FlowControl_send_size_available (FlowControl_new k n) es = Some fc"
  shows "sint (sw_size w) = int (unat n) + credited es - sent es
    \<and> sint (sw_size (fc_send_window fc)) = int (unat n) + credited es - sent es
    \<and> sent es \<le> int (unat n) + credited es"
proof -
  have n: "sint n = int (unat n)" using sint_small [OF assms(2)] by simp
  show ?thesis
    using stream_send.run_exact [OF assms(1,3)] conn_send.run_exact [OF assms(1,4)]
      stream_send.run_bounded [OF assms(1,3)] n
    by (simp add: SendWindow_new_def FlowControl_new_def)
qed

theorem send_window_exact_witness:
  "window_run SendWindow_increase_size SendWindow_send_data
     (\<lambda>w. unat (SendWindow_size_available w)) (SendWindow_new 3) [Sent 3, Credit 4, Sent 2] =
     Some (SendWindow_new 2)
   \<and> sint (sw_size (SendWindow_new 2)) = 3 + credited [Sent 3, Credit 4, Sent 2] - sent [Sent 3, Credit 4, Sent 2]"
proof -
  let ?es = "[Sent 3, Credit 4, Sent 2]"
  have w: "window_run SendWindow_increase_size SendWindow_send_data
     (\<lambda>w. unat (SendWindow_size_available w)) (SendWindow_new 3) ?es = Some (SendWindow_new 2)"
    by code_simp
  have fc: "window_run FlowControl_increase_send_size FlowControl_send_data
     FlowControl_send_size_available (FlowControl_new 0 3) ?es =
     Some ((FlowControl_new 0 3)\<lparr>fc_send_window := SendWindow_new 2\<rparr>)"
    by code_simp
  have "credits_ok ?es" by (simp add: credits_ok_def)
  from send_window_exact [OF this _ w fc] w show ?thesis by simp
qed

section \<open>The receive window\<close>

lemma unreleased_exact:
  assumes "0 \<le> sint (rw_notification w)" "0 \<le> sint (rw_actual w)" "sint (rw_actual w) < 2 ^ 30"
  shows "RecvWindow_unreleased_size w =
    (if sint (rw_notification w) < 2 * (sint (rw_actual w) - sint (rw_notification w))
     then Some (rw_actual w - rw_notification w) else None)"
proof -
  let ?n = "rw_notification w" and ?a = "rw_actual w"
  have b: "0 \<le> sint ?n" "sint ?n < 2147483648" "0 \<le> sint ?a" "sint ?a < 1073741824"
    using assms sint_lt [of ?n] by simp_all
  have diff: "sint (?a - ?n) = sint ?a - sint ?n" using b by (subst sint_diff_i32) simp_all
  have two: "sint ((?a - ?n) * 2) = 2 * (sint ?a - sint ?n)" if "sint ?n < sint ?a"
  proof -
    have "(?a - ?n) * 2 = (?a - ?n) + (?a - ?n)" by (rule mult_2_right)
    also have "sint \<dots> = sint (?a - ?n) + sint (?a - ?n)"
      using b diff that by (intro sint_add_i32) simp_all
    finally show ?thesis by (simp only: diff mult_2)
  qed
  show ?thesis
  proof (cases "sint ?n < sint ?a")
    case True
    then show ?thesis using b two unfolding RecvWindow_unreleased_size_def Let_def word_sless_alt word_sle_eq diff by simp
  next
    case False
    then show ?thesis using b unfolding RecvWindow_unreleased_size_def Let_def word_sless_alt word_sle_eq diff by simp
  qed
qed

text \<open>
  A receive window of \<open>a\<close> bytes, less than \<open>2^30\<close>, of which the peer may still use at least two
  thirds.
\<close>

definition window_live :: "int \<Rightarrow> RecvWindow \<Rightarrow> bool" where
  "window_live a w \<longleftrightarrow> sint (rw_actual w) = a \<and> 0 \<le> a \<and> a < 2 ^ 30
     \<and> 0 \<le> sint (rw_notification w) \<and> 2 * a \<le> 3 * sint (rw_notification w)"

lemma check_live:
  assumes "0 \<le> sint (rw_notification w)" "0 \<le> sint (rw_actual w)" "sint (rw_actual w) < 2 ^ 30"
    and "RecvWindow_check_window_update w sid = (w', frame)"
  shows "window_live (sint (rw_actual w)) w'"
    "frame = None \<and> w' = w
     \<or> frame = Some (Frame_new sid (FrameFlags 0) (Payload_WindowUpdate (rw_actual w - rw_notification w)))
       \<and> w' = w\<lparr>rw_notification := rw_actual w\<rparr>"
  using assms
  by (auto simp: RecvWindow_check_window_update_def unreleased_exact window_live_def
      RecvWindow_increase_notification_def split: if_splits)

text \<open>
  A receive window so large that twice the part to release overflows \<open>i32\<close>: no update is ever due.
\<close>

definition window_starved :: "int \<Rightarrow> RecvWindow \<Rightarrow> bool" where
  "window_starved a w \<longleftrightarrow> sint (rw_actual w) = a \<and> 0 \<le> sint (rw_notification w)
     \<and> sint (rw_notification w) \<le> 65535 \<and> 2 ^ 30 + 65535 \<le> a"

lemma check_starved:
  assumes "window_starved a w"
  shows "RecvWindow_check_window_update w sid = (w, None)"
proof -
  let ?n = "rw_notification w" and ?a = "rw_actual w"
  have b: "0 \<le> sint ?n" "sint ?n \<le> 65535" "1073807359 \<le> sint ?a" "sint ?a < 2147483648"
    using assms sint_lt [of ?a] by (simp_all add: window_starved_def)
  have diff: "sint (?a - ?n) = sint ?a - sint ?n" using b by (subst sint_diff_i32) simp_all
  have double: "sint (x + x) = signed_take_bit 31 (sint x + sint x)" for x :: i32
    by (simp add: sint_word_ariths)
  have "sint ((?a - ?n) * 2) = 2 * (sint ?a - sint ?n) - 4294967296"
  proof -
    have "(?a - ?n) * 2 = (?a - ?n) + (?a - ?n)" by (rule mult_2_right)
    also have "sint \<dots> = signed_take_bit 31 (sint (?a - ?n) + sint (?a - ?n))" by (rule double)
    also have "\<dots> = signed_take_bit 31 (2 * (sint ?a - sint ?n))" by (simp only: diff mult_2)
    also have "\<dots> = (2 * (sint ?a - sint ?n) + 2147483648) mod 4294967296 - 2147483648"
      by (simp add: signed_take_bit_eq_take_bit_shift take_bit_eq_mod)
    also have "(2 * (sint ?a - sint ?n) + 2147483648) mod 4294967296 = 2 * (sint ?a - sint ?n) + 2147483648 - 4294967296"
      using b by (subst mod_pos_geq) (simp_all add: mod_pos_pos_trivial)
    finally show ?thesis by simp
  qed
  then show ?thesis using b unfolding RecvWindow_check_window_update_def RecvWindow_unreleased_size_def Let_def word_sless_alt word_sle_eq diff by simp
qed

lemma recv_data_sint:
  assumes "0 \<le> sint (rw_notification w)" "\<not> RecvWindow_notification_available w < n"
  shows "sint (rw_notification w - n) = sint (rw_notification w) - sint n" "0 \<le> sint n" "sint n \<le> sint (rw_notification w)"
proof -
  let ?w = "rw_notification w"
  have w: "uint ?w = sint ?w" "uint ?w < 2147483648"
    using uint_sint [OF assms(1)] sint_lt [of ?w] by simp_all
  have "RecvWindow_notification_available w = ?w"
    using assms(1) by (simp add: RecvWindow_notification_available_def sless_sint)
  with assms(2) have "uint n \<le> uint ?w" by (simp add: word_le_def [symmetric] not_less)
  moreover have "sint n = uint n"
  proof (rule sint_small)
    from calculation w(2) have "nat (uint n) < 2147483648" by linarith
    then show "unat n < 2147483648" by (simp only: nat_uint_eq)
  qed
  ultimately show "0 \<le> sint n" "sint n \<le> sint ?w" using w(1) by simp_all
  then show "sint (?w - n) = sint ?w - sint n" using w by (intro sint_diff_i32) simp_all
qed

lemma sint_uint_small: "uint (n :: u32) < 2 ^ 31 \<Longrightarrow> sint n = uint n"
proof (rule sint_small)
  assume "uint n < 2 ^ 31"
  then have "uint n < 2147483648" by simp
  then have "nat (uint n) < 2147483648" by linarith
  then show "unat n < 2147483648" by (simp only: nat_uint_eq)
qed

lemma received_live:
  assumes "window_live a w" "\<not> RecvWindow_notification_available w < n"
  shows "RecvWindow_check_window_update (RecvWindow_recv_data w n) sid = (w', frame) \<Longrightarrow>
    window_live a w' \<and>
    (frame = None \<and> w' = w\<lparr>rw_notification := rw_notification w - n\<rparr>
     \<or> frame = Some (Frame_new sid (FrameFlags 0) (Payload_WindowUpdate (rw_actual w - (rw_notification w - n))))
       \<and> w' = w\<lparr>rw_notification := rw_actual w\<rparr>)"
  using check_live [of "RecvWindow_recv_data w n" sid w' frame] assms recv_data_sint [of w n]
  by (auto simp: RecvWindow_recv_data_def window_live_def)

lemma received_starved:
  assumes "window_starved a w" "\<not> RecvWindow_notification_available w < n"
  shows "RecvWindow_check_window_update (RecvWindow_recv_data w n) sid = (w\<lparr>rw_notification := rw_notification w - n\<rparr>, None)"
    "window_starved a (w\<lparr>rw_notification := rw_notification w - n\<rparr>)"
proof -
  show *: "window_starved a (w\<lparr>rw_notification := rw_notification w - n\<rparr>)"
    using assms recv_data_sint [of w n] by (simp add: window_starved_def)
  show "RecvWindow_check_window_update (RecvWindow_recv_data w n) sid = (w\<lparr>rw_notification := rw_notification w - n\<rparr>, None)"
    using check_starved [OF *] by (simp add: RecvWindow_recv_data_def)
qed

end
