(* ===== verification/Poll.thy ===== *)
theory Poll
  imports Prelude
begin

text \<open>
  The result of polling an asynchronous operation, shared by the components that are state machines
  driven by a runtime (\<open>std::task::Poll\<close>).
\<close>

datatype 'a poll = Ready 'a | Pending

end
