(* ===== verification/H2_Streams.thy ===== *)
theory H2_Streams
  imports H2_Window Poll
begin

text \<open>
  The streams of a client connection (\<open>ylong_http_client/src/util/h2/streams.rs\<close>): the state of
  each stream, the queues of streams that wait for a concurrency slot, for a window or to be sent,
  and the handlers of sent and received frames. The body of a request and the channel to the
  frame writer are not part of the repository: reading a body (\<open>poll_body\<close>) and sending into the
  channel (\<open>send\<close>, \<open>None\<close> when it is closed) are parameters, and so are the orders in which a
  hash map and a hash set are traversed.
\<close>

section \<open>Types\<close>

datatype DispatchErrorKind = Dispatch_H2 H2Error | Dispatch_Io string | ChannelClosed | Disconnect

definition INITIAL_MAX_SEND_STREAM_ID :: StreamId where "INITIAL_MAX_SEND_STREAM_ID = 2147483647"
definition INITIAL_MAX_RECV_STREAM_ID :: StreamId where "INITIAL_MAX_RECV_STREAM_ID = 2147483647"
definition DEFAULT_MAX_STREAM_ID :: StreamId where "DEFAULT_MAX_STREAM_ID = 2147483647"
definition INITIAL_LATEST_REMOTE_ID :: StreamId where "INITIAL_LATEST_REMOTE_ID = 0"
definition DEFAULT_MAX_CONCURRENT_STREAMS :: u32 where "DEFAULT_MAX_CONCURRENT_STREAMS = 100"

datatype FrameRecvState = FrameRecv_OK | FrameRecv_Ignore | FrameRecv_Err H2Error

datatype DataReadState = Read_Closed | Read_Pending | Read_Ready Frame | Read_Finish Frame

datatype StreamEndState = StreamEnd_OK | StreamEnd_Ignore | StreamEnd_Err H2Error

datatype ActiveState = WaitHeaders | WaitData

datatype CloseReason = LocalRst | RemoteRst | RemoteGoAway | LocalGoAway | EndStream

datatype H2StreamState =
    Idle
  | Open ActiveState ActiveState
  | ReservedRemote
  | LocalHalfClosed ActiveState
  | RemoteHalfClosed ActiveState
  | Closed CloseReason

text \<open>
  \<open>BodyDataRef\<close> holds the request body until it is cleared. A read fills a buffer of \<open>n\<close> bytes, so
  it never yields more.
\<close>

type_synonym 'b BodyDataRef = "'b option"

definition BodyDataRef_clear :: "'b BodyDataRef \<Rightarrow> 'b BodyDataRef" where
  "BodyDataRef_clear d = None"

definition BodyDataRef_poll_read ::
    "('b \<Rightarrow> nat \<Rightarrow> 'b \<times> (bytes, unit) rust_result poll) \<Rightarrow> 'b BodyDataRef \<Rightarrow> nat \<Rightarrow>
     'b BodyDataRef \<times> (bytes, unit) rust_result poll" where
  "BodyDataRef_poll_read poll_body d n =
     (case d of
        None \<Rightarrow> (None, Ready (Ok []))
      | Some body \<Rightarrow>
          (case poll_body body n of
             (body', Ready (Ok bytes)) \<Rightarrow> (Some body', Ready (Ok (take n bytes)))
           | (body', r) \<Rightarrow> (Some body', r)))"

record 'b Stream =
  st_recv_window :: RecvWindow
  st_send_window :: SendWindow
  st_state :: H2StreamState
  st_header :: "Frame option"
  st_data :: "'b BodyDataRef"

record 'b Streams =
  ss_max_send_id :: StreamId
  ss_max_recv_id :: StreamId
  ss_latest_remote_id :: StreamId
  ss_stream_recv_window_size :: u32
  ss_stream_send_window_size :: u32
  ss_max_concurrent_streams :: u32
  ss_current_concurrent_streams :: u32
  ss_flow_control :: FlowControl
  ss_pending_concurrency :: "StreamId list"
  ss_pending_stream_window :: "StreamId set"
  ss_pending_conn_window :: "StreamId list"
  ss_pending_send :: "StreamId list"
  ss_window_updating_streams :: "StreamId list"
  ss_stream_map :: "StreamId \<rightharpoonup> 'b Stream"
  ss_next_stream_id :: StreamId

definition Stream_new :: "RecvWindow \<Rightarrow> SendWindow \<Rightarrow> Frame \<Rightarrow> 'b BodyDataRef \<Rightarrow> 'b Stream" where
  "Stream_new recv_window send_window headers data =
     \<lparr>st_recv_window = recv_window, st_send_window = send_window, st_state = Idle,
      st_header = Some headers, st_data = data\<rparr>"

definition Stream_is_init_or_active_flow_control :: "'b Stream \<Rightarrow> bool" where
  "Stream_is_init_or_active_flow_control s \<longleftrightarrow>
     (case st_state s of
        Idle \<Rightarrow> True
      | Open _ WaitData \<Rightarrow> True
      | LocalHalfClosed WaitData \<Rightarrow> True
      | _ \<Rightarrow> False)"

section \<open>Concurrency and settings\<close>

definition Streams_new :: "u32 \<Rightarrow> u32 \<Rightarrow> FlowControl \<Rightarrow> 'b Streams" where
  "Streams_new recv_window_size send_window_size flow_control =
     \<lparr>ss_max_send_id = INITIAL_MAX_SEND_STREAM_ID, ss_max_recv_id = INITIAL_MAX_RECV_STREAM_ID,
      ss_latest_remote_id = INITIAL_LATEST_REMOTE_ID,
      ss_stream_recv_window_size = recv_window_size, ss_stream_send_window_size = send_window_size,
      ss_max_concurrent_streams = DEFAULT_MAX_CONCURRENT_STREAMS,
      ss_current_concurrent_streams = 0, ss_flow_control = flow_control,
      ss_pending_concurrency = [], ss_pending_stream_window = {}, ss_pending_conn_window = [],
      ss_pending_send = [], ss_window_updating_streams = [], ss_stream_map = Map.empty,
      ss_next_stream_id = 1\<rparr>"

definition Streams_decrease_current_concurrency :: "'b Streams \<Rightarrow> 'b Streams" where
  "Streams_decrease_current_concurrency s =
     s\<lparr>ss_current_concurrent_streams := ss_current_concurrent_streams s - 1\<rparr>"

definition Streams_increase_current_concurrency :: "'b Streams \<Rightarrow> 'b Streams" where
  "Streams_increase_current_concurrency s =
     s\<lparr>ss_current_concurrent_streams := ss_current_concurrent_streams s + 1\<rparr>"

definition Streams_reach_max_concurrency :: "'b Streams \<Rightarrow> bool" where
  "Streams_reach_max_concurrency s \<longleftrightarrow>
     ss_current_concurrent_streams s \<ge> ss_max_concurrent_streams s"

definition Streams_apply_max_concurrent_streams :: "'b Streams \<Rightarrow> u32 \<Rightarrow> 'b Streams" where
  "Streams_apply_max_concurrent_streams s num = s\<lparr>ss_max_concurrent_streams := num\<rparr>"

definition map_stream :: "StreamId \<Rightarrow> ('b Stream \<Rightarrow> 'b Stream) \<Rightarrow> 'b Streams \<Rightarrow> 'b Streams" where
  "map_stream sid f s =
     s\<lparr>ss_stream_map := (ss_stream_map s)(sid := map_option f (ss_stream_map s sid))\<rparr>"

text \<open>The loop over the streams that credits each send window, and stops at the first failure.\<close>

fun increase_send_windows :: "StreamId list \<Rightarrow> u32 \<Rightarrow> 'b Streams \<Rightarrow> 'b Streams \<times> (unit, H2Error) rust_result" where
  "increase_send_windows [] excess s = (s, Ok ())"
| "increase_send_windows (sid # ids) excess s =
     (case ss_stream_map s sid of
        None \<Rightarrow> increase_send_windows ids excess s
      | Some stream \<Rightarrow>
          (case SendWindow_increase_size (st_send_window stream) excess of
             (w, Ok _) \<Rightarrow> increase_send_windows ids excess (map_stream sid (st_send_window_update (\<lambda>_. w)) s)
           | (w, Err e) \<Rightarrow> (s, Err e)
           | (w, Panic) \<Rightarrow> (s, Panic)))"

definition map_streams :: "('b Stream \<Rightarrow> 'b Stream) \<Rightarrow> 'b Streams \<Rightarrow> 'b Streams" where
  "map_streams f s = s\<lparr>ss_stream_map := (\<lambda>sid. map_option f (ss_stream_map s sid))\<rparr>"

definition Streams_apply_send_initial_window_size ::
    "((StreamId \<rightharpoonup> 'b Stream) \<Rightarrow> StreamId list) \<Rightarrow> (StreamId set \<Rightarrow> StreamId list) \<Rightarrow>
     'b Streams \<Rightarrow> u32 \<Rightarrow> 'b Streams \<times> (unit, H2Error) rust_result" where
  "Streams_apply_send_initial_window_size keys elems s size1 =
     (let current = ss_stream_send_window_size s;
          s = s\<lparr>ss_stream_send_window_size := size1\<rparr>
      in if current < size1 then
           (case increase_send_windows (keys (ss_stream_map s)) (size1 - current) s of
              (s, Ok _) \<Rightarrow>
                (s\<lparr>ss_pending_send := ss_pending_send s @ elems (ss_pending_stream_window s),
                   ss_pending_stream_window := {}\<rparr>, Ok ())
            | (s, r) \<Rightarrow> (s, r))
         else if current > size1 then
           (map_streams (\<lambda>stream. stream\<lparr>st_send_window :=
              SendWindow_reduce_size (st_send_window stream) (current - size1)\<rparr>) s, Ok ())
         else (s, Ok ()))"

definition Streams_apply_recv_initial_window_size :: "'b Streams \<Rightarrow> u32 \<Rightarrow> 'b Streams" where
  "Streams_apply_recv_initial_window_size s size1 =
     (let current = ss_stream_recv_window_size s;
          s = s\<lparr>ss_stream_recv_window_size := size1\<rparr>
      in if current < size1 then
           map_streams (\<lambda>stream.
             let extra = size1 - current in
             stream\<lparr>st_recv_window := RecvWindow_increase_actual
               (RecvWindow_increase_notification (st_recv_window stream) extra) extra\<rparr>) s
         else if current > size1 then
           map_streams (\<lambda>stream. stream\<lparr>st_recv_window :=
             RecvWindow_reduce_notification (st_recv_window stream) (current - size1)\<rparr>) s
         else s)"

text \<open>Sending into the channel of the frame writer.\<close>

definition send_frame :: "('c \<Rightarrow> Frame \<Rightarrow> 'c option) \<Rightarrow> 'c \<Rightarrow> Frame \<Rightarrow> 'c \<times> (unit, DispatchErrorKind) rust_result" where
  "send_frame send c frame =
     (case send c frame of Some c' \<Rightarrow> (c', Ok ()) | None \<Rightarrow> (c, Err ChannelClosed))"

definition Streams_release_stream_recv_window ::
    "('c \<Rightarrow> Frame \<Rightarrow> 'c option) \<Rightarrow> 'b Streams \<Rightarrow> 'c \<Rightarrow> StreamId \<Rightarrow> u32 \<Rightarrow>
     'b Streams \<times> 'c \<times> (unit, DispatchErrorKind) rust_result" where
  "Streams_release_stream_recv_window send s c sid size1 =
     (case ss_stream_map s sid of
        None \<Rightarrow> (s, c, Ok ())
      | Some stream \<Rightarrow>
          if RecvWindow_notification_available (st_recv_window stream) < size1
          then (s, c, Err (Dispatch_H2 (StreamError sid FlowControlError)))
          else
            let w = RecvWindow_recv_data (st_recv_window stream) size1;
                s1 = map_stream sid (st_recv_window_update (\<lambda>_. w)) s
            in if RecvWindow_unreleased_size w \<noteq> None then
                 (if \<not> Stream_is_init_or_active_flow_control stream then (s1, c, Ok ())
                  else (case RecvWindow_check_window_update w sid of
                          (w', Some frame) \<Rightarrow>
                            (map_stream sid (st_recv_window_update (\<lambda>_. w')) s1, send_frame send c frame)
                        | (w', None) \<Rightarrow> (s1, c, Ok ())))
               else (s1, c, Ok ()))"

definition Streams_release_conn_recv_window ::
    "('c \<Rightarrow> Frame \<Rightarrow> 'c option) \<Rightarrow> 'b Streams \<Rightarrow> 'c \<Rightarrow> u32 \<Rightarrow>
     'b Streams \<times> 'c \<times> (unit, DispatchErrorKind) rust_result" where
  "Streams_release_conn_recv_window send s c size1 =
     (if FlowControl_recv_notification_size_available (ss_flow_control s) < size1
      then (s, c, Err (Dispatch_H2 (ConnectionError FlowControlError)))
      else
        let fc = FlowControl_recv_data (ss_flow_control s) size1
        in case FlowControl_check_conn_recv_window_update fc of
             (fc', Some frame) \<Rightarrow> (s\<lparr>ss_flow_control := fc'\<rparr>, send_frame send c frame)
           | (fc', None) \<Rightarrow> (s\<lparr>ss_flow_control := fc'\<rparr>, c, Ok ()))"

section \<open>Queues\<close>

definition is_Closed :: "H2StreamState \<Rightarrow> bool" where
  "is_Closed st \<longleftrightarrow> (case st of Closed _ \<Rightarrow> True | _ \<Rightarrow> False)"

definition Streams_is_closed :: "((StreamId \<rightharpoonup> 'b Stream) \<Rightarrow> StreamId list) \<Rightarrow> 'b Streams \<Rightarrow> bool" where
  "Streams_is_closed keys s \<longleftrightarrow>
     list_all (\<lambda>sid. case ss_stream_map s sid of None \<Rightarrow> True | Some stream \<Rightarrow> is_Closed (st_state stream))
       (keys (ss_stream_map s))"

definition Streams_stream_state :: "'b Streams \<Rightarrow> StreamId \<Rightarrow> H2StreamState option" where
  "Streams_stream_state s sid = map_option st_state (ss_stream_map s sid)"

definition Streams_insert :: "'b Streams \<Rightarrow> StreamId \<Rightarrow> Frame \<Rightarrow> 'b BodyDataRef \<Rightarrow> 'b Streams" where
  "Streams_insert s sid headers data =
     (let send_window = SendWindow_new (ss_stream_send_window_size s);
          recv_window = RecvWindow_new (ss_stream_recv_window_size s)
      in s\<lparr>ss_stream_map := (ss_stream_map s)(sid \<mapsto> Stream_new recv_window send_window headers data)\<rparr>)"

definition Streams_push_back_pending_send :: "'b Streams \<Rightarrow> StreamId \<Rightarrow> 'b Streams" where
  "Streams_push_back_pending_send s sid = s\<lparr>ss_pending_send := ss_pending_send s @ [sid]\<rparr>"

definition Streams_push_pending_concurrency :: "'b Streams \<Rightarrow> StreamId \<Rightarrow> 'b Streams" where
  "Streams_push_pending_concurrency s sid =
     s\<lparr>ss_pending_concurrency := ss_pending_concurrency s @ [sid]\<rparr>"

definition Streams_is_pending_concurrency_empty :: "'b Streams \<Rightarrow> bool" where
  "Streams_is_pending_concurrency_empty s \<longleftrightarrow> ss_pending_concurrency s = []"

definition Streams_next_pending_stream :: "'b Streams \<Rightarrow> 'b Streams \<times> StreamId option" where
  "Streams_next_pending_stream s =
     (case ss_pending_send s of
        [] \<Rightarrow> (s, None)
      | sid # ids \<Rightarrow> (s\<lparr>ss_pending_send := ids\<rparr>, Some sid))"

definition Streams_pending_stream_num :: "'b Streams \<Rightarrow> nat" where
  "Streams_pending_stream_num s = length (ss_pending_send s)"

function Streams_try_consume_pending_concurrency :: "'b Streams \<Rightarrow> 'b Streams" where
  "Streams_try_consume_pending_concurrency s =
     (if Streams_reach_max_concurrency s then s
      else case ss_pending_concurrency s of
             [] \<Rightarrow> s
           | sid # ids \<Rightarrow>
               Streams_try_consume_pending_concurrency
                 (Streams_push_back_pending_send
                   (Streams_increase_current_concurrency (s\<lparr>ss_pending_concurrency := ids\<rparr>)) sid))"
  by pat_completeness auto
termination
  by (relation "measure (\<lambda>s. length (ss_pending_concurrency s))")
    (auto simp: Streams_push_back_pending_send_def Streams_increase_current_concurrency_def)

declare Streams_try_consume_pending_concurrency.simps [simp del]

definition Streams_increase_conn_send_window ::
    "'b Streams \<Rightarrow> u32 \<Rightarrow> 'b Streams \<times> (unit, H2Error) rust_result" where
  "Streams_increase_conn_send_window s size1 =
     (case FlowControl_increase_send_size (ss_flow_control s) size1 of
        (fc, r) \<Rightarrow> (s\<lparr>ss_flow_control := fc\<rparr>, r))"

text \<open>The loop pops every waiting stream and appends it to the send queue.\<close>

fun reassign_loop :: "StreamId list \<Rightarrow> 'b Streams \<Rightarrow> 'b Streams" where
  "reassign_loop [] s = s\<lparr>ss_pending_conn_window := []\<rparr>"
| "reassign_loop (sid # ids) s =
     reassign_loop ids (Streams_push_back_pending_send (s\<lparr>ss_pending_conn_window := ids\<rparr>) sid)"

definition Streams_reassign_conn_send_window :: "'b Streams \<Rightarrow> 'b Streams" where
  "Streams_reassign_conn_send_window s = reassign_loop (ss_pending_conn_window s) s"

definition Streams_reassign_stream_send_window ::
    "'b Streams \<Rightarrow> StreamId \<Rightarrow> u32 \<Rightarrow> 'b Streams \<times> (unit, H2Error) rust_result" where
  "Streams_reassign_stream_send_window s sid size1 =
     (let (s, r) = (case ss_stream_map s sid of
                      None \<Rightarrow> (s, Ok ())
                    | Some stream \<Rightarrow>
                        (case SendWindow_increase_size (st_send_window stream) size1 of
                           (w, r) \<Rightarrow> (map_stream sid (st_send_window_update (\<lambda>_. w)) s, r)))
      in case r of
           Ok _ \<Rightarrow>
             if sid \<in> ss_pending_stream_window s
             then (s\<lparr>ss_pending_stream_window := ss_pending_stream_window s - {sid},
                     ss_pending_send := ss_pending_send s @ [sid]\<rparr>, Ok ())
             else (s, Ok ())
         | _ \<Rightarrow> (s, r))"

section \<open>Sending a stream\<close>

definition Streams_headers :: "'b Streams \<Rightarrow> StreamId \<Rightarrow> 'b Streams \<times> (Frame option, H2Error) rust_result" where
  "Streams_headers s sid =
     (case ss_stream_map s sid of
        None \<Rightarrow> (s, Err (ConnectionError IntervalError))
      | Some stream \<Rightarrow>
          if is_Closed (st_state stream) then (s, Ok None)
          else (map_stream sid (st_header_update (\<lambda>_. None)) s, Ok (st_header stream)))"

definition BODY_MAX_FRAME_SIZE :: nat where "BODY_MAX_FRAME_SIZE = 16384"

definition Streams_poll_sized_data ::
    "('b \<Rightarrow> nat \<Rightarrow> 'b \<times> (bytes, unit) rust_result poll) \<Rightarrow> 'b Streams \<Rightarrow> StreamId \<Rightarrow> nat \<Rightarrow>
     'b Streams \<times> (DataReadState, H2Error) rust_result" where
  "Streams_poll_sized_data poll_body s sid len =
     (case ss_stream_map s sid of
        None \<Rightarrow> (s, Err (ConnectionError IntervalError))
      | Some stream \<Rightarrow>
          (case BodyDataRef_poll_read poll_body (st_data stream) len of (data, r) \<Rightarrow>
             let s1 = map_stream sid (st_data_update (\<lambda>_. data)) s in
             case r of
               Ready (Ok read) \<Rightarrow>
                 if length read > 0 then
                   let n = word_of_nat (length read);
                       s2 = map_stream sid (st_send_window_update (\<lambda>w. SendWindow_send_data w n)) s1;
                       s3 = s2\<lparr>ss_flow_control := FlowControl_send_data (ss_flow_control s2) n\<rparr>
                   in (s3, Ok (Read_Ready (Frame_new sid (FrameFlags 0) (Payload_Data read))))
                 else
                   (s1, Ok (Read_Finish (Frame_new sid
                          (FrameFlags_set_end_stream (FrameFlags 1) True) (Payload_Data []))))
             | Ready _ \<Rightarrow> (s1, Err (StreamError sid IntervalError))
             | Pending \<Rightarrow> (Streams_push_back_pending_send s1 sid, Ok Read_Pending)))"

definition Streams_poll_read_body ::
    "('b \<Rightarrow> nat \<Rightarrow> 'b \<times> (bytes, unit) rust_result poll) \<Rightarrow> 'b Streams \<Rightarrow> StreamId \<Rightarrow>
     'b Streams \<times> (DataReadState, H2Error) rust_result" where
  "Streams_poll_read_body poll_body s sid =
     (case ss_stream_map s sid of
        None \<Rightarrow> (s, Err (ConnectionError IntervalError))
      | Some stream \<Rightarrow>
          if is_Closed (st_state stream) then (s, Ok Read_Closed)
          else
            let stream_send_vacant = unat (SendWindow_size_available (st_send_window stream)) in
            if stream_send_vacant = 0
            then (s\<lparr>ss_pending_stream_window := insert sid (ss_pending_stream_window s)\<rparr>, Ok Read_Pending)
            else
              let conn_send_vacant = FlowControl_send_size_available (ss_flow_control s) in
              if conn_send_vacant = 0
              then (s\<lparr>ss_pending_conn_window := ss_pending_conn_window s @ [sid]\<rparr>, Ok Read_Pending)
              else
                Streams_poll_sized_data poll_body s sid
                  (min (min stream_send_vacant conn_send_vacant) BODY_MAX_FRAME_SIZE))"

section \<open>Closing streams\<close>

text \<open>A stream loses its unsent header and body when it is closed early.\<close>

definition close_stream :: "CloseReason \<Rightarrow> 'b Stream \<Rightarrow> 'b Stream" where
  "close_stream reason stream =
     stream\<lparr>st_state := Closed reason, st_header := None,
            st_data := BodyDataRef_clear (st_data stream)\<rparr>"

fun unset_loop :: "StreamId list \<Rightarrow> StreamId \<Rightarrow> 'b Streams \<Rightarrow> StreamId list \<Rightarrow> 'b Streams \<times> StreamId list" where
  "unset_loop [] last_stream_id s ids = (s, ids)"
| "unset_loop (sid # rest) last_stream_id s ids =
     (case ss_stream_map s sid of
        None \<Rightarrow> unset_loop rest last_stream_id s ids
      | Some stream \<Rightarrow>
          if sid > last_stream_id then
            let s' = (case st_state stream of
                        Closed _ \<Rightarrow> s
                      | Idle \<Rightarrow> map_stream sid (close_stream RemoteGoAway) s
                      | _ \<Rightarrow> map_stream sid (close_stream RemoteGoAway)
                               (Streams_decrease_current_concurrency s))
            in unset_loop rest last_stream_id s' (ids @ [sid])
          else unset_loop rest last_stream_id s ids)"

definition Streams_get_unset_streams ::
    "((StreamId \<rightharpoonup> 'b Stream) \<Rightarrow> StreamId list) \<Rightarrow> 'b Streams \<Rightarrow> StreamId \<Rightarrow> 'b Streams \<times> StreamId list" where
  "Streams_get_unset_streams keys s last_stream_id =
     unset_loop (keys (ss_stream_map s)) last_stream_id s []"

fun unclosed_loop :: "StreamId list \<Rightarrow> 'b Streams \<Rightarrow> StreamId list \<Rightarrow> 'b Streams \<times> StreamId list" where
  "unclosed_loop [] s ids = (s, ids)"
| "unclosed_loop (sid # rest) s ids =
     (case ss_stream_map s sid of
        None \<Rightarrow> unclosed_loop rest s ids
      | Some stream \<Rightarrow>
          if is_Closed (st_state stream) then unclosed_loop rest s ids
          else unclosed_loop rest (map_stream sid (close_stream LocalGoAway) s) (ids @ [sid]))"

definition Streams_get_all_unclosed_streams ::
    "((StreamId \<rightharpoonup> 'b Stream) \<Rightarrow> StreamId list) \<Rightarrow> 'b Streams \<Rightarrow> 'b Streams \<times> StreamId list" where
  "Streams_get_all_unclosed_streams keys s = unclosed_loop (keys (ss_stream_map s)) s []"

definition Streams_clear_streams_states :: "'b Streams \<Rightarrow> 'b Streams" where
  "Streams_clear_streams_states s =
     s\<lparr>ss_window_updating_streams := [], ss_pending_stream_window := {}, ss_pending_send := [],
       ss_pending_conn_window := [], ss_pending_concurrency := []\<rparr>"

definition Streams_send_local_reset :: "'b Streams \<Rightarrow> StreamId \<Rightarrow> 'b Streams \<times> StreamEndState" where
  "Streams_send_local_reset s sid =
     (case ss_stream_map s sid of
        None \<Rightarrow> (s, StreamEnd_Err (ConnectionError ProtocolError))
      | Some stream \<Rightarrow>
          (case st_state stream of
             Closed EndStream \<Rightarrow>
               (map_stream sid (st_state_update (\<lambda>_. Closed LocalRst)) s, StreamEnd_Ignore)
           | Closed _ \<Rightarrow> (s, StreamEnd_Ignore)
           | _ \<Rightarrow>
               (Streams_decrease_current_concurrency (map_stream sid (close_stream LocalRst) s),
                StreamEnd_OK)))"

definition Streams_recv_remote_reset :: "'b Streams \<Rightarrow> StreamId \<Rightarrow> 'b Streams \<times> StreamEndState" where
  "Streams_recv_remote_reset s sid =
     (if sid > ss_max_recv_id s then (s, StreamEnd_Ignore)
      else case ss_stream_map s sid of
             None \<Rightarrow> (s, StreamEnd_Err (ConnectionError ProtocolError))
           | Some stream \<Rightarrow>
               if is_Closed (st_state stream) then (s, StreamEnd_Ignore)
               else (Streams_decrease_current_concurrency (map_stream sid (close_stream RemoteRst) s),
                     StreamEnd_OK))"

section \<open>Frames of a stream\<close>

definition set_state :: "StreamId \<Rightarrow> H2StreamState \<Rightarrow> 'b Streams \<Rightarrow> 'b Streams" where
  "set_state sid st s = map_stream sid (st_state_update (\<lambda>_. st)) s"

definition Streams_send_headers_frame :: "'b Streams \<Rightarrow> StreamId \<Rightarrow> bool \<Rightarrow> 'b Streams \<times> FrameRecvState" where
  "Streams_send_headers_frame s sid eos =
     (case ss_stream_map s sid of
        None \<Rightarrow> (s, FrameRecv_Err (ConnectionError ProtocolError))
      | Some stream \<Rightarrow>
          (case st_state stream of
             Idle \<Rightarrow>
               (set_state sid (if eos then LocalHalfClosed WaitHeaders else Open WaitData WaitHeaders) s,
                FrameRecv_OK)
           | Open WaitHeaders recv \<Rightarrow>
               (set_state sid (if eos then LocalHalfClosed recv else Open WaitData recv) s, FrameRecv_OK)
           | RemoteHalfClosed WaitHeaders \<Rightarrow>
               (if eos
                then (set_state sid (Closed EndStream) (Streams_decrease_current_concurrency s), FrameRecv_OK)
                else (set_state sid (RemoteHalfClosed WaitData) s, FrameRecv_OK))
           | _ \<Rightarrow> (s, FrameRecv_Err (ConnectionError ProtocolError))))"

definition Streams_send_data_frame :: "'b Streams \<Rightarrow> StreamId \<Rightarrow> bool \<Rightarrow> 'b Streams \<times> FrameRecvState" where
  "Streams_send_data_frame s sid eos =
     (case ss_stream_map s sid of
        None \<Rightarrow> (s, FrameRecv_Err (ConnectionError ProtocolError))
      | Some stream \<Rightarrow>
          (case st_state stream of
             Open WaitData recv \<Rightarrow>
               (if eos then set_state sid (LocalHalfClosed recv) s else s, FrameRecv_OK)
           | RemoteHalfClosed WaitData \<Rightarrow>
               (if eos then set_state sid (Closed EndStream) (Streams_decrease_current_concurrency s)
                else s, FrameRecv_OK)
           | _ \<Rightarrow> (s, FrameRecv_Err (ConnectionError ProtocolError))))"

text \<open>The three arms of the macro \<open>change_stream_state!\<close>.\<close>

definition change_stream_state_Idle :: "bool \<Rightarrow> H2StreamState" where
  "change_stream_state_Idle eos =
     (if eos then RemoteHalfClosed WaitHeaders else Open WaitHeaders WaitData)"

definition change_stream_state_Open :: "bool \<Rightarrow> ActiveState \<Rightarrow> H2StreamState" where
  "change_stream_state_Open eos send = (if eos then RemoteHalfClosed send else Open send WaitData)"

definition change_stream_state_HalfClosed :: "bool \<Rightarrow> H2StreamState" where
  "change_stream_state_HalfClosed eos = (if eos then Closed EndStream else LocalHalfClosed WaitData)"

definition Streams_recv_headers :: "'b Streams \<Rightarrow> StreamId \<Rightarrow> bool \<Rightarrow> 'b Streams \<times> FrameRecvState" where
  "Streams_recv_headers s sid eos =
     (if sid > ss_max_recv_id s then (s, FrameRecv_Ignore)
      else case ss_stream_map s sid of
        None \<Rightarrow> (s, FrameRecv_Err (ConnectionError ProtocolError))
      | Some stream \<Rightarrow>
          (case st_state stream of
             Idle \<Rightarrow> (set_state sid (change_stream_state_Idle eos) s, FrameRecv_OK)
           | ReservedRemote \<Rightarrow>
               (let s' = set_state sid (change_stream_state_HalfClosed eos) s
                in (if eos then Streams_decrease_current_concurrency s' else s', FrameRecv_OK))
           | Open send WaitHeaders \<Rightarrow>
               (set_state sid (change_stream_state_Open eos send) s, FrameRecv_OK)
           | LocalHalfClosed WaitHeaders \<Rightarrow>
               (let s' = set_state sid (change_stream_state_HalfClosed eos) s
                in (if eos then Streams_decrease_current_concurrency s' else s', FrameRecv_OK))
           | Closed LocalGoAway \<Rightarrow> (s, FrameRecv_Ignore)
           | Closed LocalRst \<Rightarrow> (s, FrameRecv_Ignore)
           | _ \<Rightarrow> (s, FrameRecv_Err (ConnectionError ProtocolError))))"

definition Streams_recv_data :: "'b Streams \<Rightarrow> StreamId \<Rightarrow> bool \<Rightarrow> 'b Streams \<times> FrameRecvState" where
  "Streams_recv_data s sid eos =
     (if sid > ss_max_recv_id s then (s, FrameRecv_Ignore)
      else case ss_stream_map s sid of
        None \<Rightarrow> (s, FrameRecv_Err (ConnectionError ProtocolError))
      | Some stream \<Rightarrow>
          (case st_state stream of
             Open send WaitData \<Rightarrow>
               (if eos then set_state sid (RemoteHalfClosed send) s else s, FrameRecv_OK)
           | LocalHalfClosed WaitData \<Rightarrow>
               (if eos then Streams_decrease_current_concurrency (set_state sid (Closed EndStream) s)
                else s, FrameRecv_OK)
           | Closed LocalGoAway \<Rightarrow> (s, FrameRecv_Ignore)
           | Closed LocalRst \<Rightarrow> (s, FrameRecv_Ignore)
           | _ \<Rightarrow> (s, FrameRecv_Err (ConnectionError ProtocolError))))"

definition Streams_generate_id :: "'b Streams \<Rightarrow> 'b Streams \<times> (StreamId, DispatchErrorKind) rust_result" where
  "Streams_generate_id s =
     (let sid = ss_next_stream_id s in
      if ss_next_stream_id s < DEFAULT_MAX_STREAM_ID
      then (s\<lparr>ss_next_stream_id := ss_next_stream_id s + 2\<rparr>, Ok sid)
      else (s, Err (Dispatch_H2 (ConnectionError ProtocolError))))"

end
