(* ===== verification/H2_Manager.thy ===== *)
theory H2_Manager
  imports H2_Streams
begin

text \<open>
  The connection manager of the HTTP/2 client (\<open>ylong_http_client/src/util/h2/manager.rs\<close>, with
  \<open>StreamController\<close> of \<open>util/dispatcher.rs\<close>): it takes requests, sends their frames, handles
  received frames and errors, and passes responses on to the requesting tasks. The response
  channels are a parameter: \<open>resp_send\<close> delivers a message to the task of a stream, reports that the
  task is gone, or is pending. Every handler returns the manager it leaves, also when it fails.
\<close>

section \<open>State\<close>

datatype RespMessage = Resp_Output Frame | Resp_OutputExit DispatchErrorKind

datatype OutputMessage = Output Frame | OutputExit DispatchErrorKind

datatype SettingsState = Acknowledging Settings | Synced

datatype ManagerState = Manager_Send | Manager_Receive | Manager_Exit DispatchErrorKind

record 'b RequestWrapper =
  rq_flag :: FrameFlags
  rq_payload :: Payload
  rq_data :: "'b BodyDataRef"

text \<open>
  \<open>sc_senders\<close> is the set of streams whose task has a response channel, \<open>sc_curr_message\<close> holds the
  messages whose delivery is pending, and \<open>'r\<close> is the state of the response channels.
\<close>

record ('b, 'r) StreamController =
  sc_io_shutdown :: bool
  sc_io_goaway :: bool
  sc_senders :: "StreamId set"
  sc_curr_message :: "StreamId \<rightharpoonup> RespMessage"
  sc_channels :: 'r
  sc_streams :: "'b Streams"
  sc_go_away_error_code :: "u32 option"
  sc_going_away :: "Goaway option"

record ('b, 'r, 'c) ConnManager =
  cm_state :: ManagerState
  cm_next_state :: ManagerState
  cm_settings :: SettingsState
  cm_input_tx :: 'c
  cm_req_closed :: bool
  cm_controller :: "('b, 'r) StreamController"

type_synonym dispatch_poll = "(unit, DispatchErrorKind) rust_result poll"

text \<open>\<open>Ready True\<close>: delivered; \<open>Ready False\<close>: the receiving task is gone.\<close>

type_synonym 'r resp_channel = "'r \<Rightarrow> StreamId \<Rightarrow> RespMessage \<Rightarrow> 'r \<times> bool poll"

definition StreamController_new :: "'b Streams \<Rightarrow> 'r \<Rightarrow> ('b, 'r) StreamController" where
  "StreamController_new streams channels =
     \<lparr>sc_io_shutdown = False, sc_io_goaway = False, sc_senders = {}, sc_curr_message = Map.empty,
      sc_channels = channels, sc_streams = streams, sc_go_away_error_code = None,
      sc_going_away = None\<rparr>"

definition ConnManager_new :: "SettingsState \<Rightarrow> 'c \<Rightarrow> ('b, 'r) StreamController \<Rightarrow> ('b, 'r, 'c) ConnManager" where
  "ConnManager_new settings input_tx controller =
     \<lparr>cm_state = Manager_Receive, cm_next_state = Manager_Receive, cm_settings = settings,
      cm_input_tx = input_tx, cm_req_closed = False, cm_controller = controller\<rparr>"

definition cm_streams :: "('b, 'r, 'c) ConnManager \<Rightarrow> 'b Streams" where
  "cm_streams m = sc_streams (cm_controller m)"

definition set_streams :: "'b Streams \<Rightarrow> ('b, 'r, 'c) ConnManager \<Rightarrow> ('b, 'r, 'c) ConnManager" where
  "set_streams s m = m\<lparr>cm_controller := (cm_controller m)\<lparr>sc_streams := s\<rparr>\<rparr>"

definition StreamController_shutdown :: "('b, 'r) StreamController \<Rightarrow> ('b, 'r) StreamController" where
  "StreamController_shutdown c = c\<lparr>sc_io_shutdown := True\<rparr>"

definition StreamController_goaway :: "('b, 'r) StreamController \<Rightarrow> ('b, 'r) StreamController" where
  "StreamController_goaway c = c\<lparr>sc_io_goaway := True\<rparr>"

definition StreamController_get_unsent_streams ::
    "((StreamId \<rightharpoonup> 'b Stream) \<Rightarrow> StreamId list) \<Rightarrow> ('b, 'r) StreamController \<Rightarrow> StreamId \<Rightarrow>
     ('b, 'r) StreamController \<times> (StreamId list, H2Error) rust_result" where
  "StreamController_get_unsent_streams keys c last_stream_id =
     (if ss_max_send_id (sc_streams c) < last_stream_id
      then (c, Err (ConnectionError ProtocolError))
      else
        let s = (sc_streams c)\<lparr>ss_max_send_id := last_stream_id\<rparr>
        in case Streams_get_unset_streams keys s last_stream_id of
             (s, ids) \<Rightarrow> (c\<lparr>sc_streams := s\<rparr>, Ok ids))"

definition StreamController_send_message_to_stream ::
    "'r resp_channel \<Rightarrow> ('b, 'r) StreamController \<Rightarrow> StreamId \<Rightarrow> RespMessage \<Rightarrow>
     ('b, 'r) StreamController \<times> (unit, H2Error) rust_result poll" where
  "StreamController_send_message_to_stream resp_send c sid message =
     (if sid \<in> sc_senders c then
        (case resp_send (sc_channels c) sid message of
           (r, Ready True) \<Rightarrow> (c\<lparr>sc_channels := r\<rparr>, Ready (Ok ()))
         | (r, Ready False) \<Rightarrow>
             (c\<lparr>sc_channels := r, sc_senders := sc_senders c - {sid}\<rparr>,
              Ready (Err (StreamError sid NoError)))
         | (r, Pending) \<Rightarrow>
             (c\<lparr>sc_channels := r, sc_curr_message := (sc_curr_message c)(sid \<mapsto> message)\<rparr>, Pending))
      else (c, Ready (Err (StreamError sid NoError))))"

text \<open>The loop of \<open>poll_blocked_message\<close> over the keys of the blocked messages.\<close>

fun blocked_loop ::
    "'r resp_channel \<Rightarrow> ('c \<Rightarrow> Frame \<Rightarrow> 'c option) \<Rightarrow> StreamId list \<Rightarrow> ('b, 'r) StreamController \<Rightarrow> 'c \<Rightarrow>
     bool \<Rightarrow> ('b, 'r) StreamController \<times> 'c \<times> bool" where
  "blocked_loop resp_send send [] c tx blocked = (c, tx, blocked)"
| "blocked_loop resp_send send (key # ids) c tx blocked =
     (case sc_curr_message c key of
        None \<Rightarrow> blocked_loop resp_send send ids c tx blocked
      | Some message \<Rightarrow>
          (case resp_send (sc_channels c) key message of
             (r, Ready True) \<Rightarrow>
               blocked_loop resp_send send ids
                 (c\<lparr>sc_channels := r, sc_curr_message := (sc_curr_message c)(key := None)\<rparr>) tx blocked
           | (r, Ready False) \<Rightarrow>
               let c = c\<lparr>sc_channels := r, sc_curr_message := (sc_curr_message c)(key := None),
                          sc_senders := sc_senders c - {key}\<rparr>
               in (case Streams_stream_state (sc_streams c) key of
                     None \<Rightarrow> blocked_loop resp_send send ids c tx blocked
                   | Some st \<Rightarrow>
                       if is_Closed st then blocked_loop resp_send send ids c tx blocked
                       else (case Streams_send_local_reset (sc_streams c) key of
                               (s, StreamEnd_OK) \<Rightarrow>
                                 let frame = Frame_new key FrameFlags_empty
                                               (Payload_RstStream (ErrorCode_into_code NoError));
                                     tx' = (case send tx frame of Some t \<Rightarrow> t | None \<Rightarrow> tx)
                                 in blocked_loop resp_send send ids (c\<lparr>sc_streams := s\<rparr>) tx' blocked
                             | (s, _) \<Rightarrow> blocked_loop resp_send send ids (c\<lparr>sc_streams := s\<rparr>) tx blocked))
           | (r, Pending) \<Rightarrow> blocked_loop resp_send send ids (c\<lparr>sc_channels := r\<rparr>) tx True))"

definition StreamController_poll_blocked_message ::
    "'r resp_channel \<Rightarrow> ('c \<Rightarrow> Frame \<Rightarrow> 'c option) \<Rightarrow> ((StreamId \<rightharpoonup> RespMessage) \<Rightarrow> StreamId list) \<Rightarrow>
     ('b, 'r) StreamController \<Rightarrow> 'c \<Rightarrow> ('b, 'r) StreamController \<times> 'c \<times> unit poll" where
  "StreamController_poll_blocked_message resp_send send message_keys c tx =
     (case blocked_loop resp_send send (message_keys (sc_curr_message c)) c tx False of
        (c, tx, blocked) \<Rightarrow> (c, tx, if blocked then Pending else Ready ()))"

section \<open>Sending requests\<close>

definition send_input :: "('c \<Rightarrow> Frame \<Rightarrow> 'c option) \<Rightarrow> ('b, 'r, 'c) ConnManager \<Rightarrow> Frame \<Rightarrow>
    ('b, 'r, 'c) ConnManager \<times> (unit, DispatchErrorKind) rust_result" where
  "send_input send m frame =
     (case send_frame send (cm_input_tx m) frame of (tx, r) \<Rightarrow> (m\<lparr>cm_input_tx := tx\<rparr>, r))"

definition poll_send_frame :: "('c \<Rightarrow> Frame \<Rightarrow> 'c option) \<Rightarrow> ('b, 'r, 'c) ConnManager \<Rightarrow> Frame \<Rightarrow>
    ('b, 'r, 'c) ConnManager \<times> (unit, DispatchErrorKind) rust_result" where
  "poll_send_frame send m frame =
     (let eos = FrameFlags_is_end_stream (frame_flags frame);
          (m, state) = (case frame_payload frame of
             Payload_Headers _ \<Rightarrow>
               (case Streams_send_headers_frame (cm_streams m) (frame_id frame) eos of
                  (s, r) \<Rightarrow> (set_streams s m, r))
           | Payload_Data _ \<Rightarrow>
               (case Streams_send_data_frame (cm_streams m) (frame_id frame) eos of
                  (s, r) \<Rightarrow> (set_streams s m, r))
           | _ \<Rightarrow> (m, FrameRecv_OK))
      in case state of
           FrameRecv_Err e \<Rightarrow> (m, Err (Dispatch_H2 e))
         | _ \<Rightarrow> send_input send m frame)"

text \<open>
  One request of \<open>poll_recv_request\<close>; \<open>False\<close> ends the loop, after the requester has been told on its
  own channel, which is not part of the manager's state.
\<close>

definition enqueue_request :: "'b Streams \<Rightarrow> StreamId \<Rightarrow> 'b RequestWrapper \<Rightarrow> 'b Streams" where
  "enqueue_request s sid request =
     (let headers = Frame_new sid (rq_flag request) (rq_payload request);
          s = (if Streams_reach_max_concurrency s \<or> \<not> Streams_is_pending_concurrency_empty s
               then Streams_push_pending_concurrency s sid
               else Streams_push_back_pending_send (Streams_increase_current_concurrency s) sid)
      in Streams_insert s sid headers (rq_data request))"

definition accept_request :: "('b, 'r, 'c) ConnManager \<Rightarrow> 'b RequestWrapper \<Rightarrow>
    ('b, 'r, 'c) ConnManager \<times> bool" where
  "accept_request m request =
     (case Streams_generate_id (cm_streams m) of
        (s, Ok sid) \<Rightarrow>
          let c = cm_controller m in
          (m\<lparr>cm_controller := c\<lparr>sc_streams := enqueue_request s sid request,
                                sc_senders := insert sid (sc_senders c)\<rparr>\<rparr>, True)
      | (s, _) \<Rightarrow> (m, False))"

text \<open>
  The requests that the request channel holds when it is polled, and whether it is closed after
  them.
\<close>

fun poll_recv_request :: "('b, 'r, 'c) ConnManager \<Rightarrow> 'b RequestWrapper list \<Rightarrow> bool \<Rightarrow>
    ('b, 'r, 'c) ConnManager \<times> (unit, DispatchErrorKind) rust_result" where
  "poll_recv_request m [] closed = (m, if closed then Err ChannelClosed else Ok ())"
| "poll_recv_request m (request # rest) closed =
     (case accept_request m request of
        (m, True) \<Rightarrow> poll_recv_request m rest closed
      | (m, False) \<Rightarrow> (m, Ok ()))"

section \<open>Errors\<close>

definition to_stream :: "'r resp_channel \<Rightarrow> ('b, 'r, 'c) ConnManager \<Rightarrow> StreamId \<Rightarrow> RespMessage \<Rightarrow>
    ('b, 'r, 'c) ConnManager \<times> (unit, H2Error) rust_result poll" where
  "to_stream resp_send m sid message =
     (case StreamController_send_message_to_stream resp_send (cm_controller m) sid message of
        (c, r) \<Rightarrow> (m\<lparr>cm_controller := c\<rparr>, r))"

definition manage_stream_error ::
    "'r resp_channel \<Rightarrow> ('c \<Rightarrow> Frame \<Rightarrow> 'c option) \<Rightarrow> ('b, 'r, 'c) ConnManager \<Rightarrow> StreamId \<Rightarrow> ErrorCode \<Rightarrow>
     ('b, 'r, 'c) ConnManager \<times> dispatch_poll" where
  "manage_stream_error resp_send send m sid code =
     (let frame = Frame_new sid FrameFlags_empty (Payload_RstStream (ErrorCode_into_code code)) in
      case Streams_send_local_reset (cm_streams m) sid of
        (s, StreamEnd_OK) \<Rightarrow>
          (case send_input send (set_streams s m) frame of
             (m, Ok _) \<Rightarrow>
               (case to_stream resp_send m sid (Resp_OutputExit (Dispatch_H2 (StreamError sid code))) of
                  (m, Ready _) \<Rightarrow> (m, Ready (Ok ()))
                | (m, Pending) \<Rightarrow> (m\<lparr>cm_state := Manager_Send, cm_next_state := Manager_Receive\<rparr>, Pending))
           | (m, r) \<Rightarrow> (m, Ready r))
      | (s, StreamEnd_Ignore) \<Rightarrow> (set_streams s m, Ready (Ok ()))
      | (s, StreamEnd_Err e) \<Rightarrow> (set_streams s m, Ready (Err (Dispatch_H2 e))))"

text \<open>Telling the tasks of several streams that the connection ends; the result says whether one is blocked.\<close>

fun exit_streams :: "'r resp_channel \<Rightarrow> DispatchErrorKind \<Rightarrow> StreamId list \<Rightarrow> ('b, 'r, 'c) ConnManager \<Rightarrow> bool \<Rightarrow>
    ('b, 'r, 'c) ConnManager \<times> bool" where
  "exit_streams resp_send error [] m blocked = (m, blocked)"
| "exit_streams resp_send error (sid # ids) m blocked =
     (case to_stream resp_send m sid (Resp_OutputExit error) of
        (m, Ready _) \<Rightarrow> exit_streams resp_send error ids m blocked
      | (m, Pending) \<Rightarrow> exit_streams resp_send error ids m True)"

definition exit_with_error ::
    "'r resp_channel \<Rightarrow> ((StreamId \<rightharpoonup> 'b Stream) \<Rightarrow> StreamId list) \<Rightarrow> ('b, 'r, 'c) ConnManager \<Rightarrow> DispatchErrorKind \<Rightarrow>
     ('b, 'r, 'c) ConnManager \<times> bool" where
  "exit_with_error resp_send keys m error =
     (let m = m\<lparr>cm_controller := StreamController_shutdown (cm_controller m), cm_req_closed := True\<rparr>;
          m = set_streams (Streams_clear_streams_states (cm_streams m)) m
      in case Streams_get_all_unclosed_streams keys (cm_streams m) of
           (s, ids) \<Rightarrow> exit_streams resp_send error ids (set_streams s m) False)"

definition manage_conn_error ::
    "'r resp_channel \<Rightarrow> ('c \<Rightarrow> Frame \<Rightarrow> 'c option) \<Rightarrow> ((StreamId \<rightharpoonup> 'b Stream) \<Rightarrow> StreamId list) \<Rightarrow>
     ('b, 'r, 'c) ConnManager \<Rightarrow> ErrorCode \<Rightarrow> ('b, 'r, 'c) ConnManager \<times> dispatch_poll" where
  "manage_conn_error resp_send send keys m code =
     (let go_away_payload = \<lparr>goaway_error_code = ErrorCode_into_code code,
                             goaway_last_stream_id = ss_latest_remote_id (cm_streams m),
                             goaway_debug_data = []\<rparr>;
          frame = Frame_new 0 FrameFlags_empty (Payload_Goaway go_away_payload);
          same = (case sc_going_away (cm_controller m) of
                    None \<Rightarrow> False
                  | Some go_away \<Rightarrow>
                      goaway_error_code go_away = goaway_error_code go_away_payload
                      \<and> goaway_last_stream_id go_away = goaway_last_stream_id go_away_payload)
      in if same then (m, Ready (Ok ()))
         else
           case send_input send
                  (m\<lparr>cm_controller := (cm_controller m)\<lparr>sc_going_away := Some go_away_payload\<rparr>\<rparr>) frame of
             (m, Ok _) \<Rightarrow>
               let error = Dispatch_H2 (ConnectionError code) in
               (case exit_with_error resp_send keys m error of
                  (m, True) \<Rightarrow> (m\<lparr>cm_state := Manager_Send, cm_next_state := Manager_Exit error\<rparr>, Pending)
                | (m, False) \<Rightarrow> (m, Ready (Err error)))
           | (m, r) \<Rightarrow> (m, Ready r))"

definition manage_resp_error ::
    "'r resp_channel \<Rightarrow> ('c \<Rightarrow> Frame \<Rightarrow> 'c option) \<Rightarrow> ((StreamId \<rightharpoonup> 'b Stream) \<Rightarrow> StreamId list) \<Rightarrow>
     ('b, 'r, 'c) ConnManager \<Rightarrow> DispatchErrorKind \<Rightarrow> ('b, 'r, 'c) ConnManager \<times> dispatch_poll" where
  "manage_resp_error resp_send send keys m kind =
     (case kind of
        Dispatch_H2 (StreamError sid code) \<Rightarrow> manage_stream_error resp_send send m sid code
      | Dispatch_H2 (ConnectionError code) \<Rightarrow> manage_conn_error resp_send send keys m code
      | other \<Rightarrow>
          (case exit_with_error resp_send keys m other of
             (m, True) \<Rightarrow> (m\<lparr>cm_state := Manager_Send, cm_next_state := Manager_Exit other\<rparr>, Pending)
           | (m, False) \<Rightarrow> (m, Ready (Err other))))"

definition poll_channel_closed_exit ::
    "'r resp_channel \<Rightarrow> ((StreamId \<rightharpoonup> 'b Stream) \<Rightarrow> StreamId list) \<Rightarrow> ('b, 'r, 'c) ConnManager \<Rightarrow>
     ('b, 'r, 'c) ConnManager \<times> dispatch_poll" where
  "poll_channel_closed_exit resp_send keys m =
     (case exit_with_error resp_send keys m ChannelClosed of
        (m, True) \<Rightarrow> (m\<lparr>cm_state := Manager_Send, cm_next_state := Manager_Exit ChannelClosed\<rparr>, Pending)
      | (m, False) \<Rightarrow> (m, Ready (Err ChannelClosed)))"

definition deal_poll_body_error ::
    "'r resp_channel \<Rightarrow> ('c \<Rightarrow> Frame \<Rightarrow> 'c option) \<Rightarrow> ('b, 'r, 'c) ConnManager \<Rightarrow> H2Error \<Rightarrow>
     ('b, 'r, 'c) ConnManager \<times> (unit, DispatchErrorKind) rust_result" where
  "deal_poll_body_error resp_send send m e =
     (case e of
        StreamError sid code \<Rightarrow>
          (case manage_stream_error resp_send send m sid code of
             (m, Ready res) \<Rightarrow> (m, res)
           | (m, Pending) \<Rightarrow> (m, Ok ()))
      | ConnectionError code \<Rightarrow> (m, Err (Dispatch_H2 (ConnectionError code))))"

definition send_peer_goaway ::
    "('c \<Rightarrow> Frame \<Rightarrow> 'c option) \<Rightarrow> ('b, 'r, 'c) ConnManager \<Rightarrow> Frame \<Rightarrow> Goaway \<Rightarrow> u32 \<Rightarrow>
     ('b, 'r, 'c) ConnManager \<times> (unit, DispatchErrorKind) rust_result" where
  "send_peer_goaway send m frame payload err_code =
     (let new = (case sc_going_away (cm_controller m) of
                   None \<Rightarrow> True
                 | Some go_away \<Rightarrow>
                     \<not> (goaway_error_code go_away = err_code
                        \<and> goaway_last_stream_id go_away = ss_latest_remote_id (cm_streams m)))
      in if new
         then send_input send (m\<lparr>cm_controller := (cm_controller m)\<lparr>sc_going_away := Some payload\<rparr>\<rparr>) frame
         else (m, Ok ()))"

definition poll_deal_with_go_away ::
    "('c \<Rightarrow> Frame \<Rightarrow> 'c option) \<Rightarrow> ((StreamId \<rightharpoonup> 'b Stream) \<Rightarrow> StreamId list) \<Rightarrow> ('b, 'r, 'c) ConnManager \<Rightarrow> u32 \<Rightarrow>
     ('b, 'r, 'c) ConnManager \<times> (unit, DispatchErrorKind) rust_result" where
  "poll_deal_with_go_away send keys m error_code =
     (if Streams_is_closed keys (cm_streams m) then
        let go_away_payload = \<lparr>goaway_error_code = error_code,
                               goaway_last_stream_id = ss_latest_remote_id (cm_streams m),
                               goaway_debug_data = []\<rparr>;
            frame = Frame_new 0 FrameFlags_empty (Payload_Goaway go_away_payload)
        in (case send_peer_goaway send m frame go_away_payload error_code of
              (m, Ok _) \<Rightarrow>
                let m = m\<lparr>cm_controller := StreamController_shutdown (cm_controller m)\<rparr> in
                (case ErrorCode_try_from error_code of
                   Ok code \<Rightarrow> (m, Err (Dispatch_H2 (ConnectionError code)))
                 | Err e \<Rightarrow> (m, Err (Dispatch_H2 e))
                 | Panic \<Rightarrow> (m, Panic))
            | (m, r) \<Rightarrow> (m, r))
      else (m, Ok ()))"

section \<open>Received frames\<close>

fun apply_acknowledged :: "Settings \<Rightarrow> 'b Streams \<Rightarrow> 'b Streams" where
  "apply_acknowledged [] s = s"
| "apply_acknowledged (setting # rest) s =
     (case setting of
        InitialWindowSize n \<Rightarrow> apply_acknowledged rest (Streams_apply_recv_initial_window_size s n)
      | _ \<Rightarrow> apply_acknowledged rest s)"

fun apply_peer_settings ::
    "((StreamId \<rightharpoonup> 'b Stream) \<Rightarrow> StreamId list) \<Rightarrow> (StreamId set \<Rightarrow> StreamId list) \<Rightarrow> Settings \<Rightarrow>
     'b Streams \<Rightarrow> 'b Streams \<times> (unit, H2Error) rust_result" where
  "apply_peer_settings keys elems [] s = (s, Ok ())"
| "apply_peer_settings keys elems (setting # rest) s =
     (case setting of
        MaxConcurrentStreams num \<Rightarrow>
          apply_peer_settings keys elems rest (Streams_apply_max_concurrent_streams s num)
      | InitialWindowSize n \<Rightarrow>
          (case Streams_apply_send_initial_window_size keys elems s n of
             (s, Ok _) \<Rightarrow> apply_peer_settings keys elems rest s
           | (s, r) \<Rightarrow> (s, r))
      | _ \<Rightarrow> apply_peer_settings keys elems rest s)"

definition recv_settings_frame ::
    "('c \<Rightarrow> Frame \<Rightarrow> 'c option) \<Rightarrow> ((StreamId \<rightharpoonup> 'b Stream) \<Rightarrow> StreamId list) \<Rightarrow> (StreamId set \<Rightarrow> StreamId list) \<Rightarrow>
     ('b, 'r, 'c) ConnManager \<Rightarrow> Frame \<Rightarrow> ('b, 'r, 'c) ConnManager \<times> (unit, DispatchErrorKind) rust_result" where
  "recv_settings_frame send keys elems m frame =
     (case frame_payload frame of
        Payload_Settings settings \<Rightarrow>
          if FrameFlags_is_ack (frame_flags frame) then
            let m = (case cm_settings m of
                       Acknowledging acknowledged \<Rightarrow>
                         set_streams (apply_acknowledged acknowledged (cm_streams m)) m
                     | Synced \<Rightarrow> m)
            in (m\<lparr>cm_settings := Synced\<rparr>, Ok ())
          else
            (case apply_peer_settings keys elems settings (cm_streams m) of
               (s, Ok _) \<Rightarrow>
                 send_input send (set_streams s m)
                   (Frame_new (frame_id frame) (FrameFlags 0x1) (frame_payload frame))
             | (s, Err e) \<Rightarrow> (set_streams s m, Err (Dispatch_H2 e))
             | (s, Panic) \<Rightarrow> (set_streams s m, Panic))
      | _ \<Rightarrow> (m, Ok ()))"

definition recv_ping_frame ::
    "('c \<Rightarrow> Frame \<Rightarrow> 'c option) \<Rightarrow> ('b, 'r, 'c) ConnManager \<Rightarrow> Frame \<Rightarrow>
     ('b, 'r, 'c) ConnManager \<times> (unit, DispatchErrorKind) rust_result" where
  "recv_ping_frame send m frame =
     (case frame_payload frame of
        Payload_Ping ping \<Rightarrow>
          if FrameFlags_is_ack (frame_flags frame) then (m, Ok ())
          else send_input send m (Ping_ack ping)
      | _ \<Rightarrow> (m, Ok ()))"

definition recv_go_away_frame ::
    "'r resp_channel \<Rightarrow> ((StreamId \<rightharpoonup> 'b Stream) \<Rightarrow> StreamId list) \<Rightarrow> ('b, 'r, 'c) ConnManager \<Rightarrow> Frame \<Rightarrow>
     ('b, 'r, 'c) ConnManager \<times> (unit, H2Error) rust_result poll" where
  "recv_go_away_frame resp_send keys m frame =
     (case frame_payload frame of
        Payload_Goaway go_away \<Rightarrow>
          let m = m\<lparr>cm_controller := StreamController_goaway (cm_controller m), cm_req_closed := True\<rparr> in
          (case StreamController_get_unsent_streams keys (cm_controller m) (goaway_last_stream_id go_away) of
             (c, Ok ids) \<Rightarrow>
               let m = m\<lparr>cm_controller := c\<rparr> in
               (case ErrorCode_try_from (goaway_error_code go_away) of
                  Ok code \<Rightarrow>
                    (case exit_streams resp_send (Dispatch_H2 (ConnectionError code)) ids m False of
                       (m, blocked) \<Rightarrow>
                         (m\<lparr>cm_controller := (cm_controller m)
                              \<lparr>sc_go_away_error_code := Some (goaway_error_code go_away)\<rparr>\<rparr>,
                          if blocked then Pending else Ready (Ok ())))
                | Err e \<Rightarrow> (m, Ready (Err e))
                | Panic \<Rightarrow> (m, Ready Panic))
           | (c, Err e) \<Rightarrow> (m\<lparr>cm_controller := c\<rparr>, Ready (Err e))
           | (c, Panic) \<Rightarrow> (m\<lparr>cm_controller := c\<rparr>, Ready Panic))
      | _ \<Rightarrow> (m, Ready (Ok ())))"

definition recv_reset_frame ::
    "'r resp_channel \<Rightarrow> ('b, 'r, 'c) ConnManager \<Rightarrow> Frame \<Rightarrow> ('b, 'r, 'c) ConnManager \<times> (unit, H2Error) rust_result poll" where
  "recv_reset_frame resp_send m frame =
     (case Streams_recv_remote_reset (cm_streams m) (frame_id frame) of
        (s, StreamEnd_OK) \<Rightarrow> to_stream resp_send (set_streams s m) (frame_id frame) (Resp_Output frame)
      | (s, StreamEnd_Err e) \<Rightarrow> (set_streams s m, Ready (Err e))
      | (s, StreamEnd_Ignore) \<Rightarrow> (set_streams s m, Ready (Ok ())))"

definition recv_header_frame ::
    "'r resp_channel \<Rightarrow> ('b, 'r, 'c) ConnManager \<Rightarrow> Frame \<Rightarrow> ('b, 'r, 'c) ConnManager \<times> (unit, H2Error) rust_result poll" where
  "recv_header_frame resp_send m frame =
     (case Streams_recv_headers (cm_streams m) (frame_id frame)
             (FrameFlags_is_end_stream (frame_flags frame)) of
        (s, FrameRecv_OK) \<Rightarrow> to_stream resp_send (set_streams s m) (frame_id frame) (Resp_Output frame)
      | (s, FrameRecv_Err e) \<Rightarrow> (set_streams s m, Ready (Err e))
      | (s, FrameRecv_Ignore) \<Rightarrow> (set_streams s m, Ready (Ok ())))"

definition update_window ::
    "('c \<Rightarrow> Frame \<Rightarrow> 'c option) \<Rightarrow> ('b, 'r, 'c) ConnManager \<Rightarrow> StreamId \<Rightarrow> u32 \<Rightarrow>
     ('b, 'r, 'c) ConnManager \<times> (unit, DispatchErrorKind) rust_result" where
  "update_window send m sid len =
     (case Streams_release_conn_recv_window send (cm_streams m) (cm_input_tx m) len of
        (s, tx, Ok _) \<Rightarrow>
          (case Streams_release_stream_recv_window send s tx sid len of
             (s, tx, r) \<Rightarrow> ((set_streams s m)\<lparr>cm_input_tx := tx\<rparr>, r))
      | (s, tx, r) \<Rightarrow> ((set_streams s m)\<lparr>cm_input_tx := tx\<rparr>, r))"

text \<open>\<open>map_err(Into::into)\<close> on the result of a handler.\<close>

definition into_dispatch :: "(unit, H2Error) rust_result poll \<Rightarrow> dispatch_poll" where
  "into_dispatch r =
     (case r of
        Ready (Ok _) \<Rightarrow> Ready (Ok ())
      | Ready (Err e) \<Rightarrow> Ready (Err (Dispatch_H2 e))
      | Ready Panic \<Rightarrow> Ready Panic
      | Pending \<Rightarrow> Pending)"

definition recv_data_frame ::
    "'r resp_channel \<Rightarrow> ('c \<Rightarrow> Frame \<Rightarrow> 'c option) \<Rightarrow> ('b, 'r, 'c) ConnManager \<Rightarrow> Frame \<Rightarrow>
     ('b, 'r, 'c) ConnManager \<times> dispatch_poll" where
  "recv_data_frame resp_send send m frame =
     (case frame_payload frame of
        Payload_Data data \<Rightarrow>
          (case update_window send m (frame_id frame) (word_of_nat (length data)) of
             (m, Ok _) \<Rightarrow>
               (case Streams_recv_data (cm_streams m) (frame_id frame)
                       (FrameFlags_is_end_stream (frame_flags frame)) of
                  (s, FrameRecv_OK) \<Rightarrow>
                    (case to_stream resp_send (set_streams s m) (frame_id frame) (Resp_Output frame) of
                       (m, r) \<Rightarrow> (m, into_dispatch r))
                | (s, FrameRecv_Ignore) \<Rightarrow> (set_streams s m, Ready (Ok ()))
                | (s, FrameRecv_Err e) \<Rightarrow> (set_streams s m, Ready (Err (Dispatch_H2 e))))
           | (m, r) \<Rightarrow> (m, Ready r))
      | _ \<Rightarrow> (m, Ready (Ok ())))"

definition recv_window_frame ::
    "('b, 'r, 'c) ConnManager \<Rightarrow> Frame \<Rightarrow> ('b, 'r, 'c) ConnManager \<times> (unit, DispatchErrorKind) rust_result" where
  "recv_window_frame m frame =
     (case frame_payload frame of
        Payload_WindowUpdate increment \<Rightarrow>
          (let (s, r) = (if frame_id frame = 0
                         then (case Streams_increase_conn_send_window (cm_streams m) increment of
                                 (s, Ok _) \<Rightarrow> (Streams_reassign_conn_send_window s, Ok ())
                               | (s, r) \<Rightarrow> (s, r))
                         else Streams_reassign_stream_send_window (cm_streams m) (frame_id frame) increment)
           in (set_streams s m,
               case r of Ok _ \<Rightarrow> Ok () | Err e \<Rightarrow> Err (Dispatch_H2 e) | Panic \<Rightarrow> Panic))
      | _ \<Rightarrow> (m, Ok ()))"

definition poll_recv_frame ::
    "'r resp_channel \<Rightarrow> ('c \<Rightarrow> Frame \<Rightarrow> 'c option) \<Rightarrow> ((StreamId \<rightharpoonup> 'b Stream) \<Rightarrow> StreamId list) \<Rightarrow>
     (StreamId set \<Rightarrow> StreamId list) \<Rightarrow> ('b, 'r, 'c) ConnManager \<Rightarrow> Frame \<Rightarrow> ('b, 'r, 'c) ConnManager \<times> dispatch_poll" where
  "poll_recv_frame resp_send send keys elems m frame =
     (case frame_payload frame of
        Payload_Settings _ \<Rightarrow>
          (case recv_settings_frame send keys elems m frame of (m, r) \<Rightarrow> (m, Ready r))
      | Payload_Ping _ \<Rightarrow> (case recv_ping_frame send m frame of (m, r) \<Rightarrow> (m, Ready r))
      | Payload_PushPromise _ \<Rightarrow> (m, Ready (Err (Dispatch_H2 (ConnectionError ProtocolError))))
      | Payload_Goaway _ \<Rightarrow>
          (case recv_go_away_frame resp_send keys m frame of (m, r) \<Rightarrow> (m, into_dispatch r))
      | Payload_RstStream _ \<Rightarrow>
          (case recv_reset_frame resp_send m frame of (m, r) \<Rightarrow> (m, into_dispatch r))
      | Payload_Headers _ \<Rightarrow>
          (case recv_header_frame resp_send m frame of (m, r) \<Rightarrow> (m, into_dispatch r))
      | Payload_Data _ \<Rightarrow> recv_data_frame resp_send send m frame
      | Payload_WindowUpdate _ \<Rightarrow> (case recv_window_frame m frame of (m, r) \<Rightarrow> (m, Ready r))
      | Payload_Priority _ \<Rightarrow> (m, Ready (Ok ())))"

definition poll_recv_message ::
    "'r resp_channel \<Rightarrow> ('c \<Rightarrow> Frame \<Rightarrow> 'c option) \<Rightarrow> ((StreamId \<rightharpoonup> 'b Stream) \<Rightarrow> StreamId list) \<Rightarrow>
     (StreamId set \<Rightarrow> StreamId list) \<Rightarrow> ('b, 'r, 'c) ConnManager \<Rightarrow> Frame \<Rightarrow> ('b, 'r, 'c) ConnManager \<times> dispatch_poll" where
  "poll_recv_message resp_send send keys elems m frame =
     (case poll_recv_frame resp_send send keys elems m frame of
        (m, Ready (Err kind)) \<Rightarrow> manage_resp_error resp_send send keys m kind
      | (m, Pending) \<Rightarrow> (m\<lparr>cm_state := Manager_Send, cm_next_state := Manager_Receive\<rparr>, Pending)
      | (m, Ready r) \<Rightarrow> (m, Ready r))"

definition poll_blocked_frames ::
    "'r resp_channel \<Rightarrow> ('c \<Rightarrow> Frame \<Rightarrow> 'c option) \<Rightarrow> ((StreamId \<rightharpoonup> RespMessage) \<Rightarrow> StreamId list) \<Rightarrow>
     ('b, 'r, 'c) ConnManager \<Rightarrow> ('b, 'r, 'c) ConnManager \<times> unit poll" where
  "poll_blocked_frames resp_send send message_keys m =
     (case StreamController_poll_blocked_message resp_send send message_keys (cm_controller m) (cm_input_tx m) of
        (c, tx, Ready _) \<Rightarrow>
          (m\<lparr>cm_controller := c, cm_input_tx := tx, cm_state := cm_next_state m,
             cm_next_state := Manager_Receive\<rparr>, Ready ())
      | (c, tx, Pending) \<Rightarrow> (m\<lparr>cm_controller := c, cm_input_tx := tx\<rparr>, Pending))"

section \<open>Sending the pending streams\<close>

text \<open>The bytes that the window of a stream still allows; the loop below consumes some in each round.\<close>

definition stream_vacant :: "'b Streams \<Rightarrow> StreamId \<Rightarrow> nat" where
  "stream_vacant s sid =
     (case ss_stream_map s sid of
        None \<Rightarrow> 0
      | Some stream \<Rightarrow> unat (SendWindow_size_available (st_send_window stream)))"

lemma map_stream_vacant [simp]:
  "(\<And>x. st_send_window (f x) = st_send_window x) \<Longrightarrow> stream_vacant (map_stream sid' f s) sid = stream_vacant s sid"
  by (auto simp: stream_vacant_def map_stream_def split: option.split)

lemma stream_vacant_decrease [simp]:
  "stream_vacant (Streams_decrease_current_concurrency s) sid = stream_vacant s sid"
  by (simp add: stream_vacant_def Streams_decrease_current_concurrency_def)

lemma stream_vacant_set_state [simp]: "stream_vacant (set_state sid' st s) sid = stream_vacant s sid"
  by (simp add: set_state_def)

lemma cm_streams_simps [simp]:
  "cm_streams (set_streams s m) = s" "cm_streams (m\<lparr>cm_input_tx := tx\<rparr>) = cm_streams m"
  "cm_streams (m\<lparr>cm_state := st\<rparr>) = cm_streams m" "cm_streams (m\<lparr>cm_next_state := st\<rparr>) = cm_streams m"
  "cm_streams (m\<lparr>cm_settings := se\<rparr>) = cm_streams m" "cm_streams (m\<lparr>cm_req_closed := b\<rparr>) = cm_streams m"
  by (simp_all add: cm_streams_def set_streams_def)

lemma send_input_streams [simp]: "cm_streams (fst (send_input send m frame)) = cm_streams m"
  by (simp add: send_input_def split: prod.split)

lemma send_headers_vacant: "stream_vacant (fst (Streams_send_headers_frame s sid' eos)) sid = stream_vacant s sid"
  by (simp add: Streams_send_headers_frame_def split: option.split H2StreamState.split ActiveState.split)

lemma send_data_vacant: "stream_vacant (fst (Streams_send_data_frame s sid' eos)) sid = stream_vacant s sid"
  by (simp add: Streams_send_data_frame_def split: option.split H2StreamState.split ActiveState.split)

lemma poll_read_length:
  assumes "BodyDataRef_poll_read poll_body d n = (d', Ready (Ok bytes))"
  shows "length bytes \<le> n"
  using assms by (auto simp: BodyDataRef_poll_read_def split: option.splits prod.splits poll.splits rust_result.splits)

lemma send_data_available:
  assumes "0 < k" "k \<le> unat (SendWindow_size_available w)"
  shows "unat (SendWindow_size_available (SendWindow_send_data w (word_of_nat k))) < unat (SendWindow_size_available w)"
proof -
  let ?n = "word_of_nat k :: u32"
  have "k < 2 ^ LENGTH(32)" using assms(2) unsigned_less [of "SendWindow_size_available w"]
    by (rule order.strict_trans1)
  then have n: "unat ?n = k" by (simp add: unat_of_nat take_bit_nat_eq_self)
  then have u: "uint ?n = int k" by (metis uint_nat)
  have "int k \<le> int (unat (SendWindow_size_available w))" using assms(2) by linarith
  then have k: "int k \<le> max 0 (sint (sw_size w))" by (simp add: available_exact)
  have "sint (sw_size (SendWindow_send_data w ?n)) = sint (sw_size w) - int k"
    using send_data_exact [of ?n w] assms n u by simp
  then have "uint (SendWindow_size_available (SendWindow_send_data w ?n)) < uint (SendWindow_size_available w)"
    using assms(1) k by (simp add: available_exact)
  then show ?thesis by (simp add: word_less_def [symmetric] word_less_nat_alt)
qed

lemma poll_send_frame_streams:
  "cm_streams (fst (poll_send_frame send m frame)) =
     (case frame_payload frame of
        Payload_Headers _ \<Rightarrow>
          fst (Streams_send_headers_frame (cm_streams m) (frame_id frame) (FrameFlags_is_end_stream (frame_flags frame)))
      | Payload_Data _ \<Rightarrow>
          fst (Streams_send_data_frame (cm_streams m) (frame_id frame) (FrameFlags_is_end_stream (frame_flags frame)))
      | _ \<Rightarrow> cm_streams m)"
  by (cases "frame_payload frame")
    (simp_all add: poll_send_frame_def Let_def split: prod.split FrameRecvState.split)

lemma poll_send_frame_vacant:
  "stream_vacant (cm_streams (fst (poll_send_frame send m frame))) sid = stream_vacant (cm_streams m) sid"
  by (simp add: poll_send_frame_streams send_headers_vacant send_data_vacant split: Payload.split)

lemma poll_read_body_Ready:
  assumes "Streams_poll_read_body poll_body s sid = (s', Ok (Read_Ready frame))"
  shows "stream_vacant s' sid < stream_vacant s sid"
proof -
  obtain stream where stream: "ss_stream_map s sid = Some stream"
    using assms by (cases "ss_stream_map s sid") (simp_all add: Streams_poll_read_body_def)
  let ?w = "st_send_window stream" and ?k = "FlowControl_send_size_available (ss_flow_control s)"
  define len where "len = min (min (unat (SendWindow_size_available ?w)) ?k) BODY_MAX_FRAME_SIZE"
  have sized: "Streams_poll_sized_data poll_body s sid len = (s', Ok (Read_Ready frame))"
    using assms stream by (auto simp: Streams_poll_read_body_def len_def Let_def split: if_splits)
  obtain data r where read: "BodyDataRef_poll_read poll_body (st_data stream) len = (data, r)" by fastforce
  have r: "\<exists>bytes. r = Ready (Ok bytes) \<and> 0 < length bytes
      \<and> st_send_window (the (ss_stream_map s' sid)) = SendWindow_send_data ?w (word_of_nat (length bytes))
      \<and> ss_stream_map s' sid \<noteq> None"
    using sized stream read
    by (auto simp: Streams_poll_sized_data_def map_stream_def Let_def split: poll.splits rust_result.splits if_splits)
  then obtain bytes where bytes: "r = Ready (Ok bytes)" "0 < length bytes"
    and s': "st_send_window (the (ss_stream_map s' sid)) = SendWindow_send_data ?w (word_of_nat (length bytes))"
      "ss_stream_map s' sid \<noteq> None" by blast
  have "length bytes \<le> len" by (rule poll_read_length [OF read [unfolded bytes(1)]])
  then have "length bytes \<le> unat (SendWindow_size_available ?w)" by (simp add: len_def)
  from send_data_available [OF bytes(2) this] s' stream show ?thesis
    by (auto simp: stream_vacant_def)
qed

function input_body ::
    "('b \<Rightarrow> nat \<Rightarrow> 'b \<times> (bytes, unit) rust_result poll) \<Rightarrow> 'r resp_channel \<Rightarrow> ('c \<Rightarrow> Frame \<Rightarrow> 'c option) \<Rightarrow>
     ('b, 'r, 'c) ConnManager \<Rightarrow> StreamId \<Rightarrow> ('b, 'r, 'c) ConnManager \<times> (unit, DispatchErrorKind) rust_result" where
  "input_body poll_body resp_send send m sid =
     (case Streams_poll_read_body poll_body (cm_streams m) sid of
        (s, Ok Read_Closed) \<Rightarrow> (set_streams s m, Ok ())
      | (s, Ok Read_Pending) \<Rightarrow> (set_streams s m, Ok ())
      | (s, Ok (Read_Ready data)) \<Rightarrow>
          (case poll_send_frame send (set_streams s m) data of
             (m', Ok _) \<Rightarrow> input_body poll_body resp_send send m' sid
           | (m', r) \<Rightarrow> (m', r))
      | (s, Ok (Read_Finish frame)) \<Rightarrow> poll_send_frame send (set_streams s m) frame
      | (s, Err e) \<Rightarrow> deal_poll_body_error resp_send send (set_streams s m) e
      | (s, Panic) \<Rightarrow> (set_streams s m, Panic))"
  by pat_completeness auto
termination
proof (relation "measure (\<lambda>(poll_body, resp_send, send, m, sid). stream_vacant (cm_streams m) sid)",
    goal_cases)
  case 1
  show ?case by simp
next
  case (2 poll_body resp_send send m sid s r read data m' q u)
  have "stream_vacant s sid < stream_vacant (cm_streams m) sid"
    by (rule poll_read_body_Ready [of poll_body _ _ _ data]) (use 2 in simp)
  moreover have "stream_vacant (cm_streams m') sid = stream_vacant s sid"
    using 2(4) [symmetric] poll_send_frame_vacant [of send "set_streams s m" data sid] by simp
  ultimately show ?case by simp
qed

declare input_body.simps [simp del]

definition input_stream_frame ::
    "('b \<Rightarrow> nat \<Rightarrow> 'b \<times> (bytes, unit) rust_result poll) \<Rightarrow> 'r resp_channel \<Rightarrow> ('c \<Rightarrow> Frame \<Rightarrow> 'c option) \<Rightarrow>
     ('b, 'r, 'c) ConnManager \<Rightarrow> StreamId \<Rightarrow> ('b, 'r, 'c) ConnManager \<times> (unit, DispatchErrorKind) rust_result" where
  "input_stream_frame poll_body resp_send send m sid =
     (case Streams_headers (cm_streams m) sid of
        (s, Ok None) \<Rightarrow> input_body poll_body resp_send send (set_streams s m) sid
      | (s, Ok (Some header)) \<Rightarrow>
          (case poll_send_frame send (set_streams s m) header of
             (m, Ok _) \<Rightarrow>
               if FrameFlags_is_end_stream (frame_flags header) then (m, Ok ())
               else input_body poll_body resp_send send m sid
           | (m, r) \<Rightarrow> (m, r))
      | (s, Err e) \<Rightarrow> (set_streams s m, Err (Dispatch_H2 e))
      | (s, Panic) \<Rightarrow> (set_streams s m, Panic))"

text \<open>The loop of \<open>poll_input_request\<close>, for as many streams as were pending when it began.\<close>

fun input_pending ::
    "('b \<Rightarrow> nat \<Rightarrow> 'b \<times> (bytes, unit) rust_result poll) \<Rightarrow> 'r resp_channel \<Rightarrow> ('c \<Rightarrow> Frame \<Rightarrow> 'c option) \<Rightarrow>
     nat \<Rightarrow> ('b, 'r, 'c) ConnManager \<Rightarrow> ('b, 'r, 'c) ConnManager \<times> (unit, DispatchErrorKind) rust_result" where
  "input_pending poll_body resp_send send 0 m = (m, Ok ())"
| "input_pending poll_body resp_send send (Suc n) m =
     (case Streams_next_pending_stream (cm_streams m) of
        (s, None) \<Rightarrow> (set_streams s m, Ok ())
      | (s, Some sid) \<Rightarrow>
          (case input_stream_frame poll_body resp_send send (set_streams s m) sid of
             (m, Ok _) \<Rightarrow> input_pending poll_body resp_send send n m
           | (m, r) \<Rightarrow> (m, r)))"

definition poll_input_request ::
    "('b \<Rightarrow> nat \<Rightarrow> 'b \<times> (bytes, unit) rust_result poll) \<Rightarrow> 'r resp_channel \<Rightarrow> ('c \<Rightarrow> Frame \<Rightarrow> 'c option) \<Rightarrow>
     ('b, 'r, 'c) ConnManager \<Rightarrow> ('b, 'r, 'c) ConnManager \<times> (unit, DispatchErrorKind) rust_result" where
  "poll_input_request poll_body resp_send send m =
     (let m = set_streams (Streams_try_consume_pending_concurrency (cm_streams m)) m
      in input_pending poll_body resp_send send (Streams_pending_stream_num (cm_streams m)) m)"

text \<open>
  The work done when no frame is waiting. \<open>requests\<close> and \<open>closed\<close> are what the request channel
  yields.
\<close>

definition manage_pending_state ::
    "('b \<Rightarrow> nat \<Rightarrow> 'b \<times> (bytes, unit) rust_result poll) \<Rightarrow> 'r resp_channel \<Rightarrow> ('c \<Rightarrow> Frame \<Rightarrow> 'c option) \<Rightarrow>
     ((StreamId \<rightharpoonup> 'b Stream) \<Rightarrow> StreamId list) \<Rightarrow> ('b, 'r, 'c) ConnManager \<Rightarrow> 'b RequestWrapper list \<Rightarrow> bool \<Rightarrow>
     ('b, 'r, 'c) ConnManager \<times> dispatch_poll" where
  "manage_pending_state poll_body resp_send send keys m requests closed =
     (case sc_go_away_error_code (cm_controller m) of
        Some error_code \<Rightarrow>
          (case poll_deal_with_go_away send keys m error_code of
             (m, Ok _) \<Rightarrow> (m, Pending)
           | (m, r) \<Rightarrow> (m, Ready r))
      | None \<Rightarrow>
          (case poll_recv_request m requests closed of
             (m, Ok _) \<Rightarrow>
               (case poll_input_request poll_body resp_send send m of
                  (m, Ok _) \<Rightarrow> (m, Pending)
                | (m, r) \<Rightarrow> (m, Ready r))
           | (m, r) \<Rightarrow> (m, Ready r)))"

section \<open>The task\<close>

text \<open>
  One round of the loop of \<open>ConnManager::poll\<close>, for what its channels yield: a frame, an error of
  the frame reader, the end of the frame reader's channel, or nothing, when the requests are looked
  at. A round in which the task ends with an error has no successor. Between two rounds the task of the
  frame writer may send SETTINGS of the client, which it notes in the state that it shares with the
  manager (\<open>SettingsSync\<close>).
\<close>

record ('b, 'r, 'c) environment =
  env_poll_body :: "'b \<Rightarrow> nat \<Rightarrow> 'b \<times> (bytes, unit) rust_result poll"
  env_resp_send :: "'r resp_channel"
  env_send :: "'c \<Rightarrow> Frame \<Rightarrow> 'c option"
  env_keys :: "(StreamId \<rightharpoonup> 'b Stream) \<Rightarrow> StreamId list"
  env_elems :: "StreamId set \<Rightarrow> StreamId list"
  env_message_keys :: "(StreamId \<rightharpoonup> RespMessage) \<Rightarrow> StreamId list"

datatype 'b manager_event =
    Event_Message OutputMessage
  | Event_Closed
  | Event_Idle "'b RequestWrapper list" bool
  | Event_Unblock
  | Event_Settings_Sent Settings

definition goes_on :: "dispatch_poll \<Rightarrow> bool" where
  "goes_on r \<longleftrightarrow> (case r of Pending \<Rightarrow> True | Ready (Ok _) \<Rightarrow> True | _ \<Rightarrow> False)"

inductive manager_step ::
    "('b, 'r, 'c) environment \<Rightarrow> ('b, 'r, 'c) ConnManager \<Rightarrow> 'b manager_event \<Rightarrow> ('b, 'r, 'c) ConnManager \<Rightarrow> bool"
  for env where
  blocked: "cm_state m = Manager_Send \<Longrightarrow>
    poll_blocked_frames (env_resp_send env) (env_send env) (env_message_keys env) m = (m', r) \<Longrightarrow>
    manager_step env m Event_Unblock m'"
| frame: "cm_state m = Manager_Receive \<Longrightarrow>
    poll_recv_message (env_resp_send env) (env_send env) (env_keys env) (env_elems env) m frame = (m', r) \<Longrightarrow>
    goes_on r \<Longrightarrow> manager_step env m (Event_Message (Output frame)) m'"
| ignored: "cm_state m = Manager_Receive \<Longrightarrow> sc_go_away_error_code (cm_controller m) \<noteq> None \<Longrightarrow>
    manager_step env m (Event_Message (OutputExit e)) m"
| error: "cm_state m = Manager_Receive \<Longrightarrow> sc_go_away_error_code (cm_controller m) = None \<Longrightarrow>
    manage_resp_error (env_resp_send env) (env_send env) (env_keys env) m e = (m', r) \<Longrightarrow>
    goes_on r \<Longrightarrow> manager_step env m (Event_Message (OutputExit e)) m'"
| closed: "cm_state m = Manager_Receive \<Longrightarrow>
    poll_channel_closed_exit (env_resp_send env) (env_keys env) m = (m', r) \<Longrightarrow>
    goes_on r \<Longrightarrow> manager_step env m Event_Closed m'"
| idle: "cm_state m = Manager_Receive \<Longrightarrow>
    manage_pending_state (env_poll_body env) (env_resp_send env) (env_send env) (env_keys env) m requests closed
      = (m', r) \<Longrightarrow>
    goes_on r \<Longrightarrow> manager_step env m (Event_Idle requests closed) m'"
| settings_sent: "manager_step env m (Event_Settings_Sent settings) (m\<lparr>cm_settings := Acknowledging settings\<rparr>)"

inductive manager_run ::
    "('b, 'r, 'c) environment \<Rightarrow> ('b, 'r, 'c) ConnManager \<Rightarrow> 'b manager_event list \<Rightarrow> ('b, 'r, 'c) ConnManager \<Rightarrow> bool"
  for env where
  start: "manager_run env m [] m"
| next_round: "manager_run env m es m1 \<Longrightarrow> manager_step env m1 e m2 \<Longrightarrow> manager_run env m (es @ [e]) m2"

text \<open>
  What the manager may rely on: a frame as the frame decoder yields it (a credit below \<open>2^31\<close>, an
  initial window of at most \<open>2^31 - 1\<close>), and requests whose first frame is HEADERS.
\<close>

definition setting_in_range :: "Setting \<Rightarrow> bool" where
  "setting_in_range setting \<longleftrightarrow> (case setting of InitialWindowSize n \<Rightarrow> unat n < 2147483648 | _ \<Rightarrow> True)"

definition frame_in_range :: "Frame \<Rightarrow> bool" where
  "frame_in_range frame \<longleftrightarrow>
     (case frame_payload frame of
        Payload_WindowUpdate n \<Rightarrow> unat n < 2147483648
      | Payload_Settings settings \<Rightarrow> list_all setting_in_range settings
      | _ \<Rightarrow> True)"

definition is_Headers :: "Payload \<Rightarrow> bool" where
  "is_Headers p \<longleftrightarrow> (case p of Payload_Headers _ \<Rightarrow> True | _ \<Rightarrow> False)"

definition event_in_range :: "'b manager_event \<Rightarrow> bool" where
  "event_in_range e \<longleftrightarrow>
     (case e of
        Event_Message (Output frame) \<Rightarrow> frame_in_range frame
      | Event_Idle requests closed \<Rightarrow> list_all (\<lambda>request. is_Headers (rq_payload request)) requests
      | _ \<Rightarrow> True)"

end
