(* ===== verification/H2_Send.thy ===== *)
theory H2_Send
  imports H2_Frame_Encoder H2_Manager
begin

text \<open>
  The task that writes frames to the connection (\<open>ylong_http_client/src/util/h2/input.rs\<close>). The writing half of the
  connection is a function \<open>poll_write\<close> on a state of its own: it is asked to write a slice and returns how much of
  it was taken, an error, or that it is not ready. The channel of frames is the list of those in it.
\<close>

section \<open>State\<close>

datatype InputState = RecvFrame | WriteFrame

datatype SettingState = Setting_Not | Setting_Local Settings | Setting_Ack

record WriteBuf =
  wb_buf :: bytes
  wb_end :: nat
  wb_start :: nat
  wb_empty :: bool

record SendData =
  sd_encoder :: FrameEncoder
  sd_settings :: SettingsState
  sd_req_rx :: "Frame list"
  sd_closed :: bool
  sd_state :: InputState
  sd_buf :: WriteBuf

type_synonym task_poll = "(unit, DispatchErrorKind) rust_result poll"

type_synonym 'w writer = "'w \<Rightarrow> bytes \<Rightarrow> 'w \<times> (nat, string) rust_result poll"

definition WriteBuf_new :: WriteBuf where
  "WriteBuf_new = \<lparr>wb_buf = replicate 1024 0, wb_end = 0, wb_start = 0, wb_empty = True\<rparr>"

definition WriteBuf_clear :: "WriteBuf \<Rightarrow> WriteBuf" where
  "WriteBuf_clear b = b\<lparr>wb_start := 0, wb_end := 0, wb_empty := True\<rparr>"

definition SendData_new :: "FrameEncoder \<Rightarrow> SettingsState \<Rightarrow> Frame list \<Rightarrow> SendData" where
  "SendData_new encoder settings req_rx =
     \<lparr>sd_encoder = encoder, sd_settings = settings, sd_req_rx = req_rx, sd_closed = False,
      sd_state = RecvFrame, sd_buf = WriteBuf_new\<rparr>"

section \<open>Writing\<close>

text \<open>
  The loop that offers a slice to the connection until all of it is taken; both loops of
  \<open>poll_writer_frame\<close> are of this form. The result contains the new start of the slice.
\<close>

partial_function (option) write_slice ::
    "'w writer \<Rightarrow> 'w \<Rightarrow> bytes \<Rightarrow> nat \<Rightarrow> nat \<Rightarrow> ('w \<times> nat \<times> task_poll) option" where
  "write_slice poll_write w buf start end1 =
     (if start > end1 \<or> end1 > length buf then Some (w, start, Ready Panic)
      else
        (case poll_write w (take (end1 - start) (drop start buf)) of
           (w, Ready (Ok written)) \<Rightarrow>
             if start + written = end1 then Some (w, start + written, Ready (Ok ()))
             else write_slice poll_write w buf (start + written) end1
         | (w, Ready (Err e)) \<Rightarrow> Some (w, start, Ready (Err (Dispatch_Io e)))
         | (w, Ready Panic) \<Rightarrow> Some (w, start, Ready Panic)
         | (w, Pending) \<Rightarrow> Some (w, start, Pending)))"

text \<open>The second loop of \<open>poll_writer_frame\<close>, which encodes into the buffer and writes it out.\<close>

partial_function (option) encode_frames :: "'w writer \<Rightarrow> 'w \<Rightarrow> SendData \<Rightarrow> ('w \<times> SendData \<times> task_poll) option" where
  "encode_frames poll_write w s =
     (case FrameEncoder_encode (sd_encoder s) (wb_buf (sd_buf s)) of
        (e, buf, Ok size1) \<Rightarrow>
          (let s = s\<lparr>sd_encoder := e, sd_buf := (sd_buf s)\<lparr>wb_buf := buf\<rparr>\<rparr>
           in if size1 = 0 then Some (w, s, Ready (Ok ()))
              else
                Option.bind (write_slice poll_write w buf 0 size1) (\<lambda>(w, index, r).
                  case r of
                    Ready (Ok _) \<Rightarrow> encode_frames poll_write w s
                  | Ready (Err x) \<Rightarrow> Some (w, s, Ready (Err x))
                  | Ready Panic \<Rightarrow> Some (w, s, Ready Panic)
                  | Pending \<Rightarrow>
                      Some (w, s\<lparr>sd_buf := (sd_buf s)\<lparr>wb_start := index, wb_end := size1, wb_empty := False\<rparr>\<rparr>, Pending)))
      | (e, buf, Err _) \<Rightarrow>
          Some (w, s\<lparr>sd_encoder := e, sd_buf := (sd_buf s)\<lparr>wb_buf := buf\<rparr>\<rparr>,
                Ready (Err (Dispatch_H2 (ConnectionError IntervalError))))
      | (e, buf, Panic) \<Rightarrow> Some (w, s\<lparr>sd_encoder := e, sd_buf := (sd_buf s)\<lparr>wb_buf := buf\<rparr>\<rparr>, Ready Panic))"

definition poll_writer_frame :: "'w writer \<Rightarrow> 'w \<Rightarrow> SendData \<Rightarrow> ('w \<times> SendData \<times> task_poll) option" where
  "poll_writer_frame poll_write w s =
     (if \<not> wb_empty (sd_buf s) then
        Option.bind (write_slice poll_write w (wb_buf (sd_buf s)) (wb_start (sd_buf s)) (wb_end (sd_buf s)))
          (\<lambda>(w, start, r).
             let s = s\<lparr>sd_buf := (sd_buf s)\<lparr>wb_start := start\<rparr>\<rparr>
             in case r of
                  Ready (Ok _) \<Rightarrow> encode_frames poll_write w (s\<lparr>sd_buf := WriteBuf_clear (sd_buf s)\<rparr>)
                | r \<Rightarrow> Some (w, s, r))
      else encode_frames poll_write w s)"

definition SendData_poll_recv_frame :: "SendData \<Rightarrow> SendData \<times> (Frame, DispatchErrorKind) rust_result poll" where
  "SendData_poll_recv_frame s =
     (case sd_req_rx s of
        frame # rest \<Rightarrow> (s\<lparr>sd_req_rx := rest\<rparr>, Ready (Ok frame))
      | [] \<Rightarrow> (s, if sd_closed s then Ready (Err ChannelClosed) else Pending))"

text \<open>The settings that the peer has announced are applied to the encoder when they are acknowledged.\<close>

fun apply_encoder_settings :: "FrameEncoder \<Rightarrow> Settings \<Rightarrow> FrameEncoder" where
  "apply_encoder_settings e [] = e"
| "apply_encoder_settings e (setting # settings) =
     apply_encoder_settings
       (case setting of
          HeaderTableSize size1 \<Rightarrow> FrameEncoder_update_header_table_size e (unat size1)
        | MaxFrameSize size1 \<Rightarrow> FrameEncoder_update_max_frame_size e (unat size1)
        | _ \<Rightarrow> e)
       settings"

definition SendData_update_settings :: "SendData \<Rightarrow> Frame \<Rightarrow> SendData \<times> SettingState" where
  "SendData_update_settings s frame =
     (case frame_payload frame of
        Payload_Settings settings \<Rightarrow>
          if FrameFlags_is_ack (frame_flags frame)
          then (s\<lparr>sd_encoder := apply_encoder_settings (sd_encoder s) settings\<rparr>, Setting_Ack)
          else (s, Setting_Local settings)
      | _ \<Rightarrow> (s, Setting_Not))"

text \<open>What \<open>poll\<close> does with a frame from the channel.\<close>

definition accept_frame :: "map_order \<Rightarrow> SendData \<Rightarrow> Frame \<Rightarrow> SendData \<times> (unit, DispatchErrorKind) rust_result" where
  "accept_frame order s frame =
     (case SendData_update_settings s frame of (s, state) \<Rightarrow>
        let s = (case state of Setting_Local settings \<Rightarrow> s\<lparr>sd_settings := Acknowledging settings\<rparr> | _ \<Rightarrow> s);
            frame = (case state of Setting_Ack \<Rightarrow> Settings_ack | _ \<Rightarrow> frame)
        in case FrameEncoder_set_frame order (sd_encoder s) frame of
             (e, Ok _) \<Rightarrow> (s\<lparr>sd_encoder := e, sd_state := WriteFrame\<rparr>, Ok ())
           | (e, Err _) \<Rightarrow> (s\<lparr>sd_encoder := e\<rparr>, Err (Dispatch_H2 (ConnectionError IntervalError)))
           | (e, Panic) \<Rightarrow> (s\<lparr>sd_encoder := e\<rparr>, Panic))"

partial_function (option) SendData_poll ::
    "'w writer \<Rightarrow> map_order \<Rightarrow> 'w \<Rightarrow> SendData \<Rightarrow> ('w \<times> SendData \<times> task_poll) option" where
  "SendData_poll poll_write order w s =
     (case sd_state s of
        RecvFrame \<Rightarrow>
          (case SendData_poll_recv_frame s of
             (s, Ready (Ok frame)) \<Rightarrow>
               (case accept_frame order s frame of
                  (s, Ok _) \<Rightarrow> SendData_poll poll_write order w s
                | (s, Err x) \<Rightarrow> Some (w, s, Ready (Err x))
                | (s, Panic) \<Rightarrow> Some (w, s, Ready Panic))
           | (s, Ready (Err x)) \<Rightarrow> Some (w, s, Ready (Err x))
           | (s, Ready Panic) \<Rightarrow> Some (w, s, Ready Panic)
           | (s, Pending) \<Rightarrow> Some (w, s, Pending))
      | WriteFrame \<Rightarrow>
          Option.bind (poll_writer_frame poll_write w s) (\<lambda>(w, s, r).
            case r of
              Ready (Ok _) \<Rightarrow> SendData_poll poll_write order w (s\<lparr>sd_state := RecvFrame\<rparr>)
            | r \<Rightarrow> Some (w, s, r)))"

end
