(* ===== verification/H2_Frame_Decoder.thy ===== *)
theory H2_Frame_Decoder
  imports H2_Frame Hpack_Decoder
begin

text \<open>
  The HTTP/2 frame decoder (\<open>ylong_http/src/h2/decoder.rs\<close>): bytes arrive in segments, a
  9-byte header and then its payload are assembled in a buffer, and every complete payload is
  decoded by its type. Header blocks go through the HPACK decoder. Every operation returns the
  decoder it leaves, also when it fails; an index or a slice out of range is a panic.
\<close>

section \<open>Constants and big-endian fields\<close>

definition FRAME_HEADER_LENGTH :: nat where "FRAME_HEADER_LENGTH = 9"
definition DEFAULT_MAX_FRAME_SIZE :: u32 where "DEFAULT_MAX_FRAME_SIZE = 16384"
definition MAX_ALLOWED_MAX_FRAME_SIZE :: u32 where "MAX_ALLOWED_MAX_FRAME_SIZE = 16777215"
definition DEFAULT_HEADER_TABLE_SIZE :: nat where "DEFAULT_HEADER_TABLE_SIZE = 4096"
definition DEFAULT_MAX_HEADER_LIST_SIZE :: nat where "DEFAULT_MAX_HEADER_LIST_SIZE = 16777216"
definition MAX_INITIAL_WINDOW_SIZE :: nat where "MAX_INITIAL_WINDOW_SIZE = 2147483647"

definition is_connection_frame :: "StreamId \<Rightarrow> bool" where
  "is_connection_frame sid \<longleftrightarrow> sid = 0"

definition get_stream_id :: "bytes \<Rightarrow> StreamId" where
  "get_stream_id token =
     push_bit 24 (ucast (token ! 0 AND 0x7f)) OR push_bit 16 (ucast (token ! 1))
       OR push_bit 8 (ucast (token ! 2)) OR ucast (token ! 3)"

definition get_code_value :: "bytes \<Rightarrow> u32" where
  "get_code_value token =
     push_bit 24 (ucast (token ! 0)) OR push_bit 16 (ucast (token ! 1))
       OR push_bit 8 (ucast (token ! 2)) OR ucast (token ! 3)"

definition get_setting :: "u16 \<Rightarrow> u32 \<Rightarrow> (Setting option, H2Error) rust_result" where
  "get_setting sid value =
     (if sid = 1 then Ok (Some (HeaderTableSize value))
      else if sid = 2 then
        (if value = 0 then Ok (Some (EnablePush False))
         else if value = 1 then Ok (Some (EnablePush True))
         else Err (ConnectionError ProtocolError))
      else if sid = 3 then Ok (Some (MaxConcurrentStreams value))
      else if sid = 4 then
        (if unat value > MAX_INITIAL_WINDOW_SIZE then Err (ConnectionError FlowControlError)
         else Ok (Some (InitialWindowSize value)))
      else if sid = 5 then
        (if \<not> (DEFAULT_MAX_FRAME_SIZE \<le> value \<and> value \<le> MAX_ALLOWED_MAX_FRAME_SIZE)
         then Err (ConnectionError ProtocolError)
         else Ok (Some (MaxFrameSize value)))
      else if sid = 6 then Ok (Some (MaxHeaderListSize value))
      else Ok None)"

definition split_token_to_setting :: "bytes \<Rightarrow> (Setting option, H2Error) rust_result" where
  "split_token_to_setting token =
     (let sid = push_bit 8 (ucast (token ! 0)) OR ucast (token ! 1);
          value = get_code_value (take 4 (drop 2 token))
      in get_setting sid value)"

section \<open>The state\<close>

datatype FrameKind = Complete Frame | Partial

datatype Stage = Stage_Header | Stage_Payload

record FrameHeader =
  fh_stream_id :: StreamId
  fh_flags :: u8
  fh_frame_type :: u8
  fh_payload_length :: nat

record Continuations =
  co_flags :: u8
  co_is_end_stream :: bool
  co_stream_id :: StreamId
  co_is_end_headers :: bool
  co_promised_stream_id :: StreamId

record FrameDecoder =
  fd_buffer :: bytes
  fd_offset :: nat
  fd_max_frame_size :: u32
  fd_stage :: Stage
  fd_header :: FrameHeader
  fd_hpack :: HpackDecoder
  fd_continuations :: Continuations

definition FrameHeader_new :: FrameHeader where
  "FrameHeader_new =
     \<lparr>fh_stream_id = 0, fh_flags = 0, fh_frame_type = 0, fh_payload_length = 0\<rparr>"

definition FrameHeader_reset :: "FrameHeader \<Rightarrow> FrameHeader" where
  "FrameHeader_reset h =
     h\<lparr>fh_stream_id := 0, fh_flags := 0, fh_frame_type := 0, fh_payload_length := 0\<rparr>"

definition FrameHeader_is_end_stream :: "FrameHeader \<Rightarrow> bool" where
  "FrameHeader_is_end_stream h \<longleftrightarrow> END_STREAM_MASK AND fh_flags h = END_STREAM_MASK"

definition FrameHeader_is_padded :: "FrameHeader \<Rightarrow> bool" where
  "FrameHeader_is_padded h \<longleftrightarrow> PADDED_MASK AND fh_flags h = PADDED_MASK"

definition FrameHeader_is_end_headers :: "FrameHeader \<Rightarrow> bool" where
  "FrameHeader_is_end_headers h \<longleftrightarrow> END_HEADERS_MASK AND fh_flags h = END_HEADERS_MASK"

definition FrameHeader_is_headers_priority :: "FrameHeader \<Rightarrow> bool" where
  "FrameHeader_is_headers_priority h \<longleftrightarrow>
     HEADERS_PRIORITY_MASK AND fh_flags h = HEADERS_PRIORITY_MASK"

definition FrameHeader_is_ack :: "FrameHeader \<Rightarrow> bool" where
  "FrameHeader_is_ack h \<longleftrightarrow> ACK_MASK AND fh_flags h = ACK_MASK"

definition Continuations_new :: Continuations where
  "Continuations_new =
     \<lparr>co_flags = 0, co_is_end_stream = False, co_stream_id = 0, co_is_end_headers = True,
      co_promised_stream_id = 0\<rparr>"

definition Continuations_reset :: "Continuations \<Rightarrow> Continuations" where
  "Continuations_reset c =
     c\<lparr>co_flags := 0, co_is_end_stream := False, co_is_end_headers := True,
       co_stream_id := 0, co_promised_stream_id := 0\<rparr>"

definition FrameDecoder_new :: FrameDecoder where
  "FrameDecoder_new =
     \<lparr>fd_buffer = [], fd_offset = 0, fd_max_frame_size = DEFAULT_MAX_FRAME_SIZE,
      fd_stage = Stage_Header, fd_header = FrameHeader_new,
      fd_hpack = HpackDecoder_with_max_size DEFAULT_HEADER_TABLE_SIZE DEFAULT_MAX_HEADER_LIST_SIZE,
      fd_continuations = Continuations_new\<rparr>"

definition FrameDecoder_set_max_frame_size ::
    "FrameDecoder \<Rightarrow> u32 \<Rightarrow> FrameDecoder \<times> (unit, H2Error) rust_result" where
  "FrameDecoder_set_max_frame_size d size1 =
     (if \<not> (DEFAULT_MAX_FRAME_SIZE \<le> size1 \<and> size1 \<le> MAX_ALLOWED_MAX_FRAME_SIZE)
      then (d, Err (ConnectionError ProtocolError))
      else (d\<lparr>fd_max_frame_size := size1\<rparr>, Ok ()))"

definition FrameDecoder_set_max_header_list_size :: "FrameDecoder \<Rightarrow> nat \<Rightarrow> FrameDecoder" where
  "FrameDecoder_set_max_header_list_size d size1 =
     d\<lparr>fd_hpack := HpackDecoder_update_header_list_size (fd_hpack d) size1\<rparr>"

section \<open>Payloads\<close>

type_synonym payload_result = "FrameDecoder \<times> (FrameKind, H2Error) rust_result"

text \<open>
  Every payload decoder first joins what earlier segments left in the buffer with the last
  part of the payload.
\<close>

definition FrameDecoder_assemble :: "FrameDecoder \<Rightarrow> bytes \<Rightarrow> FrameDecoder \<times> bytes" where
  "FrameDecoder_assemble d buf =
     (if fd_offset d \<noteq> 0
      then (d\<lparr>fd_buffer := fd_buffer d @ buf, fd_offset := fd_offset d + length buf\<rparr>,
            fd_buffer d @ buf)
      else (d, buf))"

definition FrameDecoder_frame :: "FrameDecoder \<Rightarrow> Payload \<Rightarrow> FrameKind" where
  "FrameDecoder_frame d payload =
     Complete (Frame_new (fh_stream_id (fd_header d)) (FrameFlags (fh_flags (fd_header d))) payload)"

text \<open>\<open>&buf[a..b]\<close>, with \<open>None\<close> for the panic of a range outside the buffer.\<close>

definition slice_range :: "bytes \<Rightarrow> nat \<Rightarrow> nat \<Rightarrow> bytes option" where
  "slice_range buf a b = (if a \<le> b \<and> b \<le> length buf then Some (take (b - a) (drop a buf)) else None)"

definition FrameDecoder_hpack_decode ::
    "FrameDecoder \<Rightarrow> bytes \<Rightarrow> FrameDecoder \<times> (unit, H2Error) rust_result" where
  "FrameDecoder_hpack_decode d buf =
     (case HpackDecoder_decode (fd_hpack d) buf of (h, r) \<Rightarrow> (d\<lparr>fd_hpack := h\<rparr>, r))"

definition FrameDecoder_hpack_finish ::
    "FrameDecoder \<Rightarrow> FrameDecoder \<times> (Parts, H2Error) rust_result" where
  "FrameDecoder_hpack_finish d =
     (case HpackDecoder_finish (fd_hpack d) of (h, r) \<Rightarrow> (d\<lparr>fd_hpack := h\<rparr>, r))"

definition decode_ping_payload :: "FrameDecoder \<Rightarrow> bytes \<Rightarrow> payload_result" where
  "decode_ping_payload d buf =
     (if \<not> is_connection_frame (fh_stream_id (fd_header d))
      then (d, Err (ConnectionError ProtocolError))
      else case FrameDecoder_assemble d buf of (d, buf) \<Rightarrow>
        if fh_payload_length (fd_header d) \<noteq> 8 \<or> length buf \<noteq> 8
        then (d, Err (ConnectionError FrameSizeError))
        else (d, Ok (FrameDecoder_frame d (Payload_Ping buf))))"

definition decode_priority_payload :: "FrameDecoder \<Rightarrow> bytes \<Rightarrow> payload_result" where
  "decode_priority_payload d buf =
     (if is_connection_frame (fh_stream_id (fd_header d))
      then (d, Err (ConnectionError ProtocolError))
      else if fh_payload_length (fd_header d) \<noteq> 5 \<or> length buf \<noteq> 5
      then (d, Err (StreamError (fh_stream_id (fd_header d)) FrameSizeError))
      else case FrameDecoder_assemble d buf of (d, buf) \<Rightarrow>
        (d, Ok (FrameDecoder_frame d (Payload_Priority
                 \<lparr>prio_exclusive = (buf ! 0 AND 0x80 = 0x80),
                  prio_stream_dependency = get_stream_id (take 4 buf),
                  prio_weight = buf ! 4\<rparr>))))"

definition decode_goaway_payload :: "FrameDecoder \<Rightarrow> bytes \<Rightarrow> payload_result" where
  "decode_goaway_payload d buf =
     (if \<not> is_connection_frame (fh_stream_id (fd_header d))
      then (d, Err (ConnectionError ProtocolError))
      else case FrameDecoder_assemble d buf of (d, buf) \<Rightarrow>
        if fh_payload_length (fd_header d) < 8 \<or> length buf < 8
        then (d, Err (ConnectionError FrameSizeError))
        else (d, Ok (FrameDecoder_frame d (Payload_Goaway
                 \<lparr>goaway_error_code = get_code_value (take 4 (drop 4 buf)),
                  goaway_last_stream_id = get_stream_id (take 4 buf),
                  goaway_debug_data = drop 8 buf\<rparr>))))"

definition decode_window_update_payload :: "FrameDecoder \<Rightarrow> bytes \<Rightarrow> payload_result" where
  "decode_window_update_payload d buf =
     (case FrameDecoder_assemble d buf of (d, buf) \<Rightarrow>
        if fh_payload_length (fd_header d) \<noteq> 4 \<or> length buf \<noteq> 4
        then (d, Err (ConnectionError FrameSizeError))
        else
          let increment_size =
                push_bit 24 (ucast (0x7f AND buf ! 0)) OR push_bit 16 (ucast (buf ! 1))
                  OR push_bit 8 (ucast (buf ! 2)) OR ucast (buf ! 3)
          in if increment_size = 0
             then (d, Err (StreamError (fh_stream_id (fd_header d)) ProtocolError))
             else (d, Ok (FrameDecoder_frame d (Payload_WindowUpdate increment_size))))"

definition decode_reset_payload :: "FrameDecoder \<Rightarrow> bytes \<Rightarrow> payload_result" where
  "decode_reset_payload d buf =
     (if is_connection_frame (fh_stream_id (fd_header d))
      then (d, Err (ConnectionError ProtocolError))
      else case FrameDecoder_assemble d buf of (d, buf) \<Rightarrow>
        if fh_payload_length (fd_header d) \<noteq> 4 \<or> length buf \<noteq> 4
        then (d, Err (ConnectionError FrameSizeError))
        else (d, Ok (FrameDecoder_frame d (Payload_RstStream (get_code_value (take 4 buf))))))"

text \<open>The loop over \<open>buf.chunks(6)\<close>; a shorter last chunk would be indexed out of range.\<close>

fun decode_settings_chunks :: "bytes \<Rightarrow> Settings \<Rightarrow> (Settings, H2Error) rust_result" where
  "decode_settings_chunks [] settings = Ok settings"
| "decode_settings_chunks (a # b # c # d # e # f # rest) settings =
     (case split_token_to_setting [a, b, c, d, e, f] of
        Ok (Some setting) \<Rightarrow> decode_settings_chunks rest (settings @ [setting])
      | Ok None \<Rightarrow> decode_settings_chunks rest settings
      | Err err \<Rightarrow> Err err
      | Panic \<Rightarrow> Panic)"
| "decode_settings_chunks _ settings = Panic"

definition decode_settings_payload :: "FrameDecoder \<Rightarrow> bytes \<Rightarrow> payload_result" where
  "decode_settings_payload d buf =
     (if \<not> is_connection_frame (fh_stream_id (fd_header d))
      then (d, Err (ConnectionError ProtocolError))
      else case FrameDecoder_assemble d buf of (d, buf) \<Rightarrow>
        if fh_payload_length (fd_header d) mod 6 \<noteq> 0
        then (d, Err (ConnectionError FrameSizeError))
        else if FrameHeader_is_ack (fd_header d)
        then (if fh_payload_length (fd_header d) \<noteq> 0 \<or> buf \<noteq> []
              then (d, Err (ConnectionError FrameSizeError))
              else (d, Ok (FrameDecoder_frame d (Payload_Settings []))))
        else (case decode_settings_chunks buf [] of
                Ok settings \<Rightarrow> (d, Ok (FrameDecoder_frame d (Payload_Settings settings)))
              | Err e \<Rightarrow> (d, Err e)
              | Panic \<Rightarrow> (d, Panic)))"

definition decode_data_payload :: "FrameDecoder \<Rightarrow> bytes \<Rightarrow> payload_result" where
  "decode_data_payload d buf =
     (if is_connection_frame (fh_stream_id (fd_header d))
      then (d, Err (ConnectionError ProtocolError))
      else case FrameDecoder_assemble d buf of (d, buf) \<Rightarrow>
        let payload_length = fh_payload_length (fd_header d) in
        if payload_length = 0 then (d, Ok (FrameDecoder_frame d (Payload_Data [])))
        else if FrameHeader_is_padded (fd_header d) then
          (case buf of
             [] \<Rightarrow> (d, Panic)
           | b # _ \<Rightarrow>
               if payload_length \<le> unat b then (d, Err (ConnectionError ProtocolError))
               else (case slice_range buf 1 (payload_length - unat b) of
                       None \<Rightarrow> (d, Panic)
                     | Some data \<Rightarrow> (d, Ok (FrameDecoder_frame d (Payload_Data data)))))
        else (case slice_range buf 0 payload_length of
                None \<Rightarrow> (d, Panic)
              | Some data \<Rightarrow> (d, Ok (FrameDecoder_frame d (Payload_Data data)))))"

definition continuation_framing :: "FrameDecoder \<Rightarrow> bytes \<Rightarrow> payload_result" where
  "continuation_framing d buf =
     (if FrameHeader_is_end_headers (fd_header d) then
        (case FrameDecoder_hpack_decode d buf of
           (d, Ok _) \<Rightarrow>
             (case FrameDecoder_hpack_finish d of
                (d, Ok headers) \<Rightarrow>
                  let c = fd_continuations d;
                      payload = (if co_promised_stream_id c \<noteq> 0
                        then Payload_PushPromise \<lparr>pp_promised_stream_id = co_promised_stream_id c,
                                                  pp_parts = headers\<rparr>
                        else Payload_Headers headers)
                  in (d\<lparr>fd_continuations := Continuations_reset c\<rparr>,
                      Ok (Complete (Frame_new (co_stream_id c) (FrameFlags (co_flags c)) payload)))
              | (d, Err e) \<Rightarrow> (d, Err e)
              | (d, Panic) \<Rightarrow> (d, Panic))
         | (d, Err e) \<Rightarrow> (d, Err e)
         | (d, Panic) \<Rightarrow> (d, Panic))
      else
        (case FrameDecoder_hpack_decode d buf of
           (d, Ok _) \<Rightarrow> (d, Ok Partial)
         | (d, Err e) \<Rightarrow> (d, Err e)
         | (d, Panic) \<Rightarrow> (d, Panic)))"

definition decode_continuation_payload :: "FrameDecoder \<Rightarrow> bytes \<Rightarrow> payload_result" where
  "decode_continuation_payload d buf =
     (if is_connection_frame (fh_stream_id (fd_header d))
      then (d, Err (ConnectionError ProtocolError))
      else case FrameDecoder_assemble d buf of (d, buf) \<Rightarrow> continuation_framing d buf)"

text \<open>
  The start and the end of the header block fragment in a HEADERS or PUSH_PROMISE payload:
  \<open>start0\<close> bytes precede it, one more when the frame is padded, and the padding follows it. An
  empty padded payload is indexed out of range.
\<close>

definition fragment_range :: "FrameDecoder \<Rightarrow> bytes \<Rightarrow> nat \<Rightarrow> (nat \<times> nat, H2Error) rust_result" where
  "fragment_range d buf start0 =
     (let payload_length = fh_payload_length (fd_header d) in
      if FrameHeader_is_padded (fd_header d) then
        (case buf of
           [] \<Rightarrow> Panic
         | b # _ \<Rightarrow>
             if payload_length \<le> unat b then Err (ConnectionError ProtocolError)
             else Ok (start0 + 1, payload_length - unat b))
      else Ok (start0, payload_length))"

definition headers_framing :: "FrameDecoder \<Rightarrow> bytes \<Rightarrow> payload_result" where
  "headers_framing d fragment =
     (if FrameHeader_is_end_headers (fd_header d) then
        (case FrameDecoder_hpack_decode d fragment of
           (d, Ok _) \<Rightarrow>
             (case FrameDecoder_hpack_finish d of
                (d, Ok headers) \<Rightarrow> (d, Ok (FrameDecoder_frame d (Payload_Headers headers)))
              | (d, Err e) \<Rightarrow> (d, Err e)
              | (d, Panic) \<Rightarrow> (d, Panic))
         | (d, Err e) \<Rightarrow> (d, Err e)
         | (d, Panic) \<Rightarrow> (d, Panic))
      else
        let h = fd_header d;
            d = d\<lparr>fd_continuations := (fd_continuations d)
                   \<lparr>co_flags := fh_flags h, co_is_end_stream := FrameHeader_is_end_stream h,
                    co_is_end_headers := False, co_stream_id := fh_stream_id h\<rparr>\<rparr>
        in (case FrameDecoder_hpack_decode d fragment of
              (d, Ok _) \<Rightarrow> (d, Ok Partial)
            | (d, Err e) \<Rightarrow> (d, Err e)
            | (d, Panic) \<Rightarrow> (d, Panic)))"

definition decode_headers_payload :: "FrameDecoder \<Rightarrow> bytes \<Rightarrow> payload_result" where
  "decode_headers_payload d buf =
     (if is_connection_frame (fh_stream_id (fd_header d))
      then (d, Err (ConnectionError ProtocolError))
      else case FrameDecoder_assemble d buf of (d, buf) \<Rightarrow>
        case fragment_range d buf 0 of
          Err e \<Rightarrow> (d, Err e)
        | Panic \<Rightarrow> (d, Panic)
        | Ok (start0, end_index) \<Rightarrow>
            let start = (if FrameHeader_is_headers_priority (fd_header d) then start0 + 5
                         else start0)
            in if start > end_index then (d, Err (ConnectionError ProtocolError))
               else (case slice_range buf start end_index of
                       None \<Rightarrow> (d, Panic)
                     | Some fragment \<Rightarrow> headers_framing d fragment))"

definition push_promise_framing :: "FrameDecoder \<Rightarrow> bool \<Rightarrow> StreamId \<Rightarrow> payload_result" where
  "push_promise_framing d end_headers promised_stream_id =
     (if end_headers then
        (case FrameDecoder_hpack_finish d of
           (d, Ok headers) \<Rightarrow>
             (d, Ok (FrameDecoder_frame d (Payload_PushPromise
                   \<lparr>pp_promised_stream_id = promised_stream_id, pp_parts = headers\<rparr>)))
         | (d, Err e) \<Rightarrow> (d, Err e)
         | (d, Panic) \<Rightarrow> (d, Panic))
      else
        (d\<lparr>fd_continuations := (fd_continuations d)
            \<lparr>co_flags := fh_flags (fd_header d), co_is_end_headers := False,
             co_stream_id := fh_stream_id (fd_header d),
             co_promised_stream_id := promised_stream_id\<rparr>\<rparr>, Ok Partial))"

text \<open>The rest of \<open>decode_push_promise_payload\<close>: the whole payload goes to the HPACK decoder.\<close>

definition promise_framing :: "FrameDecoder \<Rightarrow> bytes \<Rightarrow> payload_result" where
  "promise_framing d buf =
     (case FrameDecoder_hpack_decode d buf of
        (d, Ok _) \<Rightarrow>
          (case (if FrameHeader_is_padded (fd_header d) then slice_range buf 1 5
                 else slice_range buf 0 4) of
             None \<Rightarrow> (d, Panic)
           | Some token \<Rightarrow>
               let promised_stream_id = get_stream_id token in
               if is_connection_frame promised_stream_id
               then (d, Err (ConnectionError ProtocolError))
               else push_promise_framing d (FrameHeader_is_end_headers (fd_header d))
                      promised_stream_id)
      | (d, Err e) \<Rightarrow> (d, Err e)
      | (d, Panic) \<Rightarrow> (d, Panic))"

definition decode_push_promise_payload :: "FrameDecoder \<Rightarrow> bytes \<Rightarrow> payload_result" where
  "decode_push_promise_payload d buf =
     (if is_connection_frame (fh_stream_id (fd_header d))
      then (d, Err (ConnectionError ProtocolError))
      else case FrameDecoder_assemble d buf of (d, buf) \<Rightarrow>
        case fragment_range d buf 4 of
          Err e \<Rightarrow> (d, Err e)
        | Panic \<Rightarrow> (d, Panic)
        | Ok (start, end_index) \<Rightarrow>
            if start > end_index then (d, Err (ConnectionError ProtocolError))
            else promise_framing d buf)"

section \<open>The loop\<close>

definition decode_payload_by_type :: "FrameDecoder \<Rightarrow> bytes \<Rightarrow> payload_result" where
  "decode_payload_by_type d buf =
     (let t = fh_frame_type (fd_header d) in
      if t = 0 then decode_data_payload d buf
      else if t = 1 then decode_headers_payload d buf
      else if t = 2 then decode_priority_payload d buf
      else if t = 3 then decode_reset_payload d buf
      else if t = 4 then decode_settings_payload d buf
      else if t = 5 then decode_push_promise_payload d buf
      else if t = 6 then decode_ping_payload d buf
      else if t = 7 then decode_goaway_payload d buf
      else if t = 8 then decode_window_update_payload d buf
      else if t = 9 then decode_continuation_payload d buf
      else (d, Err (ConnectionError ProtocolError)))"

text \<open>\<open>self.offset\<close> and \<open>self.buffer\<close> are cleared together once a part is complete.\<close>

definition FrameDecoder_clear :: "FrameDecoder \<Rightarrow> FrameDecoder" where
  "FrameDecoder_clear d =
     (if fd_offset d \<noteq> 0 then d\<lparr>fd_offset := 0, fd_buffer := []\<rparr> else d)"

definition FrameDecoder_store :: "FrameDecoder \<Rightarrow> bytes \<Rightarrow> FrameDecoder" where
  "FrameDecoder_store d buf =
     d\<lparr>fd_offset := fd_offset d + length buf, fd_buffer := fd_buffer d @ buf\<rparr>"

definition decode_frame_payload ::
    "FrameDecoder \<Rightarrow> bytes \<Rightarrow> FrameDecoder \<times> ((bytes \<times> FrameKind) option, H2Error) rust_result" where
  "decode_frame_payload d buf =
     (if \<not> co_is_end_headers (fd_continuations d)
         \<and> (fh_stream_id (fd_header d) \<noteq> co_stream_id (fd_continuations d)
            \<or> fh_frame_type (fd_header d) \<noteq> 9)
      then (d, Err (ConnectionError ProtocolError))
      else if fh_payload_length (fd_header d) < fd_offset d then (d, Panic)
      else
        let frame_end_index = fh_payload_length (fd_header d) - fd_offset d in
        if length buf < frame_end_index then (FrameDecoder_store d buf, Ok None)
        else (case decode_payload_by_type d (take frame_end_index buf) of
                (d, Ok frame) \<Rightarrow>
                  (FrameDecoder_clear (d\<lparr>fd_header := FrameHeader_reset (fd_header d)\<rparr>),
                   Ok (Some (drop frame_end_index buf, frame)))
              | (d, Err e) \<Rightarrow> (d, Err e)
              | (d, Panic) \<Rightarrow> (d, Panic)))"

definition header_payload_length :: "bytes \<Rightarrow> nat" where
  "header_payload_length h =
     unat (h ! 0) * 65536 + unat (h ! 1) * 256 + unat (h ! 2)"

definition decode_frame_header ::
    "FrameDecoder \<Rightarrow> bytes \<Rightarrow> FrameDecoder \<times> (bytes option, H2Error) rust_result" where
  "decode_frame_header d buf =
     (if FRAME_HEADER_LENGTH < fd_offset d then (d, Panic)
      else
        let payload_pos = FRAME_HEADER_LENGTH - fd_offset d in
        if length buf < payload_pos then (FrameDecoder_store d buf, Ok None)
        else
          let (d, header_buffer) =
                (if fd_offset d = 0 then (d, buf)
                 else (d\<lparr>fd_buffer := fd_buffer d @ take payload_pos buf\<rparr>,
                       fd_buffer d @ take payload_pos buf));
              payload_length = header_payload_length header_buffer
          in if payload_length > unat (fd_max_frame_size d)
             then (d, Err (ConnectionError FrameSizeError))
             else
               let frame_header =
                     \<lparr>fh_stream_id = get_stream_id (take 4 (drop 5 header_buffer)),
                      fh_flags = header_buffer ! 4, fh_frame_type = header_buffer ! 3,
                      fh_payload_length = payload_length\<rparr>
               in ((FrameDecoder_clear d)\<lparr>fd_header := frame_header\<rparr>,
                   Ok (Some (drop payload_pos buf))))"

lemma decode_frame_header_Some:
  assumes "decode_frame_header d buf = (d', Ok (Some rest))"
  shows "fd_offset d' = 0" "rest = drop (9 - fd_offset d) buf" "9 - fd_offset d \<le> length buf"
    "fd_stage d' = fd_stage d" "fd_offset d \<le> 9"
  using assms
  by (auto simp: decode_frame_header_def FRAME_HEADER_LENGTH_def FrameDecoder_clear_def Let_def
      split: if_splits)

lemma clear_offset [simp]: "fd_offset (FrameDecoder_clear d) = 0"
  by (simp add: FrameDecoder_clear_def)

lemma clear_stage [simp]: "fd_stage (FrameDecoder_clear d) = fd_stage d"
  by (simp add: FrameDecoder_clear_def)

lemma decode_frame_payload_Some:
  assumes "decode_frame_payload d buf = (d', Ok (Some (rest, frame)))"
  shows "fd_offset d' = 0"
    "rest = drop (fh_payload_length (fd_header d) - fd_offset d) buf"
    "fh_payload_length (fd_header d) - fd_offset d \<le> length buf"
  using assms
  by (auto simp: decode_frame_payload_def Let_def split: if_splits prod.splits rust_result.splits)

lemma decode_frame_header_shrinks:
  "(d', Ok (Some rest)) = decode_frame_header d buf \<Longrightarrow>
   fd_offset d' = 0 \<and> (length rest < length buf \<or> fd_offset d \<noteq> 0 \<and> length rest = length buf)"
  using decode_frame_header_Some [OF sym] by (cases "fd_offset d = 9") fastforce+

lemma decode_frame_payload_shrinks:
  "(d', Ok (Some (rest, frame))) = decode_frame_payload d buf \<Longrightarrow>
   fd_offset d' = 0 \<and> length rest \<le> length buf"
  using decode_frame_payload_Some [OF sym] by fastforce

function FrameDecoder_decode_loop ::
    "FrameDecoder \<Rightarrow> bytes \<Rightarrow> FrameKind list \<Rightarrow>
     FrameDecoder \<times> (FrameKind list, H2Error) rust_result" where
  "FrameDecoder_decode_loop d buffer frames =
     (case fd_stage d of
        Stage_Header \<Rightarrow>
          (case decode_frame_header d buffer of
             (d, Ok (Some remain)) \<Rightarrow>
               FrameDecoder_decode_loop (d\<lparr>fd_stage := Stage_Payload\<rparr>) remain frames
           | (d, Ok None) \<Rightarrow> (d, Ok frames)
           | (d, Err e) \<Rightarrow> (d, Err e)
           | (d, Panic) \<Rightarrow> (d, Panic))
      | Stage_Payload \<Rightarrow>
          (case decode_frame_payload d buffer of
             (d, Ok (Some (remain, frame))) \<Rightarrow>
               FrameDecoder_decode_loop (d\<lparr>fd_stage := Stage_Header\<rparr>) remain (frames @ [frame])
           | (d, Ok None) \<Rightarrow> (d, Ok frames)
           | (d, Err e) \<Rightarrow> (d, Err e)
           | (d, Panic) \<Rightarrow> (d, Panic)))"
  by pat_completeness auto

text \<open>
  A header takes at least one byte unless the whole of it is already buffered, and a payload,
  which may be empty, hands over to a header: the loop ends.
\<close>

termination
proof (relation "measures [\<lambda>(d, buffer, _). length buffer,
          \<lambda>(d, _, _). if fd_offset d = 0 then 0 else 1,
          \<lambda>(d, _, _). if fd_stage d = Stage_Payload then 1 else 0]", goal_cases)
  case 1
  then show ?case by simp
next
  case (2 d buffer frames)
  then show ?case
    by (auto dest!: decode_frame_header_shrinks)
next
  case (3 d buffer frames)
  then show ?case by (auto dest!: decode_frame_payload_shrinks)
qed

declare FrameDecoder_decode_loop.simps [simp del]

definition FrameDecoder_decode ::
    "FrameDecoder \<Rightarrow> bytes \<Rightarrow> FrameDecoder \<times> (FrameKind list, H2Error) rust_result" where
  "FrameDecoder_decode d buf = FrameDecoder_decode_loop d buf []"

end
