(* ===== verification/H2_Frame_Segments.thy ===== *)
theory H2_Frame_Segments
  imports H2_Frame_Decoder
begin

text \<open>
  Correctness of the frame decoder: its state invariant, the decoder of whole frames, and the
  refinement between the two, step by step.
\<close>

section \<open>The invariant\<close>

definition FrameDecoder_wf :: "FrameDecoder \<Rightarrow> bool" where
  "FrameDecoder_wf d \<longleftrightarrow>
     fd_offset d = length (fd_buffer d) \<and>
     (case fd_stage d of
        Stage_Header \<Rightarrow> fd_offset d < 9
      | Stage_Payload \<Rightarrow>
          (fd_offset d = 0 \<or> fd_offset d < fh_payload_length (fd_header d)) \<and>
          fh_payload_length (fd_header d) \<le> unat (fd_max_frame_size d))"

text \<open>What a decoder is, apart from the segments it has buffered.\<close>

definition core :: "FrameDecoder \<Rightarrow> FrameDecoder" where
  "core d = d\<lparr>fd_buffer := [], fd_offset := 0\<rparr>"

definition on_core :: "FrameDecoder \<times> 'r \<Rightarrow> FrameDecoder \<times> 'r" where
  "on_core p = (core (fst p), snd p)"

lemma core_simps [simp]:
  "fd_header (core d) = fd_header d" "fd_hpack (core d) = fd_hpack d"
  "fd_continuations (core d) = fd_continuations d" "fd_stage (core d) = fd_stage d"
  "fd_max_frame_size (core d) = fd_max_frame_size d" "fd_offset (core d) = 0"
  "fd_buffer (core d) = []" "core (core d) = core d"
  "core (d\<lparr>fd_buffer := b\<rparr>) = core d" "core (d\<lparr>fd_offset := n\<rparr>) = core d"
  "core (d\<lparr>fd_hpack := h\<rparr>) = (core d)\<lparr>fd_hpack := h\<rparr>"
  "core (d\<lparr>fd_continuations := c\<rparr>) = (core d)\<lparr>fd_continuations := c\<rparr>"
  "core (d\<lparr>fd_header := f\<rparr>) = (core d)\<lparr>fd_header := f\<rparr>"
  "core (d\<lparr>fd_stage := s\<rparr>) = (core d)\<lparr>fd_stage := s\<rparr>"
  by (simp_all add: core_def)

lemma on_core_simps [simp]:
  "on_core (d, r) = (core d, r)"
  "on_core (if b then p else q) = (if b then on_core p else on_core q)"
  "on_core (case res of Ok a \<Rightarrow> f1 a | Err e \<Rightarrow> f2 e | Panic \<Rightarrow> f3) =
     (case res of Ok a \<Rightarrow> on_core (f1 a) | Err e \<Rightarrow> on_core (f2 e) | Panic \<Rightarrow> on_core f3)"
  "on_core (case v of None \<Rightarrow> g1 | Some y \<Rightarrow> g2 y) =
     (case v of None \<Rightarrow> on_core g1 | Some y \<Rightarrow> on_core (g2 y))"
  "on_core (case l of [] \<Rightarrow> h1 | z # zs \<Rightarrow> h2 z zs) =
     (case l of [] \<Rightarrow> on_core h1 | z # zs \<Rightarrow> on_core (h2 z zs))"
  by (simp_all add: on_core_def split: rust_result.split option.split list.split)

lemma hpack_core [simp]:
  "on_core (FrameDecoder_hpack_decode (core d) f) = on_core (FrameDecoder_hpack_decode d f)"
  by (simp add: FrameDecoder_hpack_decode_def split: prod.split)

lemma frame_core [simp]: "FrameDecoder_frame (core d) = FrameDecoder_frame d"
  by (simp add: FrameDecoder_frame_def fun_eq_iff)

lemma fragment_range_core [simp]: "fragment_range (core d) = fragment_range d"
  by (simp add: fragment_range_def fun_eq_iff)

lemmas hpack_layer = FrameDecoder_hpack_decode_def FrameDecoder_hpack_finish_def

lemma headers_framing_core:
  "on_core (headers_framing (core d) f) = on_core (headers_framing d f)"
  by (simp add: headers_framing_def hpack_layer Let_def FrameDecoder_frame_def
      split: prod.split rust_result.split)

lemma push_promise_framing_core:
  "on_core (push_promise_framing (core d) e sid) = on_core (push_promise_framing d e sid)"
  by (simp add: push_promise_framing_def hpack_layer Let_def FrameDecoder_frame_def
      split: prod.split rust_result.split)

definition joined :: "FrameDecoder \<Rightarrow> bytes \<Rightarrow> FrameDecoder" where
  "joined d buf = fst (FrameDecoder_assemble d buf)"

lemma assemble_eq:
  assumes "fd_offset d = length (fd_buffer d)"
  shows "FrameDecoder_assemble d buf = (joined d buf, fd_buffer d @ buf)"
    "core (joined d buf) = core d" "fd_header (joined d buf) = fd_header d"
    "fd_continuations (joined d buf) = fd_continuations d" "fd_hpack (joined d buf) = fd_hpack d"
  using assms by (auto simp: FrameDecoder_assemble_def joined_def)

lemma assemble_core: "FrameDecoder_assemble (core d) buf = (core d, buf)"
  by (simp add: FrameDecoder_assemble_def)

lemma frame_joined:
  assumes "fd_offset d = length (fd_buffer d)"
  shows "FrameDecoder_frame (joined d buf) = FrameDecoder_frame d"
    "fragment_range (joined d buf) = fragment_range d"
  using assms by (simp_all add: FrameDecoder_frame_def fragment_range_def fun_eq_iff assemble_eq)

lemma simple_payloads_core:
  assumes "fd_offset d = length (fd_buffer d)"
  shows "on_core (decode_reset_payload d buf) = on_core (decode_reset_payload (core d) (fd_buffer d @ buf))"
    "on_core (decode_ping_payload d buf) = on_core (decode_ping_payload (core d) (fd_buffer d @ buf))"
    "on_core (decode_goaway_payload d buf) = on_core (decode_goaway_payload (core d) (fd_buffer d @ buf))"
    "on_core (decode_window_update_payload d buf)
      = on_core (decode_window_update_payload (core d) (fd_buffer d @ buf))"
    "on_core (decode_settings_payload d buf)
      = on_core (decode_settings_payload (core d) (fd_buffer d @ buf))"
  using assms
  by (simp_all add: decode_reset_payload_def decode_ping_payload_def decode_goaway_payload_def
      decode_window_update_payload_def decode_settings_payload_def
      assemble_eq assemble_core frame_joined Let_def split: rust_result.split)

lemma data_payload_core:
  assumes "fd_offset d = length (fd_buffer d)"
  shows "on_core (decode_data_payload d buf) = on_core (decode_data_payload (core d) (fd_buffer d @ buf))"
  using assms
  by (cases "fd_buffer d @ buf")
    (simp_all add: decode_data_payload_def assemble_eq assemble_core frame_joined Let_def
      split: option.split)

lemma headers_payload_core:
  assumes "fd_offset d = length (fd_buffer d)"
  shows "on_core (decode_headers_payload d buf)
    = on_core (decode_headers_payload (core d) (fd_buffer d @ buf))"
proof -
  have "on_core (headers_framing (joined d buf) f) = on_core (headers_framing (core d) f)" for f
    using headers_framing_core [of "joined d buf"] headers_framing_core [of d]
    by (simp add: assemble_eq assms)
  then show ?thesis
    by (simp add: decode_headers_payload_def assemble_eq assms assemble_core frame_joined Let_def
        split: option.split rust_result.split prod.split)
qed

lemma promise_framing_core: "on_core (promise_framing (core d) f) = on_core (promise_framing d f)"
proof -
  obtain h r where dec: "HpackDecoder_decode (fd_hpack d) f = (h, r)" by fastforce
  have "on_core (push_promise_framing ((core d)\<lparr>fd_hpack := h\<rparr>) e sid)
      = on_core (push_promise_framing (d\<lparr>fd_hpack := h\<rparr>) e sid)" for e sid
    using push_promise_framing_core [of "d\<lparr>fd_hpack := h\<rparr>"] by simp
  then show ?thesis using dec
    by (cases r) (simp_all add: promise_framing_def FrameDecoder_hpack_decode_def Let_def
          split: option.split)
qed

lemma push_promise_payload_core:
  assumes "fd_offset d = length (fd_buffer d)"
  shows "on_core (decode_push_promise_payload d buf)
    = on_core (decode_push_promise_payload (core d) (fd_buffer d @ buf))"
proof -
  have "on_core (promise_framing (joined d buf) f) = on_core (promise_framing (core d) f)" for f
    using promise_framing_core [of "joined d buf"] promise_framing_core [of d]
    by (simp add: assemble_eq assms)
  then show ?thesis
    by (simp add: decode_push_promise_payload_def assemble_eq assms assemble_core frame_joined
        split: rust_result.split)
qed

lemma continuation_framing_core:
  "on_core (continuation_framing (core d) f) = on_core (continuation_framing d f)"
proof -
  obtain h r where "HpackDecoder_decode (fd_hpack d) f = (h, r)" by fastforce
  moreover obtain h' r' where "HpackDecoder_finish h = (h', r')" by fastforce
  ultimately show ?thesis
    by (cases r; cases r') (simp_all add: continuation_framing_def hpack_layer Let_def)
qed

lemma continuation_payload_core:
  assumes "fd_offset d = length (fd_buffer d)"
  shows "on_core (decode_continuation_payload d buf)
    = on_core (decode_continuation_payload (core d) (fd_buffer d @ buf))"
  using continuation_framing_core [of "joined d buf"] continuation_framing_core [of d]
  by (simp add: decode_continuation_payload_def assemble_eq assms assemble_core)

lemma payload_core:
  assumes "fd_offset d = length (fd_buffer d)" "fh_frame_type (fd_header d) \<noteq> 2"
  shows "on_core (decode_payload_by_type d buf)
    = on_core (decode_payload_by_type (core d) (fd_buffer d @ buf))"
  using assms(2)
  by (simp add: decode_payload_by_type_def Let_def simple_payloads_core [OF assms(1)]
      data_payload_core [OF assms(1)] headers_payload_core [OF assms(1)]
      push_promise_payload_core [OF assms(1)] continuation_payload_core [OF assms(1)])

section \<open>The specification: a decoder of whole frames\<close>

text \<open>
  The specification keeps no partial frame: it works on all bytes that are not yet decoded, reads
  a header where nine bytes are there and a payload where all of it is there, and otherwise stops
  and returns the bytes it has not read.
\<close>

definition parse_header :: "bytes \<Rightarrow> FrameHeader" where
  "parse_header b =
     \<lparr>fh_stream_id = get_stream_id (take 4 (drop 5 b)), fh_flags = b ! 4, fh_frame_type = b ! 3,
      fh_payload_length = header_payload_length b\<rparr>"

definition continuation_open :: "FrameDecoder \<Rightarrow> bool" where
  "continuation_open d \<longleftrightarrow>
     \<not> co_is_end_headers (fd_continuations d)
     \<and> (fh_stream_id (fd_header d) \<noteq> co_stream_id (fd_continuations d)
        \<or> fh_frame_type (fd_header d) \<noteq> 9)"

function frames_spec :: "FrameDecoder \<Rightarrow> bytes \<Rightarrow> FrameKind list \<Rightarrow>
    FrameDecoder \<times> bytes \<times> (FrameKind list, H2Error) rust_result" where
  "frames_spec c avail frames =
     (case fd_stage c of
        Stage_Header \<Rightarrow>
          if length avail < 9 then (c, avail, Ok frames)
          else if header_payload_length avail > unat (fd_max_frame_size c)
          then (c, avail, Err (ConnectionError FrameSizeError))
          else frames_spec (c\<lparr>fd_header := parse_header avail, fd_stage := Stage_Payload\<rparr>)
                 (drop 9 avail) frames
      | Stage_Payload \<Rightarrow>
          let n = fh_payload_length (fd_header c) in
          if continuation_open c then (c, avail, Err (ConnectionError ProtocolError))
          else if length avail < n then (c, avail, Ok frames)
          else (case decode_payload_by_type c (take n avail) of
                  (c, Ok frame) \<Rightarrow>
                    frames_spec (c\<lparr>fd_header := FrameHeader_new, fd_stage := Stage_Header\<rparr>)
                      (drop n avail) (frames @ [frame])
                | (c, Err e) \<Rightarrow> (c, avail, Err e)
                | (c, Panic) \<Rightarrow> (c, avail, Panic)))"
  by pat_completeness auto
termination
  by (relation "measures [\<lambda>(c, avail, _). length avail,
        \<lambda>(c, _, _). if fd_stage c = Stage_Payload then 1 else 0]") auto

declare frames_spec.simps [simp del]

lemma parse_header_take: "9 \<le> n \<Longrightarrow> parse_header (take n b) = parse_header b"
  by (simp add: parse_header_def header_payload_length_def drop_take min_def)

lemma parse_header_append: "9 \<le> length b \<Longrightarrow> parse_header (b @ ys) = parse_header b"
  using parse_header_take [of "length b" "b @ ys"] by simp

lemma payload_length_append:
  "9 \<le> length b \<Longrightarrow> header_payload_length (b @ ys) = header_payload_length b"
  using parse_header_append [of b ys] by (simp add: parse_header_def)

lemma frames_spec_append:
  "frames_spec c (xs @ ys) frames =
     (case frames_spec c xs frames of
        (c', rest, Ok frames') \<Rightarrow> frames_spec c' (rest @ ys) frames'
      | (c', rest, r) \<Rightarrow> (c', rest @ ys, r))"
proof (induction c xs frames rule: frames_spec.induct)
  case (1 c avail frames)
  note unfold = frames_spec.simps [of c "avail @ ys"] frames_spec.simps [of c avail]
  show ?case
  proof (cases "fd_stage c")
    case Stage_Header
    then show ?thesis using "1.IH"(1) [OF Stage_Header]
      by (cases "length avail < 9")
        (simp_all add: unfold parse_header_append payload_length_append)
  next
    case Stage_Payload
    let ?n = "fh_payload_length (fd_header c)"
    obtain c' r where dec: "decode_payload_by_type c (take ?n avail) = (c', r)" by fastforce
    show ?thesis
    proof (cases "continuation_open c \<or> length avail < ?n")
      case True
      with Stage_Payload show ?thesis by (auto simp: unfold Let_def)
    next
      case False
      with "1.IH"(2) [OF Stage_Payload refl _ _ dec [symmetric]] Stage_Payload dec show ?thesis
        by (cases r) (simp_all add: unfold Let_def)
    qed
  qed
qed

section \<open>The decoder refines the specification\<close>

text \<open>What every payload decoder leaves alone.\<close>

definition kept :: "FrameDecoder \<Rightarrow> FrameDecoder \<times> 'r \<Rightarrow> bool" where
  "kept d p \<longleftrightarrow>
     fd_header (fst p) = fd_header d \<and> fd_stage (fst p) = fd_stage d
     \<and> fd_max_frame_size (fst p) = fd_max_frame_size d
     \<and> (fd_offset d = length (fd_buffer d) \<longrightarrow> fd_offset (fst p) = length (fd_buffer (fst p)))
     \<and> (fd_offset d = 0 \<longrightarrow> fd_offset (fst p) = 0)"

lemma kept_joined: "kept d (FrameDecoder_assemble d buf)"
  by (simp add: kept_def FrameDecoder_assemble_def)

lemma kept_trans: "kept d p \<Longrightarrow> kept (fst p) q \<Longrightarrow> kept d q"
  by (simp add: kept_def)

lemma kept_Pair [simp]: "kept d (d, r)"
  by (simp add: kept_def)

lemma kept_assemble:
  assumes "\<And>d b. kept d (f d b)"
  shows "kept d (case FrameDecoder_assemble d buf of (d', b) \<Rightarrow> f d' b)"
proof -
  obtain d' b where eq: "FrameDecoder_assemble d buf = (d', b)" by fastforce
  with kept_joined [of d buf] have "kept d (d', b)" by simp
  from kept_trans [OF this] assms [of d' b] eq show ?thesis by simp
qed

lemma kept_hpack:
  "kept d (FrameDecoder_hpack_decode d f)" "kept d (FrameDecoder_hpack_finish d)"
  by (simp_all add: kept_def hpack_layer split: prod.split)

lemma kept_headers_framing: "kept d (headers_framing d f)"
proof -
  obtain h r where "HpackDecoder_decode (fd_hpack d) f = (h, r)" by fastforce
  moreover obtain h' r' where "HpackDecoder_finish h = (h', r')" by fastforce
  ultimately show ?thesis
    by (cases r; cases r') (simp_all add: kept_def headers_framing_def hpack_layer Let_def)
qed

lemma kept_continuation_framing: "kept d (continuation_framing d f)"
proof -
  obtain h r where "HpackDecoder_decode (fd_hpack d) f = (h, r)" by fastforce
  moreover obtain h' r' where "HpackDecoder_finish h = (h', r')" by fastforce
  ultimately show ?thesis
    by (cases r; cases r') (simp_all add: kept_def continuation_framing_def hpack_layer Let_def)
qed

lemma kept_promise_framing: "kept d (promise_framing d f)"
proof -
  obtain h r where "HpackDecoder_decode (fd_hpack d) f = (h, r)" by fastforce
  moreover obtain h' r' where "HpackDecoder_finish h = (h', r')" by fastforce
  ultimately show ?thesis
    by (cases r; cases r') (simp_all add: kept_def promise_framing_def push_promise_framing_def
        hpack_layer Let_def split: option.split)
qed

lemma kept_if: "kept d p \<Longrightarrow> kept d q \<Longrightarrow> kept d (if b then p else q)"
  by simp

lemma kept_payload: "kept d (decode_payload_by_type d buf)"
proof -
  have "kept d (decode_headers_payload d buf)"
    unfolding decode_headers_payload_def
    by (intro kept_if kept_Pair kept_assemble)
      (auto simp: kept_headers_framing Let_def split: rust_result.split option.split)
  moreover have "kept d (decode_push_promise_payload d buf)"
    unfolding decode_push_promise_payload_def
    by (intro kept_if kept_Pair kept_assemble)
      (auto simp: kept_promise_framing split: rust_result.split)
  moreover have "kept d (decode_continuation_payload d buf)"
    unfolding decode_continuation_payload_def
    by (intro kept_if kept_Pair kept_assemble kept_continuation_framing)
  moreover have "kept d (decode_data_payload d buf)"
    unfolding decode_data_payload_def
    by (intro kept_if kept_Pair kept_assemble) (auto simp: Let_def split: list.split option.split)
  moreover have "kept d (decode_settings_payload d buf)"
    unfolding decode_settings_payload_def
    by (intro kept_if kept_Pair kept_assemble) (auto split: rust_result.split)
  moreover have "kept d (decode_priority_payload d buf)" "kept d (decode_ping_payload d buf)"
    "kept d (decode_goaway_payload d buf)" "kept d (decode_reset_payload d buf)"
    unfolding decode_priority_payload_def decode_ping_payload_def decode_goaway_payload_def
      decode_reset_payload_def
    by (intro kept_if kept_Pair kept_assemble)+
  moreover have "kept d (decode_window_update_payload d buf)"
    unfolding decode_window_update_payload_def Let_def
    by (intro kept_if kept_Pair kept_assemble)
  ultimately show ?thesis by (simp add: decode_payload_by_type_def Let_def)
qed

text \<open>
  One step of the decoder in terms of all bytes that are not yet decoded. Where a step fails, the
  equations say nothing of the state it leaves.
\<close>

lemma header_step:
  assumes "fd_offset d = length (fd_buffer d)" "fd_offset d < 9"
    and avail: "avail = fd_buffer d @ buf"
  shows "decode_frame_header d buf =
    (if length avail < 9 then (FrameDecoder_store d buf, Ok None)
     else if header_payload_length avail > unat (fd_max_frame_size d)
     then (fst (decode_frame_header d buf), Err (ConnectionError FrameSizeError))
     else ((core d)\<lparr>fd_header := parse_header avail\<rparr>, Ok (Some (drop 9 avail))))"
proof -
  define b where "b = (if fd_offset d = 0 then buf else fd_buffer d @ take (9 - fd_offset d) buf)"
  have b: "parse_header b = parse_header avail" if "9 \<le> length avail"
    using that assms parse_header_take [of 9 avail] by (auto simp: b_def)
  then have n: "header_payload_length b = header_payload_length avail" if "9 \<le> length avail"
    using that by (simp add: parse_header_def)
  have "decode_frame_header d buf =
      (if length avail < 9 then (FrameDecoder_store d buf, Ok None)
       else if header_payload_length b > unat (fd_max_frame_size d)
       then (if fd_offset d = 0 then d else d\<lparr>fd_buffer := b\<rparr>, Err (ConnectionError FrameSizeError))
       else ((core d)\<lparr>fd_header := parse_header b\<rparr>, Ok (Some (drop 9 avail))))"
    using assms by (auto simp: decode_frame_header_def FRAME_HEADER_LENGTH_def Let_def b_def
        parse_header_def FrameDecoder_clear_def core_def)
  with b n show ?thesis by simp
qed

lemma FrameHeader_reset_new [simp]: "FrameHeader_reset h = FrameHeader_new"
  by (simp add: FrameHeader_reset_def FrameHeader_new_def)

lemma core_idem: "fd_offset d = 0 \<Longrightarrow> fd_offset d = length (fd_buffer d) \<Longrightarrow> core d = d"
  by (simp add: core_def)

definition mid_priority :: "FrameDecoder \<Rightarrow> bool" where
  "mid_priority d \<longleftrightarrow>
     fd_stage d = Stage_Payload \<and> fh_frame_type (fd_header d) = 2 \<and> fd_offset d \<noteq> 0"

lemma payload_joined:
  assumes "fd_offset d = length (fd_buffer d)" "\<not> mid_priority d" "fd_stage d = Stage_Payload"
  shows "on_core (decode_payload_by_type d buf) =
    on_core (decode_payload_by_type (core d) (fd_buffer d @ buf))"
proof (cases "fd_offset d = 0")
  case True
  then show ?thesis using assms(1) by (simp add: core_idem)
next
  case False
  with assms(2,3) have "fh_frame_type (fd_header d) \<noteq> 2" by (simp add: mid_priority_def)
  from payload_core [OF assms(1) this] show ?thesis .
qed

lemma clear_header:
  "fd_offset d = length (fd_buffer d) \<Longrightarrow>
   FrameDecoder_clear (d\<lparr>fd_header := h\<rparr>) = (core d)\<lparr>fd_header := h\<rparr>"
  by (auto simp: FrameDecoder_clear_def core_def)

lemma payload_of_core:
  assumes "decode_payload_by_type (core d) buf = (c, r)"
  shows "core c = c" "fd_buffer c = []" "fd_offset c = 0"
proof -
  from kept_payload [of "core d" buf] assms
  have "fd_offset c = length (fd_buffer c)" "fd_offset c = 0" by (auto simp: kept_def)
  then show "core c = c" "fd_buffer c = []" "fd_offset c = 0" by (simp_all add: core_idem)
qed

lemma payload_step:
  assumes "fd_offset d = length (fd_buffer d)" "\<not> mid_priority d" "fd_stage d = Stage_Payload"
    and "\<not> continuation_open d"
    and n: "n = fh_payload_length (fd_header d)" "fd_offset d \<le> n"
    and avail: "avail = fd_buffer d @ buf"
  shows "decode_frame_payload d buf =
    (if length avail < n then (FrameDecoder_store d buf, Ok None)
     else case decode_payload_by_type (core d) (take n avail) of
       (c, Ok frame) \<Rightarrow> (c\<lparr>fd_header := FrameHeader_new\<rparr>, Ok (Some (drop n avail, frame)))
     | (c, Err e) \<Rightarrow> (fst (decode_frame_payload d buf), Err e)
     | (c, Panic) \<Rightarrow> (fst (decode_frame_payload d buf), Panic))"
proof -
  have whole: "take n avail = fd_buffer d @ take (n - fd_offset d) buf"
    "drop n avail = drop (n - fd_offset d) buf"
    using assms(1) n(2) avail by simp_all
  obtain d' r where dec: "decode_payload_by_type d (take (n - fd_offset d) buf) = (d', r)"
    by fastforce
  obtain c r' where spec: "decode_payload_by_type (core d) (take n avail) = (c, r')" by fastforce
  with payload_joined [OF assms(1-3), of "take (n - fd_offset d) buf"] dec
  have "core d' = core c" "r = r'" by (simp_all add: whole(1))
  moreover have "core c = c"
    by (rule payload_of_core(1) [OF spec])
  moreover have "fd_offset d' = length (fd_buffer d')"
    using kept_payload [of d "take (n - fd_offset d) buf"] assms(1) dec by (simp add: kept_def)
  ultimately show ?thesis using assms(1,4) n dec spec avail whole
    by (cases r') (auto simp: decode_frame_payload_def continuation_open_def Let_def clear_header)
qed

lemma store_simps [simp]:
  "fd_offset (FrameDecoder_store d buf) = fd_offset d + length buf"
  "fd_buffer (FrameDecoder_store d buf) = fd_buffer d @ buf"
  "core (FrameDecoder_store d buf) = core d"
  "fd_stage (FrameDecoder_store d buf) = fd_stage d"
  "fd_header (FrameDecoder_store d buf) = fd_header d"
  "fd_max_frame_size (FrameDecoder_store d buf) = fd_max_frame_size d"
  by (simp_all add: FrameDecoder_store_def)

lemma wf_offset: "FrameDecoder_wf d \<Longrightarrow> fd_offset d = length (fd_buffer d)"
  by (simp add: FrameDecoder_wf_def)

text \<open>The two machines agree: the same result, and after a success the same state.\<close>

definition agrees :: "FrameDecoder \<times> (FrameKind list, H2Error) rust_result \<Rightarrow>
    FrameDecoder \<times> bytes \<times> (FrameKind list, H2Error) rust_result \<Rightarrow> bool" where
  "agrees p q \<longleftrightarrow>
     (case (p, q) of ((d', r), (c', rest, r')) \<Rightarrow>
        r = r' \<and> ((\<exists>frames. r = Ok frames) \<longrightarrow>
          core d' = c' \<and> fd_buffer d' = rest \<and> FrameDecoder_wf d'))"

lemma agrees_failure:
  "agrees (d', Err e) (c', rest, Err e)" "agrees (d', Panic) (c', rest, Panic)"
  by (simp_all add: agrees_def)

text \<open>The induction step of the refinement, one lemma for each stage.\<close>

definition refined :: "FrameDecoder \<Rightarrow> bytes \<Rightarrow> FrameKind list \<Rightarrow> bool" where
  "refined d buf frames \<longleftrightarrow>
     (FrameDecoder_wf d \<longrightarrow> \<not> mid_priority d \<longrightarrow>
        agrees (FrameDecoder_decode_loop d buf frames)
          (frames_spec (core d) (fd_buffer d @ buf) frames))"

lemma refined_header:
  assumes stage: "fd_stage d = Stage_Header" and wf: "FrameDecoder_wf d"
    and IH: "\<And>c rest. decode_frame_header d buf = (c, Ok (Some rest)) \<Longrightarrow>
      refined (c\<lparr>fd_stage := Stage_Payload\<rparr>) rest frames"
  shows "agrees (FrameDecoder_decode_loop d buf frames) (frames_spec (core d) (fd_buffer d @ buf) frames)"
proof -
  let ?avail = "fd_buffer d @ buf"
  note unfold = FrameDecoder_decode_loop.simps [of d buf] frames_spec.simps [of "core d" ?avail]
  note off = wf_offset [OF wf]
  from stage wf have "fd_offset d < 9" by (simp add: FrameDecoder_wf_def)
  note step = header_step [OF off this refl, of buf]
  consider "length ?avail < 9"
    | "9 \<le> length ?avail" "header_payload_length ?avail > unat (fd_max_frame_size d)"
    | "9 \<le> length ?avail" "header_payload_length ?avail \<le> unat (fd_max_frame_size d)"
    by linarith
  then show ?thesis
  proof cases
    case 1
    with step stage wf off show ?thesis
      by (simp add: unfold agrees_def FrameDecoder_wf_def)
  next
    case 2
    then obtain c where "decode_frame_header d buf = (c, Err (ConnectionError FrameSizeError))"
      using step by auto
    with 2 stage show ?thesis by (simp add: unfold agrees_failure)
  next
    case 3
    with step have dec: "decode_frame_header d buf =
      ((core d)\<lparr>fd_header := parse_header ?avail\<rparr>, Ok (Some (drop 9 ?avail)))" by simp
    with IH [OF dec] 3 stage show ?thesis
      by (simp add: unfold refined_def FrameDecoder_wf_def mid_priority_def parse_header_def)
  qed
qed

lemma refined_payload:
  assumes stage: "fd_stage d = Stage_Payload" and wf: "FrameDecoder_wf d" and prio: "\<not> mid_priority d"
    and IH: "\<And>c rest frame. decode_frame_payload d buf = (c, Ok (Some (rest, frame))) \<Longrightarrow>
      refined (c\<lparr>fd_stage := Stage_Header\<rparr>) rest (frames @ [frame])"
  shows "agrees (FrameDecoder_decode_loop d buf frames) (frames_spec (core d) (fd_buffer d @ buf) frames)"
proof (cases "continuation_open d")
  case True
  with stage show ?thesis
    by (simp add: FrameDecoder_decode_loop.simps [of d buf] frames_spec.simps [of "core d"]
        decode_frame_payload_def continuation_open_def agrees_failure)
next
  case False
  let ?avail = "fd_buffer d @ buf" and ?n = "fh_payload_length (fd_header d)"
  note unfold = FrameDecoder_decode_loop.simps [of d buf] frames_spec.simps [of "core d" ?avail]
  note off = wf_offset [OF wf]
  from stage wf have "fd_offset d \<le> ?n" by (auto simp: FrameDecoder_wf_def)
  note step = payload_step [OF off prio stage False refl this refl, of buf]
  from False have core: "\<not> continuation_open (core d)" by (simp add: continuation_open_def)
  obtain c r where spec: "decode_payload_by_type (core d) (take ?n ?avail) = (c, r)" by fastforce
  show ?thesis
  proof (cases "length ?avail < ?n")
    case True
    with step stage wf off core show ?thesis
      by (simp add: unfold agrees_def FrameDecoder_wf_def)
  next
    case False
    note c = payload_of_core [OF spec]
    show ?thesis
    proof (cases r)
      case (Ok frame)
      with step False spec
      have "decode_frame_payload d buf = (c\<lparr>fd_header := FrameHeader_new\<rparr>, Ok (Some (drop ?n ?avail, frame)))"
        by simp
      with IH [OF this] Ok spec False stage core c show ?thesis
        by (simp add: unfold refined_def FrameDecoder_wf_def mid_priority_def Let_def)
    next
      case (Err e)
      with step False spec obtain d' where "decode_frame_payload d buf = (d', Err e)" by auto
      with Err spec False stage core show ?thesis by (simp add: unfold Let_def agrees_failure)
    next
      case Panic
      with step False spec obtain d' where "decode_frame_payload d buf = (d', Panic)" by auto
      with Panic spec False stage core show ?thesis by (simp add: unfold Let_def agrees_failure)
    qed
  qed
qed

lemma loop_refines: "refined d buf frames"
proof (induction d buf frames rule: FrameDecoder_decode_loop.induct)
  case (1 d buf frames)
  show ?case
  proof (cases "fd_stage d")
    case Stage_Header
    have "refined (c\<lparr>fd_stage := Stage_Payload\<rparr>) rest frames"
      if "decode_frame_header d buf = (c, Ok (Some rest))" for c rest
      using "1.IH"(1) [OF Stage_Header that [symmetric] refl refl] .
    with refined_header [OF Stage_Header] show ?thesis by (simp add: refined_def [of d])
  next
    case Stage_Payload
    have "refined (c\<lparr>fd_stage := Stage_Header\<rparr>) rest (frames @ [frame])"
      if "decode_frame_payload d buf = (c, Ok (Some (rest, frame)))" for c rest frame
      using "1.IH"(2) [OF Stage_Payload that [symmetric] refl refl refl] .
    with refined_payload [OF Stage_Payload] show ?thesis by (simp add: refined_def [of d])
  qed
qed

end
