(* ===== verification/H2_Frame_Props.thy ===== *)
theory H2_Frame_Props
  imports H2_Frame_Segments
begin

text \<open>
  The properties of the frame decoder, on top of its refinement: frames as byte strings, the
  segments of a byte stream, header blocks over several frames, PRIORITY frames and empty padded
  frames.
\<close>

section \<open>Big-endian fields\<close>

definition be_u32 :: "u32 \<Rightarrow> bytes" where
  "be_u32 w = [ucast (drop_bit 24 w), ucast (drop_bit 16 w), ucast (drop_bit 8 w), ucast w]"

lemma length_be_u32 [simp]: "length (be_u32 w) = 4"
  by (simp add: be_u32_def)

lemma octet_of_bit:
  fixes n :: nat
  assumes "n < 32"
  obtains "n < 8" | m where "n = 8 + m" "m < 8" | m where "n = 16 + m" "m < 8"
    | m where "n = 24 + m" "m < 8"
proof -
  consider "n < 8" | "8 \<le> n" "n < 16" | "16 \<le> n" "n < 24" | "24 \<le> n" by linarith
  then show thesis
    using assms that(1) that(2) [of "n - 8"] that(3) [of "n - 16"] that(4) [of "n - 24"]
    by cases auto
qed

lemma get_code_value_be [simp]: "get_code_value (be_u32 w) = w"
proof (rule bit_word_eqI)
  fix n assume "n < LENGTH(32)"
  then have "n < 32" by simp
  then show "bit (get_code_value (be_u32 w)) n = bit w n"
    by (cases rule: octet_of_bit) (auto simp: get_code_value_def be_u32_def bit_simps)
qed

lemma and_7f_take_bit: "(b :: u8) AND 0x7f = take_bit 7 b"
  by (simp add: take_bit_eq_mask mask_eq_exp_minus_1)

lemma get_stream_id_be: "get_stream_id (be_u32 w) = take_bit 31 w"
proof (rule bit_word_eqI)
  fix n assume "n < LENGTH(32)"
  then have "n < 32" by simp
  then show "bit (get_stream_id (be_u32 w)) n = bit (take_bit 31 w) n"
    by (cases rule: octet_of_bit)
      (auto simp: get_stream_id_def be_u32_def and_7f_take_bit bit_simps)
qed

lemma get_stream_id_be_id: "unat w < 2 ^ 31 \<Longrightarrow> get_stream_id (be_u32 w) = w"
  unfolding get_stream_id_be
  by (rule unsigned_word_eqI [where ?'a = nat]) (simp add: unsigned_take_bit_eq take_bit_nat_eq_self)

section \<open>Frames as byte strings\<close>

text \<open>The wire format of a frame: a 24-bit length, the type, the flags, the stream, the payload.\<close>

definition frame_bytes :: "u8 \<Rightarrow> u8 \<Rightarrow> StreamId \<Rightarrow> bytes \<Rightarrow> bytes" where
  "frame_bytes ty flags sid payload =
     [word_of_nat (length payload div 65536), word_of_nat (length payload div 256),
      word_of_nat (length payload), ty, flags] @ be_u32 sid @ payload"

definition frame_fits :: "FrameDecoder \<Rightarrow> StreamId \<Rightarrow> bytes \<Rightarrow> bool" where
  "frame_fits d sid payload \<longleftrightarrow>
     unat sid < 2 ^ 31 \<and> length payload < 2 ^ 24 \<and> length payload \<le> unat (fd_max_frame_size d)"

lemma parse_frame_bytes:
  assumes "unat sid < 2 ^ 31" "length payload < 2 ^ 24"
  shows "parse_header (frame_bytes ty flags sid payload @ rest) =
    \<lparr>fh_stream_id = sid, fh_flags = flags, fh_frame_type = ty, fh_payload_length = length payload\<rparr>"
    "drop 9 (frame_bytes ty flags sid payload @ rest) = payload @ rest"
    "9 \<le> length (frame_bytes ty flags sid payload @ rest)"
proof -
  let ?n = "length payload"
  have "?n div 65536 = ?n div 256 div 256" by (simp add: div_mult2_eq [symmetric])
  moreover have "?n div 256 div 256 * 256 + ?n div 256 mod 256 = ?n div 256"
    and "?n div 256 * 256 + ?n mod 256 = ?n" by (rule div_mult_mod_eq)+
  ultimately have n: "?n div 65536 * 65536 + ?n div 256 mod 256 * 256 + ?n mod 256 = ?n"
    by linarith
  have "?n div 65536 < 256" using assms(2) by (simp add: less_mult_imp_div_less)
  with n have "header_payload_length (frame_bytes ty flags sid payload @ rest) = ?n"
    by (simp only: header_payload_length_def frame_bytes_def append_Cons nth_Cons_0 nth_Cons_Suc
        One_nat_def numeral_2_eq_2) (simp add: unat_of_nat)
  moreover have "take 4 (drop 5 (frame_bytes ty flags sid payload @ rest)) = be_u32 sid"
    by (simp add: frame_bytes_def)
  ultimately show "parse_header (frame_bytes ty flags sid payload @ rest) =
    \<lparr>fh_stream_id = sid, fh_flags = flags, fh_frame_type = ty, fh_payload_length = length payload\<rparr>"
    by (simp add: parse_header_def get_stream_id_be_id [OF assms(1)]) (simp add: frame_bytes_def)
qed (simp_all add: frame_bytes_def)

text \<open>A decoder between two frames, with no header block open.\<close>

definition at_boundary :: "FrameDecoder \<Rightarrow> bool" where
  "at_boundary d \<longleftrightarrow>
     fd_stage d = Stage_Header \<and> fd_offset d = 0 \<and> fd_buffer d = []
     \<and> fd_continuations d = Continuations_new"

lemma boundary_wf:
  "at_boundary d \<Longrightarrow>
   FrameDecoder_wf d \<and> \<not> mid_priority d \<and> core d = d \<and> co_is_end_headers (fd_continuations d)"
  by (simp add: at_boundary_def FrameDecoder_wf_def mid_priority_def core_idem Continuations_new_def)

lemma boundary_new: "at_boundary FrameDecoder_new"
  by (simp add: at_boundary_def FrameDecoder_new_def)

text \<open>The decoder that has read the header of a frame.\<close>

definition with_header :: "FrameDecoder \<Rightarrow> u8 \<Rightarrow> u8 \<Rightarrow> StreamId \<Rightarrow> nat \<Rightarrow> FrameDecoder" where
  "with_header d ty flags sid n =
     d\<lparr>fd_header := \<lparr>fh_stream_id = sid, fh_flags = flags, fh_frame_type = ty,
                     fh_payload_length = n\<rparr>, fd_stage := Stage_Payload\<rparr>"

lemma with_header_simps [simp]:
  "fd_header (with_header d ty flags sid n) =
     \<lparr>fh_stream_id = sid, fh_flags = flags, fh_frame_type = ty, fh_payload_length = n\<rparr>"
  "fd_stage (with_header d ty flags sid n) = Stage_Payload"
  "fd_continuations (with_header d ty flags sid n) = fd_continuations d"
  "fd_hpack (with_header d ty flags sid n) = fd_hpack d"
  "fd_offset (with_header d ty flags sid n) = fd_offset d"
  by (simp_all add: with_header_def)

lemma frames_spec_frame:
  assumes "fd_stage d = Stage_Header" "frame_fits d sid payload"
    and "co_is_end_headers (fd_continuations d) \<or> co_stream_id (fd_continuations d) = sid \<and> ty = 9"
  shows "frames_spec d (frame_bytes ty flags sid payload @ rest) frames =
    (case decode_payload_by_type (with_header d ty flags sid (length payload)) payload of
       (c, Ok frame) \<Rightarrow>
         frames_spec (c\<lparr>fd_header := FrameHeader_new, fd_stage := Stage_Header\<rparr>) rest (frames @ [frame])
     | (c, Err e) \<Rightarrow> (c, payload @ rest, Err e)
     | (c, Panic) \<Rightarrow> (c, payload @ rest, Panic))"
proof -
  have fits: "unat sid < 2 ^ 31" "length payload < 2 ^ 24"
    "length payload \<le> unat (fd_max_frame_size d)" using assms(2) by (simp_all add: frame_fits_def)
  note parse = parse_frame_bytes [OF fits(1,2), of ty flags rest]
  from parse(1) have len: "header_payload_length (frame_bytes ty flags sid payload @ rest) = length payload"
    by (simp add: parse_header_def)
  have "frames_spec d (frame_bytes ty flags sid payload @ rest) frames =
      frames_spec (with_header d ty flags sid (length payload)) (payload @ rest) frames"
    using assms(1) fits(3) parse len
    by (subst frames_spec.simps) (simp add: with_header_def)
  also have "\<not> continuation_open (with_header d ty flags sid (length payload))"
    using assms(3) by (auto simp: continuation_open_def with_header_def)
  then have "frames_spec (with_header d ty flags sid (length payload)) (payload @ rest) frames =
    (case decode_payload_by_type (with_header d ty flags sid (length payload)) payload of
       (c, Ok frame) \<Rightarrow>
         frames_spec (c\<lparr>fd_header := FrameHeader_new, fd_stage := Stage_Header\<rparr>) rest (frames @ [frame])
     | (c, Err e) \<Rightarrow> (c, payload @ rest, Err e)
     | (c, Panic) \<Rightarrow> (c, payload @ rest, Panic))"
    by (subst frames_spec.simps) (simp add: with_header_def Let_def)
  finally show ?thesis .
qed

lemma frames_spec_prefix:
  "frames_spec c avail (fs @ gs) =
     (case frames_spec c avail gs of
        (c', rest, Ok frames) \<Rightarrow> (c', rest, Ok (fs @ frames)) | (c', rest, r) \<Rightarrow> (c', rest, r))"
proof (induction c avail gs rule: frames_spec.induct)
  case (1 c avail gs)
  note unfold = frames_spec.simps [of c avail "fs @ gs"] frames_spec.simps [of c avail gs]
  show ?case
  proof (cases "fd_stage c")
    case Stage_Header
    then show ?thesis using "1.IH"(1) [OF Stage_Header] by (simp add: unfold)
  next
    case Stage_Payload
    let ?n = "fh_payload_length (fd_header c)"
    obtain c' r where dec: "decode_payload_by_type c (take ?n avail) = (c', r)" by fastforce
    show ?thesis using "1.IH"(2) [OF Stage_Payload refl _ _ dec [symmetric]] Stage_Payload dec
      by (cases r) (auto simp: unfold Let_def)
  qed
qed

section \<open>The properties\<close>

lemma decode_refines:
  assumes "FrameDecoder_wf d" "\<not> mid_priority d"
  shows "agrees (FrameDecoder_decode d buf) (frames_spec (core d) (fd_buffer d @ buf) [])"
  using loop_refines [of d buf "[]"] assms by (simp add: FrameDecoder_decode_def refined_def)

lemma decoder_eqI:
  assumes "core d = core d'" "fd_buffer d = fd_buffer d'" "FrameDecoder_wf d" "FrameDecoder_wf d'"
  shows "d = d'"
proof -
  have "e = (core e)\<lparr>fd_buffer := fd_buffer e, fd_offset := length (fd_buffer e)\<rparr>"
    if "FrameDecoder_wf e" for e using wf_offset [OF that] by (simp add: core_def)
  with assms show ?thesis by metis
qed

text \<open>
  C13. The frame decoder, which buffers the parts of a frame, refines the decoder of whole frames
  that works on all bytes not yet decoded: the frames, the error or the panic are the same, and
  after a success the decoder holds exactly the undecoded bytes, the state of the specification
  and the invariant. The decoder must not be inside a PRIORITY payload of which it has a part.
\<close>

theorem frame_decoder_refines:
  assumes "FrameDecoder_wf d" "\<not> mid_priority d"
  shows "agrees (FrameDecoder_decode d buf) (frames_spec (core d) (fd_buffer d @ buf) [])"
  using assms by (rule decode_refines)

theorem frame_decoder_refines_witness:
  "FrameDecoder_wf FrameDecoder_new \<and> \<not> mid_priority FrameDecoder_new \<and>
   agrees (FrameDecoder_decode FrameDecoder_new [0, 0, 5, 0, 0, 0, 0, 0, 1, 104, 101])
     (frames_spec (core FrameDecoder_new) ([] @ [0, 0, 5, 0, 0, 0, 0, 0, 1, 104, 101]) [])"
  using frame_decoder_refines [of FrameDecoder_new "[0, 0, 5, 0, 0, 0, 0, 0, 1, 104, 101]"]
    boundary_wf [OF boundary_new] by (simp add: FrameDecoder_new_def)

text \<open>
  C5. The frames do not depend on how the byte stream is cut into reads: if a first read is decoded
  without an error and does not end inside a PRIORITY payload, decoding it and then the next
  read gives the frames, or the failure, of decoding both at once, and after a success leaves the
  same decoder.
\<close>

theorem frame_decode_segments:
  assumes "FrameDecoder_wf d" "\<not> mid_priority d"
    and first: "FrameDecoder_decode d xs = (d1, Ok fs1)" and "\<not> mid_priority d1"
    and second: "FrameDecoder_decode d1 ys = (d2, r2)"
  shows "snd (FrameDecoder_decode d (xs @ ys)) =
      (case r2 of Ok fs2 \<Rightarrow> Ok (fs1 @ fs2) | Err e \<Rightarrow> Err e | Panic \<Rightarrow> Panic)
    \<and> (fst (FrameDecoder_decode d (xs @ ys)) = d2 \<or> (\<forall>fs2. r2 \<noteq> Ok fs2))"
proof -
  obtain d3 r3 where both: "FrameDecoder_decode d (xs @ ys) = (d3, r3)" by fastforce
  from decode_refines [OF assms(1,2), of xs] first
  have 1: "frames_spec (core d) (fd_buffer d @ xs) [] = (core d1, fd_buffer d1, Ok fs1)"
    and wf1: "FrameDecoder_wf d1" by (auto simp: agrees_def split: prod.splits)
  from decode_refines [OF wf1 assms(4), of ys] second
  have 2: "agrees (d2, r2) (frames_spec (core d1) (fd_buffer d1 @ ys) [])" by simp
  have "frames_spec (core d) (fd_buffer d @ xs @ ys) [] =
      frames_spec (core d1) (fd_buffer d1 @ ys) (fs1 @ [])"
    using frames_spec_append [of "core d" "fd_buffer d @ xs" ys "[]"] 1 by simp
  with decode_refines [OF assms(1,2), of "xs @ ys"] both
  have "agrees (d3, r3) (frames_spec (core d1) (fd_buffer d1 @ ys) (fs1 @ []))" by simp
  with 2 both show ?thesis
    unfolding frames_spec_prefix [of _ _ fs1]
    by (cases r2) (auto simp: agrees_def intro: decoder_eqI split: prod.splits rust_result.splits)
qed

lemmas decode_eval =
  FrameDecoder_decode_def FrameDecoder_decode_loop.simps decode_frame_header_def
  decode_frame_payload_def decode_payload_by_type_def FRAME_HEADER_LENGTH_def Let_def
  FrameDecoder_store_def FrameDecoder_clear_def header_payload_length_def get_stream_id_def
  FrameDecoder_assemble_def is_connection_frame_def

lemma settings_ack_parts:
  "FrameDecoder_decode FrameDecoder_new [0, 0, 0, 4, 1] =
     (FrameDecoder_new\<lparr>fd_buffer := [0, 0, 0, 4, 1], fd_offset := 5\<rparr>, Ok [])"
  "FrameDecoder_decode (FrameDecoder_new\<lparr>fd_buffer := [0, 0, 0, 4, 1], fd_offset := 5\<rparr>) [0, 0, 0, 0] =
     (FrameDecoder_new, Ok [Complete Settings_ack])"
  by (simp_all add: decode_eval decode_settings_payload_def FrameDecoder_new_def Continuations_new_def
      FrameHeader_is_ack_def ACK_MASK_def FrameDecoder_frame_def Settings_ack_def FrameHeader_new_def
      DEFAULT_MAX_FRAME_SIZE_def cong: prod.case_cong_weak)

theorem frame_decode_segments_witness:
  "FrameDecoder_decode FrameDecoder_new [0, 0, 0, 4, 1] =
     (FrameDecoder_new\<lparr>fd_buffer := [0, 0, 0, 4, 1], fd_offset := 5\<rparr>, Ok [])
   \<and> FrameDecoder_decode FrameDecoder_new ([0, 0, 0, 4, 1] @ [0, 0, 0, 0]) =
     (FrameDecoder_new, Ok [Complete Settings_ack])"
  using frame_decode_segments [OF _ _ settings_ack_parts(1) _ settings_ack_parts(2)]
    boundary_wf [OF boundary_new] settings_ack_parts(1)
  by (simp add: mid_priority_def FrameDecoder_new_def prod_eq_iff)

lemma mid_priority_decode:
  assumes "FrameDecoder_wf d" "mid_priority d" "\<not> continuation_open d"
  shows "FrameDecoder_decode d buf =
    (if length (fd_buffer d @ buf) < fh_payload_length (fd_header d)
     then (FrameDecoder_store d buf, Ok [])
     else (d, Err (if fh_stream_id (fd_header d) = 0 then ConnectionError ProtocolError
                   else StreamError (fh_stream_id (fd_header d)) FrameSizeError)))"
proof -
  let ?n = "fh_payload_length (fd_header d)"
  from assms have d: "fd_stage d = Stage_Payload" "fh_frame_type (fd_header d) = 2"
    "0 < fd_offset d" "fd_offset d < ?n" "fd_offset d = length (fd_buffer d)"
    by (auto simp: mid_priority_def FrameDecoder_wf_def)
  have "decode_frame_payload d buf =
    (if length (fd_buffer d @ buf) < ?n then (FrameDecoder_store d buf, Ok None)
     else (d, Err (if fh_stream_id (fd_header d) = 0 then ConnectionError ProtocolError
                   else StreamError (fh_stream_id (fd_header d)) FrameSizeError)))"
    using d assms(3)
    by (cases "fd_buffer d") (auto simp: decode_frame_payload_def continuation_open_def Let_def
        decode_payload_by_type_def decode_priority_payload_def is_connection_frame_def)
  with d(1) show ?thesis by (simp add: FrameDecoder_decode_def FrameDecoder_decode_loop.simps [of d])
qed

lemma open_refused:
  "fd_stage d = Stage_Payload \<Longrightarrow> continuation_open d \<Longrightarrow>
   FrameDecoder_decode d buf = (d, Err (ConnectionError ProtocolError))"
  by (simp add: FrameDecoder_decode_def FrameDecoder_decode_loop.simps [of d]
      decode_frame_payload_def continuation_open_def)

lemma decode_wf:
  assumes "FrameDecoder_wf d" "FrameDecoder_decode d buf = (d', Ok frames)"
  shows "FrameDecoder_wf d'"
proof (cases "mid_priority d")
  case False
  with decode_refines [of d buf] assms show ?thesis by (auto simp: agrees_def split: prod.splits)
next
  case True
  then have stage: "fd_stage d = Stage_Payload" by (simp add: mid_priority_def)
  with assms(2) have "\<not> continuation_open d" by (auto simp: open_refused)
  from mid_priority_decode [OF assms(1) True this, of buf] assms stage show ?thesis
    by (auto simp: FrameDecoder_wf_def split: if_splits)
qed




section \<open>Header blocks over several frames\<close>

lemma hpack_prefix:
  assumes "HpackDecoder_decode h (xs @ ys) = (h', Ok ())"
  obtains h1 where "HpackDecoder_decode h xs = (h1, Ok ())" "HpackDecoder_decode h1 ys = (h', Ok ())"
proof -
  obtain h1 r where "HpackDecoder_decode h xs = (h1, r)" by fastforce
  with assms that show thesis by (cases r) (simp_all add: hpack_decode_segments)
qed

text \<open>The CONTINUATION frames of the fragments, the last of them with END_HEADERS.\<close>

fun continuation_bytes :: "StreamId \<Rightarrow> bytes list \<Rightarrow> bytes" where
  "continuation_bytes sid [] = []"
| "continuation_bytes sid [f] = frame_bytes 9 END_HEADERS_MASK sid f"
| "continuation_bytes sid (f # fs) = frame_bytes 9 0 sid f @ continuation_bytes sid fs"

definition opened :: "u8 \<Rightarrow> StreamId \<Rightarrow> Continuations" where
  "opened flags sid =
     \<lparr>co_flags = flags, co_is_end_stream = (END_STREAM_MASK AND flags = END_STREAM_MASK),
      co_stream_id = sid, co_is_end_headers = False, co_promised_stream_id = 0\<rparr>"

lemma header_stage:
  assumes "fd_stage d = Stage_Header"
  shows "d\<lparr>fd_hpack := k, fd_header := x, fd_stage := Stage_Header\<rparr> = d\<lparr>fd_header := x, fd_hpack := k\<rparr>"
    "d\<lparr>fd_hpack := k, fd_continuations := c, fd_header := x, fd_stage := Stage_Header\<rparr> =
       d\<lparr>fd_header := x, fd_hpack := k, fd_continuations := c\<rparr>"
    "d\<lparr>fd_continuations := c, fd_hpack := k, fd_header := x, fd_stage := Stage_Header\<rparr> =
       d\<lparr>fd_header := x, fd_hpack := k, fd_continuations := c\<rparr>"
  using assms by simp_all

lemma continuation_frame:
  assumes "fd_stage d = Stage_Header" "fd_offset d = 0" "fd_continuations d = opened flags sid"
    and "frame_fits d sid f" "sid \<noteq> 0" "HpackDecoder_decode (fd_hpack d) f = (h, Ok ())"
  shows "frames_spec d (frame_bytes 9 0 sid f @ rest) frames =
      frames_spec (d\<lparr>fd_header := FrameHeader_new, fd_hpack := h\<rparr>) rest (frames @ [Partial])"
    "HpackDecoder_finish h = (h', Ok parts) \<Longrightarrow>
      frames_spec d (frame_bytes 9 END_HEADERS_MASK sid f @ rest) frames =
      frames_spec (d\<lparr>fd_header := FrameHeader_new, fd_hpack := h', fd_continuations := Continuations_new\<rparr>)
        rest (frames @ [Complete (Frame_new sid (FrameFlags flags) (Payload_Headers parts))])"
proof -
  have "co_stream_id (fd_continuations d) = sid" using assms(3) by (simp add: opened_def)
  then have "co_is_end_headers (fd_continuations d) \<or> co_stream_id (fd_continuations d) = sid \<and> (9 :: u8) = 9"
    by simp
  note step = frames_spec_frame [OF assms(1,4) this]
  note stage = header_stage [OF assms(1)]
  show "frames_spec d (frame_bytes 9 0 sid f @ rest) frames =
      frames_spec (d\<lparr>fd_header := FrameHeader_new, fd_hpack := h\<rparr>) rest (frames @ [Partial])"
    using assms(2,5,6) stage
    by (simp add: step decode_payload_by_type_def decode_continuation_payload_def
        is_connection_frame_def FrameDecoder_assemble_def continuation_framing_def hpack_layer
        FrameHeader_is_end_headers_def END_HEADERS_MASK_def with_header_def)
  show "HpackDecoder_finish h = (h', Ok parts) \<Longrightarrow>
      frames_spec d (frame_bytes 9 END_HEADERS_MASK sid f @ rest) frames =
      frames_spec (d\<lparr>fd_header := FrameHeader_new, fd_hpack := h', fd_continuations := Continuations_new\<rparr>)
        rest (frames @ [Complete (Frame_new sid (FrameFlags flags) (Payload_Headers parts))])"
    using assms(2,3,5,6) stage
    by (simp add: step decode_payload_by_type_def decode_continuation_payload_def
        is_connection_frame_def FrameDecoder_assemble_def continuation_framing_def hpack_layer
        FrameHeader_is_end_headers_def END_HEADERS_MASK_def with_header_def Let_def opened_def
        Continuations_reset_def Continuations_new_def)
qed

lemma frames_spec_Nil: "fd_stage d = Stage_Header \<Longrightarrow> frames_spec d [] frames = (d, [], Ok frames)"
  by (subst frames_spec.simps) simp

lemma continuation_frames:
  assumes "fs \<noteq> []" "fd_stage d = Stage_Header" "fd_offset d = 0" "fd_continuations d = opened flags sid"
    and "list_all (frame_fits d sid) fs" "sid \<noteq> 0"
    and "HpackDecoder_decode (fd_hpack d) (concat fs) = (h, Ok ())" "HpackDecoder_finish h = (h', Ok parts)"
  shows "frames_spec d (continuation_bytes sid fs) frames =
    (d\<lparr>fd_header := FrameHeader_new, fd_hpack := h', fd_continuations := Continuations_new\<rparr>, [],
     Ok (frames @ replicate (length fs - 1) Partial
         @ [Complete (Frame_new sid (FrameFlags flags) (Payload_Headers parts))]))"
  using assms
proof (induction sid fs arbitrary: d frames rule: continuation_bytes.induct)
  case (2 sid f)
  then show ?case
    using continuation_frame(2) [of d flags sid f h h' parts "[]"] by (simp add: frames_spec_Nil)
next
  case (3 sid f g fs)
  from 3(8) obtain h1 where h1: "HpackDecoder_decode (fd_hpack d) f = (h1, Ok ())"
    "HpackDecoder_decode h1 (concat (g # fs)) = (h, Ok ())"
    using hpack_prefix [of "fd_hpack d" f "concat (g # fs)"] by auto
  let ?d = "d\<lparr>fd_header := FrameHeader_new, fd_hpack := h1\<rparr>"
  have fits: "frame_fits ?d = frame_fits d" by (simp add: frame_fits_def fun_eq_iff)
  have "frames_spec d (continuation_bytes sid (f # g # fs)) frames =
      frames_spec ?d (continuation_bytes sid (g # fs)) (frames @ [Partial])"
    using continuation_frame(1) [OF 3(3-5) _ 3(7) h1(1)] 3(6) by simp
  also have "\<dots> = (?d\<lparr>fd_header := FrameHeader_new, fd_hpack := h', fd_continuations := Continuations_new\<rparr>, [],
     Ok ((frames @ [Partial]) @ replicate (length (g # fs) - 1) Partial
         @ [Complete (Frame_new sid (FrameFlags flags) (Payload_Headers parts))]))"
    by (rule "3.IH") (use 3 h1 fits in simp_all)
  finally show ?case by simp
qed simp

lemma headers_frame:
  assumes "at_boundary d" "frame_fits d sid f" "sid \<noteq> 0" "flags = 0 \<or> flags = END_STREAM_MASK"
    and "HpackDecoder_decode (fd_hpack d) f = (h, Ok ())"
  shows "frames_spec d (frame_bytes 1 flags sid f @ rest) frames =
      frames_spec (d\<lparr>fd_header := FrameHeader_new, fd_hpack := h, fd_continuations := opened flags sid\<rparr>)
        rest (frames @ [Partial])"
    "HpackDecoder_finish h = (h', Ok parts) \<Longrightarrow>
      frames_spec d (frame_bytes 1 (flags OR END_HEADERS_MASK) sid f @ rest) frames =
      frames_spec (d\<lparr>fd_header := FrameHeader_new, fd_hpack := h'\<rparr>) rest
        (frames @ [Complete (Frame_new sid (FrameFlags (flags OR END_HEADERS_MASK)) (Payload_Headers parts))])"
proof -
  have d: "fd_stage d = Stage_Header" "fd_offset d = 0" "fd_continuations d = Continuations_new"
    using assms(1) by (auto simp: at_boundary_def)
  then have "co_is_end_headers (fd_continuations d) \<or> co_stream_id (fd_continuations d) = sid \<and> (1 :: u8) = 9"
    by (simp add: Continuations_new_def)
  note step = frames_spec_frame [OF d(1) assms(2) this]
  note payload = step decode_payload_by_type_def decode_headers_payload_def is_connection_frame_def
    FrameDecoder_assemble_def fragment_range_def headers_framing_def hpack_layer slice_range_def
    FrameHeader_is_end_headers_def FrameHeader_is_padded_def FrameHeader_is_headers_priority_def
    FrameHeader_is_end_stream_def END_HEADERS_MASK_def PADDED_MASK_def HEADERS_PRIORITY_MASK_def
    END_STREAM_MASK_def with_header_def Let_def opened_def
  note stage = header_stage [OF d(1)]
  show "frames_spec d (frame_bytes 1 flags sid f @ rest) frames =
      frames_spec (d\<lparr>fd_header := FrameHeader_new, fd_hpack := h, fd_continuations := opened flags sid\<rparr>)
        rest (frames @ [Partial])"
    using assms(3-5) d by (auto simp: payload Continuations_new_def stage)
  show "HpackDecoder_finish h = (h', Ok parts) \<Longrightarrow>
      frames_spec d (frame_bytes 1 (flags OR END_HEADERS_MASK) sid f @ rest) frames =
      frames_spec (d\<lparr>fd_header := FrameHeader_new, fd_hpack := h'\<rparr>) rest
        (frames @ [Complete (Frame_new sid (FrameFlags (flags OR END_HEADERS_MASK)) (Payload_Headers parts))])"
    using assms(3-5) d by (auto simp: payload FrameDecoder_frame_def stage)
qed

lemma decode_of_spec:
  assumes "at_boundary d" "frames_spec d buf [] = (d', [], Ok frames)"
  shows "FrameDecoder_decode d buf = (d', Ok frames)"
proof -
  from assms(1) have d: "FrameDecoder_wf d" "\<not> mid_priority d" "core d = d" "fd_buffer d = []"
    using boundary_wf [of d] by (auto simp: at_boundary_def)
  obtain d2 r where dec: "FrameDecoder_decode d buf = (d2, r)" by fastforce
  with decode_refines [OF d(1,2), of buf] assms(2) d
  have "r = Ok frames" "core d2 = d'" "fd_buffer d2 = []" "FrameDecoder_wf d2"
    by (simp_all add: agrees_def)
  with dec wf_offset [of d2] show ?thesis by (simp add: core_idem)
qed

text \<open>
  C10. A header block may be cut at any byte into a HEADERS frame and CONTINUATION frames: if HPACK
  decodes the whole block to some fields, the decoder returns one partial mark for every frame but
  the last and then the HEADERS frame with exactly those fields, and it is left as by the single
  HEADERS frame that carries the whole block.
\<close>

theorem continuation_join:
  assumes "at_boundary d" "sid \<noteq> 0" "flags = 0 \<or> flags = END_STREAM_MASK" "fs \<noteq> []"
    and "list_all (frame_fits d sid) (f # fs)" "frame_fits d sid (concat (f # fs))"
    and dec: "HpackDecoder_decode (fd_hpack d) (concat (f # fs)) = (h, Ok ())"
    and fin: "HpackDecoder_finish h = (h', Ok parts)"
  shows "FrameDecoder_decode d (frame_bytes 1 flags sid f @ continuation_bytes sid fs) =
      (d\<lparr>fd_header := FrameHeader_new, fd_hpack := h'\<rparr>,
       Ok (replicate (length fs) Partial
           @ [Complete (Frame_new sid (FrameFlags flags) (Payload_Headers parts))]))
    \<and> FrameDecoder_decode d (frame_bytes 1 (flags OR END_HEADERS_MASK) sid (concat (f # fs))) =
      (d\<lparr>fd_header := FrameHeader_new, fd_hpack := h'\<rparr>,
       Ok [Complete (Frame_new sid (FrameFlags (flags OR END_HEADERS_MASK)) (Payload_Headers parts))])"
proof -
  from assms(1) have d: "fd_stage d = Stage_Header" "fd_offset d = 0"
    "fd_continuations d = Continuations_new" by (auto simp: at_boundary_def)
  from dec obtain h1 where h1: "HpackDecoder_decode (fd_hpack d) f = (h1, Ok ())"
    "HpackDecoder_decode h1 (concat fs) = (h, Ok ())"
    using hpack_prefix [of "fd_hpack d" f "concat fs"] by auto
  let ?d = "d\<lparr>fd_header := FrameHeader_new, fd_hpack := h1, fd_continuations := opened flags sid\<rparr>"
  have fits: "frame_fits ?d = frame_fits d" by (simp add: frame_fits_def fun_eq_iff)
  have "frames_spec d (frame_bytes 1 flags sid f @ continuation_bytes sid fs) [] =
      frames_spec ?d (continuation_bytes sid fs) [Partial]"
    using headers_frame(1) [OF assms(1) _ assms(2,3) h1(1)] assms(5) by simp
  also have "\<dots> = (?d\<lparr>fd_header := FrameHeader_new, fd_hpack := h', fd_continuations := Continuations_new\<rparr>,
      [], Ok ([Partial] @ replicate (length fs - 1) Partial
        @ [Complete (Frame_new sid (FrameFlags flags) (Payload_Headers parts))]))"
    by (rule continuation_frames) (use assms h1 d fits in simp_all)
  finally have "FrameDecoder_decode d (frame_bytes 1 flags sid f @ continuation_bytes sid fs) =
      (d\<lparr>fd_header := FrameHeader_new, fd_hpack := h'\<rparr>,
       Ok (replicate (length fs) Partial
           @ [Complete (Frame_new sid (FrameFlags flags) (Payload_Headers parts))]))"
    using assms(1,4) d(3) by (cases fs) (simp_all add: decode_of_spec)
  moreover from headers_frame(2) [OF assms(1,6,2,3) dec fin, of "[]"] d(1)
  have "FrameDecoder_decode d (frame_bytes 1 (flags OR END_HEADERS_MASK) sid (concat (f # fs))) =
      (d\<lparr>fd_header := FrameHeader_new, fd_hpack := h'\<rparr>,
       Ok [Complete (Frame_new sid (FrameFlags (flags OR END_HEADERS_MASK)) (Payload_Headers parts))])"
    by (intro decode_of_spec [OF assms(1)]) (simp add: frames_spec_Nil)
  ultimately show ?thesis by simp
qed

definition small_decoder :: FrameDecoder where
  "small_decoder = FrameDecoder_new\<lparr>fd_hpack := HpackDecoder_with_max_size 64 200\<rparr>"

lemma small_boundary: "at_boundary small_decoder"
  using boundary_new by (simp add: small_decoder_def at_boundary_def)

lemma small_fits: "length payload \<le> 20 \<Longrightarrow> frame_fits small_decoder 1 payload"
  by (simp add: frame_fits_def small_decoder_def FrameDecoder_new_def DEFAULT_MAX_FRAME_SIZE_def)

theorem continuation_join_witness:
  "\<exists>h' parts. ps_method (parts_pseudo parts) = Some ''GET'' \<and> ps_scheme (parts_pseudo parts) = Some ''http''
   \<and> FrameDecoder_decode small_decoder (frame_bytes 1 0 1 [0x82] @ continuation_bytes 1 [[0x86]]) =
      (small_decoder\<lparr>fd_header := FrameHeader_new, fd_hpack := h'\<rparr>,
       Ok [Partial, Complete (Frame_new 1 (FrameFlags 0) (Payload_Headers parts))])"
proof -
  let ?h = "fst (HpackDecoder_decode (HpackDecoder_with_max_size 64 200) [0x82, 0x86])"
  let ?parts = "hl_parts (hpd_lines ?h)"
  have "snd (HpackDecoder_decode (HpackDecoder_with_max_size 64 200) [0x82, 0x86]) = Ok ()"
    by code_simp
  then have "HpackDecoder_decode (fd_hpack small_decoder) (concat [[0x82], [0x86]]) = (?h, Ok ())"
    by (simp add: small_decoder_def prod_eq_iff)
  moreover have "hpd_holder ?h = None" by code_simp
  then have "HpackDecoder_finish ?h = (fst (HpackDecoder_finish ?h), Ok ?parts)"
    by (simp add: HpackDecoder_finish_def)
  ultimately have "FrameDecoder_decode small_decoder (frame_bytes 1 0 1 [0x82] @ continuation_bytes 1 [[0x86]]) =
      (small_decoder\<lparr>fd_header := FrameHeader_new, fd_hpack := fst (HpackDecoder_finish ?h)\<rparr>,
       Ok [Partial, Complete (Frame_new 1 (FrameFlags 0) (Payload_Headers ?parts))])"
    using continuation_join [of small_decoder 1 0 "[[0x86]]" "[0x82]"] small_boundary small_fits
    by simp
  moreover have "ps_method (parts_pseudo ?parts) = Some ''GET'' \<and> ps_scheme (parts_pseudo ?parts) = Some ''http''"
    by code_simp
  ultimately show ?thesis by blast
qed

section \<open>Panics\<close>

text \<open>
  C28. A peer that sends a HEADERS or PUSH_PROMISE frame with the PADDED flag and no payload makes
  the decoder panic, on every stream and in every state between two frames: the pad length is read
  from the empty payload.
\<close>

theorem empty_padded_frame_panics:
  assumes "at_boundary d" "sid \<noteq> 0" "unat sid < 2 ^ 31" "ty = 1 \<or> ty = 5"
    and "PADDED_MASK AND flags = PADDED_MASK"
  shows "snd (FrameDecoder_decode d (frame_bytes ty flags sid [])) = Panic"
proof -
  from assms(1) have d: "FrameDecoder_wf d" "\<not> mid_priority d" "core d = d" "fd_buffer d = []"
    "fd_stage d = Stage_Header" "fd_offset d = 0" "co_is_end_headers (fd_continuations d)"
    using boundary_wf [of d] by (auto simp: at_boundary_def)
  have "frame_fits d sid []" using assms(3) by (simp add: frame_fits_def)
  from frames_spec_frame [OF d(5) this, of ty flags "[]" "[]"] assms(2,4,5) d
  have "snd (snd (frames_spec d (frame_bytes ty flags sid []) [])) = Panic"
    by (auto simp: decode_payload_by_type_def decode_headers_payload_def decode_push_promise_payload_def
        is_connection_frame_def FrameDecoder_assemble_def fragment_range_def FrameHeader_is_padded_def)
  with decode_refines [OF d(1,2), of "frame_bytes ty flags sid []"] d(3,4) show ?thesis
    by (auto simp: agrees_def split: prod.splits)
qed

theorem empty_padded_frame_panics_witness:
  "at_boundary FrameDecoder_new \<and>
   snd (FrameDecoder_decode FrameDecoder_new (frame_bytes 1 8 1 [])) = Panic"
  using empty_padded_frame_panics [of FrameDecoder_new 1 1 8] boundary_new by (simp add: PADDED_MASK_def)

section \<open>Where the decoder departs from the protocol\<close>

lemma decode_at_boundary:
  assumes "at_boundary d"
  shows "snd (FrameDecoder_decode d buf) = snd (snd (frames_spec d buf []))"
proof -
  from assms have "FrameDecoder_wf d" "\<not> mid_priority d" "core d = d" "fd_buffer d = []"
    using boundary_wf [of d] by (auto simp: at_boundary_def)
  with decode_refines [of d buf] show ?thesis by (auto simp: agrees_def split: prod.splits)
qed

text \<open>
  A CONTINUATION frame that follows no HEADERS frame is not refused: the decoder returns its
  fields as a HEADERS frame of stream 0.
\<close>

lemma orphan_continuation_accepted:
  assumes "at_boundary d" "frame_fits d sid f" "sid \<noteq> 0"
    and "HpackDecoder_decode (fd_hpack d) f = (h, Ok ())" "HpackDecoder_finish h = (h', Ok parts)"
  shows "snd (FrameDecoder_decode d (frame_bytes 9 END_HEADERS_MASK sid f)) =
    Ok [Complete (Frame_new 0 (FrameFlags 0) (Payload_Headers parts))]"
proof -
  have d: "fd_stage d = Stage_Header" "fd_continuations d = Continuations_new" "fd_offset d = 0"
    "co_is_end_headers (fd_continuations d)"
    using assms(1) boundary_wf [of d] by (auto simp: at_boundary_def)
  from frames_spec_frame [OF d(1) assms(2), of 9 END_HEADERS_MASK "[]" "[]"] d assms(3-5)
  have "snd (snd (frames_spec d (frame_bytes 9 END_HEADERS_MASK sid f) [])) =
      Ok [Complete (Frame_new 0 (FrameFlags 0) (Payload_Headers parts))]"
    by (simp add: decode_payload_by_type_def decode_continuation_payload_def is_connection_frame_def
        FrameDecoder_assemble_def continuation_framing_def hpack_layer FrameHeader_is_end_headers_def
        END_HEADERS_MASK_def Let_def Continuations_new_def frames_spec_Nil)
  with decode_at_boundary [OF assms(1)] show ?thesis by simp
qed

end
