(* ===== verification/H2_Frame_Wire.thy ===== *)
theory H2_Frame_Wire
  imports H2_Frame_Encoder H2_Frame_Props
begin

text \<open>
  What the frame encoder writes: the wire format of every frame, over buffers of any lengths from
  13 bytes on.
\<close>

section \<open>The wire format\<close>

declare drop_cut [simp] drop_cut_append [simp]

definition priority_bytes :: "Priority \<Rightarrow> bytes" where
  "priority_bytes p =
     [(if prio_exclusive p then 0x80 else 0) OR ucast (drop_bit 24 (prio_stream_dependency p) AND 0x7F),
      ucast (drop_bit 16 (prio_stream_dependency p)), ucast (drop_bit 8 (prio_stream_dependency p)),
      ucast (prio_stream_dependency p), prio_weight p]"

definition goaway_bytes :: "Goaway \<Rightarrow> bytes" where
  "goaway_bytes g = be_u32 (goaway_last_stream_id g) @ be_u32 (goaway_error_code g) @ goaway_debug_data g"

definition setting_bytes :: "Setting \<Rightarrow> bytes" where
  "setting_bytes s = (case setting_pair s of (i, v) \<Rightarrow> [ucast (drop_bit 8 i), ucast i] @ be_u32 v)"

definition settings_bytes :: "Settings \<Rightarrow> bytes" where
  "settings_bytes ss = concat (map setting_bytes ss)"

text \<open>A frame other than HEADERS; SETTINGS and PING are written for stream 0.\<close>

definition frame_wire :: "Frame \<Rightarrow> bytes" where
  "frame_wire f =
     (let flags = FrameFlags_bits (frame_flags f); sid = frame_id f
      in case frame_payload f of
           Payload_Data d \<Rightarrow> frame_bytes 0 flags sid d
         | Payload_Priority p \<Rightarrow> frame_bytes 2 flags sid (priority_bytes p)
         | Payload_RstStream c \<Rightarrow> frame_bytes 3 flags sid (be_u32 c)
         | Payload_Settings ss \<Rightarrow> frame_bytes 4 flags 0 (settings_bytes ss)
         | Payload_Ping d \<Rightarrow> frame_bytes 6 flags 0 d
         | Payload_Goaway g \<Rightarrow> frame_bytes 7 flags sid (goaway_bytes g)
         | Payload_WindowUpdate w \<Rightarrow> frame_bytes 8 flags sid (be_u32 w)
         | _ \<Rightarrow> [])"

text \<open>A header block, cut into one HEADERS frame and CONTINUATION frames of the length of the payload buffer.\<close>

function chunks :: "nat \<Rightarrow> bytes \<Rightarrow> bytes list" where
  "chunks n bs = (if n = 0 \<or> bs = [] then [] else take n bs # chunks n (drop n bs))"
  by pat_completeness auto

termination
  by (relation "measure (\<lambda>(n, bs). length bs)") auto

declare chunks.simps [simp del]

definition headers_wire :: "nat \<Rightarrow> Frame \<Rightarrow> bytes \<Rightarrow> bytes" where
  "headers_wire n f block =
     (let flags = FrameFlags_bits (frame_flags f); sid = frame_id f
      in if length block \<le> n then frame_bytes 1 flags sid block
         else frame_bytes 1 (flags AND 0xFB) sid (take n block) @ continuation_bytes sid (chunks n (drop n block)))"

section \<open>Bytes of the encoder\<close>

lemma fill_writes:
  assumes "len \<le> length buf" "j + len \<le> length xs" "\<And>k. k < len \<Longrightarrow> f (i + k) = Ok (xs ! (j + k))"
  shows "fill f i len buf = (take len (drop j xs) @ drop len buf, Ok ())"
  using assms
proof (induction buf arbitrary: i j len)
  case (Cons b buf)
  show ?case
  proof (cases len)
    case (Suc n)
    have "fill f (i + 1) n buf = (take n (drop (j + 1) xs) @ drop n buf, Ok ())"
    proof (rule Cons.IH)
      show "f (i + 1 + k) = Ok (xs ! (j + 1 + k))" if "k < n" for k
        using Cons.prems(3) [of "Suc k"] that Suc by simp
    qed (use Cons.prems Suc in auto)
    moreover have "f i = Ok (xs ! j)" using Cons.prems(3) [of 0] Suc by simp
    moreover have "drop j xs = xs ! j # drop (j + 1) xs" using Cons.prems(2) Suc by (simp add: Cons_nth_drop_Suc)
    ultimately show ?thesis using Suc by simp
  qed simp
qed simp

lemma u32_bytes: "map (u32_byte w) [0..<4] = be_u32 w"
  by (simp add: u32_byte_def be_u32_def upt_rec numeral_eq_Suc)

lemma u32_byte_nth: "k < 4 \<Longrightarrow> u32_byte w k = be_u32 w ! k"
  using nth_map [of k "[0..<4]" "u32_byte w"] by (simp add: u32_bytes)

lemma header_byte_frame:
  assumes "k < 9"
  shows "header_byte (length_byte (length payload)) ty flags (u32_byte sid) k = Ok (frame_bytes ty flags sid payload ! k)"
proof -
  have "k \<in> {0,1,2,3,4,5,6,7,8}" using assms by auto
  then show ?thesis
    by (auto simp: header_byte_def frame_bytes_def length_byte_def u32_byte_def be_u32_def nth_Cons')
qed

lemma frame_bytes_length [simp]: "length (frame_bytes ty flags sid payload) = 9 + length payload"
  by (simp add: frame_bytes_def)

lemma frame_bytes_payload: "k < length payload \<Longrightarrow> frame_bytes ty flags sid payload ! (9 + k) = payload ! k"
  by (simp add: frame_bytes_def nth_append)

section \<open>Frames with one counter\<close>

text \<open>
  The header and the payload of most frames are written by the same scheme: \<open>encoded_bytes\<close> counts the
  bytes of the whole frame \<open>w\<close>, and at \<open>limit\<close> the encoder goes on to \<open>next\<close>.
\<close>

definition counted :: "bytes \<Rightarrow> nat \<Rightarrow> FrameEncoderState \<Rightarrow> FrameEncoder \<Rightarrow> bytes \<Rightarrow> encoder_result" where
  "counted w limit next e buf =
     (let n = min (limit - fe_encoded_bytes e) (length buf);
          e' = e\<lparr>fe_encoded_bytes := fe_encoded_bytes e + n\<rparr>
      in (if fe_encoded_bytes e' = limit then e'\<lparr>fe_state := next\<rparr> else e',
          take n (drop (fe_encoded_bytes e) w) @ drop n buf, Ok n))"

definition current :: "FrameEncoder \<Rightarrow> StreamId \<Rightarrow> u8 \<Rightarrow> Payload \<Rightarrow> bool" where
  "current e sid flags p \<longleftrightarrow> fe_current_frame e = Some (Frame_new sid (FrameFlags flags) p)"

lemma fill_header:
  assumes "e < 9" "n = min (9 - e) (length buf)"
  shows "fill (\<lambda>k. header_byte (length_byte (length payload)) ty flags (u32_byte sid) (e + k)) 0 n buf =
    (take n (drop e (frame_bytes ty flags sid payload)) @ drop n buf, Ok ())"
  using assms by (intro fill_writes) (auto simp: header_byte_frame)

lemma fill_payload:
  assumes "9 \<le> e" "e \<le> length payload + 9" "n = min (length payload - (e - 9)) (length buf)"
    and "\<And>k. k < length payload \<Longrightarrow> f k = Ok (payload ! k)"
  shows "fill (\<lambda>k. f (e - 9 + k)) 0 n buf = (take n (drop e (frame_bytes ty flags sid payload)) @ drop n buf, Ok ())"
proof (rule fill_writes)
  fix k assume "k < n"
  with assms(3) have "e - 9 + k < length payload" by linarith
  with assms(1,4) frame_bytes_payload [of "e - 9 + k" payload ty flags sid]
  show "f (e - 9 + (0 + k)) = Ok (frame_bytes ty flags sid payload ! (e + k))" by simp
qed (use assms(1-3) in auto)

lemma goaway_counted:
  assumes "current e sid flags (Payload_Goaway g)"
  shows "fe_encoded_bytes e < 9 \<Longrightarrow>
      encode_goaway_frame e buf = counted (frame_bytes 7 flags sid (goaway_bytes g)) 9 EncodingGoawayPayload e buf"
    "9 \<le> fe_encoded_bytes e \<Longrightarrow> fe_encoded_bytes e \<le> length (goaway_bytes g) + 9 \<Longrightarrow>
      encode_goaway_payload e buf =
        counted (frame_bytes 7 flags sid (goaway_bytes g)) (length (goaway_bytes g) + 9) DataComplete e buf"
proof -
  have len: "Goaway_encoded_len g = length (goaway_bytes g)"
    by (simp add: Goaway_encoded_len_def goaway_bytes_def)
  have byte: "goaway_byte g k = Ok (goaway_bytes g ! k)" if "k < length (goaway_bytes g)" for k
    using that by (auto simp: goaway_byte_def goaway_bytes_def nth_append u32_byte_nth)
  show "fe_encoded_bytes e < 9 \<Longrightarrow>
      encode_goaway_frame e buf = counted (frame_bytes 7 flags sid (goaway_bytes g)) 9 EncodingGoawayPayload e buf"
    using assms fill_header [of "fe_encoded_bytes e" "header_bytes_to_write e buf" buf "goaway_bytes g" 7 flags sid]
    by (simp add: encode_goaway_frame_def iterate_goaway_header_def current_def Frame_new_def counted_def len
        header_bytes_to_write_def Let_def)
  show "9 \<le> fe_encoded_bytes e \<Longrightarrow> fe_encoded_bytes e \<le> length (goaway_bytes g) + 9 \<Longrightarrow>
      encode_goaway_payload e buf =
        counted (frame_bytes 7 flags sid (goaway_bytes g)) (length (goaway_bytes g) + 9) DataComplete e buf"
    using assms fill_payload [where e = "fe_encoded_bytes e" and payload = "goaway_bytes g" and f = "goaway_byte g" and buf = buf
        and ty = 7 and flags = flags and sid = sid, OF _ _ refl byte]
    by (simp add: encode_goaway_payload_def iterate_goaway_payload_def current_def Frame_new_def counted_def len
        Let_def not_less)
qed

lemma priority_counted:
  assumes "current e sid flags (Payload_Priority p)"
  shows "fe_encoded_bytes e < 9 \<Longrightarrow>
      encode_priority_frame e buf = counted (frame_bytes 2 flags sid (priority_bytes p)) 9 EncodingPriorityPayload e buf"
    "9 \<le> fe_encoded_bytes e \<Longrightarrow> fe_encoded_bytes e \<le> 14 \<Longrightarrow>
      encode_priority_payload e buf = counted (frame_bytes 2 flags sid (priority_bytes p)) 14 DataComplete e buf"
proof -
  have len: "length (priority_bytes p) = 5" by (simp add: priority_bytes_def)
  have byte: "priority_byte p k = Ok (priority_bytes p ! k)" if "k < length (priority_bytes p)" for k
  proof -
    have "k \<in> {0,1,2,3,4}" using that len by auto
    then show ?thesis
      by (auto simp: priority_byte_def priority_bytes_def)
  qed
  show "fe_encoded_bytes e < 9 \<Longrightarrow>
      encode_priority_frame e buf = counted (frame_bytes 2 flags sid (priority_bytes p)) 9 EncodingPriorityPayload e buf"
    using assms fill_header [of "fe_encoded_bytes e" "header_bytes_to_write e buf" buf "priority_bytes p" 2 flags sid]
    by (simp add: encode_priority_frame_def iterate_priority_header_def current_def Frame_new_def counted_def len
        header_bytes_to_write_def Let_def)
  show "9 \<le> fe_encoded_bytes e \<Longrightarrow> fe_encoded_bytes e \<le> 14 \<Longrightarrow>
      encode_priority_payload e buf = counted (frame_bytes 2 flags sid (priority_bytes p)) 14 DataComplete e buf"
    using assms fill_payload [where e = "fe_encoded_bytes e" and payload = "priority_bytes p" and f = "priority_byte p" and buf = buf
        and ty = 2 and flags = flags and sid = sid, OF _ _ refl byte]
    by (simp add: encode_priority_payload_def iterate_priority_payload_def current_def Frame_new_def counted_def len
        Let_def not_less)
qed

text \<open>The other frames have a header that must not be cut.\<close>

lemma rst_stream_counted:
  assumes "current e sid flags (Payload_RstStream c)"
  shows "fe_encoded_bytes e = 0 \<Longrightarrow> 9 \<le> length buf \<Longrightarrow>
      encode_rst_stream_frame e buf = counted (frame_bytes 3 flags sid (be_u32 c)) 9 EncodingRstStreamPayload e buf"
    "9 \<le> fe_encoded_bytes e \<Longrightarrow> fe_encoded_bytes e < 13 \<Longrightarrow>
      encode_rst_stream_payload e buf = counted (frame_bytes 3 flags sid (be_u32 c)) 13 DataComplete e buf"
proof -
  have "rst_stream_byte e (Frame_new sid (FrameFlags flags) (Payload_RstStream c)) k = Ok (frame_bytes 3 flags sid (be_u32 c) ! k)"
    if "fe_encoded_bytes e = 0" "k < 9" for k
  proof -
    have "k \<in> {0,1,2,3,4,5,6,7,8}" using that(2) by auto
    then show ?thesis using that(1)
      by (auto simp: rst_stream_byte_def header_byte_def length_byte_def frame_bytes_def be_u32_def Frame_new_def nth_Cons')
  qed
  then have fill: "fill (rst_stream_byte e (Frame_new sid (FrameFlags flags) (Payload_RstStream c))) 0 9 buf =
      (take 9 (drop 0 (frame_bytes 3 flags sid (be_u32 c))) @ drop 9 buf, Ok ())"
    if "fe_encoded_bytes e = 0" "9 \<le> length buf"
    using that by (intro fill_writes) auto
  show "fe_encoded_bytes e = 0 \<Longrightarrow> 9 \<le> length buf \<Longrightarrow>
      encode_rst_stream_frame e buf = counted (frame_bytes 3 flags sid (be_u32 c)) 9 EncodingRstStreamPayload e buf"
    using assms fill by (simp add: encode_rst_stream_frame_def current_def counted_def Let_def)
  show "9 \<le> fe_encoded_bytes e \<Longrightarrow> fe_encoded_bytes e < 13 \<Longrightarrow>
      encode_rst_stream_payload e buf = counted (frame_bytes 3 flags sid (be_u32 c)) 13 DataComplete e buf"
    using assms fill_payload [where e = "fe_encoded_bytes e" and payload = "be_u32 c" and f = "\<lambda>k. Ok (u32_byte c k)" and buf = buf
        and ty = 3 and flags = flags and sid = sid, OF _ _ refl]
    by (simp add: encode_rst_stream_payload_def current_def Frame_new_def counted_def u32_byte_nth Let_def not_less)
qed

lemma fill_at_writes:
  assumes "i + len \<le> length buf" "i + len \<le> length xs" "\<And>k. i \<le> k \<Longrightarrow> k < i + len \<Longrightarrow> f k = Ok (k, xs ! k)"
  shows "fill_at f i len buf = (take i buf @ take len (drop i xs) @ drop (i + len) buf, Ok ())"
  using assms
proof (induction len arbitrary: i buf)
  case (Suc len)
  have "fill_at f (i + 1) len (buf[i := xs ! i]) =
      (take (i + 1) (buf[i := xs ! i]) @ take len (drop (i + 1) xs) @ drop (i + 1 + len) (buf[i := xs ! i]), Ok ())"
    by (rule Suc.IH) (use Suc.prems in auto)
  moreover have "take (i + 1) (buf[i := xs ! i]) = take i buf @ [xs ! i]"
    using Suc.prems(1) by (simp add: take_Suc_conv_app_nth)
  moreover have "drop i xs = xs ! i # drop (i + 1) xs" using Suc.prems(2) by (simp add: Cons_nth_drop_Suc)
  ultimately show ?case using Suc.prems by (simp add: Suc.prems(3) [of i])
qed simp

lemma concat_nth_blocks:
  "\<forall>x\<in>set xss. length x = n \<Longrightarrow> k < length xss * n \<Longrightarrow> concat xss ! k = xss ! (k div n) ! (k mod n)"
proof (induction xss arbitrary: k)
  case (Cons x xss)
  show ?case
  proof (cases "k < n")
    case True
    then show ?thesis using Cons.prems by (simp add: nth_append)
  next
    case False
    moreover have "0 < n" using Cons.prems(2) by (cases n) simp_all
    ultimately have "k div n = Suc ((k - n) div n)" "k mod n = (k - n) mod n"
      by (simp_all add: le_div_geq le_mod_geq)
    with False Cons show ?thesis by (simp add: nth_append)
  qed
qed simp

lemma setting_bytes_length [simp]: "length (setting_bytes s) = 6"
  by (simp add: setting_bytes_def split: prod.split)

lemma settings_bytes_length [simp]: "length (settings_bytes ss) = length ss * 6"
  by (induction ss) (simp_all add: settings_bytes_def)

lemma setting_byte_nth:
  assumes "k < length ss * 6"
  shows "setting_byte ss k = Ok (settings_bytes ss ! k)"
proof -
  have d: "k div 6 < length ss" using assms by (simp add: less_mult_imp_div_less)
  have "settings_bytes ss ! k = map setting_bytes ss ! (k div 6) ! (k mod 6)"
    unfolding settings_bytes_def by (rule concat_nth_blocks) (use assms in auto)
  moreover have "k mod 6 \<in> {0,1,2,3,4,5}" using mod_less_divisor [of 6 k] by force
  ultimately show ?thesis using d
    by (auto simp: setting_byte_def setting_bytes_def be_u32_def Let_def split: prod.split)
qed

lemma settings_counted:
  assumes "current e sid flags (Payload_Settings ss)"
  shows "fe_encoded_bytes e = 0 \<Longrightarrow> 9 \<le> length buf \<Longrightarrow>
      encode_settings_frame e buf = counted (frame_bytes 4 flags 0 (settings_bytes ss)) 9 EncodingSettingsPayload e buf"
    "9 \<le> fe_encoded_bytes e \<Longrightarrow> fe_encoded_bytes e \<le> length ss * 6 + 9 \<Longrightarrow>
      encode_settings_payload e buf =
        counted (frame_bytes 4 flags 0 (settings_bytes ss)) (length ss * 6 + 9) DataComplete e buf"
proof -
  let ?f = "\<lambda>buf_index.
    if buf_index \<le> 2 then Ok (buf_index, length_byte (length ss * 6) buf_index)
    else if buf_index = 3 then Ok (3, 4)
    else if buf_index = 4 then Ok (4, flags)
    else if buf_index \<le> 8 then Ok (buf_index, 0)
    else Err InternalError"
  have "?f k = Ok (k, frame_bytes 4 flags 0 (settings_bytes ss) ! k)" if "k < 9" for k
  proof -
    have "k \<in> {0,1,2,3,4,5,6,7,8}" using that by auto
    then show ?thesis by (auto simp: length_byte_def frame_bytes_def be_u32_def nth_Cons')
  qed
  then have fill: "fill_at ?f 0 9 buf = (take 9 (frame_bytes 4 flags 0 (settings_bytes ss)) @ drop 9 buf, Ok ())" if "9 \<le> length buf"
    using that fill_at_writes [of 0 9 buf "frame_bytes 4 flags 0 (settings_bytes ss)" ?f] by simp
  show "fe_encoded_bytes e = 0 \<Longrightarrow> 9 \<le> length buf \<Longrightarrow>
      encode_settings_frame e buf = counted (frame_bytes 4 flags 0 (settings_bytes ss)) 9 EncodingSettingsPayload e buf"
    using assms fill by (simp add: encode_settings_frame_def iterate_settings_header_def current_def Frame_new_def
        header_bytes_to_write_def counted_def Let_def cong: if_cong)
  show "9 \<le> fe_encoded_bytes e \<Longrightarrow> fe_encoded_bytes e \<le> length ss * 6 + 9 \<Longrightarrow>
      encode_settings_payload e buf =
        counted (frame_bytes 4 flags 0 (settings_bytes ss)) (length ss * 6 + 9) DataComplete e buf"
    using assms fill_payload [where e = "fe_encoded_bytes e" and payload = "settings_bytes ss" and f = "setting_byte ss" and buf = buf
        and ty = 4 and flags = flags and sid = 0, OF _ _ refl]
    by (simp add: encode_settings_payload_def iterate_settings_payload_def current_def Frame_new_def counted_def
        setting_byte_nth Let_def not_less)
qed

lemma ping_counted:
  assumes "current e sid flags (Payload_Ping d)" "length d = 8"
  shows "fe_encoded_bytes e = 0 \<Longrightarrow> 9 \<le> length buf \<Longrightarrow>
      encode_ping_frame e buf = counted (frame_bytes 6 flags 0 d) 9 EncodingPingPayload e buf"
    "9 \<le> fe_encoded_bytes e \<Longrightarrow> fe_encoded_bytes e \<le> 17 \<Longrightarrow>
      encode_ping_payload e buf = counted (frame_bytes 6 flags 0 d) 17 DataComplete e buf"
proof -
  let ?f = "\<lambda>buf_index.
    if buf_index \<le> 2 then Ok (buf_index, length_byte 8 buf_index)
    else if buf_index = 3 then Ok (3, 6)
    else if buf_index = 4 then Ok (4, flags)
    else if buf_index \<le> 8 then Ok (buf_index, 0)
    else Err InternalError"
  have "?f k = Ok (k, frame_bytes 6 flags 0 d ! k)" if "k < 9" for k
  proof -
    have "k \<in> {0,1,2,3,4,5,6,7,8}" using that by auto
    then show ?thesis by (auto simp: assms(2) length_byte_def frame_bytes_def be_u32_def nth_Cons')
  qed
  then have fill: "fill_at ?f 0 9 buf = (take 9 (frame_bytes 6 flags 0 d) @ drop 9 buf, Ok ())" if "9 \<le> length buf"
    using that fill_at_writes [of 0 9 buf "frame_bytes 6 flags 0 d" ?f] by simp
  show "fe_encoded_bytes e = 0 \<Longrightarrow> 9 \<le> length buf \<Longrightarrow>
      encode_ping_frame e buf = counted (frame_bytes 6 flags 0 d) 9 EncodingPingPayload e buf"
    using assms fill by (simp add: encode_ping_frame_def iterate_ping_header_def current_def Frame_new_def
        header_bytes_to_write_def counted_def Let_def cong: if_cong)
  assume "9 \<le> fe_encoded_bytes e" "fe_encoded_bytes e \<le> 17"
  then obtain j where j: "fe_encoded_bytes e = 9 + j" "j \<le> 8" 
    by (intro that [of "fe_encoded_bytes e - 9"]) auto
  then show "encode_ping_payload e buf = counted (frame_bytes 6 flags 0 d) 17 DataComplete e buf"
    using assms fill_payload [where e = "fe_encoded_bytes e" and payload = d and buf = buf
        and f = "\<lambda>k. if k < length d then Ok (d ! k) else Panic" and ty = 6 and flags = flags and sid = 0, OF _ _ refl]
    by (cases "length buf \<le> 8 - j")
      (auto simp: encode_ping_payload_def current_def Frame_new_def counted_def Let_def not_less min_def cong: if_cong)
qed

end
