(* ===== verification/H2_Frame_Written.thy ===== *)
theory H2_Frame_Written
  imports H2_Frame_Wire Hpack_Roundtrip
begin

text \<open>
  The frame encoder over a sequence of buffers: the bytes that it still owes are a function of its state, and every
  call writes a front piece of them.
\<close>

section \<open>What an encoder still has to write\<close>

definition current_frame :: "FrameEncoder \<Rightarrow> Frame" where
  "current_frame e = (case fe_current_frame e of Some f \<Rightarrow> f | None \<Rightarrow> Frame_new 0 FrameFlags_empty (Payload_Data []))"

definition header_part :: "FrameEncoder \<Rightarrow> bytes" where
  "header_part e = take (fe_remaining_header_payload e) (fe_header_payload_buffer e)"

definition rest_chunks :: "FrameEncoder \<Rightarrow> bytes list" where
  "rest_chunks e =
     (if HpackEncoder_is_finished (fe_hpack_encoder e) then []
      else chunks (length (fe_header_payload_buffer e)) (HpackEncoder_output (fe_hpack_encoder e)))"

definition headers_flags :: "FrameEncoder \<Rightarrow> u8" where
  "headers_flags e =
     (let flags = FrameFlags_bits (frame_flags (current_frame e))
      in if HpackEncoder_is_finished (fe_hpack_encoder e) then flags else flags AND 0xFB)"

definition frame_owed :: "FrameEncoder \<Rightarrow> bytes" where
  "frame_owed e =
     (let sid = frame_id (current_frame e);
          w = frame_wire (current_frame e)
      in case fe_state e of
           Idle \<Rightarrow> []
         | HeadersComplete \<Rightarrow> []
         | DataComplete \<Rightarrow> []
         | EncodingHeadersFrame \<Rightarrow>
             drop (fe_encoded_bytes e) (frame_bytes 1 (headers_flags e) sid (header_part e)) @ continuation_bytes sid (rest_chunks e)
         | EncodingHeadersPayload \<Rightarrow>
             drop (fe_header_payload_index e) (header_part e) @ continuation_bytes sid (rest_chunks e)
         | EncodingContinuationFrames \<Rightarrow> continuation_bytes sid (header_part e # rest_chunks e)
         | EncodingDataPayload \<Rightarrow> drop (9 + fe_data_offset e) w
         | EncodingWindowUpdatePayload \<Rightarrow> drop 9 w
         | _ \<Rightarrow> drop (fe_encoded_bytes e) w)"

definition headers_ok :: "FrameEncoder \<Rightarrow> bool" where
  "headers_ok e \<longleftrightarrow>
     (\<exists>sid flags parts. current e sid flags (Payload_Headers parts)) \<and> fe_is_end_headers e \<and>
     0 < length (fe_header_payload_buffer e) \<and> length (fe_header_payload_buffer e) \<le> fe_max_frame_size e \<and>
     fe_remaining_header_payload e \<le> length (fe_header_payload_buffer e) \<and>
     (HpackEncoder_is_finished (fe_hpack_encoder e) \<or> HpackEncoder_output (fe_hpack_encoder e) \<noteq> [])"

definition headers_state :: "FrameEncoderState \<Rightarrow> bool" where
  "headers_state s \<longleftrightarrow> s = EncodingHeadersFrame \<or> s = EncodingHeadersPayload \<or> s = EncodingContinuationFrames"

definition data_ok :: "FrameEncoder \<Rightarrow> bool" where
  "data_ok e \<longleftrightarrow>
     (\<exists>sid flags d. current e sid flags (Payload_Data d) \<and> length d \<le> fe_max_frame_size e \<and>
        fe_data_offset e + fe_remaining_payload_bytes e = length d)"

text \<open>The states of the header and the payload of the frames with one counter, and whether the header may be cut.\<close>

fun simple_states :: "Payload \<Rightarrow> (FrameEncoderState \<times> FrameEncoderState \<times> bool) option" where
  "simple_states (Payload_Goaway _) = Some (EncodingGoawayFrame, EncodingGoawayPayload, True)"
| "simple_states (Payload_Priority _) = Some (EncodingPriorityFrame, EncodingPriorityPayload, True)"
| "simple_states (Payload_RstStream _) = Some (EncodingRstStreamFrame, EncodingRstStreamPayload, False)"
| "simple_states (Payload_Settings _) = Some (EncodingSettingsFrame, EncodingSettingsPayload, False)"
| "simple_states (Payload_Ping d) = (if length d = 8 then Some (EncodingPingFrame, EncodingPingPayload, False) else None)"
| "simple_states _ = None"

definition simple_ok :: "FrameEncoder \<Rightarrow> bool" where
  "simple_ok e \<longleftrightarrow>
     (case simple_states (frame_payload (current_frame e)) of
        None \<Rightarrow> False
      | Some (f, p, cuttable) \<Rightarrow>
          fe_state e = f \<and> (if cuttable then fe_encoded_bytes e < 9 else fe_encoded_bytes e = 0) \<or>
          fe_state e = p \<and> 9 \<le> fe_encoded_bytes e \<and>
            (fe_encoded_bytes e < length (frame_wire (current_frame e)) \<or> fe_encoded_bytes e = 9))"

definition window_update_ok :: "FrameEncoder \<Rightarrow> bool" where
  "window_update_ok e \<longleftrightarrow> fe_encoded_bytes e = 0 \<and> (\<exists>sid flags w. current e sid flags (Payload_WindowUpdate w))"

text \<open>
  The states of an encoder that was handed frames one after the other. Between two header blocks the HPACK
  encoder has nothing left.
\<close>

definition frame_ok :: "FrameEncoder \<Rightarrow> bool" where
  "frame_ok e \<longleftrightarrow>
     (\<not> headers_state (fe_state e) \<longrightarrow> HpackEncoder_is_finished (fe_hpack_encoder e)) \<and>
     (case fe_state e of
        Idle \<Rightarrow> True
      | HeadersComplete \<Rightarrow> True
      | DataComplete \<Rightarrow> True
      | EncodingHeadersPadding \<Rightarrow> False
      | EncodingDataPadding \<Rightarrow> False
      | EncodingHeadersFrame \<Rightarrow> headers_ok e \<and> fe_encoded_bytes e < 9 \<and> fe_header_payload_index e = 0
      | EncodingHeadersPayload \<Rightarrow> headers_ok e \<and> fe_header_payload_index e < fe_remaining_header_payload e
      | EncodingContinuationFrames \<Rightarrow> headers_ok e \<and> fe_header_payload_index e = 0 \<and> 0 < fe_remaining_header_payload e
      | EncodingDataHeader \<Rightarrow> data_ok e \<and> fe_encoded_bytes e < 9 \<and> fe_data_offset e = 0
      | EncodingDataPayload \<Rightarrow> data_ok e
      | EncodingWindowUpdateFrame \<Rightarrow> window_update_ok e
      | EncodingWindowUpdatePayload \<Rightarrow> window_update_ok e
      | _ \<Rightarrow> simple_ok e)"

text \<open>The headers that must not be cut, and the payload of a WINDOW_UPDATE, need this much of a buffer.\<close>

definition room :: "FrameEncoder \<Rightarrow> nat" where
  "room e =
     (case fe_state e of
        EncodingSettingsFrame \<Rightarrow> 9
      | EncodingPingFrame \<Rightarrow> 9
      | EncodingRstStreamFrame \<Rightarrow> 9
      | EncodingWindowUpdateFrame \<Rightarrow> 13
      | EncodingWindowUpdatePayload \<Rightarrow> 4
      | _ \<Rightarrow> 0)"

text \<open>What does not change while a frame is written.\<close>

definition keeps :: "FrameEncoder \<Rightarrow> FrameEncoder \<Rightarrow> bool" where
  "keeps e e' \<longleftrightarrow>
     HpackEncoder_final_table (fe_hpack_encoder e') = HpackEncoder_final_table (fe_hpack_encoder e) \<and>
     hpe_use_huffman (fe_hpack_encoder e') = hpe_use_huffman (fe_hpack_encoder e) \<and>
     length (fe_header_payload_buffer e') = length (fe_header_payload_buffer e) \<and>
     fe_max_frame_size e' = fe_max_frame_size e"

text \<open>
  A turn of the loop writes a front piece of what is owed. It writes something when it has room
  for a frame header and something is owed.
\<close>

definition frame_advance :: "FrameEncoder \<Rightarrow> bytes \<Rightarrow> encoder_result \<Rightarrow> bool" where
  "frame_advance e buf p \<longleftrightarrow>
     (\<exists>e' buf' n. p = (e', buf', Ok n) \<and> n \<le> length buf \<and> length buf' = length buf \<and>
        frame_owed e = take n buf' @ frame_owed e' \<and>
        frame_ok e' \<and> room e' \<le> length buf - n \<and>
        keeps e e' \<and> (9 \<le> length buf \<longrightarrow> 0 < n \<or> frame_owed e = []))"

section \<open>One turn\<close>

lemma counted_advance:
  assumes "frame_owed e = drop (fe_encoded_bytes e) w" "fe_encoded_bytes e \<le> limit" "limit \<le> length w"
    and "frame_ok (e\<lparr>fe_encoded_bytes := limit, fe_state := next\<rparr>)"
      "frame_owed (e\<lparr>fe_encoded_bytes := limit, fe_state := next\<rparr>) = drop limit w" "room (e\<lparr>fe_state := next\<rparr>) = 0"
    and "limit \<le> fe_encoded_bytes e + length buf \<or>
      room e = 0 \<and> (\<forall>k. fe_encoded_bytes e \<le> k \<longrightarrow> k < limit \<longrightarrow>
        frame_ok (e\<lparr>fe_encoded_bytes := k\<rparr>) \<and> frame_owed (e\<lparr>fe_encoded_bytes := k\<rparr>) = drop k w)"
    and "limit = fe_encoded_bytes e \<Longrightarrow> limit = length w"
  shows "frame_advance e buf (counted w limit next e buf)"
proof (cases "limit \<le> fe_encoded_bytes e + length buf")
  case True
  then have n: "min (limit - fe_encoded_bytes e) (length buf) = limit - fe_encoded_bytes e" by simp
  have "take (limit - fe_encoded_bytes e) (drop (fe_encoded_bytes e) w) @ drop limit w = drop (fe_encoded_bytes e) w"
    using drop_cut [of "limit - fe_encoded_bytes e" "fe_encoded_bytes e" w] assms(2) by simp
  moreover have "fe_encoded_bytes e < limit \<or> limit = fe_encoded_bytes e \<and> limit = length w"
    using assms(2,8) by (auto simp: le_less)
  ultimately show ?thesis using True assms(1-6)
    by (auto simp: counted_def n frame_advance_def keeps_def Let_def room_def)
next
  case False
  then have n: "min (limit - fe_encoded_bytes e) (length buf) = length buf" by simp
  from False assms(7) have mid: "room e = 0" "frame_ok (e\<lparr>fe_encoded_bytes := fe_encoded_bytes e + length buf\<rparr>)"
    "frame_owed (e\<lparr>fe_encoded_bytes := fe_encoded_bytes e + length buf\<rparr>) = drop (fe_encoded_bytes e + length buf) w"
    by simp_all
  with False assms(1,3) show ?thesis
    by (auto simp: counted_def n frame_advance_def keeps_def Let_def room_def)
qed

lemma current_frameI: "current e sid flags p \<Longrightarrow> current_frame e = Frame_new sid (FrameFlags flags) p"
  by (simp add: current_frame_def current_def)

lemma current_update [simp]:
  "current (e\<lparr>fe_encoded_bytes := k\<rparr>) = current e" "current (e\<lparr>fe_state := s\<rparr>) = current e"
  "current_frame (e\<lparr>fe_encoded_bytes := k\<rparr>) = current_frame e" "current_frame (e\<lparr>fe_state := s\<rparr>) = current_frame e"
  by (simp_all add: fun_eq_iff current_def current_frame_def)

lemma simple_current:
  assumes "simple_states (frame_payload (current_frame e)) = Some z"
  obtains sid flags where "current e sid flags (frame_payload (current_frame e))"
    "current_frame e = Frame_new sid (FrameFlags flags) (frame_payload (current_frame e))"
proof (cases "fe_current_frame e")
  case None
  then show ?thesis using assms by (simp add: current_frame_def Frame_new_def)
next
  case (Some f)
  obtain flags where "frame_flags f = FrameFlags flags" by (cases "frame_flags f")
  with Some that [of "frame_id f" flags] show ?thesis by (simp add: current_def current_frame_def Frame_new_def)
qed

lemma simple_step:
  assumes st: "simple_states (frame_payload (current_frame e)) = Some (f, p, cuttable)"
  shows "fe_state e = f \<Longrightarrow> cuttable \<and> fe_encoded_bytes e < 9 \<or> fe_encoded_bytes e = 0 \<and> 9 \<le> length buf \<Longrightarrow>
      FrameEncoder_encode_step e buf = counted (frame_wire (current_frame e)) 9 p e buf"
    "fe_state e = p \<Longrightarrow> 9 \<le> fe_encoded_bytes e \<Longrightarrow>
      fe_encoded_bytes e < length (frame_wire (current_frame e)) \<or> fe_encoded_bytes e = 9 \<Longrightarrow>
      FrameEncoder_encode_step e buf =
        counted (frame_wire (current_frame e)) (length (frame_wire (current_frame e))) DataComplete e buf"
proof -
  obtain sid flags where c: "current e sid flags (frame_payload (current_frame e))"
    and f: "current_frame e = Frame_new sid (FrameFlags flags) (frame_payload (current_frame e))"
    by (rule simple_current [OF st])
  have w: "frame_wire (current_frame e) = frame_wire (Frame_new sid (FrameFlags flags) (frame_payload (current_frame e)))"
    using f by simp
  note counts = goaway_counted priority_counted rst_stream_counted settings_counted ping_counted
  show "fe_state e = f \<Longrightarrow> cuttable \<and> fe_encoded_bytes e < 9 \<or> fe_encoded_bytes e = 0 \<and> 9 \<le> length buf \<Longrightarrow>
      FrameEncoder_encode_step e buf = counted (frame_wire (current_frame e)) 9 p e buf"
    using st c w by (cases "frame_payload (current_frame e)")
      (auto simp: FrameEncoder_encode_step_def frame_wire_def Frame_new_def counts split: if_splits)
  show "fe_state e = p \<Longrightarrow> 9 \<le> fe_encoded_bytes e \<Longrightarrow>
      fe_encoded_bytes e < length (frame_wire (current_frame e)) \<or> fe_encoded_bytes e = 9 \<Longrightarrow>
      FrameEncoder_encode_step e buf =
        counted (frame_wire (current_frame e)) (length (frame_wire (current_frame e))) DataComplete e buf"
    using st c w by (cases "frame_payload (current_frame e)")
      (auto simp: FrameEncoder_encode_step_def frame_wire_def Frame_new_def counts priority_bytes_def add.commute split: if_splits)
qed

lemmas owed_defs = frame_ok_def frame_owed_def room_def headers_state_def Let_def

lemma simple_wire: "simple_states (frame_payload f) = Some z \<Longrightarrow> 9 \<le> length (frame_wire f)"
  by (cases "frame_payload f") (auto simp: frame_wire_def Let_def)

fun counted_state :: "FrameEncoderState \<Rightarrow> bool" where
  "counted_state EncodingGoawayFrame = True"
| "counted_state EncodingGoawayPayload = True"
| "counted_state EncodingPriorityFrame = True"
| "counted_state EncodingPriorityPayload = True"
| "counted_state EncodingRstStreamFrame = True"
| "counted_state EncodingRstStreamPayload = True"
| "counted_state EncodingSettingsFrame = True"
| "counted_state EncodingSettingsPayload = True"
| "counted_state EncodingPingFrame = True"
| "counted_state EncodingPingPayload = True"
| "counted_state _ = False"

lemma counted_state_ok:
  assumes "counted_state (fe_state e)"
  shows "frame_ok e \<longleftrightarrow> HpackEncoder_is_finished (fe_hpack_encoder e) \<and> simple_ok e"
    "frame_owed e = drop (fe_encoded_bytes e) (frame_wire (current_frame e))"
  using assms by (cases "fe_state e"; simp add: owed_defs)+

lemma simple_states_counted:
  assumes "simple_states p = Some (f, q, cuttable)"
  shows "counted_state f" "counted_state q"
    "fe_state e = q \<Longrightarrow> room e = 0" "fe_state e = f \<Longrightarrow> room e = (if cuttable then 0 else 9)" "f \<noteq> q"
  using assms by (cases p; auto simp: room_def split: if_splits)+

lemma complete_ok:
  "fe_state e = DataComplete \<Longrightarrow> frame_ok e \<longleftrightarrow> HpackEncoder_is_finished (fe_hpack_encoder e)"
  "fe_state e = DataComplete \<Longrightarrow> frame_owed e = []" "fe_state e = DataComplete \<Longrightarrow> room e = 0"
  by (simp_all add: owed_defs)

lemma simple_advance:
  assumes "HpackEncoder_is_finished (fe_hpack_encoder e)" "simple_ok e" "room e \<le> length buf"
  shows "frame_advance e buf (FrameEncoder_encode_step e buf)"
proof -
  let ?w = "frame_wire (current_frame e)"
  obtain f p cuttable where st: "simple_states (frame_payload (current_frame e)) = Some (f, p, cuttable)"
    using assms(2) by (auto simp: simple_ok_def split: option.splits)
  note len = simple_wire [OF st] and states = simple_states_counted [OF st]
  have ok: "simple_ok (e\<lparr>fe_encoded_bytes := k, fe_state := s\<rparr>) \<longleftrightarrow>
      s = f \<and> (if cuttable then k < 9 else k = 0) \<or> s = p \<and> 9 \<le> k \<and> (k < length ?w \<or> k = 9)"
    "simple_ok (e\<lparr>fe_encoded_bytes := k\<rparr>) \<longleftrightarrow>
      fe_state e = f \<and> (if cuttable then k < 9 else k = 0) \<or> fe_state e = p \<and> 9 \<le> k \<and> (k < length ?w \<or> k = 9)" for k s
    using st by (simp_all add: simple_ok_def)
  from assms(2) st consider
    "fe_state e = f" "if cuttable then fe_encoded_bytes e < 9 else fe_encoded_bytes e = 0" |
    "fe_state e = p" "9 \<le> fe_encoded_bytes e" "fe_encoded_bytes e < length ?w \<or> fe_encoded_bytes e = 9"
    by (auto simp: simple_ok_def)
  then show ?thesis
  proof cases
    case 1
    have room: "cuttable \<or> 9 \<le> length buf" using states(4) [of e] 1 assms(3) by (auto split: if_splits)
    have "FrameEncoder_encode_step e buf = counted ?w 9 p e buf"
      using simple_step(1) [OF st] 1 room by (auto split: if_splits)
    moreover have "frame_advance e buf (counted ?w 9 p e buf)"
    proof (rule counted_advance)
      show "9 \<le> fe_encoded_bytes e + length buf \<or>
        room e = 0 \<and> (\<forall>k. fe_encoded_bytes e \<le> k \<longrightarrow> k < 9 \<longrightarrow>
          frame_ok (e\<lparr>fe_encoded_bytes := k\<rparr>) \<and> frame_owed (e\<lparr>fe_encoded_bytes := k\<rparr>) = drop k ?w)"
        using 1 room states assms(1) by (auto simp: counted_state_ok ok)
    qed (use 1 states len assms(1) in \<open>auto simp: counted_state_ok ok split: if_splits\<close>)
    ultimately show ?thesis by simp
  next
    case 2
    then have "FrameEncoder_encode_step e buf = counted ?w (length ?w) DataComplete e buf"
      using simple_step(2) [OF st] by simp
    moreover have "frame_advance e buf (counted ?w (length ?w) DataComplete e buf)"
    proof (rule counted_advance)
      show "length ?w \<le> fe_encoded_bytes e + length buf \<or>
        room e = 0 \<and> (\<forall>k. fe_encoded_bytes e \<le> k \<longrightarrow> k < length ?w \<longrightarrow>
          frame_ok (e\<lparr>fe_encoded_bytes := k\<rparr>) \<and> frame_owed (e\<lparr>fe_encoded_bytes := k\<rparr>) = drop k ?w)"
        using 2 states assms(1) by (auto simp: counted_state_ok ok)
    qed (use 2 states len assms(1) in \<open>auto simp: counted_state_ok complete_ok\<close>)
    ultimately show ?thesis by simp
  qed
qed

lemma window_update_advance:
  assumes "HpackEncoder_is_finished (fe_hpack_encoder e)" "window_update_ok e" "room e \<le> length buf"
    and "fe_state e = EncodingWindowUpdateFrame \<or> fe_state e = EncodingWindowUpdatePayload"
  shows "frame_advance e buf (FrameEncoder_encode_step e buf)"
proof -
  from assms(2) obtain sid flags w where c: "current e sid flags (Payload_WindowUpdate w)" and enc: "fe_encoded_bytes e = 0"
    by (auto simp: window_update_ok_def)
  let ?w = "frame_bytes 8 flags sid (be_u32 w)"
  have wire: "frame_wire (current_frame e) = ?w"
    using current_frameI [OF c] by (simp add: frame_wire_def Frame_new_def)
  have len: "(\<lambda>i. if i \<le> 1 then 0 else 4) k = length_byte 4 k" if "k \<le> 2" for k :: nat
  proof -
    have "k \<in> {0,1,2}" using that by auto
    then show ?thesis by (auto simp: length_byte_def)
  qed
  have byte: "header_byte (\<lambda>i. if i \<le> 1 then 0 else 4) 8 flags (u32_byte sid) k = Ok (?w ! k)" if "k < 9" for k
    using header_byte_frame [OF that, of "be_u32 w" 8 flags sid] len [of k]
    by (cases "k \<le> 2") (auto simp: header_byte_def)
  have fill: "fill (\<lambda>k. header_byte (\<lambda>i. if i \<le> 1 then 0 else 4) 8 flags (u32_byte sid) (0 + k)) 0 9 buf =
      (take 9 ?w @ drop 9 buf, Ok ())" if "9 \<le> length buf"
    using that byte by (subst fill_writes [where j = 0 and xs = ?w]) auto
  show ?thesis
  proof (cases "fe_state e = EncodingWindowUpdateFrame")
    case True
    then have buf: "13 \<le> length buf" using assms(3) by (simp add: room_def)
    then have "FrameEncoder_encode_step e buf =
        (e\<lparr>fe_encoded_bytes := 0, fe_state := EncodingWindowUpdatePayload\<rparr>, take 9 ?w @ drop 9 buf, Ok 9)"
      using True c enc fill by (simp add: FrameEncoder_encode_step_def encode_window_update_frame_def
          iterate_window_update_header_def header_bytes_to_write_def current_def Frame_new_def Let_def)
    then show ?thesis using True enc wire c assms(1) buf
      by (auto simp: frame_advance_def keeps_def owed_defs window_update_ok_def current_def current_frame_def)
  next
    case False
    then have st: "fe_state e = EncodingWindowUpdatePayload" using assms(4) by simp
    then have buf: "4 \<le> length buf" using assms(3) by (simp add: room_def)
    have "fill (\<lambda>k. Ok (u32_byte w k)) 0 4 buf = (take 4 (drop 0 (be_u32 w)) @ drop 4 buf, Ok ())"
      using buf by (intro fill_writes) (auto simp: u32_byte_nth)
    then have "FrameEncoder_encode_step e buf =
        (e\<lparr>fe_encoded_bytes := 4, fe_state := DataComplete\<rparr>, be_u32 w @ drop 4 buf, Ok 4)"
      using st c enc buf by (simp add: FrameEncoder_encode_step_def encode_window_update_payload_def
          current_def Frame_new_def Let_def)
    then show ?thesis using st enc wire assms(1) buf
      by (simp add: frame_advance_def keeps_def owed_defs) (simp add: frame_bytes_def)
  qed
qed

lemma data_header_advance:
  assumes "HpackEncoder_is_finished (fe_hpack_encoder e)" "data_ok e" "fe_encoded_bytes e < 9" "fe_data_offset e = 0"
    and "fe_state e = EncodingDataHeader"
  shows "frame_advance e buf (FrameEncoder_encode_step e buf)"
proof -
  from assms(2) obtain sid flags d where c: "current e sid flags (Payload_Data d)" and d: "length d \<le> fe_max_frame_size e"
    "fe_remaining_payload_bytes e = length d" using assms(4) by (auto simp: data_ok_def)
  let ?w = "frame_bytes 0 flags sid d" and ?n = "header_bytes_to_write e buf"
  have wire: "frame_wire (current_frame e) = ?w"
    using current_frameI [OF c] by (simp add: frame_wire_def Frame_new_def)
  have n: "?n = min (9 - fe_encoded_bytes e) (length buf)" using assms(3) by (simp add: header_bytes_to_write_def)
  have "FrameEncoder_encode_step e buf =
      (let e' = e\<lparr>fe_encoded_bytes := fe_encoded_bytes e + ?n\<rparr>
       in (if fe_encoded_bytes e' = 9 then e'\<lparr>fe_encoded_bytes := 0, fe_state := EncodingDataPayload\<rparr> else e',
           take ?n (drop (fe_encoded_bytes e) ?w) @ drop ?n buf, Ok ?n))"
    using c d assms(3,5) fill_header [OF assms(3) n, of d 0 flags sid]
    by (simp add: FrameEncoder_encode_step_def encode_data_header_def iterate_data_header_def current_def Frame_new_def Let_def)
  moreover have "data_ok (e\<lparr>fe_encoded_bytes := k, fe_state := s\<rparr>)" "data_ok (e\<lparr>fe_encoded_bytes := k\<rparr>)" for k s
    using assms(2) by (simp_all add: data_ok_def)
  moreover have "fe_encoded_bytes e + ?n = 9 \<Longrightarrow> take ?n (drop (fe_encoded_bytes e) ?w) @ drop 9 ?w = drop (fe_encoded_bytes e) ?w"
    using drop_cut [of ?n "fe_encoded_bytes e" ?w] by simp
  ultimately show ?thesis using n assms wire
    by (auto simp: frame_advance_def keeps_def owed_defs)
qed

lemma data_payload_advance:
  assumes "HpackEncoder_is_finished (fe_hpack_encoder e)" "data_ok e" "fe_state e = EncodingDataPayload"
  shows "frame_advance e buf (FrameEncoder_encode_step e buf)"
proof -
  from assms(2) obtain sid flags d where c: "current e sid flags (Payload_Data d)" and d: "length d \<le> fe_max_frame_size e"
    "fe_data_offset e + fe_remaining_payload_bytes e = length d" by (auto simp: data_ok_def)
  let ?n = "min (fe_remaining_payload_bytes e) (length buf)" and ?i = "fe_data_offset e"
  let ?e = "e\<lparr>fe_data_offset := ?i + ?n, fe_remaining_payload_bytes := fe_remaining_payload_bytes e - ?n\<rparr>"
  let ?e' = "if fe_remaining_payload_bytes e \<le> length buf then ?e\<lparr>fe_data_offset := 0, fe_state := DataComplete\<rparr>
    else ?e\<lparr>fe_state := EncodingDataPayload\<rparr>"
  have wire: "frame_wire (current_frame e) = frame_bytes 0 flags sid d"
    using current_frameI [OF c] by (simp add: frame_wire_def Frame_new_def)
  have drop: "drop (9 + k) (frame_bytes 0 flags sid d) = drop k d" for k
    using drop_drop [of k 9 "frame_bytes 0 flags sid d"] by (simp add: frame_bytes_def add.commute)
  have "min (fe_max_frame_size e - ?i) (fe_remaining_payload_bytes e) = fe_remaining_payload_bytes e" using d by simp
  then have "encode_slice e buf d = (take ?n (drop ?i d) @ drop ?n buf, Ok ?n)"
    using d by (auto simp: encode_slice_def Let_def)
  then have "FrameEncoder_encode_step e buf = (?e', take ?n (drop ?i d) @ drop ?n buf, Ok ?n)"
    using c d assms(3) by (auto simp: FrameEncoder_encode_step_def encode_data_payload_def current_def Frame_new_def Let_def)
  moreover have "data_ok ?e'" "current_frame ?e' = current_frame e" if "\<not> fe_remaining_payload_bytes e \<le> length buf"
    using that c d by (auto simp: data_ok_def current_def current_frame_def)
  ultimately show ?thesis using assms wire drop d
    by (auto simp: frame_advance_def keeps_def owed_defs)
qed

text \<open>The payload buffer is filled with the next chunk of the header block.\<close>

lemma read_rest_payload_chunk:
  assumes "0 < length (fe_header_payload_buffer e)"
  obtains h b k where
    "read_rest_payload e = (e\<lparr>fe_header_payload_index := 0, fe_hpack_encoder := h, fe_header_payload_buffer := b,
       fe_remaining_header_payload := k\<rparr>, Ok ())"
    "take k b = take (length (fe_header_payload_buffer e)) (HpackEncoder_output (fe_hpack_encoder e))"
    "k = min (length (fe_header_payload_buffer e)) (length (HpackEncoder_output (fe_hpack_encoder e)))"
    "length b = length (fe_header_payload_buffer e)"
    "HpackEncoder_output h = drop (length (fe_header_payload_buffer e)) (HpackEncoder_output (fe_hpack_encoder e))"
    "HpackEncoder_is_finished h \<longleftrightarrow>
      length (HpackEncoder_output (fe_hpack_encoder e)) \<le> length (fe_header_payload_buffer e)"
    "HpackEncoder_final_table h = HpackEncoder_final_table (fe_hpack_encoder e)"
    "hpe_use_huffman h = hpe_use_huffman (fe_hpack_encoder e)"
proof -
  let ?n = "length (fe_header_payload_buffer e)" and ?h = "fe_hpack_encoder e"
  obtain h w where h: "HpackEncoder_encode ?h ?n = Ok (h, w, length w)" "HpackEncoder_output ?h = w @ HpackEncoder_output h"
    "HpackEncoder_final_table h = HpackEncoder_final_table ?h" "hpe_use_huffman h = hpe_use_huffman ?h"
    "length w = min ?n (length (HpackEncoder_output ?h))" "HpackEncoder_is_finished h \<longleftrightarrow> length (HpackEncoder_output ?h) \<le> ?n"
    by (rule hpack_encode_step [OF assms])
  have w: "w = take ?n (HpackEncoder_output ?h)" "HpackEncoder_output h = drop ?n (HpackEncoder_output ?h)"
    using h(2,5) by (auto simp: min_def split: if_splits)
  show thesis
  proof (rule that)
    show "read_rest_payload e = (e\<lparr>fe_header_payload_index := 0, fe_hpack_encoder := h,
        fe_header_payload_buffer := w @ drop (length w) (fe_header_payload_buffer e), fe_remaining_header_payload := length w\<rparr>, Ok ())"
      using h(1) by (simp add: read_rest_payload_def Let_def)
    show "take (length w) (w @ drop (length w) (fe_header_payload_buffer e)) = take ?n (HpackEncoder_output ?h)"
      using w(1) [symmetric] by simp
    show "length (w @ drop (length w) (fe_header_payload_buffer e)) = ?n" using h(5) by simp
  qed (fact h w(2))+
qed

lemma chunks_step:
  assumes "0 < n" "bs \<noteq> []"
  shows "chunks n bs = take n bs # (if length bs \<le> n then [] else chunks n (drop n bs))"
  using assms by (subst chunks.simps) (simp add: chunks.simps [of n "[]"])

text \<open>After a piece of the payload the encoder owes the rest of it and the further chunks.\<close>

lemma headers_status_owed:
  assumes "headers_ok e" "fe_header_payload_index e \<le> fe_remaining_header_payload e"
  obtains e' where "headers_header_status e = (e', Ok ())" "frame_ok e'" "room e' = 0"
    "frame_owed e' = drop (fe_header_payload_index e) (header_part e) @ continuation_bytes (frame_id (current_frame e)) (rest_chunks e)"
    "keeps e e'"
proof (cases "fe_header_payload_index e < fe_remaining_header_payload e")
  case True
  show thesis
    by (rule that [where e' = "e\<lparr>fe_state := EncodingHeadersPayload\<rparr>"])
      (use True assms in \<open>simp_all add: keeps_def headers_header_status_def owed_defs headers_ok_def header_part_def rest_chunks_def\<close>)
next
  case False
  then have none: "drop (fe_header_payload_index e) (header_part e) = []" by (simp add: header_part_def)
  show thesis
  proof (cases "HpackEncoder_is_finished (fe_hpack_encoder e)")
    case True
    show thesis
      by (rule that [where e' = "(finish_current_frame e)\<lparr>fe_state := HeadersComplete\<rparr>"])
        (use True False none in \<open>simp_all add: keeps_def headers_header_status_def owed_defs finish_current_frame_def rest_chunks_def\<close>)
  next
    case unfinished: False
    let ?n = "length (fe_header_payload_buffer e)" and ?out = "HpackEncoder_output (fe_hpack_encoder e)"
    have pos: "0 < ?n" "?out \<noteq> []" using assms(1) unfinished by (auto simp: headers_ok_def)
    obtain h b k where r: "read_rest_payload e = (e\<lparr>fe_header_payload_index := 0, fe_hpack_encoder := h,
         fe_header_payload_buffer := b, fe_remaining_header_payload := k\<rparr>, Ok ())"
      and b: "take k b = take ?n ?out" "k = min ?n (length ?out)" "length b = ?n"
      and h: "HpackEncoder_output h = drop ?n ?out" "HpackEncoder_is_finished h \<longleftrightarrow> length ?out \<le> ?n"
        "HpackEncoder_final_table h = HpackEncoder_final_table (fe_hpack_encoder e)"
        "hpe_use_huffman h = hpe_use_huffman (fe_hpack_encoder e)"
      by (rule read_rest_payload_chunk [OF pos(1)])
    let ?e = "e\<lparr>fe_header_payload_index := 0, fe_hpack_encoder := h, fe_header_payload_buffer := b,
      fe_remaining_header_payload := k, fe_state := EncodingContinuationFrames\<rparr>"
    have same: "current ?e = current e" "current_frame ?e = current_frame e"
      by (simp_all add: fun_eq_iff current_def current_frame_def)
    have owed: "header_part ?e # rest_chunks ?e = rest_chunks e"
      using chunks_step [OF pos] b h unfinished by (simp add: rest_chunks_def header_part_def)
    have ok: "headers_ok ?e" unfolding headers_ok_def same
      using assms(1) pos b h by (auto simp: headers_ok_def)
    have "frame_owed ?e = continuation_bytes (frame_id (current_frame e)) (rest_chunks e)"
      using owed same by (simp add: frame_owed_def Let_def)
    moreover have "frame_ok ?e" "room ?e = 0" using ok b pos by (simp_all add: frame_ok_def headers_state_def room_def)
    moreover have "headers_header_status e = (?e, Ok ())"
      using False unfinished r by (simp add: headers_header_status_def)
    ultimately show thesis using that [of ?e] none b h by (simp add: keeps_def)
  qed
qed

lemma payload_written_advance:
  assumes "headers_ok e" "fe_header_payload_index e \<le> fe_remaining_header_payload e"
  obtains e' n where
    "payload_written before (write_payload e buf (fe_remaining_header_payload e)) =
       (e', take n (drop (fe_header_payload_index e) (header_part e)) @ drop n buf, Ok (before + n))"
    "n = min (length buf) (fe_remaining_header_payload e - fe_header_payload_index e)"
    "frame_ok e'" "room e' = 0"
    "frame_owed e' = drop (fe_header_payload_index e + n) (header_part e) @
       continuation_bytes (frame_id (current_frame e)) (rest_chunks e)"
    "keeps e e'"
proof -
  let ?i = "fe_header_payload_index e" and ?r = "fe_remaining_header_payload e"
  let ?n = "min (length buf) (?r - ?i)"
  let ?e = "e\<lparr>fe_header_payload_index := ?i + ?n, fe_encoded_bytes := fe_encoded_bytes e + ?n\<rparr>"
  have same: "current ?e = current e" "current_frame ?e = current_frame e" "header_part ?e = header_part e"
    "rest_chunks ?e = rest_chunks e"
    by (simp_all add: fun_eq_iff current_def current_frame_def header_part_def rest_chunks_def)
  have "headers_ok ?e" unfolding headers_ok_def same using assms(1) by (simp add: headers_ok_def)
  moreover have "fe_header_payload_index ?e \<le> fe_remaining_header_payload ?e" using assms(2) by simp
  ultimately obtain e' where e': "headers_header_status ?e = (e', Ok ())" "frame_ok e'" "room e' = 0"
    "frame_owed e' = drop (fe_header_payload_index ?e) (header_part ?e) @
       continuation_bytes (frame_id (current_frame ?e)) (rest_chunks ?e)"
    "keeps ?e e'"
    by (rule headers_status_owed)
  have "take ?n (drop ?i (fe_header_payload_buffer e)) = take ?n (drop ?i (header_part e))"
    by (simp add: header_part_def drop_take)
  moreover have "?i + ?n \<le> length (fe_header_payload_buffer e)"
    using assms by (auto simp: headers_ok_def min_def)
  ultimately have "write_payload e buf ?r =
      (e\<lparr>fe_header_payload_index := ?i + ?n\<rparr>, take ?n (drop ?i (header_part e)) @ drop ?n buf, Ok ?n)"
    using assms(2) by (simp add: write_payload_def Let_def)
  then have "payload_written before (write_payload e buf ?r) = (e', take ?n (drop ?i (header_part e)) @ drop ?n buf, Ok (before + ?n))"
    using e'(1) by (simp add: payload_written_def)
  with that [where n = ?n and e' = e'] e' same show thesis by (simp add: keeps_def)
qed

lemma headers_payload_advance:
  assumes "headers_ok e" "fe_header_payload_index e < fe_remaining_header_payload e" "fe_state e = EncodingHeadersPayload"
    and "buf \<noteq> []"
  shows "frame_advance e buf (FrameEncoder_encode_step e buf)"
proof -
  obtain sid flags parts where c: "current e sid flags (Payload_Headers parts)" using assms(1) by (auto simp: headers_ok_def)
  have "fe_header_payload_index e \<le> fe_remaining_header_payload e" using assms(2) by simp
  then obtain e' n where
    w: "payload_written 0 (write_payload e buf (fe_remaining_header_payload e)) =
       (e', take n (drop (fe_header_payload_index e) (header_part e)) @ drop n buf, Ok (0 + n))"
    and n: "n = min (length buf) (fe_remaining_header_payload e - fe_header_payload_index e)"
    and e': "frame_ok e'" "room e' = 0"
      "frame_owed e' = drop (fe_header_payload_index e + n) (header_part e) @
         continuation_bytes (frame_id (current_frame e)) (rest_chunks e)"
      "keeps e e'"
    by (rule payload_written_advance [OF assms(1), of 0 buf])
  have len: "length (header_part e) = fe_remaining_header_payload e" using assms(1) by (simp add: header_part_def headers_ok_def)
  have step: "FrameEncoder_encode_step e buf =
      (e', take n (drop (fe_header_payload_index e) (header_part e)) @ drop n buf, Ok n)"
    using w c assms(3,4) by (simp add: FrameEncoder_encode_step_def encode_headers_payload_def current_def Frame_new_def)
  have "frame_owed e = drop (fe_header_payload_index e) (header_part e) @ continuation_bytes (frame_id (current_frame e)) (rest_chunks e)"
    using assms(3) by (simp add: frame_owed_def Let_def)
  with step n e' len assms(2,4) show ?thesis by (auto simp: frame_advance_def keeps_def)
qed

lemma headers_frame_advance:
  assumes "headers_ok e" "fe_encoded_bytes e < 9" "fe_header_payload_index e = 0" "fe_state e = EncodingHeadersFrame"
  shows "frame_advance e buf (FrameEncoder_encode_step e buf)"
proof -
  obtain sid flags parts where c: "current e sid flags (Payload_Headers parts)" using assms(1) by (auto simp: headers_ok_def)
  let ?k = "fe_encoded_bytes e" and ?n = "header_bytes_to_write e buf"
  let ?w = "frame_bytes 1 (headers_flags e) sid (header_part e)" and ?rest = "continuation_bytes sid (rest_chunks e)"
  have f: "current_frame e = Frame_new sid (FrameFlags flags) (Payload_Headers parts)" by (rule current_frameI [OF c])
  have len: "length (header_part e) = fe_remaining_header_payload e" using assms(1) by (simp add: header_part_def headers_ok_def)
  have n: "?n = min (9 - ?k) (length buf)" using assms(2) by (simp add: header_bytes_to_write_def)
  have it: "iterate_headers_header e (Frame_new sid (FrameFlags flags) (Payload_Headers parts)) buf ?n =
      (take ?n (drop ?k ?w) @ drop ?n buf, Ok ())"
    using fill_header [OF assms(2) n, of "header_part e" 1 "headers_flags e" sid] len f
    by (cases "HpackEncoder_is_finished (fe_hpack_encoder e)")
      (simp_all add: iterate_headers_header_def headers_flags_def Frame_new_def)
  have owed: "frame_owed e = drop ?k ?w @ ?rest" using assms(4) f by (simp add: frame_owed_def Frame_new_def Let_def)
  have lw: "length (take ?n (drop ?k ?w)) = ?n" using n assms(2) by simp
  show ?thesis
  proof (cases "9 - ?k \<le> length buf")
    case False
    then have k: "?k + ?n < 9" and nb: "?n = length buf" using n by simp_all
    let ?e = "e\<lparr>fe_encoded_bytes := ?k + ?n\<rparr>"
    have "FrameEncoder_encode_step e buf = (?e, take ?n (drop ?k ?w) @ drop ?n buf, Ok ?n)"
      using c assms(4) it k by (simp add: FrameEncoder_encode_step_def encode_headers_frame_def current_def Frame_new_def Let_def)
    moreover have "frame_owed ?e = drop (?k + ?n) ?w @ ?rest" using assms(4) f
      by (simp add: frame_owed_def Frame_new_def Let_def headers_flags_def header_part_def rest_chunks_def)
    moreover have "frame_ok ?e" "room ?e = 0"
      using assms k by (simp_all add: frame_ok_def headers_state_def room_def headers_ok_def)
    ultimately show ?thesis using owed nb lw False by (auto simp: frame_advance_def keeps_def)
  next
    case True
    then have k: "?k + ?n = 9" and nb: "?n \<le> length buf" "0 < ?n" using n assms(2) by simp_all
    let ?e = "e\<lparr>fe_encoded_bytes := 9\<rparr>"
    have same: "header_part ?e = header_part e" "rest_chunks ?e = rest_chunks e"
      by (simp_all add: header_part_def rest_chunks_def)
    have ok: "headers_ok ?e" "fe_header_payload_index ?e \<le> fe_remaining_header_payload ?e"
      using assms(1,3) by (simp_all add: headers_ok_def)
    obtain e' m where
      w: "payload_written ?n (write_payload ?e (drop ?n buf) (fe_remaining_header_payload ?e)) =
         (e', take m (drop (fe_header_payload_index ?e) (header_part ?e)) @ drop m (drop ?n buf), Ok (?n + m))"
      and m: "m = min (length (drop ?n buf)) (fe_remaining_header_payload ?e - fe_header_payload_index ?e)"
      and e': "frame_ok e'" "room e' = 0"
        "frame_owed e' = drop (fe_header_payload_index ?e + m) (header_part ?e) @
           continuation_bytes (frame_id (current_frame ?e)) (rest_chunks ?e)"
        "keeps ?e e'"
      by (rule payload_written_advance [OF ok, of ?n "drop ?n buf"])
    have step: "FrameEncoder_encode_step e buf =
        (e', take ?n (drop ?k ?w) @ take m (header_part e) @ drop m (drop ?n buf), Ok (?n + m))"
      using c assms(3,4) it k w lw same
      by (simp add: FrameEncoder_encode_step_def encode_headers_frame_def current_def Frame_new_def Let_def)
    have "drop ?k ?w = take ?n (drop ?k ?w) @ drop 9 ?w" using drop_cut [of ?n ?k ?w] k by simp
    then have split: "drop ?k ?w = take ?n (drop ?k ?w) @ header_part e" by (simp add: frame_bytes_def)
    have lm: "length (take m (header_part e)) = m" using m len assms(3) by simp
    have e'o: "frame_owed e' = drop m (header_part e) @ ?rest" using e'(3) same assms(3) f by (simp add: Frame_new_def)
    have "take (?n + m) (take ?n (drop ?k ?w) @ take m (header_part e) @ drop m (drop ?n buf)) =
        take ?n (drop ?k ?w) @ take m (header_part e)"
      using lw lm by simp
    moreover have "frame_owed e = take ?n (drop ?k ?w) @ take m (header_part e) @ frame_owed e'"
      unfolding owed e'o by (subst split) simp
    moreover have "?n + m \<le> length buf" using m nb by simp
    ultimately show ?thesis using step e' lw lm nb unfolding frame_advance_def keeps_def by auto
  qed
qed

lemma continuation_cons:
  "fs = [] \<Longrightarrow> continuation_bytes sid (f # fs) = frame_bytes 9 END_HEADERS_MASK sid f @ continuation_bytes sid fs"
  "fs \<noteq> [] \<Longrightarrow> continuation_bytes sid (f # fs) = frame_bytes 9 0 sid f @ continuation_bytes sid fs"
  by (cases fs; simp)+

lemma length_bytes:
  "map (length_byte n) [0..<3] = [word_of_nat (n div 65536), word_of_nat (n div 256), word_of_nat n]"
  by (simp add: length_byte_def upt_conv_Cons)

lemma rest_chunks_Nil: "headers_ok e \<Longrightarrow> rest_chunks e = [] \<longleftrightarrow> HpackEncoder_is_finished (fe_hpack_encoder e)"
  by (auto simp: rest_chunks_def headers_ok_def chunks_step)

lemma continuation_advance:
  assumes "headers_ok e" "fe_header_payload_index e = 0" "0 < fe_remaining_header_payload e"
    and "fe_state e = EncodingContinuationFrames"
  shows "frame_advance e buf (FrameEncoder_encode_step e buf)"
proof -
  obtain sid flags parts where c: "current e sid flags (Payload_Headers parts)" using assms(1) by (auto simp: headers_ok_def)
  have f: "current_frame e = Frame_new sid (FrameFlags flags) (Payload_Headers parts)" by (rule current_frameI [OF c])
  have len: "length (header_part e) = fe_remaining_header_payload e" using assms(1) by (simp add: header_part_def headers_ok_def)
  let ?fl = "if HpackEncoder_is_finished (fe_hpack_encoder e) then END_HEADERS_MASK else 0"
  let ?rest = "continuation_bytes sid (rest_chunks e)"
  have owed: "frame_owed e = frame_bytes 9 ?fl sid (header_part e) @ ?rest"
    using assms(4) f continuation_cons [of "rest_chunks e" sid "header_part e"] rest_chunks_Nil [OF assms(1)]
    by (cases "rest_chunks e = []") (simp_all add: frame_owed_def Frame_new_def Let_def)
  show ?thesis
  proof (cases "length buf < 9")
    case True
    then have "FrameEncoder_encode_step e buf = (e, buf, Ok 0)"
      using c assms(4) by (simp add: FrameEncoder_encode_step_def encode_continuation_frames_def current_def Frame_new_def)
    then show ?thesis using True assms by (simp add: frame_advance_def keeps_def frame_ok_def headers_state_def room_def)
  next
    case False
    have "fe_header_payload_index e \<le> fe_remaining_header_payload e" using assms(2) by simp
    then obtain e' m where
      w: "payload_written 9 (write_payload e (drop 9 buf) (fe_remaining_header_payload e)) =
         (e', take m (drop (fe_header_payload_index e) (header_part e)) @ drop m (drop 9 buf), Ok (9 + m))"
      and m: "m = min (length (drop 9 buf)) (fe_remaining_header_payload e - fe_header_payload_index e)"
      and e': "frame_ok e'" "room e' = 0"
        "frame_owed e' = drop (fe_header_payload_index e + m) (header_part e) @
           continuation_bytes (frame_id (current_frame e)) (rest_chunks e)"
        "keeps e e'"
      by (rule payload_written_advance [OF assms(1), of 9 "drop 9 buf"])
    let ?h = "take 9 (frame_bytes 9 ?fl sid (header_part e))"
    have max: "fe_remaining_header_payload e \<le> fe_max_frame_size e" using assms(1) by (simp add: headers_ok_def)
    have "continuation_header e (Frame_new sid (FrameFlags flags) (Payload_Headers parts)) (fe_remaining_header_payload e) = ?h"
      using assms(1) max len
      by (simp add: continuation_header_def headers_ok_def FrameFlags_empty_def FrameFlags_set_end_headers_def
          frame_bytes_def length_bytes u32_bytes Frame_new_def)
    then have step: "FrameEncoder_encode_step e buf = (e', ?h @ take m (header_part e) @ drop m (drop 9 buf), Ok (9 + m))"
      using c assms(2,4) w False max
      by (simp add: FrameEncoder_encode_step_def encode_continuation_frames_def current_def Frame_new_def min_absorb1)
    have lm: "length (take m (header_part e)) = m" "length ?h = 9" using m len assms(2) by simp_all
    have "frame_owed e' = drop m (header_part e) @ ?rest" using e'(3) assms(2) f by (simp add: Frame_new_def)
    moreover have "frame_bytes 9 ?fl sid (header_part e) = ?h @ header_part e" by (simp add: frame_bytes_def)
    ultimately have "frame_owed e = ?h @ take m (header_part e) @ frame_owed e'" unfolding owed by simp
    moreover have "take (9 + m) (?h @ take m (header_part e) @ drop m (drop 9 buf)) = ?h @ take m (header_part e)"
      using lm by simp
    moreover have "9 + m \<le> length buf" using m False by simp
    ultimately show ?thesis using step e' lm unfolding frame_advance_def keeps_def by auto
  qed
qed

lemma frame_step_advances:
  assumes "frame_ok e" "room e \<le> length buf" "buf \<noteq> []" "\<not> encoder_at_rest e"
  shows "frame_advance e buf (FrameEncoder_encode_step e buf)"
  using assms headers_frame_advance [of e buf] headers_payload_advance [of e buf] continuation_advance [of e buf]
    data_header_advance [of e buf] data_payload_advance [of e buf] window_update_advance [of e buf] simple_advance [of e buf]
  by (cases "fe_state e") (simp_all add: frame_ok_def encoder_at_rest_def headers_state_def)

section \<open>One call\<close>

lemma keeps_trans: "keeps a b \<Longrightarrow> keeps b c \<Longrightarrow> keeps a c"
  by (simp add: keeps_def)

lemma frame_loop_writes:
  assumes "frame_ok e" "room e \<le> length buf"
  shows "\<exists>e' buf' w. FrameEncoder_encode_loop e done1 buf = (e', buf', Ok (length done1 + length w)) \<and>
    take (length done1 + length w) buf' = done1 @ w \<and> length buf' = length done1 + length buf \<and>
    frame_owed e = w @ frame_owed e' \<and> frame_ok e' \<and> keeps e e' \<and> (9 \<le> length buf \<longrightarrow> w \<noteq> [] \<or> frame_owed e = [])"
  using assms
proof (induction e done1 buf rule: FrameEncoder_encode_loop.induct)
  case (1 e done1 buf)
  note loop = FrameEncoder_encode_loop.simps [of e done1 buf]
  show ?case
  proof (cases "buf = [] \<or> encoder_at_rest e")
    case True
    moreover have "encoder_at_rest e \<Longrightarrow> frame_owed e = []" by (auto simp: encoder_at_rest_def frame_owed_def Let_def)
    ultimately show ?thesis using "1.prems" by (intro exI [of _ e] exI [of _ "done1 @ buf"] exI [of _ "[]"]) (auto simp: loop keeps_def)
  next
    case False
    then obtain e' buf' n where step: "FrameEncoder_encode_step e buf = (e', buf', Ok n)"
      and n: "n \<le> length buf" "length buf' = length buf" "9 \<le> length buf \<longrightarrow> 0 < n \<or> frame_owed e = []"
      and e': "frame_owed e = take n buf' @ frame_owed e'" "frame_ok e'" "room e' \<le> length buf - n" "keeps e e'"
      using frame_step_advances [OF "1.prems"] by (auto simp: frame_advance_def)
    show ?thesis
    proof (cases "fe_state e' = fe_state e")
      case True
      then show ?thesis using False step n e'
        by (intro exI [of _ e'] exI [of _ "done1 @ buf'"] exI [of _ "take n buf'"]) (auto simp: loop)
    next
      case moved: False
      have "room e' \<le> length (drop n buf')" using e'(3) n(2) by simp
      from "1.IH" [OF _ _ step [symmetric] refl refl moved e'(2) this] False obtain e2 buf2 w where
        l: "FrameEncoder_encode_loop e' (done1 @ take n buf') (drop n buf') = (e2, buf2, Ok (length (done1 @ take n buf') + length w))"
        "take (length (done1 @ take n buf') + length w) buf2 = (done1 @ take n buf') @ w"
        "length buf2 = length (done1 @ take n buf') + length (drop n buf')"
        "frame_owed e' = w @ frame_owed e2" "frame_ok e2" "keeps e' e2"
        by blast
      have lt: "length (take n buf') = n" using n by simp
      have "FrameEncoder_encode_loop e done1 buf = (e2, buf2, Ok (length done1 + length (take n buf' @ w)))"
        using False step moved l(1) lt by (simp add: loop)
      moreover have "take (length done1 + length (take n buf' @ w)) buf2 = done1 @ take n buf' @ w"
        using l(2) lt by (simp add: add.assoc)
      moreover have "length buf2 = length done1 + length buf" using l(3) n by simp
      moreover have "frame_owed e = (take n buf' @ w) @ frame_owed e2" using e'(1) l(4) by simp
      moreover have "9 \<le> length buf \<longrightarrow> take n buf' @ w \<noteq> [] \<or> frame_owed e = []" using n(3) lt by force
      moreover note l(5) keeps_trans [OF e'(4) l(6)]
      ultimately show ?thesis by blast
    qed
  qed
qed

lemma encode_call:
  assumes "frame_ok e" "13 \<le> length buf"
  obtains e' buf' w where "FrameEncoder_encode e buf = (e', buf', Ok (length w))" "take (length w) buf' = w"
    "length buf' = length buf" "frame_owed e = w @ frame_owed e'" "frame_ok e'" "keeps e e'" "w = [] \<Longrightarrow> frame_owed e' = []"
proof -
  have "room e \<le> length buf" using assms(2) by (simp add: room_def split: FrameEncoderState.split)
  from frame_loop_writes [OF assms(1) this, of "[]"] that assms(2) show thesis
    by (auto simp: FrameEncoder_encode_def)
qed

section \<open>A new frame\<close>

text \<open>The frames that the encoder can be handed: header blocks end, DATA fits into one frame, PING has eight bytes.\<close>

definition sendable :: "FrameEncoder \<Rightarrow> Frame \<Rightarrow> bool" where
  "sendable e f \<longleftrightarrow>
     (case frame_payload f of
        Payload_Headers _ \<Rightarrow> FrameFlags_is_end_headers (frame_flags f) \<and>
          0 < length (fe_header_payload_buffer e) \<and> length (fe_header_payload_buffer e) \<le> fe_max_frame_size e
      | Payload_Data d \<Rightarrow> length d \<le> fe_max_frame_size e
      | Payload_Ping d \<Rightarrow> length d = 8
      | Payload_PushPromise _ \<Rightarrow> False
      | _ \<Rightarrow> True)"

text \<open>The bytes of a frame and the dynamic table behind it; \<open>hf\<close>, \<open>n\<close> and \<open>t\<close> are the encoder's choice, buffer and table.\<close>

definition frame_output :: "map_order \<Rightarrow> bool \<Rightarrow> nat \<Rightarrow> DynamicTable \<Rightarrow> Frame \<Rightarrow> bytes" where
  "frame_output order hf n t f =
     (case frame_payload f of
        Payload_Headers parts \<Rightarrow> headers_wire n f (block_bytes hf t (parts_fields order parts))
      | _ \<Rightarrow> frame_wire f)"

definition table_after :: "map_order \<Rightarrow> bool \<Rightarrow> DynamicTable \<Rightarrow> Frame \<Rightarrow> DynamicTable" where
  "table_after order hf t f =
     (case frame_payload f of
        Payload_Headers parts \<Rightarrow> block_table hf t (parts_fields order parts)
      | _ \<Rightarrow> t)"

lemma finished_table: "HpackEncoder_is_finished h \<Longrightarrow> HpackEncoder_final_table h = hpe_table h"
  by (simp add: HpackEncoder_is_finished_def HpackEncoder_final_table_def iter_fields_def)

definition new_frame :: "FrameEncoder \<Rightarrow> Frame \<Rightarrow> FrameEncoder" where
  "new_frame e f =
     e\<lparr>fe_is_end_stream := FrameFlags_is_end_stream (frame_flags f), fe_is_end_headers := FrameFlags_is_end_headers (frame_flags f),
       fe_current_frame := Some f, fe_encoded_bytes := 0\<rparr>"

lemma headers_block:
  assumes "HpackEncoder_is_finished h"
  shows "HpackEncoder_output (HpackEncoder_set_parts order h parts) = block_bytes (hpe_use_huffman h) (hpe_table h) (parts_fields order parts)"
    "HpackEncoder_final_table (HpackEncoder_set_parts order h parts) = block_table (hpe_use_huffman h) (hpe_table h) (parts_fields order parts)"
    "hpe_use_huffman (HpackEncoder_set_parts order h parts) = hpe_use_huffman h"
  using assms by (simp_all add: HpackEncoder_output_def HpackEncoder_final_table_def HpackEncoder_set_parts_def iter_fields_def
      parts_fields_def HpackEncoder_is_finished_def)

lemma set_headers_owed:
  assumes "HpackEncoder_is_finished (fe_hpack_encoder e)" "sendable e f" "frame_payload f = Payload_Headers parts"
  shows "\<exists>e'. FrameEncoder_set_frame order e f = (e', Ok ()) \<and> frame_ok e' \<and>
    frame_owed e' = frame_output order (hpe_use_huffman (fe_hpack_encoder e)) (length (fe_header_payload_buffer e))
      (hpe_table (fe_hpack_encoder e)) f \<and>
    HpackEncoder_final_table (fe_hpack_encoder e') =
      table_after order (hpe_use_huffman (fe_hpack_encoder e)) (hpe_table (fe_hpack_encoder e)) f \<and>
    hpe_use_huffman (fe_hpack_encoder e') = hpe_use_huffman (fe_hpack_encoder e) \<and>
    length (fe_header_payload_buffer e') = length (fe_header_payload_buffer e) \<and> fe_max_frame_size e' = fe_max_frame_size e"
proof -
  let ?e = "(new_frame e f)\<lparr>fe_hpack_encoder := HpackEncoder_set_parts order (fe_hpack_encoder e) parts\<rparr>"
  let ?n = "length (fe_header_payload_buffer e)" and ?out = "HpackEncoder_output (fe_hpack_encoder ?e)"
  have n: "0 < length (fe_header_payload_buffer ?e)" "FrameFlags_is_end_headers (frame_flags f)" "?n \<le> fe_max_frame_size e"
    using assms(2,3) by (simp_all add: sendable_def new_frame_def)
  obtain h b k where r: "read_rest_payload ?e = (?e\<lparr>fe_header_payload_index := 0, fe_hpack_encoder := h,
       fe_header_payload_buffer := b, fe_remaining_header_payload := k\<rparr>, Ok ())"
    and b: "take k b = take (length (fe_header_payload_buffer ?e)) ?out"
      "k = min (length (fe_header_payload_buffer ?e)) (length ?out)" "length b = length (fe_header_payload_buffer ?e)"
    and h: "HpackEncoder_output h = drop (length (fe_header_payload_buffer ?e)) ?out"
      "HpackEncoder_is_finished h \<longleftrightarrow> length ?out \<le> length (fe_header_payload_buffer ?e)"
      "HpackEncoder_final_table h = HpackEncoder_final_table (fe_hpack_encoder ?e)"
      "hpe_use_huffman h = hpe_use_huffman (fe_hpack_encoder ?e)"
    by (rule read_rest_payload_chunk [OF n(1)])
  have bn: "length (fe_header_payload_buffer ?e) = ?n" by (simp add: new_frame_def)
  let ?e' = "?e\<lparr>fe_header_payload_index := 0, fe_hpack_encoder := h, fe_header_payload_buffer := b,
    fe_remaining_header_payload := k, fe_state := EncodingHeadersFrame\<rparr>"
  have set: "FrameEncoder_set_frame order e f = (?e', Ok ())"
    using r n(2) assms(3) by (simp add: FrameEncoder_set_frame_def new_frame_def Let_def)
  obtain fl where fl: "frame_flags f = FrameFlags fl" by (cases "frame_flags f")
  have cur: "current ?e' (frame_id f) fl (Payload_Headers parts)" "current_frame ?e' = f"
    using fl assms(3) by (simp_all add: current_def current_frame_def new_frame_def Frame_new_def)
  have "headers_ok ?e'" unfolding headers_ok_def
    using cur(1) n b(2,3) h(1,2) bn by (auto simp: new_frame_def)
  then have ok: "frame_ok ?e'" by (simp add: frame_ok_def headers_state_def new_frame_def)
  have part: "header_part ?e' = take ?n ?out" using b(1) bn by (simp add: header_part_def)
  have rest: "rest_chunks ?e' = (if length ?out \<le> ?n then [] else chunks ?n (drop ?n ?out))"
    using h(1,2) b(3) bn by (simp add: rest_chunks_def)
  have "frame_owed ?e' = headers_wire ?n f ?out"
    using part rest cur(2) h(2) bn
    by (simp add: frame_owed_def headers_wire_def headers_flags_def new_frame_def Let_def)
  then show ?thesis using set ok h(3,4) b(3) assms(3) headers_block [OF assms(1), of order parts]
    by (simp add: frame_output_def table_after_def new_frame_def)
qed

lemma set_frame_owed:
  assumes "HpackEncoder_is_finished (fe_hpack_encoder e)" "sendable e f"
  shows "\<exists>e'. FrameEncoder_set_frame order e f = (e', Ok ()) \<and> frame_ok e' \<and>
    frame_owed e' = frame_output order (hpe_use_huffman (fe_hpack_encoder e)) (length (fe_header_payload_buffer e))
      (hpe_table (fe_hpack_encoder e)) f \<and>
    HpackEncoder_final_table (fe_hpack_encoder e') =
      table_after order (hpe_use_huffman (fe_hpack_encoder e)) (hpe_table (fe_hpack_encoder e)) f \<and>
    hpe_use_huffman (fe_hpack_encoder e') = hpe_use_huffman (fe_hpack_encoder e) \<and>
    length (fe_header_payload_buffer e') = length (fe_header_payload_buffer e) \<and> fe_max_frame_size e' = fe_max_frame_size e"
proof -
  obtain fl where fl: "frame_flags f = FrameFlags fl" by (cases "frame_flags f")
  have cur: "current_frame ((new_frame e f)\<lparr>fe_state := s\<rparr>) = f" "current ((new_frame e f)\<lparr>fe_state := s\<rparr>) (frame_id f) fl (frame_payload f)"
    "current ((new_frame e f)\<lparr>fe_data_offset := 0, fe_remaining_payload_bytes := k, fe_state := s\<rparr>) (frame_id f) fl (frame_payload f)"
    "current_frame ((new_frame e f)\<lparr>fe_data_offset := 0, fe_remaining_payload_bytes := k, fe_state := s\<rparr>) = f" for s k
    using fl by (simp_all add: current_def current_frame_def new_frame_def Frame_new_def)
  have fin: "HpackEncoder_is_finished (fe_hpack_encoder (new_frame e f))" "fe_encoded_bytes (new_frame e f) = 0"
    "fe_max_frame_size (new_frame e f) = fe_max_frame_size e" "fe_hpack_encoder (new_frame e f) = fe_hpack_encoder e"
    "fe_header_payload_buffer (new_frame e f) = fe_header_payload_buffer e"
    using assms(1) by (simp_all add: new_frame_def)
  note table = finished_table [OF assms(1)]
  show ?thesis
  proof (cases "\<exists>parts. frame_payload f = Payload_Headers parts")
    case True
    then show ?thesis using set_headers_owed [OF assms] by blast
  next
    case False
    have set: "FrameEncoder_set_frame order e f =
      ((case frame_payload f of
          Payload_Data d \<Rightarrow> (new_frame e f)\<lparr>fe_data_offset := 0, fe_remaining_payload_bytes := length d, fe_state := EncodingDataHeader\<rparr>
        | Payload_WindowUpdate _ \<Rightarrow> (new_frame e f)\<lparr>fe_state := EncodingWindowUpdateFrame\<rparr>
        | p \<Rightarrow> (new_frame e f)\<lparr>fe_state := fst (the (simple_states p))\<rparr>), Ok ())"
      using False assms(2) by (auto simp: FrameEncoder_set_frame_def new_frame_def sendable_def Let_def split: Payload.split)
    show ?thesis
    proof (cases "frame_payload f")
      case (Payload_Data d)
      then have "data_ok ((new_frame e f)\<lparr>fe_data_offset := 0, fe_remaining_payload_bytes := length d, fe_state := EncodingDataHeader\<rparr>)"
        unfolding data_ok_def using cur(3) assms(2) fin by (auto simp: sendable_def)
      then show ?thesis using set Payload_Data cur fin table
        by (simp add: frame_ok_def frame_owed_def headers_state_def frame_output_def table_after_def Let_def)
    next
      case (Payload_WindowUpdate w)
      then have "window_update_ok ((new_frame e f)\<lparr>fe_state := EncodingWindowUpdateFrame\<rparr>)"
        unfolding window_update_ok_def using cur(2) fin by auto
      then show ?thesis using set Payload_WindowUpdate cur fin table
        by (simp add: frame_ok_def frame_owed_def headers_state_def frame_output_def table_after_def Let_def)
    qed (use False set cur fin table assms(2) in
        \<open>simp_all add: frame_ok_def frame_owed_def simple_ok_def headers_state_def frame_output_def table_after_def sendable_def Let_def\<close>)
  qed
qed

end
