(* ===== verification/H2_Send_Props.thy ===== *)
theory H2_Send_Props
  imports H2_Send H2_Frame_Written
begin

text \<open>
  The writing task hands the connection exactly the bytes of the frames it was given, in order, however
  little the connection takes at a time and however often it is not ready.
\<close>

section \<open>The connection\<close>

text \<open>
  What \<open>AsyncWrite::poll_write\<close> documents, for a slice that is not empty: it takes a front piece of the slice, which is not empty while the
  connection accepts bytes, and nothing when it fails or is not ready. \<open>taken\<close> are the bytes taken so far.
\<close>

definition took :: "('w \<Rightarrow> bytes) \<Rightarrow> 'w \<Rightarrow> bytes \<Rightarrow> 'w \<times> (nat, string) rust_result poll \<Rightarrow> bool" where
  "took taken w bs p =
     (case p of
        (w', Ready (Ok n)) \<Rightarrow> 0 < n \<and> n \<le> length bs \<and> taken w' = taken w @ take n bs
      | (w', Ready (Err _)) \<Rightarrow> taken w' = taken w
      | (w', Ready Panic) \<Rightarrow> False
      | (w', Pending) \<Rightarrow> taken w' = taken w)"

definition writer_ok :: "'w writer \<Rightarrow> ('w \<Rightarrow> bytes) \<Rightarrow> bool" where
  "writer_ok poll_write taken \<longleftrightarrow> (\<forall>w bs. bs \<noteq> [] \<longrightarrow> took taken w bs (poll_write w bs))"

section \<open>What the task owes\<close>

text \<open>SETTINGS with the ACK flag stand for the acknowledgement, which is empty.\<close>

definition outgoing :: "Frame \<Rightarrow> Frame" where
  "outgoing f =
     (case frame_payload f of
        Payload_Settings _ \<Rightarrow> if FrameFlags_is_ack (frame_flags f) then Settings_ack else f
      | _ \<Rightarrow> f)"

definition settings_applied :: "FrameEncoder \<Rightarrow> Frame \<Rightarrow> FrameEncoder" where
  "settings_applied e f =
     (case frame_payload f of
        Payload_Settings ss \<Rightarrow> if FrameFlags_is_ack (frame_flags f) then apply_encoder_settings e ss else e
      | _ \<Rightarrow> e)"

fun queue_sendable :: "FrameEncoder \<Rightarrow> Frame list \<Rightarrow> bool" where
  "queue_sendable e [] = True"
| "queue_sendable e (f # fs) =
     (sendable (settings_applied e f) (outgoing f) \<and> queue_sendable (settings_applied e f) fs)"

fun queue_output :: "map_order \<Rightarrow> bool \<Rightarrow> nat \<Rightarrow> DynamicTable \<Rightarrow> Frame list \<Rightarrow> bytes" where
  "queue_output order hf n t [] = []"
| "queue_output order hf n t (f # fs) =
     frame_output order hf n t (outgoing f) @ queue_output order hf n (table_after order hf t (outgoing f)) fs"

fun queue_table :: "map_order \<Rightarrow> bool \<Rightarrow> DynamicTable \<Rightarrow> Frame list \<Rightarrow> DynamicTable" where
  "queue_table order hf t [] = t"
| "queue_table order hf t (f # fs) = queue_table order hf (table_after order hf t (outgoing f)) fs"

definition encoder_queue :: "map_order \<Rightarrow> FrameEncoder \<Rightarrow> Frame list \<Rightarrow> bytes" where
  "encoder_queue order e fs =
     queue_output order (hpe_use_huffman (fe_hpack_encoder e)) (length (fe_header_payload_buffer e))
       (HpackEncoder_final_table (fe_hpack_encoder e)) fs"

definition buffered :: "WriteBuf \<Rightarrow> bytes" where
  "buffered b = (if wb_empty b then [] else take (wb_end b - wb_start b) (drop (wb_start b) (wb_buf b)))"

text \<open>\<open>gs\<close> are the frames that are queued later.\<close>

definition send_owed :: "map_order \<Rightarrow> Frame list \<Rightarrow> SendData \<Rightarrow> bytes" where
  "send_owed order gs s = buffered (sd_buf s) @ frame_owed (sd_encoder s) @ encoder_queue order (sd_encoder s) (sd_req_rx s @ gs)"

definition send_ok :: "Frame list \<Rightarrow> SendData \<Rightarrow> bool" where
  "send_ok gs s \<longleftrightarrow>
     frame_ok (sd_encoder s) \<and> 13 \<le> length (wb_buf (sd_buf s)) \<and>
     (wb_empty (sd_buf s) \<or> wb_start (sd_buf s) < wb_end (sd_buf s) \<and> wb_end (sd_buf s) \<le> length (wb_buf (sd_buf s))) \<and>
     (sd_state s = RecvFrame \<longrightarrow> frame_owed (sd_encoder s) = [] \<and> wb_empty (sd_buf s)) \<and>
     queue_sendable (sd_encoder s) (sd_req_rx s @ gs)"

section \<open>Writing a slice\<close>

text \<open>How a write ends: it is complete, or the connection failed or was not ready.\<close>

definition interrupted :: "'w writer \<Rightarrow> task_poll \<Rightarrow> bool" where
  "interrupted poll_write r \<longleftrightarrow>
     r = Pending \<and> (\<exists>w bs w'. poll_write w bs = (w', Pending)) \<or>
     (\<exists>x. r = Ready (Err (Dispatch_Io x)) \<and> (\<exists>w bs w'. poll_write w bs = (w', Ready (Err x))))"

lemma write_slice_writes:
  assumes "writer_ok poll_write taken" "start < end1" "end1 \<le> length buf"
  shows "\<exists>w' start' r. write_slice poll_write w buf start end1 = Some (w', start', r) \<and>
    taken w' @ take (end1 - start') (drop start' buf) = taken w @ take (end1 - start) (drop start buf) \<and>
    (r = Ready (Ok ()) \<and> start' = end1 \<or> interrupted poll_write r \<and> start' < end1)"
  using assms(2)
proof (induction "end1 - start" arbitrary: start w rule: less_induct)
  case less
  let ?bs = "take (end1 - start) (drop start buf)"
  note loop = write_slice.simps [of poll_write w buf start end1]
  have bs: "?bs \<noteq> []" "length ?bs = end1 - start" using less.prems assms(3) by auto
  obtain w' r where p: "poll_write w ?bs = (w', r)" by fastforce
  have ok: "took taken w ?bs (w', r)" using assms(1) bs(1) p unfolding writer_ok_def by metis
  show ?case
  proof (cases "\<exists>n. r = Ready (Ok n)")
    case True
    then obtain n where n: "r = Ready (Ok n)" "0 < n" "n \<le> end1 - start" "taken w' = taken w @ take n ?bs"
      using ok bs(2) by (auto simp: took_def)
    have "drop n ?bs = take (end1 - (start + n)) (drop (start + n) buf)"
      by (simp add: drop_take add.commute)
    with n(4) have split: "taken w' @ take (end1 - (start + n)) (drop (start + n) buf) = taken w @ ?bs"
      using append_take_drop_id [of n ?bs] by simp
    show ?thesis
    proof (cases "start + n = end1")
      case True
      then have "write_slice poll_write w buf start end1 = Some (w', end1, Ready (Ok ()))"
        using loop p n(1) less.prems assms(3) by simp
      then show ?thesis using split True by auto
    next
      case False
      then have less: "start + n < end1" "end1 - (start + n) < end1 - start" using n by auto
      from less.hyps [OF less(2,1), of w'] obtain w2 start2 r2 where
        w2: "write_slice poll_write w' buf (start + n) end1 = Some (w2, start2, r2)"
        "taken w2 @ take (end1 - start2) (drop start2 buf) = taken w' @ take (end1 - (start + n)) (drop (start + n) buf)"
        "r2 = Ready (Ok ()) \<and> start2 = end1 \<or> interrupted poll_write r2 \<and> start2 < end1" by blast
      have "write_slice poll_write w buf start end1 = Some (w2, start2, r2)"
        using loop p n(1) less.prems assms(3) False w2(1) by simp
      then show ?thesis using w2(2,3) split by metis
    qed
  next
    case False
    then consider (err) x where "r = Ready (Err x)" "taken w' = taken w" | (pending) "r = Pending" "taken w' = taken w"
      using ok by (auto simp: took_def split: poll.splits rust_result.splits)
    then show ?thesis
    proof cases
      case err
      then have "write_slice poll_write w buf start end1 = Some (w', start, Ready (Err (Dispatch_Io x)))"
        using loop p less.prems assms(3) by simp
      moreover have "interrupted poll_write (Ready (Err (Dispatch_Io x)))" using p err(1) by (auto simp: interrupted_def)
      ultimately show ?thesis using err(2) less.prems by auto
    next
      case pending
      then have "write_slice poll_write w buf start end1 = Some (w', start, Pending)"
        using loop p less.prems assms(3) by simp
      moreover have "interrupted poll_write Pending" using p pending(1) by (auto simp: interrupted_def)
      ultimately show ?thesis using pending(2) less.prems by auto
    qed
  qed
qed

section \<open>Writing a frame\<close>

lemma sendable_cong:
  "length (fe_header_payload_buffer e') = length (fe_header_payload_buffer e) \<Longrightarrow> fe_max_frame_size e' = fe_max_frame_size e \<Longrightarrow>
   sendable e' f \<longleftrightarrow> sendable e f"
  by (simp add: sendable_def split: Payload.split)

lemma apply_settings_keeps:
  "fe_hpack_encoder (apply_encoder_settings e ss) = fe_hpack_encoder e"
  "fe_header_payload_buffer (apply_encoder_settings e ss) = fe_header_payload_buffer e"
  by (induction ss arbitrary: e)
    (simp_all add: FrameEncoder_update_header_table_size_def FrameEncoder_update_max_frame_size_def split: Setting.split)

lemma apply_settings_max:
  "fe_max_frame_size e' = fe_max_frame_size e \<Longrightarrow>
   fe_max_frame_size (apply_encoder_settings e' ss) = fe_max_frame_size (apply_encoder_settings e ss)"
proof (induction ss arbitrary: e e')
  case (Cons a ss)
  show ?case unfolding apply_encoder_settings.simps
    by (rule Cons.IH, cases a)
      (simp_all add: Cons.prems FrameEncoder_update_header_table_size_def FrameEncoder_update_max_frame_size_def)
qed simp

lemma settings_applied_keeps:
  "fe_hpack_encoder (settings_applied e f) = fe_hpack_encoder e"
  "fe_header_payload_buffer (settings_applied e f) = fe_header_payload_buffer e"
  by (simp_all add: settings_applied_def apply_settings_keeps split: Payload.split)

lemma settings_applied_max:
  assumes "fe_max_frame_size e' = fe_max_frame_size e"
  shows "fe_max_frame_size (settings_applied e' f) = fe_max_frame_size (settings_applied e f)"
  using assms apply_settings_max [OF assms] by (cases "frame_payload f") (simp_all add: settings_applied_def)

lemma queue_sendable_cong:
  "length (fe_header_payload_buffer e') = length (fe_header_payload_buffer e) \<Longrightarrow> fe_max_frame_size e' = fe_max_frame_size e \<Longrightarrow>
   queue_sendable e' fs \<longleftrightarrow> queue_sendable e fs"
proof (induction fs arbitrary: e e')
  case (Cons f fs)
  have "length (fe_header_payload_buffer (settings_applied e' f)) = length (fe_header_payload_buffer (settings_applied e f))"
    using Cons.prems(1) by (simp_all add: settings_applied_keeps)
  note same = this settings_applied_max [OF Cons.prems(2), of f]
  show ?case using Cons.IH [OF same] sendable_cong [OF same] by simp
qed simp

lemma keeps_queue: "keeps e e' \<Longrightarrow> encoder_queue order e' fs = encoder_queue order e fs"
  by (simp add: keeps_def encoder_queue_def)

text \<open>How the task goes on: nothing of what it owes is lost, or the connection failed behind a front piece.\<close>

definition send_progress :: "('w \<Rightarrow> bytes) \<Rightarrow> map_order \<Rightarrow> Frame list \<Rightarrow> 'w \<Rightarrow> SendData \<Rightarrow> 'w \<times> SendData \<times> task_poll \<Rightarrow> bool" where
  "send_progress taken order gs w s p =
     (case p of (w', s', r) \<Rightarrow>
        send_ok gs s' \<and> taken w' @ send_owed order gs s' = taken w @ send_owed order gs s \<and> (\<forall>x. r \<noteq> Ready (Err (Dispatch_Io x))) \<or>
        (\<exists>x rest. r = Ready (Err (Dispatch_Io x)) \<and> taken w' @ rest = taken w @ send_owed order gs s))"

lemma encode_frames_writes:
  assumes "writer_ok poll_write taken"
  shows "send_ok gs s \<Longrightarrow> sd_state s = WriteFrame \<Longrightarrow> wb_empty (sd_buf s) \<Longrightarrow>
    \<exists>w' s' r. encode_frames poll_write w s = Some (w', s', r) \<and> send_progress taken order gs w s (w', s', r) \<and>
      sd_state s' = WriteFrame \<and> sd_req_rx s' = sd_req_rx s \<and> sd_closed s' = sd_closed s \<and>
      (r = Ready (Ok ()) \<and> frame_owed (sd_encoder s') = [] \<and> wb_empty (sd_buf s') \<or> interrupted poll_write r)"
proof (induction "length (frame_owed (sd_encoder s))" arbitrary: s w rule: less_induct)
  case less
  note loop = encode_frames.simps [of poll_write w s]
  have s: "frame_ok (sd_encoder s)" "13 \<le> length (wb_buf (sd_buf s))" "queue_sendable (sd_encoder s) (sd_req_rx s @ gs)"
    using less.prems(1) by (simp_all add: send_ok_def)
  obtain e buf b where enc: "FrameEncoder_encode (sd_encoder s) (wb_buf (sd_buf s)) = (e, buf, Ok (length b))"
    and b: "take (length b) buf = b" "length buf = length (wb_buf (sd_buf s))" "frame_owed (sd_encoder s) = b @ frame_owed e"
      "frame_ok e" "keeps (sd_encoder s) e" "b = [] \<Longrightarrow> frame_owed e = []"
    by (rule encode_call [OF s(1,2)]) (rule that)
  let ?s = "s\<lparr>sd_encoder := e, sd_buf := (sd_buf s)\<lparr>wb_buf := buf\<rparr>\<rparr>"
  have q: "queue_sendable e (sd_req_rx s @ gs)" "encoder_queue order e = encoder_queue order (sd_encoder s)"
    using s(3) queue_sendable_cong [of e "sd_encoder s"] keeps_queue [OF b(5)] b(5) by (auto simp: keeps_def)
  have ok: "send_ok gs ?s" "send_owed order gs s = b @ send_owed order gs ?s"
    using less.prems s b q by (auto simp: send_ok_def send_owed_def buffered_def)
  show ?case
  proof (cases "b = []")
    case True
    then have "encode_frames poll_write w s = Some (w, ?s, Ready (Ok ()))" using loop enc by simp
    moreover have "send_progress taken order gs w s (w, ?s, Ready (Ok ()))" using ok True by (simp add: send_progress_def)
    ultimately show ?thesis using less.prems True b(6) by auto
  next
    case False
    then have len: "0 < length b" "length b \<le> length buf" using arg_cong [OF b(1), of length] by auto
    obtain w' i r where sl: "write_slice poll_write w buf 0 (length b) = Some (w', i, r)"
      and t: "taken w' @ take (length b - i) (drop i buf) = taken w @ take (length b - 0) (drop 0 buf)"
      and r: "r = Ready (Ok ()) \<and> i = length b \<or> interrupted poll_write r \<and> i < length b"
      using write_slice_writes [OF assms len, of w] by blast
    have t: "taken w' @ take (length b - i) (drop i buf) = taken w @ b" using t b(1) by simp
    consider (all) "r = Ready (Ok ())" "i = length b" | (pending) "r = Pending" "i < length b"
      | (err) x where "r = Ready (Err (Dispatch_Io x))"
      using r by (auto simp: interrupted_def)
    then show ?thesis
    proof cases
      case all
      have "length (frame_owed (sd_encoder ?s)) < length (frame_owed (sd_encoder s))" using b(3) len by simp
      from less.hyps [OF this ok(1), of w'] less.prems obtain w2 s2 r2 where
        i: "encode_frames poll_write w' ?s = Some (w2, s2, r2)" "send_progress taken order gs w' ?s (w2, s2, r2)"
        "sd_state s2 = WriteFrame" "sd_req_rx s2 = sd_req_rx s" "sd_closed s2 = sd_closed s"
        "r2 = Ready (Ok ()) \<and> frame_owed (sd_encoder s2) = [] \<and> wb_empty (sd_buf s2) \<or> interrupted poll_write r2" by auto
      have "taken w' = taken w @ b" using t all by simp
      then have "send_progress taken order gs w s (w2, s2, r2)" using i(2) ok(2) by (simp add: send_progress_def)
      moreover have "encode_frames poll_write w s = Some (w2, s2, r2)" using loop enc sl all False i(1) by (simp add: Let_def)
      ultimately show ?thesis using i(3-6) by blast
    next
      case pending
      let ?p = "?s\<lparr>sd_buf := (sd_buf ?s)\<lparr>wb_start := i, wb_end := length b, wb_empty := False\<rparr>\<rparr>"
      have "encode_frames poll_write w s = Some (w', ?p, Pending)" using loop enc sl pending False by (simp add: Let_def)
      moreover have "send_ok gs ?p" using ok(1) pending len less.prems(2) by (simp add: send_ok_def)
      moreover have "send_owed order gs ?p = take (length b - i) (drop i buf) @ send_owed order gs ?s"
        using less.prems(3) by (simp add: send_owed_def buffered_def)
      then have "taken w' @ send_owed order gs ?p = taken w @ send_owed order gs s" using t ok(2) by simp
      ultimately show ?thesis using less.prems r pending by (auto simp: send_progress_def)
    next
      case err
      then have "encode_frames poll_write w s = Some (w', ?s, r)" using loop enc sl False by (simp add: Let_def)
      moreover have "taken w' @ take (length b - i) (drop i buf) @ send_owed order gs ?s = taken w @ send_owed order gs s"
        using t ok(2) by simp
      ultimately show ?thesis using less.prems err r by (auto simp: send_progress_def)
    qed
  qed
qed

lemma poll_writer_frame_writes:
  assumes "writer_ok poll_write taken" "send_ok gs s" "sd_state s = WriteFrame"
  shows "\<exists>w' s' r. poll_writer_frame poll_write w s = Some (w', s', r) \<and> send_progress taken order gs w s (w', s', r) \<and>
      sd_state s' = WriteFrame \<and> sd_req_rx s' = sd_req_rx s \<and> sd_closed s' = sd_closed s \<and>
      (r = Ready (Ok ()) \<and> frame_owed (sd_encoder s') = [] \<and> wb_empty (sd_buf s') \<or> interrupted poll_write r)"
proof (cases "wb_empty (sd_buf s)")
  case True
  then show ?thesis using encode_frames_writes [OF assms(1-3) True] by (simp add: poll_writer_frame_def)
next
  case False
  let ?b = "sd_buf s"
  have b: "wb_start ?b < wb_end ?b" "wb_end ?b \<le> length (wb_buf ?b)" using assms(2) False by (simp_all add: send_ok_def)
  obtain w' i r where sl: "write_slice poll_write w (wb_buf ?b) (wb_start ?b) (wb_end ?b) = Some (w', i, r)"
    and t: "taken w' @ take (wb_end ?b - i) (drop i (wb_buf ?b)) = taken w @ buffered ?b"
    and r: "r = Ready (Ok ()) \<and> i = wb_end ?b \<or> interrupted poll_write r \<and> i < wb_end ?b"
    using write_slice_writes [OF assms(1) b, of w] False unfolding buffered_def by auto
  let ?s = "s\<lparr>sd_buf := ?b\<lparr>wb_start := i\<rparr>\<rparr>"
  have owed: "send_owed order gs s = buffered ?b @ frame_owed (sd_encoder s) @ encoder_queue order (sd_encoder s) (sd_req_rx s @ gs)"
    by (simp add: send_owed_def)
  show ?thesis
  proof (cases "r = Ready (Ok ())")
    case True
    let ?c = "?s\<lparr>sd_buf := WriteBuf_clear (sd_buf ?s)\<rparr>"
    have i: "i = wb_end ?b" using r True by (simp add: interrupted_def)
    have c: "send_ok gs ?c" "sd_state ?c = WriteFrame" "wb_empty (sd_buf ?c)"
      using assms(2,3) by (simp_all add: send_ok_def WriteBuf_clear_def)
    have "taken w' = taken w @ buffered ?b" using t i by simp
    moreover have "send_owed order gs ?c = frame_owed (sd_encoder s) @ encoder_queue order (sd_encoder s) (sd_req_rx s @ gs)"
      by (simp add: send_owed_def buffered_def WriteBuf_clear_def)
    ultimately have "taken w' @ send_owed order gs ?c = taken w @ send_owed order gs s" using owed by simp
    then have same: "send_progress taken order gs w s p \<longleftrightarrow> send_progress taken order gs w' ?c p" for p by (simp add: send_progress_def)
    have "poll_writer_frame poll_write w s = encode_frames poll_write w' ?c"
      using sl True False by (simp add: poll_writer_frame_def)
    then show ?thesis using encode_frames_writes [OF assms(1) c, of w' order] unfolding same by simp
  next
    case stop: False
    then have int: "interrupted poll_write r" "i < wb_end ?b" using r by auto
    have res: "poll_writer_frame poll_write w s = Some (w', ?s, r)"
      using sl False int(1) by (auto simp: poll_writer_frame_def interrupted_def)
    have s': "send_ok gs ?s" using assms(2,3) int(2) by (auto simp: send_ok_def)
    have "send_owed order gs ?s = take (wb_end ?b - i) (drop i (wb_buf ?b)) @ frame_owed (sd_encoder s) @ encoder_queue order (sd_encoder s) (sd_req_rx s @ gs)"
      using False by (simp add: send_owed_def buffered_def)
    then have "taken w' @ send_owed order gs ?s = taken w @ send_owed order gs s" using t owed by simp
    then have "send_progress taken order gs w s (w', ?s, r)" using s' int(1) by (auto simp: send_progress_def interrupted_def)
    then show ?thesis using res int(1) assms(3) by auto
  qed
qed

lemma owed_Nil_finished:
  assumes "frame_ok e" "frame_owed e = []"
  shows "HpackEncoder_is_finished (fe_hpack_encoder e)"
proof (rule ccontr)
  assume "\<not> HpackEncoder_is_finished (fe_hpack_encoder e)"
  then consider "fe_state e = EncodingHeadersFrame" | "fe_state e = EncodingHeadersPayload" | "fe_state e = EncodingContinuationFrames"
    using assms(1) by (auto simp: frame_ok_def headers_state_def)
  then show False
  proof cases
    case 1
    then show False using assms by (simp add: frame_ok_def frame_owed_def Let_def)
  next
    case 2
    then show False using assms by (simp add: frame_ok_def frame_owed_def Let_def headers_ok_def header_part_def)
  next
    case 3
    then show False using assms continuation_cons(1,2) [of "rest_chunks e" "frame_id (current_frame e)" "header_part e"]
      by (cases "rest_chunks e = []") (auto simp: frame_ok_def frame_owed_def Let_def dest: arg_cong [of _ _ length])
  qed
qed

section \<open>The task\<close>

lemma accept_frame_Ok:
  assumes "FrameEncoder_set_frame order (settings_applied (sd_encoder s) f) (outgoing f) = (e, Ok ())"
  shows "\<exists>st. accept_frame order s f = (s\<lparr>sd_settings := st, sd_encoder := e, sd_state := WriteFrame\<rparr>, Ok ())"
proof (cases "\<exists>ss. frame_payload f = Payload_Settings ss")
  case True
  then obtain ss where ss: "frame_payload f = Payload_Settings ss" by blast
  show ?thesis
  proof (cases "FrameFlags_is_ack (frame_flags f)")
    case True
    then have "accept_frame order s f = (s\<lparr>sd_settings := sd_settings s, sd_encoder := e, sd_state := WriteFrame\<rparr>, Ok ())"
      using assms ss by (simp add: accept_frame_def SendData_update_settings_def settings_applied_def outgoing_def)
    then show ?thesis by blast
  next
    case False
    then have "accept_frame order s f = (s\<lparr>sd_settings := Acknowledging ss, sd_encoder := e, sd_state := WriteFrame\<rparr>, Ok ())"
      using assms ss by (simp add: accept_frame_def SendData_update_settings_def settings_applied_def outgoing_def)
    then show ?thesis by blast
  qed
next
  case False
  then have *: "settings_applied e0 f = e0" "outgoing f = f" "SendData_update_settings s f = (s, Setting_Not)" for e0
    by (auto simp: settings_applied_def outgoing_def SendData_update_settings_def split: Payload.split)
  then have "accept_frame order s f = (s\<lparr>sd_settings := sd_settings s, sd_encoder := e, sd_state := WriteFrame\<rparr>, Ok ())"
    using assms by (simp add: accept_frame_def)
  then show ?thesis by blast
qed

lemma accept_frame_owed:
  assumes "send_ok gs s" "sd_state s = RecvFrame" "sd_req_rx s = f # fs"
  shows "\<exists>s'. accept_frame order (s\<lparr>sd_req_rx := fs\<rparr>) f = (s', Ok ()) \<and> send_ok gs s' \<and> sd_state s' = WriteFrame \<and>
    sd_req_rx s' = fs \<and> sd_closed s' = sd_closed s \<and> send_owed order gs s' = send_owed order gs s"
proof -
  let ?e = "settings_applied (sd_encoder s) f" and ?h = "fe_hpack_encoder (sd_encoder s)"
  have s: "frame_ok (sd_encoder s)" "frame_owed (sd_encoder s) = []" "wb_empty (sd_buf s)"
    "sendable ?e (outgoing f)" "queue_sendable ?e (fs @ gs)" "13 \<le> length (wb_buf (sd_buf s))"
    using assms by (simp_all add: send_ok_def)
  have fin: "HpackEncoder_is_finished (fe_hpack_encoder ?e)"
    using owed_Nil_finished [OF s(1,2)] by (simp add: settings_applied_keeps)
  have tab: "hpe_table ?h = HpackEncoder_final_table ?h" using finished_table fin by (simp add: settings_applied_keeps)
  from set_frame_owed [OF fin s(4), of order] obtain e where
    e: "FrameEncoder_set_frame order ?e (outgoing f) = (e, Ok ())" "frame_ok e"
    "frame_owed e = frame_output order (hpe_use_huffman ?h) (length (fe_header_payload_buffer (sd_encoder s))) (hpe_table ?h) (outgoing f)"
    "HpackEncoder_final_table (fe_hpack_encoder e) = table_after order (hpe_use_huffman ?h) (hpe_table ?h) (outgoing f)"
    "hpe_use_huffman (fe_hpack_encoder e) = hpe_use_huffman ?h"
    "length (fe_header_payload_buffer e) = length (fe_header_payload_buffer (sd_encoder s))" "fe_max_frame_size e = fe_max_frame_size ?e"
    by (auto simp: settings_applied_keeps)
  obtain st where acc: "accept_frame order (s\<lparr>sd_req_rx := fs\<rparr>) f =
      (s\<lparr>sd_req_rx := fs, sd_settings := st, sd_encoder := e, sd_state := WriteFrame\<rparr>, Ok ())"
    using accept_frame_Ok [of order "s\<lparr>sd_req_rx := fs\<rparr>" f e] e(1) by auto
  have q: "queue_sendable e (fs @ gs)"
    using s(5) queue_sendable_cong [of e ?e "fs @ gs"] e(6,7) by (simp add: settings_applied_keeps)
  have "encoder_queue order (sd_encoder s) (f # fs @ gs) = frame_owed e @ encoder_queue order e (fs @ gs)"
    using e(3-6) tab by (simp add: encoder_queue_def)
  then show ?thesis using acc e(2) q s by (simp add: send_ok_def send_owed_def buffered_def assms(3))
qed

text \<open>
  One \<open>poll\<close>: it returns, and returns not ready when the connection was not or when all frames are
  written, and an error when the connection failed or when the channel is closed and all frames are written.
\<close>

definition all_written :: "SendData \<Rightarrow> bool" where
  "all_written s \<longleftrightarrow> sd_state s = RecvFrame \<and> sd_req_rx s = []"

lemma all_written_owed: "send_ok gs s \<Longrightarrow> all_written s \<Longrightarrow> send_owed order gs s = encoder_queue order (sd_encoder s) gs"
  by (simp add: all_written_def send_ok_def send_owed_def buffered_def)

lemma SendData_poll_writes:
  assumes "writer_ok poll_write taken"
  shows "send_ok gs s \<Longrightarrow>
    \<exists>w' s' r. SendData_poll poll_write order w s = Some (w', s', r) \<and> send_progress taken order gs w s (w', s', r) \<and>
      sd_closed s' = sd_closed s \<and>
      (all_written s' \<and> r = (if sd_closed s then Ready (Err ChannelClosed) else Pending) \<or> interrupted poll_write r)"
proof (induction "2 * length (sd_req_rx s) + (if sd_state s = WriteFrame then 1 else 0)" arbitrary: s w rule: less_induct)
  case less
  note loop = SendData_poll.simps [of poll_write order w s]
  consider (writing) "sd_state s = WriteFrame" | (empty) "sd_state s = RecvFrame" "sd_req_rx s = []"
    | (recv) f fs where "sd_state s = RecvFrame" "sd_req_rx s = f # fs"
    by (metis InputState.exhaust list.exhaust)
  then show ?case
  proof cases
    case writing
    from poll_writer_frame_writes [OF assms less.prems writing, of w order] obtain w' s' r where
      p: "poll_writer_frame poll_write w s = Some (w', s', r)" "send_progress taken order gs w s (w', s', r)"
      "sd_state s' = WriteFrame" "sd_req_rx s' = sd_req_rx s" "sd_closed s' = sd_closed s"
      "r = Ready (Ok ()) \<and> frame_owed (sd_encoder s') = [] \<and> wb_empty (sd_buf s') \<or> interrupted poll_write r" by blast
    show ?thesis
    proof (cases "r = Ready (Ok ())")
      case True
      let ?s = "s'\<lparr>sd_state := RecvFrame\<rparr>"
      have e: "send_ok gs s'" "taken w' @ send_owed order gs s' = taken w @ send_owed order gs s"
        "frame_owed (sd_encoder s') = []" "wb_empty (sd_buf s')"
        using p(2,6) True by (auto simp: send_progress_def interrupted_def)
      have "send_ok gs ?s" "send_owed order gs ?s = send_owed order gs s'" using e by (auto simp: send_ok_def send_owed_def)
      moreover have "2 * length (sd_req_rx ?s) + (if sd_state ?s = WriteFrame then 1 else 0)
          < 2 * length (sd_req_rx s) + (if sd_state s = WriteFrame then 1 else 0)" using p(4) writing by simp
      ultimately obtain w2 s2 r2 where i: "SendData_poll poll_write order w' ?s = Some (w2, s2, r2)"
        "send_progress taken order gs w' ?s (w2, s2, r2)" "sd_closed s2 = sd_closed s'"
        "all_written s2 \<and> r2 = (if sd_closed s' then Ready (Err ChannelClosed) else Pending) \<or> interrupted poll_write r2"
        using less.hyps [of ?s w'] by auto
      have "send_progress taken order gs w s (w2, s2, r2)"
        using i(2) e(2) \<open>send_owed order gs ?s = send_owed order gs s'\<close> by (simp add: send_progress_def)
      moreover have "SendData_poll poll_write order w s = Some (w2, s2, r2)" using loop writing p(1) True i(1) by simp
      ultimately show ?thesis using i(3,4) p(5) by auto
    next
      case False
      then have int: "interrupted poll_write r" using p(6) by simp
      then have "SendData_poll poll_write order w s = Some (w', s', r)"
        using loop writing p(1) by (auto simp: interrupted_def)
      then show ?thesis using p(2,5) int by auto
    qed
  next
    case empty
    then have "SendData_poll poll_write order w s = Some (w, s, if sd_closed s then Ready (Err ChannelClosed) else Pending)"
      using loop by (simp add: SendData_poll_recv_frame_def)
    then show ?thesis using empty less.prems by (auto simp: send_progress_def all_written_def)
  next
    case recv
    from accept_frame_owed [OF less.prems recv, of order] obtain s' where
      a: "accept_frame order (s\<lparr>sd_req_rx := fs\<rparr>) f = (s', Ok ())" "send_ok gs s'" "sd_state s' = WriteFrame"
      "sd_req_rx s' = fs" "sd_closed s' = sd_closed s" "send_owed order gs s' = send_owed order gs s" by blast
    have eq: "SendData_poll poll_write order w s = SendData_poll poll_write order w s'"
      using loop recv a(1) by (simp add: SendData_poll_recv_frame_def)
    have same: "send_progress taken order gs w s p \<longleftrightarrow> send_progress taken order gs w s' p" for p using a(6) by (simp add: send_progress_def)
    have "2 * length (sd_req_rx s') + (if sd_state s' = WriteFrame then 1 else 0)
        < 2 * length (sd_req_rx s) + (if sd_state s = WriteFrame then 1 else 0)" using a(3,4) recv by simp
    from less.hyps [OF this a(2), of w] show ?thesis unfolding eq same a(5) .
  qed
qed

section \<open>The life of the task\<close>

text \<open>Before each \<open>poll\<close> the dispatcher queues some frames; the task is polled again as long as it is not ready.\<close>

fun send_polls :: "'w writer \<Rightarrow> map_order \<Rightarrow> 'w \<Rightarrow> SendData \<Rightarrow> Frame list list \<Rightarrow> ('w \<times> SendData \<times> task_poll) option" where
  "send_polls poll_write order w s [] = Some (w, s, Pending)"
| "send_polls poll_write order w s (fs # rounds) =
     Option.bind (SendData_poll poll_write order w (s\<lparr>sd_req_rx := sd_req_rx s @ fs\<rparr>)) (\<lambda>(w, s, r).
       case r of
         Pending \<Rightarrow> send_polls poll_write order w s rounds
       | _ \<Rightarrow> Some (w, s, r))"

lemma queue_later:
  "send_ok gs (s\<lparr>sd_req_rx := sd_req_rx s @ fs\<rparr>) \<longleftrightarrow> send_ok (fs @ gs) s"
  "send_owed order gs (s\<lparr>sd_req_rx := sd_req_rx s @ fs\<rparr>) = send_owed order (fs @ gs) s"
  by (simp_all add: send_ok_def send_owed_def)

lemma send_polls_writes:
  assumes "writer_ok poll_write taken"
  shows "send_ok (concat rounds) s \<Longrightarrow> \<not> sd_closed s \<Longrightarrow>
    \<exists>w' s' r. send_polls poll_write order w s rounds = Some (w', s', r) \<and>
      (r = Pending \<and> send_ok [] s' \<and> taken w' @ send_owed order [] s' = taken w @ send_owed order (concat rounds) s \<and>
         (rounds = [] \<or> all_written s' \<or> interrupted poll_write r) \<or>
       (\<exists>x rest. r = Ready (Err (Dispatch_Io x)) \<and> interrupted poll_write r \<and>
         taken w' @ rest = taken w @ send_owed order (concat rounds) s))"
proof (induction rounds arbitrary: w s)
  case (Cons fs rounds)
  let ?s = "s\<lparr>sd_req_rx := sd_req_rx s @ fs\<rparr>"
  have s: "send_ok (concat rounds) ?s" using Cons.prems(1) by (simp add: queue_later)
  have owed: "send_owed order (concat (fs # rounds)) s = send_owed order (concat rounds) ?s" by (simp add: queue_later)
  from SendData_poll_writes [OF assms s, of order w] Cons.prems(2) obtain w1 s1 r1 where
    p: "SendData_poll poll_write order w ?s = Some (w1, s1, r1)" "send_progress taken order (concat rounds) w ?s (w1, s1, r1)"
    "\<not> sd_closed s1" "all_written s1 \<and> r1 = Pending \<or> interrupted poll_write r1" by auto
  consider (pending) "r1 = Pending" | (err) x where "r1 = Ready (Err (Dispatch_Io x))"
    using p(4) by (auto simp: interrupted_def)
  then show ?case
  proof cases
    case pending
    then have s1: "send_ok (concat rounds) s1"
      "taken w1 @ send_owed order (concat rounds) s1 = taken w @ send_owed order (concat rounds) ?s"
      using p(2) by (auto simp: send_progress_def)
    have step: "send_polls poll_write order w s (fs # rounds) = send_polls poll_write order w1 s1 rounds" using p(1) pending by simp
    show ?thesis
    proof (cases "rounds = []")
      case True
      then show ?thesis unfolding step using s1 p(4) pending owed by simp
    next
      case False
      then show ?thesis unfolding step owed using Cons.IH [OF s1(1) p(3), of w1] unfolding s1(2) by simp
    qed
  next
    case err
    then show ?thesis unfolding owed using p by (auto simp: send_progress_def)
  qed
qed simp

lemma fresh_task_ok:
  assumes "queue_sendable (FrameEncoder_new m hf) gs"
  shows "send_ok gs (SendData_new (FrameEncoder_new m hf) settings [])"
    "send_owed order gs (SendData_new (FrameEncoder_new m hf) settings []) = encoder_queue order (FrameEncoder_new m hf) gs"
proof -
  have "HpackEncoder_is_finished (fe_hpack_encoder (FrameEncoder_new m hf))" "fe_state (FrameEncoder_new m hf) = FrameEncoderState.Idle"
    by (simp_all add: FrameEncoder_new_def HpackEncoder_new_def HpackEncoder_is_finished_def)
  then have "frame_ok (FrameEncoder_new m hf)" "frame_owed (FrameEncoder_new m hf) = []"
    by (simp_all add: frame_ok_def frame_owed_def Let_def)
  then show "send_ok gs (SendData_new (FrameEncoder_new m hf) settings [])"
    "send_owed order gs (SendData_new (FrameEncoder_new m hf) settings []) = encoder_queue order (FrameEncoder_new m hf) gs"
    using assms by (simp_all add: send_ok_def send_owed_def buffered_def SendData_new_def WriteBuf_new_def)
qed

text \<open>
  C4. The task that writes the frames of a connection is polled any number of times, and frames are queued
  between the polls. Every poll returns, and neither panics nor fails with an internal error. The connection
  has then taken a front piece of the bytes of the frames, in the order in which they were queued, however small the pieces are
  that it takes; when the task waits for a frame it has taken all of them. A connection that always takes
  something makes the task write everything in each poll. The frames must satisfy \<open>queue_sendable\<close> (no DATA longer
  than the largest frame, HEADERS with END_HEADERS when the payload buffer fits the largest frame, no PUSH_PROMISE),
  and the connection must never report that it has taken zero bytes, on which the task would loop for ever.
\<close>

theorem send_data_written:
  assumes "writer_ok poll_write taken" "queue_sendable (FrameEncoder_new m hf) (concat rounds)"
  shows "\<exists>w' s' r rest. send_polls poll_write order w (SendData_new (FrameEncoder_new m hf) settings []) rounds = Some (w', s', r) \<and>
    taken w' @ rest = taken w @ encoder_queue order (FrameEncoder_new m hf) (concat rounds) \<and>
    (r = Pending \<or> (\<exists>x. r = Ready (Err (Dispatch_Io x)))) \<and>
    (r = Pending \<and> all_written s' \<longrightarrow> rest = []) \<and>
    (rounds \<noteq> [] \<and> (\<forall>w bs. \<exists>w' n. poll_write w bs = (w', Ready (Ok n))) \<longrightarrow> r = Pending \<and> all_written s')"
proof -
  let ?e = "FrameEncoder_new m hf"
  let ?s = "SendData_new ?e settings []" and ?out = "taken w @ encoder_queue order ?e (concat rounds)"
  note fresh = fresh_task_ok [OF assms(2)]
  have closed: "\<not> sd_closed ?s" by (simp add: SendData_new_def)
  obtain w' s' r where p: "send_polls poll_write order w ?s rounds = Some (w', s', r)"
    and r: "r = Pending \<and> send_ok [] s' \<and> taken w' @ send_owed order [] s' = ?out \<and>
         (rounds = [] \<or> all_written s' \<or> interrupted poll_write r) \<or>
       (\<exists>x rest. r = Ready (Err (Dispatch_Io x)) \<and> interrupted poll_write r \<and> taken w' @ rest = ?out)"
    using send_polls_writes [OF assms(1) fresh(1) closed, of order w] unfolding fresh(2) by blast
  have ready: "\<not> interrupted poll_write r" if "\<forall>w bs. \<exists>w' n. poll_write w bs = (w', Ready (Ok n))"
    using that unfolding interrupted_def by (metis Pair_inject poll.distinct(1) poll.inject rust_result.distinct(1))
  have nil: "send_ok [] s' \<Longrightarrow> all_written s' \<Longrightarrow> send_owed order [] s' = []"
    using all_written_owed [of "[]" s' order] by (simp add: encoder_queue_def)
  from r show ?thesis
  proof
    assume "r = Pending \<and> send_ok [] s' \<and> taken w' @ send_owed order [] s' = ?out \<and>
         (rounds = [] \<or> all_written s' \<or> interrupted poll_write r)"
    then show ?thesis using p nil ready by blast
  next
    assume "\<exists>x rest. r = Ready (Err (Dispatch_Io x)) \<and> interrupted poll_write r \<and> taken w' @ rest = ?out"
    then show ?thesis using p ready by blast
  qed
qed

text \<open>A connection that takes one byte at a time and is not ready in between.\<close>

definition slow_writer :: "(bytes \<times> bool) writer" where
  "slow_writer w bs = (if snd w then ((fst w @ take 1 bs, False), Ready (Ok 1)) else ((fst w, True), Pending))"

theorem send_data_written_witness:
  "writer_ok slow_writer fst \<and>
   queue_sendable (FrameEncoder_new 16384 True)
     (concat [[Frame_new 1 (FrameFlags 4) (Payload_Headers Parts_new)], [], [Frame_new 1 (FrameFlags 1) (Payload_Data [1, 2, 3]), Settings_ack]]) \<and>
   (\<exists>w' s' r rest.
      send_polls slow_writer (\<lambda>_. []) ([], True) (SendData_new (FrameEncoder_new 16384 True) Synced [])
        [[Frame_new 1 (FrameFlags 4) (Payload_Headers Parts_new)], [], [Frame_new 1 (FrameFlags 1) (Payload_Data [1, 2, 3]), Settings_ack]] = Some (w', s', r) \<and>
      fst w' @ rest =
        [] @ encoder_queue (\<lambda>_. []) (FrameEncoder_new 16384 True)
          [Frame_new 1 (FrameFlags 4) (Payload_Headers Parts_new), Frame_new 1 (FrameFlags 1) (Payload_Data [1, 2, 3]), Settings_ack])"
proof -
  have w: "writer_ok slow_writer fst" by (auto simp: writer_ok_def slow_writer_def took_def Suc_le_eq)
  have q: "queue_sendable (FrameEncoder_new 16384 True)
     (concat [[Frame_new 1 (FrameFlags 4) (Payload_Headers Parts_new)], [], [Frame_new 1 (FrameFlags 1) (Payload_Data [1, 2, 3]), Settings_ack]])"
    by (simp add: sendable_def settings_applied_def outgoing_def Frame_new_def Settings_ack_def FrameEncoder_new_def
        FrameFlags_is_end_headers_def END_HEADERS_MASK_def FrameFlags_is_ack_def ACK_MASK_def FrameEncoder_DEFAULT_MAX_FRAME_SIZE_def)
  show ?thesis using w q send_data_written [OF w q, of "\<lambda>_. []" "([], True)" Synced] by auto
qed

end
