(* ===== verification/H2_Frame_Roundtrip.thy ===== *)
theory H2_Frame_Roundtrip
  imports H2_Send_Props
begin

text \<open>
  The frame encoder against the frame decoder: what the writing task puts on the connection is decoded to
  the frames it was given.
\<close>

section \<open>Payloads\<close>

definition setting_valid :: "Setting \<Rightarrow> bool" where
  "setting_valid s =
     (case s of
        InitialWindowSize v \<Rightarrow> unat v \<le> MAX_INITIAL_WINDOW_SIZE
      | MaxFrameSize v \<Rightarrow> DEFAULT_MAX_FRAME_SIZE \<le> v \<and> v \<le> MAX_ALLOWED_MAX_FRAME_SIZE
      | _ \<Rightarrow> True)"

lemma split_token_be:
  "split_token_to_setting (x # y # be_u32 v) = get_setting (push_bit 8 (ucast x) OR ucast y) v"
  using get_code_value_be [of v] by (simp add: split_token_to_setting_def be_u32_def)

lemma settings_chunks_be:
  "decode_settings_chunks (x # y # be_u32 v @ rest) acc =
     (case split_token_to_setting (x # y # be_u32 v) of
        Ok (Some setting) \<Rightarrow> decode_settings_chunks rest (acc @ [setting])
      | Ok None \<Rightarrow> decode_settings_chunks rest acc
      | Err err \<Rightarrow> Err err
      | Panic \<Rightarrow> Panic)"
  by (simp add: be_u32_def)

lemma setting_decoded:
  assumes "setting_valid s"
  shows "decode_settings_chunks (setting_bytes s @ rest) acc = decode_settings_chunks rest (acc @ [s])"
  using assms
  by (cases s) (simp_all add: setting_bytes_def settings_chunks_be split_token_be get_setting_def setting_valid_def)

lemma settings_decoded:
  "list_all setting_valid ss \<Longrightarrow> decode_settings_chunks (settings_bytes ss) acc = Ok (acc @ ss)"
  by (induction ss arbitrary: acc) (simp_all add: settings_bytes_def setting_decoded)

lemma window_update_be:
  assumes "unat w < 2 ^ 31"
  shows "push_bit 24 (ucast (0x7f AND be_u32 w ! 0)) OR push_bit 16 (ucast (be_u32 w ! 1))
    OR push_bit 8 (ucast (be_u32 w ! 2)) OR ucast (be_u32 w ! 3) = w"
  using get_stream_id_be_id [OF assms] by (simp add: get_stream_id_def and.commute)

lemma bit_0x80: "bit (0x80 :: u8) n \<longleftrightarrow> n = 7"
  using bit_exp_iff [of 7 n, where ?'a = u8] by auto

lemma bit_128_127: "bit (128 :: int) n \<longleftrightarrow> n = 7" "bit (127 :: int) n \<longleftrightarrow> n < 7"
  using bit_exp_iff [of 7 n, where ?'a = int] bit_mask_iff [of 7 n, where ?'a = int]
  by (auto simp: mask_eq_exp_minus_1)

lemma high_bit_low: "take_bit 7 ((if b then 0x80 else 0) OR x :: u8) = take_bit 7 x"
  by (rule bit_word_eqI) (auto simp: bit_128_127 bit_take_bit_iff bit_or_iff)

lemma and_0x80_iff: "x AND 0x80 = (0x80 :: u8) \<longleftrightarrow> bit x 7"
proof
  assume "x AND 0x80 = (0x80 :: u8)"
  then have "bit (x AND 0x80) 7" by (simp only: bit_0x80)
  then show "bit x 7" by (simp only: bit_and_iff)
next
  assume "bit x 7"
  then show "x AND 0x80 = (0x80 :: u8)" by (intro bit_word_eqI) (auto simp: bit_128_127 bit_and_iff)
qed

lemma priority_exclusive:
  "((if b then 0x80 else 0) OR (ucast (w AND 0x7F :: u32) :: u8)) AND 0x80 = 0x80 \<longleftrightarrow> b"
proof -
  have "bit (w AND 0x7F :: u32) 7 = False" by (simp add: bit_simps)
  then have "\<not> bit (ucast (w AND 0x7F) :: u8) 7" by (simp add: bit_simps)
  then show ?thesis by (simp only: and_0x80_iff bit_or_iff) (simp add: bit_0x80)
qed

lemma priority_decoded:
  assumes "unat (prio_stream_dependency p) < 2 ^ 31"
  shows "\<lparr>prio_exclusive = (priority_bytes p ! 0 AND 0x80 = 0x80),
     prio_stream_dependency = get_stream_id (take 4 (priority_bytes p)), prio_weight = priority_bytes p ! 4\<rparr> = p"
proof -
  let ?w = "prio_stream_dependency p"
  have "take_bit 7 (ucast (drop_bit 24 ?w AND 0x7F) :: u8) = take_bit 7 (ucast (drop_bit 24 ?w))"
    by (rule bit_word_eqI) (auto simp: bit_simps bit_128_127)
  then have "get_stream_id (take 4 (priority_bytes p)) = get_stream_id (be_u32 ?w)"
    by (simp add: get_stream_id_def priority_bytes_def be_u32_def and_7f_take_bit high_bit_low)
  moreover have "priority_bytes p ! 0 AND 0x80 = 0x80 \<longleftrightarrow> prio_exclusive p"
    unfolding priority_bytes_def nth_Cons_0 by (rule priority_exclusive)
  moreover have "priority_bytes p ! 4 = prio_weight p" by (simp add: priority_bytes_def)
  ultimately show ?thesis using get_stream_id_be_id [OF assms] by (simp only:) simp
qed

section \<open>One frame\<close>

text \<open>The limits of the peer and the state of both HPACK sides between two frames.\<close>

definition peer_ok :: "FrameDecoder \<Rightarrow> DynamicTable \<Rightarrow> nat \<Rightarrow> bool" where
  "peer_ok d t n \<longleftrightarrow>
     at_boundary d \<and> unat (fd_max_frame_size d) < 2 ^ 24 \<and> 0 < n \<and> n \<le> unat (fd_max_frame_size d) \<and>
     hpd_holder (fd_hpack d) = None \<and> hpd_lines (fd_hpack d) = \<lparr>hl_parts = Parts_new, hl_header_size = 0\<rparr> \<and>
     hpd_table (fd_hpack d) = t \<and> DynamicTable_wf t \<and> dt_max_size t < 2 ^ 63"

text \<open>
  The frames that HTTP/2 allows: stream 0 for the frames of the connection and only for them, fields with
  values that the peer accepts, and payloads within its limits. The flags of HEADERS are
  END_HEADERS and maybe END_STREAM, and DATA is not marked as padded, as the encoder does not write padding.
\<close>

definition acceptable :: "nat \<Rightarrow> nat \<Rightarrow> map_order \<Rightarrow> bool \<Rightarrow> DynamicTable \<Rightarrow> Frame \<Rightarrow> bool" where
  "acceptable max_size list_size order hf t f \<longleftrightarrow>
     unat (frame_id f) < 2 ^ 31 \<and>
     (case frame_payload f of
        Payload_Headers parts \<Rightarrow> frame_id f \<noteq> 0 \<and> (frame_flags f = FrameFlags 4 \<or> frame_flags f = FrameFlags 5) \<and>
          traverses order (headers_map (parts_map parts)) \<and> list_all plain_value (order (headers_map (parts_map parts))) \<and>
          block_ok hf t (parts_fields order parts) \<and> queue_size (parts_fields order parts) \<le> list_size
      | Payload_Data bs \<Rightarrow> frame_id f \<noteq> 0 \<and> \<not> FrameFlags_is_padded (frame_flags f) \<and> length bs \<le> max_size
      | Payload_Priority p \<Rightarrow> frame_id f \<noteq> 0 \<and> unat (prio_stream_dependency p) < 2 ^ 31 \<and> 5 \<le> max_size
      | Payload_RstStream _ \<Rightarrow> frame_id f \<noteq> 0 \<and> 4 \<le> max_size
      | Payload_Settings ss \<Rightarrow> frame_id f = 0 \<and> (FrameFlags_is_ack (frame_flags f) \<longrightarrow> ss = []) \<and> list_all setting_valid ss \<and>
          6 * length ss \<le> max_size
      | Payload_Ping bs \<Rightarrow> frame_id f = 0 \<and> length bs = 8 \<and> 8 \<le> max_size
      | Payload_Goaway g \<Rightarrow> frame_id f = 0 \<and> unat (goaway_last_stream_id g) < 2 ^ 31 \<and>
          8 + length (goaway_debug_data g) \<le> max_size
      | Payload_WindowUpdate w \<Rightarrow> w \<noteq> 0 \<and> unat w < 2 ^ 31 \<and> 4 \<le> max_size
      | Payload_PushPromise _ \<Rightarrow> False)"

lemma simple_frame:
  assumes "at_boundary d" "frame_fits d sid payload"
    and "decode_payload_by_type (with_header d ty fl sid (length payload)) payload = (with_header d ty fl sid (length payload), Ok k)"
  shows "frames_spec d (frame_bytes ty fl sid payload) frames = (d\<lparr>fd_header := FrameHeader_new\<rparr>, [], Ok (frames @ [k]))"
proof -
  have d: "fd_stage d = Stage_Header" "co_is_end_headers (fd_continuations d)"
    using assms(1) by (simp_all add: at_boundary_def Continuations_new_def)
  have "(with_header d ty fl sid (length payload))\<lparr>fd_header := FrameHeader_new, fd_stage := Stage_Header\<rparr> = d\<lparr>fd_header := FrameHeader_new\<rparr>"
    using d(1) by (simp add: with_header_def)
  then show ?thesis
    using frames_spec_frame [OF d(1) assms(2), of ty fl "[]" frames] d assms(3) frames_spec_Nil [of "d\<lparr>fd_header := FrameHeader_new\<rparr>"]
    by simp
qed

lemma frame_eta: "Frame_new (frame_id f) (FrameFlags (FrameFlags_bits (frame_flags f))) (frame_payload f) = f"
  by (cases f; cases "frame_flags f") (simp add: Frame_new_def)

lemma simple_decoded:
  assumes "at_boundary d" "unat (fd_max_frame_size d) < 2 ^ 24" "acceptable (unat (fd_max_frame_size d)) (hpd_header_list_size (fd_hpack d)) order hf t f"
    and "\<And>parts. frame_payload f \<noteq> Payload_Headers parts"
  shows "frames_spec d (frame_wire f) frames = (d\<lparr>fd_header := FrameHeader_new\<rparr>, [], Ok (frames @ [Complete f]))"
proof -
  note eta = frame_eta [of f]
  have o: "fd_offset d = 0" using assms(1) by (simp add: at_boundary_def)
  have simple: "frames_spec d (frame_wire f) frames = (d\<lparr>fd_header := FrameHeader_new\<rparr>, [], Ok (frames @ [Complete f]))"
    if "frame_wire f = frame_bytes ty fl sid payload" "unat sid < 2 ^ 31" "length payload \<le> unat (fd_max_frame_size d)"
      "decode_payload_by_type (with_header d ty fl sid (length payload)) payload = (with_header d ty fl sid (length payload), Ok (Complete f))"
    for ty fl sid payload
    unfolding that(1) by (rule simple_frame [OF assms(1) _ that(4)]) (use that assms(2) in \<open>simp add: frame_fits_def\<close>)
  let ?fl = "FrameFlags_bits (frame_flags f)"
  note defs = frame_wire_def decode_payload_by_type_def is_connection_frame_def FrameDecoder_assemble_def o FrameDecoder_frame_def Let_def
  note ok = assms(3) [unfolded acceptable_def]
  show ?thesis
  proof (cases "frame_payload f")
    case (Payload_Data bs)
    with ok have p: "\<not> FrameHeader_is_padded (fd_header (with_header d 0 ?fl (frame_id f) (length bs)))"
      by (simp add: FrameHeader_is_padded_def FrameFlags_is_padded_def and.commute)
    show ?thesis by (rule simple [of 0 ?fl "frame_id f" bs])
        (use ok eta p Payload_Data in \<open>auto simp: defs decode_data_payload_def slice_range_def\<close>)
  next
    case (Payload_Priority p)
    have "length (priority_bytes p) = 5" by (simp add: priority_bytes_def)
    then show ?thesis using priority_decoded [of p] by (intro simple [of 2 ?fl "frame_id f" "priority_bytes p"])
        (use ok eta Payload_Priority in \<open>simp_all only: defs decode_priority_payload_def with_header_simps\<close>, simp_all)
  next
    case (Payload_RstStream c)
    show ?thesis by (rule simple [of 3 ?fl "frame_id f" "be_u32 c"])
        (use ok eta Payload_RstStream in \<open>simp_all add: defs decode_reset_payload_def\<close>)
  next
    case (Payload_Settings ss)
    with ok have a: "FrameHeader_is_ack (fd_header (with_header d 4 ?fl 0 (length (settings_bytes ss)))) \<Longrightarrow> settings_bytes ss = []"
      by (simp add: FrameHeader_is_ack_def FrameFlags_is_ack_def and.commute settings_bytes_def)
    show ?thesis by (rule simple [of 4 ?fl 0 "settings_bytes ss"])
        (use ok eta a settings_decoded [of ss "[]"] settings_bytes_length [of ss] Payload_Settings in \<open>auto simp add: defs decode_settings_payload_def\<close>)
  next
    case (Payload_Ping bs)
    show ?thesis by (rule simple [of 6 ?fl 0 bs])
        (use ok eta Payload_Ping in \<open>simp_all add: defs decode_ping_payload_def\<close>)
  next
    case (Payload_Goaway g)
    obtain c i b where g: "g = \<lparr>goaway_error_code = c, goaway_last_stream_id = i, goaway_debug_data = b\<rparr>" by (cases g)
    show ?thesis by (rule simple [of 7 ?fl 0 "goaway_bytes g"])
        (use ok eta g get_stream_id_be_id [of i] Payload_Goaway in \<open>simp_all add: defs decode_goaway_payload_def goaway_bytes_def\<close>)
  next
    case (Payload_WindowUpdate w)
    show ?thesis by (rule simple [of 8 ?fl "frame_id f" "be_u32 w"])
        (use ok eta window_update_be [of w] Payload_WindowUpdate in \<open>simp_all add: defs decode_window_update_payload_def\<close>)
  qed (use assms(3,4) in \<open>auto simp: acceptable_def\<close>)
qed

section \<open>Header blocks\<close>

lemma concat_chunks: "0 < n \<Longrightarrow> concat (chunks n bs) = bs"
  by (induction n bs rule: chunks.induct) (subst chunks.simps, simp)

lemma chunks_lengths: "list_all (\<lambda>c. length c \<le> n) (chunks n bs)"
  by (induction n bs rule: chunks.induct) (subst chunks.simps, simp)

lemma chunks_not_Nil: "0 < n \<Longrightarrow> bs \<noteq> [] \<Longrightarrow> chunks n bs \<noteq> []"
  by (subst chunks.simps) simp

lemma block_table_wf:
  assumes "DynamicTable_wf t"
  shows "DynamicTable_wf (block_table hf t fs) \<and> dt_max_size (block_table hf t fs) = dt_max_size t"
  using assms
proof (induction fs arbitrary: t)
  case (Cons f fs)
  obtain h v s t' where f: "f = (h, v)" "ReprEncoder_field hf t h v = (s, t')" by (metis surj_pair)
  show ?case using Cons.IH [of t'] field_table_wf [OF Cons.prems f(2)] f by simp
qed simp

fun completes :: "FrameKind list \<Rightarrow> Frame list" where
  "completes [] = []"
| "completes (Complete f # ks) = f # completes ks"
| "completes (Partial # ks) = completes ks"

lemma completes_append [simp]: "completes (ks @ ls) = completes ks @ completes ls"
  by (induction ks rule: completes.induct) simp_all

lemma completes_partial [simp]: "completes (replicate n Partial) = []"
  by (induction n) simp_all

text \<open>
  The decoder keeps the flags of the first frame of a header block, so END_HEADERS is missing when the block
  took several frames; nothing of the program reads it there.
\<close>

definition received :: "Frame \<Rightarrow> Frame" where
  "received f =
     (case frame_payload f of
        Payload_Headers _ \<Rightarrow> f\<lparr>frame_flags := FrameFlags (FrameFlags_bits (frame_flags f) AND 0xFB)\<rparr>
      | _ \<Rightarrow> f)"

definition decodes_to :: "FrameDecoder \<Rightarrow> bytes \<Rightarrow> Frame list \<Rightarrow> DynamicTable \<Rightarrow> nat \<Rightarrow> bool" where
  "decodes_to d bs fs t n \<longleftrightarrow>
     (\<exists>d' ks. frames_spec d bs [] = (d', [], Ok ks) \<and> map received (completes ks) = map received fs \<and>
        peer_ok d' t n \<and> fd_max_frame_size d' = fd_max_frame_size d \<and>
        hpd_header_list_size (fd_hpack d') = hpd_header_list_size (fd_hpack d))"

lemma headers_decoded:
  assumes "peer_ok d t n" "acceptable (unat (fd_max_frame_size d)) (hpd_header_list_size (fd_hpack d)) order hf t f" "frame_payload f = Payload_Headers parts"
  shows "decodes_to d (frame_output order hf n t f) [f] (table_after order hf t f) n"
proof -
  let ?fs = "parts_fields order parts" and ?block = "block_bytes hf t (parts_fields order parts)" and ?sid = "frame_id f"
  let ?h = "(fd_hpack d)\<lparr>hpd_holder := None, hpd_table := block_table hf t ?fs, hpd_lines := lines_after (hpd_lines (fd_hpack d)) ?fs\<rparr>"
  let ?h' = "?h\<lparr>hpd_lines := \<lparr>hl_parts = Parts_new, hl_header_size = 0\<rparr>\<rparr>"
  let ?d = "d\<lparr>fd_header := FrameHeader_new, fd_hpack := ?h'\<rparr>"
  note peer = assms(1) [unfolded peer_ok_def]
  have ok: "?sid \<noteq> 0" "unat ?sid < 2 ^ 31" "traverses order (headers_map (parts_map parts))"
    "list_all plain_value (order (headers_map (parts_map parts)))" "block_ok hf t ?fs"
    "queue_size ?fs \<le> hpd_header_list_size (fd_hpack d)"
    using assms(2,3) by (simp_all add: acceptable_def)
  have dec: "HpackDecoder_decode (fd_hpack d) ?block = (?h, Ok ())"
    using block_decode [of t hf ?fs "hpd_lines (fd_hpack d)" "hpd_header_list_size (fd_hpack d)"] peer ok by (simp add: HpackDecoder_decode_def)
  have fin: "HpackDecoder_finish ?h = (?h', Ok parts)"
    using lines_after_parts [OF ok(3,4), of "hpd_lines (fd_hpack d)"] peer by (simp add: HpackDecoder_finish_def)
  have table: "table_after order hf t f = block_table hf t ?fs" using assms(3) by (simp add: table_after_def)
  have d': "peer_ok ?d (table_after order hf t f) n"
    using peer block_table_wf [of t hf ?fs] table by (simp add: peer_ok_def at_boundary_def)
  have fits: "frame_fits d ?sid p" if "length p \<le> n" for p
    using that peer ok(2) by (simp add: frame_fits_def)
  obtain fl where fl: "fl = 0 \<or> fl = END_STREAM_MASK" "frame_flags f = FrameFlags (fl OR END_HEADERS_MASK)"
    "(fl OR END_HEADERS_MASK) AND 0xFB = fl" "fl AND 0xFB = fl"
    using assms(2,3) that [of 0] that [of 1] by (auto simp: acceptable_def END_STREAM_MASK_def END_HEADERS_MASK_def)
  have f: "f = Frame_new ?sid (FrameFlags (fl OR END_HEADERS_MASK)) (Payload_Headers parts)"
    using fl(2) assms(3) by (cases f) (simp add: Frame_new_def)
  have bd: "at_boundary d" "fd_continuations d = Continuations_new" "fd_stage d = Stage_Header" "fd_offset d = 0"
    using peer by (simp_all add: at_boundary_def)
  have out: "frame_output order hf n t f = headers_wire n f ?block" using assms(3) by (simp add: frame_output_def)
  show ?thesis
  proof (cases "length ?block \<le> n")
    case True
    have "frames_spec d (frame_output order hf n t f) [] = (?d, [], Ok [Complete f])"
      using headers_frame(2) [OF bd(1) fits [OF True] ok(1) fl(1) dec fin, of "[]" "[]"] True out fl(2) f bd(3) frames_spec_Nil [of ?d]
      by (simp add: headers_wire_def Let_def)
    then show ?thesis using d' by (simp add: decodes_to_def)
  next
    case False
    let ?cs = "chunks n (drop n ?block)"
    have n: "0 < n" using peer by simp
    have cut: "?block = take n ?block @ concat ?cs" using concat_chunks [OF n] by simp
    obtain h1 where h1: "HpackDecoder_decode (fd_hpack d) (take n ?block) = (h1, Ok ())" "HpackDecoder_decode h1 (concat ?cs) = (?h, Ok ())"
      by (rule hpack_prefix [of "fd_hpack d" "take n ?block" "concat ?cs" ?h]) (use dec cut in \<open>simp_all add: concat_chunks [OF n]\<close>)
    let ?d1 = "d\<lparr>fd_header := FrameHeader_new, fd_hpack := h1, fd_continuations := opened fl ?sid\<rparr>"
    have "list_all (frame_fits ?d1 ?sid) ?cs"
      using chunks_lengths [of n "drop n ?block"] fits by (auto simp: list_all_iff frame_fits_def)
    then have "frames_spec ?d1 (continuation_bytes ?sid ?cs) [Partial] =
        (?d1\<lparr>fd_header := FrameHeader_new, fd_hpack := ?h', fd_continuations := Continuations_new\<rparr>, [],
         Ok ([Partial] @ replicate (length ?cs - 1) Partial @ [Complete (Frame_new ?sid (FrameFlags fl) (Payload_Headers parts))]))"
      by (intro continuation_frames) (use chunks_not_Nil [OF n] False bd ok(1) h1(2) fin in simp_all)
    moreover have "frames_spec d (frame_bytes 1 fl ?sid (take n ?block) @ continuation_bytes ?sid ?cs) [] =
        frames_spec ?d1 (continuation_bytes ?sid ?cs) [Partial]"
      using headers_frame(1) [OF bd(1) fits ok(1) fl(1) h1(1), of "continuation_bytes ?sid ?cs" "[]"] by simp
    moreover have "?d1\<lparr>fd_header := FrameHeader_new, fd_hpack := ?h', fd_continuations := Continuations_new\<rparr> = ?d"
      using bd(2) by simp
    ultimately have "frames_spec d (frame_output order hf n t f) [] =
        (?d, [], Ok ([Partial] @ replicate (length ?cs - 1) Partial @ [Complete (Frame_new ?sid (FrameFlags fl) (Payload_Headers parts))]))"
      using False out fl(2,3) by (simp add: headers_wire_def Let_def)
    moreover have "received f = f\<lparr>frame_flags := FrameFlags fl\<rparr>" using fl(2,3) assms(3) by (simp add: received_def)
    then have "received (Frame_new ?sid (FrameFlags fl) (Payload_Headers parts)) = received f"
      using fl(4) assms(3) by (cases f) (simp add: Frame_new_def received_def)
    ultimately show ?thesis using d' by (simp add: decodes_to_def)
  qed
qed

section \<open>A queue of frames\<close>

lemma frame_decoded:
  assumes "peer_ok d t n" "acceptable (unat (fd_max_frame_size d)) (hpd_header_list_size (fd_hpack d)) order hf t f"
  shows "decodes_to d (frame_output order hf n t f) [f] (table_after order hf t f) n"
proof (cases "\<exists>parts. frame_payload f = Payload_Headers parts")
  case True
  then show ?thesis using headers_decoded [OF assms] by blast
next
  case False
  then have "frame_output order hf n t f = frame_wire f" "table_after order hf t f = t"
    by (auto simp: frame_output_def table_after_def split: Payload.split)
  then show ?thesis using simple_decoded [of d order hf t f "[]"] assms False
    by (auto simp: decodes_to_def peer_ok_def at_boundary_def)
qed

fun queue_acceptable :: "nat \<Rightarrow> nat \<Rightarrow> map_order \<Rightarrow> bool \<Rightarrow> DynamicTable \<Rightarrow> Frame list \<Rightarrow> bool" where
  "queue_acceptable max_size list_size order hf t [] = True"
| "queue_acceptable max_size list_size order hf t (f # fs) =
     (acceptable max_size list_size order hf t (outgoing f) \<and>
      queue_acceptable max_size list_size order hf (table_after order hf t (outgoing f)) fs)"

lemma queue_decoded:
  assumes "peer_ok d t n" "queue_acceptable (unat (fd_max_frame_size d)) (hpd_header_list_size (fd_hpack d)) order hf t fs"
  shows "decodes_to d (queue_output order hf n t fs) (map outgoing fs) (queue_table order hf t fs) n"
  using assms
proof (induction fs arbitrary: d t)
  case Nil
  then show ?case by (auto simp: decodes_to_def peer_ok_def at_boundary_def frames_spec_Nil)
next
  case (Cons f fs)
  let ?t = "table_after order hf t (outgoing f)"
  obtain d1 ks where d1: "frames_spec d (frame_output order hf n t (outgoing f)) [] = (d1, [], Ok ks)"
    "map received (completes ks) = [received (outgoing f)]" "peer_ok d1 ?t n" "fd_max_frame_size d1 = fd_max_frame_size d"
    "hpd_header_list_size (fd_hpack d1) = hpd_header_list_size (fd_hpack d)"
    using frame_decoded [of d t n order hf "outgoing f"] Cons.prems by (auto simp: decodes_to_def)
  obtain d2 ls where d2: "frames_spec d1 (queue_output order hf n ?t fs) [] = (d2, [], Ok ls)"
    "map received (completes ls) = map received (map outgoing fs)" "peer_ok d2 (queue_table order hf ?t fs) n"
    "fd_max_frame_size d2 = fd_max_frame_size d1" "hpd_header_list_size (fd_hpack d2) = hpd_header_list_size (fd_hpack d1)"
    using Cons.IH [OF d1(3)] Cons.prems(2) d1(4,5) by (auto simp: decodes_to_def)
  have "frames_spec d (queue_output order hf n t (f # fs)) [] = (d2, [], Ok (ks @ ls))"
    using frames_spec_append [of d "frame_output order hf n t (outgoing f)" "queue_output order hf n ?t fs" "[]"] d1(1)
      frames_spec_prefix [of d1 "queue_output order hf n ?t fs" ks "[]"] d2(1) by simp
  then show ?case using d1 d2 by (simp add: decodes_to_def)
qed

lemma new_peer_ok:
  "peer_ok FrameDecoder_new (DynamicTable_with_max_size FrameEncoder_DEFAULT_HEADER_TABLE_SIZE) FrameEncoder_DEFAULT_MAX_FRAME_SIZE"
  using boundary_new
  by (simp add: peer_ok_def FrameDecoder_new_def HpackDecoder_with_max_size_def DEFAULT_HEADER_TABLE_SIZE_def DEFAULT_MAX_FRAME_SIZE_def
      FrameEncoder_DEFAULT_HEADER_TABLE_SIZE_def FrameEncoder_DEFAULT_MAX_FRAME_SIZE_def DynamicTable_wf_def DynamicTable_with_max_size_def)

text \<open>
  C3. What one side sends the other receives: when the writing task has written the frames that were queued,
  the bytes on the connection are decoded by the frame decoder to these frames, in order, whatever
  pieces the connection took. Header fields are compared after HPACK, over a dynamic table that both sides have changed alike;
  the END_HEADERS flag of HEADERS is not compared, since that of a header block over several frames does not arrive, and
  SETTINGS queued with the ACK flag arrive as the empty acknowledgement. The queue must satisfy \<open>queue_sendable\<close> and
  \<open>queue_acceptable\<close>: HEADERS with END_HEADERS and no field that hits the confusion of the searcher, DATA unpadded and
  within the largest frame, values that the default limits of the decoder permit, and no PUSH_PROMISE.
\<close>

theorem sent_frames_received:
  assumes "writer_ok poll_write taken" "taken w = []"
    and "queue_sendable (FrameEncoder_new m hf) (concat rounds)"
    and "queue_acceptable (unat DEFAULT_MAX_FRAME_SIZE) DEFAULT_MAX_HEADER_LIST_SIZE order hf
           (DynamicTable_with_max_size FrameEncoder_DEFAULT_HEADER_TABLE_SIZE) (concat rounds)"
    and "send_polls poll_write order w (SendData_new (FrameEncoder_new m hf) settings []) rounds = Some (w', s', Pending)"
    and "all_written s'"
  shows "\<exists>d kinds. FrameDecoder_decode FrameDecoder_new (taken w') = (d, Ok kinds) \<and>
    map received (completes kinds) = map received (map outgoing (concat rounds)) \<and>
    hpd_table (fd_hpack d) = queue_table order hf (DynamicTable_with_max_size FrameEncoder_DEFAULT_HEADER_TABLE_SIZE) (concat rounds)"
proof -
  let ?e = "FrameEncoder_new m hf" and ?t = "DynamicTable_with_max_size FrameEncoder_DEFAULT_HEADER_TABLE_SIZE"
  note fresh = fresh_task_ok [OF assms(3)]
  have "\<not> sd_closed (SendData_new ?e settings [])" by (simp add: SendData_new_def)
  from send_polls_writes [OF assms(1) fresh(1) this, of order w] assms(5) fresh(2)
  have "send_ok [] s'" "taken w' @ send_owed order [] s' = encoder_queue order ?e (concat rounds)"
    using assms(2) by auto
  then have "taken w' = encoder_queue order ?e (concat rounds)"
    using all_written_owed [OF _ assms(6), of "[]" order] by (simp add: encoder_queue_def)
  also have "\<dots> = queue_output order hf FrameEncoder_DEFAULT_MAX_FRAME_SIZE ?t (concat rounds)"
    by (simp add: encoder_queue_def FrameEncoder_new_def HpackEncoder_new_def HpackEncoder_final_table_def iter_fields_def)
  finally have bytes: "taken w' = queue_output order hf FrameEncoder_DEFAULT_MAX_FRAME_SIZE ?t (concat rounds)" .
  have "queue_acceptable (unat (fd_max_frame_size FrameDecoder_new)) (hpd_header_list_size (fd_hpack FrameDecoder_new)) order hf ?t (concat rounds)"
    using assms(4) by (simp add: FrameDecoder_new_def HpackDecoder_with_max_size_def)
  from queue_decoded [OF new_peer_ok this] obtain d ks where
    d: "frames_spec FrameDecoder_new (taken w') [] = (d, [], Ok ks)" "map received (completes ks) = map received (map outgoing (concat rounds))"
    "hpd_table (fd_hpack d) = queue_table order hf ?t (concat rounds)"
    unfolding bytes by (auto simp: decodes_to_def peer_ok_def)
  then show ?thesis using decode_of_spec [OF boundary_new d(1)] by auto
qed

text \<open>A connection that takes all it is offered.\<close>

definition fast_writer :: "bytes writer" where
  "fast_writer w bs = (w @ bs, Ready (Ok (length bs)))"

definition sample_rounds :: "Frame list list" where
  "sample_rounds =
     [[Frame_new 0 (FrameFlags 0) (Payload_Settings [EnablePush False, InitialWindowSize 70000]),
       Frame_new 1 (FrameFlags 4) (Payload_Headers sample_parts)],
      [Frame_new 1 (FrameFlags 1) (Payload_Data [104, 105])]]"

lemma sample_block:
  "block_ok False (DynamicTable_with_max_size 4096) (parts_fields sample_order sample_parts)"
  "queue_size (parts_fields sample_order sample_parts) \<le> 16777216"
proof -
  have fs: "parts_fields sample_order sample_parts = [(Header.Method, ''GET''), (Header.Other ''a'', ''1'')]"
    by code_simp
  have "\<not> search_confused (DynamicTable_with_max_size 4096) Header.Method ''GET''"
    "\<not> search_confused (DynamicTable_with_max_size 4096) (Header.Other ''a'') ''1''"
    "snd (ReprEncoder_field False (DynamicTable_with_max_size 4096) Header.Method ''GET'') = DynamicTable_with_max_size 4096"
    "field_ok Header.Method ''GET''" "field_ok (Header.Other ''a'') ''1''"
    by code_simp+
  then show "block_ok False (DynamicTable_with_max_size 4096) (parts_fields sample_order sample_parts)"
    "queue_size (parts_fields sample_order sample_parts) \<le> 16777216"
    by (simp_all add: fs field_fits_def Header_into_string_def entry_size_def Header_len_def)
qed

lemma sample_rounds_ok:
  "queue_sendable (FrameEncoder_new 16384 False) (concat sample_rounds)"
  "queue_acceptable (unat DEFAULT_MAX_FRAME_SIZE) DEFAULT_MAX_HEADER_LIST_SIZE sample_order False
     (DynamicTable_with_max_size FrameEncoder_DEFAULT_HEADER_TABLE_SIZE) (concat sample_rounds)"
proof -
  have "traverses sample_order (headers_map (parts_map sample_parts))"
    by (auto simp: traverses_def sample_order_def sample_parts_def)
  moreover have "list_all plain_value (sample_order (headers_map (parts_map sample_parts)))" by code_simp
  ultimately show "queue_acceptable (unat DEFAULT_MAX_FRAME_SIZE) DEFAULT_MAX_HEADER_LIST_SIZE sample_order False
     (DynamicTable_with_max_size FrameEncoder_DEFAULT_HEADER_TABLE_SIZE) (concat sample_rounds)"
    using sample_block
    by (simp add: sample_rounds_def acceptable_def outgoing_def table_after_def Frame_new_def DEFAULT_MAX_FRAME_SIZE_def setting_valid_def
        DEFAULT_MAX_HEADER_LIST_SIZE_def FrameEncoder_DEFAULT_HEADER_TABLE_SIZE_def FrameFlags_is_ack_def ACK_MASK_def
        FrameFlags_is_padded_def PADDED_MASK_def MAX_INITIAL_WINDOW_SIZE_def)
  show "queue_sendable (FrameEncoder_new 16384 False) (concat sample_rounds)"
    by (simp add: sample_rounds_def sendable_def settings_applied_def outgoing_def Frame_new_def FrameEncoder_new_def
        FrameFlags_is_end_headers_def END_HEADERS_MASK_def FrameFlags_is_ack_def ACK_MASK_def FrameEncoder_DEFAULT_MAX_FRAME_SIZE_def)
qed

theorem sent_frames_received_witness:
  "\<exists>w' s' d kinds.
     send_polls fast_writer sample_order [] (SendData_new (FrameEncoder_new 16384 False) Synced []) sample_rounds = Some (w', s', Pending) \<and>
     FrameDecoder_decode FrameDecoder_new w' = (d, Ok kinds) \<and>
     map received (completes kinds) =
       [Frame_new 0 (FrameFlags 0) (Payload_Settings [EnablePush False, InitialWindowSize 70000]),
        Frame_new 1 (FrameFlags 0) (Payload_Headers sample_parts),
        Frame_new 1 (FrameFlags 1) (Payload_Data [104, 105])]"
proof -
  have w: "writer_ok fast_writer id" by (auto simp: writer_ok_def fast_writer_def took_def)
  have "\<not> interrupted fast_writer r" for r by (auto simp: interrupted_def fast_writer_def)
  moreover have "\<not> sd_closed (SendData_new (FrameEncoder_new 16384 False) Synced [])" by (simp add: SendData_new_def)
  ultimately obtain w' s' where run: "send_polls fast_writer sample_order [] (SendData_new (FrameEncoder_new 16384 False) Synced []) sample_rounds
      = Some (w', s', Pending)" "all_written s'"
    using send_polls_writes [OF w fresh_task_ok(1) [OF sample_rounds_ok(1)], of Synced sample_order "[]"]
    by (auto simp: sample_rounds_def)
  have "map received (map outgoing (concat sample_rounds)) =
       [Frame_new 0 (FrameFlags 0) (Payload_Settings [EnablePush False, InitialWindowSize 70000]),
        Frame_new 1 (FrameFlags 0) (Payload_Headers sample_parts), Frame_new 1 (FrameFlags 1) (Payload_Data [104, 105])]"
    by (simp add: sample_rounds_def outgoing_def received_def Frame_new_def FrameFlags_is_ack_def ACK_MASK_def)
  then show ?thesis using run sent_frames_received [OF w _ sample_rounds_ok run] by auto
qed

end
