(* ===== verification/H2_Frame_Errors.thy ===== *)
theory H2_Frame_Errors
  imports H2_Frame_Props
begin

text \<open>
  What the frame decoder does with frames it refuses: the invariant that survives stream errors and
  the bound on what is buffered, exactly which payloads make it panic, and two places where it
  departs from the protocol, the payload of PUSH_PROMISE and the frame after a stream error.
\<close>

section \<open>One frame at a boundary\<close>

lemma boundary_frame:
  assumes "at_boundary d" "frame_fits d sid payload"
  shows "FrameDecoder_decode d (frame_bytes ty flags sid payload @ rest) =
    (case decode_payload_by_type (with_header d ty flags sid (length payload)) payload of
       (c, Ok frame) \<Rightarrow>
         FrameDecoder_decode_loop ((FrameDecoder_clear (c\<lparr>fd_header := FrameHeader_new\<rparr>))\<lparr>fd_stage := Stage_Header\<rparr>) rest [frame]
     | (c, Err e) \<Rightarrow> (c, Err e)
     | (c, Panic) \<Rightarrow> (c, Panic))"
proof -
  have fits: "unat sid < 2 ^ 31" "length payload < 2 ^ 24"
    "length payload \<le> unat (fd_max_frame_size d)" using assms(2) by (simp_all add: frame_fits_def)
  from assms(1) have d: "fd_stage d = Stage_Header" "fd_offset d = 0" "fd_buffer d = []"
    "co_is_end_headers (fd_continuations d)" "core d = d" "FrameDecoder_wf d"
    using boundary_wf [of d] by (auto simp: at_boundary_def)
  note parse = parse_frame_bytes [OF fits(1,2), of ty flags rest]
  from parse(1) have len: "header_payload_length (frame_bytes ty flags sid payload @ rest) = length payload"
    by (simp add: parse_header_def)
  have "decode_frame_header d (frame_bytes ty flags sid payload @ rest) =
      (d\<lparr>fd_header := \<lparr>fh_stream_id = sid, fh_flags = flags, fh_frame_type = ty,
        fh_payload_length = length payload\<rparr>\<rparr>, Ok (Some (payload @ rest)))"
    using header_step [of d _ "frame_bytes ty flags sid payload @ rest"] d parse len fits(3) by simp
  then have "FrameDecoder_decode d (frame_bytes ty flags sid payload @ rest) =
      FrameDecoder_decode_loop (with_header d ty flags sid (length payload)) (payload @ rest) []"
    using d(1) by (simp add: FrameDecoder_decode_def with_header_def
        FrameDecoder_decode_loop.simps [of d])
  then show ?thesis using d
    by (subst (asm) FrameDecoder_decode_loop.simps)
      (simp add: decode_frame_payload_def split: prod.split rust_result.split)
qed

lemma loop_idle:
  "fd_stage d = Stage_Header \<Longrightarrow> fd_offset d = 0 \<Longrightarrow>
   FrameDecoder_decode_loop d [] frames = (d, Ok frames)"
  by (subst FrameDecoder_decode_loop.simps)
    (simp add: decode_frame_header_def FRAME_HEADER_LENGTH_def FrameDecoder_store_def)

lemma window_update_eq:
  assumes "fd_offset d = 0" "fh_payload_length (fd_header d) = 4"
  shows "decode_window_update_payload d (be_u32 w) =
    (if take_bit 31 w = 0 then (d, Err (StreamError (fh_stream_id (fd_header d)) ProtocolError))
     else (d, Ok (FrameDecoder_frame d (Payload_WindowUpdate (take_bit 31 w)))))"
  using assms get_stream_id_be [of w]
  by (simp add: decode_window_update_payload_def FrameDecoder_assemble_def get_stream_id_def Let_def
      and.commute)

lemma ucast_drop_bit: "ucast (drop_bit k (w :: u32)) = (word_of_nat (unat w div 2 ^ k) :: u8)"
proof -
  have "unat (drop_bit k w) = unat w div 2 ^ k"
     using unsigned_less [of w, where ?'a = nat]
    by (simp only: unsigned_drop_bit_eq) (simp add: drop_bit_eq_div take_bit_nat_eq_self)
  then show ?thesis by (metis of_nat_unat)
qed

lemma be_u32_div:
  "be_u32 w = [word_of_nat (unat w div 16777216), word_of_nat (unat w div 65536),
     word_of_nat (unat w div 256), word_of_nat (unat w)]"
  using ucast_drop_bit [of 24 w] ucast_drop_bit [of 16 w] ucast_drop_bit [of 8 w] ucast_drop_bit [of 0 w]
  by (simp add: be_u32_def)


lemma window_update_refused:
  assumes "at_boundary d" "frame_fits d sid (be_u32 w)" "take_bit 31 w = 0"
  shows "FrameDecoder_decode d (frame_bytes 8 flags sid (be_u32 w) @ rest) =
    (with_header d 8 flags sid 4, Err (StreamError sid ProtocolError))"
proof -
  have "fd_offset d = 0" using assms(1) by (simp add: at_boundary_def)
  with boundary_frame [OF assms(1,2), of 8 flags rest] window_update_eq [of "with_header d 8 flags sid 4" w] assms(3)
  show ?thesis by (simp add: decode_payload_by_type_def Let_def)
qed

section \<open>The invariant of every call\<close>

text \<open>\<open>held n p\<close>: the decoder that \<open>p\<close> leaves has buffered at most \<open>n\<close> bytes.\<close>

definition held :: "nat \<Rightarrow> FrameDecoder \<times> 'r \<Rightarrow> bool" where
  "held n p \<longleftrightarrow> length (fd_buffer (fst p)) \<le> n"

lemma held_Pair [simp]: "held n (d, r) \<longleftrightarrow> length (fd_buffer d) \<le> n"
  by (simp add: held_def)

lemma held_assemble:
  assumes "length (fd_buffer d) + length buf \<le> n"
    and "\<And>d b. length (fd_buffer d) \<le> n \<Longrightarrow> held n (f d b)"
  shows "held n (case FrameDecoder_assemble d buf of (d', b) \<Rightarrow> f d' b)"
  using assms by (simp add: FrameDecoder_assemble_def)

lemma held_framing:
  assumes "length (fd_buffer d) \<le> n"
  shows "held n (headers_framing d f)" "held n (continuation_framing d f)" "held n (promise_framing d f)"
proof -
  obtain h r where 1: "HpackDecoder_decode (fd_hpack d) f = (h, r)" by fastforce
  obtain h' r' where 2: "HpackDecoder_finish h = (h', r')" by fastforce
  show "held n (headers_framing d f)" "held n (continuation_framing d f)"
    using 1 2 assms by (cases r; cases r'; simp add: held_def headers_framing_def
        continuation_framing_def hpack_layer Let_def)+
  show "held n (promise_framing d f)"
    using 1 2 assms by (cases r; cases r') (simp_all add: held_def promise_framing_def
        push_promise_framing_def hpack_layer Let_def split: option.split)
qed

lemma held_if: "held n p \<Longrightarrow> held n q \<Longrightarrow> held n (if b then p else q)"
  by simp

lemma held_payload:
  assumes le: "length (fd_buffer d) + length buf \<le> n"
  shows "held n (decode_payload_by_type d buf)"
proof -
  from le have d: "length (fd_buffer d) \<le> n" by simp
  have "held n (decode_headers_payload d buf)"
    unfolding decode_headers_payload_def
    by (intro held_if held_assemble [OF le])
      (auto simp: held_framing Let_def d split: rust_result.split option.split)
  moreover have "held n (decode_push_promise_payload d buf)"
    unfolding decode_push_promise_payload_def
    by (intro held_if held_assemble [OF le]) (auto simp: held_framing d split: rust_result.split)
  moreover have "held n (decode_continuation_payload d buf)"
    unfolding decode_continuation_payload_def
    by (intro held_if held_assemble [OF le]) (simp_all add: held_framing d)
  moreover have "held n (decode_data_payload d buf)"
    unfolding decode_data_payload_def
    by (intro held_if held_assemble [OF le]) (auto simp: Let_def d split: list.split option.split)
  moreover have "held n (decode_settings_payload d buf)"
    unfolding decode_settings_payload_def
    by (intro held_if held_assemble [OF le]) (auto simp: d split: rust_result.split)
  moreover have "held n (decode_priority_payload d buf)" "held n (decode_ping_payload d buf)"
    "held n (decode_goaway_payload d buf)" "held n (decode_reset_payload d buf)"
    unfolding decode_priority_payload_def decode_ping_payload_def decode_goaway_payload_def
      decode_reset_payload_def
    by (intro held_if held_assemble [OF le]; simp add: d)+
  moreover have "held n (decode_window_update_payload d buf)"
    unfolding decode_window_update_payload_def Let_def
    by (intro held_if held_assemble [OF le]) (simp_all add: d)
  ultimately show ?thesis by (simp add: decode_payload_by_type_def Let_def d)
qed

text \<open>
  A weaker invariant than \<open>FrameDecoder_wf\<close>: after a refused payload the whole of it may still be
  buffered.
\<close>

definition FrameDecoder_ok :: "FrameDecoder \<Rightarrow> bool" where
  "FrameDecoder_ok d \<longleftrightarrow>
     fd_offset d = length (fd_buffer d) \<and>
     (case fd_stage d of
        Stage_Header \<Rightarrow> fd_offset d < 9
      | Stage_Payload \<Rightarrow>
          fd_offset d \<le> fh_payload_length (fd_header d) \<and>
          fh_payload_length (fd_header d) \<le> unat (fd_max_frame_size d))"

definition connection_error :: "('a, H2Error) rust_result \<Rightarrow> bool" where
  "connection_error r \<longleftrightarrow> (\<exists>c. r = Err (ConnectionError c))"

lemma connection_error_simps [simp]:
  "connection_error (Err (ConnectionError c))" "\<not> connection_error (Ok a)"
  "\<not> connection_error (Err (StreamError i c))" "\<not> connection_error Panic"
  by (simp_all add: connection_error_def)

definition call_ok :: "FrameDecoder \<times> ('a, H2Error) rust_result \<Rightarrow> bool" where
  "call_ok p \<longleftrightarrow> (connection_error (snd p) \<or> FrameDecoder_ok (fst p)) \<and>
     length (fd_buffer (fst p)) \<le> max 9 (unat (fd_max_frame_size (fst p)))"

lemma ok_bounded:
  "FrameDecoder_ok d \<Longrightarrow> length (fd_buffer d) \<le> max 9 (unat (fd_max_frame_size d))"
  by (auto simp: FrameDecoder_ok_def split: Stage.splits)

lemma call_okI [simp]: "FrameDecoder_ok d \<Longrightarrow> call_ok (d, r)"
  by (simp add: call_ok_def ok_bounded)

lemma ok_header:
  assumes "FrameDecoder_ok d" "fd_stage d = Stage_Header" "decode_frame_header d buf = (d', r)"
  shows "case r of Ok (Some rest) \<Rightarrow> FrameDecoder_ok (d'\<lparr>fd_stage := Stage_Payload\<rparr>)
    | _ \<Rightarrow> call_ok (d', r)"
proof -
  from assms(1,2) have d: "fd_offset d = length (fd_buffer d)" "fd_offset d < 9"
    by (simp_all add: FrameDecoder_ok_def)
  let ?b = "if fd_offset d = 0 then buf else fd_buffer d @ take (9 - fd_offset d) buf"
  have eq: "decode_frame_header d buf =
      (if length buf < 9 - fd_offset d then (FrameDecoder_store d buf, Ok None)
       else if header_payload_length ?b > unat (fd_max_frame_size d)
       then (if fd_offset d = 0 then d else d\<lparr>fd_buffer := ?b\<rparr>, Err (ConnectionError FrameSizeError))
       else ((core d)\<lparr>fd_header := parse_header ?b\<rparr>, Ok (Some (drop (9 - fd_offset d) buf))))"
    using d by (auto simp: decode_frame_header_def FRAME_HEADER_LENGTH_def Let_def
        parse_header_def FrameDecoder_clear_def core_def)
  have store: "FrameDecoder_ok (FrameDecoder_store d buf)" if "length buf < 9 - fd_offset d"
    using that d assms(2) by (simp add: FrameDecoder_ok_def FrameDecoder_store_def)
  consider "length buf < 9 - fd_offset d"
    | "\<not> length buf < 9 - fd_offset d" "header_payload_length ?b > unat (fd_max_frame_size d)"
    | "\<not> length buf < 9 - fd_offset d" "\<not> header_payload_length ?b > unat (fd_max_frame_size d)"
    by blast
  then show ?thesis
  proof cases
    case 1
    with eq assms(3) have "d' = FrameDecoder_store d buf" "r = Ok None" by simp_all
    with store [OF 1] show ?thesis by simp
  next
    case 2
    with eq assms(3) have "d' = (if fd_offset d = 0 then d else d\<lparr>fd_buffer := ?b\<rparr>)"
      "r = Err (ConnectionError FrameSizeError)" by simp_all
    with d ok_bounded [OF assms(1)] show ?thesis by (auto simp: call_ok_def le_max_iff_disj min_def)
  next
    case 3
    with eq assms(3) have "d' = (core d)\<lparr>fd_header := parse_header ?b\<rparr>"
      "r = Ok (Some (drop (9 - fd_offset d) buf))" by simp_all
    with 3(2) show ?thesis by (simp add: FrameDecoder_ok_def parse_header_def)
  qed
qed

lemma ok_payload:
  assumes ok: "FrameDecoder_ok d" and st: "fd_stage d = Stage_Payload"
    and eq: "decode_frame_payload d buf = (d', r)"
  shows "case r of Ok (Some rest) \<Rightarrow> FrameDecoder_ok (d'\<lparr>fd_stage := Stage_Header\<rparr>)
    | _ \<Rightarrow> call_ok (d', r)"
proof -
  let ?n = "fh_payload_length (fd_header d)"
  from ok st have d: "fd_offset d = length (fd_buffer d)" "fd_offset d \<le> ?n"
    "?n \<le> unat (fd_max_frame_size d)" by (simp_all add: FrameDecoder_ok_def)
  obtain c q where c: "decode_payload_by_type d (take (?n - fd_offset d) buf) = (c, q)" by fastforce
  from kept_payload [of d "take (?n - fd_offset d) buf"] c d(1) st
  have k: "fd_header c = fd_header d" "fd_stage c = Stage_Payload"
    "fd_max_frame_size c = fd_max_frame_size d" "fd_offset c = length (fd_buffer c)"
    by (simp_all add: kept_def)
  from held_payload [of d "take (?n - fd_offset d) buf" ?n] c d(1,2)
  have "length (fd_buffer c) \<le> ?n" by simp
  with k d have "FrameDecoder_ok c"
    "FrameDecoder_ok ((FrameDecoder_clear (c\<lparr>fd_header := h\<rparr>))\<lparr>fd_stage := Stage_Header\<rparr>)" for h
    by (simp_all add: FrameDecoder_ok_def FrameDecoder_clear_def)
  moreover have "FrameDecoder_ok (FrameDecoder_store d buf)" if "length buf < ?n - fd_offset d"
    using that d st by (simp add: FrameDecoder_ok_def FrameDecoder_store_def)
  ultimately show ?thesis using eq c d ok
    by (auto simp: decode_frame_payload_def Let_def
        split: if_splits rust_result.splits)
qed

lemma ok_loop:
  "FrameDecoder_ok d \<Longrightarrow> call_ok (FrameDecoder_decode_loop d buf frames)"
proof (induction d buf frames rule: FrameDecoder_decode_loop.induct)
  case (1 d buf frames)
  show ?case
  proof (cases "fd_stage d")
    case Stage_Header
    obtain d' r where h: "decode_frame_header d buf = (d', r)" by fastforce
    from ok_header [OF 1(3) Stage_Header h] 1(1) [OF Stage_Header h [symmetric]] show ?thesis
      using Stage_Header h
      by (subst FrameDecoder_decode_loop.simps)
        (auto simp: call_ok_def connection_error_def split: rust_result.splits option.splits)
  next
    case Stage_Payload
    obtain d' r where p: "decode_frame_payload d buf = (d', r)" by fastforce
    from ok_payload [OF 1(3) Stage_Payload p] 1(2) [OF Stage_Payload p [symmetric]] show ?thesis
      using Stage_Payload p
      by (subst FrameDecoder_decode_loop.simps)
        (auto simp: call_ok_def connection_error_def split: rust_result.splits option.splits)
  qed
qed

text \<open>
  C26. What the decoder buffers is bounded, whatever the peer sends. A new decoder satisfies the
  invariant that the buffer holds \<open>offset\<close> bytes, fewer than a header or at most the payload of a
  frame of the accepted size, and every call keeps it that succeeds, fails with a stream error or
  panics. A connection error may break it: a header of an oversize frame that arrived in parts stays
  in the buffer without being counted. After every call that starts from the invariant, also a
  failed one, the buffer holds at most a frame header or a frame of the accepted size.
\<close>

theorem frame_decoder_bounded:
  assumes "FrameDecoder_ok d" "FrameDecoder_decode d buf = (d', r)"
  shows "FrameDecoder_ok FrameDecoder_new
    \<and> ((\<forall>c. r \<noteq> Err (ConnectionError c)) \<longrightarrow> FrameDecoder_ok d')
    \<and> length (fd_buffer d') \<le> max 9 (unat (fd_max_frame_size d'))"
proof -
  from ok_loop [OF assms(1), of buf "[]"] assms(2) have "call_ok (d', r)"
    by (simp add: FrameDecoder_decode_def)
  moreover have "FrameDecoder_ok FrameDecoder_new"
    by (simp add: FrameDecoder_ok_def FrameDecoder_new_def)
  ultimately show ?thesis by (auto simp: call_ok_def connection_error_def)
qed

theorem frame_decoder_bounded_witness:
  "FrameDecoder_ok FrameDecoder_new \<and> FrameDecoder_ok (with_header FrameDecoder_new 8 0 1 4)"
proof -
  have "frame_fits FrameDecoder_new 1 (be_u32 0)"
    by (simp add: frame_fits_def FrameDecoder_new_def DEFAULT_MAX_FRAME_SIZE_def)
  from window_update_refused [OF boundary_new this, of 0 "[]"]
  have eq: "FrameDecoder_decode FrameDecoder_new (frame_bytes 8 0 1 (be_u32 0) @ []) =
      (with_header FrameDecoder_new 8 0 1 4, Err (StreamError 1 ProtocolError))" by simp
  have "FrameDecoder_ok FrameDecoder_new" by (simp add: FrameDecoder_ok_def FrameDecoder_new_def)
  from frame_decoder_bounded [OF this eq] show ?thesis by simp
qed

section \<open>Panics\<close>

lemma settings_chunks_no_panic:
  "length buf mod 6 = 0 \<Longrightarrow> decode_settings_chunks buf settings \<noteq> Panic"
proof (induction buf settings rule: decode_settings_chunks.induct)
  case (2 a b c d e f rest settings)
  have "split_token_to_setting [a, b, c, d, e, f] \<noteq> Panic"
    by (simp add: split_token_to_setting_def get_setting_def Let_def)
  moreover from "2.prems" have "length rest mod 6 = 0" by simp
  ultimately show ?case using "2.IH" by (simp split: rust_result.split option.split)
qed simp_all

definition empty_padded :: "FrameHeader \<Rightarrow> bool" where
  "empty_padded h \<longleftrightarrow>
     (fh_frame_type h = 1 \<or> fh_frame_type h = 5) \<and> FrameHeader_is_padded h \<and> fh_payload_length h = 0"

lemma finish_no_panic: "HpackDecoder_finish h \<noteq> (h', Panic)"
  by (simp add: HpackDecoder_finish_def)

text \<open>The bytes of a payload that go to HPACK, if any: of a PUSH_PROMISE frame the whole payload.\<close>

definition block_fragment :: "FrameHeader \<Rightarrow> bytes \<Rightarrow> bytes option" where
  "block_fragment h payload =
     (let padded = FrameHeader_is_padded h;
          start = (if padded then 1 else 0) +
            (if fh_frame_type h = 5 then 4 else if FrameHeader_is_headers_priority h then 5 else 0);
          stop = length payload - (if padded then unat (hd payload) else 0)
      in if fh_frame_type h = 9 then Some payload
         else if \<not> (fh_frame_type h = 1 \<or> fh_frame_type h = 5) then None
         else if padded \<and> (payload = [] \<or> length payload \<le> unat (hd payload)) \<or> start > stop then None
         else Some (if fh_frame_type h = 5 then payload else take (stop - start) (drop start payload)))"

lemma framing_panic:
  "snd (headers_framing d f) = Panic \<longleftrightarrow> snd (HpackDecoder_decode (fd_hpack d) f) = Panic"
  "snd (continuation_framing d f) = Panic \<longleftrightarrow> snd (HpackDecoder_decode (fd_hpack d) f) = Panic"
  "5 \<le> length f \<or> \<not> FrameHeader_is_padded (fd_header d) \<and> 4 \<le> length f \<Longrightarrow>
     snd (promise_framing d f) = Panic \<longleftrightarrow> snd (HpackDecoder_decode (fd_hpack d) f) = Panic"
proof -
  obtain h r where dec: "HpackDecoder_decode (fd_hpack d) f = (h, r)" by fastforce
  obtain h' r' where fin: "HpackDecoder_finish h = (h', r')" by fastforce
  have r': "r' \<noteq> Panic" using fin finish_no_panic by blast
  show "snd (headers_framing d f) = Panic \<longleftrightarrow> snd (HpackDecoder_decode (fd_hpack d) f) = Panic"
    using dec fin r' by (cases r; cases r') (simp_all add: headers_framing_def hpack_layer Let_def split: if_splits)
  show "snd (continuation_framing d f) = Panic \<longleftrightarrow> snd (HpackDecoder_decode (fd_hpack d) f) = Panic"
    using dec fin r' by (cases r; cases r') (simp_all add: continuation_framing_def hpack_layer Let_def split: if_splits)
  show "5 \<le> length f \<or> \<not> FrameHeader_is_padded (fd_header d) \<and> 4 \<le> length f \<Longrightarrow>
     snd (promise_framing d f) = Panic \<longleftrightarrow> snd (HpackDecoder_decode (fd_hpack d) f) = Panic"
    using dec fin r'
    by (cases r; cases r')
      (auto simp: promise_framing_def push_promise_framing_def hpack_layer Let_def slice_range_def split: if_splits)
qed

lemma headers_panic:
  assumes "fd_offset d = 0" "length buf = fh_payload_length (fd_header d)" "fh_frame_type (fd_header d) = 1"
  shows "snd (decode_headers_payload d buf) = Panic \<longleftrightarrow> fh_stream_id (fd_header d) \<noteq> 0 \<and>
    (empty_padded (fd_header d) \<or>
     (\<exists>frag. block_fragment (fd_header d) buf = Some frag \<and> snd (HpackDecoder_decode (fd_hpack d) frag) = Panic))"
proof (cases buf)
  case Nil
  then show ?thesis using assms
    by (simp add: decode_headers_payload_def FrameDecoder_assemble_def is_connection_frame_def fragment_range_def Let_def
        empty_padded_def block_fragment_def slice_range_def framing_panic)
next
  case (Cons b bs)
  have "empty_padded (fd_header d) = False" using Cons assms(2) by (auto simp: empty_padded_def)
  moreover have "length buf - unat b \<le> length buf" by simp
  ultimately show ?thesis using assms Cons
    by (auto simp: decode_headers_payload_def FrameDecoder_assemble_def is_connection_frame_def fragment_range_def Let_def
        block_fragment_def slice_range_def framing_panic)
qed

lemma promise_panic:
  assumes "fd_offset d = 0" "length buf = fh_payload_length (fd_header d)" "fh_frame_type (fd_header d) = 5"
  shows "snd (decode_push_promise_payload d buf) = Panic \<longleftrightarrow> fh_stream_id (fd_header d) \<noteq> 0 \<and>
    (empty_padded (fd_header d) \<or>
     (\<exists>frag. block_fragment (fd_header d) buf = Some frag \<and> snd (HpackDecoder_decode (fd_hpack d) frag) = Panic))"
proof (cases buf)
  case Nil
  then show ?thesis using assms
    by (simp add: decode_push_promise_payload_def FrameDecoder_assemble_def is_connection_frame_def fragment_range_def Let_def
        empty_padded_def block_fragment_def)
next
  case (Cons b bs)
  let ?p = "FrameHeader_is_padded (fd_header d)"
  have e: "empty_padded (fd_header d) = False" using Cons assms(2) by (auto simp: empty_padded_def)
  show ?thesis
  proof (cases "(if ?p then 1 else 0) + 4 \<le> length buf - (if ?p then unat b else 0) \<and> (?p \<longrightarrow> unat b < length buf)")
    case True
    then have "5 \<le> length buf \<or> \<not> ?p \<and> 4 \<le> length buf" by (auto split: if_splits)
    from framing_panic(3) [OF this] True e assms Cons show ?thesis
      by (auto simp: decode_push_promise_payload_def FrameDecoder_assemble_def is_connection_frame_def fragment_range_def Let_def
          block_fragment_def split: if_splits)
  next
    case False
    then show ?thesis using e assms Cons
      by (auto simp: decode_push_promise_payload_def FrameDecoder_assemble_def is_connection_frame_def fragment_range_def Let_def
          block_fragment_def split: if_splits)
  qed
qed

lemma payload_panic_iff:
  assumes "fd_offset d = 0" "length buf = fh_payload_length (fd_header d)"
  shows "snd (decode_payload_by_type d buf) = Panic \<longleftrightarrow> fh_stream_id (fd_header d) \<noteq> 0 \<and>
    (empty_padded (fd_header d) \<or>
     (\<exists>frag. block_fragment (fd_header d) buf = Some frag \<and> snd (HpackDecoder_decode (fd_hpack d) frag) = Panic))"
proof -
  have as: "FrameDecoder_assemble d buf = (d, buf)" using assms(1) by (simp add: FrameDecoder_assemble_def)
  have quiet: "snd (decode_data_payload d buf) \<noteq> Panic"
    using assms(2) by (auto simp: decode_data_payload_def as Let_def slice_range_def split: list.splits)
  moreover have "snd (decode_settings_payload d buf) \<noteq> Panic"
    using assms(2) settings_chunks_no_panic [of buf "[]"]
    by (auto simp: decode_settings_payload_def as split: rust_result.splits)
  moreover have "snd (decode_priority_payload d buf) \<noteq> Panic" "snd (decode_reset_payload d buf) \<noteq> Panic"
    "snd (decode_ping_payload d buf) \<noteq> Panic" "snd (decode_goaway_payload d buf) \<noteq> Panic"
    "snd (decode_window_update_payload d buf) \<noteq> Panic"
    by (simp_all add: decode_priority_payload_def decode_reset_payload_def decode_ping_payload_def
        decode_goaway_payload_def decode_window_update_payload_def as Let_def)
  moreover have "snd (decode_continuation_payload d buf) = Panic \<longleftrightarrow>
      fh_stream_id (fd_header d) \<noteq> 0 \<and> snd (HpackDecoder_decode (fd_hpack d) buf) = Panic"
    using framing_panic(2) [of d buf] by (simp add: decode_continuation_payload_def as is_connection_frame_def)
  moreover note headers_panic [OF assms] promise_panic [OF assms]
  moreover have "fh_frame_type (fd_header d) \<noteq> 1 \<Longrightarrow> fh_frame_type (fd_header d) \<noteq> 5 \<Longrightarrow> \<not> empty_padded (fd_header d)"
    "fh_frame_type (fd_header d) \<notin> {1, 5, 9} \<Longrightarrow> block_fragment (fd_header d) buf = None"
    "fh_frame_type (fd_header d) = 9 \<Longrightarrow> block_fragment (fd_header d) buf = Some buf"
    by (simp_all add: empty_padded_def block_fragment_def Let_def)
  ultimately show ?thesis unfolding decode_payload_by_type_def Let_def by (auto split: if_splits)
qed

text \<open>
  C27. Exactly when the decoder panics on the payload of a frame: on a stream other than 0, an empty
  HEADERS or PUSH_PROMISE payload under the PADDED flag, or a payload whose header block, the bytes
  that \<open>block_fragment\<close> cuts out, makes the HPACK decoder panic in its present state. Every other index
  and slice of the payload decoders is in range, for every payload a peer can send.
\<close>

theorem frame_payload_panics:
  assumes "fd_offset d = 0" "length buf = fh_payload_length (fd_header d)"
  shows "snd (decode_payload_by_type d buf) = Panic \<longleftrightarrow>
    fh_stream_id (fd_header d) \<noteq> 0 \<and>
    (empty_padded (fd_header d) \<or>
     (\<exists>frag. block_fragment (fd_header d) buf = Some frag
        \<and> snd (HpackDecoder_decode (fd_hpack d) frag) = Panic))"
  by (rule payload_panic_iff [OF assms])

theorem frame_payload_panics_witness:
  "snd (decode_payload_by_type (with_header FrameDecoder_new 1 8 1 0) []) = Panic"
  using frame_payload_panics [of "with_header FrameDecoder_new 1 8 1 0" "[]"]
  by (simp add: FrameDecoder_new_def empty_padded_def FrameHeader_is_padded_def PADDED_MASK_def)

section \<open>Where the decoder departs from the protocol\<close>

text \<open>
  The payload of a PUSH_PROMISE frame goes to HPACK whole. The first two bytes of the promised
  identifier, if they are zero, are then a literal field with an empty name.
\<close>

definition has_unnamed :: "HeaderLines \<Rightarrow> bool" where
  "has_unnamed lines \<longleftrightarrow> Headers_get (parts_map (hl_parts lines)) [] \<noteq> None"

lemma unnamed_alt: "has_unnamed lines \<longleftrightarrow> headers_map (parts_map (hl_parts lines)) (HeaderName []) \<noteq> None"
  by (simp add: has_unnamed_def Headers_get_def HeaderName_from_bytes_def HeaderName_normalize_def from_utf8_unchecked_def)

lemma update_parts_unnamed:
  assumes "HeaderLines_update_parts lines h v = (lines', Ok ())"
  shows "has_unnamed lines \<or> h = Header.Other [] \<Longrightarrow> has_unnamed lines'"
  using assms
  by (auto simp: HeaderLines_update_parts_def Parts_update_def unnamed_alt Headers_append_def
      Headers_entry_append_def from_bytes_eq HeaderValue_from_bytes_def as_bytes_def from_utf8_unchecked_def
      split: Header.splits option.splits if_splits rust_result.splits prod.splits)

lemma update_unnamed:
  assumes "Updater_update hls table lines repr = (table', lines', Ok ())"
    and "has_unnamed lines \<or> (\<exists>v. repr = LiteralWithoutIndexing (Name_Literal []) v)"
  shows "has_unnamed lines'"
proof (cases "\<exists>m. repr = SizeUpdate m")
  case True
  then show ?thesis using assms by (auto simp: Updater_update_SizeUpdate)
next
  case False
  then obtain h v where f: "repr_field table repr = Some (h, v)"
    and up: "HeaderLines_update_parts (grown lines (h, v)) h v = (lines', Ok ())"
    using assms(1) by (auto simp: Updater_update_eq split: option.splits if_splits)
  have "has_unnamed (grown lines (h, v)) \<or> h = Header.Other []"
    using assms(2) f by (auto simp: has_unnamed_def grown_def repr_field_def from_utf8_unchecked_def)
  with update_parts_unnamed [OF up] show ?thesis .
qed

lemma loop_unnamed:
  "HpackDecoder_decode_loop hls \<lparr>rd_buf = buf, rd_state = st\<rparr> table lines = (st', table', lines', Ok ()) \<Longrightarrow>
   has_unnamed lines \<Longrightarrow> has_unnamed lines'"
proof (induction buf st table lines rule: loop_induct [where hls = hls])
  case (step buf st table lines)
  then show ?case
    by (auto simp: loop_unfold [of hls buf] split: if_splits prod.splits DecResult.splits rust_result.splits
        dest: update_unnamed)
qed

lemma zeros_decode:
  "ReprDecodeState_decode (DecodeState_Index IndexInner_FirstByte) (0 # 0 # bs) =
     ValueString_decode PrefixBit_LITERAL_WITHOUT_INDEXING (Name_Literal []) LengthFirstByte bs"
  by (simp add: ReprDecodeState_decode_def Index_decode_def IndexInner_decode_def FirstByte_decode_def
      PrefixBit_from_u8_def PrefixBit_prefix_index_mask_def IntegerDecoder_first_byte_def prefix_consts
      NameString_decode_def LiteralString_decode_def LengthFirstByte_decode_def string_bytes_decode_def
      AsciiStringBytes_decode_def Let_def)

lemma zeros_unnamed:
  assumes "hpd_holder h = None" "HpackDecoder_decode h (0 # 0 # bs) = (h', Ok ())" "HpackDecoder_finish h' = (h'', Ok parts)"
  shows "Headers_get (parts_map parts) [] \<noteq> None"
proof -
  let ?v = "ValueString_decode PrefixBit_LITERAL_WITHOUT_INDEXING (Name_Literal []) LengthFirstByte bs"
  have lit: "\<exists>v. repr = LiteralWithoutIndexing (Name_Literal []) v" if "fst ?v = Decoded repr" for repr
    using that by (auto simp: ValueString_decode_def prefix_consts split: prod.splits DecResult.splits)
  obtain res rest where v: "?v = (res, rest)" by fastforce
  have "hpd_holder h' = None" using assms(3) by (simp add: HpackDecoder_finish_def split: if_splits)
  with assms(1,2) v obtain repr table lines where res: "res = Decoded repr"
    and up: "Updater_update (hpd_header_list_size h) (hpd_table h) (hpd_lines h) repr = (table, lines, Ok ())"
    and lp: "HpackDecoder_decode_loop (hpd_header_list_size h) \<lparr>rd_buf = rest, rd_state = None\<rparr> table lines =
      (None, hpd_table h', hpd_lines h', Ok ())"
    by (auto simp: HpackDecoder_decode_def loop_unfold [of _ "0 # 0 # bs"] dec_start_def zeros_decode
        split: prod.splits DecResult.splits rust_result.splits)
  from lit res v have "\<exists>v. repr = LiteralWithoutIndexing (Name_Literal []) v" by simp
  with update_unnamed [OF up] loop_unnamed [OF lp] have "has_unnamed (hpd_lines h')" by blast
  with assms(3) show ?thesis by (simp add: HpackDecoder_finish_def has_unnamed_def split: if_splits)
qed

lemma promise_payload:
  assumes "fd_offset d = 0" "fh_frame_type (fd_header d) = 5" "fh_flags (fd_header d) = END_HEADERS_MASK"
    and "fh_stream_id (fd_header d) = sid" "sid \<noteq> 0" "fh_payload_length (fd_header d) = length p"
    and "4 \<le> length p" "get_stream_id (take 4 p) = promised" "promised \<noteq> 0"
    and "HpackDecoder_decode (fd_hpack d) p = (h, r)" "HpackDecoder_finish h = (h', r')"
  shows "snd (decode_payload_by_type d p) =
    (case r of Ok _ \<Rightarrow>
       (case r' of Ok parts \<Rightarrow> Ok (Complete (Frame_new sid (FrameFlags END_HEADERS_MASK)
            (Payload_PushPromise \<lparr>pp_promised_stream_id = promised, pp_parts = parts\<rparr>)))
        | Err e \<Rightarrow> Err e | Panic \<Rightarrow> Panic)
     | Err e \<Rightarrow> Err e | Panic \<Rightarrow> Panic)"
  using assms
  by (simp add: decode_payload_by_type_def decode_push_promise_payload_def is_connection_frame_def
      FrameDecoder_assemble_def fragment_range_def FrameHeader_is_padded_def PADDED_MASK_def
      END_HEADERS_MASK_def promise_framing_def push_promise_framing_def hpack_layer slice_range_def
      FrameHeader_is_end_headers_def FrameDecoder_frame_def Let_def split: rust_result.split)

text \<open>
  C30. The payload of a PUSH_PROMISE frame is handed to HPACK whole, with the promised stream
  identifier in front of the header block. So no frame that promises a stream below \<open>2^16\<close> is decoded
  to the fields of its block: if the decoder accepts it at all, the fields it returns contain one with
  an empty name, which no well-formed block has.
\<close>

theorem push_promise_misread:
  assumes "at_boundary d" "hpd_holder (fd_hpack d) = None"
    and "frame_fits d sid (be_u32 promised @ block)" "sid \<noteq> 0" "promised \<noteq> 0" "unat promised < 2 ^ 16"
    and "snd (FrameDecoder_decode d
      (frame_bytes 5 END_HEADERS_MASK sid (be_u32 promised @ block))) = Ok frames"
  shows "\<exists>parts. frames = [Complete (Frame_new sid (FrameFlags END_HEADERS_MASK)
        (Payload_PushPromise \<lparr>pp_promised_stream_id = promised, pp_parts = parts\<rparr>))]
    \<and> Headers_get (parts_map parts) [] \<noteq> None"
proof -
  let ?p = "be_u32 promised @ block"
  let ?d = "with_header d 5 END_HEADERS_MASK sid (length ?p)"
  from assms(1) have d: "fd_offset ?d = 0" by (simp add: at_boundary_def)
  have id: "get_stream_id (take 4 ?p) = promised"
    using assms(6) by (simp add: get_stream_id_be_id)
  have p: "?p = 0 # 0 # drop 2 ?p" using assms(6) by (simp add: be_u32_div)
  obtain h r where h: "HpackDecoder_decode (fd_hpack d) ?p = (h, r)" by fastforce
  obtain h' r' where h': "HpackDecoder_finish h = (h', r')" by fastforce
  have pay: "snd (decode_payload_by_type ?d ?p) =
    (case r of Ok _ \<Rightarrow>
       (case r' of Ok parts \<Rightarrow> Ok (Complete (Frame_new sid (FrameFlags END_HEADERS_MASK)
            (Payload_PushPromise \<lparr>pp_promised_stream_id = promised, pp_parts = parts\<rparr>)))
        | Err e \<Rightarrow> Err e | Panic \<Rightarrow> Panic)
     | Err e \<Rightarrow> Err e | Panic \<Rightarrow> Panic)"
    by (rule promise_payload) (use d id h h' assms(4,5) in simp_all)
  obtain c q where c: "decode_payload_by_type ?d ?p = (c, q)" by fastforce
  from boundary_frame [OF assms(1,3), of 5 END_HEADERS_MASK "[]"] c assms(7)
  obtain frame where "q = Ok frame" "frames = [frame]" by (cases q) (auto simp: loop_idle)
  with pay c obtain parts where q: "r = Ok ()" "r' = Ok parts" "frames = [Complete (Frame_new sid (FrameFlags END_HEADERS_MASK)
        (Payload_PushPromise \<lparr>pp_promised_stream_id = promised, pp_parts = parts\<rparr>))]"
    by (auto split: rust_result.splits)
  from h q(1) p have "HpackDecoder_decode (fd_hpack d) (0 # 0 # drop 2 ?p) = (h, Ok ())" by metis
  from zeros_unnamed [OF assms(2) this, of h' parts] h' q(2,3) show ?thesis by blast
qed

theorem push_promise_misread_witness:
  "\<exists>parts. snd (FrameDecoder_decode small_decoder (frame_bytes 5 END_HEADERS_MASK 1 (be_u32 2 @ [1, 65]))) =
       Ok [Complete (Frame_new 1 (FrameFlags END_HEADERS_MASK)
         (Payload_PushPromise \<lparr>pp_promised_stream_id = 2, pp_parts = parts\<rparr>))]
     \<and> Headers_get (parts_map parts) [] \<noteq> None"
proof -
  let ?p = "be_u32 2 @ [1, 65] :: bytes" and ?h = "HpackDecoder_with_max_size 64 200"
  let ?q = "HpackDecoder_decode ?h [0, 0, 0, 2, 1, 65]"
  have p: "?p = [0, 0, 0, 2, 1, 65]" by (simp add: be_u32_def)
  have "snd ?q = Ok ()" "hpd_holder (fst ?q) = None" by code_simp+
  then obtain h where h: "HpackDecoder_decode (fd_hpack small_decoder) ?p = (h, Ok ())" "hpd_holder h = None"
    unfolding p by (simp add: small_decoder_def prod_eq_iff)
  have "get_stream_id (take 4 ?p) = 2" by (simp add: get_stream_id_be_id)
  then have "snd (decode_payload_by_type (with_header small_decoder 5 END_HEADERS_MASK 1 (length ?p)) ?p) =
      Ok (Complete (Frame_new 1 (FrameFlags END_HEADERS_MASK)
         (Payload_PushPromise \<lparr>pp_promised_stream_id = 2, pp_parts = hl_parts (hpd_lines h)\<rparr>)))"
    using promise_payload [of "with_header small_decoder 5 END_HEADERS_MASK 1 (length ?p)" 1 ?p 2 h "Ok ()"] h small_boundary
    by (simp add: HpackDecoder_finish_def at_boundary_def)
  then have "snd (FrameDecoder_decode small_decoder (frame_bytes 5 END_HEADERS_MASK 1 ?p)) =
      Ok [Complete (Frame_new 1 (FrameFlags END_HEADERS_MASK)
         (Payload_PushPromise \<lparr>pp_promised_stream_id = 2, pp_parts = hl_parts (hpd_lines h)\<rparr>))]"
    using boundary_frame [OF small_boundary small_fits [of ?p], of 5 END_HEADERS_MASK "[]"]
    by (simp add: loop_idle split: prod.splits)
  with push_promise_misread [OF small_boundary _ small_fits _ _ _ this] show ?thesis
    by (simp add: small_decoder_def HpackDecoder_with_max_size_def)
qed



end
