(* ===== verification/H2_Dispatcher.thy ===== *)
theory H2_Dispatcher
  imports H2_Manager
begin

text \<open>
  The configuration of an HTTP/2 connection (\<open>H2Config\<close> of \<open>util/config/http.rs\<close>) and the state in
  which \<open>Http2Dispatcher::new\<close> (\<open>util/dispatcher.rs\<close>) launches the task of the connection manager.
\<close>

section \<open>Configuration\<close>

record H2Config =
  hc_max_frame_size :: u32
  hc_max_header_list_size :: u32
  hc_header_table_size :: u32
  hc_init_conn_window_size :: u32
  hc_init_stream_window_size :: u32
  hc_enable_push :: bool
  hc_allowed_cache_frame_size :: nat
  hc_use_huffman :: bool

definition H2Config_default :: H2Config where
  "H2Config_default =
     \<lparr>hc_max_frame_size = 16 * 1024, hc_max_header_list_size = 16 * 1024, hc_header_table_size = 4096,
      hc_init_conn_window_size = 10 * 1024 * 1024, hc_init_stream_window_size = 2 * 1024 * 1024,
      hc_enable_push = False, hc_allowed_cache_frame_size = 5, hc_use_huffman = True\<rparr>"

definition create_initial_settings :: "H2Config \<Rightarrow> Frame" where
  "create_initial_settings config =
     (let settings =
        SettingsBuilder_initial_window_size
          (SettingsBuilder_enable_push
            (SettingsBuilder_header_table_size
              (SettingsBuilder_max_frame_size
                (SettingsBuilder_max_header_list_size SettingsBuilder_new (hc_max_header_list_size config))
                (hc_max_frame_size config))
              (hc_header_table_size config))
            (hc_enable_push config))
          (hc_init_stream_window_size config)
      in Frame_new 0 (FrameFlags 0) (Payload_Settings settings))"

section \<open>The start of the connection\<close>

definition DEFAULT_WINDOW_SIZE :: u32 where
  "DEFAULT_WINDOW_SIZE = 65535"

text \<open>
  The manager that is launched, when the two initial frames can be put into the channel to the
  frame writer.
\<close>

definition Http2Dispatcher_new ::
    "('c \<Rightarrow> Frame \<Rightarrow> 'c option) \<Rightarrow> H2Config \<Rightarrow> 'c \<Rightarrow> 'r \<Rightarrow> ('b, 'r, 'c) ConnManager option" where
  "Http2Dispatcher_new send config input_tx channels =
     (let flow = FlowControl_new DEFAULT_WINDOW_SIZE DEFAULT_WINDOW_SIZE;
          flow = FlowControl_setup_recv_window flow (hc_init_conn_window_size config);
          streams = Streams_new (hc_init_stream_window_size config) DEFAULT_WINDOW_SIZE flow
      in case send input_tx (create_initial_settings config) of
           None \<Rightarrow> None
         | Some input_tx \<Rightarrow>
             (case Streams_release_conn_recv_window send streams input_tx 0 of
                (streams, input_tx, Ok _) \<Rightarrow>
                  Some (ConnManager_new Synced input_tx (StreamController_new streams channels))
              | _ \<Rightarrow> None))"

section \<open>What the launched manager starts from\<close>

lemma recv_data_send: "fc_send_window (FlowControl_recv_data fc n) = fc_send_window fc"
  by (simp add: FlowControl_recv_data_def)

lemma check_update_send:
  "FlowControl_check_conn_recv_window_update fc = (fc', frame) \<Longrightarrow> fc_send_window fc' = fc_send_window fc"
  by (auto simp: FlowControl_check_conn_recv_window_update_def split: prod.splits)

lemma setup_send: "fc_send_window (FlowControl_setup_recv_window fc n) = fc_send_window fc"
  by (simp add: FlowControl_setup_recv_window_def Let_def)

text \<open>
  A launched manager has fresh streams, the send windows of RFC 9113 and is not about to exit; the
  frames it has sent are the client's SETTINGS and perhaps a WINDOW_UPDATE for the connection.
\<close>

lemma launched:
  fixes m :: "('b, 'r, 'c) ConnManager"
  assumes "Http2Dispatcher_new send config tx channels = Some m"
  obtains fc where "cm_streams m = Streams_new (hc_init_stream_window_size config) 65535 fc"
    and "fc_send_window fc = SendWindow_new 65535"
    and "sc_going_away (cm_controller m) = None" "cm_state m = Manager_Receive"
    and "send tx (create_initial_settings config) = Some (cm_input_tx m) \<or>
      (\<exists>tx' n. send tx (create_initial_settings config) = Some tx' \<and>
        send tx' (Frame_new 0 (FrameFlags 0) (Payload_WindowUpdate n)) = Some (cm_input_tx m))"
proof -
  let ?flow = "FlowControl_setup_recv_window (FlowControl_new DEFAULT_WINDOW_SIZE DEFAULT_WINDOW_SIZE)
    (hc_init_conn_window_size config)"
  let ?streams = "Streams_new (hc_init_stream_window_size config) DEFAULT_WINDOW_SIZE ?flow :: 'b Streams"
  obtain tx1 streams tx2 u where tx1: "send tx (create_initial_settings config) = Some tx1"
    and rel: "Streams_release_conn_recv_window send ?streams tx1 0 = (streams, tx2, Ok u)"
    and m: "m = ConnManager_new Synced tx2 (StreamController_new streams channels)"
    using assms by (auto simp: Http2Dispatcher_new_def Let_def split: option.splits prod.splits rust_result.splits)
  from rel obtain fc frame where
    fc: "FlowControl_check_conn_recv_window_update (FlowControl_recv_data ?flow 0) = (fc, frame)"
    and streams: "streams = Streams_new (hc_init_stream_window_size config) DEFAULT_WINDOW_SIZE fc"
    and sent: "case frame of None \<Rightarrow> tx2 = tx1 | Some f \<Rightarrow> send tx1 f = Some tx2"
    by (auto simp: Streams_release_conn_recv_window_def Let_def Streams_new_def send_frame_def
        split: if_splits prod.splits option.splits)
  have frame: "frame = Some f \<Longrightarrow> \<exists>n. f = Frame_new 0 (FrameFlags 0) (Payload_WindowUpdate n)" for f
    using fc by (auto simp: FlowControl_check_conn_recv_window_update_def RecvWindow_check_window_update_def
        split: prod.splits option.splits)
  show ?thesis
  proof (rule that)
    show "cm_streams m = Streams_new (hc_init_stream_window_size config) 65535 fc"
      by (simp add: m streams cm_streams_def ConnManager_new_def StreamController_new_def DEFAULT_WINDOW_SIZE_def)
    show "fc_send_window fc = SendWindow_new 65535"
      by (simp add: check_update_send [OF fc] recv_data_send setup_send FlowControl_new_def DEFAULT_WINDOW_SIZE_def)
    show "send tx (create_initial_settings config) = Some (cm_input_tx m) \<or>
      (\<exists>tx' n. send tx (create_initial_settings config) = Some tx' \<and>
        send tx' (Frame_new 0 (FrameFlags 0) (Payload_WindowUpdate n)) = Some (cm_input_tx m))"
      using sent tx1 frame by (cases frame) (auto simp: m ConnManager_new_def)
  qed (simp_all add: m ConnManager_new_def StreamController_new_def)
qed

end
