(* ===== verification/H2_Stream_States.thy ===== *)
theory H2_Stream_States
  imports H2_Streams
begin

text \<open>
  The state machine of a stream. \<open>diagram\<close> is the life cycle drawn in the comment on
  \<open>H2StreamState\<close> (the one of RFC 9113, 5.1): every frame that a handler accepts moves its stream
  along this diagram and leaves all other streams as they are.
\<close>

section \<open>The life cycle\<close>

datatype lifecycle_state =
  L_Idle | L_ReservedRemote | L_Open | L_HalfClosedLocal | L_HalfClosedRemote | L_Closed

definition lifecycle :: "H2StreamState \<Rightarrow> lifecycle_state" where
  "lifecycle st =
     (case st of
        Idle \<Rightarrow> L_Idle
      | Open _ _ \<Rightarrow> L_Open
      | ReservedRemote \<Rightarrow> L_ReservedRemote
      | LocalHalfClosed _ \<Rightarrow> L_HalfClosedLocal
      | RemoteHalfClosed _ \<Rightarrow> L_HalfClosedRemote
      | Closed _ \<Rightarrow> L_Closed)"

text \<open>
  HEADERS, DATA, END_STREAM and RST_STREAM, sent or received. HEADERS and DATA stay inside an open
  direction; END_STREAM closes it.
\<close>

datatype lifecycle_action = Send_H | Recv_H | Send_D | Recv_D | Send_ES | Recv_ES | Send_R | Recv_R

definition diagram :: "lifecycle_action \<Rightarrow> lifecycle_state \<Rightarrow> lifecycle_state option" where
  "diagram a st =
     (case a of
        Send_H \<Rightarrow> (case st of L_Idle \<Rightarrow> Some L_Open | L_Open \<Rightarrow> Some L_Open
                  | L_HalfClosedRemote \<Rightarrow> Some L_HalfClosedRemote | _ \<Rightarrow> None)
      | Recv_H \<Rightarrow> (case st of L_Idle \<Rightarrow> Some L_Open | L_ReservedRemote \<Rightarrow> Some L_HalfClosedLocal
                  | L_Open \<Rightarrow> Some L_Open | L_HalfClosedLocal \<Rightarrow> Some L_HalfClosedLocal | _ \<Rightarrow> None)
      | Send_D \<Rightarrow> (if st = L_Open \<or> st = L_HalfClosedRemote then Some st else None)
      | Recv_D \<Rightarrow> (if st = L_Open \<or> st = L_HalfClosedLocal then Some st else None)
      | Send_ES \<Rightarrow> (case st of L_Open \<Rightarrow> Some L_HalfClosedLocal | L_HalfClosedRemote \<Rightarrow> Some L_Closed | _ \<Rightarrow> None)
      | Recv_ES \<Rightarrow> (case st of L_Open \<Rightarrow> Some L_HalfClosedRemote | L_HalfClosedLocal \<Rightarrow> Some L_Closed | _ \<Rightarrow> None)
      | Send_R \<Rightarrow> (if st = L_Idle \<or> st = L_Closed then None else Some L_Closed)
      | Recv_R \<Rightarrow> (if st = L_Idle \<or> st = L_Closed then None else Some L_Closed))"

fun diagram_path :: "lifecycle_action list \<Rightarrow> lifecycle_state \<Rightarrow> lifecycle_state option" where
  "diagram_path [] st = Some st"
| "diagram_path (a # as) st = (case diagram a st of None \<Rightarrow> None | Some st' \<Rightarrow> diagram_path as st')"

datatype stream_event =
    SendHeaders bool | SendData bool | RecvHeaders bool | RecvData bool | SendReset | RecvReset

fun event_actions :: "stream_event \<Rightarrow> lifecycle_action list" where
  "event_actions (SendHeaders eos) = Send_H # (if eos then [Send_ES] else [])"
| "event_actions (SendData eos) = Send_D # (if eos then [Send_ES] else [])"
| "event_actions (RecvHeaders eos) = Recv_H # (if eos then [Recv_ES] else [])"
| "event_actions (RecvData eos) = Recv_D # (if eos then [Recv_ES] else [])"
| "event_actions SendReset = [Send_R]"
| "event_actions RecvReset = [Recv_R]"

definition is_reset :: "stream_event \<Rightarrow> bool" where
  "is_reset e \<longleftrightarrow> e = SendReset \<or> e = RecvReset"

text \<open>The handler of each event, and whether it accepts the event.\<close>

fun handle_event :: "'b Streams \<Rightarrow> StreamId \<Rightarrow> stream_event \<Rightarrow> 'b Streams \<times> bool" where
  "handle_event s sid (SendHeaders eos) =
     (case Streams_send_headers_frame s sid eos of (s', r) \<Rightarrow> (s', r = FrameRecv_OK))"
| "handle_event s sid (SendData eos) =
     (case Streams_send_data_frame s sid eos of (s', r) \<Rightarrow> (s', r = FrameRecv_OK))"
| "handle_event s sid (RecvHeaders eos) =
     (case Streams_recv_headers s sid eos of (s', r) \<Rightarrow> (s', r = FrameRecv_OK))"
| "handle_event s sid (RecvData eos) =
     (case Streams_recv_data s sid eos of (s', r) \<Rightarrow> (s', r = FrameRecv_OK))"
| "handle_event s sid SendReset =
     (case Streams_send_local_reset s sid of (s', r) \<Rightarrow> (s', r = StreamEnd_OK))"
| "handle_event s sid RecvReset =
     (case Streams_recv_remote_reset s sid of (s', r) \<Rightarrow> (s', r = StreamEnd_OK))"

section \<open>What a handler does to its stream\<close>

text \<open>A stream for which the client still has frames to send.\<close>

definition still_sending :: "H2StreamState \<Rightarrow> bool" where
  "still_sending st \<longleftrightarrow>
     (case st of Idle \<Rightarrow> True | Open _ _ \<Rightarrow> True | RemoteHalfClosed _ \<Rightarrow> True | _ \<Rightarrow> False)"

definition advance :: "StreamId \<Rightarrow> H2StreamState \<Rightarrow> 'b Streams \<Rightarrow> 'b Streams" where
  "advance sid st s =
     (if is_Closed st then Streams_decrease_current_concurrency (set_state sid st s) else set_state sid st s)"

definition abort :: "StreamId \<Rightarrow> CloseReason \<Rightarrow> 'b Streams \<Rightarrow> 'b Streams" where
  "abort sid reason s = Streams_decrease_current_concurrency (map_stream sid (close_stream reason) s)"

lemma is_Closed_simps [simp]:
  "is_Closed (Closed r)" "\<not> is_Closed Idle" "\<not> is_Closed (Open a b)" "\<not> is_Closed ReservedRemote"
  "\<not> is_Closed (LocalHalfClosed a)" "\<not> is_Closed (RemoteHalfClosed a)"
  by (simp_all add: is_Closed_def)

lemma still_sending_simps [simp]:
  "still_sending Idle" "still_sending (Open a b)" "still_sending (RemoteHalfClosed a)"
  "\<not> still_sending ReservedRemote" "\<not> still_sending (LocalHalfClosed a)" "\<not> still_sending (Closed r)"
  by (simp_all add: still_sending_def)

lemma set_state_same [simp]:
  "ss_stream_map s sid = Some stream \<Longrightarrow> st_state stream = st \<Longrightarrow> set_state sid st s = s"
  by (auto simp: set_state_def map_stream_def fun_upd_idem)

lemma decrease_set_state:
  "set_state sid st (Streams_decrease_current_concurrency s) = Streams_decrease_current_concurrency (set_state sid st s)"
  by (simp add: set_state_def map_stream_def Streams_decrease_current_concurrency_def)

definition accepted :: "'b Streams \<Rightarrow> StreamId \<Rightarrow> lifecycle_action list \<Rightarrow> 'b Streams \<Rightarrow> bool" where
  "accepted s sid actions s' \<longleftrightarrow>
     (\<exists>stream st. ss_stream_map s sid = Some stream \<and> \<not> is_Closed (st_state stream)
        \<and> diagram_path actions (lifecycle (st_state stream)) = Some (lifecycle st)
        \<and> (still_sending st \<longrightarrow> still_sending (st_state stream)) \<and> s' = advance sid st s)"

lemma lifecycle_simps [simp]:
  "lifecycle Idle = L_Idle" "lifecycle (Open a b) = L_Open" "lifecycle ReservedRemote = L_ReservedRemote"
  "lifecycle (LocalHalfClosed a) = L_HalfClosedLocal" "lifecycle (RemoteHalfClosed a) = L_HalfClosedRemote"
  "lifecycle (Closed r) = L_Closed"
  by (simp_all add: lifecycle_def)

lemma accepted_set:
  assumes "ss_stream_map s sid = Some stream" "\<not> is_Closed (st_state stream)" "\<not> is_Closed st" "still_sending st \<longrightarrow> still_sending (st_state stream)"
    and "diagram_path actions (lifecycle (st_state stream)) = Some (lifecycle st)"
  shows "accepted s sid actions (set_state sid st s)"
  using assms unfolding accepted_def advance_def by fastforce

lemma accepted_close:
  assumes "ss_stream_map s sid = Some stream" "\<not> is_Closed (st_state stream)"
    and "diagram_path actions (lifecycle (st_state stream)) = Some L_Closed"
  shows "accepted s sid actions (Streams_decrease_current_concurrency (set_state sid (Closed EndStream) s))"
proof -
  have "advance sid (Closed EndStream) s = Streams_decrease_current_concurrency (set_state sid (Closed EndStream) s)"
    by (simp add: advance_def)
  with assms show ?thesis unfolding accepted_def by (intro exI [of _ stream] exI [of _ "Closed EndStream"]) simp
qed

lemma accepted_same:
  assumes "ss_stream_map s sid = Some stream" "\<not> is_Closed (st_state stream)"
    and "diagram_path actions (lifecycle (st_state stream)) = Some (lifecycle (st_state stream))"
  shows "accepted s sid actions s"
  using assms unfolding accepted_def advance_def
  by (intro exI [of _ stream] exI [of _ "st_state stream"]) simp

lemmas accepted_rules = accepted_set accepted_close accepted_same

lemmas stream_splits = option.splits H2StreamState.splits ActiveState.splits CloseReason.splits if_splits

lemma send_headers_cases:
  assumes "Streams_send_headers_frame s sid eos = (s', r)"
  shows "r = FrameRecv_OK \<and> accepted s sid (event_actions (SendHeaders eos)) s'
    \<or> s' = s \<and> r = FrameRecv_Err (ConnectionError ProtocolError)"
  using assms
  by (auto simp: Streams_send_headers_frame_def decrease_set_state diagram_def accepted_rules split: stream_splits)

lemma send_data_cases:
  assumes "Streams_send_data_frame s sid eos = (s', r)"
  shows "r = FrameRecv_OK \<and> accepted s sid (event_actions (SendData eos)) s'
    \<or> s' = s \<and> r = FrameRecv_Err (ConnectionError ProtocolError)"
  using assms
  by (auto simp: Streams_send_data_frame_def decrease_set_state diagram_def accepted_rules split: stream_splits)

lemma recv_headers_cases:
  assumes "Streams_recv_headers s sid eos = (s', r)"
  shows "r = FrameRecv_OK \<and> accepted s sid (event_actions (RecvHeaders eos)) s'
    \<or> s' = s \<and> (r = FrameRecv_Ignore \<or> r = FrameRecv_Err (ConnectionError ProtocolError))"
  using assms
  by (auto simp: Streams_recv_headers_def change_stream_state_Idle_def change_stream_state_Open_def
      change_stream_state_HalfClosed_def diagram_def accepted_rules split: stream_splits)

lemma recv_data_cases:
  assumes "Streams_recv_data s sid eos = (s', r)"
  shows "r = FrameRecv_OK \<and> accepted s sid (event_actions (RecvData eos)) s'
    \<or> s' = s \<and> (r = FrameRecv_Ignore \<or> r = FrameRecv_Err (ConnectionError ProtocolError))"
  using assms
  by (auto simp: Streams_recv_data_def diagram_def accepted_rules split: stream_splits)

definition aborted :: "'b Streams \<Rightarrow> StreamId \<Rightarrow> CloseReason \<Rightarrow> 'b Streams \<Rightarrow> bool" where
  "aborted s sid reason s' \<longleftrightarrow>
     (\<exists>stream. ss_stream_map s sid = Some stream \<and> \<not> is_Closed (st_state stream) \<and> s' = abort sid reason s)"

lemma recv_reset_cases:
  assumes "Streams_recv_remote_reset s sid = (s', r)"
  shows "r = StreamEnd_OK \<and> aborted s sid RemoteRst s'
    \<or> s' = s \<and> (r = StreamEnd_Ignore \<or> r = StreamEnd_Err (ConnectionError ProtocolError))"
  using assms by (auto simp: Streams_recv_remote_reset_def aborted_def abort_def split: option.splits if_splits)

lemma send_reset_cases:
  assumes "Streams_send_local_reset s sid = (s', r)"
  shows "r = StreamEnd_OK \<and> aborted s sid LocalRst s'
    \<or> r = StreamEnd_Ignore \<and> s' = set_state sid (Closed LocalRst) s
        \<and> Streams_stream_state s sid = Some (Closed EndStream)
    \<or> r = StreamEnd_Ignore \<and> s' = s \<and> (\<exists>reason. Streams_stream_state s sid = Some (Closed reason))
    \<or> s' = s \<and> r = StreamEnd_Err (ConnectionError ProtocolError) \<and> ss_stream_map s sid = None"
  using assms
  by (auto simp: Streams_send_local_reset_def Streams_stream_state_def set_state_def aborted_def abort_def
      split: stream_splits)

lemma map_advance [simp]:
  "ss_stream_map (advance sid st s) =
     (ss_stream_map s)(sid := map_option (\<lambda>stream. stream\<lparr>st_state := st\<rparr>) (ss_stream_map s sid))"
  by (simp add: advance_def set_state_def map_stream_def Streams_decrease_current_concurrency_def)

lemma map_abort [simp]:
  "ss_stream_map (abort sid reason s) =
     (ss_stream_map s)(sid := map_option (close_stream reason) (ss_stream_map s sid))"
  by (simp add: abort_def map_stream_def Streams_decrease_current_concurrency_def)

lemma state_advance: "accepted s sid actions s' \<Longrightarrow>
  (\<exists>st st'. Streams_stream_state s sid = Some st \<and> Streams_stream_state s' sid = Some st'
      \<and> diagram_path actions (lifecycle st) = Some (lifecycle st'))
  \<and> (\<forall>other. other \<noteq> sid \<longrightarrow> ss_stream_map s' other = ss_stream_map s other)"
  by (auto simp: accepted_def Streams_stream_state_def)

lemma state_abort: "aborted s sid reason s' \<Longrightarrow>
  (\<exists>st. Streams_stream_state s sid = Some st \<and> Streams_stream_state s' sid = Some (Closed reason)
      \<and> (st = Idle \<or> diagram_path [Send_R] (lifecycle st) = Some L_Closed
                      \<and> diagram_path [Recv_R] (lifecycle st) = Some L_Closed))
  \<and> (\<forall>other. other \<noteq> sid \<longrightarrow> ss_stream_map s' other = ss_stream_map s other)"
  by (auto simp: aborted_def Streams_stream_state_def diagram_def close_stream_def lifecycle_def
      split: H2StreamState.splits)

lemma state_closed:
  "Streams_stream_state (map_stream sid (close_stream reason) s) t =
     (if t = sid then map_option (\<lambda>st. Closed reason) (Streams_stream_state s t) else Streams_stream_state s t)"
  by (auto simp: Streams_stream_state_def map_stream_def close_stream_def option.map_comp comp_def split: option.split)

lemma state_decreased:
  "Streams_stream_state (Streams_decrease_current_concurrency s) t = Streams_stream_state s t"
  by (simp add: Streams_stream_state_def Streams_decrease_current_concurrency_def)

lemma unset_states:
  "Streams_stream_state (fst (unset_loop ks last_id s ids)) t =
     map_option (\<lambda>st. if t \<in> set ks \<and> last_id < t \<and> \<not> is_Closed st then Closed RemoteGoAway else st)
       (Streams_stream_state s t)"
proof (induction ks arbitrary: s ids)
  case (Cons sid ks)
  show ?case
  proof (cases "ss_stream_map s sid")
    case None
    then have "Streams_stream_state s sid = None" by (simp add: Streams_stream_state_def)
    with None Cons.IH show ?thesis by (cases "t = sid") simp_all
  next
    case (Some x)
    then have x: "Streams_stream_state s sid = Some (st_state x)" by (simp add: Streams_stream_state_def)
    define s1 where "s1 = (case st_state x of Closed _ \<Rightarrow> s
      | Idle \<Rightarrow> map_stream sid (close_stream RemoteGoAway) s
      | _ \<Rightarrow> map_stream sid (close_stream RemoteGoAway) (Streams_decrease_current_concurrency s))"
    have s1: "Streams_stream_state s1 t =
        (if t = sid \<and> \<not> is_Closed (st_state x) then Some (Closed RemoteGoAway) else Streams_stream_state s t)"
      using x by (cases "st_state x") (simp_all add: s1_def state_closed state_decreased)
    have "fst (unset_loop (sid # ks) last_id s ids) =
        (if last_id < sid then fst (unset_loop ks last_id s1 (ids @ [sid])) else fst (unset_loop ks last_id s ids))"
      using Some by (simp add: s1_def Let_def)
    with Cons.IH s1 x show ?thesis
      by (cases "t = sid"; cases "Streams_stream_state s t") (simp_all del: unset_loop.simps)
  qed
qed (simp add: option.map_ident)

lemma unclosed_states:
  "Streams_stream_state (fst (unclosed_loop ks s ids)) t =
     map_option (\<lambda>st. if t \<in> set ks \<and> \<not> is_Closed st then Closed LocalGoAway else st) (Streams_stream_state s t)"
proof (induction ks arbitrary: s ids)
  case (Cons sid ks)
  show ?case
  proof (cases "ss_stream_map s sid")
    case None
    then have "Streams_stream_state s sid = None" by (simp add: Streams_stream_state_def)
    with None Cons.IH show ?thesis by (cases "t = sid") simp_all
  next
    case (Some x)
    then have x: "Streams_stream_state s sid = Some (st_state x)" by (simp add: Streams_stream_state_def)
    show ?thesis
      using Some x Cons.IH
      by (cases "t = sid"; cases "Streams_stream_state s t") (simp_all add: state_closed)
  qed
qed (simp add: option.map_ident)

lemma goaway_states:
  assumes "set (keys (ss_stream_map s)) = dom (ss_stream_map s)"
  shows "Streams_stream_state (fst (Streams_get_unset_streams keys s last_id)) t =
      map_option (\<lambda>st. if last_id < t \<and> \<not> is_Closed st then Closed RemoteGoAway else st) (Streams_stream_state s t)"
    "Streams_stream_state (fst (Streams_get_all_unclosed_streams keys s)) t =
      map_option (\<lambda>st. if \<not> is_Closed st then Closed LocalGoAway else st) (Streams_stream_state s t)"
proof -
  have "t \<in> set (keys (ss_stream_map s))" if "Streams_stream_state s t \<noteq> None"
    using that assms by (auto simp: Streams_stream_state_def)
  then show "Streams_stream_state (fst (Streams_get_unset_streams keys s last_id)) t =
      map_option (\<lambda>st. if last_id < t \<and> \<not> is_Closed st then Closed RemoteGoAway else st) (Streams_stream_state s t)"
    "Streams_stream_state (fst (Streams_get_all_unclosed_streams keys s)) t =
      map_option (\<lambda>st. if \<not> is_Closed st then Closed LocalGoAway else st) (Streams_stream_state s t)"
    unfolding Streams_get_unset_streams_def Streams_get_all_unclosed_streams_def unset_states unclosed_states
    by (cases "Streams_stream_state s t"; simp)+
qed

lemma event_follows_diagram:
  assumes "handle_event s sid e = (s', ok)"
  shows "(\<forall>other. other \<noteq> sid \<longrightarrow> ss_stream_map s' other = ss_stream_map s other)
    \<and> (if ok then
         \<exists>st st'. Streams_stream_state s sid = Some st \<and> Streams_stream_state s' sid = Some st'
           \<and> (diagram_path (event_actions e) (lifecycle st) = Some (lifecycle st')
              \<or> is_reset e \<and> st = Idle \<and> lifecycle st' = L_Closed)
       else s' = s \<or> e = SendReset \<and> Streams_stream_state s sid = Some (Closed EndStream)
              \<and> s' = set_state sid (Closed LocalRst) s)"
proof (cases e)
  case (SendHeaders eos)
  then show ?thesis using assms
    by (cases "Streams_send_headers_frame s sid eos")
      (use send_headers_cases [of s sid eos] state_advance in fastforce)
next
  case (SendData eos)
  then show ?thesis using assms
    by (cases "Streams_send_data_frame s sid eos")
      (use send_data_cases [of s sid eos] state_advance in fastforce)
next
  case (RecvHeaders eos)
  then show ?thesis using assms
    by (cases "Streams_recv_headers s sid eos")
      (use recv_headers_cases [of s sid eos] state_advance in fastforce)
next
  case (RecvData eos)
  then show ?thesis using assms
    by (cases "Streams_recv_data s sid eos")
      (use recv_data_cases [of s sid eos] state_advance in fastforce)
next
  case SendReset
  then show ?thesis using assms
    by (cases "Streams_send_local_reset s sid")
      (use send_reset_cases [of s sid] state_abort in \<open>fastforce simp: is_reset_def set_state_def map_stream_def\<close>)
next
  case RecvReset
  then show ?thesis using assms
    by (cases "Streams_recv_remote_reset s sid")
      (use recv_reset_cases [of s sid] state_abort in \<open>fastforce simp: is_reset_def\<close>)
qed

text \<open>
  C11. The streams refine the life cycle of the protocol. Of the six handlers (HEADERS and DATA sent and
  received, a reset sent and received) one that accepts a frame or a reset for a stream moves that
  stream along the diagram, by the actions the frame stands for, and no handler touches another
  stream; an Idle stream that is reset is closed, which the diagram does not have. A handler that
  does not accept leaves every stream as it is, except that a local reset of a stream that ended
  normally changes the recorded reason. The two operations of GOAWAY, whatever the order in which
  they visit the streams, close exactly the unclosed streams above the last identifier, or all
  unclosed streams, and leave the states of the others alone.
\<close>

theorem streams_follow_diagram:
  assumes "handle_event s sid e = (s', ok)"
  shows "(\<forall>other. other \<noteq> sid \<longrightarrow> ss_stream_map s' other = ss_stream_map s other)
    \<and> (if ok then
         \<exists>st st'. Streams_stream_state s sid = Some st \<and> Streams_stream_state s' sid = Some st'
           \<and> (diagram_path (event_actions e) (lifecycle st) = Some (lifecycle st')
              \<or> is_reset e \<and> st = Idle \<and> lifecycle st' = L_Closed)
       else s' = s \<or> e = SendReset \<and> Streams_stream_state s sid = Some (Closed EndStream)
              \<and> s' = set_state sid (Closed LocalRst) s)
    \<and> (set (keys (ss_stream_map s)) = dom (ss_stream_map s) \<longrightarrow>
         Streams_stream_state (fst (Streams_get_unset_streams keys s last_id)) t =
           map_option (\<lambda>st. if last_id < t \<and> \<not> is_Closed st then Closed RemoteGoAway else st)
             (Streams_stream_state s t)
         \<and> Streams_stream_state (fst (Streams_get_all_unclosed_streams keys s)) t =
           map_option (\<lambda>st. if \<not> is_Closed st then Closed LocalGoAway else st) (Streams_stream_state s t))"
proof -
  have "(\<forall>other. other \<noteq> sid \<longrightarrow> ss_stream_map s' other = ss_stream_map s other)
    \<and> (if ok then
         \<exists>st st'. Streams_stream_state s sid = Some st \<and> Streams_stream_state s' sid = Some st'
           \<and> (diagram_path (event_actions e) (lifecycle st) = Some (lifecycle st')
              \<or> is_reset e \<and> st = Idle \<and> lifecycle st' = L_Closed)
       else s' = s \<or> e = SendReset \<and> Streams_stream_state s sid = Some (Closed EndStream)
              \<and> s' = set_state sid (Closed LocalRst) s)"
    by (rule event_follows_diagram [OF assms])
  moreover note goaway_states(1) [of keys s last_id t] goaway_states(2) [of keys s t]
  ultimately show ?thesis by blast
qed

text \<open>A connection with one new request and no body, for the witnesses.\<close>

definition one_request :: "unit Streams" where
  "one_request = Streams_insert (Streams_new 100 100 (FlowControl_new 100 100)) 1
     (Frame_new 1 (FrameFlags 5) (Payload_Headers Parts_new)) None"

theorem streams_follow_diagram_witness:
  "handle_event one_request 1 (SendHeaders True) =
     (set_state 1 (LocalHalfClosed WaitHeaders) one_request, True)
   \<and> (\<exists>st st'. Streams_stream_state one_request 1 = Some st
        \<and> Streams_stream_state (set_state 1 (LocalHalfClosed WaitHeaders) one_request) 1 = Some st'
        \<and> diagram_path [Send_H, Send_ES] (lifecycle st) = Some (lifecycle st'))"
proof -
  have step: "handle_event one_request 1 (SendHeaders True) =
     (set_state 1 (LocalHalfClosed WaitHeaders) one_request, True)"
    by (simp add: one_request_def Streams_send_headers_frame_def Streams_insert_def Stream_new_def)
  from streams_follow_diagram [OF step] step show ?thesis by (simp add: is_reset_def)
qed

end
