(* ===== verification/H2_Manager_Invariant.thy ===== *)
theory H2_Manager_Invariant
  imports H2_Dispatcher H2_Stream_States
begin

text \<open>
  Invariants of the connection manager. The locale \<open>stream_invariant\<close> is the contract between the
  streams and the manager: a property of the streams that every operation of \<open>Streams\<close> keeps is
  kept by every round of the manager's task, as long as the task is not on its way to exit. The
  property may except one stream, the one the manager has taken from the send queue and works on.
\<close>

section \<open>The contract\<close>

definition own_headers :: "'b Streams \<Rightarrow> bool" where
  "own_headers s \<longleftrightarrow>
     (\<forall>sid stream frame. ss_stream_map s sid = Some stream \<longrightarrow> st_header stream = Some frame \<longrightarrow>
        frame_id frame = sid \<and> is_Headers (frame_payload frame))"

definition live :: "('b, 'r, 'c) ConnManager \<Rightarrow> bool" where
  "live m \<longleftrightarrow>
     (case cm_state m of
        Manager_Receive \<Rightarrow> True
      | Manager_Send \<Rightarrow> (case cm_next_state m of Manager_Exit _ \<Rightarrow> False | _ \<Rightarrow> True)
      | Manager_Exit _ \<Rightarrow> False)"

definition good :: "(StreamId option \<Rightarrow> 'b Streams \<Rightarrow> bool) \<Rightarrow> StreamId option \<Rightarrow> ('b, 'r, 'c) ConnManager \<Rightarrow> bool" where
  "good ok h m \<longleftrightarrow> sc_going_away (cm_controller m) = None \<and> ok h (cm_streams m)"

text \<open>A hash map and a hash set are traversed in some order, each entry once.\<close>

definition traversals_ok :: "('b, 'r, 'c) environment \<Rightarrow> bool" where
  "traversals_ok env \<longleftrightarrow>
     (\<forall>m. distinct (env_keys env m) \<and> set (env_keys env m) = dom m)
     \<and> (\<forall>A. distinct (env_elems env A) \<and> set (env_elems env A) = A)"

locale stream_invariant =
  fixes ok :: "StreamId option \<Rightarrow> 'b Streams \<Rightarrow> bool"
    and env :: "('b, 'r, 'c) environment"
  assumes own: "ok h s \<Longrightarrow> own_headers s"
    and request: "ok None s \<Longrightarrow> is_Headers (rq_payload request) \<Longrightarrow> Streams_generate_id s = (s', Ok sid) \<Longrightarrow>
      ok None (enqueue_request s' sid request)"
    and moved: "ok h s \<Longrightarrow> accepted s sid actions s' \<Longrightarrow> ok h s'"
    and closed_early: "ok h s \<Longrightarrow> aborted s sid reason s' \<Longrightarrow> ok h s'"
    and relabelled: "ok h s \<Longrightarrow> Streams_stream_state s sid = Some (Closed EndStream) \<Longrightarrow>
      ok h (set_state sid (Closed LocalRst) s)"
    and ended: "ok (Some sid) s \<Longrightarrow> Streams_stream_state s sid = Some st \<Longrightarrow> \<not> still_sending st \<Longrightarrow> ok None s"
    and limited: "ok None s \<Longrightarrow> ok None (Streams_apply_max_concurrent_streams s num)"
    and send_resized: "traversals_ok env \<Longrightarrow> ok None s \<Longrightarrow> unat n < 2147483648 \<Longrightarrow>
      Streams_apply_send_initial_window_size (env_keys env) (env_elems env) s n = (s', Ok ()) \<Longrightarrow> ok None s'"
    and recv_resized: "ok None s \<Longrightarrow> ok None (Streams_apply_recv_initial_window_size s n)"
    and conn_released: "ok None s \<Longrightarrow> ok None (fst (Streams_release_conn_recv_window (env_send env) s tx n))"
    and stream_released: "ok None s \<Longrightarrow> ok None (fst (Streams_release_stream_recv_window (env_send env) s tx sid n))"
    and conn_credit: "ok None s \<Longrightarrow> unat n < 2147483648 \<Longrightarrow> Streams_increase_conn_send_window s n = (s', Ok ()) \<Longrightarrow>
      ok None (Streams_reassign_conn_send_window s')"
    and stream_credit: "ok None s \<Longrightarrow> unat n < 2147483648 \<Longrightarrow>
      Streams_reassign_stream_send_window s sid n = (s', Ok ()) \<Longrightarrow> ok None s'"
    and unsent: "ok None s \<Longrightarrow> last_id \<le> ss_max_send_id s \<Longrightarrow>
      ok None (fst (Streams_get_unset_streams (env_keys env) (s\<lparr>ss_max_send_id := last_id\<rparr>) last_id))"
    and consumed: "ok None s \<Longrightarrow> ok None (Streams_try_consume_pending_concurrency s)"
    and taken: "ok None s \<Longrightarrow> Streams_next_pending_stream s = (s', Some sid) \<Longrightarrow> ok (Some sid) s'"
    and header_taken: "ok (Some sid) s \<Longrightarrow> ok (Some sid) (fst (Streams_headers s sid))"
    and body_read: "ok (Some sid) s \<Longrightarrow> Streams_poll_read_body (env_poll_body env) s sid = (s', r) \<Longrightarrow>
      ok (if r = Ok Read_Pending then None else Some sid) s'"

section \<open>Frames that leave the streams alone\<close>

lemma going_away_simps [simp]:
  "sc_going_away (cm_controller (set_streams s m)) = sc_going_away (cm_controller m)"
  "sc_going_away (cm_controller (fst (send_input send m frame))) = sc_going_away (cm_controller m)"
  by (simp_all add: set_streams_def send_input_def split: prod.split)

lemma send_input_going:
  "send_input send m frame = (m', r) \<Longrightarrow> sc_going_away (cm_controller m') = sc_going_away (cm_controller m)"
  by (auto simp: send_input_def split: prod.splits)

lemma send_message_to_stream_keeps [simp]:
  "sc_streams (fst (StreamController_send_message_to_stream resp_send c sid message)) = sc_streams c"
  "sc_going_away (fst (StreamController_send_message_to_stream resp_send c sid message)) = sc_going_away c"
  by (simp_all add: StreamController_send_message_to_stream_def split: prod.split poll.split bool.split)

lemma to_stream_keeps [simp]:
  "cm_streams (fst (to_stream resp_send m sid message)) = cm_streams m"
  "sc_going_away (cm_controller (fst (to_stream resp_send m sid message))) = sc_going_away (cm_controller m)"
  "cm_state (fst (to_stream resp_send m sid message)) = cm_state m"
  "cm_next_state (fst (to_stream resp_send m sid message)) = cm_next_state m"
  by (simp_all add: to_stream_def cm_streams_def split_beta)

lemma exit_streams_keeps:
  "exit_streams resp_send error ids m blocked = (m', b) \<Longrightarrow>
     cm_streams m' = cm_streams m \<and> sc_going_away (cm_controller m') = sc_going_away (cm_controller m)
     \<and> cm_state m' = cm_state m \<and> cm_next_state m' = cm_next_state m"
proof (induction ids arbitrary: m blocked)
  case (Cons sid ids)
  obtain m1 r where step: "to_stream resp_send m sid (Resp_OutputExit error) = (m1, r)" by fastforce
  with Cons.prems have "\<exists>b'. exit_streams resp_send error ids m1 b' = (m', b)"
    by (auto split: poll.splits)
  then obtain b' where "exit_streams resp_send error ids m1 b' = (m', b)" ..
  from Cons.IH [OF this] show ?case
    using to_stream_keeps [of resp_send m sid "Resp_OutputExit error"] step by simp
qed simp

lemma exit_streams_fst:
  "cm_streams (fst (exit_streams resp_send error ids m blocked)) = cm_streams m"
  "sc_going_away (cm_controller (fst (exit_streams resp_send error ids m blocked))) = sc_going_away (cm_controller m)"
  using exit_streams_keeps [of resp_send error ids m blocked] by (metis prod.collapse)+

lemma goes_on_simps [simp]:
  "goes_on Pending" "goes_on (Ready (Ok u))" "\<not> goes_on (Ready (Err e))" "\<not> goes_on (Ready Panic)"
  by (simp_all add: goes_on_def)

text \<open>A result that ends the task, or that makes the manager close the connection.\<close>

definition fatal :: "dispatch_poll \<Rightarrow> bool" where
  "fatal r \<longleftrightarrow>
     (case r of
        Ready (Err (Dispatch_H2 (StreamError _ _))) \<Rightarrow> False
      | Ready (Ok _) \<Rightarrow> False
      | Pending \<Rightarrow> False
      | _ \<Rightarrow> True)"

lemma fatal_simps [simp]:
  "\<not> fatal Pending" "\<not> fatal (Ready (Ok u))" "\<not> fatal (Ready (Err (Dispatch_H2 (StreamError sid code))))"
  "fatal (Ready Panic)" "fatal (Ready (Err (Dispatch_H2 (ConnectionError code))))"
  "fatal (Ready (Err ChannelClosed))" "fatal (Ready (Err Disconnect))" "fatal (Ready (Err (Dispatch_Io e)))"
  by (simp_all add: fatal_def)

text \<open>What a handler of a received frame leaves.\<close>

definition handled :: "(StreamId option \<Rightarrow> 'b Streams \<Rightarrow> bool) \<Rightarrow> ('b, 'r, 'c) ConnManager \<times> dispatch_poll \<Rightarrow> bool" where
  "handled ok result \<longleftrightarrow>
     (case result of (m, r) \<Rightarrow> sc_going_away (cm_controller m) = None \<and> (\<not> fatal r \<longrightarrow> ok None (cm_streams m)))"

lemma good_simps [simp]:
  "good ok h (m\<lparr>cm_state := st\<rparr>) = good ok h m" "good ok h (m\<lparr>cm_next_state := st\<rparr>) = good ok h m"
  "good ok h (m\<lparr>cm_input_tx := tx\<rparr>) = good ok h m" "good ok h (m\<lparr>cm_settings := se\<rparr>) = good ok h m"
  "good ok h (m\<lparr>cm_req_closed := b\<rparr>) = good ok h m"
  by (simp_all add: good_def)

lemma good_set_streams [simp]:
  "good ok h (set_streams s m) \<longleftrightarrow> sc_going_away (cm_controller m) = None \<and> ok h s"
  by (simp add: good_def)

lemma good_send_input:
  "send_input send m frame = (m', r) \<Longrightarrow> good ok h m' = good ok h m"
  using send_input_streams [of send m frame] going_away_simps(2) [of send m frame] by (simp add: good_def)

lemma good_to_stream:
  "to_stream resp_send m sid message = (m', r) \<Longrightarrow> good ok h m' = good ok h m"
  using to_stream_keeps(1,2) [of resp_send m sid message] by (simp add: good_def)

section \<open>Errors of the windows\<close>

lemma increase_size_err: "SendWindow_increase_size w n = (w', Err e) \<Longrightarrow> e = ConnectionError FlowControlError"
  by (auto simp: SendWindow_increase_size_def split: prod.splits if_splits)

lemma increase_send_windows_err:
  "increase_send_windows ids n s = (s', Err e) \<Longrightarrow> e = ConnectionError FlowControlError"
  by (induction ids n s rule: increase_send_windows.induct)
    (auto dest: increase_size_err split: option.splits prod.splits rust_result.splits)

lemma peer_settings_err:
  "apply_peer_settings keys elems settings s = (s', Err e) \<Longrightarrow> e = ConnectionError FlowControlError"
proof (induction settings arbitrary: s)
  case (Cons setting settings)
  have "Streams_apply_send_initial_window_size keys elems s n = (s1, Err e) \<Longrightarrow> e = ConnectionError FlowControlError" for n s1
    by (auto simp: Streams_apply_send_initial_window_size_def Let_def dest: increase_send_windows_err
        split: if_splits prod.splits rust_result.splits)
  with Cons show ?case by (auto split: Setting.splits prod.splits rust_result.splits)
qed simp

lemma conn_credit_err:
  "Streams_increase_conn_send_window s n = (s', Err e) \<Longrightarrow> e = ConnectionError FlowControlError"
  by (auto simp: Streams_increase_conn_send_window_def FlowControl_increase_send_size_def
      dest: increase_size_err split: prod.splits)

lemma stream_credit_err:
  "Streams_reassign_stream_send_window s sid n = (s', Err e) \<Longrightarrow> e = ConnectionError FlowControlError"
  by (auto simp: Streams_reassign_stream_send_window_def dest: increase_size_err
      split: option.splits prod.splits rust_result.splits if_splits)

section \<open>Exits\<close>

lemma resp_exit:
  assumes "manage_conn_error resp_send send keys m code = (m', r)" "sc_going_away (cm_controller m) = None" "goes_on r"
  shows "\<not> live m'"
proof -
  let ?p = "\<lparr>goaway_error_code = ErrorCode_into_code code,
     goaway_last_stream_id = ss_latest_remote_id (cm_streams m), goaway_debug_data = []\<rparr>"
  let ?m = "m\<lparr>cm_controller := (cm_controller m)\<lparr>sc_going_away := Some ?p\<rparr>\<rparr>"
  obtain m1 q where send: "send_input send ?m (Frame_new 0 FrameFlags_empty (Payload_Goaway ?p)) = (m1, q)" by fastforce
  show ?thesis
    using assms send
    by (auto simp: manage_conn_error_def Let_def live_def split: rust_result.splits prod.splits bool.splits)
qed

lemma fatal_exit:
  assumes "manage_resp_error resp_send send keys m kind = (m', r)" "sc_going_away (cm_controller m) = None"
    and "fatal (Ready (Err kind))" "goes_on r"
  shows "\<not> live m'"
  using assms resp_exit [of resp_send send keys m _ m' r]
  by (auto simp: manage_resp_error_def live_def split: DispatchErrorKind.splits H2Error.splits prod.splits bool.splits)

lemma diagram_local_end:
  "diagram_path actions a = Some b \<Longrightarrow> a = L_HalfClosedLocal \<or> a = L_Closed \<or> Send_ES \<in> set actions \<Longrightarrow>
     b = L_HalfClosedLocal \<or> b = L_Closed"
proof (induction actions arbitrary: a)
  case (Cons x actions)
  then show ?case
    by (cases x; cases a) (fastforce simp: diagram_def)+
qed simp

lemma accepted_ends:
  assumes "accepted s sid actions s'" "Send_ES \<in> set actions"
  shows "\<exists>st. Streams_stream_state s' sid = Some st \<and> \<not> still_sending st"
proof -
  obtain stream st where st: "ss_stream_map s sid = Some stream" "s' = advance sid st s"
    "diagram_path actions (lifecycle (st_state stream)) = Some (lifecycle st)"
    using assms(1) by (auto simp: accepted_def)
  with diagram_local_end [OF st(3)] assms(2) have "\<not> still_sending st" by (cases st) auto
  with st(1,2) show ?thesis by (simp add: Streams_stream_state_def)
qed

lemma aborted_ends:
  "aborted s sid reason s' \<Longrightarrow> Streams_stream_state s' sid = Some (Closed reason)"
  by (auto simp: aborted_def Streams_stream_state_def close_stream_def)

section \<open>Frames of a stream\<close>

lemma poll_send_frame_accepted:
  assumes "is_Headers (frame_payload frame) \<or> (\<exists>data. frame_payload frame = Payload_Data data)"
    and "poll_send_frame send m frame = (m', Ok u)"
  shows "\<exists>actions. accepted (cm_streams m) (frame_id frame) actions (cm_streams m')
    \<and> (FrameFlags_is_end_stream (frame_flags frame) \<longrightarrow> Send_ES \<in> set actions)
    \<and> sc_going_away (cm_controller m') = sc_going_away (cm_controller m)"
proof -
  let ?eos = "FrameFlags_is_end_stream (frame_flags frame)"
  let ?handle = "if is_Headers (frame_payload frame) then Streams_send_headers_frame else Streams_send_data_frame"
  obtain s r where handle: "?handle (cm_streams m) (frame_id frame) ?eos = (s, r)" by fastforce
  have m': "send_input send (set_streams s m) frame = (m', Ok u)" and r: "\<nexists>e. r = FrameRecv_Err e"
    using assms handle
    by (cases "frame_payload frame"; auto simp: poll_send_frame_def is_Headers_def split: FrameRecvState.splits)+
  have "accepted (cm_streams m) (frame_id frame)
      (event_actions (if is_Headers (frame_payload frame) then SendHeaders ?eos else SendData ?eos)) s"
    using handle r send_headers_cases [of "cm_streams m" "frame_id frame" ?eos s r]
      send_data_cases [of "cm_streams m" "frame_id frame" ?eos s r] by (auto split: if_splits)
  moreover have "cm_streams m' = s" using send_input_streams [of send "set_streams s m" frame] m' by simp
  ultimately show ?thesis using send_input_going [OF m'] by (cases ?eos) (auto split: if_splits)
qed

lemma poll_sized_data_cases:
  assumes "Streams_poll_sized_data poll_body s sid len = (s', r)"
  shows "case r of
      Ok Read_Closed \<Rightarrow> False
    | Ok Read_Pending \<Rightarrow> True
    | Ok (Read_Ready frame) \<Rightarrow> frame_id frame = sid \<and> (\<exists>data. frame_payload frame = Payload_Data data)
    | Ok (Read_Finish frame) \<Rightarrow> frame_id frame = sid \<and> (\<exists>data. frame_payload frame = Payload_Data data)
        \<and> FrameFlags_is_end_stream (frame_flags frame)
    | Err e \<Rightarrow> (\<exists>code. e = ConnectionError code \<or> e = StreamError sid code)
    | Panic \<Rightarrow> False"
  using assms
  by (auto simp: Streams_poll_sized_data_def Frame_new_def FrameFlags_set_end_stream_def FrameFlags_is_end_stream_def
      Let_def split: option.splits prod.splits poll.splits rust_result.splits if_splits)

lemma poll_read_body_cases:
  assumes "Streams_poll_read_body poll_body s sid = (s', r)"
  shows "case r of
      Ok Read_Closed \<Rightarrow> s' = s \<and> (\<exists>reason. Streams_stream_state s sid = Some (Closed reason))
    | Ok Read_Pending \<Rightarrow> True
    | Ok (Read_Ready frame) \<Rightarrow> frame_id frame = sid \<and> (\<exists>data. frame_payload frame = Payload_Data data)
    | Ok (Read_Finish frame) \<Rightarrow> frame_id frame = sid \<and> (\<exists>data. frame_payload frame = Payload_Data data)
        \<and> FrameFlags_is_end_stream (frame_flags frame)
    | Err e \<Rightarrow> (\<exists>code. e = ConnectionError code \<or> e = StreamError sid code)
    | Panic \<Rightarrow> False"
proof (cases "ss_stream_map s sid")
  case None
  with assms show ?thesis by (auto simp: Streams_poll_read_body_def)
next
  case (Some stream)
  show ?thesis
  proof (cases "is_Closed (st_state stream)")
    case True
    with assms Some show ?thesis
      by (auto simp: Streams_poll_read_body_def Streams_stream_state_def is_Closed_def split: H2StreamState.splits)
  next
    case False
    with assms Some consider "r = Ok Read_Pending" | len where "Streams_poll_sized_data poll_body s sid len = (s', r)"
      by (auto simp: Streams_poll_read_body_def Let_def split: if_splits)
    then show ?thesis by cases (use poll_sized_data_cases in \<open>fastforce split: rust_result.splits DataReadState.splits\<close>)+
  qed
qed

context stream_invariant
begin

lemma local_reset:
  assumes "ok h s" "Streams_send_local_reset s sid = (s', r)" "r = StreamEnd_OK \<or> r = StreamEnd_Ignore"
  shows "ok h s' \<and> (h = Some sid \<longrightarrow> ok None s')"
proof -
  have h: "ok h s'"
    using send_reset_cases [OF assms(2)] assms(1,3) closed_early [of h s sid LocalRst s'] relabelled [of h s sid]
    by auto
  have "\<exists>reason. Streams_stream_state s' sid = Some (Closed reason)"
    using send_reset_cases [OF assms(2)] assms(3) aborted_ends [of s sid LocalRst s']
    by (auto simp: Streams_stream_state_def set_state_def map_stream_def)
  with h ended [of sid s'] show ?thesis by auto
qed

lemma stream_error:
  assumes "good ok h m" "manage_stream_error (env_resp_send env) (env_send env) m sid code = (m', r)" "goes_on r"
  shows "good ok h m' \<and> (h = Some sid \<longrightarrow> good ok None m')"
proof -
  obtain s e where reset: "Streams_send_local_reset (cm_streams m) sid = (s, e)" by fastforce
  let ?m = "set_streams s m"
  let ?frame = "Frame_new sid FrameFlags_empty (Payload_RstStream (ErrorCode_into_code code))"
  obtain m1 q where send: "send_input (env_send env) ?m ?frame = (m1, q)" by fastforce
  obtain m2 p where deliver: "to_stream (env_resp_send env) m1 sid
      (Resp_OutputExit (Dispatch_H2 (StreamError sid code))) = (m2, p)" by fastforce
  have e: "e = StreamEnd_OK \<or> e = StreamEnd_Ignore"
    using assms(2,3) reset by (cases e) (auto simp: manage_stream_error_def)
  have "good ok h ?m \<and> (h = Some sid \<longrightarrow> good ok None ?m)"
    using assms(1) local_reset [OF _ reset e] by (auto simp: good_def)
  moreover have "good ok k m' = good ok k ?m" for k
    using assms(2,3) reset send deliver e good_send_input [OF send, of ok k] good_to_stream [OF deliver, of ok k]
    by (cases e; cases q; cases p) (auto simp: manage_stream_error_def)
  ultimately show ?thesis by simp
qed

lemma resp_error:
  assumes "good ok None m" "manage_resp_error (env_resp_send env) (env_send env) (env_keys env) m kind = (m', r)"
    and "goes_on r" "live m'"
  shows "good ok None m'"
proof (cases "fatal (Ready (Err kind))")
  case True
  with fatal_exit [OF assms(2) _ True assms(3)] assms(1,4) show ?thesis by (simp add: good_def)
next
  case False
  then obtain sid code where "kind = Dispatch_H2 (StreamError sid code)"
    by (auto simp: fatal_def split: DispatchErrorKind.splits H2Error.splits)
  with assms stream_error [OF assms(1)] show ?thesis by (auto simp: manage_resp_error_def)
qed

lemma acknowledged: "ok None s \<Longrightarrow> ok None (apply_acknowledged settings s)"
  by (induction settings s rule: apply_acknowledged.induct) (auto simp: recv_resized split: Setting.split)

lemma peer_settings:
  "traversals_ok env \<Longrightarrow> ok None s \<Longrightarrow> list_all setting_in_range settings \<Longrightarrow>
     apply_peer_settings (env_keys env) (env_elems env) settings s = (s', Ok u) \<Longrightarrow> ok None s'"
proof (induction settings arbitrary: s)
  case (Cons setting settings)
  obtain s1 r where resize: "Streams_apply_send_initial_window_size (env_keys env) (env_elems env) s n = (s1, r)"
    if "setting = InitialWindowSize n" for n by (cases setting) fastforce+
  show ?case
  proof (cases setting)
    case (InitialWindowSize n)
    with Cons.prems resize [OF this] have "r = Ok ()"
      and rest: "apply_peer_settings (env_keys env) (env_elems env) settings s1 = (s', Ok u)"
      by (auto split: rust_result.splits)
    with Cons.prems(1-3) resize InitialWindowSize have "ok None s1"
      by (auto simp: setting_in_range_def intro: send_resized)
    with Cons.IH rest Cons.prems(1,3) show ?thesis by simp
  qed (use Cons limited in auto)
qed simp

lemma settings_frame:
  assumes "good ok None m" "frame_in_range frame" "traversals_ok env"
  shows "handled ok (case recv_settings_frame (env_send env) (env_keys env) (env_elems env) m frame of (m, r) \<Rightarrow> (m, Ready r))"
proof (cases "\<exists>settings. frame_payload frame = Payload_Settings settings")
  case True
  then obtain settings where settings: "frame_payload frame = Payload_Settings settings" ..
  obtain s r where peer: "apply_peer_settings (env_keys env) (env_elems env) settings (cm_streams m) = (s, r)" by fastforce
  obtain m1 q where send: "send_input (env_send env) (set_streams s m)
      (Frame_new (frame_id frame) (FrameFlags 1) (frame_payload frame)) = (m1, q)" by fastforce
  have "ok None s" if "r = Ok ()"
    using peer_settings [of "cm_streams m" settings s "()"] peer that assms settings
    by (simp add: good_def frame_in_range_def)
  moreover have "x = ConnectionError FlowControlError" if "r = Err x" for x
    using peer_settings_err peer that by blast
  moreover have "sc_going_away (cm_controller m1) = None"
    using send_input_going [OF send] assms(1) by (simp add: good_def)
  ultimately show ?thesis
    using assms settings peer send good_send_input [OF send, of ok None]
    by (cases r) (auto simp: recv_settings_frame_def handled_def good_def acknowledged Let_def split: SettingsState.splits)
next
  case False
  with assms(1) show ?thesis
    by (cases "frame_payload frame") (simp_all add: recv_settings_frame_def handled_def good_def)
qed

lemma ping_frame:
  assumes "good ok None m"
  shows "handled ok (case recv_ping_frame (env_send env) m frame of (m, r) \<Rightarrow> (m, Ready r))"
  using assms by (simp add: recv_ping_frame_def handled_def good_def split_beta split: Payload.split)

lemma go_away_frame:
  assumes "good ok None m"
  shows "handled ok (case recv_go_away_frame (env_resp_send env) (env_keys env) m frame of (m, r) \<Rightarrow> (m, into_dispatch r))"
proof (cases "frame_payload frame")
  case (Payload_Goaway go_away)
  let ?m = "m\<lparr>cm_controller := StreamController_goaway (cm_controller m), cm_req_closed := True\<rparr>"
  obtain c r where unsent_ids: "StreamController_get_unsent_streams (env_keys env) (cm_controller ?m)
      (goaway_last_stream_id go_away) = (c, r)" by fastforce
  let ?m1 = "?m\<lparr>cm_controller := c\<rparr>"
  have c: "good ok None ?m1" 
    using assms unsent_ids unsent [of "cm_streams m" "goaway_last_stream_id go_away"]
    by (auto simp: StreamController_get_unsent_streams_def StreamController_goaway_def good_def cm_streams_def Let_def
        not_less split: if_splits prod.splits)
  show ?thesis
  proof (cases r)
    case (Ok ids)
    with Payload_Goaway c unsent_ids show ?thesis
      by (cases "ErrorCode_try_from (goaway_error_code go_away)")
        (simp_all add: recv_go_away_frame_def handled_def good_def exit_streams_fst [unfolded cm_streams_def]
          cm_streams_def Let_def split_beta)
  qed (use Payload_Goaway c unsent_ids in \<open>simp_all add: recv_go_away_frame_def handled_def good_def Let_def\<close>)
qed (use assms in \<open>simp_all add: recv_go_away_frame_def handled_def good_def\<close>)

lemma received:
  assumes "ok None s"
  shows "ok None (fst (Streams_recv_remote_reset s sid))" "ok None (fst (Streams_recv_headers s sid eos))"
    "ok None (fst (Streams_recv_data s sid eos))"
  using assms recv_reset_cases [of s sid] recv_headers_cases [of s sid eos] recv_data_cases [of s sid eos]
    closed_early [of None s sid RemoteRst] moved [of None s sid]
  by (metis prod.collapse)+

lemma stream_frames:
  assumes "good ok None m"
  shows "handled ok (case recv_reset_frame (env_resp_send env) m frame of (m, r) \<Rightarrow> (m, into_dispatch r))"
    "handled ok (case recv_header_frame (env_resp_send env) m frame of (m, r) \<Rightarrow> (m, into_dispatch r))"
  using assms received [of "cm_streams m" "frame_id frame"]
  by (simp_all add: recv_reset_frame_def recv_header_frame_def handled_def good_def split_beta
      split: StreamEndState.split FrameRecvState.split)

lemma window_updated:
  assumes "good ok None m"
  shows "good ok None (fst (update_window (env_send env) m sid n))"
  using assms conn_released [of "cm_streams m" "cm_input_tx m" n] stream_released
  by (simp add: update_window_def split_beta good_def split: rust_result.split)

lemma data_frame:
  assumes "good ok None m"
  shows "handled ok (recv_data_frame (env_resp_send env) (env_send env) m frame)"
proof (cases "frame_payload frame")
  case (Payload_Data data)
  obtain m1 r where update: "update_window (env_send env) m (frame_id frame) (word_of_nat (length data)) = (m1, r)"
    by fastforce
  with window_updated [OF assms, of "frame_id frame" "word_of_nat (length data)"] have "good ok None m1" by simp
  with received [of "cm_streams m1" "frame_id frame"] Payload_Data update show ?thesis
    by (cases r) (simp_all add: recv_data_frame_def handled_def good_def split_beta split: FrameRecvState.split)
qed (use assms in \<open>simp_all add: recv_data_frame_def handled_def good_def\<close>)

lemma window_frame:
  assumes "good ok None m" "frame_in_range frame"
  shows "handled ok (case recv_window_frame m frame of (m, r) \<Rightarrow> (m, Ready r))"
proof (cases "frame_payload frame")
  case (Payload_WindowUpdate n)
  obtain s r where conn: "Streams_increase_conn_send_window (cm_streams m) n = (s, r)" by fastforce
  obtain t q where stream: "Streams_reassign_stream_send_window (cm_streams m) (frame_id frame) n = (t, q)" by fastforce
  have "r = Ok () \<Longrightarrow> ok None (Streams_reassign_conn_send_window s)" "q = Ok () \<Longrightarrow> ok None t"
    using assms conn stream conn_credit [of "cm_streams m" n s] stream_credit [of "cm_streams m" n "frame_id frame" t]
      Payload_WindowUpdate by (simp_all add: good_def frame_in_range_def)
  moreover have "\<And>e. r = Err e \<Longrightarrow> e = ConnectionError FlowControlError" "\<And>e. q = Err e \<Longrightarrow> e = ConnectionError FlowControlError"
    using conn_credit_err stream_credit_err conn stream by blast+
  ultimately show ?thesis
    using assms(1) Payload_WindowUpdate conn stream
    by (cases r; cases q) (auto simp: recv_window_frame_def handled_def good_def)
qed (use assms in \<open>simp_all add: recv_window_frame_def handled_def good_def\<close>)

lemma frame_handled:
  assumes "good ok None m" "frame_in_range frame" "traversals_ok env"
  shows "handled ok (poll_recv_frame (env_resp_send env) (env_send env) (env_keys env) (env_elems env) m frame)"
  using assms settings_frame ping_frame go_away_frame stream_frames data_frame window_frame
  by (cases "frame_payload frame") (simp_all add: poll_recv_frame_def handled_def good_def)

lemma message_handled:
  assumes "good ok None m" "frame_in_range frame" "traversals_ok env"
    and "poll_recv_message (env_resp_send env) (env_send env) (env_keys env) (env_elems env) m frame = (m', r)"
    and "goes_on r" "live m'"
  shows "good ok None m'"
proof -
  obtain m1 q where recv: "poll_recv_frame (env_resp_send env) (env_send env) (env_keys env) (env_elems env) m frame = (m1, q)"
    by fastforce
  have going: "sc_going_away (cm_controller m1) = None" and ok: "\<not> fatal q \<Longrightarrow> good ok None m1"
    using frame_handled [OF assms(1-3)] recv by (simp_all add: handled_def good_def)
  show ?thesis
  proof (cases "\<exists>e. q = Ready (Err e)")
    case True
    then obtain e where q: "q = Ready (Err e)" ..
    with recv assms(4) have err: "manage_resp_error (env_resp_send env) (env_send env) (env_keys env) m1 e = (m', r)"
      by (simp add: poll_recv_message_def)
    show ?thesis
    proof (cases "fatal q")
      case True
      with fatal_exit [OF err going _ assms(5)] assms(6) q show ?thesis by simp
    next
      case False
      from resp_error [OF ok [OF False] err assms(5,6)] show ?thesis .
    qed
  next
    case False
    with recv assms ok show ?thesis
      by (auto simp: poll_recv_message_def split: poll.splits rust_result.splits)
  qed
qed

section \<open>Sending\<close>

lemma requests_accepted:
  "good ok None m \<Longrightarrow> list_all (\<lambda>request. is_Headers (rq_payload request)) requests \<Longrightarrow>
     good ok None (fst (poll_recv_request m requests closed))"
proof (induction requests arbitrary: m)
  case (Cons q requests)
  obtain m1 b where accept: "accept_request m q = (m1, b)" by fastforce
  have "good ok None m1"
    using accept Cons.prems request [of "cm_streams m" q]
    by (auto simp: accept_request_def good_def cm_streams_def Let_def split: prod.splits rust_result.splits)
  with accept Cons show ?case by (cases b) simp_all
qed simp

lemma frame_sent:
  assumes "good ok (Some sid) m" "frame_id frame = sid"
    and "is_Headers (frame_payload frame) \<or> (\<exists>data. frame_payload frame = Payload_Data data)"
    and "poll_send_frame (env_send env) m frame = (m', Ok u)"
  shows "good ok (Some sid) m' \<and> (FrameFlags_is_end_stream (frame_flags frame) \<longrightarrow> good ok None m')"
proof -
  obtain actions where sent: "accepted (cm_streams m) sid actions (cm_streams m')"
    "FrameFlags_is_end_stream (frame_flags frame) \<longrightarrow> Send_ES \<in> set actions"
    "sc_going_away (cm_controller m') = sc_going_away (cm_controller m)"
    using poll_send_frame_accepted [OF assms(3,4)] assms(2) by auto
  from moved [OF _ sent(1), of "Some sid"] assms(1) sent(3) have "good ok (Some sid) m'" by (simp add: good_def)
  with sent(2) accepted_ends [OF sent(1)] ended [of sid "cm_streams m'"] show ?thesis by (auto simp: good_def)
qed

lemma body_sent:
  "good ok (Some sid) m \<Longrightarrow>
     input_body (env_poll_body env) (env_resp_send env) (env_send env) m sid = (m', Ok u) \<Longrightarrow> good ok None m'"
proof (induction "env_poll_body env" "env_resp_send env" "env_send env" m sid rule: input_body.induct)
  case (1 m sid)
  obtain s r where read: "Streams_poll_read_body (env_poll_body env) (cm_streams m) sid = (s, r)" by fastforce
  have s: "good ok (if r = Ok Read_Pending then None else Some sid) (set_streams s m)"
    using body_read [OF _ read] "1.prems"(1) by (simp add: good_def)
  note loop = "1.prems"(2) [unfolded input_body.simps [of _ _ _ m], unfolded read]
  note cases = poll_read_body_cases [OF read]
  show ?case
  proof (cases r)
    case (Ok state)
    show ?thesis
    proof (cases state)
      case Read_Closed
      with Ok cases s loop ended [of sid s] show ?thesis by (auto simp: good_def)
    next
      case Read_Pending
      with Ok s loop show ?thesis by auto
    next
      case (Read_Ready frame)
      obtain m1 q where send: "poll_send_frame (env_send env) (set_streams s m) frame = (m1, q)" by fastforce
      with Ok Read_Ready loop have q: "q = Ok ()" by (cases q) simp_all
      with frame_sent [of sid "set_streams s m" frame m1] send Ok Read_Ready cases s have "good ok (Some sid) m1" by simp
      with "1.hyps" read send q Ok Read_Ready loop show ?thesis by simp
    next
      case (Read_Finish frame)
      with frame_sent [of sid "set_streams s m" frame m'] Ok cases s loop show ?thesis by simp
    qed
  next
    case (Err e)
    with cases loop obtain code m1 q where e: "e = StreamError sid code"
      and error: "manage_stream_error (env_resp_send env) (env_send env) (set_streams s m) sid code = (m1, q)"
      and q: "goes_on q" and m1: "m' = m1"
      by (fastforce simp: deal_poll_body_error_def split: prod.splits poll.splits H2Error.splits)
    with stream_error [OF _ error q, of "Some sid"] s Err show ?thesis by simp
  qed (use loop in simp)
qed

lemma stream_sent:
  assumes "good ok (Some sid) m"
    and "input_stream_frame (env_poll_body env) (env_resp_send env) (env_send env) m sid = (m', Ok u)"
  shows "good ok None m'"
proof -
  obtain s r where header: "Streams_headers (cm_streams m) sid = (s, r)" by fastforce
  have s: "good ok (Some sid) (set_streams s m)"
    using header_taken [of sid "cm_streams m"] header assms(1) by (simp add: good_def)
  show ?thesis
  proof (cases "\<exists>frame. r = Ok (Some frame)")
    case True
    then obtain frame where r: "r = Ok (Some frame)" ..
    with header own [of "Some sid" "cm_streams m"] assms(1)
    have frame: "frame_id frame = sid" "is_Headers (frame_payload frame)"
      by (auto simp: Streams_headers_def own_headers_def good_def split: option.splits if_splits)
    obtain m1 q where send: "poll_send_frame (env_send env) (set_streams s m) frame = (m1, q)" by fastforce
    with assms(2) header r have q: "q = Ok ()" by (cases q) (simp_all add: input_stream_frame_def)
    with frame_sent [OF s frame(1) _ send [unfolded q]] frame(2)
    have "good ok (Some sid) m1" "FrameFlags_is_end_stream (frame_flags frame) \<longrightarrow> good ok None m1" by simp_all
    with assms(2) header r send q body_sent [of sid m1 m' u] show ?thesis
      by (auto simp: input_stream_frame_def split: if_splits)
  next
    case False
    with assms(2) header body_sent [OF s, of m' u] show ?thesis
      by (auto simp: input_stream_frame_def split: rust_result.splits option.splits)
  qed
qed

lemma pending_sent:
  "good ok None m \<Longrightarrow>
     input_pending (env_poll_body env) (env_resp_send env) (env_send env) n m = (m', Ok u) \<Longrightarrow> good ok None m'"
proof (induction n arbitrary: m)
  case (Suc n)
  obtain s h where pop: "Streams_next_pending_stream (cm_streams m) = (s, h)" by fastforce
  show ?case
  proof (cases h)
    case None
    with pop have "s = cm_streams m" by (auto simp: Streams_next_pending_stream_def split: list.splits)
    with None pop Suc.prems show ?thesis by (auto simp: good_def)
  next
    case (Some sid)
    with pop taken [of "cm_streams m" s sid] Suc.prems(1) have s: "good ok (Some sid) (set_streams s m)"
      by (simp add: good_def)
    obtain m1 r where send: "input_stream_frame (env_poll_body env) (env_resp_send env) (env_send env) (set_streams s m) sid = (m1, r)"
      by fastforce
    with Suc.prems(2) pop Some have r: "r = Ok ()" by (cases r) simp_all
    with stream_sent [OF s, of m1 "()"] send have "good ok None m1" by simp
    with Suc.IH [of m1] Suc.prems(2) pop Some send r show ?thesis by simp
  qed
qed simp

lemma idle_handled:
  assumes "good ok None m" "list_all (\<lambda>request. is_Headers (rq_payload request)) requests"
    and "manage_pending_state (env_poll_body env) (env_resp_send env) (env_send env) (env_keys env) m requests closed = (m', r)"
    and "goes_on r"
  shows "good ok None m'"
proof (cases "sc_go_away_error_code (cm_controller m)")
  case None
  obtain m1 q where recv: "poll_recv_request m requests closed = (m1, q)" by fastforce
  with requests_accepted [OF assms(1,2), of closed] have "good ok None m1" by simp
  then have m2: "good ok None (set_streams (Streams_try_consume_pending_concurrency (cm_streams m1)) m1)"
    using consumed by (simp add: good_def)
  with None recv assms(3,4) pending_sent [OF m2, of _ m' "()"] show ?thesis
    by (auto simp: manage_pending_state_def poll_input_request_def Let_def split: prod.splits rust_result.splits)
next
  case (Some code)
  with assms(1,3,4) show ?thesis
    by (auto simp: manage_pending_state_def poll_deal_with_go_away_def Let_def
        split: prod.splits rust_result.splits if_splits)
qed

lemma reset_in_blocked:
  assumes "ok None s" "Streams_stream_state s sid = Some st" "\<not> is_Closed st"
  shows "ok None (fst (Streams_send_local_reset s sid))"
proof -
  obtain s' r where reset: "Streams_send_local_reset s sid = (s', r)" by fastforce
  with send_reset_cases [OF reset] assms(2,3) have "r = StreamEnd_OK" by (auto simp: Streams_stream_state_def)
  with local_reset [OF assms(1) reset] reset show ?thesis by simp
qed

lemma blocked_loop_keeps:
  "ok None (sc_streams c) \<Longrightarrow> blocked_loop (env_resp_send env) (env_send env) ids c tx b = (c', tx', b') \<Longrightarrow>
     ok None (sc_streams c') \<and> sc_going_away c' = sc_going_away c"
proof (induction ids arbitrary: c tx b)
  case (Cons key ids)
  show ?case
  proof (cases "sc_curr_message c key")
    case None
    with Cons show ?thesis by simp
  next
    case (Some message)
    obtain r p where deliver: "env_resp_send env (sc_channels c) key message = (r, p)" by fastforce
    show ?thesis
    proof (cases "p = Ready False")
      case False
      with Cons.prems Some deliver show ?thesis
        by (auto split: poll.splits bool.splits dest!: Cons.IH [rotated])
    next
      case True
      let ?c = "c\<lparr>sc_channels := r, sc_curr_message := (sc_curr_message c)(key := None), sc_senders := sc_senders c - {key}\<rparr>"
      obtain s e where reset: "Streams_send_local_reset (sc_streams c) key = (s, e)" by fastforce
      show ?thesis
      proof (cases "\<exists>st. Streams_stream_state (sc_streams c) key = Some st \<and> \<not> is_Closed st")
        case open_stream: True
        with reset_in_blocked [of "sc_streams c" key] reset Cons.prems(1) have "ok None s" by auto
        with True Cons.prems Some deliver open_stream reset Cons.IH [of "?c\<lparr>sc_streams := s\<rparr>"] show ?thesis
          by (cases e) (auto simp: Let_def)
      next
        case closed_stream: False
        with True Cons.prems Some deliver Cons.IH [of ?c] show ?thesis
          by (auto simp: Let_def split: option.splits)
      qed
    qed
  qed
qed simp

lemma step_keeps:
  assumes "manager_step env m e m'" "event_in_range e" "live m \<longrightarrow> good ok None m" "live m'" "traversals_ok env"
  shows "good ok None m'"
  using assms
proof (cases rule: manager_step.cases)
  case (blocked r)
  obtain c tx p where poll: "StreamController_poll_blocked_message (env_resp_send env) (env_send env)
      (env_message_keys env) (cm_controller m) (cm_input_tx m) = (c, tx, p)" by (rule prod_cases3)
  obtain c1 tx1 b where loop: "blocked_loop (env_resp_send env) (env_send env)
      (env_message_keys env (sc_curr_message (cm_controller m))) (cm_controller m) (cm_input_tx m) False = (c1, tx1, b)"
    by (rule prod_cases3)
  with poll have "c1 = c" by (simp add: StreamController_poll_blocked_message_def)
  have "live m" using blocked assms(4) poll
    by (auto simp: poll_blocked_frames_def live_def split: poll.splits ManagerState.splits)
  with assms(3) have "good ok None m" by simp
  then have "ok None (sc_streams c) \<and> sc_going_away c = None"
    using blocked_loop_keeps [OF _ loop] \<open>c1 = c\<close> by (simp add: good_def cm_streams_def)
  with blocked poll show ?thesis
    by (auto simp: poll_blocked_frames_def good_def cm_streams_def split: poll.splits)
next
  case (frame f r)
  with assms message_handled [of m f m' r] show ?thesis by (simp add: live_def event_in_range_def)
next
  case (ignored k)
  with assms show ?thesis by (simp add: live_def)
next
  case (error k r)
  with assms resp_error [of m k m' r] show ?thesis by (simp add: live_def)
next
  case (closed r)
  with assms(4) show ?thesis
    by (auto simp: poll_channel_closed_exit_def live_def split: prod.splits bool.splits)
next
  case (idle requests closed r)
  with assms idle_handled [of m requests closed m' r] show ?thesis by (simp add: live_def event_in_range_def)
next
  case (settings_sent settings)
  with assms show ?thesis by (cases "cm_state m") (simp_all add: live_def good_def cm_streams_def)
qed

lemma run_keeps:
  assumes "manager_run env m es m'" "list_all event_in_range es" "good ok None m" "live m'" "traversals_ok env"
  shows "good ok None m'"
proof -
  from assms(1-3) have "live m' \<longrightarrow> good ok None m'"
  proof (induction rule: manager_run.induct)
    case (next_round m es m1 e m2)
    then show ?case using step_keeps [of m1 e m2] assms(5) by simp
  qed simp
  with assms(4) show ?thesis by simp
qed

end

end
