(* ===== verification/H2_Calm.thy ===== *)
theory H2_Calm
  imports H2_Manager_Invariant
begin

text \<open>
  What the operations of the streams do to the identifiers, the queues and the unsent headers: the
  facts that every invariant of the manager is built on.
\<close>

section \<open>Maps related key by key\<close>

lemma rel_option_none: "rel_option R a b \<Longrightarrow> a = None \<longleftrightarrow> b = None"
  by (auto elim: option.rel_cases)

lemma rel_maps_dom: "(\<And>k. rel_option R (m k) (m' k)) \<Longrightarrow> dom m' = dom m"
  by (intro set_eqI) (metis domIff rel_option_none)

lemma rel_option_compose:
  "rel_option R a b \<Longrightarrow> rel_option R b c \<Longrightarrow> (\<And>x y z. R x y \<Longrightarrow> R y z \<Longrightarrow> R x z) \<Longrightarrow> rel_option R a c"
  by (cases a; cases b; cases c) auto

section \<open>Identifiers, queues and headers\<close>

definition queue_ids :: "'b Streams \<Rightarrow> StreamId set" where
  "queue_ids s =
     set (ss_pending_concurrency s) \<union> ss_pending_stream_window s \<union> set (ss_pending_conn_window s)
       \<union> set (ss_pending_send s)"

lemma queue_ids_next [simp]: "queue_ids (s\<lparr>ss_next_stream_id := n\<rparr>) = queue_ids s"
  by (simp add: queue_ids_def)

definition ids_ok :: "'b Streams \<Rightarrow> bool" where
  "ids_ok s \<longleftrightarrow>
     odd (uint (ss_next_stream_id s)) \<and> ss_next_stream_id s \<le> 2147483647
     \<and> (\<forall>sid \<in> dom (ss_stream_map s). odd (uint sid) \<and> sid < ss_next_stream_id s)
     \<and> queue_ids s \<subseteq> dom (ss_stream_map s)"

definition base_ok :: "'b Streams \<Rightarrow> bool" where
  "base_ok s \<longleftrightarrow> ids_ok s \<and> own_headers s"

text \<open>
  A calm operation leaves the identifiers, the queues and the send windows alone: it may close
  streams, drop unsent headers and end the sending of a stream, and nothing else of these.
\<close>

definition calm_stream :: "'b Stream \<Rightarrow> 'b Stream \<Rightarrow> bool" where
  "calm_stream x y \<longleftrightarrow>
     st_send_window y = st_send_window x \<and> (st_header y = st_header x \<or> st_header y = None)
     \<and> (still_sending (st_state y) \<longrightarrow> still_sending (st_state x))
     \<and> (is_Closed (st_state x) \<longrightarrow> is_Closed (st_state y))"

definition calm :: "'b Streams \<Rightarrow> 'b Streams \<Rightarrow> bool" where
  "calm s s' \<longleftrightarrow>
     ss_next_stream_id s' = ss_next_stream_id s
     \<and> ss_pending_concurrency s' = ss_pending_concurrency s
     \<and> ss_pending_stream_window s' = ss_pending_stream_window s
     \<and> ss_pending_conn_window s' = ss_pending_conn_window s
     \<and> ss_pending_send s' = ss_pending_send s
     \<and> ss_stream_send_window_size s' = ss_stream_send_window_size s
     \<and> fc_send_window (ss_flow_control s') = fc_send_window (ss_flow_control s)
     \<and> (\<forall>sid. rel_option calm_stream (ss_stream_map s sid) (ss_stream_map s' sid))"

lemma calm_stream_refl [simp]: "calm_stream x x"
  by (simp add: calm_stream_def)

lemma calm_stream_trans: "calm_stream x y \<Longrightarrow> calm_stream y z \<Longrightarrow> calm_stream x z"
  by (auto simp: calm_stream_def)

lemma calm_refl [simp]: "calm s s"
  by (simp add: calm_def option.rel_refl)

lemma calm_trans:
  assumes "calm s s1" "calm s1 s2"
  shows "calm s s2"
proof -
  have "rel_option calm_stream (ss_stream_map s sid) (ss_stream_map s2 sid)" for sid
    by (rule rel_option_compose [of _ _ "ss_stream_map s1 sid"])
      (use assms in \<open>auto simp: calm_def intro: calm_stream_trans\<close>)
  with assms show ?thesis by (simp add: calm_def)
qed

lemma calm_map_stream:
  assumes "\<And>x. ss_stream_map s sid = Some x \<Longrightarrow> calm_stream x (f x)"
  shows "calm s (map_stream sid f s)"
  using assms by (auto simp: calm_def map_stream_def option.rel_map option.rel_refl rel_option_iff split: option.split)

lemma calm_map_streams:
  assumes "\<And>x. calm_stream x (f x)"
  shows "calm s (map_streams f s)"
  using assms by (auto simp: calm_def map_streams_def rel_option_iff split: option.split)

lemma calm_fields:
  "calm s (s\<lparr>ss_current_concurrent_streams := n\<rparr>)" "calm s (s\<lparr>ss_max_concurrent_streams := n\<rparr>)"
  "calm s (s\<lparr>ss_stream_recv_window_size := n\<rparr>)" "calm s (s\<lparr>ss_max_send_id := n\<rparr>)"
  "calm s (s\<lparr>ss_flow_control := (ss_flow_control s)\<lparr>fc_recv_window := w\<rparr>\<rparr>)"
  by (simp_all add: calm_def option.rel_refl)

section \<open>Calm operations\<close>

lemma calm_decrease: "calm s (Streams_decrease_current_concurrency s)"
  by (simp add: Streams_decrease_current_concurrency_def calm_fields)

lemma calm_accepted:
  assumes "accepted s sid actions s'"
  shows "calm s s'"
proof -
  obtain stream st where s': "s' = advance sid st s" and st: "ss_stream_map s sid = Some stream"
    "\<not> is_Closed (st_state stream)" "still_sending st \<longrightarrow> still_sending (st_state stream)"
    using assms by (auto simp: accepted_def)
  have "calm s (set_state sid st s)"
    using st unfolding set_state_def by (intro calm_map_stream) (auto simp: calm_stream_def)
  with calm_trans [OF this calm_decrease] s' show ?thesis by (auto simp: advance_def)
qed

lemma calm_close: "calm_stream x (close_stream reason x)"
  by (simp add: calm_stream_def close_stream_def)

lemma calm_aborted: "aborted s sid reason s' \<Longrightarrow> calm s s'"
  by (auto simp: aborted_def abort_def calm_close intro!: calm_trans [OF _ calm_decrease] calm_map_stream)

lemma calm_relabelled:
  "Streams_stream_state s sid = Some (Closed EndStream) \<Longrightarrow> calm s (set_state sid (Closed LocalRst) s)"
  by (auto simp: set_state_def Streams_stream_state_def calm_stream_def intro!: calm_map_stream)

lemma calm_limited: "calm s (Streams_apply_max_concurrent_streams s num)"
  by (simp add: Streams_apply_max_concurrent_streams_def calm_fields)

lemma calm_recv_resized: "calm s (Streams_apply_recv_initial_window_size s n)"
  by (auto simp: Streams_apply_recv_initial_window_size_def calm_stream_def Let_def calm_fields
      intro!: calm_trans [OF calm_fields(3) calm_map_streams])

lemma calm_conn_released: "calm s (fst (Streams_release_conn_recv_window send s tx n))"
  by (auto simp: Streams_release_conn_recv_window_def FlowControl_recv_data_def
      FlowControl_check_conn_recv_window_update_def Let_def calm_fields split: prod.split option.split)

lemma calm_stream_released: "calm s (fst (Streams_release_stream_recv_window send s tx sid n))"
  by (auto simp: Streams_release_stream_recv_window_def calm_stream_def Let_def
      intro!: calm_map_stream calm_trans [OF calm_map_stream calm_map_stream] split: prod.split option.split)

definition unset_one :: "StreamId \<Rightarrow> 'b Stream \<Rightarrow> 'b Streams \<Rightarrow> 'b Streams" where
  "unset_one sid stream s =
     (case st_state stream of
        Closed _ \<Rightarrow> s
      | Idle \<Rightarrow> map_stream sid (close_stream RemoteGoAway) s
      | _ \<Rightarrow> map_stream sid (close_stream RemoteGoAway) (Streams_decrease_current_concurrency s))"

lemma unset_loop_Cons:
  "unset_loop (sid # rest) last_id s ids =
     (case ss_stream_map s sid of
        None \<Rightarrow> unset_loop rest last_id s ids
      | Some stream \<Rightarrow>
          if sid > last_id then unset_loop rest last_id (unset_one sid stream s) (ids @ [sid])
          else unset_loop rest last_id s ids)"
  unfolding unset_loop.simps unset_one_def Let_def ..

lemma calm_unset_one: "calm s (unset_one sid stream s)"
proof -
  have "calm s (map_stream sid (close_stream RemoteGoAway) s)"
    by (rule calm_map_stream) (rule calm_close)
  moreover have "calm s (map_stream sid (close_stream RemoteGoAway) (Streams_decrease_current_concurrency s))"
    by (rule calm_trans [OF calm_decrease calm_map_stream]) (rule calm_close)
  ultimately show ?thesis by (cases "st_state stream") (simp_all add: unset_one_def)
qed

lemma calm_unset_loop: "calm s (fst (unset_loop rest last_id s ids))"
proof (induction rest arbitrary: s ids)
  case (Cons sid rest)
  have "calm s (fst (unset_loop rest last_id (unset_one sid stream s) (ids @ [sid])))" for stream
    by (rule calm_trans [OF calm_unset_one Cons.IH])
  with Cons.IH show ?case by (simp add: unset_loop_Cons del: unset_loop.simps split: option.split)
qed simp

lemma calm_unsent: "calm s (fst (Streams_get_unset_streams keys (s\<lparr>ss_max_send_id := n\<rparr>) n))"
  unfolding Streams_get_unset_streams_def by (rule calm_trans [OF calm_fields(4) calm_unset_loop])

lemma calm_headers: "calm s (fst (Streams_headers s sid))"
  by (auto simp: Streams_headers_def calm_stream_def intro!: calm_map_stream split: option.split)

lemmas calm_laws = calm_accepted calm_aborted calm_relabelled calm_limited calm_recv_resized
  calm_conn_released calm_stream_released calm_unsent calm_headers

lemma calm_stream_map:
  assumes "calm s s'" "ss_stream_map s' sid = Some y"
  obtains x where "ss_stream_map s sid = Some x" "calm_stream x y"
  using assms unfolding calm_def by (metis option_rel_Some2)

lemma calm_dom: "calm s s' \<Longrightarrow> dom (ss_stream_map s') = dom (ss_stream_map s)"
  by (rule rel_maps_dom [of calm_stream]) (simp add: calm_def)

lemma calm_queues: "calm s s' \<Longrightarrow> queue_ids s' = queue_ids s"
  by (simp add: calm_def queue_ids_def)

lemma calm_base:
  assumes "calm s s'" "base_ok s"
  shows "base_ok s'"
proof -
  have "own_headers s'"
    unfolding own_headers_def
  proof (intro allI impI)
    fix sid y frame
    assume y: "ss_stream_map s' sid = Some y" "st_header y = Some frame"
    from calm_stream_map [OF assms(1) y(1)] obtain x where x: "ss_stream_map s sid = Some x" "calm_stream x y" .
    with y(2) have "st_header x = Some frame" by (auto simp: calm_stream_def)
    with assms(2) x(1) show "frame_id frame = sid \<and> is_Headers (frame_payload frame)"
      by (auto simp: base_ok_def own_headers_def)
  qed
  moreover have "ss_next_stream_id s' = ss_next_stream_id s" using assms(1) by (simp add: calm_def)
  ultimately show ?thesis
    using assms(2) by (simp add: base_ok_def ids_ok_def calm_dom [OF assms(1)] calm_queues [OF assms(1)])
qed

section \<open>Operations on the send windows and the queues\<close>

text \<open>What crediting or resizing send windows keeps: all but the windows and the send queue.\<close>

definition regrouped :: "'b Streams \<Rightarrow> 'b Streams \<Rightarrow> bool" where
  "regrouped s s' \<longleftrightarrow>
     ss_next_stream_id s' = ss_next_stream_id s \<and> queue_ids s' = queue_ids s
     \<and> (\<forall>sid. rel_option (\<lambda>x y. st_state y = st_state x \<and> st_header y = st_header x)
          (ss_stream_map s sid) (ss_stream_map s' sid))"

lemma regrouped_stream_map:
  assumes "regrouped s s'" "ss_stream_map s' sid = Some y"
  obtains x where "ss_stream_map s sid = Some x" "st_state y = st_state x" "st_header y = st_header x"
  using assms unfolding regrouped_def by (metis (mono_tags, lifting) option_rel_Some2)

lemma regrouped_dom: "regrouped s s' \<Longrightarrow> dom (ss_stream_map s') = dom (ss_stream_map s)"
  by (rule rel_maps_dom [of "\<lambda>x y. st_state y = st_state x \<and> st_header y = st_header x"]) (simp add: regrouped_def)

lemma regrouped_base:
  assumes "regrouped s s'" "base_ok s"
  shows "base_ok s'"
proof -
  have "own_headers s'"
    using assms(2) unfolding own_headers_def base_ok_def by (metis regrouped_stream_map [OF assms(1)])
  moreover have "ss_next_stream_id s' = ss_next_stream_id s" "queue_ids s' = queue_ids s"
    using assms(1) by (simp_all add: regrouped_def)
  ultimately show ?thesis using assms(2) by (simp add: base_ok_def ids_ok_def regrouped_dom [OF assms(1)])
qed

lemma regrouped_trans:
  assumes "regrouped s s1" "regrouped s1 s2"
  shows "regrouped s s2"
proof -
  have "rel_option (\<lambda>x y. st_state y = st_state x \<and> st_header y = st_header x)
      (ss_stream_map s sid) (ss_stream_map s2 sid)" for sid
    by (rule rel_option_compose [of _ _ "ss_stream_map s1 sid"]) (use assms in \<open>auto simp: regrouped_def\<close>)
  with assms show ?thesis by (simp add: regrouped_def)
qed

lemma regrouped_map_stream:
  assumes "\<And>x. st_state (f x) = st_state x" "\<And>x. st_header (f x) = st_header x"
  shows "regrouped s (map_stream sid f s)" "regrouped s (map_streams f s)"
  using assms
  by (auto simp: regrouped_def map_stream_def map_streams_def queue_ids_def rel_option_iff split: option.split)

definition credit_stream :: "u32 \<Rightarrow> 'b Stream \<Rightarrow> 'b Stream" where
  "credit_stream n x = x\<lparr>st_send_window := (st_send_window x)\<lparr>sw_size := sw_size (st_send_window x) + n\<rparr>\<rparr>"

lemma increase_send_windows_Ok:
  assumes "increase_send_windows ids n s = (s', Ok u)" "distinct ids" "unat n < 2147483648"
  shows "s' = s\<lparr>ss_stream_map := (\<lambda>sid. if sid \<in> set ids then map_option (credit_stream n) (ss_stream_map s sid)
                                      else ss_stream_map s sid)\<rparr>
    \<and> (\<forall>sid \<in> set ids. \<forall>x. ss_stream_map s sid = Some x \<longrightarrow> sint (sw_size (st_send_window x)) + uint n \<le> 2147483647)"
  using assms(1,2)
proof (induction ids arbitrary: s)
  case (Cons sid ids)
  show ?case
  proof (cases "ss_stream_map s sid")
    case None
    with Cons.IH [of s] Cons.prems show ?thesis by (auto intro!: Streams.equality)
  next
    case (Some x)
    let ?s = "s\<lparr>ss_stream_map := (ss_stream_map s)(sid \<mapsto> credit_stream n x)\<rparr>"
    have fits: "sint (sw_size (st_send_window x)) + uint n \<le> 2147483647"
      using Some Cons.prems(1) increase_exact(1) [OF assms(3), of "st_send_window x"] by (auto split: if_splits)
    then have "increase_send_windows ids n ?s = (s', Ok u)"
      using Some Cons.prems(1) by (simp add: increase_exact [OF assms(3)] map_stream_def credit_stream_def)
    note IH = Cons.IH [OF this]
    have "sint (sw_size (st_send_window y)) + uint n \<le> 2147483647"
      if "t \<in> set ids" "ss_stream_map s t = Some y" for t y
      using that IH Cons.prems(2) by (cases "t = sid") auto
    with IH Cons.prems(2) fits Some show ?thesis by (auto intro!: Streams.equality)
  qed
qed simp

definition resize_streams :: "u32 \<Rightarrow> 'b Streams \<Rightarrow> 'b Streams" where
  "resize_streams n s =
     (map_streams (credit_stream (n - ss_stream_send_window_size s)) s)\<lparr>ss_stream_send_window_size := n\<rparr>"

lemma send_grown:
  assumes "traversals_ok env" "unat n < 2147483648" "ss_stream_send_window_size s < n"
    and "Streams_apply_send_initial_window_size (env_keys env) (env_elems env) s n = (s', Ok u)"
  shows "s' = (resize_streams n s)\<lparr>ss_pending_send := ss_pending_send s @ env_elems env (ss_pending_stream_window s),
                                   ss_pending_stream_window := {}\<rparr>
    \<and> (\<forall>sid x. ss_stream_map s sid = Some x \<longrightarrow>
         sint (sw_size (st_send_window x)) + (uint n - uint (ss_stream_send_window_size s)) \<le> 2147483647)"
proof -
  let ?d = "n - ss_stream_send_window_size s" and ?s = "s\<lparr>ss_stream_send_window_size := n\<rparr>"
  have d: "uint ?d = uint n - uint (ss_stream_send_window_size s)"
    using assms(3) by (simp add: uint_sub_if' word_less_def)
  have "unat ?d < 2147483648" 
    using assms(2,3) by (simp add: unat_sub_if' word_less_nat_alt)
  moreover obtain s1 where s1: "increase_send_windows (env_keys env (ss_stream_map s)) ?d ?s = (s1, Ok ())"
    and s': "s' = s1\<lparr>ss_pending_send := ss_pending_send s1 @ env_elems env (ss_pending_stream_window s1),
                    ss_pending_stream_window := {}\<rparr>"
    using assms(3,4)
    by (auto simp: Streams_apply_send_initial_window_size_def Let_def split: prod.splits rust_result.splits)
  moreover have "distinct (env_keys env (ss_stream_map s))" "set (env_keys env (ss_stream_map s)) = dom (ss_stream_map s)"
    using assms(1) by (simp_all add: traversals_ok_def)
  ultimately have s1: "s1 = ?s\<lparr>ss_stream_map := (\<lambda>sid. if sid \<in> dom (ss_stream_map s)
        then map_option (credit_stream ?d) (ss_stream_map s sid) else ss_stream_map s sid)\<rparr>"
    and fits: "\<forall>sid x. ss_stream_map s sid = Some x \<longrightarrow> sint (sw_size (st_send_window x)) + uint ?d \<le> 2147483647"
    using increase_send_windows_Ok [OF s1] by (auto cong: if_cong)
  have "(\<lambda>sid. if sid \<in> dom (ss_stream_map s) then map_option (credit_stream ?d) (ss_stream_map s sid)
      else ss_stream_map s sid) = (\<lambda>sid. map_option (credit_stream ?d) (ss_stream_map s sid))"
    by (auto simp: fun_eq_iff domIff)
  with s1 s' fits d show ?thesis by (simp add: resize_streams_def map_streams_def)
qed

lemma resize_fields [simp]:
  "ss_next_stream_id (resize_streams n s) = ss_next_stream_id s"
  "ss_pending_concurrency (resize_streams n s) = ss_pending_concurrency s"
  "ss_pending_stream_window (resize_streams n s) = ss_pending_stream_window s"
  "ss_pending_conn_window (resize_streams n s) = ss_pending_conn_window s"
  "ss_pending_send (resize_streams n s) = ss_pending_send s"
  "ss_stream_send_window_size (resize_streams n s) = n"
  "ss_flow_control (resize_streams n s) = ss_flow_control s"
  "ss_stream_map (resize_streams n s) sid =
     map_option (credit_stream (n - ss_stream_send_window_size s)) (ss_stream_map s sid)"
  by (simp_all add: resize_streams_def map_streams_def)

lemma credit_zero: "map_option (credit_stream 0) x = x"
  by (cases x) (simp_all add: credit_stream_def)

lemma credit_reduce:
  "stream\<lparr>st_send_window := SendWindow_reduce_size (st_send_window stream) (k - n)\<rparr> = credit_stream (n - k) stream"
  by (simp add: credit_stream_def SendWindow_reduce_size_def algebra_simps)

lemma send_shrunk:
  assumes "\<not> ss_stream_send_window_size s < n"
    and "Streams_apply_send_initial_window_size keys elems s n = (s', Ok u)"
  shows "s' = resize_streams n s"
proof (cases "ss_stream_send_window_size s = n")
  case True
  with assms(2) show ?thesis
    by (auto simp: Streams_apply_send_initial_window_size_def resize_streams_def map_streams_def credit_zero Let_def)
next
  case False
  with assms show ?thesis
    unfolding Streams_apply_send_initial_window_size_def Let_def credit_reduce
    by (auto simp: resize_streams_def map_streams_def split: if_splits)
qed

lemma regrouped_send_resized:
  assumes "traversals_ok env" "unat n < 2147483648"
    and "Streams_apply_send_initial_window_size (env_keys env) (env_elems env) s n = (s', Ok u)"
  shows "regrouped s s'"
proof -
  have streams: "rel_option (\<lambda>x y. st_state y = st_state x \<and> st_header y = st_header x) x
      (map_option (credit_stream k) x)" for x :: "'a Stream option" and k
    by (cases x) (simp_all add: credit_stream_def)
  show ?thesis
  proof (cases "ss_stream_send_window_size s < n")
    case True
    from send_grown [OF assms(1,2) True assms(3)] assms(1) show ?thesis
      by (auto simp: regrouped_def queue_ids_def traversals_ok_def streams)
  next
    case False
    from send_shrunk [OF False assms(3)] show ?thesis by (simp add: regrouped_def queue_ids_def streams)
  qed
qed

lemma reassign_loop_eq:
  "reassign_loop ids s = s\<lparr>ss_pending_conn_window := [], ss_pending_send := ss_pending_send s @ ids\<rparr>"
  by (induction ids s rule: reassign_loop.induct)
    (simp_all add: Streams_push_back_pending_send_def)

lemma regrouped_conn_credit:
  assumes "Streams_increase_conn_send_window s n = (s', r)"
  shows "regrouped s (Streams_reassign_conn_send_window s')"
  using assms
  by (auto simp: Streams_increase_conn_send_window_def Streams_reassign_conn_send_window_def reassign_loop_eq
      regrouped_def queue_ids_def option.rel_refl split: prod.splits)

lemma regrouped_stream_credit:
  assumes "Streams_reassign_stream_send_window s sid n = (s', r)"
  shows "regrouped s s'"
  using assms
  by (auto simp: Streams_reassign_stream_send_window_def regrouped_def queue_ids_def map_stream_def rel_option_iff Let_def
      split: prod.splits option.splits rust_result.splits if_splits)

lemma consumed_eq:
  "\<exists>ids rest. ss_pending_concurrency s = ids @ rest
     \<and> Streams_try_consume_pending_concurrency s =
         s\<lparr>ss_pending_concurrency := rest, ss_pending_send := ss_pending_send s @ ids,
           ss_current_concurrent_streams := ss_current_concurrent_streams s + of_nat (length ids)\<rparr>"
proof (induction s rule: Streams_try_consume_pending_concurrency.induct)
  case (1 s)
  show ?case
  proof (cases "Streams_reach_max_concurrency s \<or> ss_pending_concurrency s = []")
    case True
    then show ?thesis
      by (intro exI [of _ "[]"] exI [of _ "ss_pending_concurrency s"])
        (auto simp: Streams_try_consume_pending_concurrency.simps [of s])
  next
    case False
    then obtain sid rest where "ss_pending_concurrency s = sid # rest" by (cases "ss_pending_concurrency s") auto
    let ?s = "Streams_push_back_pending_send (Streams_increase_current_concurrency (s\<lparr>ss_pending_concurrency := rest\<rparr>)) sid"
    note ops = Streams_push_back_pending_send_def Streams_increase_current_concurrency_def
    obtain ids rest' where "ss_pending_concurrency ?s = ids @ rest'" "Streams_try_consume_pending_concurrency ?s =
        ?s\<lparr>ss_pending_concurrency := rest', ss_pending_send := ss_pending_send ?s @ ids,
          ss_current_concurrent_streams := ss_current_concurrent_streams ?s + of_nat (length ids)\<rparr>"
      using 1 [of sid rest] False \<open>ss_pending_concurrency s = sid # rest\<close> by blast
    moreover have "Streams_try_consume_pending_concurrency s = Streams_try_consume_pending_concurrency ?s"
      using False \<open>ss_pending_concurrency s = sid # rest\<close> by (simp add: Streams_try_consume_pending_concurrency.simps [of s])
    ultimately show ?thesis
      using \<open>ss_pending_concurrency s = sid # rest\<close>
      by (intro exI [of _ "sid # ids"] exI [of _ rest']) (simp add: ops algebra_simps)
  qed
qed

lemma regrouped_consumed: "regrouped s (Streams_try_consume_pending_concurrency s)"
  using consumed_eq [of s] by (auto simp: regrouped_def queue_ids_def option.rel_refl)

section \<open>New requests and the stream being sent\<close>

lemma generate_id_Ok:
  assumes "ids_ok s" "Streams_generate_id s = (s', Ok sid)"
  shows "sid = ss_next_stream_id s \<and> s' = s\<lparr>ss_next_stream_id := ss_next_stream_id s + 2\<rparr>
    \<and> ss_stream_map s sid = None \<and> sid \<notin> queue_ids s
    \<and> sid < ss_next_stream_id s' \<and> ss_next_stream_id s' \<le> 2147483647 \<and> odd (uint (ss_next_stream_id s'))"
proof -
  have sid: "sid = ss_next_stream_id s" "s' = s\<lparr>ss_next_stream_id := ss_next_stream_id s + 2\<rparr>"
    and less: "ss_next_stream_id s < 2147483647"
    using assms(2) by (auto simp: Streams_generate_id_def DEFAULT_MAX_STREAM_ID_def Let_def split: if_splits)
  have odd: "odd (uint sid)" using assms(1) sid by (simp add: ids_ok_def)
  have lt: "uint sid < 2147483647" using less sid by (simp add: word_less_def)
  have "uint sid \<noteq> 2147483646" using odd by auto
  with lt have "uint sid + 2 \<le> 2147483647" by linarith
  moreover from this have two: "uint (sid + 2) = uint sid + 2" by (simp add: uint_word_ariths)
  moreover have "sid \<notin> dom (ss_stream_map s)" using assms(1) sid(1) by (auto simp: ids_ok_def)
  ultimately show ?thesis
    using sid odd assms(1) by (auto simp: word_less_def word_le_def ids_ok_def)
qed

lemma enqueue_fields:
  "ss_stream_map (enqueue_request s sid request) =
     (ss_stream_map s)(sid \<mapsto> Stream_new (RecvWindow_new (ss_stream_recv_window_size s))
        (SendWindow_new (ss_stream_send_window_size s)) (Frame_new sid (rq_flag request) (rq_payload request)) (rq_data request))"
  "queue_ids (enqueue_request s sid request) = insert sid (queue_ids s)"
  "ss_next_stream_id (enqueue_request s sid request) = ss_next_stream_id s"
  "ss_pending_stream_window (enqueue_request s sid request) = ss_pending_stream_window s"
  "ss_pending_conn_window (enqueue_request s sid request) = ss_pending_conn_window s"
  "ss_stream_send_window_size (enqueue_request s sid request) = ss_stream_send_window_size s"
  "ss_flow_control (enqueue_request s sid request) = ss_flow_control s"
  "ss_max_send_id (enqueue_request s sid request) = ss_max_send_id s"
  by (auto simp: enqueue_request_def Streams_insert_def Streams_push_pending_concurrency_def
      Streams_push_back_pending_send_def Streams_increase_current_concurrency_def queue_ids_def Let_def)

lemma base_request:
  assumes "base_ok s" "is_Headers (rq_payload request)" "Streams_generate_id s = (s', Ok sid)"
  shows "base_ok (enqueue_request s' sid request)"
proof -
  have ids: "ids_ok s" using assms(1) by (simp add: base_ok_def)
  note new = generate_id_Ok [OF ids assms(3)]
  then have s': "s' = s\<lparr>ss_next_stream_id := ss_next_stream_id s + 2\<rparr>" by simp
  have "ids_ok (enqueue_request s' sid request)"
    using new ids by (auto simp: ids_ok_def enqueue_fields s' intro: order.strict_trans)
  moreover have "own_headers (enqueue_request s' sid request)"
    using assms(1,2) by (auto simp: base_ok_def own_headers_def enqueue_fields s' Stream_new_def Frame_new_def)
  ultimately show ?thesis by (simp add: base_ok_def)
qed

lemma base_taken:
  assumes "base_ok s" "Streams_next_pending_stream s = (s', Some sid)"
  shows "base_ok s' \<and> sid \<in> dom (ss_stream_map s) \<and> s' = s\<lparr>ss_pending_send := tl (ss_pending_send s)\<rparr>
    \<and> ss_pending_send s = sid # ss_pending_send s'"
  using assms
  by (auto simp: Streams_next_pending_stream_def base_ok_def ids_ok_def own_headers_def queue_ids_def split: list.splits)

text \<open>What reading the body of a stream does, by what it yields.\<close>

definition sent_chunk :: "StreamId \<Rightarrow> nat \<Rightarrow> 'b BodyDataRef \<Rightarrow> 'b Streams \<Rightarrow> 'b Streams" where
  "sent_chunk sid k data s =
     (map_stream sid (\<lambda>x. st_send_window_update (\<lambda>w. SendWindow_send_data w (word_of_nat k)) (x\<lparr>st_data := data\<rparr>)) s)
       \<lparr>ss_flow_control := FlowControl_send_data (ss_flow_control s) (word_of_nat k)\<rparr>"

lemma poll_read_body_effect:
  assumes "Streams_poll_read_body poll_body s sid = (s', r)"
  shows "s' = s \<and> r \<noteq> Ok Read_Pending \<and> (\<nexists>frame. r = Ok (Read_Ready frame))
    \<or> (\<exists>x. ss_stream_map s sid = Some x \<and> \<not> is_Closed (st_state x)
        \<and> (SendWindow_size_available (st_send_window x) = 0 \<and> r = Ok Read_Pending
             \<and> s' = s\<lparr>ss_pending_stream_window := insert sid (ss_pending_stream_window s)\<rparr>
           \<or> FlowControl_send_size_available (ss_flow_control s) = 0 \<and> r = Ok Read_Pending
             \<and> s' = s\<lparr>ss_pending_conn_window := ss_pending_conn_window s @ [sid]\<rparr>
           \<or> (\<exists>data. r = Ok Read_Pending
             \<and> s' = Streams_push_back_pending_send (map_stream sid (st_data_update (\<lambda>_. data)) s) sid)
           \<or> (\<exists>data. r \<noteq> Ok Read_Pending \<and> (\<nexists>frame. r = Ok (Read_Ready frame))
             \<and> s' = map_stream sid (st_data_update (\<lambda>_. data)) s)
           \<or> (\<exists>data bytes flags. r = Ok (Read_Ready (Frame_new sid flags (Payload_Data bytes))) \<and> 0 < length bytes
             \<and> length bytes \<le> unat (SendWindow_size_available (st_send_window x))
             \<and> length bytes \<le> FlowControl_send_size_available (ss_flow_control s) \<and> length bytes \<le> 16384
             \<and> s' = sent_chunk sid (length bytes) data s)))"
proof (cases "\<exists>x. ss_stream_map s sid = Some x \<and> \<not> is_Closed (st_state x)
    \<and> SendWindow_size_available (st_send_window x) \<noteq> 0 \<and> FlowControl_send_size_available (ss_flow_control s) \<noteq> 0")
  case False
  with assms show ?thesis
    by (auto simp: Streams_poll_read_body_def Let_def unat_eq_zero split: option.splits if_splits)
next
  case True
  then obtain x where x: "ss_stream_map s sid = Some x" "\<not> is_Closed (st_state x)"
    "SendWindow_size_available (st_send_window x) \<noteq> 0" "FlowControl_send_size_available (ss_flow_control s) \<noteq> 0" by blast
  define len where "len = min (min (unat (SendWindow_size_available (st_send_window x)))
    (FlowControl_send_size_available (ss_flow_control s))) BODY_MAX_FRAME_SIZE"
  have sized: "Streams_poll_sized_data poll_body s sid len = (s', r)"
    using assms x by (simp add: Streams_poll_read_body_def len_def Let_def unat_eq_zero)
  obtain data q where read: "BodyDataRef_poll_read poll_body (st_data x) len = (data, q)" by fastforce
  have ready: "length bytes \<le> len" if "q = Ready (Ok bytes)" for bytes
    using poll_read_length read that by blast
  have chunk: "(map_stream sid (st_send_window_update (\<lambda>w. SendWindow_send_data w n)) (map_stream sid (st_data_update (\<lambda>_. data)) s))
      \<lparr>ss_flow_control := FlowControl_send_data (ss_flow_control s) n\<rparr> = sent_chunk sid k data s"
    if "n = word_of_nat k" for n k
    using that x(1) by (simp add: sent_chunk_def map_stream_def)
  show ?thesis
  proof (cases "\<exists>bytes. q = Ready (Ok bytes) \<and> 0 < length bytes")
    case True
    then obtain bytes where bytes: "q = Ready (Ok bytes)" "0 < length bytes" by blast
    with ready have "length bytes \<le> len" by blast
    then have "length bytes \<le> unat (SendWindow_size_available (st_send_window x))"
      "length bytes \<le> FlowControl_send_size_available (ss_flow_control s)" "length bytes \<le> 16384"
      by (simp_all add: len_def BODY_MAX_FRAME_SIZE_def)
    moreover have "r = Ok (Read_Ready (Frame_new sid (FrameFlags 0) (Payload_Data bytes)))"
      "s' = sent_chunk sid (length bytes) data s"
      using sized x(1) read bytes chunk [of _ "length bytes"]
      by (auto simp: Streams_poll_sized_data_def Let_def map_stream_def)
    ultimately show ?thesis using x(1,2) bytes(2) by blast
  next
    case False
    with sized x read show ?thesis
      by (auto simp: Streams_poll_sized_data_def Let_def split: poll.splits rust_result.splits)
  qed
qed

lemma base_reading:
  assumes "base_ok s" "ss_next_stream_id s' = ss_next_stream_id s" "queue_ids s' \<subseteq> insert sid (queue_ids s)"
    and "\<And>t. rel_option (\<lambda>x y. st_header y = st_header x) (ss_stream_map s t) (ss_stream_map s' t)"
    and "ss_stream_map s sid \<noteq> None"
  shows "base_ok s'"
proof -
  have "own_headers s'"
    using assms(1) unfolding own_headers_def base_ok_def
    by (metis (mono_tags, lifting) assms(4) option_rel_Some2)
  moreover have "dom (ss_stream_map s') = dom (ss_stream_map s)" by (rule rel_maps_dom) (rule assms(4))
  ultimately show ?thesis
    using assms(1,2,3,5) by (auto simp: base_ok_def ids_ok_def)
qed

lemma reading_keeps_headers:
  assumes "Streams_poll_read_body poll_body s sid = (s', r)"
  shows "ss_next_stream_id s' = ss_next_stream_id s \<and> queue_ids s' \<subseteq> insert sid (queue_ids s)
    \<and> (\<forall>t. rel_option (\<lambda>x y. st_state y = st_state x \<and> st_header y = st_header x) (ss_stream_map s t) (ss_stream_map s' t))
    \<and> (s' \<noteq> s \<longrightarrow> ss_stream_map s sid \<noteq> None)"
  using poll_read_body_effect [OF assms]
  by (elim disjE exE conjE)
    (auto simp: queue_ids_def map_stream_def sent_chunk_def Streams_push_back_pending_send_def rel_option_iff
      split: option.split)

lemma base_read:
  assumes "base_ok s" "Streams_poll_read_body poll_body s sid = (s', r)"
  shows "base_ok s'"
proof (cases "s' = s")
  case False
  with reading_keeps_headers [OF assms(2)] show ?thesis
    by (intro base_reading [OF assms(1), of s' sid]) (auto elim!: option.rel_mono_strong)
qed (use assms in simp)

end
