(* ===== verification/H2_Manager_Ids.thy ===== *)
theory H2_Manager_Ids
  imports H2_Calm
begin

text \<open>
  Two narrower contracts for invariants of the streams, and the first invariant: the identifiers,
  the queues and the unsent headers are well formed.
\<close>

section \<open>Invariants that calm operations keep\<close>

text \<open>
  The contract for a property that every calm operation keeps: what is left are the requests, the
  send windows and the queues.
\<close>

locale calm_invariant =
  fixes ok :: "StreamId option \<Rightarrow> 'b Streams \<Rightarrow> bool"
    and env :: "('b, 'r, 'c) environment"
  assumes own_base: "ok h s \<Longrightarrow> base_ok s"
    and calm_keeps: "ok h s \<Longrightarrow> calm s s' \<Longrightarrow> ok h s'"
    and request_keeps: "ok None s \<Longrightarrow> is_Headers (rq_payload request) \<Longrightarrow> Streams_generate_id s = (s', Ok sid) \<Longrightarrow>
      ok None (enqueue_request s' sid request)"
    and end_keeps: "ok (Some sid) s \<Longrightarrow> Streams_stream_state s sid = Some st \<Longrightarrow> \<not> still_sending st \<Longrightarrow> ok None s"
    and resize_keeps: "traversals_ok env \<Longrightarrow> ok None s \<Longrightarrow> unat n < 2147483648 \<Longrightarrow>
      Streams_apply_send_initial_window_size (env_keys env) (env_elems env) s n = (s', Ok ()) \<Longrightarrow> ok None s'"
    and conn_credit_keeps: "ok None s \<Longrightarrow> unat n < 2147483648 \<Longrightarrow>
      Streams_increase_conn_send_window s n = (s', Ok ()) \<Longrightarrow> ok None (Streams_reassign_conn_send_window s')"
    and stream_credit_keeps: "ok None s \<Longrightarrow> unat n < 2147483648 \<Longrightarrow>
      Streams_reassign_stream_send_window s sid n = (s', Ok ()) \<Longrightarrow> ok None s'"
    and consume_keeps: "ok None s \<Longrightarrow> ok None (Streams_try_consume_pending_concurrency s)"
    and take_keeps: "ok None s \<Longrightarrow> Streams_next_pending_stream s = (s', Some sid) \<Longrightarrow> ok (Some sid) s'"
    and read_keeps: "ok (Some sid) s \<Longrightarrow> Streams_poll_read_body (env_poll_body env) s sid = (s', r) \<Longrightarrow>
      ok (if r = Ok Read_Pending then None else Some sid) s'"

sublocale calm_invariant \<subseteq> stream_invariant
proof (unfold_locales, goal_cases)
  case (1 h s)
  then show ?case using own_base by (simp add: base_ok_def)
qed (fact request_keeps end_keeps resize_keeps conn_credit_keeps stream_credit_keeps consume_keeps take_keeps read_keeps
    | blast intro: calm_keeps calm_laws)+

text \<open>A property of the streams that does not look at windows, queues and bodies.\<close>

locale state_invariant =
  fixes ok :: "'b Streams \<Rightarrow> bool"
    and env :: "('b, 'r, 'c) environment"
  assumes states_base: "ok s \<Longrightarrow> base_ok s"
    and states_calm: "ok s \<Longrightarrow> calm s s' \<Longrightarrow> ok s'"
    and states_request: "ok s \<Longrightarrow> is_Headers (rq_payload request) \<Longrightarrow> Streams_generate_id s = (s', Ok sid) \<Longrightarrow>
      ok (enqueue_request s' sid request)"
    and states_same: "ok s \<Longrightarrow> base_ok s' \<Longrightarrow>
      (\<And>t. rel_option (\<lambda>x y. st_state y = st_state x \<and> st_header y = st_header x) (ss_stream_map s t) (ss_stream_map s' t)) \<Longrightarrow>
      ok s'"
begin

lemma states_regrouped: "ok s \<Longrightarrow> regrouped s s' \<Longrightarrow> ok s'"
  using states_same [of s s'] states_base [of s] regrouped_base [of s s'] by (simp add: regrouped_def)

end

sublocale state_invariant \<subseteq> calm_invariant "\<lambda>h. ok"
proof (unfold_locales, goal_cases)
  case (4 sid s st)
  show ?case by (rule 4(1))
next
  case (5 s n s')
  show ?case by (rule states_regrouped [OF 5(2) regrouped_send_resized [OF 5(1,3,4)]])
next
  case (6 s n s')
  show ?case by (rule states_regrouped [OF 6(1) regrouped_conn_credit [OF 6(3)]])
next
  case (7 s n sid s')
  show ?case by (rule states_regrouped [OF 7(1) regrouped_stream_credit [OF 7(3)]])
next
  case (8 s)
  show ?case by (rule states_regrouped [OF 8 regrouped_consumed])
next
  case (9 s s' sid)
  have "base_ok s'" and "s' = s\<lparr>ss_pending_send := tl (ss_pending_send s)\<rparr>"
    using base_taken [OF states_base [OF 9(1)] 9(2)] by blast+
  then have "ss_stream_map s' = ss_stream_map s" by simp
  then show ?case by (intro states_same [OF 9(1) \<open>base_ok s'\<close>]) (simp add: option.rel_refl)
next
  case (10 sid s s' r)
  show ?case
    by (rule states_same [OF 10(1) base_read [OF states_base [OF 10(1)] 10(2)]]) (use reading_keeps_headers [OF 10(2)] in blast)
qed (fact states_base, fact states_calm, fact states_request)

interpretation ids: state_invariant base_ok env for env
  by unfold_locales (assumption | erule (1) calm_base [rotated] | rule base_request, assumption+)+

end
