(* ===== verification/H2_Manager_Sending.thy ===== *)
theory H2_Manager_Sending
  imports H2_Manager_Ids
begin

text \<open>
  The sending side of the connection manager: no send window wraps around, a stream that has
  something to send waits in a queue, and waits for a window only while that window is exhausted.
\<close>

section \<open>Windows and queues\<close>

definition windows_ok :: "'b Streams \<Rightarrow> bool" where
  "windows_ok s \<longleftrightarrow>
     unat (ss_stream_send_window_size s) < 2147483648
     \<and> 0 \<le> sint (sw_size (fc_send_window (ss_flow_control s)))
     \<and> (\<forall>sid x. ss_stream_map s sid = Some x \<longrightarrow>
          uint (ss_stream_send_window_size s) - 2147483647 \<le> sint (sw_size (st_send_window x)))"

text \<open>Every stream that has something to send waits in a queue, except the one being worked on.\<close>

definition queued :: "StreamId option \<Rightarrow> 'b Streams \<Rightarrow> bool" where
  "queued h s \<longleftrightarrow>
     (\<forall>sid x. ss_stream_map s sid = Some x \<longrightarrow> still_sending (st_state x) \<longrightarrow> h = Some sid \<or> sid \<in> queue_ids s)"

text \<open>A stream waits for a window only while that window is exhausted.\<close>

definition blocked_ok :: "'b Streams \<Rightarrow> bool" where
  "blocked_ok s \<longleftrightarrow>
     (\<forall>sid x. sid \<in> ss_pending_stream_window s \<longrightarrow> ss_stream_map s sid = Some x \<longrightarrow>
        \<not> is_Closed (st_state x) \<longrightarrow> sint (sw_size (st_send_window x)) \<le> 0)
     \<and> (ss_pending_conn_window s \<noteq> [] \<longrightarrow> sint (sw_size (fc_send_window (ss_flow_control s))) \<le> 0)"

definition sending_ok :: "StreamId option \<Rightarrow> 'b Streams \<Rightarrow> bool" where
  "sending_ok h s \<longleftrightarrow> base_ok s \<and> windows_ok s \<and> queued h s \<and> blocked_ok s"

lemma sending_calm:
  assumes "calm s s'" "sending_ok h s"
  shows "sending_ok h s'"
proof -
  have "base_ok s'" using calm_base [OF assms(1)] assms(2) by (simp add: sending_ok_def)
  moreover have "windows_ok s'"
    using assms(2) assms(1) [unfolded calm_def]
    by (auto simp: sending_ok_def windows_ok_def calm_stream_def elim!: calm_stream_map [OF assms(1)])
  moreover have "queued h s'"
    using assms(2) calm_queues [OF assms(1)]
    by (fastforce simp: sending_ok_def queued_def calm_stream_def elim!: calm_stream_map [OF assms(1)])
  moreover have "blocked_ok s'"
    using assms(2) assms(1) [unfolded calm_def]
    by (fastforce simp: sending_ok_def blocked_ok_def calm_stream_def elim!: calm_stream_map [OF assms(1)])
  ultimately show ?thesis by (simp add: sending_ok_def)
qed

lemma queued_regrouped:
  assumes "regrouped s s'" "queued h s"
  shows "queued h s'"
  using assms(2) assms(1) [unfolded regrouped_def]
  by (fastforce simp: queued_def elim!: regrouped_stream_map [OF assms(1)])

lemma windows_resized:
  assumes "windows_ok s" "unat n < 2147483648" "ss_stream_map s sid = Some x"
    and "sint (sw_size (st_send_window x)) + (uint n - uint (ss_stream_send_window_size s)) \<le> 2147483647"
  shows "sint (sw_size (st_send_window (credit_stream (n - ss_stream_send_window_size s) x))) =
    sint (sw_size (st_send_window x)) + (uint n - uint (ss_stream_send_window_size s))"
proof -
  let ?k = "ss_stream_send_window_size s" and ?w = "sw_size (st_send_window x)"
  have k: "sint ?k = uint ?k" and n: "sint n = uint n"
    using assms(1,2) by (simp_all add: windows_ok_def sint_small)
  have "- 2147483648 \<le> uint n - uint ?k" "uint n - uint ?k < 2147483648"
    using sint_i32_range(2) [of n] sint_i32_range(2) [of ?k] n k uint_ge_0 [of n] uint_ge_0 [of ?k] by linarith+
  then have d: "sint (n - ?k) = uint n - uint ?k" by (subst sint_diff_i32) (simp_all add: n k)
  have "uint ?k - 2147483647 \<le> sint ?w" using assms(1,3) by (simp add: windows_ok_def)
  then have "- 2147483648 \<le> sint ?w + (uint n - uint ?k)" using uint_ge_0 [of n] by linarith
  with assms(4) d have "sint (?w + (n - ?k)) = sint ?w + (uint n - uint ?k)"
    by (subst sint_add_i32) simp_all
  then show ?thesis by (simp add: credit_stream_def)
qed

lemma send_resized_fields:
  assumes "traversals_ok env" "unat n < 2147483648"
    and resize: "Streams_apply_send_initial_window_size (env_keys env) (env_elems env) s n = (s', Ok u)"
  shows "ss_stream_map s' sid = map_option (credit_stream (n - ss_stream_send_window_size s)) (ss_stream_map s sid)"
    "ss_stream_send_window_size s' = n" "ss_flow_control s' = ss_flow_control s"
    "ss_pending_conn_window s' = ss_pending_conn_window s"
    "ss_pending_stream_window s' = (if ss_stream_send_window_size s < n then {} else ss_pending_stream_window s)"
proof -
  have "s' = (if ss_stream_send_window_size s < n
      then (resize_streams n s)\<lparr>ss_pending_send := ss_pending_send s @ env_elems env (ss_pending_stream_window s),
                                ss_pending_stream_window := {}\<rparr>
      else resize_streams n s)"
    using send_grown [OF assms(1,2) _ resize] send_shrunk [OF _ resize] by auto
  then show "ss_stream_map s' sid = map_option (credit_stream (n - ss_stream_send_window_size s)) (ss_stream_map s sid)"
    "ss_stream_send_window_size s' = n" "ss_flow_control s' = ss_flow_control s"
    "ss_pending_conn_window s' = ss_pending_conn_window s"
    "ss_pending_stream_window s' = (if ss_stream_send_window_size s < n then {} else ss_pending_stream_window s)"
    by simp_all
qed

lemma sending_resized:
  assumes "traversals_ok env" "sending_ok None s" "unat n < 2147483648"
    and resize: "Streams_apply_send_initial_window_size (env_keys env) (env_elems env) s n = (s', Ok ())"
  shows "sending_ok None s'"
proof -
  let ?k = "ss_stream_send_window_size s"
  have ok: "base_ok s" "windows_ok s" "queued None s" "blocked_ok s" using assms(2) by (simp_all add: sending_ok_def)
  note group = regrouped_send_resized [OF assms(1,3) resize]
  note s' = send_resized_fields [OF assms(1,3) resize]
  have fits: "sint (sw_size (st_send_window x)) + (uint n - uint ?k) \<le> 2147483647"
    if x: "ss_stream_map s sid = Some x" for sid x
  proof (cases "?k < n")
    case True
    with send_grown [OF assms(1,3) True resize] x show ?thesis by blast
  next
    case False
    then have "uint n \<le> uint ?k" by (simp add: word_less_def)
    with sint_i32_range(2) [of "sw_size (st_send_window x)"] show ?thesis by linarith
  qed
  have exact: "sint (sw_size (st_send_window (credit_stream (n - ?k) x))) = sint (sw_size (st_send_window x)) + (uint n - uint ?k)"
    if "ss_stream_map s sid = Some x" for sid x
    using windows_resized [OF ok(2) assms(3) that fits [OF that]] .
  have "windows_ok s'"
    using ok(2) assms(3) by (fastforce simp: windows_ok_def s'(1-3) exact)
  moreover have "blocked_ok s'"
  proof (cases "?k < n")
    case True
    with ok(4) show ?thesis by (simp add: blocked_ok_def s'(3-5))
  next
    case False
    then have le: "uint n \<le> uint ?k" by (simp add: word_less_def)
    have "sint (sw_size (st_send_window y)) \<le> 0"
      if y: "sid \<in> ss_pending_stream_window s'" "ss_stream_map s' sid = Some y" "\<not> is_Closed (st_state y)" for sid y
    proof -
      obtain x where x: "ss_stream_map s sid = Some x" "y = credit_stream (n - ?k) x" using y(2) s'(1) [of sid] by auto
      with y False ok(4) s'(5) have "sint (sw_size (st_send_window x)) \<le> 0"
        by (auto simp: blocked_ok_def credit_stream_def)
      with exact [OF x(1)] x(2) le show ?thesis by simp
    qed
    with ok(4) show ?thesis by (simp add: blocked_ok_def s'(3,4))
  qed
  ultimately show ?thesis
    using regrouped_base [OF group ok(1)] queued_regrouped [OF group ok(3)] by (simp add: sending_ok_def)
qed

lemma sending_request:
  assumes "sending_ok None s" "is_Headers (rq_payload request)" "Streams_generate_id s = (s', Ok sid)"
  shows "sending_ok None (enqueue_request s' sid request)"
proof -
  have ok: "base_ok s" "windows_ok s" "queued None s" "blocked_ok s" using assms(1) by (simp_all add: sending_ok_def)
  have new: "s' = s\<lparr>ss_next_stream_id := ss_next_stream_id s + 2\<rparr>" "sid \<notin> queue_ids s"
    using generate_id_Ok [OF _ assms(3)] ok(1) by (auto simp: base_ok_def)
  have "sint (ss_stream_send_window_size s) = uint (ss_stream_send_window_size s)"
    using ok(2) by (simp add: windows_ok_def sint_small)
  with ok(2) have "windows_ok (enqueue_request s' sid request)"
    by (auto simp: windows_ok_def enqueue_fields new(1) Stream_new_def SendWindow_new_def)
  moreover have "queued None (enqueue_request s' sid request)"
    using ok(3) by (auto simp: queued_def enqueue_fields new(1))
  moreover have "blocked_ok (enqueue_request s' sid request)"
    using ok(4) new(2) by (auto simp: blocked_ok_def enqueue_fields new(1) queue_ids_def)
  ultimately show ?thesis using base_request [OF ok(1) assms(2,3)] by (simp add: sending_ok_def)
qed

lemma sending_conn_credit:
  assumes "sending_ok None s" "unat n < 2147483648" "Streams_increase_conn_send_window s n = (s', Ok ())"
  shows "sending_ok None (Streams_reassign_conn_send_window s')"
proof -
  have ok: "base_ok s" "windows_ok s" "queued None s" "blocked_ok s" using assms(1) by (simp_all add: sending_ok_def)
  let ?w = "fc_send_window (ss_flow_control s)"
  have s': "s' = s\<lparr>ss_flow_control := (ss_flow_control s)\<lparr>fc_send_window := ?w\<lparr>sw_size := sw_size ?w + n\<rparr>\<rparr>\<rparr>"
    and n: "sint (sw_size ?w + n) = sint (sw_size ?w) + uint n"
    using assms(3) increase_exact [OF assms(2), of ?w]
    by (auto simp: Streams_increase_conn_send_window_def FlowControl_increase_send_size_def split: if_splits)
  note group = regrouped_conn_credit [OF assms(3)]
  have "windows_ok (Streams_reassign_conn_send_window s')" "blocked_ok (Streams_reassign_conn_send_window s')"
    using ok(2,4) n
    by (auto simp: windows_ok_def blocked_ok_def Streams_reassign_conn_send_window_def reassign_loop_eq s')
  then show ?thesis
    using regrouped_base [OF group ok(1)] queued_regrouped [OF group ok(3)] by (simp add: sending_ok_def)
qed

lemma stream_credit_Ok:
  assumes "unat n < 2147483648" "Streams_reassign_stream_send_window s sid n = (s', Ok u)"
  shows "ss_stream_map s' t = (if t = sid then map_option (credit_stream n) (ss_stream_map s t) else ss_stream_map s t)"
    "ss_stream_send_window_size s' = ss_stream_send_window_size s" "ss_flow_control s' = ss_flow_control s"
    "ss_pending_conn_window s' = ss_pending_conn_window s" "ss_pending_stream_window s' = ss_pending_stream_window s - {sid}"
    "ss_stream_map s sid = Some x \<Longrightarrow>
      sint (sw_size (st_send_window (credit_stream n x))) = sint (sw_size (st_send_window x)) + uint n"
proof -
  have fits: "sint (sw_size (st_send_window x)) + uint n \<le> 2147483647" if "ss_stream_map s sid = Some x" for x
    using assms(2) that
    by (auto simp: Streams_reassign_stream_send_window_def increase_exact [OF assms(1)] Let_def split: if_splits)
  show "ss_stream_map s' t = (if t = sid then map_option (credit_stream n) (ss_stream_map s t) else ss_stream_map s t)"
    "ss_stream_send_window_size s' = ss_stream_send_window_size s" "ss_flow_control s' = ss_flow_control s"
    "ss_pending_conn_window s' = ss_pending_conn_window s" "ss_pending_stream_window s' = ss_pending_stream_window s - {sid}"
    using assms(2) fits
    by (auto simp: Streams_reassign_stream_send_window_def increase_exact [OF assms(1)] map_stream_def credit_stream_def Let_def
        split: if_splits option.splits)
  show "ss_stream_map s sid = Some x \<Longrightarrow>
      sint (sw_size (st_send_window (credit_stream n x))) = sint (sw_size (st_send_window x)) + uint n"
    using increase_exact(2) [OF assms(1), of "st_send_window x"] fits by (simp add: credit_stream_def)
qed

lemma sending_stream_credit:
  assumes "sending_ok None s" "unat n < 2147483648" "Streams_reassign_stream_send_window s sid n = (s', Ok ())"
  shows "sending_ok None s'"
proof -
  have ok: "base_ok s" "windows_ok s" "queued None s" "blocked_ok s" using assms(1) by (simp_all add: sending_ok_def)
  note group = regrouped_stream_credit [OF assms(3)]
  have s': "ss_stream_map s' t = (if t = sid then map_option (credit_stream n) (ss_stream_map s t) else ss_stream_map s t)"
    "ss_stream_send_window_size s' = ss_stream_send_window_size s" "ss_flow_control s' = ss_flow_control s"
    "ss_pending_conn_window s' = ss_pending_conn_window s" "ss_pending_stream_window s' = ss_pending_stream_window s - {sid}" for t
    using stream_credit_Ok(1-5) [OF assms(2,3)] by simp_all
  have exact: "sint (sw_size (st_send_window (credit_stream n x))) = sint (sw_size (st_send_window x)) + uint n"
    if "ss_stream_map s sid = Some x" for x
    by (rule stream_credit_Ok(6) [OF assms(2,3) that])
  have "windows_ok s'"
    unfolding windows_ok_def s'
  proof (intro conjI allI impI)
    fix t y
    assume "(if t = sid then map_option (credit_stream n) (ss_stream_map s t) else ss_stream_map s t) = Some y"
    with ok(2) show "uint (ss_stream_send_window_size s) - 2147483647 \<le> sint (sw_size (st_send_window y))"
      by (auto simp: windows_ok_def exact add_increasing2 split: if_splits)
  qed (use ok(2) in \<open>simp_all add: windows_ok_def\<close>)
  moreover have "blocked_ok s'" using ok(4) by (auto simp: blocked_ok_def s')
  ultimately show ?thesis
    using regrouped_base [OF group ok(1)] queued_regrouped [OF group ok(3)] by (simp add: sending_ok_def)
qed

lemma sending_consumed:
  assumes "sending_ok None s"
  shows "sending_ok None (Streams_try_consume_pending_concurrency s)"
  using assms consumed_eq [of s] regrouped_base [OF regrouped_consumed, of s] queued_regrouped [OF regrouped_consumed, of None s]
  by (auto simp: sending_ok_def windows_ok_def blocked_ok_def)

lemma taken_fields:
  assumes "Streams_next_pending_stream s = (s', Some sid)"
  shows "ss_stream_map s' = ss_stream_map s" "ss_stream_send_window_size s' = ss_stream_send_window_size s"
    "ss_flow_control s' = ss_flow_control s" "ss_pending_stream_window s' = ss_pending_stream_window s"
    "ss_pending_conn_window s' = ss_pending_conn_window s" "queue_ids s = insert sid (queue_ids s')"
  using assms by (auto simp: Streams_next_pending_stream_def queue_ids_def split: list.splits)

lemma sending_taken:
  assumes "sending_ok None s" "Streams_next_pending_stream s = (s', Some sid)"
  shows "sending_ok (Some sid) s'"
proof -
  have ok: "base_ok s" "windows_ok s" "queued None s" "blocked_ok s" using assms(1) by (simp_all add: sending_ok_def)
  note s' = taken_fields [OF assms(2)]
  have "queued (Some sid) s'"
    unfolding queued_def s'(1)
  proof (intro allI impI)
    fix t x
    assume "ss_stream_map s t = Some x" "still_sending (st_state x)"
    with ok(3) have "t \<in> queue_ids s" by (auto simp: queued_def)
    then show "Some sid = Some t \<or> t \<in> queue_ids s'" unfolding s'(6) by blast
  qed
  moreover have "windows_ok s'" "blocked_ok s'"
    using ok(2,4) unfolding windows_ok_def blocked_ok_def s'(1-5) .
  moreover have "base_ok s'" using base_taken [OF ok(1) assms(2)] by blast
  ultimately show ?thesis by (simp add: sending_ok_def)
qed

lemma sending_ended:
  assumes "sending_ok (Some sid) s" "Streams_stream_state s sid = Some st" "\<not> still_sending st"
  shows "sending_ok None s"
proof -
  have "queued None s"
    unfolding queued_def
  proof (intro allI impI)
    fix t x
    assume "ss_stream_map s t = Some x" "still_sending (st_state x)"
    with assms show "None = Some t \<or> t \<in> queue_ids s"
      by (cases "t = sid") (auto simp: sending_ok_def queued_def Streams_stream_state_def)
  qed
  with assms(1) show ?thesis by (simp add: sending_ok_def)
qed

lemma available_zero: "SendWindow_size_available w = 0 \<Longrightarrow> sint (sw_size w) \<le> 0"
  using available_exact [of w] by simp

lemma send_chunk_exact:
  assumes "k \<le> unat (SendWindow_size_available w)" "0 < k"
  shows "sint (sw_size (SendWindow_send_data w (word_of_nat k))) = sint (sw_size w) - int k \<and> int k \<le> sint (sw_size w)"
proof -
  have "k < 2 ^ LENGTH(32)" using assms(1) unsigned_less [of "SendWindow_size_available w"]
    by (rule order.strict_trans1)
  then have n: "unat (word_of_nat k :: u32) = k" by (simp add: unat_of_nat take_bit_nat_eq_self)
  then have u: "uint (word_of_nat k :: u32) = int k" by (metis uint_nat)
  have "int k \<le> int (unat (SendWindow_size_available w))" using assms(1) by linarith
  then have "int k \<le> max 0 (sint (sw_size w))" by (simp add: available_exact)
  with send_data_exact [of "word_of_nat k" w] assms n u show ?thesis by simp
qed

lemma calm_body: "calm s (map_stream sid (st_data_update f) s)"
  by (rule calm_map_stream) (simp add: calm_stream_def)

text \<open>The three ways to wait: for the window of the stream, for that of the connection, for the body.\<close>

lemma sending_wait:
  assumes "sending_ok (Some sid) s" "ss_stream_map s sid \<noteq> None" "queue_ids s' = insert sid (queue_ids s)"
    and "ss_stream_map s' = ss_stream_map s" "ss_next_stream_id s' = ss_next_stream_id s"
    and "ss_stream_send_window_size s' = ss_stream_send_window_size s" "ss_flow_control s' = ss_flow_control s"
    and "blocked_ok s'"
  shows "sending_ok None s'"
proof -
  have ok: "base_ok s" "windows_ok s" "queued (Some sid) s" using assms(1) by (simp_all add: sending_ok_def)
  have "base_ok s'"
    by (rule base_reading [OF ok(1) assms(5)]) (use assms in \<open>simp_all add: option.rel_refl\<close>)
  moreover have "windows_ok s'" using ok(2) unfolding windows_ok_def assms(4,6,7) .
  moreover have "queued None s'" using ok(3) unfolding queued_def assms(3,4) by auto
  ultimately show ?thesis using assms(8) by (simp add: sending_ok_def)
qed

lemma sending_waits:
  assumes "sending_ok (Some sid) s" "ss_stream_map s sid = Some x"
  shows "SendWindow_size_available (st_send_window x) = 0 \<Longrightarrow>
      sending_ok None (s\<lparr>ss_pending_stream_window := insert sid (ss_pending_stream_window s)\<rparr>)"
    "FlowControl_send_size_available (ss_flow_control s) = 0 \<Longrightarrow>
      sending_ok None (s\<lparr>ss_pending_conn_window := ss_pending_conn_window s @ [sid]\<rparr>)"
    "sending_ok None (Streams_push_back_pending_send s sid)"
proof -
  have blocked: "blocked_ok s" using assms(1) by (simp add: sending_ok_def)
  show "sending_ok None (s\<lparr>ss_pending_stream_window := insert sid (ss_pending_stream_window s)\<rparr>)"
    if "SendWindow_size_available (st_send_window x) = 0"
  proof (rule sending_wait [OF assms(1)])
    show "blocked_ok (s\<lparr>ss_pending_stream_window := insert sid (ss_pending_stream_window s)\<rparr>)"
      using blocked available_zero [OF that] assms(2) by (auto simp: blocked_ok_def)
  qed (use assms(2) in \<open>simp_all add: queue_ids_def\<close>)
  show "sending_ok None (s\<lparr>ss_pending_conn_window := ss_pending_conn_window s @ [sid]\<rparr>)"
    if "FlowControl_send_size_available (ss_flow_control s) = 0"
  proof (rule sending_wait [OF assms(1)])
    have "SendWindow_size_available (fc_send_window (ss_flow_control s)) = 0"
      using that by (simp add: FlowControl_send_size_available_def unat_eq_zero)
    from available_zero [OF this] blocked
    show "blocked_ok (s\<lparr>ss_pending_conn_window := ss_pending_conn_window s @ [sid]\<rparr>)" by (simp add: blocked_ok_def)
  qed (use assms(2) in \<open>simp_all add: queue_ids_def\<close>)
  show "sending_ok None (Streams_push_back_pending_send s sid)"
    using blocked assms(2)
    by (intro sending_wait [OF assms(1)]) (simp_all add: queue_ids_def Streams_push_back_pending_send_def blocked_ok_def)
qed

lemma sending_chunk:
  assumes "sending_ok (Some sid) s" "ss_stream_map s sid = Some x" "\<not> is_Closed (st_state x)" "0 < k"
    and "k \<le> unat (SendWindow_size_available (st_send_window x))"
    and "k \<le> FlowControl_send_size_available (ss_flow_control s)"
  shows "sending_ok (Some sid) (sent_chunk sid k data s)"
proof -
  let ?s = "sent_chunk sid k data s"
  have ok: "base_ok s" "windows_ok s" "queued (Some sid) s" "blocked_ok s" using assms(1) by (simp_all add: sending_ok_def)
  note stream = send_chunk_exact [OF assms(5,4)]
    and conn = send_chunk_exact [OF assms(6) [unfolded FlowControl_send_size_available_def] assms(4)]
  note chunk = sent_chunk_def map_stream_def FlowControl_send_data_def
  moreover have "base_ok ?s"
    using assms(2)
    by (intro base_reading [OF ok(1), of _ sid]) (auto simp: chunk queue_ids_def rel_option_iff split: option.split)
  moreover have "uint (ss_stream_send_window_size s) - 2147483647 \<le> 0"
    using ok(2) sint_small [of "ss_stream_send_window_size s"] sint_i32_range(2) [of "ss_stream_send_window_size s"]
    by (simp add: windows_ok_def)
  with ok(2) stream conn assms(2) have "windows_ok ?s" by (auto simp: windows_ok_def chunk)
  moreover have "queued (Some sid) ?s" using ok(3) by (auto simp: queued_def chunk queue_ids_def)
  moreover have "ss_pending_conn_window s = []" "sid \<notin> ss_pending_stream_window s"
    using ok(4) stream conn assms(2-4) by (auto simp: blocked_ok_def)
  with ok(4) have "blocked_ok ?s" by (auto simp: blocked_ok_def chunk)
  ultimately show ?thesis by (simp add: sending_ok_def)
qed

lemma sending_read:
  assumes "sending_ok (Some sid) s" "Streams_poll_read_body poll_body s sid = (s', r)"
  shows "sending_ok (if r = Ok Read_Pending then None else Some sid) s'"
proof -
  have data: "sending_ok (Some sid) (map_stream sid (st_data_update (\<lambda>_. d)) s)" for d
    by (rule sending_calm [OF calm_body assms(1)])
  show ?thesis
    using poll_read_body_effect [OF assms(2)]
  proof (elim disjE exE conjE, goal_cases)
    case (4 x d)
    have "\<exists>y. ss_stream_map (map_stream sid (st_data_update (\<lambda>_. d)) s) sid = Some y"
      using 4(1) by (simp add: map_stream_def)
    with sending_waits(3) [OF data] 4 show ?case by auto
  qed (use assms(1) data sending_waits(1,2) [OF assms(1)] sending_chunk [OF assms(1)] in auto)
qed

interpretation sending: calm_invariant sending_ok env for env
proof (unfold_locales, goal_cases)
  case (1 h s)
  then show ?case by (simp add: sending_ok_def)
next
  case (2 h s s')
  then show ?case by (rule sending_calm [rotated])
qed (fact sending_request, fact sending_ended, fact sending_resized, fact sending_conn_credit,
    fact sending_stream_credit, fact sending_consumed, fact sending_taken, fact sending_read)

end
