(* ===== verification/H2_Manager_Account.thy ===== *)
theory H2_Manager_Account
  imports H2_Manager_Sending
begin

text \<open>
  Two more invariants of the connection manager: closed streams stay closed, and the counter of
  concurrent streams is accounted for.
\<close>

section \<open>Closed streams stay closed\<close>

definition closed_in :: "'b Streams \<Rightarrow> StreamId \<Rightarrow> bool" where
  "closed_in s sid \<longleftrightarrow> (case Streams_stream_state s sid of None \<Rightarrow> False | Some st \<Rightarrow> is_Closed st)"

definition closed_since :: "'b Streams \<Rightarrow> 'b Streams \<Rightarrow> bool" where
  "closed_since s0 s \<longleftrightarrow> base_ok s \<and> (\<forall>sid. closed_in s0 sid \<longrightarrow> closed_in s sid)"

lemma same_states:
  assumes "\<And>t. rel_option (\<lambda>x y. st_state y = st_state x \<and> st_header y = st_header x) (ss_stream_map s t) (ss_stream_map s' t)"
  shows "Streams_stream_state s' = Streams_stream_state s"
proof
  fix t
  show "Streams_stream_state s' t = Streams_stream_state s t"
    using assms [of t] by (cases "ss_stream_map s t"; cases "ss_stream_map s' t") (auto simp: Streams_stream_state_def)
qed

lemma closed_calm:
  assumes "closed_since s0 s" "calm s s'"
  shows "closed_since s0 s'"
proof -
  have "closed_in s' sid" if "closed_in s sid" for sid
  proof -
    have "rel_option calm_stream (ss_stream_map s sid) (ss_stream_map s' sid)" using assms(2) by (simp add: calm_def)
    with that show ?thesis
      by (cases "ss_stream_map s sid"; cases "ss_stream_map s' sid")
        (auto simp: closed_in_def Streams_stream_state_def calm_stream_def)
  qed
  with assms(1) calm_base [OF assms(2)] show ?thesis by (simp add: closed_since_def)
qed

lemma enqueue_states:
  "Streams_stream_state (enqueue_request s sid request) = (Streams_stream_state s)(sid \<mapsto> Idle)"
  by (auto simp: Streams_stream_state_def enqueue_fields Stream_new_def)

lemma closed_request:
  assumes "closed_since s0 s" "is_Headers (rq_payload request)" "Streams_generate_id s = (s', Ok sid)"
  shows "closed_since s0 (enqueue_request s' sid request)"
proof -
  have base: "base_ok s" using assms(1) by (simp add: closed_since_def)
  have new: "s' = s\<lparr>ss_next_stream_id := ss_next_stream_id s + 2\<rparr>" "ss_stream_map s sid = None"
    using generate_id_Ok [OF _ assms(3)] base by (auto simp: base_ok_def)
  then have "Streams_stream_state s' = Streams_stream_state s" "Streams_stream_state s sid = None"
    by (auto simp: Streams_stream_state_def)
  then have "closed_in (enqueue_request s' sid request) t" if "closed_in s t" for t
    using that by (auto simp: closed_in_def enqueue_states split: option.splits)
  with base_request [OF base assms(2,3)] assms(1) show ?thesis by (simp add: closed_since_def)
qed

interpretation closed: state_invariant "closed_since s0" env for s0 env
proof (unfold_locales, goal_cases)
  case (1 s)
  then show ?case by (simp add: closed_since_def)
next
  case (4 s s')
  with same_states [of s s'] show ?case by (simp add: closed_since_def closed_in_def)
qed (fact closed_calm, fact closed_request)

section \<open>The number of concurrent streams\<close>

definition unclosed :: "'b Streams \<Rightarrow> StreamId set" where
  "unclosed s = {sid. \<exists>st. Streams_stream_state s sid = Some st \<and> \<not> is_Closed st}"

text \<open>
  The counter and the streams waiting for a concurrency slot make up the streams that are not
  closed. A GOAWAY frame that closes streams ends this: it releases no waiting stream.
\<close>

definition accounted :: "'b Streams \<Rightarrow> bool" where
  "accounted s \<longleftrightarrow>
     base_ok s \<and> ss_max_send_id s \<le> INITIAL_MAX_SEND_STREAM_ID
     \<and> (ss_max_send_id s = INITIAL_MAX_SEND_STREAM_ID \<longrightarrow>
       ss_current_concurrent_streams s + of_nat (length (ss_pending_concurrency s)) = of_nat (card (unclosed s)))"

definition same_account :: "'b Streams \<Rightarrow> 'b Streams \<Rightarrow> bool" where
  "same_account s s' \<longleftrightarrow>
     ss_max_send_id s' = ss_max_send_id s \<and> ss_current_concurrent_streams s' = ss_current_concurrent_streams s
     \<and> ss_pending_concurrency s' = ss_pending_concurrency s \<and> unclosed s' = unclosed s"

lemma accounted_same: "accounted s \<Longrightarrow> same_account s s' \<Longrightarrow> base_ok s' \<Longrightarrow> accounted s'"
  by (simp add: accounted_def same_account_def)

lemma unclosed_simps [simp]:
  "unclosed (s\<lparr>ss_current_concurrent_streams := n\<rparr>) = unclosed s"
  "unclosed (s\<lparr>ss_max_concurrent_streams := n\<rparr>) = unclosed s"
  "unclosed (s\<lparr>ss_flow_control := fc\<rparr>) = unclosed s"
  "unclosed (s\<lparr>ss_stream_recv_window_size := n\<rparr>) = unclosed s"
  "unclosed (s\<lparr>ss_pending_send := ids\<rparr>) = unclosed s"
  "unclosed (s\<lparr>ss_pending_concurrency := ids\<rparr>) = unclosed s"
  "unclosed (s\<lparr>ss_next_stream_id := n\<rparr>) = unclosed s"
  by (simp_all add: unclosed_def Streams_stream_state_def)

lemma unclosed_map_stream:
  assumes "\<And>x. ss_stream_map s sid = Some x \<Longrightarrow> is_Closed (st_state (f x)) = is_Closed (st_state x)"
  shows "unclosed (map_stream sid f s) = unclosed s"
  using assms by (auto simp: unclosed_def Streams_stream_state_def map_stream_def)

lemma unclosed_map_streams:
  assumes "\<And>x. st_state (f x) = st_state x"
  shows "unclosed (map_streams f s) = unclosed s"
  using assms by (auto simp: unclosed_def Streams_stream_state_def map_streams_def)

lemma unclosed_close:
  assumes "\<And>x. is_Closed (st_state (f x))"
  shows "unclosed (map_stream sid f s) = unclosed s - {sid}"
  using assms by (auto simp: unclosed_def Streams_stream_state_def map_stream_def)

text \<open>Closing a stream that was not closed takes one from the counter and one from the streams.\<close>

lemma accounted_close:
  assumes "accounted s" "ss_stream_map s sid = Some x" "\<not> is_Closed (st_state x)" "\<And>x. is_Closed (st_state (f x))"
    and "base_ok (Streams_decrease_current_concurrency (map_stream sid f s))"
  shows "accounted (Streams_decrease_current_concurrency (map_stream sid f s))"
proof -
  have "sid \<in> unclosed s" using assms(2,3) by (simp add: unclosed_def Streams_stream_state_def)
  then have "card (unclosed s) = Suc (card (unclosed s - {sid}))" by (intro card.remove) simp_all
  then have "(of_nat (card (unclosed s)) :: u32) = 1 + of_nat (card (unclosed s - {sid}))" by simp
  with assms(1,5) unclosed_close [of f sid s, OF assms(4)] show ?thesis
    by (simp add: accounted_def Streams_decrease_current_concurrency_def map_stream_def algebra_simps)
qed

lemma accounted_moved:
  assumes "accounted s" "accepted s sid actions s'"
  shows "accounted s'"
proof -
  obtain x st where x: "ss_stream_map s sid = Some x" "\<not> is_Closed (st_state x)" and s': "s' = advance sid st s"
    using assms(2) by (auto simp: accepted_def)
  have base: "base_ok s'" using calm_base [OF calm_accepted [OF assms(2)]] assms(1) by (simp add: accounted_def)
  show ?thesis
  proof (cases "is_Closed st")
    case True
    with s' have eq: "s' = Streams_decrease_current_concurrency (map_stream sid (st_state_update (\<lambda>_. st)) s)"
      by (simp add: advance_def set_state_def)
    show ?thesis unfolding eq by (rule accounted_close [OF assms(1) x]) (use True base eq in simp_all)
  next
    case False
    with s' x unclosed_map_stream [of s sid "st_state_update (\<lambda>_. st)"] have "same_account s s'"
      by (simp add: same_account_def advance_def set_state_def map_stream_def)
    with assms(1) base show ?thesis by (auto intro: accounted_same)
  qed
qed

lemma accounted_aborted:
  assumes "accounted s" "aborted s sid reason s'"
  shows "accounted s'"
proof -
  obtain x where x: "ss_stream_map s sid = Some x" "\<not> is_Closed (st_state x)"
    and s': "s' = Streams_decrease_current_concurrency (map_stream sid (close_stream reason) s)"
    using assms(2) by (auto simp: aborted_def abort_def)
  have "base_ok s'" using calm_base [OF calm_aborted [OF assms(2)]] assms(1) by (simp add: accounted_def)
  with s' show ?thesis by (auto intro!: accounted_close [OF assms(1) x] simp: close_stream_def)
qed

lemma accounted_request:
  assumes "accounted s" "is_Headers (rq_payload request)" "Streams_generate_id s = (s', Ok sid)"
  shows "accounted (enqueue_request s' sid request)"
proof -
  have base: "base_ok s" using assms(1) by (simp add: accounted_def)
  have new: "s' = s\<lparr>ss_next_stream_id := ss_next_stream_id s + 2\<rparr>" "ss_stream_map s sid = None"
    using generate_id_Ok [OF _ assms(3)] base by (auto simp: base_ok_def)
  then have "Streams_stream_state s' = Streams_stream_state s" "sid \<notin> unclosed s"
    by (auto simp: Streams_stream_state_def unclosed_def)
  then have "unclosed (enqueue_request s' sid request) = insert sid (unclosed s)"
    by (auto simp: unclosed_def enqueue_states)
  with \<open>sid \<notin> unclosed s\<close> have card: "card (unclosed (enqueue_request s' sid request)) = Suc (card (unclosed s))" by simp
  have "ss_current_concurrent_streams (enqueue_request s' sid request)
      + of_nat (length (ss_pending_concurrency (enqueue_request s' sid request)))
    = ss_current_concurrent_streams s + of_nat (length (ss_pending_concurrency s)) + 1"
    by (simp add: enqueue_request_def new(1) Streams_insert_def Streams_push_pending_concurrency_def
        Streams_push_back_pending_send_def Streams_increase_current_concurrency_def Let_def)
  with assms(1) base_request [OF base assms(2,3)] show ?thesis
    by (simp add: accounted_def card [unfolded new(1)] enqueue_fields new(1) ac_simps)
qed

lemma accounted_consumed:
  assumes "accounted s"
  shows "accounted (Streams_try_consume_pending_concurrency s)"
proof -
  obtain ids rest where "ss_pending_concurrency s = ids @ rest"
    "Streams_try_consume_pending_concurrency s =
       s\<lparr>ss_pending_concurrency := rest, ss_pending_send := ss_pending_send s @ ids,
         ss_current_concurrent_streams := ss_current_concurrent_streams s + of_nat (length ids)\<rparr>"
    using consumed_eq by blast
  moreover from this have "base_ok (Streams_try_consume_pending_concurrency s)"
    using regrouped_base [OF regrouped_consumed, of s] assms by (simp only: accounted_def)
  ultimately show ?thesis using assms by (simp add: accounted_def ac_simps)
qed

lemma unset_none:
  assumes "\<And>sid. sid \<in> dom (ss_stream_map s) \<Longrightarrow> sid \<le> last_id"
  shows "fst (unset_loop rest last_id s ids) = s"
proof (induction rest arbitrary: ids)
  case (Cons sid rest)
  with assms [of sid] show ?case
    by (auto simp: unset_loop_Cons not_less [symmetric] simp del: unset_loop.simps split: option.split)
qed simp

lemma unset_max_send_id: "ss_max_send_id (fst (unset_loop rest last_id s ids)) = ss_max_send_id s"
proof (induction rest arbitrary: s ids)
  case (Cons sid rest)
  have "ss_max_send_id (unset_one sid x s) = ss_max_send_id s" for x
    by (cases "st_state x") (simp_all add: unset_one_def map_stream_def Streams_decrease_current_concurrency_def)
  with Cons show ?case by (simp add: unset_loop_Cons del: unset_loop.simps split: option.split)
qed simp

lemma accounted_unsent:
  assumes "accounted s" "last_id \<le> ss_max_send_id s"
  shows "accounted (fst (Streams_get_unset_streams keys (s\<lparr>ss_max_send_id := last_id\<rparr>) last_id))"
proof -
  let ?s = "s\<lparr>ss_max_send_id := last_id\<rparr>"
  let ?t = "fst (Streams_get_unset_streams keys ?s last_id)"
  have base: "base_ok ?t" by (rule calm_base [OF calm_unsent]) (use assms(1) in \<open>simp add: accounted_def\<close>)
  show ?thesis
  proof (cases "last_id = INITIAL_MAX_SEND_STREAM_ID")
    case True
    have "sid \<le> last_id" if "sid \<in> dom (ss_stream_map ?s)" for sid
    proof -
      have "sid < ss_next_stream_id s" "ss_next_stream_id s \<le> 2147483647"
        using that assms(1) by (auto simp: accounted_def base_ok_def ids_ok_def)
      with True show ?thesis by (simp add: INITIAL_MAX_SEND_STREAM_ID_def)
    qed
    with unset_none [of ?s last_id] have "?t = ?s" by (simp add: Streams_get_unset_streams_def)
    with True assms have "?t = s" by (simp add: accounted_def)
    with assms(1) show ?thesis by simp
  next
    case False
    moreover have "last_id \<le> INITIAL_MAX_SEND_STREAM_ID" using assms by (auto simp: accounted_def)
    ultimately show ?thesis
      using base by (simp add: accounted_def Streams_get_unset_streams_def unset_max_send_id)
  qed
qed

lemma account_relabelled:
  "Streams_stream_state s sid = Some (Closed EndStream) \<Longrightarrow> same_account s (set_state sid (Closed LocalRst) s)"
  using unclosed_map_stream [of s sid "st_state_update (\<lambda>_. Closed LocalRst)"]
  by (auto simp: same_account_def set_state_def Streams_stream_state_def map_stream_def)

lemma account_limited: "same_account s (Streams_apply_max_concurrent_streams s num)"
  by (simp add: same_account_def Streams_apply_max_concurrent_streams_def)

lemma account_recv_resized: "same_account s (Streams_apply_recv_initial_window_size s n)"
  by (auto simp: same_account_def Streams_apply_recv_initial_window_size_def map_streams_def Let_def
      unclosed_def Streams_stream_state_def)

lemma account_conn_released: "same_account s (fst (Streams_release_conn_recv_window send s tx n))"
  by (auto simp: same_account_def Streams_release_conn_recv_window_def Let_def split: prod.split option.split)

lemma account_stream_released: "same_account s (fst (Streams_release_stream_recv_window send s tx sid n))"
  by (auto simp: same_account_def Streams_release_stream_recv_window_def Let_def map_stream_def
      unclosed_def Streams_stream_state_def split: prod.split option.split)

lemma account_headers: "same_account s (fst (Streams_headers s sid))"
  by (auto simp: same_account_def Streams_headers_def map_stream_def
      unclosed_def Streams_stream_state_def split: option.split)

lemma account_send_resized:
  assumes "traversals_ok env" "unat n < 2147483648"
    and "Streams_apply_send_initial_window_size (env_keys env) (env_elems env) s n = (s', Ok u)"
  shows "same_account s s'"
proof -
  have "s' = (if ss_stream_send_window_size s < n
      then (resize_streams n s)\<lparr>ss_pending_send := ss_pending_send s @ env_elems env (ss_pending_stream_window s),
                                ss_pending_stream_window := {}\<rparr>
      else resize_streams n s)"
    using send_grown [OF assms(1,2) _ assms(3)] send_shrunk [OF _ assms(3)] by auto
  then show ?thesis
    by (auto simp: same_account_def resize_streams_def map_streams_def unclosed_def Streams_stream_state_def credit_stream_def)
qed

lemma account_conn_credit:
  "Streams_increase_conn_send_window s n = (s', r) \<Longrightarrow> same_account s (Streams_reassign_conn_send_window s')"
  by (auto simp: same_account_def Streams_increase_conn_send_window_def Streams_reassign_conn_send_window_def
      reassign_loop_eq unclosed_def Streams_stream_state_def split: prod.splits)

lemma account_stream_credit: "Streams_reassign_stream_send_window s sid n = (s', r) \<Longrightarrow> same_account s s'"
  by (auto simp: same_account_def Streams_reassign_stream_send_window_def map_stream_def Let_def
      unclosed_def Streams_stream_state_def split: prod.splits option.splits rust_result.splits if_splits)

lemma account_taken: "Streams_next_pending_stream s = (s', Some sid) \<Longrightarrow> same_account s s'"
  by (auto simp: same_account_def Streams_next_pending_stream_def split: list.splits)

lemma account_read:
  assumes "Streams_poll_read_body poll_body s sid = (s', r)"
  shows "same_account s s'"
proof -
  have "Streams_stream_state s' = Streams_stream_state s"
    by (rule same_states) (use reading_keeps_headers [OF assms] in blast)
  then have "unclosed s' = unclosed s" by (simp add: unclosed_def)
  then show ?thesis
    using poll_read_body_effect [OF assms]
    by (elim disjE exE conjE)
      (simp_all add: same_account_def map_stream_def sent_chunk_def Streams_push_back_pending_send_def)
qed

lemma accounted_calm: "accounted s \<Longrightarrow> same_account s s' \<Longrightarrow> calm s s' \<Longrightarrow> accounted s'"
  by (rule accounted_same) (simp_all add: accounted_def calm_base)

lemma accounted_regrouped: "accounted s \<Longrightarrow> same_account s s' \<Longrightarrow> regrouped s s' \<Longrightarrow> accounted s'"
  by (rule accounted_same) (simp_all add: accounted_def regrouped_base)

lemma accounted_taken:
  assumes "accounted s" "Streams_next_pending_stream s = (s', Some sid)"
  shows "accounted s'"
proof -
  have "base_ok s" using assms(1) by (simp add: accounted_def)
  then have "base_ok s'" using base_taken [OF _ assms(2)] by blast
  then show ?thesis by (rule accounted_same [OF assms(1) account_taken [OF assms(2)]])
qed

lemma accounted_read:
  assumes "accounted s" "Streams_poll_read_body poll_body s sid = (s', r)"
  shows "accounted s'"
  by (rule accounted_same [OF assms(1) account_read [OF assms(2)] base_read [OF _ assms(2)]])
    (use assms(1) in \<open>simp add: accounted_def\<close>)

interpretation account: stream_invariant "\<lambda>h. accounted" env for env
proof (unfold_locales, goal_cases)
  case (1 h s)
  then show ?case by (simp add: accounted_def base_ok_def)
next
  case (2 s request s' sid)
  then show ?case by (rule accounted_request)
next
  case (3 h s sid actions s')
  then show ?case by (rule accounted_moved)
next
  case (4 h s sid reason s')
  then show ?case by (rule accounted_aborted)
next
  case (5 h s sid)
  show ?case by (rule accounted_calm [OF 5(1) account_relabelled [OF 5(2)] calm_relabelled [OF 5(2)]])
next
  case (6 sid s st)
  show ?case by (rule 6(1))
next
  case (7 s num)
  show ?case by (rule accounted_calm [OF 7 account_limited calm_limited])
next
  case (8 s n s')
  show ?case
    by (rule accounted_regrouped [OF 8(2) account_send_resized [OF 8(1,3,4)] regrouped_send_resized [OF 8(1,3,4)]])
next
  case (9 s n)
  show ?case by (rule accounted_calm [OF 9 account_recv_resized calm_recv_resized])
next
  case (10 s tx n)
  show ?case by (rule accounted_calm [OF 10 account_conn_released calm_conn_released])
next
  case (11 s tx sid n)
  show ?case by (rule accounted_calm [OF 11 account_stream_released calm_stream_released])
next
  case (12 s n s')
  show ?case by (rule accounted_regrouped [OF 12(1) account_conn_credit [OF 12(3)] regrouped_conn_credit [OF 12(3)]])
next
  case (13 s n sid s')
  show ?case by (rule accounted_regrouped [OF 13(1) account_stream_credit [OF 13(3)] regrouped_stream_credit [OF 13(3)]])
next
  case (14 s last_id)
  then show ?case by (rule accounted_unsent)
next
  case (15 s)
  then show ?case by (rule accounted_consumed)
next
  case (16 s s' sid)
  then show ?case by (rule accounted_taken)
next
  case (17 sid s)
  show ?case by (rule accounted_calm [OF 17 account_headers calm_headers])
next
  case (18 sid s s' r)
  then show ?case by (rule accounted_read)
qed

end
