(* ===== verification/H2_Manager_Runs.thy ===== *)
theory H2_Manager_Runs
  imports H2_Manager_Account
begin

text \<open>
  What holds of the connection manager in every run of its task: no request is forgotten, no
  window is overrun, closed streams stay closed, and the concurrent streams are accounted for.
\<close>

section \<open>Properties of every run\<close>

lemma new_base: "base_ok (Streams_new rw sw fc)"
  by (simp add: base_ok_def ids_ok_def own_headers_def queue_ids_def Streams_new_def)

lemma new_accounted: "accounted (Streams_new rw sw fc)"
  using new_base [of rw sw fc]
  by (simp add: accounted_def unclosed_def Streams_stream_state_def Streams_new_def)

lemma new_sending:
  assumes "fc_send_window fc = SendWindow_new 65535"
  shows "sending_ok None (Streams_new rw 65535 fc)"
  using assms new_base [of rw 65535 fc]
  by (simp add: sending_ok_def windows_ok_def queued_def blocked_ok_def Streams_new_def SendWindow_new_def)

lemma launched_good:
  assumes "Http2Dispatcher_new send config tx channels = Some m"
  shows "good sending_ok None m" "good (\<lambda>h. base_ok) None m" "good (\<lambda>h. accounted) None m"
  using assms by (auto elim!: launched simp: good_def new_sending new_base new_accounted)

lemma run_sending:
  assumes "Http2Dispatcher_new send config tx channels = Some m0" "manager_run env m0 es m"
    and "list_all event_in_range es" "traversals_ok env" "live m"
  shows "sending_ok None (cm_streams m)"
  using sending.run_keeps [OF assms(2,3) launched_good(1) [OF assms(1)] assms(5,4)] by (simp add: good_def)

text \<open>
  C7. No request is forgotten. In every run of the manager on frames as the decoder yields them,
  as long as the task is not about to exit, each stream that still has something to send waits in
  the send queue or for a concurrency slot, or it waits for the window of the stream or of the
  connection, and then that window is really exhausted.
\<close>

theorem no_request_lost:
  assumes "Http2Dispatcher_new send config tx channels = Some m0" "manager_run env m0 es m"
    and "list_all event_in_range es" "traversals_ok env" "live m"
    and "ss_stream_map (cm_streams m) sid = Some stream" "still_sending (st_state stream)"
  shows "sid \<in> set (ss_pending_send (cm_streams m)) \<or> sid \<in> set (ss_pending_concurrency (cm_streams m))
    \<or> sid \<in> ss_pending_stream_window (cm_streams m) \<and> SendWindow_size_available (st_send_window stream) = 0
    \<or> sid \<in> set (ss_pending_conn_window (cm_streams m))
        \<and> FlowControl_send_size_available (ss_flow_control (cm_streams m)) = 0"
proof -
  have zero: "SendWindow_size_available w = 0" if "sint (sw_size w) \<le> 0" for w
    using available_exact [of w] that by (auto simp: max_def uint_0_iff split: if_splits)
  have ok: "queued None (cm_streams m)" "blocked_ok (cm_streams m)"
    using run_sending [OF assms(1-5)] by (simp_all add: sending_ok_def)
  then have "sid \<in> queue_ids (cm_streams m)" using assms(6,7) by (auto simp: queued_def)
  moreover have "\<not> is_Closed (st_state stream)" using assms(7) by (cases "st_state stream") simp_all
  ultimately show ?thesis
    using ok(2) assms(6) zero
    by (auto simp: queue_ids_def blocked_ok_def FlowControl_send_size_available_def)
qed

text \<open>
  C17. Send windows stay in range: in every such run the window of the connection is never negative
  and the window of a stream never falls below \<open>- (2^31 - 1)\<close>, also when SETTINGS shrink it, so that
  no subtraction wraps around.
\<close>

theorem send_windows_in_range:
  assumes "Http2Dispatcher_new send config tx channels = Some m0" "manager_run env m0 es m"
    and "list_all event_in_range es" "traversals_ok env" "live m"
  shows "0 \<le> sint (sw_size (fc_send_window (ss_flow_control (cm_streams m))))
    \<and> (\<forall>sid stream. ss_stream_map (cm_streams m) sid = Some stream \<longrightarrow>
         uint (ss_stream_send_window_size (cm_streams m)) - 2147483647 \<le> sint (sw_size (st_send_window stream)))"
  using run_sending [OF assms] by (simp add: sending_ok_def windows_ok_def)

text \<open>
  C12. A closed stream stays closed: whatever happens after a stream has been closed, in every
  continuation of the run it is still closed, its identifier is not used again, and all
  identifiers are odd.
\<close>

theorem closed_streams_stay_closed:
  assumes "Http2Dispatcher_new send config tx channels = Some m0"
    and "manager_run env m0 es m" "manager_run env m es' m'"
    and "list_all event_in_range (es @ es')" "traversals_ok env" "live m" "live m'"
    and "closed_in (cm_streams m) sid"
  shows "closed_in (cm_streams m') sid \<and> odd (uint sid) \<and> sid < ss_next_stream_id (cm_streams m')"
proof -
  have base: "good (\<lambda>h. base_ok) None m"
    using ids.run_keeps [OF assms(2) _ launched_good(2) [OF assms(1)] assms(6,5)] assms(4) by simp
  then have "good (\<lambda>h. closed_since (cm_streams m)) None m" by (simp add: good_def closed_since_def)
  then have m': "closed_since (cm_streams m) (cm_streams m')"
    using closed.run_keeps [OF assms(3) _ _ assms(7,5), of "cm_streams m"] assms(4) by (simp add: good_def)
  with assms(8) have "closed_in (cm_streams m') sid" "sid \<in> dom (ss_stream_map (cm_streams m'))"
    by (auto simp: closed_since_def closed_in_def Streams_stream_state_def split: option.splits)
  with m' show ?thesis by (auto simp: closed_since_def base_ok_def ids_ok_def)
qed

text \<open>
  C16. The number of concurrent streams is accounted for: in every run, until a GOAWAY frame limits
  the streams, the counter and the number of streams that wait for a slot add up, as 32-bit words,
  to the number of streams that are not closed.
\<close>

theorem concurrency_accounted:
  assumes "Http2Dispatcher_new send config tx channels = Some m0" "manager_run env m0 es m"
    and "list_all event_in_range es" "traversals_ok env" "live m"
    and "ss_max_send_id (cm_streams m) = INITIAL_MAX_SEND_STREAM_ID"
  shows "ss_current_concurrent_streams (cm_streams m) + of_nat (length (ss_pending_concurrency (cm_streams m))) =
    of_nat (card (unclosed (cm_streams m)))"
proof -
  have "good (\<lambda>h. accounted) None m"
    using account.run_keeps [OF assms(2,3) launched_good(3) [OF assms(1)] assms(5,4)] .
  with assms(6) show ?thesis by (simp add: good_def accounted_def)
qed

section \<open>A run\<close>

text \<open>
  A peer that grants new streams nothing, a request whose body therefore waits for the window of its
  stream, and then the reset of that stream by the peer.
\<close>

definition demo_env :: "(unit, unit, Frame list) environment" where
  "demo_env = \<lparr>env_poll_body = (\<lambda>b n. (b, Ready (Ok []))), env_resp_send = (\<lambda>r sid message. (r, Ready True)),
     env_send = (\<lambda>tx frame. Some (tx @ [frame])), env_keys = (\<lambda>m. sorted_list_of_set (dom m)),
     env_elems = sorted_list_of_set, env_message_keys = (\<lambda>m. sorted_list_of_set (dom m))\<rparr>"

definition demo_request :: "unit RequestWrapper" where
  "demo_request = \<lparr>rq_flag = FrameFlags 4, rq_payload = Payload_Headers Parts_new, rq_data = Some ()\<rparr>"

definition demo_headers :: Frame where
  "demo_headers = Frame_new 1 (FrameFlags 4) (Payload_Headers Parts_new)"

definition demo_stream :: "H2StreamState \<Rightarrow> unit BodyDataRef \<Rightarrow> unit Stream" where
  "demo_stream st data =
     \<lparr>st_recv_window = RecvWindow_new 100, st_send_window = SendWindow_new 0, st_state = st, st_header = None,
      st_data = data\<rparr>"

definition demo_config :: H2Config where
  "demo_config = H2Config_default\<lparr>hc_init_conn_window_size := 65535, hc_init_stream_window_size := 100\<rparr>"

definition demo_start :: "(unit, unit, Frame list) ConnManager" where
  "demo_start =
     ConnManager_new Synced [create_initial_settings demo_config]
       (StreamController_new (Streams_new 100 65535 (FlowControl_new 65535 65535)) ())"

definition demo_settings :: Frame where
  "demo_settings = Frame_new 0 (FrameFlags 0) (Payload_Settings [InitialWindowSize 0])"

definition demo_nothing :: "(unit, unit, Frame list) ConnManager" where
  "demo_nothing =
     set_streams ((cm_streams demo_start)\<lparr>ss_stream_send_window_size := 0\<rparr>) demo_start
       \<lparr>cm_input_tx := [create_initial_settings demo_config,
          Frame_new 0 (FrameFlags 1) (Payload_Settings [InitialWindowSize 0])]\<rparr>"

definition demo_waiting :: "(unit, unit, Frame list) ConnManager" where
  "demo_waiting =
     (let s = (cm_streams demo_nothing)\<lparr>ss_next_stream_id := 3, ss_current_concurrent_streams := 1,
                ss_pending_stream_window := {1},
                ss_stream_map := [1 \<mapsto> demo_stream (Open WaitData WaitHeaders) (Some ())]\<rparr>;
          c = cm_controller demo_nothing
      in demo_nothing\<lparr>cm_input_tx := cm_input_tx demo_nothing @ [demo_headers],
           cm_controller := c\<lparr>sc_streams := s, sc_senders := {1}\<rparr>\<rparr>)"

definition demo_reset :: "(unit, unit, Frame list) ConnManager" where
  "demo_reset =
     set_streams ((cm_streams demo_waiting)\<lparr>ss_current_concurrent_streams := 0,
       ss_stream_map := [1 \<mapsto> demo_stream (Closed RemoteRst) None]\<rparr>) demo_waiting"

lemmas demo_states = demo_start_def demo_nothing_def demo_waiting_def demo_reset_def demo_stream_def demo_env_def
  ConnManager_new_def StreamController_new_def Streams_new_def cm_streams_def set_streams_def

lemma demo_launched: "Http2Dispatcher_new (env_send demo_env) demo_config [] () = Some demo_start"
  by (simp add: Http2Dispatcher_new_def demo_env_def demo_start_def DEFAULT_WINDOW_SIZE_def FlowControl_new_def
      FlowControl_setup_recv_window_def RecvWindow_actual_size_def RecvWindow_new_def demo_config_def
      RecvWindow_reduce_actual_def Streams_release_conn_recv_window_def FlowControl_recv_notification_size_available_def
      RecvWindow_notification_available_def FlowControl_recv_data_def RecvWindow_recv_data_def Streams_new_def
      FlowControl_check_conn_recv_window_update_def RecvWindow_check_window_update_def RecvWindow_unreleased_size_def)

lemma demo_traversals: "traversals_ok demo_env"
  by (simp add: traversals_ok_def demo_env_def)

lemma input_body_waits:
  "Streams_poll_read_body poll_body (cm_streams m) sid = (s, Ok Read_Pending) \<Longrightarrow>
     input_body poll_body resp_send send m sid = (set_streams s m, Ok ())"
  by (subst input_body.simps) simp

lemma try_consume_none: "ss_pending_concurrency s = [] \<Longrightarrow> Streams_try_consume_pending_concurrency s = s"
  by (simp add: Streams_try_consume_pending_concurrency.simps [of s])

lemma demo_step_0:
  "poll_recv_message (env_resp_send demo_env) (env_send demo_env) (env_keys demo_env) (env_elems demo_env)
     demo_start demo_settings = (demo_nothing, Ready (Ok ()))"
  by (simp add: demo_states poll_recv_message_def poll_recv_frame_def recv_settings_frame_def demo_settings_def
      Frame_new_def FrameFlags_is_ack_def ACK_MASK_def Streams_apply_send_initial_window_size_def map_streams_def
      send_input_def send_frame_def into_dispatch_def)

lemma demo_step_1:
  "manage_pending_state (env_poll_body demo_env) (env_resp_send demo_env) (env_send demo_env) (env_keys demo_env)
     demo_nothing [demo_request] False = (demo_waiting, Pending)"
  by (simp add: demo_states manage_pending_state_def poll_input_request_def accept_request_def enqueue_request_def
      demo_request_def demo_headers_def Streams_generate_id_def DEFAULT_MAX_STREAM_ID_def Streams_reach_max_concurrency_def
      Streams_is_pending_concurrency_empty_def Streams_push_back_pending_send_def Streams_increase_current_concurrency_def
      DEFAULT_MAX_CONCURRENT_STREAMS_def Streams_insert_def Stream_new_def try_consume_none
      Streams_pending_stream_num_def Streams_next_pending_stream_def input_stream_frame_def Streams_headers_def map_stream_def
      poll_send_frame_def send_input_def send_frame_def Frame_new_def FrameFlags_is_end_stream_def Streams_send_headers_frame_def
      set_state_def input_body_waits Streams_poll_read_body_def SendWindow_size_available_def SendWindow_new_def END_STREAM_MASK_def)

lemma demo_step_2:
  "poll_recv_message (env_resp_send demo_env) (env_send demo_env) (env_keys demo_env) (env_elems demo_env)
     demo_waiting (Frame_new 1 (FrameFlags 0) (Payload_RstStream 8)) = (demo_reset, Ready (Ok ()))"
  by (simp add: demo_states poll_recv_message_def poll_recv_frame_def recv_reset_frame_def Streams_recv_remote_reset_def
      Frame_new_def to_stream_def StreamController_send_message_to_stream_def into_dispatch_def map_stream_def
      close_stream_def BodyDataRef_clear_def Streams_decrease_current_concurrency_def INITIAL_MAX_RECV_STREAM_ID_def)

lemma demo_step_3:
  "manage_pending_state (env_poll_body demo_env) (env_resp_send demo_env) (env_send demo_env) (env_keys demo_env)
     demo_reset [] False = (demo_reset, Pending)"
  by (simp add: demo_states manage_pending_state_def poll_input_request_def try_consume_none Streams_pending_stream_num_def)

lemma demo_live: "live demo_waiting" "live demo_reset"
  by (simp_all add: live_def demo_states)

abbreviation demo_events :: "unit manager_event list" where
  "demo_events \<equiv> [Event_Message (Output demo_settings), Event_Idle [demo_request] False]"

abbreviation demo_rst :: Frame where
  "demo_rst \<equiv> Frame_new 1 (FrameFlags 0) (Payload_RstStream 8)"

lemma demo_run_1: "manager_run demo_env demo_start demo_events demo_waiting"
proof -
  have step_0: "manager_step demo_env demo_start (Event_Message (Output demo_settings)) demo_nothing"
    by (rule manager_step.frame [OF _ demo_step_0]) (simp_all add: demo_states)
  have "manager_step demo_env demo_nothing (Event_Idle [demo_request] False) demo_waiting"
    by (rule manager_step.idle [OF _ demo_step_1]) (simp_all add: demo_states)
  from manager_run.next_round [OF manager_run.next_round [OF manager_run.start step_0] this] show ?thesis by simp
qed

lemma demo_run_2: "manager_run demo_env demo_start (demo_events @ [Event_Message (Output demo_rst)]) demo_reset"
proof -
  have "manager_step demo_env demo_waiting (Event_Message (Output demo_rst)) demo_reset"
    by (rule manager_step.frame [OF _ demo_step_2]) (simp_all add: demo_states)
  from manager_run.next_round [OF demo_run_1 this] show ?thesis by simp
qed

lemma demo_run_3: "manager_run demo_env demo_reset [Event_Idle [] False] demo_reset"
proof -
  have "manager_step demo_env demo_reset (Event_Idle [] False) demo_reset"
    by (rule manager_step.idle [OF _ demo_step_3]) (simp_all add: demo_states)
  from manager_run.next_round [OF manager_run.start this] show ?thesis by simp
qed

lemma demo_range: "list_all event_in_range (demo_events @ [Event_Message (Output demo_rst), Event_Idle [] False])"
  by (simp add: event_in_range_def demo_request_def is_Headers_def frame_in_range_def Frame_new_def demo_settings_def
      setting_in_range_def)

lemma demo_map:
  "ss_stream_map (cm_streams demo_waiting) 1 = Some (demo_stream (Open WaitData WaitHeaders) (Some ()))"
  by (simp add: demo_waiting_def cm_streams_def Let_def)

theorem no_request_lost_witness:
  "Http2Dispatcher_new (env_send demo_env) demo_config [] () = Some demo_start
   \<and> manager_run demo_env demo_start demo_events demo_waiting
   \<and> 1 \<in> ss_pending_stream_window (cm_streams demo_waiting)
   \<and> SendWindow_size_available (st_send_window (demo_stream (Open WaitData WaitHeaders) (Some ()))) = 0"
proof -
  have "still_sending (st_state (demo_stream (Open WaitData WaitHeaders) (Some ())))" by (simp add: demo_stream_def)
  from no_request_lost [OF demo_launched demo_run_1 _ demo_traversals demo_live(1) demo_map this] demo_run_1 demo_range
  show ?thesis by (simp add: demo_launched) (simp add: demo_states)
qed

theorem send_windows_in_range_witness:
  "manager_run demo_env demo_start demo_events demo_waiting
   \<and> 0 \<le> sint (sw_size (fc_send_window (ss_flow_control (cm_streams demo_waiting))))"
  using send_windows_in_range [OF demo_launched demo_run_1 _ demo_traversals demo_live(1)] demo_run_1 demo_range by simp

theorem closed_streams_stay_closed_witness:
  "manager_run demo_env demo_start (demo_events @ [Event_Message (Output demo_rst)]) demo_reset
   \<and> manager_run demo_env demo_reset [Event_Idle [] False] demo_reset
   \<and> closed_in (cm_streams demo_reset) 1 \<and> odd (uint (1 :: StreamId)) \<and> 1 < ss_next_stream_id (cm_streams demo_reset)"
proof -
  have "closed_in (cm_streams demo_reset) 1"
    by (simp add: closed_in_def Streams_stream_state_def demo_reset_def demo_stream_def)
  from closed_streams_stay_closed [OF demo_launched demo_run_2 demo_run_3 _ demo_traversals demo_live(2,2) this]
    demo_run_2 demo_run_3 demo_range
  show ?thesis by simp
qed

theorem concurrency_accounted_witness:
  "manager_run demo_env demo_start demo_events demo_waiting
   \<and> ss_current_concurrent_streams (cm_streams demo_waiting)
       + of_nat (length (ss_pending_concurrency (cm_streams demo_waiting))) = of_nat (card (unclosed (cm_streams demo_waiting)))"
proof -
  have "ss_max_send_id (cm_streams demo_waiting) = INITIAL_MAX_SEND_STREAM_ID" by (simp add: demo_states)
  from concurrency_accounted [OF demo_launched demo_run_1 _ demo_traversals demo_live(1) this] demo_run_1 demo_range
  show ?thesis by simp
qed

section \<open>A reset of a waiting stream\<close>

text \<open>
  C32. The counter underflows. When no stream is counted and the peer resets a stream that waits for
  a concurrency slot, the reset is accepted and the counter becomes \<open>2^32 - 1\<close>; from then on the
  limit is reached whatever limit the peer announces, and no waiting request is ever started.
\<close>

theorem waiting_reset_underflows:
  assumes "ss_current_concurrent_streams s = 0" "sid \<le> ss_max_recv_id s"
    and "ss_stream_map s sid = Some stream" "\<not> is_Closed (st_state stream)"
  shows "\<exists>s'. Streams_recv_remote_reset s sid = (s', StreamEnd_OK) \<and> ss_current_concurrent_streams s' = 4294967295
    \<and> (\<forall>limit. Streams_try_consume_pending_concurrency (Streams_apply_max_concurrent_streams s' limit) =
                Streams_apply_max_concurrent_streams s' limit)"
proof -
  let ?s = "Streams_decrease_current_concurrency (map_stream sid (close_stream RemoteRst) s)"
  have max: "x \<le> 4294967295" for x :: u32
    using uint_lt2p [of x] by (simp add: word_le_def)
  have count: "ss_current_concurrent_streams ?s = 4294967295"
    using assms(1) by (simp add: Streams_decrease_current_concurrency_def map_stream_def)
  then have "Streams_reach_max_concurrency (Streams_apply_max_concurrent_streams ?s limit)" for limit
    by (simp add: Streams_reach_max_concurrency_def Streams_apply_max_concurrent_streams_def max)
  then have "Streams_try_consume_pending_concurrency (Streams_apply_max_concurrent_streams ?s limit) =
      Streams_apply_max_concurrent_streams ?s limit" for limit
    by (simp add: Streams_try_consume_pending_concurrency.simps [of "Streams_apply_max_concurrent_streams ?s limit"])
  moreover have "Streams_recv_remote_reset s sid = (?s, StreamEnd_OK)"
    using assms(2-4) by (simp add: Streams_recv_remote_reset_def not_less [symmetric])
  ultimately show ?thesis using count by blast
qed

definition demo_unstarted :: "unit Streams" where
  "demo_unstarted =
     (let s = Streams_apply_max_concurrent_streams (Streams_new 100 100 (FlowControl_new 100 100)) 0
      in enqueue_request (fst (Streams_generate_id s)) 1 demo_request)"

theorem waiting_reset_underflows_witness:
  "\<exists>s'. Streams_recv_remote_reset demo_unstarted 1 = (s', StreamEnd_OK) \<and> ss_current_concurrent_streams s' = 4294967295"
proof -
  note defs = demo_unstarted_def enqueue_request_def Streams_apply_max_concurrent_streams_def Streams_new_def
    Streams_generate_id_def DEFAULT_MAX_STREAM_ID_def Streams_reach_max_concurrency_def Streams_push_pending_concurrency_def
    Streams_insert_def INITIAL_MAX_RECV_STREAM_ID_def
  have "ss_current_concurrent_streams demo_unstarted = 0" "1 \<le> ss_max_recv_id demo_unstarted"
    "ss_stream_map demo_unstarted 1 = Some (Stream_new (RecvWindow_new 100) (SendWindow_new 100)
       (Frame_new 1 (FrameFlags 4) (Payload_Headers Parts_new)) (Some ()))"
    by (simp_all add: defs demo_request_def)
  from waiting_reset_underflows [OF this] show ?thesis by (auto simp: Stream_new_def)
qed

end
