(* ===== verification/H2_Manager_Flow.thy ===== *)
theory H2_Manager_Flow
  imports H2_Manager_Runs
begin

text \<open>
  Flow control of the whole connection: over every run of the manager, the bytes of the DATA frames
  handed to the frame writer and the send window of the connection never exceed what the peer has
  granted. The channel to the frame writer is unbounded, so here it is the list of the frames sent.
\<close>

section \<open>What has been sent and what may be sent\<close>

definition data_size :: "Frame \<Rightarrow> nat" where
  "data_size frame = (case frame_payload frame of Payload_Data data \<Rightarrow> length data | _ \<Rightarrow> 0)"

definition data_sent :: "Frame list \<Rightarrow> nat" where
  "data_sent frames = sum_list (map data_size frames)"

definition conn_window :: "'b Streams \<Rightarrow> int" where
  "conn_window s = sint (sw_size (fc_send_window (ss_flow_control s)))"

definition budget :: "('b, 'r, Frame list) ConnManager \<Rightarrow> int" where
  "budget m = int (data_sent (cm_input_tx m)) + conn_window (cm_streams m)"

definition unbounded :: "('b, 'r, Frame list) environment \<Rightarrow> bool" where
  "unbounded env \<longleftrightarrow> (\<forall>tx frame. env_send env tx frame = Some (tx @ [frame]))"

text \<open>The credit that a WINDOW_UPDATE frame for the connection brings.\<close>

definition frame_credit :: "Frame \<Rightarrow> int" where
  "frame_credit frame =
     (case frame_payload frame of
        Payload_WindowUpdate n \<Rightarrow> if frame_id frame = 0 then uint n else 0
      | _ \<Rightarrow> 0)"

definition event_credit :: "'b manager_event \<Rightarrow> int" where
  "event_credit e = (case e of Event_Message (Output frame) \<Rightarrow> frame_credit frame | _ \<Rightarrow> 0)"

section \<open>Handlers that send no data\<close>

lemma data_sent_snoc: "data_sent (tx @ [frame]) = data_sent tx + data_size frame"
  by (simp add: data_sent_def)

lemma data_size_simps [simp]:
  "data_size (Frame_new sid flags (Payload_RstStream n)) = 0" "data_size (Frame_new sid flags (Payload_Goaway g)) = 0"
  "data_size (Frame_new sid flags (Payload_Settings st)) = 0" "data_size (Frame_new sid flags (Payload_WindowUpdate n)) = 0"
  "data_size (Frame_new sid flags (Payload_Data d)) = length d" "data_size (Ping_ack p) = 0"
  "data_size (Frame_new sid flags (Payload_Headers h)) = 0"
  by (simp_all add: data_size_def Frame_new_def Ping_ack_def)

lemma budget_simps [simp]:
  "budget (m\<lparr>cm_state := st\<rparr>) = budget m" "budget (m\<lparr>cm_next_state := st\<rparr>) = budget m"
  "budget (m\<lparr>cm_settings := se\<rparr>) = budget m" "budget (m\<lparr>cm_req_closed := b\<rparr>) = budget m"
  by (simp_all add: budget_def)

lemma set_streams_tx [simp]: "cm_input_tx (set_streams s m) = cm_input_tx m"
  by (simp add: set_streams_def)

lemma budget_set_streams: "conn_window s = conn_window (cm_streams m) \<Longrightarrow> budget (set_streams s m) = budget m"
  by (simp add: budget_def)

lemma budget_send_input:
  "unbounded env \<Longrightarrow> send_input (env_send env) m frame = (m', r) \<Longrightarrow> budget m' = budget m + int (data_size frame)"
  by (auto simp: unbounded_def send_input_def send_frame_def budget_def data_sent_snoc)

lemma budget_to_stream: "to_stream resp_send m sid message = (m', r) \<Longrightarrow> budget m' = budget m"
  using to_stream_keeps(1) [of resp_send m sid message]
  by (auto simp: budget_def to_stream_def split: prod.splits)

lemma budget_exit_streams: "exit_streams resp_send error ids m blocked = (m', b) \<Longrightarrow> budget m' = budget m"
proof (induction ids arbitrary: m blocked)
  case (Cons sid ids)
  then show ?case by (auto split: prod.splits poll.splits dest!: budget_to_stream)
qed simp

lemma conn_window_calm: "calm s s' \<Longrightarrow> conn_window s' = conn_window s"
  by (simp add: calm_def conn_window_def)

lemma budget_reset:
  assumes "Streams_send_local_reset (cm_streams m) sid = (s, e)"
  shows "budget (set_streams s m) = budget m"
  using send_reset_cases [OF assms]
  by (intro budget_set_streams conn_window_calm) (auto intro: calm_aborted calm_relabelled)

lemma budget_stream_error:
  assumes "unbounded env" "manage_stream_error resp_send (env_send env) m sid code = (m', r)"
  shows "budget m' = budget m"
proof -
  obtain s e where reset: "Streams_send_local_reset (cm_streams m) sid = (s, e)" by fastforce
  let ?frame = "Frame_new sid FrameFlags_empty (Payload_RstStream (ErrorCode_into_code code))"
  obtain m1 q where send: "send_input (env_send env) (set_streams s m) ?frame = (m1, q)" by fastforce
  obtain m2 p where deliver: "to_stream resp_send m1 sid (Resp_OutputExit (Dispatch_H2 (StreamError sid code))) = (m2, p)"
    by fastforce
  show ?thesis
    using assms(2) reset send deliver budget_reset [OF reset] budget_send_input [OF assms(1) send] budget_to_stream [OF deliver]
    by (cases e; cases q; cases p) (auto simp: manage_stream_error_def)
qed

lemma budget_update_window:
  assumes "unbounded env" "update_window (env_send env) m sid n = (m', r)"
  shows "budget m' = budget m"
proof -
  obtain s1 tx1 r1 where conn: "Streams_release_conn_recv_window (env_send env) (cm_streams m) (cm_input_tx m) n = (s1, tx1, r1)"
    by (rule prod_cases3)
  obtain s2 tx2 r2 where stream: "Streams_release_stream_recv_window (env_send env) s1 tx1 sid n = (s2, tx2, r2)"
    by (rule prod_cases3)
  have tx1: "data_sent tx1 = data_sent (cm_input_tx m)"
    using conn assms(1)
    by (auto simp: Streams_release_conn_recv_window_def FlowControl_check_conn_recv_window_update_def
        RecvWindow_check_window_update_def send_frame_def unbounded_def data_sent_snoc Let_def split: if_splits option.splits)
  have tx2: "data_sent tx2 = data_sent tx1"
    using stream assms(1)
    by (auto simp: Streams_release_stream_recv_window_def RecvWindow_check_window_update_def send_frame_def unbounded_def
        data_sent_snoc Let_def split: if_splits option.splits)
  have "conn_window s1 = conn_window (cm_streams m)" "conn_window s2 = conn_window s1"
    using calm_conn_released [of "cm_streams m" "env_send env" "cm_input_tx m" n] calm_stream_released [of s1 "env_send env" tx1 sid n]
      conn stream by (auto dest!: conn_window_calm)
  with tx1 tx2 conn stream assms(2) show ?thesis
    by (cases r1) (auto simp: update_window_def budget_def)
qed

lemma conn_window_received:
  "Streams_recv_remote_reset s sid = (s', r) \<Longrightarrow> conn_window s' = conn_window s"
  "Streams_recv_headers s sid eos = (s', q) \<Longrightarrow> conn_window s' = conn_window s"
  "Streams_recv_data s sid eos = (s', q) \<Longrightarrow> conn_window s' = conn_window s"
  by (auto dest!: recv_reset_cases recv_headers_cases recv_data_cases intro!: conn_window_calm intro: calm_aborted calm_accepted)

lemma budget_data_frame:
  assumes "unbounded env" "recv_data_frame resp_send (env_send env) m frame = (m', r)"
  shows "budget m' = budget m"
proof (cases "frame_payload frame")
  case (Payload_Data data)
  obtain m1 q where update: "update_window (env_send env) m (frame_id frame) (word_of_nat (length data)) = (m1, q)" by fastforce
  obtain s k where recv: "Streams_recv_data (cm_streams m1) (frame_id frame) (FrameFlags_is_end_stream (frame_flags frame)) = (s, k)"
    by fastforce
  obtain m2 p where deliver: "to_stream resp_send (set_streams s m1) (frame_id frame) (Resp_Output frame) = (m2, p)" by fastforce
  show ?thesis
    using assms(2) Payload_Data update recv deliver budget_update_window [OF assms(1) update]
      budget_set_streams [OF conn_window_received(3) [OF recv]] budget_to_stream [OF deliver]
    by (cases q; cases k) (auto simp: recv_data_frame_def)
qed (use assms(2) in \<open>auto simp: recv_data_frame_def\<close>)

lemma budget_stream_frames:
  "recv_reset_frame resp_send m frame = (m', r) \<Longrightarrow> budget m' = budget m"
  "recv_header_frame resp_send m frame = (m', r) \<Longrightarrow> budget m' = budget m"
  by (auto simp: recv_reset_frame_def recv_header_frame_def budget_set_streams conn_window_received
      split: prod.splits StreamEndState.splits FrameRecvState.splits dest!: budget_to_stream)

lemma budget_go_away:
  assumes "recv_go_away_frame resp_send keys m frame = (m', r)"
  shows "budget m' = budget m"
proof (cases "frame_payload frame")
  case (Payload_Goaway go_away)
  let ?m = "m\<lparr>cm_controller := StreamController_goaway (cm_controller m), cm_req_closed := True\<rparr>"
  obtain c q where unsent: "StreamController_get_unsent_streams keys (cm_controller ?m) (goaway_last_stream_id go_away) = (c, q)"
    by fastforce
  have "conn_window (sc_streams c) = conn_window (cm_streams m)"
    using unsent calm_unsent [of "cm_streams m" keys "goaway_last_stream_id go_away", THEN conn_window_calm]
    by (auto simp: StreamController_get_unsent_streams_def StreamController_goaway_def cm_streams_def conn_window_def
        split: if_splits prod.splits)
  then have m1: "budget (?m\<lparr>cm_controller := c\<rparr>) = budget m" by (simp add: budget_def cm_streams_def)
  have err: "budget (x\<lparr>cm_controller := (cm_controller x)\<lparr>sc_go_away_error_code := e\<rparr>\<rparr>) = budget x" for x :: "('a, 'b, Frame list) ConnManager" and e
    by (simp add: budget_def cm_streams_def)
  show ?thesis
    using assms Payload_Goaway unsent m1
    by (auto simp: recv_go_away_frame_def Let_def err split: rust_result.splits prod.splits dest!: budget_exit_streams)
qed (use assms in \<open>auto simp: recv_go_away_frame_def\<close>)

lemma conn_window_acknowledged: "conn_window (apply_acknowledged settings s) = conn_window s"
proof (induction settings arbitrary: s)
  case (Cons setting settings)
  then show ?case
    using conn_window_calm [OF calm_recv_resized] by (cases setting) simp_all
qed simp

lemma conn_window_peer:
  "traversals_ok env \<Longrightarrow> list_all setting_in_range settings \<Longrightarrow>
     apply_peer_settings (env_keys env) (env_elems env) settings s = (s', Ok u) \<Longrightarrow> conn_window s' = conn_window s"
proof (induction settings arbitrary: s)
  case (Cons setting settings)
  show ?case
  proof (cases setting)
    case (InitialWindowSize n)
    obtain s1 r where resize: "Streams_apply_send_initial_window_size (env_keys env) (env_elems env) s n = (s1, r)" by fastforce
    with Cons.prems(3) InitialWindowSize have r: "r = Ok ()"
      and rest: "apply_peer_settings (env_keys env) (env_elems env) settings s1 = (s', Ok u)"
      by (auto split: rust_result.splits)
    have "unat n < 2147483648" using Cons.prems(2) InitialWindowSize by (simp add: setting_in_range_def)
    from send_resized_fields(3) [OF Cons.prems(1) this resize [unfolded r]] Cons.IH [OF Cons.prems(1) _ rest] Cons.prems(2)
    show ?thesis by (simp add: conn_window_def)
  next
    case (MaxConcurrentStreams n)
    with Cons conn_window_calm [OF calm_limited, of s n] show ?thesis by auto
  qed (use Cons in auto)
qed simp

lemma budget_settings:
  assumes "unbounded env" "traversals_ok env" "frame_in_range frame"
    and "recv_settings_frame (env_send env) (env_keys env) (env_elems env) m frame = (m', Ok u)"
  shows "budget m' = budget m"
proof (cases "frame_payload frame")
  case (Payload_Settings settings)
  obtain s r where peer: "apply_peer_settings (env_keys env) (env_elems env) settings (cm_streams m) = (s, r)" by fastforce
  have window: "r = Ok () \<Longrightarrow> budget (set_streams s m) = budget m"
    using conn_window_peer [OF assms(2), of settings "cm_streams m" s "()"] peer assms(3) Payload_Settings
    by (simp add: frame_in_range_def budget_set_streams)
  obtain m1 q where send: "send_input (env_send env) (set_streams s m)
      (Frame_new (frame_id frame) (FrameFlags 1) (Payload_Settings settings)) = (m1, q)" by fastforce
  show ?thesis
    using assms(4) Payload_Settings peer window send budget_send_input [OF assms(1) send]
    by (cases r)
      (auto simp: recv_settings_frame_def budget_set_streams conn_window_acknowledged Let_def
        split: if_splits SettingsState.splits)
qed (use assms(4) in \<open>auto simp: recv_settings_frame_def\<close>)

lemma budget_window_frame:
  assumes "frame_in_range frame" "recv_window_frame m frame = (m', Ok u)" "frame_payload frame = Payload_WindowUpdate n"
  shows "budget m' = budget m + (if frame_id frame = 0 then uint n else 0)"
proof -
  have n: "unat n < 2147483648" using assms(1,3) by (simp add: frame_in_range_def)
  let ?w = "fc_send_window (ss_flow_control (cm_streams m))"
  obtain s r where conn: "Streams_increase_conn_send_window (cm_streams m) n = (s, r)" by fastforce
  have conn_ok: "conn_window (Streams_reassign_conn_send_window s) = conn_window (cm_streams m) + uint n" if "r = Ok ()"
    using conn that increase_exact [OF n, of ?w]
    by (auto simp: Streams_increase_conn_send_window_def FlowControl_increase_send_size_def conn_window_def
        Streams_reassign_conn_send_window_def reassign_loop_eq split: if_splits)
  obtain t q where stream: "Streams_reassign_stream_send_window (cm_streams m) (frame_id frame) n = (t, q)" by fastforce
  have stream_ok: "conn_window t = conn_window (cm_streams m)" if "q = Ok ()"
    using stream_credit_Ok(3) [OF n stream [unfolded that]] by (simp add: conn_window_def)
  show ?thesis
    using assms(2,3) conn stream conn_ok stream_ok
    by (cases r; cases q) (auto simp: recv_window_frame_def budget_def set_streams_def cm_streams_def split: if_splits)
qed

lemma settings_fatal:
  assumes "unbounded env" "recv_settings_frame (env_send env) (env_keys env) (env_elems env) m frame = (m', r)" "\<not> fatal (Ready r)"
  shows "r = Ok ()"
  using assms
  by (auto simp: recv_settings_frame_def send_input_def send_frame_def unbounded_def Let_def
      split: Payload.splits if_splits prod.splits rust_result.splits dest!: peer_settings_err)

lemma window_fatal:
  assumes "recv_window_frame m frame = (m', r)" "\<not> fatal (Ready r)"
  shows "r = Ok ()"
  using assms
  by (auto simp: recv_window_frame_def split: Payload.splits if_splits prod.splits rust_result.splits
      dest!: conn_credit_err stream_credit_err)

lemma budget_ping:
  assumes "unbounded env" "recv_ping_frame (env_send env) m frame = (m', r)"
  shows "budget m' = budget m"
  using assms by (auto simp: recv_ping_frame_def split: Payload.splits if_splits dest!: budget_send_input [OF assms(1)])

lemma budget_frame:
  assumes "unbounded env" "traversals_ok env" "frame_in_range frame"
    and "poll_recv_frame (env_resp_send env) (env_send env) (env_keys env) (env_elems env) m frame = (m', r)"
    and "\<not> fatal r"
  shows "budget m' = budget m + frame_credit frame"
proof (cases "frame_payload frame")
  case (Payload_Settings settings)
  obtain m1 q where recv: "recv_settings_frame (env_send env) (env_keys env) (env_elems env) m frame = (m1, q)" by fastforce
  with assms(4,5) Payload_Settings settings_fatal [OF assms(1) recv] have "q = Ok ()" "m1 = m'"
    by (auto simp: poll_recv_frame_def)
  with budget_settings [OF assms(1-3)] recv Payload_Settings show ?thesis by (simp add: frame_credit_def)
next
  case (Payload_WindowUpdate n)
  obtain m1 q where recv: "recv_window_frame m frame = (m1, q)" by fastforce
  with assms(4,5) Payload_WindowUpdate window_fatal [OF recv] have "q = Ok ()" "m1 = m'"
    by (auto simp: poll_recv_frame_def)
  with budget_window_frame [OF assms(3) _ Payload_WindowUpdate, of m m' "()"] recv Payload_WindowUpdate show ?thesis
    by (simp add: frame_credit_def)
qed (use assms(1,4) budget_stream_frames budget_go_away budget_ping [OF assms(1)] budget_data_frame [OF assms(1)] in
    \<open>auto simp: poll_recv_frame_def frame_credit_def split: prod.splits\<close>)

lemma budget_message:
  assumes "unbounded env" "traversals_ok env" "frame_in_range frame" "sending_ok None (cm_streams m)"
    and "sc_going_away (cm_controller m) = None"
    and "poll_recv_message (env_resp_send env) (env_send env) (env_keys env) (env_elems env) m frame = (m', r)"
    and "goes_on r" "live m'"
  shows "budget m' = budget m + frame_credit frame"
proof -
  obtain m1 q where recv: "poll_recv_frame (env_resp_send env) (env_send env) (env_keys env) (env_elems env) m frame = (m1, q)"
    by fastforce
  have going: "sc_going_away (cm_controller m1) = None"
    using sending.frame_handled [of m frame env] assms(2-5) recv by (simp add: handled_def good_def)
  show ?thesis
  proof (cases "fatal q")
    case True
    show ?thesis
    proof (cases "\<exists>e. q = Ready (Err e)")
      case True
      then obtain e where q: "q = Ready (Err e)" ..
      with recv assms(6) have err: "manage_resp_error (env_resp_send env) (env_send env) (env_keys env) m1 e = (m', r)"
        by (simp add: poll_recv_message_def)
      with fatal_exit [OF err going _ assms(7)] \<open>fatal q\<close> q assms(8) show ?thesis by simp
    next
      case False
      with True recv assms(6,7) show ?thesis
        by (auto simp: poll_recv_message_def fatal_def split: poll.splits rust_result.splits)
    qed
  next
    case False
    note m1 = budget_frame [OF assms(1-3) recv False]
    show ?thesis
    proof (cases "\<exists>sid code. q = Ready (Err (Dispatch_H2 (StreamError sid code)))")
      case True
      with recv assms(6) m1 show ?thesis
        by (auto simp: poll_recv_message_def manage_resp_error_def dest!: budget_stream_error [OF assms(1)])
    next
      case not_stream: False
      with False recv assms(6) m1 show ?thesis
        by (auto simp: poll_recv_message_def fatal_def split: poll.splits rust_result.splits DispatchErrorKind.splits H2Error.splits)
    qed
  qed
qed

section \<open>Sending\<close>

lemma budget_requests: "budget (fst (poll_recv_request m requests closed)) = budget m"
proof (induction requests arbitrary: m)
  case (Cons q requests)
  obtain m1 b where accept: "accept_request m q = (m1, b)" by fastforce
  have "budget m1 = budget m"
    using accept
    by (auto simp: accept_request_def Streams_generate_id_def budget_def cm_streams_def conn_window_def enqueue_fields Let_def
        split: if_splits)
  with accept Cons show ?case by (cases b) simp_all
qed simp

lemma conn_window_accepted: "accepted s sid actions s' \<Longrightarrow> conn_window s' = conn_window s"
  by (rule conn_window_calm) (rule calm_accepted)

lemma conn_window_sent:
  "Streams_send_headers_frame s sid eos = (s', r) \<Longrightarrow> conn_window s' = conn_window s"
  "Streams_send_data_frame s sid eos = (s', r) \<Longrightarrow> conn_window s' = conn_window s"
  by (auto dest!: send_headers_cases send_data_cases conn_window_accepted)

lemma budget_poll_send_frame:
  assumes "unbounded env" "poll_send_frame (env_send env) m frame = (m', r)"
  shows "budget m' \<le> budget m + int (data_size frame)"
proof -
  let ?eos = "FrameFlags_is_end_stream (frame_flags frame)"
  obtain s1 r1 where headers: "Streams_send_headers_frame (cm_streams m) (frame_id frame) ?eos = (s1, r1)" by fastforce
  obtain s2 r2 where data: "Streams_send_data_frame (cm_streams m) (frame_id frame) ?eos = (s2, r2)" by fastforce
  have "budget (set_streams s1 m) = budget m" "budget (set_streams s2 m) = budget m"
    using budget_set_streams [OF conn_window_sent(1) [OF headers]] budget_set_streams [OF conn_window_sent(2) [OF data]]
    by simp_all
  then show ?thesis
    using assms(2) headers data
    by (cases "frame_payload frame")
      (auto simp: poll_send_frame_def Let_def split: FrameRecvState.splits dest!: budget_send_input [OF assms(1)])
qed

lemma budget_read:
  assumes "Streams_poll_read_body poll_body (cm_streams m) sid = (s, r)"
  shows "budget (set_streams s m) + (case r of Ok (Read_Ready frame) \<Rightarrow> int (data_size frame) | _ \<Rightarrow> 0) = budget m"
proof -
  have chunk: "conn_window (sent_chunk sid k data t) = conn_window t - int k"
    if "k \<le> FlowControl_send_size_available (ss_flow_control t)" "0 < k" for k data and t :: "'a Streams"
    using send_chunk_exact that
    by (simp add: conn_window_def sent_chunk_def map_stream_def FlowControl_send_data_def FlowControl_send_size_available_def)
  have budget: "budget (set_streams t m) = int (data_sent (cm_input_tx m)) + conn_window t" for t
    by (simp add: budget_def)
  have same: "conn_window s = conn_window (cm_streams m) \<Longrightarrow> \<nexists>frame. r = Ok (Read_Ready frame) \<Longrightarrow> ?thesis"
    by (auto simp: budget budget_def split: rust_result.splits DataReadState.splits)
  show ?thesis
    using poll_read_body_effect [OF assms]
  proof (elim disjE exE conjE, goal_cases)
    case (6 x data bytes flags)
    then show ?case by (simp add: budget budget_def chunk)
  qed (rule same; simp add: conn_window_def map_stream_def Streams_push_back_pending_send_def)+
qed

lemma read_finish_empty:
  assumes "Streams_poll_read_body poll_body s sid = (s', Ok (Read_Finish frame))"
  shows "frame_payload frame = Payload_Data []"
proof -
  have "frame_payload frame = Payload_Data []" if "Streams_poll_sized_data poll_body s sid len = (s', Ok (Read_Finish frame))" for len
    using that
    by (auto simp: Streams_poll_sized_data_def Frame_new_def Let_def split: option.splits prod.splits poll.splits rust_result.splits if_splits)
  with assms show ?thesis
    by (auto simp: Streams_poll_read_body_def Let_def split: option.splits if_splits)
qed

lemma budget_body:
  assumes "unbounded env"
  shows "input_body poll_body resp_send (env_send env) m sid = (m', r) \<Longrightarrow> budget m' \<le> budget m"
proof (induction poll_body resp_send "env_send env" m sid rule: input_body.induct)
  case (1 poll_body resp_send m sid)
  obtain s q where read: "Streams_poll_read_body poll_body (cm_streams m) sid = (s, q)" by fastforce
  note loop = "1.prems" [unfolded input_body.simps [of _ _ _ m], unfolded read]
  note s = budget_read [OF read]
  show ?case
  proof (cases "\<exists>frame. q = Ok (Read_Ready frame)")
    case True
    then obtain frame where q: "q = Ok (Read_Ready frame)" ..
    obtain m1 p where send: "poll_send_frame (env_send env) (set_streams s m) frame = (m1, p)" by fastforce
    have m1: "budget m1 \<le> budget m" using budget_poll_send_frame [OF assms send] s q by simp
    show ?thesis
    proof (cases "p = Ok ()")
      case True
      with "1.hyps" read send q loop have "budget m' \<le> budget m1" by simp
      with m1 show ?thesis by simp
    next
      case False
      with loop q send m1 show ?thesis by (cases p) auto
    qed
  next
    case False
    have m1: "budget (set_streams s m) = budget m"
      using False s by (auto split: rust_result.splits DataReadState.splits)
    have finish: "data_size frame = 0" if "q = Ok (Read_Finish frame)" for frame
      using read_finish_empty [OF read [unfolded that]] by (simp add: data_size_def)
    show ?thesis
      using loop False m1 finish
      by (auto simp: deal_poll_body_error_def split: rust_result.splits DataReadState.splits H2Error.splits prod.splits poll.splits
          dest!: budget_poll_send_frame [OF assms] budget_stream_error [OF assms])
  qed
qed

lemma budget_stream:
  assumes "unbounded env" "own_headers (cm_streams m)"
    and "input_stream_frame poll_body resp_send (env_send env) m sid = (m', r)"
  shows "budget m' \<le> budget m"
proof -
  obtain s q where header: "Streams_headers (cm_streams m) sid = (s, q)" by fastforce
  have s: "budget (set_streams s m) = budget m"
    using header calm_headers [of "cm_streams m" sid] by (intro budget_set_streams conn_window_calm) simp
  show ?thesis
  proof (cases "\<exists>frame. q = Ok (Some frame)")
    case True
    then obtain frame where q: "q = Ok (Some frame)" ..
    with header assms(2) have "is_Headers (frame_payload frame)"
      by (auto simp: Streams_headers_def own_headers_def split: option.splits if_splits)
    then have "data_size frame = 0" by (simp add: data_size_def is_Headers_def split: Payload.splits)
    obtain m1 p where send: "poll_send_frame (env_send env) (set_streams s m) frame = (m1, p)" by fastforce
    with budget_poll_send_frame [OF assms(1) send] s \<open>data_size frame = 0\<close> have "budget m1 \<le> budget m" by simp
    with assms(3) header q send budget_body [OF assms(1), of poll_body resp_send m1 sid m' r] show ?thesis
      by (cases p) (auto simp: input_stream_frame_def split: if_splits)
  next
    case False
    with assms(3) header s budget_body [OF assms(1), of poll_body resp_send "set_streams s m" sid m' r] show ?thesis
      by (auto simp: input_stream_frame_def split: rust_result.splits option.splits)
  qed
qed

lemma budget_pending:
  "unbounded env \<Longrightarrow> sending_ok None (cm_streams m) \<Longrightarrow> sc_going_away (cm_controller m) = None \<Longrightarrow>
     input_pending (env_poll_body env) (env_resp_send env) (env_send env) n m = (m', Ok u) \<Longrightarrow> budget m' \<le> budget m"
proof (induction n arbitrary: m)
  case (Suc n)
  obtain s h where pop: "Streams_next_pending_stream (cm_streams m) = (s, h)" by fastforce
  have s: "budget (set_streams s m) = budget m"
    using pop by (intro budget_set_streams) (auto simp: conn_window_def Streams_next_pending_stream_def split: list.splits)
  show ?case
  proof (cases h)
    case None
    with pop s Suc.prems(4) show ?thesis by auto
  next
    case (Some sid)
    then have good: "good sending_ok (Some sid) (set_streams s m)"
      using sending_taken [OF Suc.prems(2), of s sid] pop Suc.prems(3) by (simp add: good_def)
    then have "own_headers (cm_streams (set_streams s m))" by (simp add: good_def sending_ok_def base_ok_def)
    obtain m1 r where send: "input_stream_frame (env_poll_body env) (env_resp_send env) (env_send env) (set_streams s m) sid = (m1, r)"
      by fastforce
    with Suc.prems(4) pop Some have r: "r = Ok ()" by (cases r) simp_all
    have "budget m1 \<le> budget m"
      using budget_stream [OF Suc.prems(1) \<open>own_headers (cm_streams (set_streams s m))\<close> send] s by simp
    moreover have "good sending_ok None m1" using sending.stream_sent [OF good, of env m1 "()"] send r by simp
    ultimately show ?thesis
      using Suc.IH [OF Suc.prems(1), of m1] Suc.prems(4) pop Some send r by (simp add: good_def)
  qed
qed simp

lemma budget_idle:
  assumes "unbounded env" "good sending_ok None m" "list_all (\<lambda>request. is_Headers (rq_payload request)) requests"
    and "manage_pending_state (env_poll_body env) (env_resp_send env) (env_send env) (env_keys env) m requests closed = (m', r)"
    and "goes_on r"
  shows "budget m' \<le> budget m"
proof (cases "sc_go_away_error_code (cm_controller m)")
  case None
  obtain m1 q where recv: "poll_recv_request m requests closed = (m1, q)" by fastforce
  let ?m = "set_streams (Streams_try_consume_pending_concurrency (cm_streams m1)) m1"
  have m1: "good sending_ok None m1" "budget m1 = budget m"
    using sending.requests_accepted [OF assms(2,3), of closed] budget_requests [of m requests closed] recv by simp_all
  then have "good sending_ok None ?m" by (simp add: good_def sending_consumed)
  moreover have "budget ?m = budget m1"
    using consumed_eq [of "cm_streams m1"] by (intro budget_set_streams) (auto simp: conn_window_def)
  ultimately show ?thesis
    using None recv assms(4,5) m1 budget_pending [OF assms(1), of ?m _ m' "()"]
    by (auto simp: manage_pending_state_def poll_input_request_def good_def Let_def split: prod.splits rust_result.splits)
next
  case (Some code)
  with assms(4,5) show ?thesis
    by (auto simp: manage_pending_state_def poll_deal_with_go_away_def Let_def
        split: prod.splits rust_result.splits if_splits)
qed

lemma budget_blocked_loop:
  assumes "unbounded env"
  shows "blocked_loop resp_send (env_send env) ids c tx b = (c', tx', b') \<Longrightarrow>
    conn_window (sc_streams c') = conn_window (sc_streams c) \<and> data_sent tx' = data_sent tx"
proof (induction ids arbitrary: c tx b)
  case (Cons key ids)
  obtain s e where reset: "Streams_send_local_reset (sc_streams c) key = (s, e)" by fastforce
  have "conn_window s = conn_window (sc_streams c)"
    using send_reset_cases [OF reset] by (intro conn_window_calm) (auto intro: calm_aborted calm_relabelled)
  with Cons.prems reset assms show ?case
    by (auto simp: unbounded_def data_sent_snoc Let_def
        split: option.splits prod.splits poll.splits bool.splits if_splits StreamEndState.splits dest!: Cons.IH)
qed simp

lemma budget_unblock:
  assumes "unbounded env" "poll_blocked_frames resp_send (env_send env) keys m = (m', r)"
  shows "budget m' = budget m"
proof -
  obtain c tx b where loop: "blocked_loop resp_send (env_send env) (keys (sc_curr_message (cm_controller m)))
      (cm_controller m) (cm_input_tx m) False = (c, tx, b)" by (rule prod_cases3)
  from budget_blocked_loop [OF assms(1) loop] loop assms(2) show ?thesis
    by (auto simp: poll_blocked_frames_def StreamController_poll_blocked_message_def budget_def cm_streams_def
        split: if_splits)
qed

section \<open>The whole run\<close>

lemma budget_step:
  assumes "manager_step env m e m'" "unbounded env" "traversals_ok env" "event_in_range e"
    and "good sending_ok None m" "live m'"
  shows "budget m' \<le> budget m + event_credit e"
  using assms(1)
proof (cases rule: manager_step.cases)
  case (blocked r)
  with budget_unblock [OF assms(2) blocked(3)] show ?thesis by (simp add: event_credit_def)
next
  case (frame f r)
  with assms budget_message [of env f m m' r] show ?thesis by (simp add: good_def event_in_range_def event_credit_def)
next
  case (ignored k)
  then show ?thesis by (simp add: event_credit_def)
next
  case (error k r)
  show ?thesis
  proof (cases "fatal (Ready (Err k))")
    case True
    with fatal_exit [OF error(4) _ True error(5)] assms(5,6) show ?thesis by (simp add: good_def)
  next
    case False
    with error show ?thesis
      by (auto simp: manage_resp_error_def event_credit_def fatal_def
          split: DispatchErrorKind.splits H2Error.splits dest!: budget_stream_error [OF assms(2)])
  qed
next
  case (closed r)
  with assms(6) show ?thesis
    by (auto simp: poll_channel_closed_exit_def live_def split: prod.splits bool.splits)
next
  case (idle requests closed r)
  with assms budget_idle [OF assms(2,5), of requests closed m' r] show ?thesis
    by (simp add: event_in_range_def event_credit_def)
next
  case (settings_sent settings)
  then show ?thesis by (simp add: event_credit_def budget_def cm_streams_def)
qed

lemma live_before:
  assumes "manager_step env m e m'" "live m'"
  shows "live m"
  using assms
proof (cases rule: manager_step.cases)
  case (blocked r)
  with assms(2) show ?thesis
    by (auto simp: poll_blocked_frames_def live_def split: prod.splits poll.splits ManagerState.splits)
next
  case (settings_sent settings)
  with assms(2) show ?thesis by (cases "cm_state m") (simp_all add: live_def)
qed (auto simp: live_def)

lemma budget_run:
  "manager_run env m es m' \<Longrightarrow> unbounded env \<Longrightarrow> traversals_ok env \<Longrightarrow> list_all event_in_range es \<Longrightarrow>
     good sending_ok None m \<Longrightarrow> live m' \<Longrightarrow> budget m' \<le> budget m + sum_list (map event_credit es)"
proof (induction rule: manager_run.induct)
  case (next_round m es m1 e m2)
  have "live m1" by (rule live_before [OF next_round.hyps(2) next_round.prems(5)])
  with next_round have m1: "budget m1 \<le> budget m + sum_list (map event_credit es)" by simp
  have "good sending_ok None m1"
    using sending.run_keeps [OF next_round.hyps(1) _ next_round.prems(4) \<open>live m1\<close>] next_round.prems by simp
  with budget_step [OF next_round.hyps(2)] next_round.prems m1 show ?case by fastforce
qed simp

text \<open>
  C2. The client respects flow control over the whole connection. In every run of the manager from
  its launch on, whatever frames, requests, resets and settings are interleaved, the bytes of all
  DATA frames it has handed to the frame writer are at most the initial window of 65535 bytes plus the
  credit of all WINDOW_UPDATE frames received for the connection.
\<close>

theorem connection_flow_control:
  fixes env :: "('b, 'r, Frame list) environment"
  assumes "Http2Dispatcher_new (env_send env) config [] channels = Some m0" "manager_run env m0 es m"
    and "list_all event_in_range es" "traversals_ok env" "unbounded env" "live m"
  shows "int (data_sent (cm_input_tx m)) \<le> 65535 + sum_list (map event_credit es)"
proof -
  from budget_run [OF assms(2,5,4,3) launched_good(1) [OF assms(1)] assms(6)]
  have "budget m \<le> budget m0 + sum_list (map event_credit es)" .
  moreover have "budget m0 = 65535"
    using assms(1)
  proof (rule launched)
    fix fc
    assume "cm_streams m0 = Streams_new (hc_init_stream_window_size config) 65535 fc"
      and "fc_send_window fc = SendWindow_new 65535"
    then have "conn_window (cm_streams m0) = 65535"
      by (simp add: conn_window_def Streams_new_def SendWindow_new_def)
    moreover assume "env_send env [] (create_initial_settings config) = Some (cm_input_tx m0) \<or>
      (\<exists>tx' n. env_send env [] (create_initial_settings config) = Some tx' \<and>
        env_send env tx' (Frame_new 0 (FrameFlags 0) (Payload_WindowUpdate n)) = Some (cm_input_tx m0))"
    then have "cm_input_tx m0 = [create_initial_settings config] \<or>
        (\<exists>n. cm_input_tx m0 = [create_initial_settings config, Frame_new 0 (FrameFlags 0) (Payload_WindowUpdate n)])"
      using assms(5) by (auto simp: unbounded_def eq_commute [of _ "cm_input_tx m0"])
    then have "data_sent (cm_input_tx m0) = 0"
      by (auto simp: data_sent_def data_size_def create_initial_settings_def Frame_new_def)
    ultimately show ?thesis by (simp add: budget_def)
  qed
  moreover have "0 \<le> conn_window (cm_streams m)"
    using run_sending [OF assms(1-4,6)] by (simp add: sending_ok_def windows_ok_def conn_window_def)
  ultimately show ?thesis by (simp add: budget_def)
qed

theorem connection_flow_control_witness:
  "manager_run demo_env demo_start demo_events demo_waiting
   \<and> int (data_sent (cm_input_tx demo_waiting)) \<le> 65535"
proof -
  have "unbounded demo_env" by (simp add: unbounded_def demo_env_def)
  from connection_flow_control [OF demo_launched demo_run_1 _ demo_traversals this demo_live(1)] demo_run_1 demo_range
  show ?thesis by (simp add: event_credit_def frame_credit_def demo_settings_def Frame_new_def)
qed

end
