(* ===== verification/H2_Manager_Recv.thy ===== *)
theory H2_Manager_Recv
  imports H2_Manager_Runs
begin

text \<open>
  The receive window of the connection in every run of the manager: below \<open>2^30\<close> bytes the peer is never
  starved, and from \<open>2^30 + 65535\<close> bytes on the window is never updated.
\<close>

section \<open>Operations that leave the window alone\<close>

definition conn_recv :: "'b Streams \<Rightarrow> RecvWindow" where
  "conn_recv s = fc_recv_window (ss_flow_control s)"

definition with_recv :: "RecvWindow \<Rightarrow> 'b Streams \<Rightarrow> 'b Streams" where
  "with_recv w s = s\<lparr>ss_flow_control := (ss_flow_control s)\<lparr>fc_recv_window := w\<rparr>\<rparr>"

lemma conn_recv_fields [simp]:
  "conn_recv (map_stream sid f s) = conn_recv s" "conn_recv (map_streams g s) = conn_recv s"
  "conn_recv (Streams_decrease_current_concurrency s) = conn_recv s"
  "conn_recv (set_state sid st s) = conn_recv s" "conn_recv (Streams_push_back_pending_send s sid) = conn_recv s"
  "conn_recv (enqueue_request s sid request) = conn_recv s"
  "conn_recv (Streams_apply_max_concurrent_streams s n) = conn_recv s"
  "conn_recv (Streams_apply_recv_initial_window_size s n) = conn_recv s"
  "conn_recv (fst (Streams_release_stream_recv_window send s tx sid k)) = conn_recv s"
  "conn_recv (fst (Streams_headers s sid)) = conn_recv s"
  "conn_recv (Streams_try_consume_pending_concurrency s) = conn_recv s"
  using consumed_eq [of s]
  by (auto simp: conn_recv_def map_stream_def map_streams_def Streams_decrease_current_concurrency_def set_state_def
      Streams_push_back_pending_send_def enqueue_fields Streams_apply_max_concurrent_streams_def
      Streams_apply_recv_initial_window_size_def Streams_release_stream_recv_window_def Streams_headers_def Let_def
      split: option.splits prod.splits)

lemma conn_recv_generate: "Streams_generate_id s = (s', r) \<Longrightarrow> conn_recv s' = conn_recv s"
  by (auto simp: conn_recv_def Streams_generate_id_def Let_def split: if_splits)

lemma conn_recv_moved:
  "accepted s sid actions s' \<Longrightarrow> conn_recv s' = conn_recv s" "aborted s sid reason s' \<Longrightarrow> conn_recv s' = conn_recv s"
  by (auto simp: accepted_def aborted_def advance_def abort_def)

lemma conn_recv_unset: "conn_recv (fst (unset_loop rest last_id s ids)) = conn_recv s"
proof (induction rest arbitrary: s ids)
  case (Cons sid rest)
  have "conn_recv (unset_one sid stream s) = conn_recv s" for stream
    by (cases "st_state stream") (simp_all add: unset_one_def)
  with Cons.IH show ?case by (simp add: unset_loop_Cons del: unset_loop.simps split: option.split)
qed simp

lemma conn_recv_unsent: "conn_recv (fst (Streams_get_unset_streams keys (s\<lparr>ss_max_send_id := n\<rparr>) n)) = conn_recv s"
  by (simp add: Streams_get_unset_streams_def conn_recv_unset) (simp add: conn_recv_def)

lemma conn_recv_send_resized:
  assumes "traversals_ok env" "unat n < 2147483648"
    and "Streams_apply_send_initial_window_size (env_keys env) (env_elems env) s n = (s', Ok u)"
  shows "conn_recv s' = conn_recv s"
  using send_grown [OF assms(1,2) _ assms(3)] send_shrunk [OF _ assms(3)]
  by (cases "ss_stream_send_window_size s < n") (auto simp: conn_recv_def resize_streams_def map_streams_def)

lemma conn_recv_credit:
  "Streams_increase_conn_send_window s n = (s', r) \<Longrightarrow> conn_recv (Streams_reassign_conn_send_window s') = conn_recv s"
  "Streams_reassign_stream_send_window s sid n = (s', q) \<Longrightarrow> conn_recv s' = conn_recv s"
  "Streams_next_pending_stream s = (s', next) \<Longrightarrow> conn_recv s' = conn_recv s"
  by (auto simp: conn_recv_def Streams_increase_conn_send_window_def Streams_reassign_conn_send_window_def
      FlowControl_increase_send_size_def reassign_loop_eq Streams_reassign_stream_send_window_def map_stream_def Let_def
      Streams_next_pending_stream_def split: prod.splits option.splits rust_result.splits if_splits list.splits)

lemma conn_recv_read:
  "Streams_poll_read_body poll_body s sid = (s', r) \<Longrightarrow> conn_recv s' = conn_recv s"
  by (drule poll_read_body_effect)
    (auto simp: conn_recv_def map_stream_def sent_chunk_def Streams_push_back_pending_send_def FlowControl_send_data_def)

lemma conn_recv_released:
  "Streams_release_conn_recv_window send s tx n =
     (if RecvWindow_notification_available (conn_recv s) < n
      then (s, tx, Err (Dispatch_H2 (ConnectionError FlowControlError)))
      else case RecvWindow_check_window_update (RecvWindow_recv_data (conn_recv s) n) 0 of
        (w, frame) \<Rightarrow> (s\<lparr>ss_flow_control := (ss_flow_control s)\<lparr>fc_recv_window := w\<rparr>\<rparr>,
          case frame of None \<Rightarrow> (tx, Ok ()) | Some f \<Rightarrow> send_frame send tx f))"
  by (simp add: Streams_release_conn_recv_window_def conn_recv_def FlowControl_recv_notification_size_available_def
      FlowControl_recv_data_def FlowControl_check_conn_recv_window_update_def Let_def split: prod.split option.split)

section \<open>The contract of a receive window\<close>

text \<open>
  A property of the window that receiving DATA keeps, with the update that may follow: every other
  operation of the streams leaves the window alone, so every run of the manager keeps the property.
\<close>

locale recv_invariant =
  fixes P :: "RecvWindow \<Rightarrow> bool" and env :: "('b, 'r, 'c) environment"
  assumes data_received: "P w \<Longrightarrow> \<not> RecvWindow_notification_available w < n \<Longrightarrow>
    P (fst (RecvWindow_check_window_update (RecvWindow_recv_data w n) 0))"
begin

lemma released_keeps:
  fixes s :: "'b Streams"
  assumes "base_ok s \<and> P (conn_recv s)"
  shows "base_ok (fst (Streams_release_conn_recv_window (env_send env) s tx n))
    \<and> P (conn_recv (fst (Streams_release_conn_recv_window (env_send env) s tx n)))"
  using assms data_received [of "conn_recv s" n] ids.conn_released [of s env tx n]
  by (simp add: conn_recv_released split: prod.splits) (simp add: conn_recv_def)

end

sublocale recv_invariant \<subseteq> stream_invariant "\<lambda>h s. base_ok s \<and> P (conn_recv s)" env
proof (unfold_locales, goal_cases)
  case (1 h s)
  then show ?case by (simp add: base_ok_def)
next
  case (2 s request s' sid)
  then show ?case using ids.request [of s request s' sid] conn_recv_generate [of s s'] by simp
next
  case (3 h s sid actions s')
  then show ?case using ids.moved [of s sid actions s'] conn_recv_moved(1) [of s sid actions s'] by simp
next
  case (4 h s sid reason s')
  then show ?case using ids.closed_early [of s sid reason s'] conn_recv_moved(2) [of s sid reason s'] by simp
next
  case (5 h s sid)
  then show ?case using ids.relabelled [of s sid] by simp
next
  case (6 sid s st)
  then show ?case by simp
next
  case (7 s num)
  then show ?case using ids.limited [of s num] by simp
next
  case (8 s n s')
  then show ?case using ids.send_resized [of env s n s'] conn_recv_send_resized [of env n s s'] by simp
next
  case (9 s n)
  then show ?case using ids.recv_resized [of s n] by simp
next
  case (10 s tx n)
  then show ?case by (rule released_keeps)
next
  case (11 s tx sid n)
  then show ?case using ids.stream_released [of s env tx sid n] by simp
next
  case (12 s n s')
  then show ?case using ids.conn_credit [of s n s'] conn_recv_credit(1) [of s n s'] by simp
next
  case (13 s n sid s')
  then show ?case using ids.stream_credit [of s n sid s'] conn_recv_credit(2) [of s sid n s'] by simp
next
  case (14 s last_id)
  then show ?case using ids.unsent [of s last_id env] by (simp add: conn_recv_unsent)
next
  case (15 s)
  then show ?case using ids.consumed [of s] by simp
next
  case (16 s s' sid)
  then show ?case using ids.taken [of s s' sid] conn_recv_credit(3) [of s s'] by simp
next
  case (17 sid s)
  then show ?case using ids.header_taken [of s sid] by simp
next
  case (18 sid s s' r)
  then show ?case using ids.body_read [of s env sid s' r] conn_recv_read [of "env_poll_body env" s sid s' r] by simp
qed

interpretation live_recv: recv_invariant "window_live a" env for a env
proof (unfold_locales, goal_cases)
  case (1 w n)
  obtain w' frame where "RecvWindow_check_window_update (RecvWindow_recv_data w n) 0 = (w', frame)" by fastforce
  with received_live [OF 1 this] show ?case by simp
qed

interpretation starved_recv: recv_invariant "window_starved a" env for a env
  by unfold_locales (simp add: received_starved)

lemma launched_recv:
  assumes "Http2Dispatcher_new send config tx channels = Some m"
  shows "conn_recv (cm_streams m) =
    fst (RecvWindow_check_window_update \<lparr>rw_notification = 65535, rw_actual = hc_init_conn_window_size config\<rparr> 0)"
  using assms
  by (auto simp: Http2Dispatcher_new_def Let_def conn_recv_released cm_streams_def ConnManager_new_def StreamController_new_def
      FlowControl_setup_recv_window_def FlowControl_new_def RecvWindow_new_def RecvWindow_actual_size_def
      RecvWindow_increase_actual_def RecvWindow_reduce_actual_def RecvWindow_recv_data_def DEFAULT_WINDOW_SIZE_def
      conn_recv_def Streams_new_def split: option.splits prod.splits rust_result.splits if_splits)

lemma run_recv:
  assumes "Http2Dispatcher_new send config tx channels = Some m0" "manager_run env m0 es m"
    and "list_all event_in_range es" "traversals_ok env" "live m"
  shows "uint (hc_init_conn_window_size config) < 2 ^ 30 \<Longrightarrow>
      window_live (uint (hc_init_conn_window_size config)) (conn_recv (cm_streams m))"
    "2 ^ 30 + 65535 \<le> uint (hc_init_conn_window_size config) \<Longrightarrow> uint (hc_init_conn_window_size config) < 2 ^ 31 \<Longrightarrow>
      window_starved (uint (hc_init_conn_window_size config)) (conn_recv (cm_streams m))"
proof -
  let ?n = "hc_init_conn_window_size config"
  let ?w = "\<lparr>rw_notification = 65535, rw_actual = ?n\<rparr>"
  have base: "sc_going_away (cm_controller m0) = None" "base_ok (cm_streams m0)"
    using launched_good(2) [OF assms(1)] by (simp_all add: good_def)
  have n: "sint (65535 :: i32) = 65535" by (simp add: sint_small)
  {
    assume small: "uint ?n < 2 ^ 30"
    with sint_uint_small [of ?n] have "window_live (uint ?n) (conn_recv (cm_streams m0))"
      using check_live(1) [of ?w 0] n launched_recv [OF assms(1)] by (simp add: prod_eq_iff)
    with base have "good (\<lambda>h s. base_ok s \<and> window_live (uint ?n) (conn_recv s)) None m0" by (simp add: good_def)
    from live_recv.run_keeps [OF assms(2,3) this assms(5,4)]
    show "window_live (uint ?n) (conn_recv (cm_streams m))" by (simp add: good_def)
  next
    assume large: "2 ^ 30 + 65535 \<le> uint ?n" "uint ?n < 2 ^ 31"
    with sint_uint_small [of ?n] have *: "window_starved (uint ?n) ?w" using n by (simp add: window_starved_def)
    with check_starved [OF this] launched_recv [OF assms(1)]
    have "window_starved (uint ?n) (conn_recv (cm_streams m0))" by simp
    with base have "good (\<lambda>h s. base_ok s \<and> window_starved (uint ?n) (conn_recv s)) None m0" by (simp add: good_def)
    from starved_recv.run_keeps [OF assms(2,3) this assms(5,4)]
    show "window_starved (uint ?n) (conn_recv (cm_streams m))" by (simp add: good_def)
  }
qed



text \<open>
  C34. A connection window configured to at least \<open>2^30 + 65535\<close> and less than \<open>2^31\<close> bytes, which
  the client accepts, is never opened: twice the part to release overflows \<open>i32\<close>, so in every run of the manager the
  peer has at most the initial 65535 bytes for the whole connection, every DATA frame reduces them
  and no WINDOW_UPDATE is sent. (With overflow checks the same computation panics.)
\<close>

theorem recv_window_starved:
  assumes "Http2Dispatcher_new send config tx channels = Some m0" "manager_run env m0 es m"
    and "list_all event_in_range es" "traversals_ok env" "live m"
    and "2 ^ 30 + 65535 \<le> uint (hc_init_conn_window_size config)" "uint (hc_init_conn_window_size config) < 2 ^ 31"
    and "w = fc_recv_window (ss_flow_control (cm_streams m))" "n \<le> RecvWindow_notification_available w"
  shows "sint (rw_notification w) \<le> 65535
    \<and> Streams_release_conn_recv_window (env_send env) (cm_streams m) c n =
        (with_recv (w\<lparr>rw_notification := rw_notification w - n\<rparr>) (cm_streams m), c, Ok ())"
proof -
  have w: "conn_recv (cm_streams m) = w" using assms(8) by (simp add: conn_recv_def)
  have "window_starved (uint (hc_init_conn_window_size config)) w"
    using run_recv(2) [OF assms(1-7)] by (simp add: w)
  with received_starved(1) [OF this, of n 0] assms(9) show ?thesis
    by (simp add: conn_recv_released w window_starved_def with_recv_def not_less)
qed

definition starved_config :: H2Config where
  "starved_config = demo_config\<lparr>hc_init_conn_window_size := 1073807359\<rparr>"

theorem recv_window_starved_witness:
  "\<exists>m :: (unit, unit, Frame list) ConnManager. Http2Dispatcher_new (env_send demo_env) starved_config [] () = Some m
    \<and> sint (rw_notification (fc_recv_window (ss_flow_control (cm_streams m)))) \<le> 65535
    \<and> snd (Streams_release_conn_recv_window (env_send demo_env) (cm_streams m) [] 60000) = ([], Ok ())"
proof -
  have c: "hc_init_conn_window_size starved_config = 1073807359" by (simp add: starved_config_def)
  let ?w = "\<lparr>rw_notification = 65535, rw_actual = 1073807359\<rparr>"
  have st: "window_starved 1073807359 ?w" by (simp add: window_starved_def sint_small)
  obtain m :: "(unit, unit, Frame list) ConnManager"
    where m: "Http2Dispatcher_new (env_send demo_env) starved_config [] () = Some m"
    using check_starved [OF st, of 0]
    by (auto simp: Http2Dispatcher_new_def demo_env_def conn_recv_released Let_def c conn_recv_def Streams_new_def
      FlowControl_setup_recv_window_def FlowControl_new_def RecvWindow_new_def RecvWindow_actual_size_def
      RecvWindow_increase_actual_def RecvWindow_recv_data_def DEFAULT_WINDOW_SIZE_def)
  have w: "fc_recv_window (ss_flow_control (cm_streams m)) = ?w"
    using launched_recv [OF m] check_starved [OF st] by (simp add: c conn_recv_def)
  have avail: "RecvWindow_notification_available ?w = 65535"
    by (simp add: RecvWindow_notification_available_def sless_sint sint_small)
  have "live m" using m by (auto elim!: launched simp: live_def)
  from recv_window_starved [OF m manager_run.start _ demo_traversals this _ _ w [symmetric], where n = 60000 and c = "[]"] m w
  show ?thesis by (simp add: c avail)
qed

end
