(* ===== verification/Chunk_Encoder.thy ===== *)
theory Chunk_Encoder
  imports Headers Poll
begin

text \<open>
  The encoder of chunked bodies (\<open>ChunkBody\<close> of \<open>ylong_http/src/body/chunk.rs\<close>). A buffer that is
  filled is its length and the bytes written to its front; the reader a body comes from is a
  parameter. \<open>data_loop\<close> is the loop that all \<open>data\<close> functions share.
\<close>

section \<open>State\<close>

definition CHUNK_SIZE :: nat where
  "CHUNK_SIZE = 1024"

datatype ChunkState =
    ChunkState_MetaSize | ChunkState_MetaExt | ChunkState_MetaCrlf
  | ChunkState_Data | ChunkState_DataCrlf | ChunkState_Finish

datatype DataState = DataState_Partial | DataState_Complete | DataState_Finish

record StatusVar =
  sv_cnt :: nat
  sv_data_status :: DataState

text \<open>How much of a component has been written: the bytes written now.\<close>

datatype Token = Token_Complete bytes | Token_Partial bytes

record EncodeHex =
  eh_inner :: bytes
  eh_src_idx :: nat

type_synonym EncodeCrlf = nat
type_synonym EncodeTrailer = nat

record EncodeStatus =
  es_chunk_size :: nat
  es_chunk_last :: nat
  es_chunk_idx :: nat
  es_read_flag :: bool
  es_src_idx :: nat
  es_chunk_status :: ChunkState
  es_meta_crlf :: EncodeCrlf
  es_data_crlf :: EncodeCrlf
  es_finish_crlf :: EncodeCrlf
  es_hex :: EncodeHex
  es_hex_last :: EncodeHex

record ChunkData =
  cd_chunk_buf :: bytes
  cd_chunk_count :: nat
  cd_chunk_last :: nat

record 'r ChunkBody =
  ck_from :: 'r
  ck_trailer_value :: bytes
  ck_chunk_data :: ChunkData
  ck_data_status :: DataState
  ck_encode_status :: EncodeStatus
  ck_trailer :: EncodeTrailer

section \<open>Writing one component\<close>

abbreviation CRLF :: bytes where
  "CRLF \<equiv> [13, 10]"

text \<open>\<open>write\<close> copies what fits. An index past the end of the source is a panic of the slice.\<close>

definition WriteData_write :: "bytes \<Rightarrow> nat \<Rightarrow> nat \<Rightarrow> nat \<times> (Token, unit) rust_result" where
  "WriteData_write src src_idx dst =
     (if src_idx > length src then (src_idx, Panic)
      else
        let input_len = length src - src_idx;
            written = take dst (drop src_idx src);
            num = length written
        in if dst \<ge> input_len then (src_idx + num, Ok (Token_Complete written))
           else (src_idx + num, Ok (Token_Partial written)))"

definition hex_digit :: "nat \<Rightarrow> u8" where
  "hex_digit n = word_of_nat (if n < 10 then 48 + n else 87 + n)"

text \<open>The lower-case hexadecimal format of the standard library.\<close>

fun hex_format :: "nat \<Rightarrow> bytes" where
  "hex_format n = (if n < 16 then [hex_digit n] else hex_format (n div 16) @ [hex_digit (n mod 16)])"

declare hex_format.simps [simp del]

definition EncodeHex_new :: "bytes \<Rightarrow> EncodeHex" where
  "EncodeHex_new hex = \<lparr>eh_inner = hex, eh_src_idx = 0\<rparr>"

definition EncodeHex_encode :: "EncodeHex \<Rightarrow> nat \<Rightarrow> EncodeHex \<times> (Token, unit) rust_result" where
  "EncodeHex_encode h buf =
     (case WriteData_write (eh_inner h) (eh_src_idx h) buf of (i, r) \<Rightarrow> (h\<lparr>eh_src_idx := i\<rparr>, r))"

definition EncodeCrlf_encode :: "EncodeCrlf \<Rightarrow> nat \<Rightarrow> EncodeCrlf \<times> (Token, unit) rust_result" where
  "EncodeCrlf_encode src_idx buf = WriteData_write CRLF src_idx buf"

definition EncodeTrailer_encode :: "EncodeTrailer \<Rightarrow> bytes \<Rightarrow> nat \<Rightarrow> EncodeTrailer \<times> (Token, unit) rust_result" where
  "EncodeTrailer_encode src_idx src buf = WriteData_write src src_idx buf"

section \<open>One chunk\<close>

definition EncodeStatus_new :: EncodeStatus where
  "EncodeStatus_new =
     \<lparr>es_chunk_size = CHUNK_SIZE, es_chunk_last = 0, es_chunk_idx = 0, es_read_flag = False, es_src_idx = 0,
      es_chunk_status = ChunkState_MetaSize, es_meta_crlf = 0, es_data_crlf = 0, es_finish_crlf = 0,
      es_hex = EncodeHex_new (hex_format CHUNK_SIZE), es_hex_last = EncodeHex_new []\<rparr>"

definition meta_size_encode :: "EncodeStatus \<Rightarrow> nat \<Rightarrow> EncodeStatus \<times> (bytes, unit) rust_result" where
  "meta_size_encode s dst =
     (if es_chunk_last s = CHUNK_SIZE then
        (case EncodeHex_encode (es_hex s) dst of
           (h, Ok (Token_Complete w)) \<Rightarrow>
             (s\<lparr>es_chunk_status := ChunkState_MetaCrlf, es_hex := h\<lparr>eh_src_idx := 0\<rparr>\<rparr>, Ok w)
         | (h, Ok (Token_Partial w)) \<Rightarrow> (s\<lparr>es_hex := h\<rparr>, Ok w)
         | (h, Err e) \<Rightarrow> (s, Err e)
         | (h, Panic) \<Rightarrow> (s, Panic))
      else
        (case EncodeHex_encode (EncodeHex_new (hex_format (es_chunk_last s))) dst of
           (h, Ok (Token_Complete w)) \<Rightarrow>
             (s\<lparr>es_chunk_status := ChunkState_MetaCrlf, es_hex_last := h\<lparr>eh_src_idx := 0\<rparr>\<rparr>, Ok w)
         | (h, Ok (Token_Partial w)) \<Rightarrow> (s\<lparr>es_hex_last := h\<rparr>, Ok w)
         | (h, Err e) \<Rightarrow> (s, Err e)
         | (h, Panic) \<Rightarrow> (s, Panic)))"

definition meta_crlf_encode :: "EncodeStatus \<Rightarrow> nat \<Rightarrow> EncodeStatus \<times> (bytes, unit) rust_result" where
  "meta_crlf_encode s dst =
     (case EncodeCrlf_encode (es_meta_crlf s) dst of
        (i, Ok (Token_Complete w)) \<Rightarrow> (s\<lparr>es_chunk_status := ChunkState_Data, es_meta_crlf := 0\<rparr>, Ok w)
      | (i, Ok (Token_Partial w)) \<Rightarrow> (s\<lparr>es_meta_crlf := i\<rparr>, Ok w)
      | (i, Err e) \<Rightarrow> (s, Err e)
      | (i, Panic) \<Rightarrow> (s, Panic))"

definition data_crlf_encode :: "EncodeStatus \<Rightarrow> nat \<Rightarrow> EncodeStatus \<times> (bytes, unit) rust_result" where
  "data_crlf_encode s dst =
     (case EncodeCrlf_encode (es_data_crlf s) dst of
        (i, Ok (Token_Complete w)) \<Rightarrow> (s\<lparr>es_chunk_status := ChunkState_MetaSize, es_data_crlf := 0\<rparr>, Ok w)
      | (i, Ok (Token_Partial w)) \<Rightarrow> (s\<lparr>es_data_crlf := i\<rparr>, Ok w)
      | (i, Err e) \<Rightarrow> (s, Err e)
      | (i, Panic) \<Rightarrow> (s, Panic))"

definition finish_encode ::
    "EncodeStatus \<Rightarrow> nat \<Rightarrow> EncodeStatus \<times> (bytes \<times> StatusVar option, unit) rust_result" where
  "finish_encode s dst =
     (case EncodeCrlf_encode (es_finish_crlf s) dst of
        (i, Ok (Token_Complete w)) \<Rightarrow>
          (s\<lparr>es_finish_crlf := i, es_meta_crlf := 0\<rparr>,
           Ok (w, Some \<lparr>sv_cnt = 0, sv_data_status = DataState_Complete\<rparr>))
      | (i, Ok (Token_Partial w)) \<Rightarrow> (s\<lparr>es_finish_crlf := i\<rparr>, Ok (w, None))
      | (i, Err e) \<Rightarrow> (s, Err e)
      | (i, Panic) \<Rightarrow> (s, Panic))"

definition data_encode ::
    "EncodeStatus \<Rightarrow> bytes \<Rightarrow> nat \<Rightarrow> EncodeStatus \<times> (bytes \<times> StatusVar option, unit) rust_result" where
  "data_encode s src dst =
     (case WriteData_write src (es_chunk_idx s) dst of
        (i, Ok (Token_Complete w)) \<Rightarrow>
          (s\<lparr>es_chunk_idx := i, es_chunk_status := ChunkState_DataCrlf, es_read_flag := False\<rparr>,
           Ok (w, Some \<lparr>sv_cnt = 1, sv_data_status = DataState_Partial\<rparr>))
      | (i, Ok (Token_Partial w)) \<Rightarrow> (s\<lparr>es_chunk_idx := i\<rparr>, Ok (w, None))
      | (i, Err e) \<Rightarrow> (s, Err e)
      | (i, Panic) \<Rightarrow> (s, Panic))"

definition tail_encode ::
    "EncodeStatus \<Rightarrow> bytes \<Rightarrow> nat \<Rightarrow> EncodeStatus \<times> (bytes \<times> StatusVar option, unit) rust_result" where
  "tail_encode s src dst =
     (case WriteData_write src (es_chunk_idx s) dst of
        (i, Ok (Token_Complete w)) \<Rightarrow>
          (s\<lparr>es_chunk_idx := i, es_chunk_status := ChunkState_Finish, es_read_flag := False\<rparr>,
           Ok (w, Some \<lparr>sv_cnt = 0, sv_data_status = DataState_Partial\<rparr>))
      | (i, Ok (Token_Partial w)) \<Rightarrow> (s\<lparr>es_chunk_idx := i\<rparr>, Ok (w, None))
      | (i, Err e) \<Rightarrow> (s, Err e)
      | (i, Panic) \<Rightarrow> (s, Panic))"

definition no_status ::
    "EncodeStatus \<times> (bytes, unit) rust_result \<Rightarrow> EncodeStatus \<times> (bytes \<times> StatusVar option, unit) rust_result" where
  "no_status p = (case p of (s, Ok w) \<Rightarrow> (s, Ok (w, None)) | (s, Err e) \<Rightarrow> (s, Err e) | (s, Panic) \<Rightarrow> (s, Panic))"

definition EncodeStatus_encode ::
    "EncodeStatus \<Rightarrow> bytes \<Rightarrow> nat \<Rightarrow> EncodeStatus \<times> (bytes \<times> StatusVar option, unit) rust_result" where
  "EncodeStatus_encode s src dst =
     (case es_chunk_status s of
        ChunkState_MetaSize \<Rightarrow> no_status (meta_size_encode s dst)
      | ChunkState_MetaExt \<Rightarrow> (s, Ok ([], None))
      | ChunkState_MetaCrlf \<Rightarrow> no_status (meta_crlf_encode s dst)
      | ChunkState_Data \<Rightarrow>
          if es_chunk_last s \<noteq> CHUNK_SIZE then tail_encode s src dst else data_encode s src dst
      | ChunkState_DataCrlf \<Rightarrow> no_status (data_crlf_encode s dst)
      | ChunkState_Finish \<Rightarrow> finish_encode s dst)"

section \<open>The body\<close>

definition ChunkData_new :: "bytes \<Rightarrow> ChunkData" where
  "ChunkData_new buf = \<lparr>cd_chunk_buf = buf, cd_chunk_count = 0, cd_chunk_last = 0\<rparr>"

definition ChunkBody_from_bytes :: "bytes \<Rightarrow> bytes ChunkBody" where
  "ChunkBody_from_bytes bs =
     \<lparr>ck_from = bs, ck_trailer_value = [], ck_chunk_data = ChunkData_new [], ck_data_status = DataState_Partial,
      ck_encode_status = EncodeStatus_new, ck_trailer = 0\<rparr>"

definition ChunkBody_from_reader :: "'r \<Rightarrow> 'r ChunkBody" where
  "ChunkBody_from_reader reader =
     \<lparr>ck_from = reader, ck_trailer_value = [], ck_chunk_data = ChunkData_new (replicate CHUNK_SIZE 0),
      ck_data_status = DataState_Partial, ck_encode_status = EncodeStatus_new, ck_trailer = 0\<rparr>"

text \<open>\<open>from_async_reader\<close> builds the same value.\<close>

definition ChunkBody_from_async_reader :: "'r \<Rightarrow> 'r ChunkBody" where
  "ChunkBody_from_async_reader reader =
     \<lparr>ck_from = reader, ck_trailer_value = [], ck_chunk_data = ChunkData_new (replicate CHUNK_SIZE 0),
      ck_data_status = DataState_Partial, ck_encode_status = EncodeStatus_new, ck_trailer = 0\<rparr>"

text \<open>
  The trailer fields come in the order in which the map of headers yields them. \<open>to_string\<close> never
  fails.
\<close>

definition ChunkBody_set_trailer :: "'r ChunkBody \<Rightarrow> (HeaderName \<times> HeaderValue) list \<Rightarrow> 'r ChunkBody" where
  "ChunkBody_set_trailer body trailer_headers =
     body\<lparr>ck_trailer_value :=
       concat (map (\<lambda>(name, value). HeaderName_as_bytes name @ as_bytes '':'' @
           (case HeaderValue_to_string value of Ok s \<Rightarrow> as_bytes s | _ \<Rightarrow> []) @ CRLF) trailer_headers)\<rparr>"

definition store_encoded ::
    "'r ChunkBody \<Rightarrow> EncodeStatus \<times> (bytes \<times> StatusVar option, unit) rust_result \<Rightarrow>
     'r ChunkBody \<times> (bytes, unit) rust_result" where
  "store_encoded body p =
     (case p of
        (s, Ok (w, Some v)) \<Rightarrow>
          (body\<lparr>ck_encode_status := s, ck_chunk_data := (ck_chunk_data body)\<lparr>cd_chunk_count := sv_cnt v\<rparr>,
                ck_data_status := sv_data_status v\<rparr>, Ok w)
      | (s, Ok (w, None)) \<Rightarrow> (body\<lparr>ck_encode_status := s\<rparr>, Ok w)
      | (s, Err e) \<Rightarrow> (body\<lparr>ck_encode_status := s\<rparr>, Err e)
      | (s, Panic) \<Rightarrow> (body\<lparr>ck_encode_status := s\<rparr>, Panic))"

definition chunk_encode :: "bytes ChunkBody \<Rightarrow> bytes \<Rightarrow> nat \<Rightarrow> bytes ChunkBody \<times> (bytes, unit) rust_result" where
  "chunk_encode body src dst =
     store_encoded body
       (EncodeStatus_encode ((ck_encode_status body)\<lparr>es_chunk_last := cd_chunk_last (ck_chunk_data body)\<rparr>) src dst)"

definition chunk_encode_reader :: "'r ChunkBody \<Rightarrow> nat \<Rightarrow> 'r ChunkBody \<times> (bytes, unit) rust_result" where
  "chunk_encode_reader body dst =
     store_encoded body
       (EncodeStatus_encode ((ck_encode_status body)\<lparr>es_chunk_last := cd_chunk_last (ck_chunk_data body)\<rparr>)
         (take (cd_chunk_last (ck_chunk_data body)) (cd_chunk_buf (ck_chunk_data body))) dst)"

definition trailer_encode :: "'r ChunkBody \<Rightarrow> nat \<Rightarrow> 'r ChunkBody \<times> (bytes, unit) rust_result" where
  "trailer_encode body dst =
     (case EncodeTrailer_encode (ck_trailer body) (as_bytes ''0'' @ CRLF @ ck_trailer_value body @ CRLF) dst of
        (i, Ok (Token_Complete w)) \<Rightarrow> (body\<lparr>ck_trailer := i, ck_data_status := DataState_Finish\<rparr>, Ok w)
      | (i, Ok (Token_Partial w)) \<Rightarrow> (body\<lparr>ck_trailer := i\<rparr>, Ok w)
      | (i, Err e) \<Rightarrow> (body\<lparr>ck_trailer := i\<rparr>, Err e)
      | (i, Panic) \<Rightarrow> (body\<lparr>ck_trailer := i\<rparr>, Panic))"

section \<open>Bodies from bytes\<close>

definition bytes_encode :: "bytes ChunkBody \<Rightarrow> nat \<Rightarrow> bytes ChunkBody \<times> (bytes, unit) rust_result" where
  "bytes_encode body dst =
     (let from = ck_from body;
          count = cd_chunk_count (ck_chunk_data body)
      in if \<not> es_read_flag (ck_encode_status body) \<and> length from < count * CHUNK_SIZE then (body, Panic)
         else
           let body =
                 (if \<not> es_read_flag (ck_encode_status body) then
                    let data_left = length from - count * CHUNK_SIZE
                    in body\<lparr>ck_encode_status := (ck_encode_status body)\<lparr>es_read_flag := True, es_chunk_idx := 0\<rparr>,
                         ck_chunk_data := (ck_chunk_data body)\<lparr>cd_chunk_last :=
                           (if data_left < CHUNK_SIZE then data_left else CHUNK_SIZE)\<rparr>\<rparr>
                  else body);
               last = cd_chunk_last (ck_chunk_data body)
           in if length from < count * CHUNK_SIZE + last then (body, Panic)
              else chunk_encode body (take last (drop (count * CHUNK_SIZE) from)) dst)"

text \<open>
  The loop of \<open>data\<close>: \<open>step\<close> encodes a part of a chunk. It ends when the buffer is full or
  everything has been encoded.
\<close>

partial_function (option) data_loop ::
    "('r ChunkBody \<Rightarrow> nat \<Rightarrow> 'r ChunkBody \<times> (bytes, unit) rust_result) \<Rightarrow> 'r ChunkBody \<Rightarrow> nat \<Rightarrow> bytes \<Rightarrow>
     ('r ChunkBody \<times> (bytes, unit) rust_result) option" where
  "data_loop step body len out =
     (if length out = len then Some (body, Ok out)
      else
        case ck_data_status body of
          DataState_Partial \<Rightarrow>
            (case step body (len - length out) of
               (body, Ok w) \<Rightarrow> data_loop step body len (out @ w)
             | (body, r) \<Rightarrow> Some (body, r))
        | DataState_Complete \<Rightarrow>
            (case trailer_encode body (len - length out) of
               (body, Ok w) \<Rightarrow> data_loop step body len (out @ w)
             | (body, r) \<Rightarrow> Some (body, r))
        | DataState_Finish \<Rightarrow> Some (body, Ok out))"

definition ChunkBody_bytes_data :: "bytes ChunkBody \<Rightarrow> nat \<Rightarrow> (bytes ChunkBody \<times> (bytes, unit) rust_result) option" where
  "ChunkBody_bytes_data body len = data_loop bytes_encode body len []"

section \<open>Bodies from readers\<close>

text \<open>What a read leaves in the buffer of the body.\<close>

definition fill_chunk_buf :: "'r ChunkBody \<Rightarrow> 'r \<Rightarrow> bytes \<Rightarrow> 'r ChunkBody" where
  "fill_chunk_buf body reader read =
     body\<lparr>ck_from := reader,
          ck_encode_status := (ck_encode_status body)\<lparr>es_read_flag := True, es_chunk_idx := 0\<rparr>,
          ck_chunk_data := (ck_chunk_data body)
            \<lparr>cd_chunk_buf := read @ drop (length read) (cd_chunk_buf (ck_chunk_data body)),
             cd_chunk_last := length read\<rparr>\<rparr>"

definition reader_encode ::
    "('r \<Rightarrow> nat \<Rightarrow> 'r \<times> (bytes, unit) rust_result) \<Rightarrow> 'r ChunkBody \<Rightarrow> nat \<Rightarrow>
     'r ChunkBody \<times> (bytes, unit) rust_result" where
  "reader_encode read body dst =
     (if \<not> es_read_flag (ck_encode_status body) then
        (case read (ck_from body) (length (cd_chunk_buf (ck_chunk_data body))) of
           (reader, Ok r) \<Rightarrow> chunk_encode_reader (fill_chunk_buf body reader r) dst
         | (reader, _) \<Rightarrow> (body\<lparr>ck_from := reader\<rparr>, Panic))
      else chunk_encode_reader body dst)"

definition ChunkBody_reader_data ::
    "('r \<Rightarrow> nat \<Rightarrow> 'r \<times> (bytes, unit) rust_result) \<Rightarrow> 'r ChunkBody \<Rightarrow> nat \<Rightarrow>
     ('r ChunkBody \<times> (bytes, unit) rust_result) option" where
  "ChunkBody_reader_data read body len = data_loop (reader_encode read) body len []"

section \<open>Bodies from asynchronous readers\<close>

definition poll_partial ::
    "('r \<Rightarrow> nat \<Rightarrow> 'r \<times> (bytes, unit) rust_result poll) \<Rightarrow> 'r ChunkBody \<Rightarrow> nat \<Rightarrow>
     'r ChunkBody \<times> (bytes, unit) rust_result poll" where
  "poll_partial poll_read body buf =
     (if \<not> es_read_flag (ck_encode_status body) then
        (case poll_read (ck_from body) (length (cd_chunk_buf (ck_chunk_data body))) of
           (reader, Ready (Ok r)) \<Rightarrow>
             (case chunk_encode_reader (fill_chunk_buf body reader r) buf of (body, w) \<Rightarrow> (body, Ready w))
         | (reader, Ready (Err e)) \<Rightarrow> (body\<lparr>ck_from := reader\<rparr>, Ready (Err e))
         | (reader, Ready Panic) \<Rightarrow> (body\<lparr>ck_from := reader\<rparr>, Ready Panic)
         | (reader, Pending) \<Rightarrow> (body\<lparr>ck_from := reader\<rparr>, Pending))
      else (case chunk_encode_reader body buf of (body, w) \<Rightarrow> (body, Ready w)))"

partial_function (option) poll_data_loop ::
    "('r \<Rightarrow> nat \<Rightarrow> 'r \<times> (bytes, unit) rust_result poll) \<Rightarrow> 'r ChunkBody \<Rightarrow> nat \<Rightarrow> bytes \<Rightarrow>
     ('r ChunkBody \<times> (bytes, unit) rust_result poll) option" where
  "poll_data_loop poll_read body len out =
     (if length out = len then Some (body, Ready (Ok out))
      else
        case ck_data_status body of
          DataState_Partial \<Rightarrow>
            (case poll_partial poll_read body (len - length out) of
               (body, Ready (Ok w)) \<Rightarrow> poll_data_loop poll_read body len (out @ w)
             | (body, Ready r) \<Rightarrow> Some (body, Ready r)
             | (body, Pending) \<Rightarrow> Some (body, if out \<noteq> [] then Ready (Ok out) else Pending))
        | DataState_Complete \<Rightarrow>
            (case trailer_encode body (len - length out) of
               (body, Ok w) \<Rightarrow> poll_data_loop poll_read body len (out @ w)
             | (body, r) \<Rightarrow> Some (body, Ready r))
        | DataState_Finish \<Rightarrow> Some (body, Ready (Ok out)))"

definition ChunkBody_poll_data ::
    "('r \<Rightarrow> nat \<Rightarrow> 'r \<times> (bytes, unit) rust_result poll) \<Rightarrow> 'r ChunkBody \<Rightarrow> nat \<Rightarrow>
     ('r ChunkBody \<times> (bytes, unit) rust_result poll) option" where
  "ChunkBody_poll_data poll_read body len = poll_data_loop poll_read body len []"

end
