(* ===== verification/Chunk_Decoder.thy ===== *)
theory Chunk_Decoder
  imports Chunk_Encoder
begin

text \<open>
  The decoder of chunked bodies (\<open>ChunkBodyDecoder\<close> of \<open>ylong_http/src/body/chunk.rs\<close>). The loops
  over the bytes of a buffer are recursions over its suffixes; every function returns the decoder
  it leaves, also on an error.
\<close>

section \<open>State\<close>

datatype ChunkStage =
    Stage_Size | Stage_Extension | Stage_SizeEnd | Stage_Data | Stage_DataEnd
  | Stage_TrailerCrlf | Stage_TrailerData | Stage_TrailerEndCrlf

text \<open>The extension of a chunk is always empty.\<close>

type_synonym ChunkExt = "string \<rightharpoonup> string"

record Chunk =
  ch_id :: nat
  ch_state :: ChunkState
  ch_size :: nat
  ch_extension :: ChunkExt
  ch_data :: bytes
  ch_trailer :: "bytes option"

definition Chunk_is_complete :: "Chunk \<Rightarrow> bool" where
  "Chunk_is_complete c \<longleftrightarrow> ch_state c = ChunkState_Finish"

record ChunkBodyDecoder =
  cb_chunk_num :: nat
  cb_total_size :: nat
  cb_rest_size :: nat
  cb_hex_count :: int
  cb_trailer :: bytes
  cb_cr_meet :: bool
  cb_chunk_flag :: bool
  cb_num_flag :: bool
  cb_is_last_chunk :: bool
  cb_is_chunk_trailer :: bool
  cb_is_trailer :: bool
  cb_is_trailer_crlf :: bool
  cb_stage :: ChunkStage

definition ChunkBodyDecoder_new :: ChunkBodyDecoder where
  "ChunkBodyDecoder_new =
     \<lparr>cb_chunk_num = 0, cb_total_size = 0, cb_rest_size = 0, cb_hex_count = 0, cb_trailer = [],
      cb_cr_meet = False, cb_chunk_flag = False, cb_num_flag = False, cb_is_last_chunk = False,
      cb_is_chunk_trailer = False, cb_is_trailer = False, cb_is_trailer_crlf = False, cb_stage = Stage_Size\<rparr>"

definition contains_trailer :: "ChunkBodyDecoder \<Rightarrow> bool \<Rightarrow> ChunkBodyDecoder" where
  "contains_trailer d contain_trailer = d\<lparr>cb_is_trailer := contain_trailer\<rparr>"

type_synonym chunk_result = "ChunkBodyDecoder \<times> (Chunk \<times> bytes, HttpError) rust_result"

definition sized_chunk :: "bytes \<Rightarrow> bytes option \<Rightarrow> nat \<Rightarrow> ChunkState \<Rightarrow> Chunk" where
  "sized_chunk data trailer size1 state =
     \<lparr>ch_id = 0, ch_state = state, ch_size = size1, ch_extension = Map.empty, ch_data = data,
      ch_trailer = trailer\<rparr>"

section \<open>Line ends\<close>

definition decode_cr :: "ChunkBodyDecoder \<Rightarrow> ChunkBodyDecoder \<times> (unit, HttpError) rust_result" where
  "decode_cr d = (if cb_cr_meet d then (d, Err (HttpError InvalidInput)) else (d\<lparr>cb_cr_meet := True\<rparr>, Ok ()))"

definition decode_lf :: "ChunkBodyDecoder \<Rightarrow> ChunkBodyDecoder \<times> (unit, HttpError) rust_result" where
  "decode_lf d = (if \<not> cb_cr_meet d then (d, Err (HttpError InvalidInput)) else (d\<lparr>cb_cr_meet := False\<rparr>, Ok ()))"

text \<open>The operator \<open>?\<close>.\<close>

definition chunk_try ::
    "ChunkBodyDecoder \<times> (unit, HttpError) rust_result \<Rightarrow> (ChunkBodyDecoder \<Rightarrow> chunk_result) \<Rightarrow> chunk_result" where
  "chunk_try p f = (case p of (d, Ok _) \<Rightarrow> f d | (d, Err e) \<Rightarrow> (d, Err e) | (d, Panic) \<Rightarrow> (d, Panic))"

fun last_crlf_loop :: "ChunkBodyDecoder \<Rightarrow> bytes \<Rightarrow> bytes \<Rightarrow> chunk_result" where
  "last_crlf_loop d data [] = (d, Ok (sized_chunk data None (cb_total_size d) ChunkState_DataCrlf, []))"
| "last_crlf_loop d data (b # buf) =
     (if b = 13 then chunk_try (decode_cr d) (\<lambda>d. last_crlf_loop d data buf)
      else if b = 10 then chunk_try (decode_lf d) (\<lambda>d.
        (d\<lparr>cb_stage := Stage_Size, cb_total_size := 0\<rparr>,
         Ok (sized_chunk data None (cb_total_size d) ChunkState_Finish, buf)))
      else (d, Err (HttpError InvalidInput)))"

definition skip_last_crlf :: "ChunkBodyDecoder \<Rightarrow> bytes \<Rightarrow> bytes \<Rightarrow> chunk_result" where
  "skip_last_crlf d data buf = last_crlf_loop (d\<lparr>cb_stage := Stage_DataEnd\<rparr>) data buf"

definition decode_data :: "ChunkBodyDecoder \<Rightarrow> bytes \<Rightarrow> chunk_result" where
  "decode_data d buf =
     (let d = d\<lparr>cb_stage := Stage_Data\<rparr> in
      if buf = [] then (d, Ok (sized_chunk [] None (cb_total_size d) ChunkState_Data, []))
      else
        let rest = cb_rest_size d in
        if length buf \<ge> rest
        then skip_last_crlf (d\<lparr>cb_rest_size := 0, cb_cr_meet := False\<rparr>) (take rest buf) (drop rest buf)
        else (d\<lparr>cb_rest_size := rest - length buf\<rparr>,
              Ok (sized_chunk buf None (cb_total_size d) ChunkState_Data, [])))"

fun crlf_loop :: "ChunkBodyDecoder \<Rightarrow> bytes \<Rightarrow> chunk_result" where
  "crlf_loop d [] = (d, Ok (sized_chunk [] None (cb_total_size d) ChunkState_MetaCrlf, []))"
| "crlf_loop d (b # buf) =
     (if b = 13 then chunk_try (decode_cr d) (\<lambda>d. crlf_loop d buf)
      else if b = 10 then chunk_try (decode_lf d) (\<lambda>d. decode_data d buf)
      else (d, Err (HttpError InvalidInput)))"

definition skip_crlf :: "ChunkBodyDecoder \<Rightarrow> bytes \<Rightarrow> chunk_result" where
  "skip_crlf d buf = crlf_loop (d\<lparr>cb_stage := Stage_SizeEnd\<rparr>) buf"

section \<open>Trailer\<close>

fun trailer_last_crlf_loop :: "ChunkBodyDecoder \<Rightarrow> bytes \<Rightarrow> bytes \<Rightarrow> chunk_result" where
  "trailer_last_crlf_loop d data [] = (d, Ok (sized_chunk [] (Some data) 0 ChunkState_DataCrlf, []))"
| "trailer_last_crlf_loop d data (b # buf) =
     (if b = 13 then chunk_try (decode_cr d) (\<lambda>d. trailer_last_crlf_loop d data buf)
      else if b = 10 then chunk_try (decode_lf d) (\<lambda>d.
        if cb_is_last_chunk d
        then (d\<lparr>cb_stage := Stage_TrailerEndCrlf\<rparr>, Ok (sized_chunk [] (Some []) 0 ChunkState_Finish, buf))
        else (d\<lparr>cb_cr_meet := False, cb_is_trailer_crlf := True, cb_stage := Stage_TrailerData\<rparr>,
              Ok (sized_chunk [] (Some data) 0 ChunkState_DataCrlf, buf)))
      else (d, Err (HttpError InvalidInput)))"

definition skip_trailer_last_crlf :: "ChunkBodyDecoder \<Rightarrow> bytes \<Rightarrow> bytes \<Rightarrow> chunk_result" where
  "skip_trailer_last_crlf d data buf = trailer_last_crlf_loop (d\<lparr>cb_stage := Stage_TrailerEndCrlf\<rparr>) data buf"

text \<open>\<open>seen\<close> is what the loop has passed over.\<close>

fun trailer_data_loop :: "ChunkBodyDecoder \<Rightarrow> bytes \<Rightarrow> bytes \<Rightarrow> chunk_result" where
  "trailer_data_loop d seen [] =
     (d\<lparr>cb_is_trailer_crlf := False\<rparr>, Ok (sized_chunk [] (Some seen) 0 ChunkState_Data, []))"
| "trailer_data_loop d seen (b # buf) =
     (if b = 13 then chunk_try (decode_cr d) (\<lambda>d. skip_trailer_last_crlf d seen buf)
      else if b = 10 then chunk_try (decode_lf d) (\<lambda>d. skip_trailer_last_crlf d seen (b # buf))
      else trailer_data_loop d (seen @ [b]) buf)"

definition decode_trailer_data :: "ChunkBodyDecoder \<Rightarrow> bytes \<Rightarrow> chunk_result" where
  "decode_trailer_data d buf =
     (let d = d\<lparr>cb_stage := Stage_TrailerData\<rparr> in
      case buf of
        [] \<Rightarrow> (d, Ok (sized_chunk [] (Some []) 0 ChunkState_Data, []))
      | b # _ \<Rightarrow>
          let d = (if b = 13 \<and> cb_is_trailer_crlf d then d\<lparr>cb_is_last_chunk := True\<rparr> else d)
          in trailer_data_loop d [] buf)"

fun trailer_crlf_loop :: "ChunkBodyDecoder \<Rightarrow> bytes \<Rightarrow> chunk_result" where
  "trailer_crlf_loop d [] = (d, Ok (sized_chunk [] (Some []) (cb_total_size d) ChunkState_MetaCrlf, []))"
| "trailer_crlf_loop d (b # buf) =
     (if b = 13 then chunk_try (decode_cr d) (\<lambda>d. trailer_crlf_loop d buf)
      else if b = 10 then chunk_try (decode_lf d) (\<lambda>d. decode_trailer_data (d\<lparr>cb_is_trailer_crlf := True\<rparr>) buf)
      else (d, Err (HttpError InvalidInput)))"

definition skip_trailer_crlf :: "ChunkBodyDecoder \<Rightarrow> bytes \<Rightarrow> chunk_result" where
  "skip_trailer_crlf d buf = trailer_crlf_loop (d\<lparr>cb_stage := Stage_TrailerCrlf\<rparr>) buf"

section \<open>Extensions\<close>

fun skip_trailer_ext :: "ChunkBodyDecoder \<Rightarrow> bytes \<Rightarrow> chunk_result" where
  "skip_trailer_ext d [] = (d, Ok (sized_chunk [] (Some []) (cb_total_size d) ChunkState_MetaExt, []))"
| "skip_trailer_ext d (b # buf) =
     (if b = 13 then chunk_try (decode_cr d) (\<lambda>d. skip_trailer_crlf d buf)
      else if b = 10 then chunk_try (decode_lf d) (\<lambda>d. skip_trailer_crlf d (b # buf))
      else skip_trailer_ext d buf)"

fun skip_chunk_ext :: "ChunkBodyDecoder \<Rightarrow> bytes \<Rightarrow> chunk_result" where
  "skip_chunk_ext d [] = (d, Ok (sized_chunk [] None (cb_total_size d) ChunkState_MetaExt, []))"
| "skip_chunk_ext d (b # buf) =
     (if b = 13 then chunk_try (decode_cr d) (\<lambda>d. skip_crlf d buf)
      else if b = 10 then chunk_try (decode_lf d) (\<lambda>d. skip_crlf d (b # buf))
      else skip_chunk_ext d buf)"

definition skip_extension :: "ChunkBodyDecoder \<Rightarrow> bytes \<Rightarrow> chunk_result" where
  "skip_extension d buf =
     (let d = d\<lparr>cb_stage := Stage_Extension\<rparr>
      in if cb_is_chunk_trailer d then skip_trailer_ext d buf else skip_chunk_ext d buf)"

section \<open>Sizes\<close>

text \<open>\<open>checked_mul\<close> and \<open>checked_add\<close> on \<open>i64\<close>.\<close>

definition i64_checked :: "int \<Rightarrow> int option" where
  "i64_checked x = (if - (2 ^ 63) \<le> x \<and> x < 2 ^ 63 then Some x else None)"

definition hex_to_decimal :: "int \<Rightarrow> int \<Rightarrow> (int, HttpError) rust_result" where
  "hex_to_decimal count num =
     (case i64_checked (count * 16) of
        None \<Rightarrow> Err (HttpError InvalidInput)
      | Some count \<Rightarrow>
          (case i64_checked (count + num) of
             None \<Rightarrow> Err (HttpError InvalidInput)
           | Some count \<Rightarrow> Ok count))"

definition push_hex :: "ChunkBodyDecoder \<Rightarrow> int \<Rightarrow> ChunkBodyDecoder \<times> (unit, HttpError) rust_result" where
  "push_hex d num =
     (case hex_to_decimal (cb_hex_count d) num of
        Ok n \<Rightarrow> (d\<lparr>cb_hex_count := n\<rparr>, Ok ())
      | Err e \<Rightarrow> (d, Err e)
      | Panic \<Rightarrow> (d, Panic))"

definition decode_special_char :: "ChunkBodyDecoder \<Rightarrow> bytes \<Rightarrow> chunk_result" where
  "decode_special_char d buf =
     (if cb_is_chunk_trailer d then skip_trailer_crlf (d\<lparr>cb_num_flag := False\<rparr>) buf
      else
        let d = d\<lparr>cb_total_size := nat (cb_hex_count d), cb_hex_count := 0, cb_num_flag := False\<rparr>
        in if cb_total_size d = 0 then skip_extension (d\<lparr>cb_is_last_chunk := True\<rparr>) buf
           else skip_extension (d\<lparr>cb_rest_size := cb_total_size d\<rparr>) buf)"

definition seen_digit :: "ChunkBodyDecoder \<Rightarrow> ChunkBodyDecoder" where
  "seen_digit d = d\<lparr>cb_chunk_flag := True, cb_num_flag := True\<rparr>"

fun size_loop :: "ChunkBodyDecoder \<Rightarrow> bytes \<Rightarrow> chunk_result" where
  "size_loop d [] = (d, Ok (sized_chunk [] None (cb_total_size d) ChunkState_MetaSize, []))"
| "size_loop d (b # buf) =
     (if b = 48 then
        if buf = [] \<or> hd buf \<noteq> 59 \<and> hd buf \<noteq> 32 \<and> hd buf \<noteq> 13
        then chunk_try (push_hex d 0) (\<lambda>d. size_loop d buf)
        else if cb_is_trailer d \<and> \<not> cb_chunk_flag d \<and> \<not> cb_num_flag d
        then skip_extension (d\<lparr>cb_is_chunk_trailer := True, cb_num_flag := False\<rparr>) (b # buf)
        else chunk_try (push_hex d 0) (\<lambda>d. size_loop d buf)
      else if 49 \<le> b \<and> b \<le> 57 then chunk_try (push_hex d (uint b - 48)) (\<lambda>d. size_loop (seen_digit d) buf)
      else if 97 \<le> b \<and> b \<le> 102 then chunk_try (push_hex d (uint b - 97 + 10)) (\<lambda>d. size_loop (seen_digit d) buf)
      else if 65 \<le> b \<and> b \<le> 70 then chunk_try (push_hex d (uint b - 65 + 10)) (\<lambda>d. size_loop (seen_digit d) buf)
      else if b = 32 \<or> b = 9 \<or> b = 59 \<or> b = 13 \<or> b = 10 then decode_special_char d (b # buf)
      else (d, Err (HttpError InvalidInput)))"

definition decode_size :: "ChunkBodyDecoder \<Rightarrow> bytes \<Rightarrow> chunk_result" where
  "decode_size d buf =
     (let d = d\<lparr>cb_stage := Stage_Size\<rparr> in
      if buf = [] then (d, Ok (sized_chunk [] None (cb_total_size d) ChunkState_MetaSize, buf))
      else size_loop (d\<lparr>cb_chunk_flag := False\<rparr>) buf)"

section \<open>The loop over the stages\<close>

definition decode_stage :: "ChunkBodyDecoder \<Rightarrow> bytes \<Rightarrow> chunk_result" where
  "decode_stage d remains =
     (case cb_stage d of
        Stage_Size \<Rightarrow> decode_size d remains
      | Stage_Extension \<Rightarrow> skip_extension d remains
      | Stage_SizeEnd \<Rightarrow> skip_crlf d remains
      | Stage_Data \<Rightarrow> decode_data d remains
      | Stage_DataEnd \<Rightarrow> skip_last_crlf d [] remains
      | Stage_TrailerCrlf \<Rightarrow> skip_trailer_crlf d remains
      | Stage_TrailerData \<Rightarrow> decode_trailer_data d remains
      | Stage_TrailerEndCrlf \<Rightarrow> skip_trailer_last_crlf d [] remains)"

definition merge_trailer :: "ChunkBodyDecoder \<Rightarrow> Chunk \<Rightarrow> ChunkBodyDecoder" where
  "merge_trailer d chunk =
     (case ch_trailer chunk of
        None \<Rightarrow> d
      | Some t \<Rightarrow>
          if ch_state chunk = ChunkState_Finish \<or> ch_state chunk = ChunkState_DataCrlf
          then let t = cb_trailer d @ t in d\<lparr>cb_trailer := (if t \<noteq> [] then t @ CRLF else t)\<rparr>
          else d\<lparr>cb_trailer := cb_trailer d @ t\<rparr>)"

text \<open>The results with the chunk, and whether the loop of \<open>decode\<close> ends.\<close>

definition match_decode_result ::
    "ChunkBodyDecoder \<Rightarrow> Chunk \<Rightarrow> Chunk list \<Rightarrow> bytes \<Rightarrow> ChunkBodyDecoder \<times> Chunk list \<times> bool" where
  "match_decode_result d chunk results remains =
     (case (Chunk_is_complete chunk, cb_is_last_chunk d) of
        (False, _) \<Rightarrow>
          if cb_is_chunk_trailer d \<and> (ch_state chunk = ChunkState_Data \<or> ch_state chunk = ChunkState_DataCrlf)
          then (d\<lparr>cb_chunk_num := cb_chunk_num d + 1\<rparr>, results @ [chunk], remains = [])
          else (d, results @ [chunk], True)
      | (True, True) \<Rightarrow> (d\<lparr>cb_is_last_chunk := False, cb_chunk_num := 0\<rparr>, results @ [chunk], True)
      | (True, False) \<Rightarrow> (d\<lparr>cb_chunk_num := cb_chunk_num d + 1\<rparr>, results @ [chunk], remains = []))"

text \<open>Every stage consumes something from the front, unless nothing is left.\<close>

definition consumes :: "bytes \<Rightarrow> chunk_result \<Rightarrow> bool" where
  "consumes buf p \<longleftrightarrow> (\<forall>d c r. p = (d, Ok (c, r)) \<longrightarrow> r = [] \<or> (\<exists>x pre. buf = x # pre @ r))"

lemma progress_Ok [simp]: "consumes buf (d, Ok (c, r)) \<longleftrightarrow> r = [] \<or> (\<exists>x pre. buf = x # pre @ r)"
  and progress_Err [simp]: "consumes buf (d, Err e)"
  by (auto simp: consumes_def)

lemma progress_try:
  "(\<And>d. consumes buf (f d)) \<Longrightarrow> consumes buf (chunk_try p f)"
  by (auto simp: chunk_try_def consumes_def split: prod.splits rust_result.splits)

lemma progress_if: "consumes buf p \<Longrightarrow> consumes buf q \<Longrightarrow> consumes buf (if b then p else q)"
  by simp

lemma progress_Cons: "consumes buf p \<Longrightarrow> consumes (b # buf) p"
  unfolding consumes_def by (metis append_Cons)

lemma progress_drop: "consumes (drop n buf) p \<Longrightarrow> consumes buf p"
proof (induction buf arbitrary: n)
  case (Cons b buf)
  then show ?case by (cases n) (auto intro: progress_Cons)
qed simp

lemma last_crlf_progress: "consumes buf (last_crlf_loop d data buf)"
  by (induction d data buf rule: last_crlf_loop.induct) (auto intro!: progress_try intro: progress_Cons)

lemma decode_data_progress: "consumes buf (decode_data d buf)"
  by (auto simp: decode_data_def skip_last_crlf_def Let_def intro: progress_drop [OF last_crlf_progress])

lemma crlf_progress: "consumes buf (crlf_loop d buf)"
  by (induction d buf rule: crlf_loop.induct)
    (auto intro!: progress_try intro: progress_Cons decode_data_progress)

lemma trailer_last_crlf_progress: "consumes buf (trailer_last_crlf_loop d data buf)"
  by (induction d data buf rule: trailer_last_crlf_loop.induct) (auto intro!: progress_try intro: progress_Cons)

lemma trailer_data_progress: "consumes buf (trailer_data_loop d seen buf)"
  by (induction d seen buf rule: trailer_data_loop.induct)
    (auto simp: skip_trailer_last_crlf_def intro!: progress_try intro: progress_Cons trailer_last_crlf_progress)

lemma decode_trailer_data_progress: "consumes buf (decode_trailer_data d buf)"
  by (simp add: decode_trailer_data_def Let_def trailer_data_progress del: trailer_data_loop.simps split: list.split)

lemma trailer_crlf_progress: "consumes buf (trailer_crlf_loop d buf)"
  by (induction d buf rule: trailer_crlf_loop.induct)
    (auto intro!: progress_try intro: progress_Cons decode_trailer_data_progress)

lemma trailer_ext_progress: "consumes buf (skip_trailer_ext d buf)"
  by (induction d buf rule: skip_trailer_ext.induct)
    (auto simp: skip_trailer_crlf_def intro!: progress_try
      intro: progress_Cons trailer_crlf_progress decode_trailer_data_progress)

lemma chunk_ext_progress: "consumes buf (skip_chunk_ext d buf)"
  by (induction d buf rule: skip_chunk_ext.induct)
    (auto simp: skip_crlf_def intro!: progress_try intro: progress_Cons crlf_progress decode_data_progress)

lemma extension_progress: "consumes buf (skip_extension d buf)"
  by (simp add: skip_extension_def Let_def trailer_ext_progress chunk_ext_progress)

lemma special_char_progress: "consumes buf (decode_special_char d buf)"
  by (simp add: decode_special_char_def Let_def extension_progress skip_trailer_crlf_def trailer_crlf_progress)

lemma size_progress: "consumes buf (size_loop d buf)"
proof (induction buf arbitrary: d)
  case (Cons b buf)
  show ?case
    unfolding size_loop.simps
    by (intro progress_if progress_try extension_progress special_char_progress progress_Err
        progress_Cons [OF Cons.IH])
qed simp

lemma decode_stage_progress: "consumes buf (decode_stage d buf)"
  by (simp add: decode_stage_def decode_size_def size_progress extension_progress skip_crlf_def crlf_progress
      decode_data_progress skip_last_crlf_def last_crlf_progress skip_trailer_crlf_def trailer_crlf_progress
      decode_trailer_data_progress skip_trailer_last_crlf_def trailer_last_crlf_progress Let_def
      split: ChunkStage.splits)

lemma match_goes_on: "match_decode_result d chunk results rest = (d', results', False) \<Longrightarrow> rest \<noteq> []"
  by (auto simp: match_decode_result_def split: bool.splits if_splits)

lemma decode_shrinks:
  assumes "(d1, Ok (chunk, rest)) = decode_stage d remains"
    and "(d3, results', False) = match_decode_result d2 chunk' results rest"
  shows "length rest < length remains"
proof -
  have "rest \<noteq> []" by (rule match_goes_on [OF assms(2) [symmetric]])
  then obtain x pre where "remains = x # pre @ rest"
    using decode_stage_progress [of remains d] assms(1) [symmetric] by (auto simp: consumes_def)
  then show ?thesis by simp
qed

function decode_loop ::
    "ChunkBodyDecoder \<Rightarrow> Chunk list \<Rightarrow> bytes \<Rightarrow>
     ChunkBodyDecoder \<times> (Chunk list \<times> bytes, HttpError) rust_result" where
  "decode_loop d results remains =
     (case decode_stage d remains of
        (d, Ok (chunk, rest)) \<Rightarrow>
          let chunk = chunk\<lparr>ch_id := cb_chunk_num d\<rparr> in
          (case match_decode_result (merge_trailer d chunk) chunk results rest of
             (d, results, True) \<Rightarrow> (d, Ok (results, rest))
           | (d, results, False) \<Rightarrow> decode_loop d results rest)
      | (d, Err e) \<Rightarrow> (d, Err e)
      | (d, Panic) \<Rightarrow> (d, Panic))"
  by pat_completeness auto

termination
  by (relation "measure (\<lambda>(d, results, remains). length remains)") (auto dest: decode_shrinks)

declare decode_loop.simps [simp del]

definition ChunkBodyDecoder_decode ::
    "ChunkBodyDecoder \<Rightarrow> bytes \<Rightarrow> ChunkBodyDecoder \<times> (Chunk list \<times> bytes, HttpError) rust_result" where
  "ChunkBodyDecoder_decode d buf = decode_loop d [] buf"

section \<open>The trailer\<close>

definition is_blank :: "u8 \<Rightarrow> bool" where
  "is_blank b \<longleftrightarrow> b = 32 \<or> b = 9"

text \<open>Blanks are cut off at both ends, unless there is nothing else.\<close>

definition trim_value :: "bytes \<Rightarrow> bytes" where
  "trim_value value =
     (if list_all is_blank value then value
      else rev (dropWhile is_blank (rev (dropWhile is_blank value))))"

text \<open>\<open>i\<close> is the index of the next byte of the trailer \<open>t\<close>; slices out of range are panics.\<close>

fun get_trailer_loop ::
    "bytes \<Rightarrow> nat \<Rightarrow> bytes \<Rightarrow> nat \<Rightarrow> nat \<Rightarrow> HeaderName \<Rightarrow> Headers \<Rightarrow> (Headers, HttpError) rust_result" where
  "get_trailer_loop t i [] colon lf name headers = Ok headers"
| "get_trailer_loop t i (b # rest) colon lf name headers =
     (if b = 32 then get_trailer_loop t (i + 1) rest colon lf name headers
      else if b = 58 \<and> colon = 0 then
        (case HeaderName_from_bytes (if lf = 0 then take i t else drop (lf + 1) (take i t)) of
           Ok name \<Rightarrow> get_trailer_loop t (i + 1) rest i lf name headers
         | Err e \<Rightarrow> Err e
         | Panic \<Rightarrow> Panic)
      else if b = 10 then
        if i < 2 then Panic
        else if t ! (i - 2) = 10 then Ok headers
        else if colon + 1 > i - 1 then Panic
        else
          (case HeaderValue_from_bytes (trim_value (drop (colon + 1) (take (i - 1) t))) of
             Ok value \<Rightarrow>
               get_trailer_loop t (i + 1) rest 0 i name (headers\<lparr>headers_map := (headers_map headers)(name \<mapsto> value)\<rparr>)
           | Err e \<Rightarrow> Err e
           | Panic \<Rightarrow> Panic)
      else get_trailer_loop t (i + 1) rest colon lf name headers)"

definition get_trailer :: "ChunkBodyDecoder \<Rightarrow> (Headers option, HttpError) rust_result" where
  "get_trailer d =
     (if cb_trailer d = [] then Ok None
      else
        case HeaderName_from_bytes [] of
          Ok name \<Rightarrow>
            (case get_trailer_loop (cb_trailer d) 0 (cb_trailer d) 0 0 name Headers_new of
               Ok headers \<Rightarrow> Ok (Some headers)
             | Err e \<Rightarrow> Err e
             | Panic \<Rightarrow> Panic)
        | Err e \<Rightarrow> Err e
        | Panic \<Rightarrow> Panic)"

end
