(* ===== verification/Chunk_Segments.thy ===== *)
theory Chunk_Segments
  imports Chunk_Decoder
begin

text \<open>
  Decoding a chunked body in pieces: an invariant of the decoder, and that the data, the errors and
  the unread rest do not depend on where the reads cut the body.
\<close>

section \<open>Invariant\<close>

definition decoder_ok :: "ChunkBodyDecoder \<Rightarrow> bool" where
  "decoder_ok d \<longleftrightarrow>
     (case cb_stage d of
        Stage_Size \<Rightarrow> \<not> cb_is_last_chunk d \<and> \<not> cb_is_chunk_trailer d \<and> (\<not> cb_num_flag d \<longrightarrow> cb_hex_count d = 0)
      | Stage_Extension \<Rightarrow>
          cb_is_chunk_trailer d \<or> (cb_is_last_chunk d \<longleftrightarrow> cb_total_size d = 0) \<and> cb_hex_count d = 0
      | Stage_TrailerCrlf \<Rightarrow> cb_is_chunk_trailer d
      | Stage_TrailerData \<Rightarrow> cb_is_chunk_trailer d
      | Stage_TrailerEndCrlf \<Rightarrow> cb_is_chunk_trailer d
      | _ \<Rightarrow> \<not> cb_is_chunk_trailer d \<and> (cb_is_last_chunk d \<longleftrightarrow> cb_total_size d = 0) \<and> cb_hex_count d = 0)"

text \<open>What a stage leaves: after a complete chunk it shows in its size whether it was the last.\<close>

definition stage_ok :: "chunk_result \<Rightarrow> bool" where
  "stage_ok p \<longleftrightarrow>
     (case p of
        (d, Ok (c, r)) \<Rightarrow>
          if Chunk_is_complete c
          then (cb_is_last_chunk d \<longleftrightarrow> ch_size c = 0) \<and>
            (cb_stage d = Stage_Size \<and> \<not> cb_is_chunk_trailer d \<and> cb_hex_count d = 0
             \<or> cb_stage d = Stage_TrailerEndCrlf \<and> cb_is_chunk_trailer d)
          else decoder_ok d
      | _ \<Rightarrow> True)"

lemma stage_ok_Err [simp]: "stage_ok (d, Err e)"
  by (simp add: stage_ok_def)

lemma stage_ok_if: "(b \<Longrightarrow> stage_ok p) \<Longrightarrow> (\<not> b \<Longrightarrow> stage_ok q) \<Longrightarrow> stage_ok (if b then p else q)"
  by simp

lemma chunk_try_cr:
  "chunk_try (decode_cr d) f = (if cb_cr_meet d then (d, Err (HttpError InvalidInput)) else f (d\<lparr>cb_cr_meet := True\<rparr>))"
  by (simp add: chunk_try_def decode_cr_def)

lemma chunk_try_lf:
  "chunk_try (decode_lf d) f = (if cb_cr_meet d then f (d\<lparr>cb_cr_meet := False\<rparr>) else (d, Err (HttpError InvalidInput)))"
  by (simp add: chunk_try_def decode_lf_def)

lemma sized_chunk_simps [simp]:
  "ch_data (sized_chunk data trailer n st) = data" "ch_size (sized_chunk data trailer n st) = n"
  "ch_state (sized_chunk data trailer n st) = st" "ch_trailer (sized_chunk data trailer n st) = trailer"
  "Chunk_is_complete (sized_chunk data trailer n st) \<longleftrightarrow> st = ChunkState_Finish"
  by (simp_all add: sized_chunk_def Chunk_is_complete_def)

lemmas chunk_simps = chunk_try_cr chunk_try_lf

lemma last_crlf_ok:
  "cb_stage d = Stage_DataEnd \<Longrightarrow> decoder_ok d \<Longrightarrow> stage_ok (last_crlf_loop d data buf)"
  by (induction d data buf rule: last_crlf_loop.induct) (auto simp: chunk_simps stage_ok_def decoder_ok_def)

lemma decode_data_ok:
  "\<not> cb_is_chunk_trailer d \<Longrightarrow> cb_is_last_chunk d \<longleftrightarrow> cb_total_size d = 0 \<Longrightarrow> cb_hex_count d = 0 \<Longrightarrow>
   stage_ok (decode_data d buf)"
  by (auto simp: decode_data_def skip_last_crlf_def Let_def stage_ok_def [of "(_, Ok _)"] decoder_ok_def
      intro!: last_crlf_ok)

lemma crlf_ok: "cb_stage d = Stage_SizeEnd \<Longrightarrow> decoder_ok d \<Longrightarrow> stage_ok (crlf_loop d buf)"
proof (induction d buf rule: crlf_loop.induct)
  case (2 d b buf)
  then show ?case by (simp add: chunk_simps decoder_ok_def decode_data_ok)
qed (simp add: stage_ok_def)

lemma trailer_last_crlf_ok:
  "cb_stage d = Stage_TrailerEndCrlf \<Longrightarrow> decoder_ok d \<Longrightarrow> stage_ok (trailer_last_crlf_loop d data buf)"
  by (induction d data buf rule: trailer_last_crlf_loop.induct) (auto simp: chunk_simps stage_ok_def decoder_ok_def)

lemma trailer_data_ok:
  "cb_stage d = Stage_TrailerData \<Longrightarrow> decoder_ok d \<Longrightarrow> stage_ok (trailer_data_loop d seen buf)"
proof (induction d seen buf rule: trailer_data_loop.induct)
  case (2 d seen b buf)
  then show ?case
    by (simp add: chunk_simps decoder_ok_def skip_trailer_last_crlf_def trailer_last_crlf_ok
        del: trailer_last_crlf_loop.simps)
qed (simp add: stage_ok_def decoder_ok_def)

lemma decode_trailer_data_ok: "cb_is_chunk_trailer d \<Longrightarrow> stage_ok (decode_trailer_data d buf)"
  by (auto simp: decode_trailer_data_def Let_def decoder_ok_def stage_ok_def [of "(_, Ok _)"]
      intro!: trailer_data_ok simp del: trailer_data_loop.simps split: list.split)

lemma trailer_crlf_ok:
  "cb_stage d = Stage_TrailerCrlf \<Longrightarrow> decoder_ok d \<Longrightarrow> stage_ok (trailer_crlf_loop d buf)"
proof (induction d buf rule: trailer_crlf_loop.induct)
  case (2 d b buf)
  then show ?case by (simp add: chunk_simps decoder_ok_def decode_trailer_data_ok)
qed (simp add: stage_ok_def)

lemma trailer_ext_ok:
  "cb_stage d = Stage_Extension \<Longrightarrow> cb_is_chunk_trailer d \<Longrightarrow> stage_ok (skip_trailer_ext d buf)"
proof (induction d buf rule: skip_trailer_ext.induct)
  case (2 d b buf)
  then show ?case
    by (simp add: chunk_simps decoder_ok_def skip_trailer_crlf_def trailer_crlf_ok del: trailer_crlf_loop.simps)
qed (simp add: stage_ok_def decoder_ok_def)

lemma chunk_ext_ok:
  "cb_stage d = Stage_Extension \<Longrightarrow> \<not> cb_is_chunk_trailer d \<Longrightarrow> decoder_ok d \<Longrightarrow> stage_ok (skip_chunk_ext d buf)"
proof (induction d buf rule: skip_chunk_ext.induct)
  case (2 d b buf)
  then show ?case
    by (simp add: chunk_simps decoder_ok_def skip_crlf_def crlf_ok del: crlf_loop.simps)
qed (simp add: stage_ok_def)

lemma extension_ok:
  "cb_is_chunk_trailer d \<or> (cb_is_last_chunk d \<longleftrightarrow> cb_total_size d = 0) \<and> cb_hex_count d = 0 \<Longrightarrow>
   stage_ok (skip_extension d buf)"
  by (auto simp: skip_extension_def Let_def decoder_ok_def intro!: trailer_ext_ok chunk_ext_ok)

lemma special_char_ok:
  "\<not> cb_is_chunk_trailer d \<Longrightarrow> \<not> cb_is_last_chunk d \<Longrightarrow> stage_ok (decode_special_char d buf)"
  by (auto simp: decode_special_char_def Let_def intro!: extension_ok)

lemma hex_not_Panic: "hex_to_decimal c x \<noteq> Panic"
  by (simp add: hex_to_decimal_def split: option.split)

lemma push_hex_cases:
  obtains (ok) n where "push_hex d x = (d\<lparr>cb_hex_count := n\<rparr>, Ok ())" "hex_to_decimal (cb_hex_count d) x = Ok n"
  | (err) e where "push_hex d x = (d, Err e)" "hex_to_decimal (cb_hex_count d) x = Err e"
  by (cases "hex_to_decimal (cb_hex_count d) x") (simp_all add: push_hex_def hex_not_Panic)

lemma stage_ok_push:
  "(\<And>n. hex_to_decimal (cb_hex_count d) x = Ok n \<Longrightarrow> stage_ok (f (d\<lparr>cb_hex_count := n\<rparr>))) \<Longrightarrow>
   stage_ok (chunk_try (push_hex d x) f)"
  by (rule push_hex_cases [of d x]) (simp_all add: chunk_try_def)

lemma hex_zero: "hex_to_decimal 0 0 = Ok n \<Longrightarrow> n = 0"
  by (simp add: hex_to_decimal_def i64_checked_def)

lemma size_ok: "cb_stage d = Stage_Size \<Longrightarrow> decoder_ok d \<Longrightarrow> stage_ok (size_loop d buf)"
proof (induction buf arbitrary: d)
  case (Cons b buf)
  have zero: "stage_ok (size_loop (d\<lparr>cb_hex_count := n\<rparr>) buf)" if "hex_to_decimal (cb_hex_count d) 0 = Ok n" for n
    using Cons.prems hex_zero [of n] that by (intro Cons.IH) (auto simp: decoder_ok_def)
  have digit: "stage_ok (size_loop (seen_digit (d\<lparr>cb_hex_count := n\<rparr>)) buf)" for n
    using Cons.prems by (intro Cons.IH) (simp_all add: decoder_ok_def seen_digit_def)
  have "stage_ok (decode_special_char d (b # buf))"
    using Cons.prems by (intro special_char_ok) (simp_all add: decoder_ok_def)
  then show ?case
    unfolding size_loop.simps
    by (intro stage_ok_if stage_ok_push zero digit stage_ok_Err extension_ok) simp_all
qed (simp add: stage_ok_def)

lemma decode_stage_ok: "decoder_ok d \<Longrightarrow> stage_ok (decode_stage d buf)"
  by (cases "cb_stage d")
    (auto simp: decode_stage_def decode_size_def Let_def skip_crlf_def skip_last_crlf_def skip_trailer_crlf_def
      skip_trailer_last_crlf_def decoder_ok_def stage_ok_def [of "(_, Ok _)"]
      intro!: size_ok extension_ok crlf_ok decode_data_ok last_crlf_ok trailer_crlf_ok decode_trailer_data_ok
        trailer_last_crlf_ok
      simp del: size_loop.simps crlf_loop.simps last_crlf_loop.simps trailer_crlf_loop.simps trailer_last_crlf_loop.simps)

section \<open>What decoding depends on\<close>

text \<open>
  The number of the chunk, the collected trailer and the flag \<open>chunk_flag\<close> have no influence on what
  is decoded, and \<open>is_trailer_crlf\<close> has none outside its stage.
\<close>

type_synonym decoder_core =
  "nat \<times> nat \<times> int \<times> bool \<times> bool \<times> bool \<times> bool \<times> bool \<times> ChunkStage \<times> bool"

definition decoder_core :: "ChunkBodyDecoder \<Rightarrow> decoder_core" where
  "decoder_core d = (cb_total_size d, cb_rest_size d, cb_hex_count d, cb_cr_meet d, cb_num_flag d, cb_is_last_chunk d,
     cb_is_chunk_trailer d, cb_is_trailer d, cb_stage d, cb_stage d = Stage_TrailerData \<and> cb_is_trailer_crlf d)"

definition view :: "chunk_result \<Rightarrow> (decoder_core \<times> ChunkState \<times> nat \<times> bytes \<times> bytes, HttpError) rust_result" where
  "view p =
     (case p of
        (d, Ok (c, r)) \<Rightarrow> Ok (decoder_core d, ch_state c, ch_size c, ch_data c, r)
      | (d, Err e) \<Rightarrow> Err e
      | (d, Panic) \<Rightarrow> Panic)"

definition prepend ::
    "bytes \<Rightarrow> (decoder_core \<times> ChunkState \<times> nat \<times> bytes \<times> bytes, HttpError) rust_result \<Rightarrow>
     (decoder_core \<times> ChunkState \<times> nat \<times> bytes \<times> bytes, HttpError) rust_result" where
  "prepend data v = (case v of Ok (k, st, n, data', r) \<Rightarrow> Ok (k, st, n, data @ data', r) | Err e \<Rightarrow> Err e | Panic \<Rightarrow> Panic)"

lemma view_simps [simp]:
  "view (d, Ok (c, r)) = Ok (decoder_core d, ch_state c, ch_size c, ch_data c, r)" "view (d, Err e) = Err e"
  by (simp_all add: view_def)

lemma prepend_simps [simp]:
  "prepend data (Ok (k, st, n, data', r)) = Ok (k, st, n, data @ data', r)" "prepend data (Err e) = Err e"
  "prepend [] v = v"
  by (auto simp: prepend_def split: rust_result.splits)

lemma view_if: "view (if b then p else q) = (if b then view p else view q)"
  by simp

lemma coreD:
  assumes "decoder_core d = decoder_core d'"
  shows "cb_total_size d = cb_total_size d'" "cb_rest_size d = cb_rest_size d'" "cb_hex_count d = cb_hex_count d'"
    "cb_cr_meet d = cb_cr_meet d'" "cb_num_flag d = cb_num_flag d'" "cb_is_last_chunk d = cb_is_last_chunk d'"
    "cb_is_chunk_trailer d = cb_is_chunk_trailer d'" "cb_is_trailer d = cb_is_trailer d'"
    "cb_stage d = cb_stage d'" "cb_stage d' = Stage_TrailerData \<Longrightarrow> cb_is_trailer_crlf d = cb_is_trailer_crlf d'"
  using assms by (simp_all add: decoder_core_def cong: conj_cong)

lemma last_crlf_view:
  "decoder_core d = decoder_core d' \<Longrightarrow> view (last_crlf_loop d (x @ data) buf) = prepend x (view (last_crlf_loop d' data buf))"
proof (induction buf arbitrary: d d')
  case (Cons b buf)
  have "decoder_core (d\<lparr>cb_cr_meet := True\<rparr>) = decoder_core (d'\<lparr>cb_cr_meet := True\<rparr>)" using Cons.prems by (simp add: decoder_core_def cong: conj_cong)
  from Cons.IH [OF this] Cons.prems show ?case by (simp add: chunk_simps decoder_core_def cong: conj_cong)
qed (simp add: decoder_core_def cong: conj_cong)

lemma decode_data_view: "decoder_core d = decoder_core d' \<Longrightarrow> view (decode_data d buf) = view (decode_data d' buf)"
  using last_crlf_view [of "d\<lparr>cb_rest_size := 0, cb_cr_meet := False, cb_stage := Stage_DataEnd\<rparr>"
      "d'\<lparr>cb_rest_size := 0, cb_cr_meet := False, cb_stage := Stage_DataEnd\<rparr>" "[]" "take (cb_rest_size d') buf"
      "drop (cb_rest_size d') buf"]
  by (simp add: decode_data_def skip_last_crlf_def Let_def decoder_core_def cong: conj_cong)

lemma crlf_view: "decoder_core d = decoder_core d' \<Longrightarrow> view (crlf_loop d buf) = view (crlf_loop d' buf)"
proof (induction buf arbitrary: d d')
  case (Cons b buf)
  have "decoder_core (d\<lparr>cb_cr_meet := v\<rparr>) = decoder_core (d'\<lparr>cb_cr_meet := v\<rparr>)" for v using Cons.prems by (simp add: decoder_core_def cong: conj_cong)
  from Cons.IH [OF this] decode_data_view [OF this] coreD(4) [OF Cons.prems] show ?case by (simp add: chunk_simps)
qed (simp add: decoder_core_def cong: conj_cong)

lemma trailer_last_crlf_view:
  "decoder_core d = decoder_core d' \<Longrightarrow> view (trailer_last_crlf_loop d data buf) = view (trailer_last_crlf_loop d' data' buf)"
proof (induction buf arbitrary: d d')
  case (Cons b buf)
  have "decoder_core (d\<lparr>cb_cr_meet := True\<rparr>) = decoder_core (d'\<lparr>cb_cr_meet := True\<rparr>)" using Cons.prems by (simp add: decoder_core_def cong: conj_cong)
  from Cons.IH [OF this] Cons.prems show ?case by (simp add: chunk_simps decoder_core_def cong: conj_cong)
qed (simp add: decoder_core_def cong: conj_cong)

lemma trailer_data_view:
  "decoder_core (d\<lparr>cb_is_trailer_crlf := x\<rparr>) = decoder_core (d'\<lparr>cb_is_trailer_crlf := x\<rparr>) \<Longrightarrow>
   view (trailer_data_loop d seen buf) = view (trailer_data_loop d' seen' buf)"
proof (induction buf arbitrary: d d' seen seen')
  case (Cons b buf)
  have "decoder_core (d\<lparr>cb_cr_meet := v, cb_stage := Stage_TrailerEndCrlf\<rparr>) =
      decoder_core (d'\<lparr>cb_cr_meet := v, cb_stage := Stage_TrailerEndCrlf\<rparr>)" for v
    using Cons.prems by (simp add: decoder_core_def cong: conj_cong)
  from Cons.IH [OF Cons.prems] trailer_last_crlf_view [OF this] coreD(4) [OF Cons.prems]
  show ?case by (simp add: chunk_simps skip_trailer_last_crlf_def del: trailer_last_crlf_loop.simps)
qed (simp add: decoder_core_def cong: conj_cong)

lemma decode_trailer_data_view:
  assumes "decoder_core d = decoder_core d'" "cb_is_trailer_crlf d = cb_is_trailer_crlf d'"
  shows "view (decode_trailer_data d buf) = view (decode_trailer_data d' buf)"
proof (cases buf)
  case (Cons b bs)
  let ?f = "\<lambda>d. if b = 13 \<and> cb_is_trailer_crlf d then d\<lparr>cb_stage := Stage_TrailerData, cb_is_last_chunk := True\<rparr>
    else d\<lparr>cb_stage := Stage_TrailerData\<rparr>"
  have "decoder_core ((?f d)\<lparr>cb_is_trailer_crlf := True\<rparr>) = decoder_core ((?f d')\<lparr>cb_is_trailer_crlf := True\<rparr>)"
    using assms by (simp add: decoder_core_def cong: conj_cong)
  from trailer_data_view [OF this, of "[]" buf "[]"] show ?thesis
    using Cons by (simp add: decode_trailer_data_def Let_def del: trailer_data_loop.simps)
qed (use assms in \<open>simp add: decode_trailer_data_def decoder_core_def cong: conj_cong\<close>)

lemma trailer_crlf_view: "decoder_core d = decoder_core d' \<Longrightarrow> view (trailer_crlf_loop d buf) = view (trailer_crlf_loop d' buf)"
proof (induction buf arbitrary: d d')
  case (Cons b buf)
  have "decoder_core (d\<lparr>cb_cr_meet := v\<rparr>) = decoder_core (d'\<lparr>cb_cr_meet := v\<rparr>)"
      "decoder_core (d\<lparr>cb_cr_meet := v, cb_is_trailer_crlf := True\<rparr>) = decoder_core (d'\<lparr>cb_cr_meet := v, cb_is_trailer_crlf := True\<rparr>)" for v
    using Cons.prems by (simp_all add: decoder_core_def cong: conj_cong)
  from Cons.IH [OF this(1)] decode_trailer_data_view [OF this(2)] coreD(4) [OF Cons.prems]
  show ?case by (simp add: chunk_simps)
qed (simp add: decoder_core_def cong: conj_cong)

lemma trailer_ext_view: "decoder_core d = decoder_core d' \<Longrightarrow> view (skip_trailer_ext d buf) = view (skip_trailer_ext d' buf)"
proof (induction buf arbitrary: d d')
  case (Cons b buf)
  have "decoder_core (d\<lparr>cb_cr_meet := v, cb_stage := Stage_TrailerCrlf\<rparr>) = decoder_core (d'\<lparr>cb_cr_meet := v, cb_stage := Stage_TrailerCrlf\<rparr>)" for v
    using Cons.prems by (simp add: decoder_core_def cong: conj_cong)
  from Cons.IH [OF Cons.prems] trailer_crlf_view [OF this] coreD(4) [OF Cons.prems]
  show ?case by (simp add: chunk_simps skip_trailer_crlf_def del: trailer_crlf_loop.simps)
qed (simp add: decoder_core_def cong: conj_cong)

lemma chunk_ext_view: "decoder_core d = decoder_core d' \<Longrightarrow> view (skip_chunk_ext d buf) = view (skip_chunk_ext d' buf)"
proof (induction buf arbitrary: d d')
  case (Cons b buf)
  have "decoder_core (d\<lparr>cb_cr_meet := v, cb_stage := Stage_SizeEnd\<rparr>) = decoder_core (d'\<lparr>cb_cr_meet := v, cb_stage := Stage_SizeEnd\<rparr>)" for v
    using Cons.prems by (simp add: decoder_core_def cong: conj_cong)
  from Cons.IH [OF Cons.prems] crlf_view [OF this] coreD(4) [OF Cons.prems]
  show ?case by (simp add: chunk_simps skip_crlf_def del: crlf_loop.simps)
qed (simp add: decoder_core_def cong: conj_cong)

lemma extension_view:
  assumes "decoder_core d = decoder_core d'"
  shows "view (skip_extension d buf) = view (skip_extension d' buf)"
proof -
  have "decoder_core (d\<lparr>cb_stage := Stage_Extension\<rparr>) = decoder_core (d'\<lparr>cb_stage := Stage_Extension\<rparr>)"
    using assms by (simp add: decoder_core_def cong: conj_cong)
  from trailer_ext_view [OF this] chunk_ext_view [OF this] coreD(7) [OF assms] show ?thesis
    by (simp add: skip_extension_def Let_def)
qed

lemma special_char_view:
  assumes "decoder_core d = decoder_core d'"
  shows "view (decode_special_char d buf) = view (decode_special_char d' buf)"
proof -
  let ?t = "\<lambda>d. d\<lparr>cb_num_flag := False, cb_stage := Stage_TrailerCrlf\<rparr>"
  let ?s = "\<lambda>d. d\<lparr>cb_total_size := nat (cb_hex_count d), cb_hex_count := 0, cb_num_flag := False\<rparr>"
  let ?l = "\<lambda>d. (?s d)\<lparr>cb_is_last_chunk := True\<rparr>"
  let ?r = "\<lambda>d. (?s d)\<lparr>cb_rest_size := nat (cb_hex_count d)\<rparr>"
  have "decoder_core (?t d) = decoder_core (?t d')" "decoder_core (?l d) = decoder_core (?l d')" "decoder_core (?r d) = decoder_core (?r d')"
    using assms by (simp_all add: decoder_core_def cong: conj_cong)
  from trailer_crlf_view [OF this(1)] extension_view [OF this(2)] extension_view [OF this(3)]
    coreD(3,7) [OF assms]
  show ?thesis
    by (cases "cb_hex_count d' \<le> 0") (simp_all add: decode_special_char_def Let_def skip_trailer_crlf_def)
qed

text \<open>Within a size \<open>chunk_flag\<close> implies \<open>num_flag\<close>.\<close>

definition flags_ok :: "ChunkBodyDecoder \<Rightarrow> bool" where
  "flags_ok d \<longleftrightarrow> (cb_chunk_flag d \<longrightarrow> cb_num_flag d)"

lemma push_view:
  assumes "decoder_core d = decoder_core d'"
    and "\<And>n. view (f (d\<lparr>cb_hex_count := n\<rparr>)) = view (f' (d'\<lparr>cb_hex_count := n\<rparr>))"
  shows "view (chunk_try (push_hex d x) f) = view (chunk_try (push_hex d' x) f')"
  using assms(2) coreD(3) [OF assms(1)]
  by (rule_tac push_hex_cases [of d x]; rule_tac push_hex_cases [of d' x]) (simp_all add: chunk_try_def)

lemma view_if_cong:
  "b = b' \<Longrightarrow> (b' \<Longrightarrow> view p = view p') \<Longrightarrow> (\<not> b' \<Longrightarrow> view q = view q') \<Longrightarrow>
   view (if b then p else q) = view (if b' then p' else q')"
  by simp

lemma size_view:
  "decoder_core d = decoder_core d' \<Longrightarrow> flags_ok d \<Longrightarrow> flags_ok d' \<Longrightarrow> view (size_loop d buf) = view (size_loop d' buf)"
proof (induction buf arbitrary: d d')
  case (Cons b buf)
  have digit: "view (size_loop (d\<lparr>cb_hex_count := n\<rparr>) buf) = view (size_loop (d'\<lparr>cb_hex_count := n\<rparr>) buf)"
      "view (size_loop (seen_digit (d\<lparr>cb_hex_count := n\<rparr>)) buf) = view (size_loop (seen_digit (d'\<lparr>cb_hex_count := n\<rparr>)) buf)" for n
    using Cons.prems by (intro Cons.IH; simp add: flags_ok_def seen_digit_def decoder_core_def cong: conj_cong)+
  have trailer: "view (skip_extension (d\<lparr>cb_is_chunk_trailer := True, cb_num_flag := False\<rparr>) buf) =
      view (skip_extension (d'\<lparr>cb_is_chunk_trailer := True, cb_num_flag := False\<rparr>) buf)" for buf
    using Cons.prems by (intro extension_view) (simp add: decoder_core_def cong: conj_cong)
  show ?case
    unfolding size_loop.simps
    by (intro view_if_cong push_view special_char_view digit trailer Cons.prems refl)
      (use coreD(5,8) [OF Cons.prems(1)] Cons.prems(2,3) in \<open>auto simp: flags_ok_def\<close>)
qed (simp add: decoder_core_def cong: conj_cong)

lemma decode_stage_view:
  assumes "decoder_core d = decoder_core d'"
  shows "view (decode_stage d buf) = view (decode_stage d' buf)"
proof -
  let ?f = "\<lambda>d st. d\<lparr>cb_stage := st\<rparr>"
  have st: "st \<noteq> Stage_TrailerData \<Longrightarrow> decoder_core (?f d st) = decoder_core (?f d' st)" for st
    using assms by (simp add: decoder_core_def cong: conj_cong)
  have "decoder_core (d\<lparr>cb_stage := Stage_Size, cb_chunk_flag := False\<rparr>) = decoder_core (d'\<lparr>cb_stage := Stage_Size, cb_chunk_flag := False\<rparr>)"
    using assms by (simp add: decoder_core_def cong: conj_cong)
  then have "view (decode_size d buf) = view (decode_size d' buf)"
    using size_view [of "d\<lparr>cb_stage := Stage_Size, cb_chunk_flag := False\<rparr>" "d'\<lparr>cb_stage := Stage_Size, cb_chunk_flag := False\<rparr>" buf]
      coreD(1) [OF assms] st [of Stage_Size]
    by (simp add: decode_size_def Let_def flags_ok_def)
  then show ?thesis
    using coreD(9,10) [OF assms] extension_view [OF assms, of buf] crlf_view [OF st, of Stage_SizeEnd buf]
      decode_data_view [OF assms, of buf] last_crlf_view [OF st, of Stage_DataEnd "[]" "[]" buf]
      trailer_crlf_view [OF st, of Stage_TrailerCrlf buf] decode_trailer_data_view [OF assms, of buf]
      trailer_last_crlf_view [OF st, of Stage_TrailerEndCrlf "[]" buf "[]"]
    by (cases "cb_stage d'") (simp_all add: decode_stage_def skip_crlf_def skip_last_crlf_def skip_trailer_crlf_def
        skip_trailer_last_crlf_def)
qed

end
