(* ===== verification/Chunk_Cuts.thy ===== *)
theory Chunk_Cuts
  imports Chunk_Segments
begin

text \<open>
  The stages of the decoder of chunked bodies, on a buffer that is cut in two.
\<close>

section \<open>Cuts\<close>

text \<open>
  A stage on \<open>a\<close> and then \<open>b\<close>: either it is done within \<open>a\<close>, or the stage in which it stops goes on
  with \<open>b\<close> as if there had been no cut.
\<close>

definition carries_on :: "(bytes \<Rightarrow> chunk_result) \<Rightarrow> bytes \<Rightarrow> bytes \<Rightarrow> bool" where
  "carries_on f a b \<longleftrightarrow>
     (case f a of
        (d, Ok (c, r)) \<Rightarrow>
          f (a @ b) = (d, Ok (c, r @ b)) \<and>
            (Chunk_is_complete c \<or> cb_is_chunk_trailer d \<and> ch_state c = ChunkState_DataCrlf)
          \<or> r = [] \<and> \<not> Chunk_is_complete c \<and> view (f (a @ b)) = prepend (ch_data c) (view (decode_stage d b))
      | (d, Err e) \<Rightarrow> view (f (a @ b)) = Err e
      | (d, Panic) \<Rightarrow> False)"

lemma carries_Err: "carries_on (\<lambda>xs. (d, Err e)) a b"
  by (simp add: carries_on_def)

lemma carries_done:
  "Chunk_is_complete c \<or> cb_is_chunk_trailer d \<and> ch_state c = ChunkState_DataCrlf \<Longrightarrow>
   carries_on (\<lambda>xs. (d, Ok (c, xs))) a b"
  by (simp add: carries_on_def)

lemma carries_if:
  "(c \<Longrightarrow> carries_on f a b) \<Longrightarrow> (\<not> c \<Longrightarrow> carries_on g a b) \<Longrightarrow>
   carries_on (\<lambda>xs. if c then f xs else g xs) a b"
  by (cases c) simp_all

lemma carries_step: "carries_on (\<lambda>xs. f (x # xs)) a b \<Longrightarrow> carries_on f (x # a) b"
  unfolding carries_on_def append_Cons .

lemma carries_start:
  "f [] = (d, Ok (c, [])) \<Longrightarrow> \<not> Chunk_is_complete c \<Longrightarrow> view (f b) = prepend (ch_data c) (view (decode_stage d b)) \<Longrightarrow>
   carries_on f [] b"
  by (simp add: carries_on_def)

lemma last_crlf_carries: "cb_stage d = Stage_DataEnd \<Longrightarrow> carries_on (last_crlf_loop d data) a b"
proof (induction a arbitrary: d)
  case Nil
  then have "decoder_core d = decoder_core (d\<lparr>cb_stage := Stage_DataEnd\<rparr>)" by (simp add: decoder_core_def)
  from last_crlf_view [OF this, of data "[]" b] Nil show ?case
    by (simp add: carries_on_def decode_stage_def skip_last_crlf_def)
next
  case (Cons x a)
  show ?case
    by (rule carries_step, unfold last_crlf_loop.simps chunk_simps)
      (intro carries_if Cons.IH carries_Err carries_done; simp add: Cons.prems)
qed

lemma decode_data_carries:
  assumes "b \<noteq> []"
  shows "carries_on (decode_data d) a b"
proof -
  let ?d = "d\<lparr>cb_stage := Stage_Data\<rparr>"
  let ?e = "?d\<lparr>cb_rest_size := 0, cb_cr_meet := False, cb_stage := Stage_DataEnd\<rparr>"
  let ?n = "cb_rest_size d"
  consider "a = []" | "a \<noteq> []" "length a < ?n" | "a \<noteq> []" "?n \<le> length a" by linarith
  then show ?thesis
  proof cases
    case 1
    have "decode_data d [] = (?d, Ok (sized_chunk [] None (cb_total_size d) ChunkState_Data, []))"
      by (simp add: decode_data_def Let_def)
    then show ?thesis unfolding 1
      by (rule carries_start) (simp_all add: decode_stage_def decode_data_def Let_def)
  next
    case 2
    let ?d1 = "?d\<lparr>cb_rest_size := ?n - length a\<rparr>"
    have a: "decode_data d a = (?d1, Ok (sized_chunk a None (cb_total_size d) ChunkState_Data, []))"
      using 2 by (simp add: decode_data_def Let_def)
    have "decoder_core ?e = decoder_core (?d1\<lparr>cb_stage := Stage_Data, cb_rest_size := 0, cb_cr_meet := False, cb_stage := Stage_DataEnd\<rparr>)"
      by (simp add: decoder_core_def)
    from last_crlf_view [OF this, of a "take (?n - length a) b" "drop (?n - length a) b"] 2 assms
    have "view (decode_data d (a @ b)) = prepend a (view (decode_stage ?d1 b))"
      by (auto simp: decode_data_def decode_stage_def Let_def skip_last_crlf_def decoder_core_def)
    with a show ?thesis by (simp add: carries_on_def)
  next
    case 3
    have "decode_data d (a @ xs) = last_crlf_loop ?e (take ?n a) (drop ?n a @ xs)" for xs
      using 3 by (simp add: decode_data_def Let_def skip_last_crlf_def)
    note eqs = this [of "[]", unfolded append_Nil2] this [of b]
    have "carries_on (last_crlf_loop ?e (take ?n a)) (drop ?n a) b" by (rule last_crlf_carries) simp
    then show ?thesis unfolding carries_on_def eqs .
  qed
qed

lemma crlf_carries: "cb_stage d = Stage_SizeEnd \<Longrightarrow> b \<noteq> [] \<Longrightarrow> carries_on (crlf_loop d) a b"
proof (induction a arbitrary: d)
  case Nil
  then have "decoder_core d = decoder_core (d\<lparr>cb_stage := Stage_SizeEnd\<rparr>)" by (simp add: decoder_core_def)
  from crlf_view [OF this, of b] Nil show ?case by (simp add: carries_on_def decode_stage_def skip_crlf_def)
next
  case (Cons x a)
  show ?case
    by (rule carries_step, unfold crlf_loop.simps chunk_simps)
      (intro carries_if Cons.IH carries_Err decode_data_carries; simp add: Cons.prems)
qed

lemma trailer_last_crlf_carries:
  "cb_stage d = Stage_TrailerEndCrlf \<Longrightarrow> cb_is_chunk_trailer d \<Longrightarrow> carries_on (trailer_last_crlf_loop d data) a b"
proof (induction a arbitrary: d)
  case Nil
  then have "decoder_core d = decoder_core (d\<lparr>cb_stage := Stage_TrailerEndCrlf\<rparr>)" by (simp add: decoder_core_def)
  from trailer_last_crlf_view [OF this, of data b "[]"] Nil show ?case
    by (simp add: carries_on_def decode_stage_def skip_trailer_last_crlf_def)
next
  case (Cons x a)
  show ?case
    by (rule carries_step, unfold trailer_last_crlf_loop.simps chunk_simps)
      (intro carries_if Cons.IH carries_Err carries_done; simp add: Cons.prems)
qed

lemma trailer_data_carries:
  "cb_stage d = Stage_TrailerData \<Longrightarrow> cb_is_chunk_trailer d \<Longrightarrow> b \<noteq> [] \<Longrightarrow>
   carries_on (trailer_data_loop d seen) a b"
proof (induction a arbitrary: d seen)
  case Nil
  let ?d = "d\<lparr>cb_is_trailer_crlf := False, cb_stage := Stage_TrailerData\<rparr>"
  have "decoder_core (d\<lparr>cb_is_trailer_crlf := False\<rparr>) = decoder_core (?d\<lparr>cb_is_trailer_crlf := False\<rparr>)"
    using Nil by (simp add: decoder_core_def)
  note view = trailer_data_view [OF this, of seen b "[]"]
  obtain y ys where "b = y # ys" using Nil by (cases b) simp_all
  then have "decode_stage (d\<lparr>cb_is_trailer_crlf := False\<rparr>) b = trailer_data_loop ?d [] b"
    using Nil by (simp add: decode_stage_def decode_trailer_data_def Let_def del: trailer_data_loop.simps)
  with view show ?case by (simp add: carries_on_def)
next
  case (Cons x a)
  show ?case
    by (rule carries_step, unfold trailer_data_loop.simps chunk_simps skip_trailer_last_crlf_def)
      (intro carries_if Cons.IH carries_Err trailer_last_crlf_carries; simp add: Cons.prems chunk_simps carries_Err)
qed

lemma decode_trailer_data_carries:
  assumes "cb_is_chunk_trailer d" "b \<noteq> []"
  shows "carries_on (decode_trailer_data d) a b"
proof (cases a)
  case Nil
  have "decode_trailer_data d [] =
      (d\<lparr>cb_stage := Stage_TrailerData\<rparr>, Ok (sized_chunk [] (Some []) 0 ChunkState_Data, []))"
    by (simp add: decode_trailer_data_def)
  moreover have "decode_stage (d\<lparr>cb_stage := Stage_TrailerData\<rparr>) b = decode_trailer_data d b"
    by (simp add: decode_stage_def decode_trailer_data_def)
  ultimately show ?thesis unfolding Nil by (simp add: carries_on_def)
next
  case (Cons x xs)
  let ?d = "if x = 13 \<and> cb_is_trailer_crlf d then d\<lparr>cb_stage := Stage_TrailerData, cb_is_last_chunk := True\<rparr>
    else d\<lparr>cb_stage := Stage_TrailerData\<rparr>"
  have eqs: "decode_trailer_data d a = trailer_data_loop ?d [] a"
      "decode_trailer_data d (a @ b) = trailer_data_loop ?d [] (a @ b)"
    by (simp_all add: Cons decode_trailer_data_def Let_def del: trailer_data_loop.simps)
  have "carries_on (trailer_data_loop ?d []) a b" using assms by (intro trailer_data_carries) simp_all
  then show ?thesis unfolding carries_on_def eqs .
qed

lemma trailer_crlf_carries:
  "cb_stage d = Stage_TrailerCrlf \<Longrightarrow> cb_is_chunk_trailer d \<Longrightarrow> b \<noteq> [] \<Longrightarrow> carries_on (trailer_crlf_loop d) a b"
proof (induction a arbitrary: d)
  case Nil
  then have "decoder_core d = decoder_core (d\<lparr>cb_stage := Stage_TrailerCrlf\<rparr>)" by (simp add: decoder_core_def)
  from trailer_crlf_view [OF this, of b] Nil show ?case
    by (simp add: carries_on_def decode_stage_def skip_trailer_crlf_def)
next
  case (Cons x a)
  show ?case
    by (rule carries_step, unfold trailer_crlf_loop.simps chunk_simps)
      (intro carries_if Cons.IH carries_Err decode_trailer_data_carries; simp add: Cons.prems)
qed

lemma trailer_ext_carries:
  "cb_stage d = Stage_Extension \<Longrightarrow> cb_is_chunk_trailer d \<Longrightarrow> b \<noteq> [] \<Longrightarrow> carries_on (skip_trailer_ext d) a b"
proof (induction a arbitrary: d)
  case Nil
  then have "decoder_core d = decoder_core (d\<lparr>cb_stage := Stage_Extension\<rparr>)" by (simp add: decoder_core_def)
  from trailer_ext_view [OF this, of b] Nil show ?case
    by (simp add: carries_on_def decode_stage_def skip_extension_def Let_def)
next
  case (Cons x a)
  show ?case
    by (rule carries_step, unfold skip_trailer_ext.simps chunk_simps skip_trailer_crlf_def)
      (intro carries_if Cons.IH carries_Err trailer_crlf_carries; simp add: Cons.prems chunk_simps carries_Err)
qed

lemma chunk_ext_carries:
  "cb_stage d = Stage_Extension \<Longrightarrow> \<not> cb_is_chunk_trailer d \<Longrightarrow> b \<noteq> [] \<Longrightarrow> carries_on (skip_chunk_ext d) a b"
proof (induction a arbitrary: d)
  case Nil
  then have "decoder_core d = decoder_core (d\<lparr>cb_stage := Stage_Extension\<rparr>)" by (simp add: decoder_core_def)
  from chunk_ext_view [OF this, of b] Nil show ?case
    by (simp add: carries_on_def decode_stage_def skip_extension_def Let_def)
next
  case (Cons x a)
  show ?case
    by (rule carries_step, unfold skip_chunk_ext.simps chunk_simps skip_crlf_def)
      (intro carries_if Cons.IH carries_Err crlf_carries; simp add: Cons.prems chunk_simps carries_Err)
qed

lemma extension_carries: "b \<noteq> [] \<Longrightarrow> carries_on (skip_extension d) a b"
  unfolding skip_extension_def Let_def
  by (rule carries_if) (simp_all add: trailer_ext_carries chunk_ext_carries)

lemma special_char_carries:
  assumes "b \<noteq> []"
  shows "carries_on (decode_special_char d) a b"
  unfolding decode_special_char_def Let_def skip_trailer_crlf_def
  by (intro carries_if extension_carries trailer_crlf_carries assms) simp_all

lemma carries_eq: "f a = g a' \<Longrightarrow> f (a @ b) = g (a' @ b) \<Longrightarrow> carries_on g a' b \<Longrightarrow> carries_on f a b"
  unfolding carries_on_def by (rotate_tac 2) (erule ssubst, erule ssubst, assumption)

text \<open>
  The one cut that matters: in a decoder that expects trailers, after a zero that may be the size of
  the last chunk. The byte after it decides how the zero is read.
\<close>

definition zero_cut :: "ChunkBodyDecoder \<Rightarrow> bytes \<Rightarrow> bool" where
  "zero_cut d a \<longleftrightarrow> cb_is_trailer d \<and> cb_stage d = Stage_Size \<and> \<not> cb_num_flag d \<and> a \<noteq> [] \<and> last a = 48"

definition cut_ok :: "chunk_result \<Rightarrow> bytes \<Rightarrow> bool" where
  "cut_ok p a \<longleftrightarrow> (\<forall>d c. p = (d, Ok (c, [])) \<longrightarrow> Chunk_is_complete c \<or> \<not> zero_cut d a)"

lemma size_carries:
  "cb_stage d = Stage_Size \<Longrightarrow> flags_ok d \<Longrightarrow> \<not> cb_num_flag d \<longrightarrow> cb_hex_count d = 0 \<Longrightarrow> b \<noteq> [] \<Longrightarrow>
   cut_ok (size_loop d a) a \<Longrightarrow> carries_on (size_loop d) a b"
proof (induction a arbitrary: d)
  case Nil
  have "decoder_core d = decoder_core (d\<lparr>cb_stage := Stage_Size, cb_chunk_flag := False\<rparr>)" using Nil by (simp add: decoder_core_def)
  from size_view [OF this Nil(2), of b] Nil show ?case
    by (simp add: carries_on_def decode_stage_def decode_size_def Let_def flags_ok_def)
next
  case (Cons x a)
  have push: "carries_on (size_loop d) (x # a) b"
    if eq: "\<And>xs. xs = a \<or> xs = a @ b \<Longrightarrow>
        size_loop d (x # xs) = chunk_try (push_hex d y) (\<lambda>d. size_loop (g d) xs)"
      and g: "\<And>n. hex_to_decimal (cb_hex_count d) y = Ok n \<Longrightarrow> cb_stage (g (d\<lparr>cb_hex_count := n\<rparr>)) = Stage_Size \<and>
        flags_ok (g (d\<lparr>cb_hex_count := n\<rparr>)) \<and>
        (\<not> cb_num_flag (g (d\<lparr>cb_hex_count := n\<rparr>)) \<longrightarrow> cb_hex_count (g (d\<lparr>cb_hex_count := n\<rparr>)) = 0)" for g y
  proof (rule push_hex_cases [of d y])
    fix n assume n: "push_hex d y = (d\<lparr>cb_hex_count := n\<rparr>, Ok ())" and hex: "hex_to_decimal (cb_hex_count d) y = Ok n"
    let ?d = "g (d\<lparr>cb_hex_count := n\<rparr>)"
    have eqs: "size_loop d (x # a) = size_loop ?d a" "size_loop d ((x # a) @ b) = size_loop ?d (a @ b)"
      using n eq [of a] eq [of "a @ b"] by (simp_all add: chunk_try_def)
    have "cut_ok (size_loop ?d a) a"
      using Cons.prems(5) eqs(1) by (auto simp: cut_ok_def zero_cut_def)
    then have "carries_on (size_loop ?d) a b" using g [OF hex] Cons.prems(4) by (intro Cons.IH) blast+
    with eqs show ?thesis by (rule carries_eq)
  next
    fix e assume e: "push_hex d y = (d, Err e)"
    have "size_loop d (x # a) = (d, Err e)" "size_loop d ((x # a) @ b) = (d, Err e)"
      using e eq [of a] eq [of "a @ b"] by (simp_all add: chunk_try_def)
    then show ?thesis by (simp add: carries_on_def)
  qed
  have zeros: "hex_to_decimal (cb_hex_count d) 0 = Ok n \<Longrightarrow> cb_stage (d\<lparr>cb_hex_count := n\<rparr>) = Stage_Size \<and>
      flags_ok (d\<lparr>cb_hex_count := n\<rparr>) \<and> (\<not> cb_num_flag (d\<lparr>cb_hex_count := n\<rparr>) \<longrightarrow> cb_hex_count (d\<lparr>cb_hex_count := n\<rparr>) = 0)" for n
    using Cons.prems(1-3) hex_zero [of n] by (auto simp: flags_ok_def)
  have digits: "cb_stage (seen_digit (d\<lparr>cb_hex_count := n\<rparr>)) = Stage_Size \<and> flags_ok (seen_digit (d\<lparr>cb_hex_count := n\<rparr>)) \<and>
      (\<not> cb_num_flag (seen_digit (d\<lparr>cb_hex_count := n\<rparr>)) \<longrightarrow> cb_hex_count (seen_digit (d\<lparr>cb_hex_count := n\<rparr>)) = 0)" for n
    using Cons.prems(1) by (simp add: flags_ok_def seen_digit_def)
  show ?case
  proof (cases "x = 48")
    case zero: True
    show ?thesis
    proof (cases "a \<noteq> [] \<and> (hd a = 59 \<or> hd a = 32 \<or> hd a = 13) \<and> cb_is_trailer d \<and> \<not> cb_chunk_flag d \<and> \<not> cb_num_flag d")
      case True
      let ?d = "d\<lparr>cb_is_chunk_trailer := True, cb_num_flag := False\<rparr>"
      have "size_loop d (x # a) = skip_extension ?d (x # a)"
          "size_loop d ((x # a) @ b) = skip_extension ?d ((x # a) @ b)"
        using True zero by auto
      then show ?thesis using extension_carries [OF Cons.prems(4)] by (rule carries_eq)
    next
      case False
      have "\<not> (cb_is_trailer d \<and> \<not> cb_num_flag d)" if "a = []"
      proof
        assume d: "cb_is_trailer d \<and> \<not> cb_num_flag d"
        then have "push_hex d 0 = (d\<lparr>cb_hex_count := 0\<rparr>, Ok ())"
          using Cons.prems(3) by (simp add: push_hex_def hex_to_decimal_def i64_checked_def)
        then show False using Cons.prems(1,5) zero that d by (simp add: chunk_try_def cut_ok_def zero_cut_def)
      qed
      note last = this
      show ?thesis
        by (rule push [of 0 "\<lambda>d. d", OF _ zeros]) (use zero False last in \<open>cases a; auto\<close>)
    qed
  next
    case nonzero: False
    consider "49 \<le> x \<and> x \<le> 57" | "\<not> (49 \<le> x \<and> x \<le> 57)" "97 \<le> x \<and> x \<le> 102"
      | "\<not> (49 \<le> x \<and> x \<le> 57)" "\<not> (97 \<le> x \<and> x \<le> 102)" "65 \<le> x \<and> x \<le> 70"
      | "\<not> (49 \<le> x \<and> x \<le> 57)" "\<not> (97 \<le> x \<and> x \<le> 102)" "\<not> (65 \<le> x \<and> x \<le> 70)" by blast
    then show ?thesis
    proof cases
      case 1
      then show ?thesis using nonzero by (intro push [of "uint x - 48" seen_digit, OF _ digits]) auto
    next
      case 2
      then show ?thesis using nonzero by (intro push [of "uint x - 97 + 10" seen_digit, OF _ digits]) auto
    next
      case 3
      then show ?thesis using nonzero by (intro push [of "uint x - 65 + 10" seen_digit, OF _ digits]) auto
    next
      case 4
      then have "size_loop d (x # xs) =
          (if x = 32 \<or> x = 9 \<or> x = 59 \<or> x = 13 \<or> x = 10 then decode_special_char d (x # xs)
           else (d, Err (HttpError InvalidInput)))" for xs
        using nonzero by (simp only: size_loop.simps if_False)
      note eq = this [of a] this [of "a @ b", folded append_Cons]
      show ?thesis
      proof (cases "x = 32 \<or> x = 9 \<or> x = 59 \<or> x = 13 \<or> x = 10")
        case True
        note eq [unfolded if_P [OF True]]
        then show ?thesis using special_char_carries [OF Cons.prems(4)] by (rule carries_eq)
      next
        case False
        note eq [unfolded if_not_P [OF False]]
        then show ?thesis by (simp add: carries_on_def del: size_loop.simps append_Cons)
      qed
    qed
  qed
qed

lemma decode_size_carries:
  assumes "\<not> cb_num_flag d \<longrightarrow> cb_hex_count d = 0" "b \<noteq> []" "cut_ok (decode_size d a) a"
  shows "carries_on (decode_size d) a b"
proof (cases "a = []")
  case True
  have "decode_size d [] = (d\<lparr>cb_stage := Stage_Size\<rparr>, Ok (sized_chunk [] None (cb_total_size d) ChunkState_MetaSize, []))"
      "decode_stage (d\<lparr>cb_stage := Stage_Size\<rparr>) b = decode_size d b"
    by (simp_all add: decode_stage_def decode_size_def)
  then show ?thesis unfolding True by (simp add: carries_on_def)
next
  case False
  let ?d = "d\<lparr>cb_stage := Stage_Size, cb_chunk_flag := False\<rparr>"
  have eqs: "decode_size d a = size_loop ?d a" "decode_size d (a @ b) = size_loop ?d (a @ b)"
    using False by (simp_all add: decode_size_def Let_def)
  have "carries_on (size_loop ?d) a b"
    using assms eqs(1) by (intro size_carries) (simp_all add: flags_ok_def)
  with eqs show ?thesis by (rule carries_eq)
qed

lemma decode_stage_by_stage:
  "decode_stage d =
     (case cb_stage d of
        Stage_Size \<Rightarrow> decode_size d
      | Stage_Extension \<Rightarrow> skip_extension d
      | Stage_SizeEnd \<Rightarrow> crlf_loop (d\<lparr>cb_stage := Stage_SizeEnd\<rparr>)
      | Stage_Data \<Rightarrow> decode_data d
      | Stage_DataEnd \<Rightarrow> last_crlf_loop (d\<lparr>cb_stage := Stage_DataEnd\<rparr>) []
      | Stage_TrailerCrlf \<Rightarrow> trailer_crlf_loop (d\<lparr>cb_stage := Stage_TrailerCrlf\<rparr>)
      | Stage_TrailerData \<Rightarrow> decode_trailer_data d
      | Stage_TrailerEndCrlf \<Rightarrow> trailer_last_crlf_loop (d\<lparr>cb_stage := Stage_TrailerEndCrlf\<rparr>) [])"
  by (rule ext) (simp add: decode_stage_def skip_crlf_def skip_last_crlf_def skip_trailer_crlf_def
      skip_trailer_last_crlf_def split: ChunkStage.split)

lemma decode_stage_carries:
  assumes "decoder_ok d" "b \<noteq> []" "cut_ok (decode_stage d a) a"
  shows "carries_on (decode_stage d) a b"
  using assms
  by (cases "cb_stage d")
    (simp_all add: decode_stage_by_stage decoder_ok_def decode_size_carries extension_carries crlf_carries
      decode_data_carries last_crlf_carries trailer_crlf_carries decode_trailer_data_carries trailer_last_crlf_carries)

end
