(* ===== verification/Chunk_Reads.thy ===== *)
theory Chunk_Reads
  imports Chunk_Cuts
begin

text \<open>The loop over the stages, on a body that arrives in several reads.\<close>

section \<open>One round of the loop\<close>

definition body_data :: "Chunk list \<Rightarrow> bytes" where
  "body_data cs = concat (map ch_data cs)"

text \<open>The last chunk of a body has size zero.\<close>

definition finished :: "Chunk list \<Rightarrow> bool" where
  "finished cs \<longleftrightarrow> cs \<noteq> [] \<and> Chunk_is_complete (last cs) \<and> ch_size (last cs) = 0"

definition numbered :: "ChunkBodyDecoder \<Rightarrow> Chunk \<Rightarrow> Chunk" where
  "numbered d c = c\<lparr>ch_id := cb_chunk_num d\<rparr>"

definition more :: "ChunkBodyDecoder \<Rightarrow> Chunk \<Rightarrow> bool" where
  "more d c \<longleftrightarrow>
     (if Chunk_is_complete c then \<not> cb_is_last_chunk d
      else cb_is_chunk_trailer d \<and> (ch_state c = ChunkState_Data \<or> ch_state c = ChunkState_DataCrlf))"

definition after :: "ChunkBodyDecoder \<Rightarrow> Chunk \<Rightarrow> ChunkBodyDecoder" where
  "after d c =
     (let d' = merge_trailer d (numbered d c) in
      if more d c then d'\<lparr>cb_chunk_num := cb_chunk_num d + 1\<rparr>
      else if Chunk_is_complete c then d'\<lparr>cb_is_last_chunk := False, cb_chunk_num := 0\<rparr>
      else d')"

lemma merge_trailer_same [simp]:
  "decoder_core (merge_trailer d c) = decoder_core d" "cb_chunk_num (merge_trailer d c) = cb_chunk_num d"
  "cb_is_last_chunk (merge_trailer d c) = cb_is_last_chunk d"
  "cb_is_chunk_trailer (merge_trailer d c) = cb_is_chunk_trailer d"
  by (simp_all add: merge_trailer_def decoder_core_def Let_def split: option.splits)

lemma numbered_simps [simp]:
  "ch_data (numbered d c) = ch_data c" "ch_size (numbered d c) = ch_size c" "ch_state (numbered d c) = ch_state c"
  "Chunk_is_complete (numbered d c) = Chunk_is_complete c"
  by (simp_all add: numbered_def Chunk_is_complete_def)

lemma match_eq:
  "match_decode_result (merge_trailer d (numbered d c)) (numbered d c) results rest =
     (after d c, results @ [numbered d c], \<not> (more d c \<and> rest \<noteq> []))"
  by (auto simp: match_decode_result_def after_def more_def Let_def split: bool.splits)

lemma decode_loop_eq:
  "decode_loop d results remains =
     (case decode_stage d remains of
        (d, Ok (c, rest)) \<Rightarrow>
          if more d c \<and> rest \<noteq> [] then decode_loop (after d c) (results @ [numbered d c]) rest
          else (after d c, Ok (results @ [numbered d c], rest))
      | (d, Err e) \<Rightarrow> (d, Err e)
      | (d, Panic) \<Rightarrow> (d, Panic))"
  unfolding decode_loop.simps [of d results remains] numbered_def [symmetric] Let_def match_eq
  by (auto split: prod.splits rust_result.splits bool.splits)

lemma core_num [simp]: "decoder_core (d\<lparr>cb_chunk_num := n\<rparr>) = decoder_core d"
  by (simp add: decoder_core_def)

lemma core_last:
  "decoder_core d = decoder_core d' \<Longrightarrow>
   decoder_core (d\<lparr>cb_is_last_chunk := False, cb_chunk_num := 0\<rparr>) = decoder_core (d'\<lparr>cb_is_last_chunk := False, cb_chunk_num := 0\<rparr>)"
  by (simp add: decoder_core_def cong: conj_cong)

lemma core_after: "more d c \<or> \<not> Chunk_is_complete c \<Longrightarrow> decoder_core (after d c) = decoder_core d"
  by (auto simp: after_def Let_def)

lemma core_after_cong:
  assumes "decoder_core d = decoder_core d'" "ch_state c = ch_state c'"
  shows "more d c = more d' c'" "decoder_core (after d c) = decoder_core (after d' c')"
proof -
  have c: "Chunk_is_complete c = Chunk_is_complete c'" using assms(2) by (simp add: Chunk_is_complete_def)
  show more: "more d c = more d' c'"
    using coreD(6,7) [OF assms(1)] assms(2) c by (simp add: more_def)
  have "decoder_core (merge_trailer d (numbered d c)) = decoder_core (merge_trailer d' (numbered d' c'))"
    using assms(1) by simp
  from core_last [OF this] more c assms(1) show "decoder_core (after d c) = decoder_core (after d' c')"
    by (simp add: after_def Let_def)
qed

section \<open>What a run yields\<close>

definition outcome ::
    "ChunkBodyDecoder \<times> (Chunk list \<times> bytes, HttpError) rust_result \<Rightarrow> (decoder_core \<times> bytes \<times> bytes, HttpError) rust_result" where
  "outcome p =
     (case p of
        (d, Ok (cs, r)) \<Rightarrow> Ok (decoder_core d, body_data cs, r)
      | (d, Err e) \<Rightarrow> Err e
      | (d, Panic) \<Rightarrow> Panic)"

lemma outcome_simps [simp]:
  "outcome (d, Ok (cs, r)) = Ok (decoder_core d, body_data cs, r)" "outcome (d, Err e) = Err e" "outcome (d, Panic) = Panic"
  by (simp_all add: outcome_def)

lemma body_data_append [simp]: "body_data (xs @ ys) = body_data xs @ body_data ys" "body_data [c] = ch_data c" "body_data [] = []"
  by (simp_all add: body_data_def)

lemma decode_shorter:
  assumes "decode_stage d x = (d1, Ok (c, r))" "r \<noteq> []"
  shows "length r < length x" "last r = last x"
proof -
  obtain b pre where "x = b # pre @ r" using decode_stage_progress [of x d] assms by (auto simp: consumes_def)
  with assms(2) show "length r < length x" "last r = last x" by simp_all
qed

lemma loop_view:
  "view (decode_stage d x) = prepend p (view (decode_stage d' y)) \<Longrightarrow> body_data rs @ p = body_data rs' \<Longrightarrow>
   outcome (decode_loop d rs x) = outcome (decode_loop d' rs' y)"
proof (induction "length x" arbitrary: d rs x d' rs' y p rule: less_induct)
  case less
  obtain e res where ds: "decode_stage d x = (e, res)" by force
  obtain e' res' where ds': "decode_stage d' y = (e', res')" by force
  show ?case
  proof (cases res)
    case (Ok cr)
    then obtain c r where res: "res = Ok (c, r)" by (cases cr) simp
    then obtain c' where res': "res' = Ok (c', r)" and same: "decoder_core e = decoder_core e'" "ch_state c = ch_state c'" "ch_data c = p @ ch_data c'"
      using less.prems(1) ds ds' by (auto simp: view_def prepend_def split: rust_result.splits prod.splits)
    note cong = core_after_cong [OF same(1,2)]
    show ?thesis
    proof (cases "more e c \<and> r \<noteq> []")
      case True
      have "length r < length x" using decode_shorter(1) [OF ds [unfolded res]] True by blast
      from less.hyps [OF this, of "after e c" "[]" "after e' c'" r] less.prems(2) same(3)
      have "outcome (decode_loop (after e c) (rs @ [numbered e c]) r) =
          outcome (decode_loop (after e' c') (rs' @ [numbered e' c']) r)"
        using decode_stage_view [OF cong(2), of r] by simp
      then show ?thesis using True cong(1) by (simp add: decode_loop_eq [of d] decode_loop_eq [of d'] ds ds' res res')
    next
      case False
      then show ?thesis
        using cong less.prems(2) same(3) by (auto simp: decode_loop_eq [of d] decode_loop_eq [of d'] ds ds' res res')
    qed
  next
    case (Err err)
    then show ?thesis
      using less.prems(1) ds ds'
      by (auto simp: decode_loop_eq [of d] decode_loop_eq [of d'] view_def prepend_def split: rust_result.splits prod.splits)
  next
    case Panic
    then show ?thesis
      using less.prems(1) ds ds'
      by (auto simp: decode_loop_eq [of d] decode_loop_eq [of d'] view_def prepend_def split: rust_result.splits prod.splits)
  qed
qed

section \<open>Reads\<close>

lemma core_decoder_ok: "decoder_core d = decoder_core d' \<Longrightarrow> decoder_ok d = decoder_ok d'"
  using coreD [of d d'] by (cases "cb_stage d'") (simp_all add: decoder_ok_def)

lemma core_zero_cut: "decoder_core d = decoder_core d' \<Longrightarrow> zero_cut d a = zero_cut d' a"
  using coreD [of d d'] by (simp add: zero_cut_def)

lemma after_ok:
  assumes "stage_ok (d, Ok (c, r))"
  shows "decoder_ok (after d c)"
proof (cases "more d c \<or> \<not> Chunk_is_complete c")
  case True
  with assms show ?thesis
    using core_decoder_ok [OF core_after [OF True]]
    by (auto simp: stage_ok_def decoder_ok_def more_def split: if_splits)
next
  case False
  have "decoder_core (after d c) = decoder_core (d\<lparr>cb_is_last_chunk := False, cb_chunk_num := 0\<rparr>)"
    using False core_last [of "merge_trailer d (numbered d c)" d] by (simp add: after_def Let_def)
  from core_decoder_ok [OF this] assms False show ?thesis
    by (auto simp: stage_ok_def decoder_ok_def)
qed

lemma more_finished:
  assumes "stage_ok (d, Ok (c, r))"
  shows "finished (rs @ [numbered d c]) \<longleftrightarrow> Chunk_is_complete c \<and> \<not> more d c"
  using assms by (auto simp: finished_def stage_ok_def more_def)

lemma cut_after: "\<not> Chunk_is_complete c \<Longrightarrow> zero_cut (after d c) a = zero_cut d a"
  by (rule core_zero_cut) (simp add: core_after)

lemma decode_cut:
  "decode_loop d rs a = (d1, res) \<Longrightarrow> decoder_ok d \<Longrightarrow> b \<noteq> [] \<Longrightarrow>
   (case res of
      Ok (cs, r) \<Rightarrow> \<not> zero_cut d1 a \<longrightarrow> decoder_ok d1 \<and>
        (if finished cs then decode_loop d rs (a @ b) = (d1, Ok (cs, r @ b))
         else r = [] \<and> outcome (decode_loop d rs (a @ b)) = outcome (decode_loop d1 cs b))
    | Err e \<Rightarrow> outcome (decode_loop d rs (a @ b)) = Err e
    | Panic \<Rightarrow> False)"
proof (induction "length a" arbitrary: d rs a rule: less_induct)
  case less
  obtain e p where ds: "decode_stage d a = (e, p)" by force
  have ok: "stage_ok (e, p)" using decode_stage_ok [OF less.prems(2), of a] ds by simp
  show ?case
  proof (cases p)
    case (Err err)
    then have "carries_on (decode_stage d) a b"
      using ds less.prems by (intro decode_stage_carries) (simp_all add: cut_ok_def)
    then have "view (decode_stage d (a @ b)) = Err err" using ds Err by (simp add: carries_on_def)
    then obtain e' where "decode_stage d (a @ b) = (e', Err err)"
      by (auto simp: view_def split: prod.splits rust_result.splits)
    then show ?thesis using less.prems(1) ds Err by (auto simp: decode_loop_eq [of d])
  next
    case Panic
    then have "carries_on (decode_stage d) a b"
      using ds less.prems by (intro decode_stage_carries) (simp_all add: cut_ok_def)
    then show ?thesis using ds Panic by (simp add: carries_on_def)
  next
    case (Ok cr)
    then obtain c r where p: "p = Ok (c, r)" by (cases cr) simp
    have aok: "decoder_ok (after e c)" using after_ok [of e c r] ok p by simp
    show ?thesis
    proof (cases "more e c \<and> r \<noteq> []")
      case go: True
      have "carries_on (decode_stage d) a b"
        using ds p go less.prems by (intro decode_stage_carries) (simp_all add: cut_ok_def)
      then have ab: "decode_stage d (a @ b) = (e, Ok (c, r @ b))" using ds p go by (simp add: carries_on_def)
      have "decode_loop (after e c) (rs @ [numbered e c]) r = (d1, res)"
        using less.prems(1) ds p go by (simp add: decode_loop_eq [of d])
      moreover have short: "length r < length a" "last r = last a" using decode_shorter [OF ds [unfolded p]] go by auto
      ultimately have "case res of
          Ok (cs, r') \<Rightarrow> \<not> zero_cut d1 r \<longrightarrow> decoder_ok d1 \<and>
            (if finished cs then decode_loop (after e c) (rs @ [numbered e c]) (r @ b) = (d1, Ok (cs, r' @ b))
             else r' = [] \<and> outcome (decode_loop (after e c) (rs @ [numbered e c]) (r @ b)) = outcome (decode_loop d1 cs b))
        | Err e' \<Rightarrow> outcome (decode_loop (after e c) (rs @ [numbered e c]) (r @ b)) = Err e'
        | Panic \<Rightarrow> False"
        using aok less.prems(3) by (intro less.hyps)
      moreover have "decode_loop d rs (a @ b) = decode_loop (after e c) (rs @ [numbered e c]) (r @ b)"
        using ab go by (simp add: decode_loop_eq [of d])
      moreover have "zero_cut d1 r = zero_cut d1 a" using short go by (auto simp: zero_cut_def)
      ultimately show ?thesis by (cases res) auto
    next
      case stop: False
      then have res: "d1 = after e c" "res = Ok (rs @ [numbered e c], r)"
        using less.prems(1) ds p by (auto simp: decode_loop_eq [of d])
      have fin: "finished (rs @ [numbered e c]) \<longleftrightarrow> Chunk_is_complete c \<and> \<not> more e c"
        using more_finished [of e c r] ok p by simp
      have "decoder_ok d1 \<and> (if finished (rs @ [numbered e c])
          then decode_loop d rs (a @ b) = (d1, Ok (rs @ [numbered e c], r @ b))
          else r = [] \<and> outcome (decode_loop d rs (a @ b)) = outcome (decode_loop d1 (rs @ [numbered e c]) b))"
        if cut: "\<not> zero_cut d1 a"
      proof -
        have "carries_on (decode_stage d) a b"
          using ds p less.prems cut cut_after [of c e a] res by (intro decode_stage_carries) (auto simp: cut_ok_def)
        then consider (settled) "decode_stage d (a @ b) = (e, Ok (c, r @ b))"
            "Chunk_is_complete c \<or> cb_is_chunk_trailer e \<and> ch_state c = ChunkState_DataCrlf"
          | (cut) "r = []" "\<not> Chunk_is_complete c"
            "view (decode_stage d (a @ b)) = prepend (ch_data c) (view (decode_stage e b))"
          using ds p by (auto simp: carries_on_def)
        then show ?thesis
        proof cases
          case settled
          then have "Chunk_is_complete c \<or> more e c" by (auto simp: more_def)
          with settled(1) stop less.prems(3) fin show ?thesis
            by (auto simp: decode_loop_eq [of d rs "a @ b"] res aok)
        next
          case cut
          have "decoder_core e = decoder_core d1" using core_after [of e c] cut(2) res(1) by simp
          from decode_stage_view [OF this, of b] cut(3)
          have "outcome (decode_loop d rs (a @ b)) = outcome (decode_loop d1 (rs @ [numbered e c]) b)"
            by (intro loop_view [of _ _ "ch_data c"]) simp_all
          with cut fin res aok show ?thesis by simp
        qed
      qed
      then show ?thesis using res by simp
    qed
  qed
qed

definition add_data :: "bytes \<Rightarrow> (decoder_core \<times> bytes \<times> bytes, HttpError) rust_result \<Rightarrow> (decoder_core \<times> bytes \<times> bytes, HttpError) rust_result" where
  "add_data data p = (case p of Ok (k, data', r) \<Rightarrow> Ok (k, data @ data', r) | Err e \<Rightarrow> Err e | Panic \<Rightarrow> Panic)"

lemma add_data_simps [simp]:
  "add_data data (Ok (k, data', r)) = Ok (k, data @ data', r)" "add_data data (Err e) = Err e" "add_data data Panic = Panic"
  "add_data data (add_data data' p) = add_data (data @ data') p"
  by (auto simp: add_data_def split: rust_result.splits)

lemma decode_loop_results:
  "outcome (decode_loop d rs x) = add_data (body_data rs) (outcome (decode_loop d [] x))"
proof (induction "length x" arbitrary: d rs x rule: less_induct)
  case less
  obtain e p where ds: "decode_stage d x = (e, p)" by force
  show ?case
  proof (cases "\<exists>c r. p = Ok (c, r) \<and> more e c \<and> r \<noteq> []")
    case True
    then obtain c r where p: "p = Ok (c, r)" "more e c" "r \<noteq> []" by blast
    have short: "length r < length x" using decode_shorter(1) [OF ds [unfolded p]] p(3) .
    show ?thesis
      using less.hyps [OF short, of "after e c" "rs @ [numbered e c]"] less.hyps [OF short, of "after e c" "[numbered e c]"] p
      by (simp add: decode_loop_eq [of d] ds)
  next
    case False
    then show ?thesis by (auto simp: decode_loop_eq [of d] ds split: rust_result.splits)
  qed
qed

lemma decoder_new_ok: "decoder_ok (contains_trailer ChunkBodyDecoder_new t)"
  by (simp add: decoder_ok_def contains_trailer_def ChunkBodyDecoder_new_def)

text \<open>
  C8. A chunked body may arrive in any reads. Wherever a read ends, except directly after a zero that
  may be the size of the last chunk in a decoder that expects trailers, decoding the next read
  continues as if both had arrived at once: the same data, the same error or the same unread rest
  and, apart from the collected trailer, the same state; a body that is finished leaves what follows it unread. The decoder never panics.
\<close>

theorem chunk_decode_reads:
  assumes "decoder_ok d" "b \<noteq> []" "ChunkBodyDecoder_decode d a = (d1, res)" "\<not> zero_cut d1 a"
  shows "case res of
      Ok (cs, r) \<Rightarrow> decoder_ok d1 \<and>
        (if finished cs then ChunkBodyDecoder_decode d (a @ b) = (d1, Ok (cs, r @ b))
         else r = [] \<and>
           outcome (ChunkBodyDecoder_decode d (a @ b)) = add_data (body_data cs) (outcome (ChunkBodyDecoder_decode d1 b)))
    | Err e \<Rightarrow> outcome (ChunkBodyDecoder_decode d (a @ b)) = Err e
    | Panic \<Rightarrow> False"
proof -
  note cut = decode_cut [OF assms(3) [unfolded ChunkBodyDecoder_decode_def] assms(1,2)]
  show ?thesis
  proof (cases res)
    case (Ok p)
    with cut assms(4) decode_loop_results [of d1 "fst p" b] show ?thesis
      by (auto simp: ChunkBodyDecoder_decode_def)
  qed (use cut in \<open>simp_all add: ChunkBodyDecoder_decode_def\<close>)
qed

theorem chunk_decode_reads_witness:
  "outcome (ChunkBodyDecoder_decode ChunkBodyDecoder_new (as_bytes ''5'' @ CRLF @ as_bytes ''hel'' @
       as_bytes ''lo'' @ CRLF @ as_bytes ''0'' @ CRLF @ CRLF)) =
     add_data (as_bytes ''hel'') (outcome (ChunkBodyDecoder_decode
       (fst (ChunkBodyDecoder_decode ChunkBodyDecoder_new (as_bytes ''5'' @ CRLF @ as_bytes ''hel'')))
       (as_bytes ''lo'' @ CRLF @ as_bytes ''0'' @ CRLF @ CRLF)))"
proof -
  let ?a = "as_bytes ''5'' @ CRLF @ as_bytes ''hel''" and ?b = "as_bytes ''lo'' @ CRLF @ as_bytes ''0'' @ CRLF @ CRLF"
  let ?d = "fst (ChunkBodyDecoder_decode ChunkBodyDecoder_new ?a)"
  have "\<not> cb_is_trailer ?d \<and> (case snd (ChunkBodyDecoder_decode ChunkBodyDecoder_new ?a) of
      Ok (cs, r) \<Rightarrow> r = [] \<and> \<not> finished cs \<and> body_data cs = as_bytes ''hel'' | _ \<Rightarrow> False)"
    by code_simp
  then obtain cs where a: "ChunkBodyDecoder_decode ChunkBodyDecoder_new ?a = (?d, Ok (cs, []))" "\<not> finished cs"
      "body_data cs = as_bytes ''hel''" "\<not> cb_is_trailer ?d"
    by (cases "ChunkBodyDecoder_decode ChunkBodyDecoder_new ?a") (auto split: rust_result.splits)
  have "decoder_ok ChunkBodyDecoder_new" by (simp add: decoder_ok_def ChunkBodyDecoder_new_def)
  from chunk_decode_reads [OF this _ a(1), of ?b] a(2-4) show ?thesis by (simp add: zero_cut_def)
qed

section \<open>Trailers\<close>

text \<open>The lines of a trailer: not empty, without line ends inside.\<close>

definition plain_line :: "bytes \<Rightarrow> bool" where
  "plain_line l \<longleftrightarrow> l \<noteq> [] \<and> 13 \<notin> set l \<and> 10 \<notin> set l"

definition trailer_lines :: "bytes list \<Rightarrow> bytes" where
  "trailer_lines ls = concat (map (\<lambda>l. l @ CRLF) ls)"

lemma trailer_lines_simps [simp]:
  "trailer_lines [] = []" "trailer_lines (l # ls) = l @ CRLF @ trailer_lines ls"
  "trailer_lines (xs @ ys) = trailer_lines xs @ trailer_lines ys"
  by (simp_all add: trailer_lines_def)

definition at_line :: "bytes \<Rightarrow> ChunkBodyDecoder \<Rightarrow> bool" where
  "at_line t d \<longleftrightarrow> cb_stage d = Stage_TrailerData \<and> \<not> cb_cr_meet d \<and> cb_is_chunk_trailer d \<and> cb_is_trailer_crlf d
     \<and> \<not> cb_is_last_chunk d \<and> cb_trailer d = t"

lemma trailer_data_line:
  "13 \<notin> set l \<Longrightarrow> 10 \<notin> set l \<Longrightarrow> trailer_data_loop d seen (l @ 13 # buf) =
     chunk_try (decode_cr d) (\<lambda>d. skip_trailer_last_crlf d (seen @ l) buf)"
  by (induction l arbitrary: seen) simp_all

lemma line_stage:
  assumes "at_line t d" "plain_line l"
  shows "decode_stage d (l @ 13 # buf) =
    trailer_last_crlf_loop (d\<lparr>cb_cr_meet := True, cb_stage := Stage_TrailerEndCrlf\<rparr>) l buf"
proof -
  obtain b l' where l: "l = b # l'" "b \<noteq> 13" using assms(2) by (cases l) (auto simp: plain_line_def)
  have "decode_stage d (l @ 13 # buf) = trailer_data_loop (d\<lparr>cb_stage := Stage_TrailerData\<rparr>) [] (l @ 13 # buf)"
    using assms(1) l by (simp add: decode_stage_def decode_trailer_data_def at_line_def Let_def del: trailer_data_loop.simps)
  also have "\<dots> = trailer_last_crlf_loop (d\<lparr>cb_cr_meet := True, cb_stage := Stage_TrailerEndCrlf\<rparr>) l buf"
    using assms trailer_data_line [of l] by (simp add: plain_line_def chunk_simps skip_trailer_last_crlf_def at_line_def)
  finally show ?thesis .
qed

text \<open>One line of the trailer that arrives whole.\<close>

lemma line_round:
  assumes "at_line t d" "plain_line l" "rest \<noteq> []"
  shows "\<exists>d' results'. decode_loop d results (l @ CRLF @ rest) = decode_loop d' results' rest \<and> at_line (t @ l @ CRLF) d'"
  using assms line_stage [OF assms(1,2), of "10 # rest"]
  by (subst decode_loop.simps)
    (auto simp: plain_line_def chunk_simps Let_def match_decode_result_def merge_trailer_def Chunk_is_complete_def at_line_def
      sized_chunk_def)

lemma blank_round:
  assumes "at_line t d"
  shows "\<exists>d' cs. decode_loop d results CRLF = (d', Ok (cs, [])) \<and> cb_trailer d' = (if t = [] then [] else t @ CRLF)"
  using assms
  by (subst decode_loop.simps)
    (auto simp: decode_stage_def decode_trailer_data_def skip_trailer_last_crlf_def chunk_simps Let_def
      match_decode_result_def merge_trailer_def Chunk_is_complete_def at_line_def sized_chunk_def)

lemma lines_round:
  "at_line t d \<Longrightarrow> list_all plain_line ls \<Longrightarrow>
   rest \<noteq> [] \<Longrightarrow> \<exists>d' results'. decode_loop d results (trailer_lines ls @ rest) = decode_loop d' results' rest
     \<and> at_line (t @ trailer_lines ls) d'"
proof (induction ls arbitrary: t d results)
  case (Cons l ls)
  have "trailer_lines ls @ rest \<noteq> []" using Cons.prems by simp
  with line_round [OF Cons.prems(1), of l "trailer_lines ls @ rest" results] Cons.prems(2)
  obtain d1 results1 where 1: "decode_loop d results (l @ CRLF @ trailer_lines ls @ rest) = decode_loop d1 results1 (trailer_lines ls @ rest)"
    "at_line (t @ l @ CRLF) d1" by auto
  from Cons.IH [OF 1(2), of results1] Cons.prems(2,3) 1(1) show ?case by simp
qed auto

abbreviation trailer_decoder :: ChunkBodyDecoder where
  "trailer_decoder \<equiv> contains_trailer ChunkBodyDecoder_new True"

lemma trailer_start:
  assumes "buf \<noteq> []"
  shows "\<exists>d. decode_loop trailer_decoder [] (48 # CRLF @ buf) = decode_loop d [] buf \<and> at_line [] d"
proof -
  let ?d = "trailer_decoder\<lparr>cb_is_chunk_trailer := True, cb_is_trailer_crlf := True, cb_stage := Stage_TrailerData\<rparr>"
  have "decode_stage trailer_decoder (48 # CRLF @ buf) = decode_stage ?d buf"
    using assms
    by (cases buf)
      (simp_all add: decode_stage_def contains_trailer_def ChunkBodyDecoder_new_def decode_size_def skip_extension_def
        chunk_simps skip_trailer_crlf_def decode_trailer_data_def Let_def del: trailer_data_loop.simps)
  then have "decode_loop trailer_decoder [] (48 # CRLF @ buf) = decode_loop ?d [] buf"
    by (simp add: decode_loop.simps [of trailer_decoder] decode_loop.simps [of ?d])
  moreover have "at_line [] ?d" by (simp add: at_line_def contains_trailer_def ChunkBodyDecoder_new_def)
  ultimately show ?thesis by blast
qed

definition trailer_bytes :: "bytes list \<Rightarrow> bytes" where
  "trailer_bytes ls = 48 # CRLF @ trailer_lines ls @ CRLF"

lemma trailer_at_once:
  assumes "list_all plain_line ls" "ls \<noteq> []"
  shows "\<exists>d cs. ChunkBodyDecoder_decode trailer_decoder (trailer_bytes ls) = (d, Ok (cs, []))
    \<and> cb_trailer d = trailer_lines ls @ CRLF"
proof -
  obtain d where d: "decode_loop trailer_decoder [] (trailer_bytes ls) = decode_loop d [] (trailer_lines ls @ CRLF)" "at_line [] d"
    using trailer_start [of "trailer_lines ls @ CRLF"] by (auto simp: trailer_bytes_def)
  from lines_round [OF d(2) assms(1), of CRLF "[]"]
  obtain d' r' where d': "decode_loop d [] (trailer_lines ls @ CRLF) = decode_loop d' r' CRLF" "at_line (trailer_lines ls) d'"
    by auto
  have "trailer_lines ls \<noteq> []" using assms by (cases ls) simp_all
  with blank_round [OF d'(2), of r'] d(1) d'(1) show ?thesis by (simp add: ChunkBodyDecoder_decode_def)
qed

lemma trailer_cut:
  assumes "list_all plain_line ls" "plain_line l" "list_all plain_line ms"
  shows "\<exists>d1 cs1 d cs. ChunkBodyDecoder_decode trailer_decoder (48 # CRLF @ trailer_lines ls @ l @ [13]) = (d1, Ok (cs1, []))
    \<and> ChunkBodyDecoder_decode d1 (10 # trailer_lines ms @ CRLF) = (d, Ok (cs, []))
    \<and> cb_trailer d = trailer_lines (ls @ [l]) @ CRLF @ trailer_lines ms @ CRLF"
proof -
  have ne: "l @ [13] \<noteq> []" by simp
  obtain d0 where d0: "decode_loop trailer_decoder [] (48 # CRLF @ trailer_lines ls @ l @ [13]) =
      decode_loop d0 [] (trailer_lines ls @ l @ [13])" "at_line [] d0"
    using trailer_start [of "trailer_lines ls @ l @ [13]"] by auto
  obtain d r where d: "decode_loop d0 [] (trailer_lines ls @ l @ [13]) = decode_loop d r (l @ [13])" "at_line (trailer_lines ls) d"
    using lines_round [OF d0(2) assms(1) ne, of "[]"] by auto
  obtain d1 cs1 where d1: "decode_loop d r (l @ [13]) = (d1, Ok (cs1, []))"
    "cb_stage d1 = Stage_TrailerEndCrlf" "cb_cr_meet d1" "cb_is_chunk_trailer d1" "\<not> cb_is_last_chunk d1"
    "cb_trailer d1 = trailer_lines ls @ l @ CRLF"
    using d(2) line_stage [OF d(2) assms(2), of "[]"] assms(2)
    by (subst (asm) decode_loop.simps)
      (auto simp: Let_def match_decode_result_def merge_trailer_def Chunk_is_complete_def at_line_def sized_chunk_def plain_line_def)
  have "\<exists>d2 r2. decode_loop d1 [] (10 # trailer_lines ms @ CRLF) = decode_loop d2 r2 (trailer_lines ms @ CRLF)
      \<and> at_line (trailer_lines ls @ l @ CRLF @ CRLF) d2"
    using d1(2-)
    by (subst decode_loop.simps)
      (auto simp: decode_stage_def skip_trailer_last_crlf_def chunk_simps Let_def match_decode_result_def merge_trailer_def
        Chunk_is_complete_def at_line_def sized_chunk_def)
  then obtain d2 r2 where d2: "decode_loop d1 [] (10 # trailer_lines ms @ CRLF) = decode_loop d2 r2 (trailer_lines ms @ CRLF)"
    "at_line (trailer_lines ls @ l @ CRLF @ CRLF) d2" by blast
  obtain d3 r3 where d3: "decode_loop d2 r2 (trailer_lines ms @ CRLF) = decode_loop d3 r3 CRLF"
    "at_line ((trailer_lines ls @ l @ CRLF @ CRLF) @ trailer_lines ms) d3"
    using lines_round [OF d2(2) assms(3), of CRLF r2] by auto
  obtain d4 cs where "decode_loop d3 r3 CRLF = (d4, Ok (cs, []))"
    "cb_trailer d4 = (trailer_lines ls @ l @ CRLF @ CRLF) @ trailer_lines ms @ CRLF"
    using blank_round [OF d3(2), of r3] by auto
  with d0(1) d(1) d1(1) d2(1) d3(1) show ?thesis by (simp add: ChunkBodyDecoder_decode_def)
qed

lemma trailer_zero_cut:
  assumes "plain_line l"
  shows "\<exists>d1 cs1. ChunkBodyDecoder_decode trailer_decoder [48] = (d1, Ok (cs1, []))
    \<and> snd (ChunkBodyDecoder_decode d1 (CRLF @ l @ rest)) = Err (HttpError InvalidInput)"
proof -
  obtain b l' where l: "l = b # l'" "b \<noteq> 13" "b \<noteq> 10" using assms by (cases l) (auto simp: plain_line_def)
  have d: "cb_stage trailer_decoder = Stage_Size" "\<not> cb_chunk_flag trailer_decoder" "cb_total_size trailer_decoder = 0"
    "\<not> cb_is_chunk_trailer trailer_decoder" "cb_hex_count trailer_decoder = 0" "\<not> cb_cr_meet trailer_decoder" "cb_rest_size trailer_decoder = 0"
    by (simp_all add: contains_trailer_def ChunkBodyDecoder_new_def)
  have "push_hex (trailer_decoder\<lparr>cb_stage := Stage_Size, cb_chunk_flag := False\<rparr>) 0 = (trailer_decoder, Ok ())"
    by (simp add: contains_trailer_def ChunkBodyDecoder_new_def push_hex_def hex_to_decimal_def i64_checked_def)
  with d have "decode_stage trailer_decoder [48] = (trailer_decoder, Ok (sized_chunk [] None 0 ChunkState_MetaSize, []))"
    by (simp add: decode_stage_def decode_size_def chunk_try_def Let_def)
  then have "\<exists>cs1. ChunkBodyDecoder_decode trailer_decoder [48] = (trailer_decoder, Ok (cs1, []))"
    using d by (simp add: ChunkBodyDecoder_decode_def decode_loop.simps [of trailer_decoder] match_decode_result_def
        merge_trailer_def Chunk_is_complete_def sized_chunk_def Let_def)
  moreover have "snd (decode_stage trailer_decoder (CRLF @ l @ rest)) = Err (HttpError InvalidInput)"
    using d l by (simp add: decode_stage_def decode_size_def decode_special_char_def skip_extension_def
        chunk_simps skip_crlf_def decode_data_def skip_last_crlf_def Let_def)
  then have "snd (ChunkBodyDecoder_decode trailer_decoder (CRLF @ l @ rest)) = Err (HttpError InvalidInput)"
    by (cases "decode_stage trailer_decoder (CRLF @ l @ rest)")
      (simp add: ChunkBodyDecoder_decode_def decode_loop.simps [of trailer_decoder])
  ultimately show ?thesis by blast
qed

text \<open>Reading the trailer stops at the first blank line.\<close>

lemma get_trailer_prefix:
  assumes "p = u @ s" "s \<noteq> []" "p = p' @ [10, 13, 10]"
  shows "get_trailer_loop (p @ q) (length u) (s @ q) c lf n h = get_trailer_loop p (length u) s c lf n h"
  using assms
proof (induction s arbitrary: u c lf n h)
  case (Cons b s)
  show ?case
  proof (cases "s = []")
    case True
    with Cons.prems have "u = p' @ [10, 13]" "b = 10" by auto
    with True Cons.prems show ?thesis by (simp add: nth_append)
  next
    case False
    have p: "p = (u @ [b]) @ s" using Cons.prems(1) by simp
    note IH = Cons.IH [OF p False Cons.prems(3), simplified]
    have "length u < length p" using Cons.prems(1) by simp
    then have "take (length u) (p @ q) = take (length u) p" "take (length u - 1) (p @ q) = take (length u - 1) p"
      "(p @ q) ! (length u - 2) = p ! (length u - 2)" by (auto simp: nth_append)
    then show ?thesis using IH by (simp add: del: take_append split: rust_result.split)
  qed
qed simp

lemma get_trailer_stops:
  assumes "cb_trailer d = p @ q" "cb_trailer d' = p" "p = p' @ [10, 13, 10]"
  shows "get_trailer d = get_trailer d'"
proof -
  have ne: "p \<noteq> []" using assms(3) by simp
  have "get_trailer_loop (p @ q) 0 (p @ q) c lf n h = get_trailer_loop p 0 p c lf n h" for c lf n h
    using get_trailer_prefix [OF _ ne assms(3), of "[]" q c lf n h] by simp
  then show ?thesis unfolding get_trailer_def assms(1,2) using ne by (simp only: append_is_Nil_conv) simp
qed

text \<open>
  C36. Trailers depend on the reads, for every list of trailer lines. The last chunk with its trailer,
  read at once, leaves the lines and a blank line in the decoder. When a read ends between CR and LF
  of some line, the next read is accepted, but the fields that \<open>get_trailer\<close> finds are those of a
  trailer that stops after this line: all later fields are lost. When a read ends after the zero of
  the last chunk, the next one is refused.
\<close>

theorem trailer_cuts:
  assumes "list_all plain_line (ls @ l # ms)"
  shows "(\<exists>d cs. ChunkBodyDecoder_decode trailer_decoder (trailer_bytes (ls @ l # ms)) = (d, Ok (cs, []))
        \<and> cb_trailer d = trailer_lines (ls @ l # ms) @ CRLF)
    \<and> (\<exists>d1 cs1 d cs d' cs'.
        ChunkBodyDecoder_decode trailer_decoder (48 # CRLF @ trailer_lines ls @ l @ [13]) = (d1, Ok (cs1, []))
        \<and> ChunkBodyDecoder_decode d1 (10 # trailer_lines ms @ CRLF) = (d, Ok (cs, []))
        \<and> ChunkBodyDecoder_decode trailer_decoder (trailer_bytes (ls @ [l])) = (d', Ok (cs', []))
        \<and> get_trailer d = get_trailer d')
    \<and> (\<exists>d1 cs1. ChunkBodyDecoder_decode trailer_decoder [48] = (d1, Ok (cs1, []))
        \<and> snd (ChunkBodyDecoder_decode d1 (drop 1 (trailer_bytes (ls @ l # ms)))) = Err (HttpError InvalidInput))"
proof (intro conjI)
  show "\<exists>d cs. ChunkBodyDecoder_decode trailer_decoder (trailer_bytes (ls @ l # ms)) = (d, Ok (cs, []))
        \<and> cb_trailer d = trailer_lines (ls @ l # ms) @ CRLF"
    by (rule trailer_at_once [OF assms]) simp
  obtain d1 cs1 d cs where 1: "ChunkBodyDecoder_decode trailer_decoder (48 # CRLF @ trailer_lines ls @ l @ [13]) = (d1, Ok (cs1, []))"
    "ChunkBodyDecoder_decode d1 (10 # trailer_lines ms @ CRLF) = (d, Ok (cs, []))"
    "cb_trailer d = trailer_lines (ls @ [l]) @ CRLF @ trailer_lines ms @ CRLF"
    using trailer_cut [of ls l ms] assms by auto
  obtain d' cs' where 2: "ChunkBodyDecoder_decode trailer_decoder (trailer_bytes (ls @ [l])) = (d', Ok (cs', []))"
    "cb_trailer d' = trailer_lines (ls @ [l]) @ CRLF"
    using trailer_at_once [of "ls @ [l]"] assms by auto
  have "get_trailer d = get_trailer d'"
    by (rule get_trailer_stops [of _ "trailer_lines (ls @ [l]) @ CRLF" "trailer_lines ms @ CRLF" _ "trailer_lines ls @ l @ [13]"])
      (use 1(3) 2(2) in simp_all)
  with 1 2 show "\<exists>d1 cs1 d cs d' cs'.
        ChunkBodyDecoder_decode trailer_decoder (48 # CRLF @ trailer_lines ls @ l @ [13]) = (d1, Ok (cs1, []))
        \<and> ChunkBodyDecoder_decode d1 (10 # trailer_lines ms @ CRLF) = (d, Ok (cs, []))
        \<and> ChunkBodyDecoder_decode trailer_decoder (trailer_bytes (ls @ [l])) = (d', Ok (cs', []))
        \<and> get_trailer d = get_trailer d'" by metis
  obtain k ks where "ls @ l # ms = k # ks" by (cases "ls @ l # ms") simp_all
  with assms trailer_zero_cut [of k "CRLF @ trailer_lines ks @ CRLF"]
  show "\<exists>d1 cs1. ChunkBodyDecoder_decode trailer_decoder [48] = (d1, Ok (cs1, []))
        \<and> snd (ChunkBodyDecoder_decode d1 (drop 1 (trailer_bytes (ls @ l # ms)))) = Err (HttpError InvalidInput)"
    by (simp add: trailer_bytes_def del: trailer_lines_simps(3)) 
qed

theorem trailer_cuts_witness:
  "\<exists>d1 cs1 d cs d' cs'.
     ChunkBodyDecoder_decode trailer_decoder (48 # CRLF @ as_bytes ''a:1'' @ [13]) = (d1, Ok (cs1, []))
     \<and> ChunkBodyDecoder_decode d1 (10 # as_bytes ''b:2'' @ CRLF @ CRLF) = (d, Ok (cs, []))
     \<and> ChunkBodyDecoder_decode trailer_decoder (trailer_bytes [as_bytes ''a:1'']) = (d', Ok (cs', []))
     \<and> get_trailer d = get_trailer d'"
proof -
  have plain: "plain_line (as_bytes ''a:1'')" "plain_line (as_bytes ''b:2'')" by code_simp+
  show ?thesis
  using trailer_cuts [of "[]" "as_bytes ''a:1''" "[as_bytes ''b:2'']"]
    plain
  by simp
qed

end
