(* ===== verification/Chunk_Written.thy ===== *)
theory Chunk_Written
  imports Chunk_Encoder
begin

text \<open>
  What the encoder of chunked bodies writes, whatever buffers it is given: the contract between the
  loop that fills a buffer and the source of the body, and that bodies from readers fulfil it.
\<close>

section \<open>Writing\<close>

lemma write_cases:
  assumes "i \<le> length src"
  obtains (complete) "length src - i \<le> n" "WriteData_write src i n = (length src, Ok (Token_Complete (drop i src)))"
  | (partial) "n < length src - i" "WriteData_write src i n = (i + n, Ok (Token_Partial (take n (drop i src))))"
  using assms by (cases "length src - i \<le> n") (simp_all add: WriteData_write_def)

lemma hex_format_nonempty [simp]: "hex_format n \<noteq> []"
  by (subst hex_format.simps) simp

section \<open>The contract\<close>

text \<open>
  A body is cut when the last buffer ended inside the digits of the size of the tail: the encoder
  starts these digits again.
\<close>

definition tail_cut :: "'r ChunkBody \<Rightarrow> bool" where
  "tail_cut b \<longleftrightarrow> eh_src_idx (es_hex_last (ck_encode_status b)) \<noteq> 0"

definition last_part :: "'r ChunkBody \<Rightarrow> bytes" where
  "last_part b = as_bytes ''0'' @ CRLF @ ck_trailer_value b @ CRLF"

lemma trailer_encode_eq:
  "trailer_encode b k =
     (case WriteData_write (last_part b) (ck_trailer b) k of
        (i, Ok (Token_Complete w)) \<Rightarrow> (b\<lparr>ck_trailer := i, ck_data_status := DataState_Finish\<rparr>, Ok w)
      | (i, Ok (Token_Partial w)) \<Rightarrow> (b\<lparr>ck_trailer := i\<rparr>, Ok w)
      | (i, Err e) \<Rightarrow> (b\<lparr>ck_trailer := i\<rparr>, Err e)
      | (i, Panic) \<Rightarrow> (b\<lparr>ck_trailer := i\<rparr>, Panic))"
  by (simp add: trailer_encode_def EncodeTrailer_encode_def last_part_def)

lemma last_part_same [simp]: "last_part (b\<lparr>ck_trailer := i\<rparr>) = last_part b"
  by (simp add: last_part_def)

text \<open>A sequence of calls of \<open>data\<close>, and that none but the last ends in such a cut.\<close>

fun data_calls ::
    "('r ChunkBody \<Rightarrow> nat \<Rightarrow> 'r ChunkBody \<times> (bytes, unit) rust_result) \<Rightarrow> 'r ChunkBody \<Rightarrow> nat list \<Rightarrow>
     ('r ChunkBody \<times> bytes list) option" where
  "data_calls step b [] = Some (b, [])"
| "data_calls step b (n # ns) =
     (case data_loop step b n [] of
        Some (b, Ok w) \<Rightarrow> (case data_calls step b ns of Some (b, ws) \<Rightarrow> Some (b, w # ws) | None \<Rightarrow> None)
      | _ \<Rightarrow> None)"

fun never_cut ::
    "('r ChunkBody \<Rightarrow> nat \<Rightarrow> 'r ChunkBody \<times> (bytes, unit) rust_result) \<Rightarrow> 'r ChunkBody \<Rightarrow> nat list \<Rightarrow> bool" where
  "never_cut step b [] \<longleftrightarrow> True"
| "never_cut step b (n # ns) \<longleftrightarrow>
     (case data_loop step b n [] of
        Some (b, _) \<Rightarrow> (ns = [] \<or> \<not> tail_cut b) \<and> never_cut step b ns
      | None \<Rightarrow> False)"

text \<open>
  \<open>owes b ys\<close> says that the chunks still to be written are \<open>ys\<close>. A step writes a part of them,
  and only a step without output may leave the room as it is, once.
\<close>

definition wrote ::
    "('r ChunkBody \<Rightarrow> bytes \<Rightarrow> bool) \<Rightarrow> ('r ChunkBody \<Rightarrow> nat) \<Rightarrow> 'r ChunkBody \<Rightarrow> nat \<Rightarrow> bytes \<Rightarrow>
     'r ChunkBody \<times> (bytes, unit) rust_result \<Rightarrow> bool" where
  "wrote owes rank b k ys p \<longleftrightarrow>
     (\<exists>b' w. p = (b', Ok w) \<and> length w \<le> k \<and> (w = [] \<longrightarrow> rank b' < rank b) \<and>
        ck_trailer b' = ck_trailer b \<and> ck_trailer_value b' = ck_trailer_value b \<and>
        (ck_data_status b' = DataState_Complete \<and> ys = w \<and> \<not> tail_cut b' \<or>
         ck_data_status b' = DataState_Partial \<and> \<not> tail_cut b' \<and> (\<exists>zs. ys = w @ zs \<and> owes b' zs) \<or>
         ck_data_status b' = DataState_Partial \<and> tail_cut b' \<and> length w = k \<and> w = take k ys \<and> owes b' ys))"

locale chunk_source =
  fixes step :: "'r ChunkBody \<Rightarrow> nat \<Rightarrow> 'r ChunkBody \<times> (bytes, unit) rust_result"
    and owes :: "'r ChunkBody \<Rightarrow> bytes \<Rightarrow> bool"
    and rank :: "'r ChunkBody \<Rightarrow> nat"
  assumes step_writes: "owes b ys \<Longrightarrow> ck_data_status b = DataState_Partial \<Longrightarrow> 0 < k \<Longrightarrow>
      wrote owes rank b k ys (step b k)"
    and rank_small: "rank b \<le> 1"
begin

definition owing :: "'r ChunkBody \<Rightarrow> bytes \<Rightarrow> bool" where
  "owing b ys \<longleftrightarrow>
     (case ck_data_status b of
        DataState_Partial \<Rightarrow> ck_trailer b = 0 \<and> (\<exists>zs. owes b zs \<and> ys = zs @ last_part b)
      | DataState_Complete \<Rightarrow> ck_trailer b < length (last_part b) \<and> ys = drop (ck_trailer b) (last_part b)
      | DataState_Finish \<Rightarrow> ys = [])"

lemma trailer_writes:
  assumes "owing b ys" "ck_data_status b = DataState_Complete" "0 < k"
  shows "\<exists>b' w zs. trailer_encode b k = (b', Ok w) \<and> w \<noteq> [] \<and> length w \<le> k \<and> ys = w @ zs \<and> owing b' zs
    \<and> (tail_cut b' \<longleftrightarrow> tail_cut b)"
proof -
  have i: "ck_trailer b < length (last_part b)" "ys = drop (ck_trailer b) (last_part b)"
    using assms(1,2) by (simp_all add: owing_def)
  show ?thesis
  proof (rule write_cases [of "ck_trailer b" "last_part b" k])
    assume "length (last_part b) - ck_trailer b \<le> k"
      "WriteData_write (last_part b) (ck_trailer b) k =
        (length (last_part b), Ok (Token_Complete (drop (ck_trailer b) (last_part b))))"
    then show ?thesis using i by (simp add: trailer_encode_eq owing_def tail_cut_def)
  next
    assume w: "k < length (last_part b) - ck_trailer b"
      "WriteData_write (last_part b) (ck_trailer b) k =
        (ck_trailer b + k, Ok (Token_Partial (take k (drop (ck_trailer b) (last_part b)))))"
    have "ys = take k (drop (ck_trailer b) (last_part b)) @ drop (ck_trailer b + k) (last_part b)"
      by (simp add: i(2) add.commute flip: drop_drop)
    with w show ?thesis using i assms(2,3)
      by (intro exI [of _ "b\<lparr>ck_trailer := ck_trailer b + k\<rparr>"] exI [of _ "take k (drop (ck_trailer b) (last_part b))"]
          exI [of _ "drop (ck_trailer b + k) (last_part b)"])
        (simp add: trailer_encode_eq owing_def tail_cut_def)
  qed (use i in simp)
qed

text \<open>A call of \<open>data\<close> fills its buffer with what is owing.\<close>

lemma loop_writes:
  assumes "owing b ys" "length out \<le> len"
  shows "\<exists>b' zs. data_loop step b len out = Some (b', Ok (out @ take (len - length out) ys)) \<and> owing b' zs
    \<and> (\<not> tail_cut b' \<longrightarrow> zs = drop (len - length out) ys)"
  using assms
proof (induction "2 * (len - length out) + rank b" arbitrary: b out ys rule: less_induct)
  case less
  show ?case
  proof (cases "length out = len")
    case True
    then show ?thesis using less.prems by (auto simp: data_loop.simps [of step b])
  next
    case room: False
    let ?k = "len - length out"
    have k: "0 < ?k" using room less.prems(2) by simp
    show ?thesis
    proof (cases "ck_data_status b")
      case DataState_Finish
      then show ?thesis using room less.prems(1)
        by (intro exI [of _ b] exI [of _ "[]"]) (simp add: data_loop.simps [of step b] owing_def)
    next
      case DataState_Complete
      from trailer_writes [OF less.prems(1) this k] obtain b' w zs where
        w: "trailer_encode b ?k = (b', Ok w)" "w \<noteq> []" "length w \<le> ?k" "ys = w @ zs" "owing b' zs" by blast
      have "2 * (len - length (out @ w)) + rank b' < 2 * ?k + rank b"
        using w(2,3) k rank_small [of b'] by (cases w) auto
      from less.hyps [OF this w(5)] w(3,4) room less.prems(2) DataState_Complete w(1) show ?thesis
        by (simp add: data_loop.simps [of step b])
    next
      case part: DataState_Partial
      obtain ys' where ys': "owes b ys'" "ys = ys' @ last_part b" "ck_trailer b = 0"
        using less.prems(1) part by (auto simp: owing_def)
      from step_writes [OF ys'(1) part k, unfolded wrote_def] obtain b' w where
        w: "step b ?k = (b', Ok w)" "length w \<le> ?k" "w = [] \<longrightarrow> rank b' < rank b"
          "ck_trailer b' = 0" "ck_trailer_value b' = ck_trailer_value b"
        and next_state: "ck_data_status b' = DataState_Complete \<and> ys' = w \<and> \<not> tail_cut b' \<or>
          ck_data_status b' = DataState_Partial \<and> \<not> tail_cut b' \<and> (\<exists>zs. ys' = w @ zs \<and> owes b' zs) \<or>
          ck_data_status b' = DataState_Partial \<and> tail_cut b' \<and> length w = ?k \<and> w = take ?k ys' \<and> owes b' ys'"
        using ys'(3) by auto
      have last: "last_part b' = last_part b" using w(5) by (simp add: last_part_def)
      have loop: "data_loop step b len out = data_loop step b' len (out @ w)"
        using room part w(1) by (simp add: data_loop.simps [of step b])
      have less': "2 * (len - length (out @ w)) + rank b' < 2 * ?k + rank b"
        using w(2,3) k rank_small [of b'] by (cases w) auto
      have go: ?thesis if "owing b' zs" "ys = w @ zs" for zs
        using less.hyps [OF less' that(1)] that(2) w(2) less.prems(2) loop by simp
      from next_state consider (finish) "ck_data_status b' = DataState_Complete" "ys' = w"
        | (more) zs where "ck_data_status b' = DataState_Partial" "ys' = w @ zs" "owes b' zs"
        | (cut) "ck_data_status b' = DataState_Partial" "tail_cut b'" "length w = ?k" "w = take ?k ys'" "owes b' ys'"
        by blast
      then show ?thesis
      proof cases
        case finish
        show ?thesis
          by (rule go [of "last_part b"]) (use finish ys' w last in \<open>simp_all add: owing_def last_part_def\<close>)
      next
        case (more zs)
        show ?thesis
          by (rule go [of "zs @ last_part b"]) (use more ys' w last in \<open>auto simp: owing_def\<close>)
      next
        case cut
        have "owing b' ys" using cut ys' w last by (auto simp: owing_def)
        moreover have "length ys' \<ge> ?k" using cut(3,4) by (metis length_take min.absorb_iff2 min.commute)
        ultimately show ?thesis using cut ys' room less.prems(2) loop
          by (intro exI [of _ b'] exI [of _ ys]) (simp add: data_loop.simps [of step b'])
      qed
    qed
  qed
qed

lemma calls_write:
  "owing b ys \<Longrightarrow> \<exists>b' ws. data_calls step b ns = Some (b', ws) \<and>
     (never_cut step b ns \<longrightarrow> concat ws = take (sum_list ns) ys)"
proof (induction ns arbitrary: b ys)
  case (Cons n ns)
  obtain b1 zs where b1: "data_loop step b n [] = Some (b1, Ok (take n ys))" "owing b1 zs"
      "\<not> tail_cut b1 \<longrightarrow> zs = drop n ys"
    using loop_writes [OF Cons.prems, of "[]" n] by auto
  from Cons.IH [OF b1(2)] obtain b' ws where ws: "data_calls step b1 ns = Some (b', ws)"
    "never_cut step b1 ns \<longrightarrow> concat ws = take (sum_list ns) zs" by blast
  have "concat ws = take (sum_list ns) (drop n ys)" if "never_cut step b (n # ns)"
  proof (cases "ns = []")
    case True
    then show ?thesis using ws(1) by auto
  next
    case False
    with that b1 ws(2) show ?thesis by simp
  qed
  then show ?case using b1(1) ws(1) by (auto simp: take_add)
qed simp

end

end
