(* ===== verification/Chunk_Reader.thy ===== *)
theory Chunk_Reader
  imports Chunk_Written
begin

text \<open>Bodies from readers: what they write is determined by what their reads yield.\<close>

section \<open>The body of a reader\<close>

text \<open>
  The encoder reads until a read does not fill its buffer, and then once more. The body it sends is
  what it has read before that last read.
\<close>

definition reads_once :: "('r \<Rightarrow> nat \<Rightarrow> 'r \<times> (bytes, unit) rust_result) \<Rightarrow> 'r \<Rightarrow> bool" where
  "reads_once read r \<longleftrightarrow> (\<exists>r' c. read r CHUNK_SIZE = (r', Ok c) \<and> length c \<le> CHUNK_SIZE)"

inductive reads_body :: "('r \<Rightarrow> nat \<Rightarrow> 'r \<times> (bytes, unit) rust_result) \<Rightarrow> 'r \<Rightarrow> bytes \<Rightarrow> bool" for read where
  short: "read r CHUNK_SIZE = (r', Ok c) \<Longrightarrow> length c < CHUNK_SIZE \<Longrightarrow> reads_once read r' \<Longrightarrow> reads_body read r c"
| full: "read r CHUNK_SIZE = (r', Ok c) \<Longrightarrow> length c = CHUNK_SIZE \<Longrightarrow> reads_body read r' xs \<Longrightarrow>
    reads_body read r (c @ xs)"

function chunk_frames :: "bytes \<Rightarrow> bytes" where
  "chunk_frames xs =
     (let c = take CHUNK_SIZE xs
      in hex_format (length c) @ CRLF @ c @ CRLF @
         (if length c = CHUNK_SIZE then chunk_frames (drop CHUNK_SIZE xs) else []))"
  by pat_completeness auto
termination
  by (relation "measure length") (auto simp: CHUNK_SIZE_def min_def split: if_splits)

declare chunk_frames.simps [simp del]

text \<open>What follows the chunk that is in the buffer.\<close>

definition follows :: "('r \<Rightarrow> nat \<Rightarrow> 'r \<times> (bytes, unit) rust_result) \<Rightarrow> 'r \<Rightarrow> nat \<Rightarrow> bytes \<Rightarrow> bool" where
  "follows read r n zs \<longleftrightarrow>
     (if n = CHUNK_SIZE then \<exists>xs. reads_body read r xs \<and> zs = chunk_frames xs else reads_once read r \<and> zs = [])"

definition chunk_frame :: "bytes \<Rightarrow> bytes" where
  "chunk_frame c = hex_format (length c) @ CRLF @ c @ CRLF"

lemma reads_body_read:
  assumes "reads_body read r xs"
  obtains r' c zs where "read r CHUNK_SIZE = (r', Ok c)" "length c \<le> CHUNK_SIZE"
    "chunk_frames xs = chunk_frame c @ zs" "follows read r' (length c) zs"
  using assms
proof (cases rule: reads_body.cases)
  case (short r' )
  then show ?thesis
    by (intro that [of r' xs "[]"]) (simp_all add: chunk_frames.simps [of xs] chunk_frame_def follows_def)
next
  case (full r' c ys)
  then show ?thesis
    by (intro that [of r' c "chunk_frames ys"])
      (auto simp: chunk_frames.simps [of "c @ ys"] chunk_frame_def follows_def)
qed

section \<open>The state of the encoder\<close>

text \<open>Each index is zero outside its state and within its component inside it.\<close>

definition indices_ok :: "EncodeStatus \<Rightarrow> bool" where
  "indices_ok s \<longleftrightarrow>
     eh_inner (es_hex s) = hex_format CHUNK_SIZE \<and> eh_src_idx (es_hex s) < length (hex_format CHUNK_SIZE) \<and>
     (eh_src_idx (es_hex s) = 0 \<or> es_chunk_status s = ChunkState_MetaSize \<and> es_read_flag s) \<and>
     (es_meta_crlf s = 0 \<or> es_chunk_status s = ChunkState_MetaCrlf \<and> es_meta_crlf s < 2) \<and>
     (es_data_crlf s = 0 \<or> es_chunk_status s = ChunkState_DataCrlf \<and> es_read_flag s \<and> es_data_crlf s < 2) \<and>
     (es_finish_crlf s = 0 \<or> es_chunk_status s = ChunkState_Finish \<and> es_read_flag s \<and> es_finish_crlf s < 2) \<and>
     (eh_src_idx (es_hex_last s) = 0 \<or> es_chunk_status s = ChunkState_MetaSize \<and> es_read_flag s)"

definition chunk_of :: "'r ChunkBody \<Rightarrow> bytes" where
  "chunk_of b = take (cd_chunk_last (ck_chunk_data b)) (cd_chunk_buf (ck_chunk_data b))"

definition owes_reader :: "('r \<Rightarrow> nat \<Rightarrow> 'r \<times> (bytes, unit) rust_result) \<Rightarrow> 'r ChunkBody \<Rightarrow> bytes \<Rightarrow> bool" where
  "owes_reader read b ys \<longleftrightarrow>
     (let s = ck_encode_status b; r = ck_from b; c = chunk_of b in
      length (cd_chunk_buf (ck_chunk_data b)) = CHUNK_SIZE \<and> cd_chunk_last (ck_chunk_data b) \<le> CHUNK_SIZE \<and> indices_ok s \<and>
      (if es_read_flag s then
         es_chunk_status s = ChunkState_Finish \<and> ys = drop (es_finish_crlf s) CRLF \<or>
         (\<exists>zs. follows read r (length c) zs \<and>
           (case es_chunk_status s of
              ChunkState_MetaSize \<Rightarrow>
                ys = drop (if length c = CHUNK_SIZE then eh_src_idx (es_hex s) else 0) (hex_format (length c)) @ CRLF @ c @ CRLF @ zs \<and>
                (if length c = CHUNK_SIZE then eh_src_idx (es_hex_last s) = 0 else eh_src_idx (es_hex s) = 0) \<and>
                es_chunk_idx s = 0
            | ChunkState_MetaCrlf \<Rightarrow> ys = drop (es_meta_crlf s) CRLF @ c @ CRLF @ zs \<and> es_chunk_idx s = 0
            | ChunkState_Data \<Rightarrow> es_chunk_idx s \<le> length c \<and> ys = drop (es_chunk_idx s) c @ CRLF @ zs
            | ChunkState_DataCrlf \<Rightarrow> ys = drop (es_data_crlf s) CRLF @ chunk_frame c @ zs \<and> es_chunk_idx s = 0
            | _ \<Rightarrow> False))
       else
         case es_chunk_status s of
           ChunkState_MetaSize \<Rightarrow> \<exists>xs. reads_body read r xs \<and> ys = chunk_frames xs
         | ChunkState_DataCrlf \<Rightarrow> \<exists>xs. reads_body read r xs \<and> ys = CRLF @ chunk_frames xs
         | ChunkState_Finish \<Rightarrow> reads_once read r \<and> ys = CRLF
         | _ \<Rightarrow> False))"

definition reader_rank :: "'r ChunkBody \<Rightarrow> nat" where
  "reader_rank b = (if es_chunk_status (ck_encode_status b) = ChunkState_Data then 1 else 0)"

lemma length_chunk_of:
  "length (cd_chunk_buf (ck_chunk_data b)) = CHUNK_SIZE \<Longrightarrow> cd_chunk_last (ck_chunk_data b) \<le> CHUNK_SIZE \<Longrightarrow>
   length (chunk_of b) = cd_chunk_last (ck_chunk_data b)"
  by (simp add: chunk_of_def)

lemma chunk_of_same [simp]:
  "chunk_of (b\<lparr>ck_encode_status := s\<rparr>) = chunk_of b"
  "chunk_of (b\<lparr>ck_encode_status := s, ck_chunk_data := (ck_chunk_data b)\<lparr>cd_chunk_count := n\<rparr>, ck_data_status := st\<rparr>) = chunk_of b"
  by (simp_all add: chunk_of_def)

lemma chunk_encode_reader_eq:
  "chunk_encode_reader b k =
     store_encoded b (EncodeStatus_encode
       ((ck_encode_status b)\<lparr>es_chunk_last := cd_chunk_last (ck_chunk_data b)\<rparr>) (chunk_of b) k)"
  by (simp add: chunk_encode_reader_def chunk_of_def)

lemma wrote_more:
  assumes "p = (b', Ok w)" "length w \<le> k" "w = [] \<longrightarrow> rank b' < rank b" "ck_trailer b' = ck_trailer b"
    "ck_trailer_value b' = ck_trailer_value b" "ck_data_status b' = DataState_Partial" "\<not> tail_cut b'" "ys = w @ zs" "owes b' zs"
  shows "wrote owes rank b k ys p"
  using assms by (auto simp: wrote_def)

lemma drop_split: "drop i src @ rest = take k (drop i src) @ drop (i + k) src @ rest"
proof -
  have "take k (drop i src) @ drop (i + k) src = drop i src"
    using append_take_drop_id [of k "drop i src"] by (simp add: add.commute del: append_take_drop_id)
  then show ?thesis by (simp flip: append_assoc)
qed

lemmas step_simps = chunk_encode_reader_eq EncodeStatus_encode_def no_status_def store_encoded_def tail_cut_def
  EncodeHex_encode_def EncodeCrlf_encode_def

lemma meta_size_full:
  assumes "owes_reader read b ys" "ck_data_status b = DataState_Partial" "0 < k"
    and "es_read_flag (ck_encode_status b)" "es_chunk_status (ck_encode_status b) = ChunkState_MetaSize"
    and "cd_chunk_last (ck_chunk_data b) = CHUNK_SIZE"
  shows "wrote (owes_reader read) reader_rank b k ys (chunk_encode_reader b k)"
proof -
  let ?s = "ck_encode_status b" and ?c = "chunk_of b"
  let ?i = "eh_src_idx (es_hex ?s)" and ?hex = "hex_format CHUNK_SIZE"
  have len: "length ?c = CHUNK_SIZE" using assms(1,6) length_chunk_of [of b] by (simp add: owes_reader_def Let_def)
  obtain zs where zs: "follows read (ck_from b) CHUNK_SIZE zs" "ys = drop ?i ?hex @ CRLF @ ?c @ CRLF @ zs"
      "eh_src_idx (es_hex_last ?s) = 0" "es_chunk_idx ?s = 0"
    using assms(1,4,5) len by (auto simp: owes_reader_def Let_def)
  have ok: "indices_ok ?s" "length (cd_chunk_buf (ck_chunk_data b)) = CHUNK_SIZE" "?i < length ?hex"
    using assms(1) by (simp_all add: owes_reader_def Let_def indices_ok_def)
  show ?thesis
  proof (cases rule: write_cases [OF less_imp_le [OF ok(3)], of k, case_names complete partial])
    case complete
    show ?thesis
      by (rule wrote_more [where zs = "CRLF @ ?c @ CRLF @ zs" and w = "drop ?i ?hex" and
            b' = "b\<lparr>ck_encode_status := ?s\<lparr>es_chunk_last := CHUNK_SIZE, es_chunk_status := ChunkState_MetaCrlf,
              es_hex := (es_hex ?s)\<lparr>eh_src_idx := 0\<rparr>\<rparr>\<rparr>"])
        (use complete assms ok zs len in \<open>auto simp: step_simps meta_size_encode_def indices_ok_def owes_reader_def Let_def\<close>)
  next
    case partial
    show ?thesis
      by (rule wrote_more [where zs = "drop (?i + k) ?hex @ CRLF @ ?c @ CRLF @ zs" and w = "take k (drop ?i ?hex)" and
            b' = "b\<lparr>ck_encode_status := ?s\<lparr>es_chunk_last := CHUNK_SIZE, es_hex := (es_hex ?s)\<lparr>eh_src_idx := ?i + k\<rparr>\<rparr>\<rparr>"])
        (use partial assms ok zs len drop_split [of ?i ?hex _ k] in
          \<open>auto simp: step_simps meta_size_encode_def indices_ok_def owes_reader_def Let_def\<close>)
  qed
qed

lemma meta_size_tail:
  assumes "owes_reader read b ys" "ck_data_status b = DataState_Partial" "0 < k"
    and "es_read_flag (ck_encode_status b)" "es_chunk_status (ck_encode_status b) = ChunkState_MetaSize"
    and "cd_chunk_last (ck_chunk_data b) \<noteq> CHUNK_SIZE"
  shows "wrote (owes_reader read) reader_rank b k ys (chunk_encode_reader b k)"
proof -
  let ?s = "ck_encode_status b" and ?c = "chunk_of b"
  let ?hex = "hex_format (length ?c)"
  have len: "length ?c = cd_chunk_last (ck_chunk_data b)" "length ?c \<noteq> CHUNK_SIZE"
    using assms(1,6) length_chunk_of [of b] by (simp_all add: owes_reader_def Let_def)
  obtain zs where zs: "follows read (ck_from b) (length ?c) zs" "ys = ?hex @ CRLF @ ?c @ CRLF @ zs" "es_chunk_idx ?s = 0"
    using assms(1,4,5) len by (auto simp: owes_reader_def Let_def)
  have ok: "indices_ok ?s" "length (cd_chunk_buf (ck_chunk_data b)) = CHUNK_SIZE" "cd_chunk_last (ck_chunk_data b) \<le> CHUNK_SIZE"
    using assms(1) by (simp_all add: owes_reader_def Let_def)
  show ?thesis
  proof (cases rule: write_cases [of 0 ?hex k, OF le0, case_names complete partial])
    case complete
    show ?thesis
      by (rule wrote_more [where zs = "CRLF @ ?c @ CRLF @ zs" and w = ?hex and
            b' = "b\<lparr>ck_encode_status := ?s\<lparr>es_chunk_last := length ?c, es_chunk_status := ChunkState_MetaCrlf,
              es_hex_last := EncodeHex_new ?hex\<rparr>\<rparr>"])
        (use complete assms ok zs len in
          \<open>auto simp: step_simps meta_size_encode_def indices_ok_def owes_reader_def Let_def EncodeHex_new_def\<close>)
  next
    case partial
    then show ?thesis using assms ok zs len
      by (auto simp: wrote_def step_simps meta_size_encode_def indices_ok_def owes_reader_def Let_def EncodeHex_new_def
          CHUNK_SIZE_def)
  qed
qed

lemma meta_crlf:
  assumes "owes_reader read b ys" "ck_data_status b = DataState_Partial" "0 < k"
    and "es_read_flag (ck_encode_status b)" "es_chunk_status (ck_encode_status b) = ChunkState_MetaCrlf"
  shows "wrote (owes_reader read) reader_rank b k ys (chunk_encode_reader b k)"
proof -
  let ?s = "ck_encode_status b" and ?c = "chunk_of b"
  let ?i = "es_meta_crlf ?s" and ?n = "cd_chunk_last (ck_chunk_data b)"
  have len: "length ?c = ?n" using assms(1) length_chunk_of [of b] by (simp add: owes_reader_def Let_def)
  obtain zs where zs: "follows read (ck_from b) (length ?c) zs" "ys = drop ?i CRLF @ ?c @ CRLF @ zs" "es_chunk_idx ?s = 0"
    using assms(1,4,5) by (auto simp: owes_reader_def Let_def)
  have ok: "indices_ok ?s" "length (cd_chunk_buf (ck_chunk_data b)) = CHUNK_SIZE" "?n \<le> CHUNK_SIZE" "?i < length CRLF"
    using assms(1) by (auto simp: owes_reader_def Let_def indices_ok_def)
  show ?thesis
  proof (cases rule: write_cases [OF less_imp_le [OF ok(4)], of k, case_names complete partial])
    case complete
    show ?thesis
      by (rule wrote_more [where zs = "?c @ CRLF @ zs" and w = "drop ?i CRLF" and
            b' = "b\<lparr>ck_encode_status := ?s\<lparr>es_chunk_last := ?n, es_chunk_status := ChunkState_Data, es_meta_crlf := 0\<rparr>\<rparr>"])
        (use complete assms ok zs len in \<open>auto simp: step_simps meta_crlf_encode_def indices_ok_def owes_reader_def Let_def\<close>)
  next
    case partial
    show ?thesis
      by (rule wrote_more [where zs = "drop (?i + k) CRLF @ ?c @ CRLF @ zs" and w = "take k (drop ?i CRLF)" and
            b' = "b\<lparr>ck_encode_status := ?s\<lparr>es_chunk_last := ?n, es_meta_crlf := ?i + k\<rparr>\<rparr>"])
        (use partial assms ok zs len drop_split [of ?i CRLF _ k] in
          \<open>auto simp: step_simps meta_crlf_encode_def indices_ok_def owes_reader_def Let_def\<close>)
  qed
qed

lemma data_crlf:
  assumes "owes_reader read b ys" "ck_data_status b = DataState_Partial" "0 < k"
    and "es_read_flag (ck_encode_status b)" "es_chunk_status (ck_encode_status b) = ChunkState_DataCrlf"
  shows "wrote (owes_reader read) reader_rank b k ys (chunk_encode_reader b k)"
proof -
  let ?s = "ck_encode_status b" and ?c = "chunk_of b"
  let ?i = "es_data_crlf ?s" and ?n = "cd_chunk_last (ck_chunk_data b)"
  have len: "length ?c = ?n" using assms(1) length_chunk_of [of b] by (simp add: owes_reader_def Let_def)
  obtain zs where zs: "follows read (ck_from b) (length ?c) zs" "ys = drop ?i CRLF @ chunk_frame ?c @ zs" "es_chunk_idx ?s = 0"
    using assms(1,4,5) by (auto simp: owes_reader_def Let_def)
  have ok: "indices_ok ?s" "length (cd_chunk_buf (ck_chunk_data b)) = CHUNK_SIZE" "?n \<le> CHUNK_SIZE" "?i < length CRLF"
    using assms(1) by (auto simp: owes_reader_def Let_def indices_ok_def)
  show ?thesis
  proof (cases rule: write_cases [OF less_imp_le [OF ok(4)], of k, case_names complete partial])
    case complete
    show ?thesis
      by (rule wrote_more [where zs = "chunk_frame ?c @ zs" and w = "drop ?i CRLF" and
            b' = "b\<lparr>ck_encode_status := ?s\<lparr>es_chunk_last := ?n, es_chunk_status := ChunkState_MetaSize, es_data_crlf := 0\<rparr>\<rparr>"])
        (use complete assms ok zs len in
          \<open>auto simp: step_simps data_crlf_encode_def indices_ok_def owes_reader_def Let_def chunk_frame_def\<close>)
  next
    case partial
    show ?thesis
      by (rule wrote_more [where zs = "drop (?i + k) CRLF @ chunk_frame ?c @ zs" and w = "take k (drop ?i CRLF)" and
            b' = "b\<lparr>ck_encode_status := ?s\<lparr>es_chunk_last := ?n, es_data_crlf := ?i + k\<rparr>\<rparr>"])
        (use partial assms ok zs len drop_split [of ?i CRLF _ k] in
          \<open>auto simp: step_simps data_crlf_encode_def indices_ok_def owes_reader_def Let_def\<close>)
  qed
qed

lemma finish_crlf:
  assumes "owes_reader read b ys" "ck_data_status b = DataState_Partial" "0 < k"
    and "es_read_flag (ck_encode_status b)" "es_chunk_status (ck_encode_status b) = ChunkState_Finish"
  shows "wrote (owes_reader read) reader_rank b k ys (chunk_encode_reader b k)"
proof -
  let ?s = "ck_encode_status b"
  let ?i = "es_finish_crlf ?s" and ?n = "cd_chunk_last (ck_chunk_data b)"
  have ok: "indices_ok ?s" "length (cd_chunk_buf (ck_chunk_data b)) = CHUNK_SIZE" "?n \<le> CHUNK_SIZE" "?i < length CRLF"
      "ys = drop ?i CRLF"
    using assms(1,4,5) by (auto simp: owes_reader_def Let_def indices_ok_def)
  show ?thesis
  proof (cases rule: write_cases [OF less_imp_le [OF ok(4)], of k, case_names complete partial])
    case complete
    then show ?thesis using assms ok
      by (auto simp: wrote_def step_simps finish_encode_def indices_ok_def)
  next
    case partial
    show ?thesis
      by (rule wrote_more [where zs = "drop (?i + k) CRLF" and w = "take k (drop ?i CRLF)" and
            b' = "b\<lparr>ck_encode_status := ?s\<lparr>es_chunk_last := ?n, es_finish_crlf := ?i + k\<rparr>\<rparr>"])
        (use partial assms ok drop_split [of ?i CRLF "[]" k] in
          \<open>auto simp: step_simps finish_encode_def indices_ok_def owes_reader_def Let_def\<close>)
  qed
qed

lemma chunk_data:
  assumes "owes_reader read b ys" "ck_data_status b = DataState_Partial" "0 < k"
    and "es_read_flag (ck_encode_status b)" "es_chunk_status (ck_encode_status b) = ChunkState_Data"
  shows "wrote (owes_reader read) reader_rank b k ys (chunk_encode_reader b k)"
proof -
  let ?s = "ck_encode_status b" and ?c = "chunk_of b"
  let ?i = "es_chunk_idx ?s" and ?n = "cd_chunk_last (ck_chunk_data b)"
  have len: "length ?c = ?n" using assms(1) length_chunk_of [of b] by (simp add: owes_reader_def Let_def)
  obtain zs where zs: "follows read (ck_from b) (length ?c) zs" "?i \<le> length ?c" "ys = drop ?i ?c @ CRLF @ zs"
    using assms(1,4,5) by (auto simp: owes_reader_def Let_def)
  have ok: "indices_ok ?s" "length (cd_chunk_buf (ck_chunk_data b)) = CHUNK_SIZE" "?n \<le> CHUNK_SIZE"
    using assms(1) by (auto simp: owes_reader_def Let_def)
  let ?st = "if ?n = CHUNK_SIZE then ChunkState_DataCrlf else ChunkState_Finish"
  show ?thesis
  proof (cases rule: write_cases [OF zs(2), of k, case_names complete partial])
    case complete
    show ?thesis
      by (rule wrote_more [where zs = "CRLF @ zs" and w = "drop ?i ?c" and
            b' = "b\<lparr>ck_encode_status := ?s\<lparr>es_chunk_last := ?n, es_chunk_idx := length ?c, es_chunk_status := ?st, es_read_flag := False\<rparr>,
              ck_chunk_data := (ck_chunk_data b)\<lparr>cd_chunk_count := if ?n = CHUNK_SIZE then 1 else 0\<rparr>,
              ck_data_status := DataState_Partial\<rparr>"])
        (use complete assms ok zs len in
          \<open>auto simp: step_simps data_encode_def tail_encode_def indices_ok_def owes_reader_def Let_def follows_def
            reader_rank_def split: if_splits\<close>)
  next
    case partial
    show ?thesis
      by (rule wrote_more [where zs = "drop (?i + k) ?c @ CRLF @ zs" and w = "take k (drop ?i ?c)" and
            b' = "b\<lparr>ck_encode_status := ?s\<lparr>es_chunk_last := ?n, es_chunk_idx := ?i + k\<rparr>\<rparr>"])
        (use partial assms ok zs len drop_split [of ?i ?c _ k] in
          \<open>auto simp: step_simps data_encode_def tail_encode_def indices_ok_def owes_reader_def Let_def\<close>)
  qed
qed

section \<open>Reading the next chunk\<close>

lemma chunk_of_fill:
  "length c \<le> length (cd_chunk_buf (ck_chunk_data b)) \<Longrightarrow> chunk_of (fill_chunk_buf b r c) = c"
  by (simp add: chunk_of_def fill_chunk_buf_def)

lemma fill_owes:
  assumes "owes_reader read b ys" "\<not> es_read_flag (ck_encode_status b)"
  shows "\<exists>r c. read (ck_from b) CHUNK_SIZE = (r, Ok c) \<and> length c \<le> CHUNK_SIZE \<and> owes_reader read (fill_chunk_buf b r c) ys"
proof -
  let ?s = "ck_encode_status b"
  have ok: "length (cd_chunk_buf (ck_chunk_data b)) = CHUNK_SIZE" "indices_ok ?s"
    using assms(1) by (simp_all add: owes_reader_def Let_def)
  consider (size) xs where "es_chunk_status ?s = ChunkState_MetaSize" "reads_body read (ck_from b) xs" "ys = chunk_frames xs"
    | (crlf) xs where "es_chunk_status ?s = ChunkState_DataCrlf" "reads_body read (ck_from b) xs" "ys = CRLF @ chunk_frames xs"
    | (finish) "es_chunk_status ?s = ChunkState_Finish" "reads_once read (ck_from b)" "ys = CRLF"
    using assms by (auto simp: owes_reader_def Let_def split: ChunkState.splits)
  then show ?thesis
  proof cases
    case size
    from reads_body_read [OF size(2)] obtain r c zs where
      r: "read (ck_from b) CHUNK_SIZE = (r, Ok c)" "length c \<le> CHUNK_SIZE" "chunk_frames xs = chunk_frame c @ zs"
        "follows read r (length c) zs" .
    have "owes_reader read (fill_chunk_buf b r c) ys"
      using r size ok assms(2) chunk_of_fill [of c b r]
      by (auto simp: owes_reader_def Let_def fill_chunk_buf_def indices_ok_def chunk_frame_def)
    with r show ?thesis by blast
  next
    case crlf
    from reads_body_read [OF crlf(2)] obtain r c zs where
      r: "read (ck_from b) CHUNK_SIZE = (r, Ok c)" "length c \<le> CHUNK_SIZE" "chunk_frames xs = chunk_frame c @ zs"
        "follows read r (length c) zs" .
    have "owes_reader read (fill_chunk_buf b r c) ys"
      using r crlf ok assms(2) chunk_of_fill [of c b r]
      by (auto simp: owes_reader_def Let_def fill_chunk_buf_def indices_ok_def)
    with r show ?thesis by blast
  next
    case finish
    then obtain r c where r: "read (ck_from b) CHUNK_SIZE = (r, Ok c)" "length c \<le> CHUNK_SIZE"
      by (auto simp: reads_once_def)
    have "owes_reader read (fill_chunk_buf b r c) ys"
      using r finish ok assms(2) by (auto simp: owes_reader_def Let_def fill_chunk_buf_def indices_ok_def)
    with r show ?thesis by blast
  qed
qed

lemma flagged_step:
  assumes "owes_reader read b ys" "ck_data_status b = DataState_Partial" "0 < k" "es_read_flag (ck_encode_status b)"
  shows "wrote (owes_reader read) reader_rank b k ys (chunk_encode_reader b k)"
proof (cases "es_chunk_status (ck_encode_status b)")
  case ChunkState_MetaSize
  then show ?thesis using assms by (cases "cd_chunk_last (ck_chunk_data b) = CHUNK_SIZE") (simp_all add: meta_size_full meta_size_tail)
next
  case ChunkState_MetaExt
  with assms show ?thesis by (simp add: owes_reader_def Let_def)
qed (use assms in \<open>simp_all add: meta_crlf data_crlf finish_crlf chunk_data\<close>)

lemma reader_step:
  assumes "owes_reader read b ys" "ck_data_status b = DataState_Partial" "0 < k"
  shows "wrote (owes_reader read) reader_rank b k ys (reader_encode read b k)"
proof (cases "es_read_flag (ck_encode_status b)")
  case True
  with flagged_step [OF assms True] show ?thesis by (simp add: reader_encode_def)
next
  case False
  from fill_owes [OF assms(1) this] obtain r c where
    r: "read (ck_from b) CHUNK_SIZE = (r, Ok c)" "owes_reader read (fill_chunk_buf b r c) ys" by blast
  have "length (cd_chunk_buf (ck_chunk_data b)) = CHUNK_SIZE" using assms(1) by (simp add: owes_reader_def Let_def)
  then have "reader_encode read b k = chunk_encode_reader (fill_chunk_buf b r c) k"
    using False r by (simp add: reader_encode_def)
  moreover have "wrote (owes_reader read) reader_rank (fill_chunk_buf b r c) k ys (chunk_encode_reader (fill_chunk_buf b r c) k)"
    using r(2) assms(2,3) by (intro flagged_step) (simp_all add: fill_chunk_buf_def)
  ultimately show ?thesis by (simp add: wrote_def reader_rank_def fill_chunk_buf_def)
qed

interpretation reader: chunk_source "reader_encode read" "owes_reader read" reader_rank for read
  by unfold_locales (simp_all add: reader_step, simp add: reader_rank_def)

lemma new_reader_pending:
  assumes "reads_body read r xs"
  shows "reader.owing read (ChunkBody_from_reader r) (chunk_frames xs @ as_bytes ''0'' @ CRLF @ CRLF)"
  using assms
  by (auto simp: reader.owing_def ChunkBody_from_reader_def owes_reader_def Let_def ChunkData_new_def EncodeStatus_new_def
      EncodeHex_new_def indices_ok_def last_part_def)

end
