(* ===== verification/Chunk_Roundtrip.thy ===== *)
theory Chunk_Roundtrip
  imports Chunk_Reads Chunk_Reader
begin

text \<open>
  Encoding a body as chunks and decoding it again.
\<close>

section \<open>Decoding a frame\<close>

lemma hex_digits:
  assumes "v < 16"
  shows "v = 0 \<and> hex_digit v = 48 \<or>
    v \<noteq> 0 \<and> hex_digit v \<noteq> 48 \<and> 49 \<le> hex_digit v \<and> hex_digit v \<le> 57 \<and> uint (hex_digit v) - 48 = int v \<or>
    v \<noteq> 0 \<and> hex_digit v \<noteq> 48 \<and> \<not> (49 \<le> hex_digit v \<and> hex_digit v \<le> 57) \<and> 97 \<le> hex_digit v \<and> hex_digit v \<le> 102
      \<and> uint (hex_digit v) - 97 + 10 = int v"
proof -
  have "list_all (\<lambda>v. v = 0 \<and> hex_digit v = 48 \<or>
    v \<noteq> 0 \<and> hex_digit v \<noteq> 48 \<and> 49 \<le> hex_digit v \<and> hex_digit v \<le> 57 \<and> uint (hex_digit v) - 48 = int v \<or>
    v \<noteq> 0 \<and> hex_digit v \<noteq> 48 \<and> \<not> (49 \<le> hex_digit v \<and> hex_digit v \<le> 57) \<and> 97 \<le> hex_digit v \<and> hex_digit v \<le> 102
      \<and> uint (hex_digit v) - 97 + 10 = int v) [0..<16]"
    by code_simp
  with assms show ?thesis by (simp only: list_all_iff set_upt) (simp only: Ball_def atLeastLessThan_iff le0 simp_thms)
qed

lemma push_hex_fits:
  assumes "0 \<le> cb_hex_count d" "0 \<le> x" "cb_hex_count d * 16 + x < 2 ^ 63"
  shows "push_hex d x = (d\<lparr>cb_hex_count := cb_hex_count d * 16 + x\<rparr>, Ok ())"
  using assms by (simp add: push_hex_def hex_to_decimal_def i64_checked_def)

text \<open>A digit is read into the size; a zero that is not the first digit, too.\<close>

lemma size_digit:
  assumes "v < 16" "0 \<le> cb_hex_count d" "cb_hex_count d * 16 + int v < 2 ^ 63" "v \<noteq> 0 \<or> cb_num_flag d"
  shows "\<exists>f. size_loop d (hex_digit v # buf) =
      size_loop (d\<lparr>cb_hex_count := cb_hex_count d * 16 + int v, cb_chunk_flag := f, cb_num_flag := True\<rparr>) buf"
  using hex_digits [OF assms(1)]
proof (elim disjE conjE)
  assume v: "v = 0" "hex_digit v = 48"
  let ?d = "d\<lparr>cb_hex_count := cb_hex_count d * 16\<rparr>"
  have "push_hex d 0 = (?d, Ok ())" using push_hex_fits [of d 0] assms v by simp
  then have "size_loop d (hex_digit v # buf) = size_loop ?d buf"
    using v assms(4) by (simp add: chunk_try_def)
  also have "?d = d\<lparr>cb_hex_count := cb_hex_count d * 16 + int v, cb_chunk_flag := cb_chunk_flag d, cb_num_flag := True\<rparr>"
    by (rule ChunkBodyDecoder.equality) (use v assms(4) in simp_all)
  finally show ?thesis by blast
next
  assume v: "hex_digit v \<noteq> 48" "49 \<le> hex_digit v" "hex_digit v \<le> 57" "uint (hex_digit v) - 48 = int v"
  have "push_hex d (int v) = (d\<lparr>cb_hex_count := cb_hex_count d * 16 + int v\<rparr>, Ok ())"
    using push_hex_fits [of d "int v"] assms by simp
  with v show ?thesis by (intro exI [of _ True]) (simp add: chunk_try_def seen_digit_def)
next
  assume v: "hex_digit v \<noteq> 48" "\<not> (49 \<le> hex_digit v \<and> hex_digit v \<le> 57)" "97 \<le> hex_digit v" "hex_digit v \<le> 102"
      "uint (hex_digit v) - 97 + 10 = int v"
  have "push_hex d (uint (hex_digit v) - 97 + 10) = (d\<lparr>cb_hex_count := cb_hex_count d * 16 + int v\<rparr>, Ok ())"
    unfolding v(5) using push_hex_fits [of d "int v"] assms by simp
  with v(1-4) show ?thesis
    by (intro exI [of _ True], subst size_loop.simps) (simp only: if_False if_True simp_thms, simp add: chunk_try_def seen_digit_def)
qed

lemma size_hex:
  "0 < n \<Longrightarrow> int n < 2 ^ 63 \<Longrightarrow> cb_hex_count d = 0 \<Longrightarrow>
   \<exists>f. size_loop d (hex_format n @ buf) =
     size_loop (d\<lparr>cb_hex_count := int n, cb_chunk_flag := f, cb_num_flag := True\<rparr>) buf"
proof (induction n arbitrary: d buf rule: hex_format.induct)
  case (1 n)
  show ?case
  proof (cases "n < 16")
    case True
    then show ?thesis using size_digit [of n d buf] "1.prems" by (simp add: hex_format.simps [of n] del: size_loop.simps)
  next
    case False
    have hex: "int (n div 16) * 16 + int (n mod 16) = int n"
    proof -
      have "int (n div 16 * 16 + n mod 16) = int n" by (simp only: div_mult_mod_eq)
      then show ?thesis by (simp only: of_nat_add of_nat_mult of_nat_numeral)
    qed
    have small: "int (n div 16) < 2 ^ 63" using "1.prems"(2) by (simp add: zdiv_int)
    have "\<exists>f. size_loop d (hex_format (n div 16) @ hex_digit (n mod 16) # buf) =
        size_loop (d\<lparr>cb_hex_count := int (n div 16), cb_chunk_flag := f, cb_num_flag := True\<rparr>) (hex_digit (n mod 16) # buf)"
      by (rule "1.IH") (use False small "1.prems" in simp_all)
    then obtain f where f: "size_loop d (hex_format (n div 16) @ hex_digit (n mod 16) # buf) =
        size_loop (d\<lparr>cb_hex_count := int (n div 16), cb_chunk_flag := f, cb_num_flag := True\<rparr>) (hex_digit (n mod 16) # buf)"
      by blast
    show ?thesis
      using size_digit [of "n mod 16" "d\<lparr>cb_hex_count := int (n div 16), cb_chunk_flag := f, cb_num_flag := True\<rparr>" buf]
        hex "1.prems" False f by (simp add: hex_format.simps [of n] del: size_loop.simps)
  qed
qed

text \<open>A decoder at the beginning of a chunk.\<close>

definition fresh :: "ChunkBodyDecoder \<Rightarrow> bool" where
  "fresh d \<longleftrightarrow> cb_stage d = Stage_Size \<and> cb_hex_count d = 0 \<and> cb_total_size d = 0 \<and> cb_rest_size d = 0 \<and>
     \<not> cb_cr_meet d \<and> \<not> cb_num_flag d \<and> \<not> cb_is_last_chunk d \<and> \<not> cb_is_chunk_trailer d"

lemma decode_frame:
  assumes "fresh d" "c \<noteq> []" "int (length c) < 2 ^ 63"
  shows "\<exists>d'. decode_stage d (chunk_frame c @ rest) = (d', Ok (sized_chunk c None (length c) ChunkState_Finish, rest)) \<and> fresh d'
    \<and> cb_is_trailer d' = cb_is_trailer d"
proof -
  let ?d = "d\<lparr>cb_stage := Stage_Size, cb_chunk_flag := False\<rparr>"
  have frame: "chunk_frame c @ rest = hex_format (length c) @ 13 # 10 # c @ 13 # 10 # rest" by (simp add: chunk_frame_def)
  obtain f where f: "size_loop ?d (hex_format (length c) @ 13 # 10 # c @ 13 # 10 # rest) =
      size_loop (?d\<lparr>cb_hex_count := int (length c), cb_chunk_flag := f, cb_num_flag := True\<rparr>) (13 # 10 # c @ 13 # 10 # rest)"
    using size_hex [of "length c" ?d "13 # 10 # c @ 13 # 10 # rest"] assms by (auto simp: fresh_def)
  show ?thesis
    using assms f unfolding frame
    by (auto simp: decode_stage_def decode_size_def Let_def fresh_def decode_special_char_def skip_extension_def skip_crlf_def
        chunk_simps decode_data_def skip_last_crlf_def)
qed

lemma decode_last:
  assumes "fresh d"
  shows "\<exists>d' c. decode_stage d (as_bytes ''0'' @ CRLF @ CRLF @ rest) = (d', Ok (c, rest)) \<and> Chunk_is_complete c \<and> ch_size c = 0
    \<and> ch_data c = [] \<and> cb_is_last_chunk d'"
proof -
  have zero: "as_bytes ''0'' @ CRLF @ CRLF @ rest = 48 # 13 # 10 # 13 # 10 # rest" by (simp add: as_bytes_def byte_of_char_def)
  show ?thesis
    using assms unfolding zero
    by (cases "cb_is_trailer d")
      (auto simp: decode_stage_def decode_size_def Let_def fresh_def decode_special_char_def skip_extension_def skip_crlf_def
        chunk_simps decode_data_def skip_last_crlf_def skip_trailer_crlf_def decode_trailer_data_def skip_trailer_last_crlf_def
        push_hex_def hex_to_decimal_def i64_checked_def chunk_try_def [of "(_, Ok ())"])
qed

abbreviation last_chunk :: bytes where
  "last_chunk \<equiv> as_bytes ''0'' @ CRLF @ CRLF"

lemma frame_round:
  assumes "fresh d" "c \<noteq> []" "int (length c) < 2 ^ 63" "rest \<noteq> []"
  shows "\<exists>d' c'. decode_loop d rs (chunk_frame c @ rest) = decode_loop d' (rs @ [c']) rest \<and> fresh d' \<and> ch_data c' = c"
proof -
  let ?c = "sized_chunk c None (length c) ChunkState_Finish"
  obtain d' where d': "decode_stage d (chunk_frame c @ rest) = (d', Ok (?c, rest))" "fresh d'"
    using decode_frame [OF assms(1-3), of rest] by blast
  have "more d' ?c" using d'(2) by (simp add: more_def fresh_def)
  moreover have "fresh (after d' ?c)" using d'(2) calculation by (simp add: after_def Let_def merge_trailer_def numbered_def fresh_def)
  ultimately show ?thesis
    using d'(1) assms(4) by (intro exI [of _ "after d' ?c"] exI [of _ "numbered d' ?c"]) (simp add: decode_loop_eq [of d])
qed

lemma last_round:
  assumes "fresh d"
  shows "\<exists>d' c. decode_loop d rs (last_chunk @ rest) = (d', Ok (rs @ [c], rest)) \<and> finished [c] \<and> ch_data c = []"
proof -
  obtain d' c where c: "decode_stage d (last_chunk @ rest) = (d', Ok (c, rest))" "Chunk_is_complete c" "ch_size c = 0"
      "ch_data c = []" "cb_is_last_chunk d'"
    using decode_last [OF assms, of rest] by auto
  then have "\<not> more d' c" by (simp add: more_def)
  with c show ?thesis
    by (intro exI [of _ "after d' c"] exI [of _ "numbered d' c"]) (simp add: decode_loop_eq [of d] finished_def)
qed

lemma decode_frames:
  "fresh d \<Longrightarrow> \<exists>d' cs. decode_loop d rs (chunk_frames xs @ last_chunk) =
     (d', Ok (rs @ cs, if CHUNK_SIZE dvd length xs then last_chunk else [])) \<and> finished cs \<and> body_data cs = xs"
proof (induction xs arbitrary: d rs rule: chunk_frames.induct)
  case (1 xs)
  let ?c = "take CHUNK_SIZE xs"
  have small: "int (length ?c) < 2 ^ 63" by (simp add: CHUNK_SIZE_def)
  consider (empty) "xs = []" | (tail) "xs \<noteq> []" "length xs < CHUNK_SIZE" | (full) "CHUNK_SIZE \<le> length xs" by fastforce
  then show ?case
  proof cases
    case empty
    have "chunk_frames xs = last_chunk"
      using empty by (simp add: chunk_frames.simps [of "[]"] hex_format.simps [of 0] CHUNK_SIZE_def hex_digit_def as_bytes_def byte_of_char_def)
    then show ?thesis
      using last_round [OF "1.prems", of rs last_chunk] empty by (auto simp: body_data_def)
  next
    case tail
    have frames: "chunk_frames xs = chunk_frame xs"
      using tail by (simp add: chunk_frames.simps [of xs] chunk_frame_def)
    obtain d1 c1 where d1: "decode_loop d rs (chunk_frame xs @ last_chunk) = decode_loop d1 (rs @ [c1]) last_chunk" "fresh d1"
        "ch_data c1 = xs"
      using frame_round [OF "1.prems" tail(1), of last_chunk rs] small tail by auto
    have "\<not> CHUNK_SIZE dvd length xs" using tail by (auto dest: dvd_imp_le)
    with d1 last_round [OF d1(2), of "rs @ [c1]" "[]"] frames show ?thesis
      by (auto simp: body_data_def finished_def)
  next
    case full
    let ?ys = "drop CHUNK_SIZE xs"
    have c: "length ?c = CHUNK_SIZE" "?c \<noteq> []" using full by (auto simp: CHUNK_SIZE_def)
    have frames: "chunk_frames xs = chunk_frame ?c @ chunk_frames ?ys"
      using c by (simp add: chunk_frames.simps [of xs] chunk_frame_def)
    obtain d1 c1 where d1: "decode_loop d rs (chunk_frame ?c @ (chunk_frames ?ys @ last_chunk)) =
        decode_loop d1 (rs @ [c1]) (chunk_frames ?ys @ last_chunk)" "fresh d1" "ch_data c1 = ?c"
      using frame_round [OF "1.prems" c(2) small, of "chunk_frames ?ys @ last_chunk" rs] by auto
    from "1.IH" [OF refl c(1) d1(2), of "rs @ [c1]"] obtain d2 cs where
      d2: "decode_loop d1 (rs @ [c1]) (chunk_frames ?ys @ last_chunk) =
        (d2, Ok (rs @ [c1] @ cs, if CHUNK_SIZE dvd length ?ys then last_chunk else []))" "finished cs" "body_data cs = ?ys"
      by auto
    have "CHUNK_SIZE dvd length ?ys \<longleftrightarrow> CHUNK_SIZE dvd length xs" using full by (simp add: dvd_minus_self)
    moreover have "finished ([c1] @ cs)" "body_data ([c1] @ cs) = xs"
      using d2(2,3) d1(3) by (simp_all add: finished_def body_data_def)
    ultimately show ?thesis using d1(1) d2(1) frames by (intro exI [of _ d2] exI [of _ "[c1] @ cs"]) simp
  qed
qed

text \<open>
  C6. A chunked body comes back. Whatever buffers the encoder is given, as long as they are large
  enough for the body and none of them ends inside the size of the last part, the decoder returns
  from what it wrote exactly the bytes that the reads gave up to the first one that did not fill the
  buffer, as a finished body. When their number is a multiple of the chunk size, the encoder has
  written the last chunk twice, and the decoder leaves the second one unread.
\<close>

theorem chunk_roundtrip:
  assumes "reads_body read r xs" "never_cut (reader_encode read) (ChunkBody_from_reader r) ns"
    and "length (chunk_frames xs) + 5 \<le> sum_list ns"
  shows "\<exists>b ws d cs. data_calls (reader_encode read) (ChunkBody_from_reader r) ns = Some (b, ws)
    \<and> ChunkBodyDecoder_decode (contains_trailer ChunkBodyDecoder_new t) (concat ws) =
        (d, Ok (cs, if CHUNK_SIZE dvd length xs then last_chunk else []))
    \<and> finished cs \<and> body_data cs = xs"
proof -
  from reader.calls_write [OF new_reader_pending [OF assms(1)], of ns] assms(2)
  obtain b ws where ws: "data_calls (reader_encode read) (ChunkBody_from_reader r) ns = Some (b, ws)"
      "concat ws = take (sum_list ns) (chunk_frames xs @ last_chunk)"
    by auto
  have "concat ws = chunk_frames xs @ last_chunk" using ws(2) assms(3) by simp
  moreover have "fresh (contains_trailer ChunkBodyDecoder_new t)"
    by (simp add: fresh_def contains_trailer_def ChunkBodyDecoder_new_def)
  ultimately show ?thesis using ws(1) decode_frames [of "contains_trailer ChunkBodyDecoder_new t" "[]" xs]
    by (auto simp: ChunkBodyDecoder_decode_def)
qed

text \<open>The reader of a byte slice in the standard library.\<close>

definition slice_read :: "bytes \<Rightarrow> nat \<Rightarrow> bytes \<times> (bytes, unit) rust_result" where
  "slice_read bs n = (drop n bs, Ok (take n bs))"

theorem chunk_roundtrip_witness:
  "\<exists>b ws d cs. data_calls (reader_encode slice_read) (ChunkBody_from_reader [1, 2, 3]) [20] = Some (b, ws)
    \<and> ChunkBodyDecoder_decode (contains_trailer ChunkBodyDecoder_new False) (concat ws) = (d, Ok (cs, []))
    \<and> finished cs \<and> body_data cs = [1, 2, 3]"
proof -
  have body: "reads_body slice_read [1, 2, 3] [1, 2, 3]"
    by (rule reads_body.short [of _ _ "[]"]) (simp_all add: slice_read_def CHUNK_SIZE_def reads_once_def)
  have "never_cut (reader_encode slice_read) (ChunkBody_from_reader [1, 2, 3]) [20]"
    using reader.loop_writes [OF new_reader_pending [OF body], of "[]" 20] by auto
  moreover have "length (chunk_frames [1, 2, 3]) + 5 \<le> sum_list [20]"
    by (simp add: chunk_frames.simps hex_format.simps CHUNK_SIZE_def)
  moreover have "\<not> CHUNK_SIZE dvd length [1 :: u8, 2, 3]" by (auto simp: CHUNK_SIZE_def dest: dvd_imp_le)
  ultimately show ?thesis using chunk_roundtrip [OF body, of "[20]" False] by auto
qed

section \<open>Bodies from bytes\<close>

text \<open>
  While a body of at least two full chunks is encoded from bytes, the encoder is never past its
  second chunk.
\<close>

definition endless :: "bytes ChunkBody \<Rightarrow> bool" where
  "endless b \<longleftrightarrow>
     (let s = ck_encode_status b in
      ck_data_status b = DataState_Partial \<and> 2 * CHUNK_SIZE \<le> length (ck_from b) \<and>
      cd_chunk_count (ck_chunk_data b) \<le> 1 \<and> indices_ok s \<and> eh_src_idx (es_hex_last s) = 0 \<and>
      (es_read_flag s \<longrightarrow> cd_chunk_last (ck_chunk_data b) = CHUNK_SIZE) \<and>
      (case es_chunk_status s of
         ChunkState_MetaSize \<Rightarrow> es_read_flag s \<longrightarrow> es_chunk_idx s = 0
       | ChunkState_MetaCrlf \<Rightarrow> es_read_flag s \<and> es_chunk_idx s = 0
       | ChunkState_Data \<Rightarrow> es_read_flag s \<and> es_chunk_idx s < CHUNK_SIZE
       | ChunkState_DataCrlf \<Rightarrow> es_read_flag s \<longrightarrow> es_chunk_idx s = 0
       | _ \<Rightarrow> False))"

definition started :: "bytes ChunkBody \<Rightarrow> bytes ChunkBody" where
  "started b =
     (if es_read_flag (ck_encode_status b) then b
      else b\<lparr>ck_encode_status := (ck_encode_status b)\<lparr>es_read_flag := True, es_chunk_idx := 0\<rparr>,
             ck_chunk_data := (ck_chunk_data b)\<lparr>cd_chunk_last := CHUNK_SIZE\<rparr>\<rparr>)"

lemma endless_started:
  assumes "endless b"
  shows "endless (started b)" "es_read_flag (ck_encode_status (started b))"
    "bytes_encode b k = chunk_encode (started b)
       (take CHUNK_SIZE (drop (cd_chunk_count (ck_chunk_data b) * CHUNK_SIZE) (ck_from b))) k"
proof -
  have room: "cd_chunk_count (ck_chunk_data b) * CHUNK_SIZE + CHUNK_SIZE \<le> length (ck_from b)"
    using assms by (cases "cd_chunk_count (ck_chunk_data b)") (auto simp: endless_def Let_def)
  show "endless (started b)" using assms by (auto simp: endless_def started_def Let_def indices_ok_def split: ChunkState.splits)
  show "es_read_flag (ck_encode_status (started b))" by (simp add: started_def)
  show "bytes_encode b k = chunk_encode (started b)
       (take CHUNK_SIZE (drop (cd_chunk_count (ck_chunk_data b) * CHUNK_SIZE) (ck_from b))) k"
    using room assms by (auto simp: bytes_encode_def started_def Let_def endless_def)
qed

lemma endless_flagged:
  assumes "endless b" "es_read_flag (ck_encode_status b)" "length src = CHUNK_SIZE" "0 < k"
  shows "\<exists>b' w. chunk_encode b src k = (b', Ok w) \<and> w \<noteq> [] \<and> length w \<le> k \<and> endless b'"
proof -
  let ?s = "ck_encode_status b"
  have last: "cd_chunk_last (ck_chunk_data b) = CHUNK_SIZE" using assms(1,2) by (simp add: endless_def Let_def)
  have idx: "eh_src_idx (es_hex ?s) \<le> length (hex_format CHUNK_SIZE)" "es_meta_crlf ?s \<le> length CRLF" "es_data_crlf ?s \<le> length CRLF"
    using assms(1) by (auto simp: endless_def Let_def indices_ok_def)
  note defs = chunk_encode_def EncodeStatus_encode_def no_status_def store_encoded_def EncodeHex_encode_def EncodeCrlf_encode_def
    endless_def Let_def indices_ok_def
  consider (size) "es_chunk_status ?s = ChunkState_MetaSize" | (meta) "es_chunk_status ?s = ChunkState_MetaCrlf"
    | (data) "es_chunk_status ?s = ChunkState_Data" | (crlf) "es_chunk_status ?s = ChunkState_DataCrlf"
    using assms(1) by (cases "es_chunk_status ?s") (simp_all add: endless_def Let_def)
  then show ?thesis
  proof cases
    case size
    then show ?thesis
      using assms last by (cases rule: write_cases [OF idx(1), of k]) (auto simp: defs meta_size_encode_def)
  next
    case meta
    then show ?thesis
      using assms last by (cases rule: write_cases [OF idx(2), of k]) (auto simp: defs meta_crlf_encode_def CHUNK_SIZE_def)
  next
    case data
    then have i: "es_chunk_idx ?s \<le> length src" using assms by (simp add: endless_def Let_def)
    show ?thesis
      using assms last data by (cases rule: write_cases [OF i, of k]) (auto simp: defs data_encode_def)
  next
    case crlf
    then show ?thesis
      using assms last by (cases rule: write_cases [OF idx(3), of k]) (auto simp: defs data_crlf_encode_def)
  qed
qed

lemma endless_step:
  assumes "endless b" "0 < k"
  shows "\<exists>b' w. bytes_encode b k = (b', Ok w) \<and> w \<noteq> [] \<and> length w \<le> k \<and> endless b'"
proof -
  let ?src = "take CHUNK_SIZE (drop (cd_chunk_count (ck_chunk_data b) * CHUNK_SIZE) (ck_from b))"
  have "length ?src = CHUNK_SIZE"
    using assms(1) by (cases "cd_chunk_count (ck_chunk_data b)") (auto simp: endless_def Let_def)
  from endless_flagged [OF endless_started(1,2) [OF assms(1)] this assms(2)] show ?thesis
    by (simp add: endless_started(3) [OF assms(1)])
qed

lemma endless_loop:
  "endless b \<Longrightarrow> length out \<le> len \<Longrightarrow>
   \<exists>b' w. data_loop bytes_encode b len out = Some (b', Ok w) \<and> length w = len \<and> endless b'"
proof (induction "len - length out" arbitrary: b out rule: less_induct)
  case less
  show ?case
  proof (cases "length out = len")
    case True
    then show ?thesis using less.prems by (simp add: data_loop.simps [of bytes_encode b])
  next
    case False
    obtain b' w where w: "bytes_encode b (len - length out) = (b', Ok w)" "w \<noteq> []" "length w \<le> len - length out" "endless b'"
      using endless_step [OF less.prems(1), of "len - length out"] False less.prems(2) by auto
    have "ck_data_status b = DataState_Partial" using less.prems(1) by (simp add: endless_def Let_def)
    then have "data_loop bytes_encode b len out = data_loop bytes_encode b' len (out @ w)"
      using False w(1) by (simp add: data_loop.simps [of bytes_encode b])
    moreover have "len - length (out @ w) < len - length out" using w(2,3) by (cases w) simp_all
    ultimately show ?thesis using less.hyps [of "out @ w" b'] w(3,4) less.prems(2) by simp
  qed
qed

text \<open>
  C35. A body of at least 2048 bytes that is encoded from a slice never ends: the count of full chunks
  is set to one and not increased, so that the second chunk is sent again and again. Every buffer of
  every sequence of calls is filled completely, and the end is never reached.
\<close>

theorem bytes_body_endless:
  assumes "2048 \<le> length bs"
  shows "\<exists>b ws. data_calls bytes_encode (ChunkBody_from_bytes bs) ns = Some (b, ws) \<and> map length ws = ns
    \<and> ck_data_status b = DataState_Partial"
proof -
  have "\<exists>b' ws. data_calls bytes_encode b ns = Some (b', ws) \<and> map length ws = ns \<and> endless b'" if "endless b" for b
    using that
  proof (induction ns arbitrary: b)
    case (Cons n ns)
    obtain b1 w where b1: "data_loop bytes_encode b n [] = Some (b1, Ok w)" "length w = n" "endless b1"
      using endless_loop [OF Cons.prems, of "[]" n] by auto
    from Cons.IH [OF b1(3)] b1(1,2) show ?case by auto
  qed simp
  moreover have "endless (ChunkBody_from_bytes bs)"
    using assms by (simp add: endless_def ChunkBody_from_bytes_def EncodeStatus_new_def ChunkData_new_def indices_ok_def
        EncodeHex_new_def CHUNK_SIZE_def)
  ultimately have "\<exists>b' ws. data_calls bytes_encode (ChunkBody_from_bytes bs) ns = Some (b', ws) \<and> map length ws = ns \<and> endless b'"
    by blast
  then show ?thesis by (auto simp: endless_def Let_def)
qed

theorem bytes_body_endless_witness:
  "\<exists>b ws. data_calls bytes_encode (ChunkBody_from_bytes (replicate 2048 7)) [1000, 1000, 1000, 1000] = Some (b, ws)
     \<and> map length ws = [1000, 1000, 1000, 1000] \<and> ck_data_status b = DataState_Partial"
  by (rule bytes_body_endless) simp

end
