(* ===== verification/Http_Message.thy ===== *)
theory Http_Message
  imports Headers
begin

text \<open>
  Methods, versions and status codes (\<open>ylong_http/src/request/method.rs\<close>, \<open>version.rs\<close>,
  \<open>response/status.rs\<close>). The conversions from \<open>str\<close> and from byte slices call the functions below.
\<close>

section \<open>Methods\<close>

datatype Method =
    Method_GET | Method_HEAD | Method_POST | Method_PUT | Method_DELETE | Method_CONNECT
  | Method_OPTIONS | Method_TRACE

text \<open>The bytes are matched one by one; \<open>bytes[1..]\<close> is the tail.\<close>

definition Method_from_bytes :: "bytes \<Rightarrow> (Method, HttpError) rust_result" where
  "Method_from_bytes bs =
     (if length bs < 3 \<or> length bs > 7 then Err (HttpError InvalidInput)
      else if bs ! 0 = 71 \<and> drop 1 bs = as_bytes ''ET'' then Ok Method_GET
      else if bs ! 0 = 80 then
        if bs ! 1 = 85 \<and> drop 2 bs = as_bytes ''T'' then Ok Method_PUT
        else if bs ! 1 = 79 \<and> drop 2 bs = as_bytes ''ST'' then Ok Method_POST
        else Err (HttpError InvalidInput)
      else if bs ! 0 = 72 \<and> drop 1 bs = as_bytes ''EAD'' then Ok Method_HEAD
      else if bs ! 0 = 84 \<and> drop 1 bs = as_bytes ''RACE'' then Ok Method_TRACE
      else if bs ! 0 = 68 \<and> drop 1 bs = as_bytes ''ELETE'' then Ok Method_DELETE
      else if bs ! 0 = 79 \<and> drop 1 bs = as_bytes ''PTIONS'' then Ok Method_OPTIONS
      else if bs ! 0 = 67 \<and> drop 1 bs = as_bytes ''ONNECT'' then Ok Method_CONNECT
      else Err (HttpError InvalidInput))"

definition Method_as_str :: "Method \<Rightarrow> string" where
  "Method_as_str m =
     (case m of
        Method_GET \<Rightarrow> ''GET''
      | Method_HEAD \<Rightarrow> ''HEAD''
      | Method_POST \<Rightarrow> ''POST''
      | Method_PUT \<Rightarrow> ''PUT''
      | Method_DELETE \<Rightarrow> ''DELETE''
      | Method_OPTIONS \<Rightarrow> ''OPTIONS''
      | Method_TRACE \<Rightarrow> ''TRACE''
      | Method_CONNECT \<Rightarrow> ''CONNECT'')"

section \<open>Versions\<close>

datatype Version = HTTP1_0 | HTTP1_1 | HTTP2 | HTTP3

definition Version_as_str :: "Version \<Rightarrow> string" where
  "Version_as_str v =
     (case v of
        HTTP1_0 \<Rightarrow> ''HTTP/1.0''
      | HTTP1_1 \<Rightarrow> ''HTTP/1.1''
      | HTTP2 \<Rightarrow> ''HTTP/2.0''
      | HTTP3 \<Rightarrow> ''HTTP/3.0'')"

definition Version_try_from :: "string \<Rightarrow> (Version, HttpError) rust_result" where
  "Version_try_from s =
     (if s = ''HTTP/1.0'' then Ok HTTP1_0
      else if s = ''HTTP/1.1'' then Ok HTTP1_1
      else if s = ''HTTP/2.0'' then Ok HTTP2
      else if s = ''HTTP/3.0'' then Ok HTTP3
      else Err (HttpError InvalidInput))"

section \<open>Status codes\<close>

datatype StatusCode = StatusCode (status_as_u16: u16)

definition StatusCode_from_u16 :: "u16 \<Rightarrow> (StatusCode, HttpError) rust_result" where
  "StatusCode_from_u16 code =
     (if \<not> (100 \<le> code \<and> code < 1000) then Err (HttpError InvalidInput) else Ok (StatusCode code))"

text \<open>The digits are subtracted with wrap-around before they are widened.\<close>

definition StatusCode_from_bytes :: "bytes \<Rightarrow> (StatusCode, HttpError) rust_result" where
  "StatusCode_from_bytes bs =
     (if length bs \<noteq> 3 then Err (HttpError InvalidInput)
      else
        let a = ucast (bs ! 0 - 48);
            b = ucast (bs ! 1 - 48);
            c = ucast (bs ! 2 - 48)
        in if a = 0 \<or> a > 9 \<or> b > 9 \<or> c > 9 then Err (HttpError InvalidInput)
           else Ok (StatusCode (a * 100 + b * 10 + c)))"

definition StatusCode_as_bytes :: "StatusCode \<Rightarrow> bytes" where
  "StatusCode_as_bytes s =
     (let n = status_as_u16 s
      in [ucast (n div 100) + 48, ucast ((n mod 100) div 10) + 48, ucast (n mod 10) + 48])"

definition StatusCode_is_informational :: "StatusCode \<Rightarrow> bool" where
  "StatusCode_is_informational s \<longleftrightarrow> status_as_u16 s \<ge> 100 \<and> 200 > status_as_u16 s"

definition StatusCode_is_successful :: "StatusCode \<Rightarrow> bool" where
  "StatusCode_is_successful s \<longleftrightarrow> status_as_u16 s \<ge> 200 \<and> 300 > status_as_u16 s"

definition StatusCode_is_redirection :: "StatusCode \<Rightarrow> bool" where
  "StatusCode_is_redirection s \<longleftrightarrow> status_as_u16 s \<ge> 300 \<and> 400 > status_as_u16 s"

definition StatusCode_is_client_error :: "StatusCode \<Rightarrow> bool" where
  "StatusCode_is_client_error s \<longleftrightarrow> status_as_u16 s \<ge> 400 \<and> 500 > status_as_u16 s"

definition StatusCode_is_server_error :: "StatusCode \<Rightarrow> bool" where
  "StatusCode_is_server_error s \<longleftrightarrow> status_as_u16 s \<ge> 500 \<and> 600 > status_as_u16 s"

section \<open>What is printed is read again\<close>

lemma method_reread: "Method_from_bytes (as_bytes (Method_as_str m)) = Ok m"
  by (cases m) (simp_all add: Method_from_bytes_def Method_as_str_def as_bytes_def byte_of_char_def)

lemma method_read:
  assumes "Method_from_bytes bs = Ok m"
  shows "bs = as_bytes (Method_as_str m)"
proof -
  have two: "bs ! 0 # drop 1 bs = bs" "bs ! 0 # bs ! 1 # drop 2 bs = bs" if "3 \<le> length bs"
    using that by (cases bs; cases "tl bs"; simp)+
  show ?thesis using assms two
    by (auto simp: Method_from_bytes_def Method_as_str_def as_bytes_def byte_of_char_def split: if_splits)
qed

lemma version_reread: "Version_try_from (Version_as_str v) = Ok v"
  by (cases v) (simp_all add: Version_try_from_def Version_as_str_def)

lemma status_reread:
  assumes "100 \<le> n" "n < 1000"
  shows "StatusCode_from_bytes (StatusCode_as_bytes (StatusCode n)) = Ok (StatusCode n)"
proof -
  have range: "100 \<le> unat n" "unat n < 1000" using assms by (simp_all add: word_le_nat_alt word_less_nat_alt)
  have narrow: "ucast (ucast x :: u8) = x" if "unat x < 256" for x :: u16
    using that by (simp add: word_unat_eq_iff unsigned_ucast_eq unsigned_take_bit_eq take_bit_nat_eq_self)
  have digits: "unat (n div 100) = unat n div 100" "unat (n mod 100 div 10) = unat n mod 100 div 10"
    "unat (n mod 10) = unat n mod 10"
    by (simp_all add: unat_div unat_mod)
  have "unat (n div 100 * 100 + n mod 100 div 10 * 10 + n mod 10) = unat n"
  proof -
    have "k div 100 * 100 + k mod 100 div 10 * 10 + k mod 10 = k" for k :: nat
    proof -
      have "k mod 100 mod 10 = k mod 10" by (rule mod_mod_cancel) simp
      then have "k mod 100 div 10 * 10 + k mod 10 = k mod 100" by (metis div_mult_mod_eq)
      then show ?thesis by (metis add.assoc div_mult_mod_eq)
    qed
    then show ?thesis using range digits by (simp add: unat_word_ariths)
  qed
  then have "n div 100 * 100 + n mod 100 div 10 * 10 + n mod 10 = n" by (simp only: word_unat_eq_iff)
  moreover have "n div 100 \<noteq> 0" "n div 100 \<le> 9" "n mod 100 div 10 \<le> 9" "n mod 10 \<le> 9"
    using range by (auto simp: word_le_nat_alt word_unat_eq_iff digits)
  ultimately show ?thesis
    using range by (simp add: StatusCode_from_bytes_def StatusCode_as_bytes_def Let_def narrow digits not_less)
qed

end
