(* ===== verification/Uri.thy ===== *)
theory Uri
  imports Headers
begin

text \<open>
  URIs (\<open>ylong_http/src/request/uri/mod.rs\<close>): parsing, printing and the builder. The parser works on
  bytes and turns parts of them into strings without a check, so that a string is its bytes. The
  conversions from \<open>str\<close> and byte slices call the \<open>from_bytes\<close> functions.
\<close>

section \<open>Types\<close>

datatype Protocol = Http | Https

datatype Scheme = Scheme (scheme_proto: Protocol)

datatype Host = Host (host_str: string)

datatype Port = Port (port_str: string)

record Authority =
  au_host :: Host
  au_port :: "Port option"

datatype Path = Path (path_str: string)

datatype Query = Query (query_str: string)

record Uri =
  uri_scheme :: "Scheme option"
  uri_authority :: "Authority option"
  uri_path :: "Path option"
  uri_query :: "Query option"

definition MAX_URI_LEN :: nat where
  "MAX_URI_LEN = 65534"

definition URI_VALUE_BYTES :: "bool list" where
  "URI_VALUE_BYTES = (let xx = False; TT = True in [
     xx, xx, xx, xx, xx, xx, xx, xx, xx, xx, xx, xx, xx, xx, xx, xx,
     xx, xx, xx, xx, xx, xx, xx, xx, xx, xx, xx, xx, xx, xx, xx, xx,
     xx, TT, xx, TT, TT, TT, TT, TT, TT, TT, TT, TT, TT, TT, TT, TT,
     TT, TT, TT, TT, TT, TT, TT, TT, TT, TT, TT, TT, xx, TT, xx, TT,
     TT, TT, TT, TT, TT, TT, TT, TT, TT, TT, TT, TT, TT, TT, TT, TT,
     TT, TT, TT, TT, TT, TT, TT, TT, TT, TT, TT, TT, xx, TT, xx, TT,
     xx, TT, TT, TT, TT, TT, TT, TT, TT, TT, TT, TT, TT, TT, TT, TT,
     TT, TT, TT, TT, TT, TT, TT, TT, TT, TT, TT, xx, xx, xx, TT, xx,
     xx, xx, xx, xx, xx, xx, xx, xx, xx, xx, xx, xx, xx, xx, xx, xx,
     xx, xx, xx, xx, xx, xx, xx, xx, xx, xx, xx, xx, xx, xx, xx, xx,
     xx, xx, xx, xx, xx, xx, xx, xx, xx, xx, xx, xx, xx, xx, xx, xx,
     xx, xx, xx, xx, xx, xx, xx, xx, xx, xx, xx, xx, xx, xx, xx, xx,
     xx, xx, xx, xx, xx, xx, xx, xx, xx, xx, xx, xx, xx, xx, xx, xx,
     xx, xx, xx, xx, xx, xx, xx, xx, xx, xx, xx, xx, xx, xx, xx, xx,
     xx, xx, xx, xx, xx, xx, xx, xx, xx, xx, xx, xx, xx, xx, xx, xx,
     xx, xx, xx, xx, xx, xx, xx, xx, xx, xx, xx, xx, xx, xx, xx, xx])"

definition PATH_AND_QUERY_BYTES :: "bool list" where
  "PATH_AND_QUERY_BYTES = (let xx = False; TT = True in [
     xx, xx, xx, xx, xx, xx, xx, xx, xx, xx, xx, xx, xx, xx, xx, xx,
     xx, xx, xx, xx, xx, xx, xx, xx, xx, xx, xx, xx, xx, xx, xx, xx,
     xx, TT, xx, xx, TT, TT, TT, TT, TT, TT, TT, TT, TT, TT, TT, TT,
     TT, TT, TT, TT, TT, TT, TT, TT, TT, TT, TT, TT, xx, TT, xx, xx,
     TT, TT, TT, TT, TT, TT, TT, TT, TT, TT, TT, TT, TT, TT, TT, TT,
     TT, TT, TT, TT, TT, TT, TT, TT, TT, TT, TT, TT, TT, TT, TT, TT,
     xx, TT, TT, TT, TT, TT, TT, TT, TT, TT, TT, TT, TT, TT, TT, TT,
     TT, TT, TT, TT, TT, TT, TT, TT, TT, TT, TT, xx, TT, xx, TT, xx,
     xx, xx, xx, xx, xx, xx, xx, xx, xx, xx, xx, xx, xx, xx, xx, xx,
     xx, xx, xx, xx, xx, xx, xx, xx, xx, xx, xx, xx, xx, xx, xx, xx,
     xx, xx, xx, xx, xx, xx, xx, xx, xx, xx, xx, xx, xx, xx, xx, xx,
     xx, xx, xx, xx, xx, xx, xx, xx, xx, xx, xx, xx, xx, xx, xx, xx,
     xx, xx, xx, xx, xx, xx, xx, xx, xx, xx, xx, xx, xx, xx, xx, xx,
     xx, xx, xx, xx, xx, xx, xx, xx, xx, xx, xx, xx, xx, xx, xx, xx,
     xx, xx, xx, xx, xx, xx, xx, xx, xx, xx, xx, xx, xx, xx, xx, xx,
     xx, xx, xx, xx, xx, xx, xx, xx, xx, xx, xx, xx, xx, xx, xx, xx])"

section \<open>Standard functions\<close>

definition eq_ignore_ascii_case :: "bytes \<Rightarrow> bytes \<Rightarrow> bool" where
  "eq_ignore_ascii_case a b \<longleftrightarrow> map ascii_lowercase a = map ascii_lowercase b"

text \<open>The index of the first byte with a property.\<close>

fun position :: "(u8 \<Rightarrow> bool) \<Rightarrow> bytes \<Rightarrow> nat option" where
  "position p [] = None"
| "position p (b # bs) = (if p b then Some 0 else map_option Suc (position p bs))"

text \<open>The parts before and behind the last occurrence of a byte.\<close>

fun rsplit_once :: "u8 \<Rightarrow> bytes \<Rightarrow> (bytes \<times> bytes) option" where
  "rsplit_once c [] = None"
| "rsplit_once c (b # bs) =
     (case rsplit_once c bs of
        Some (x, y) \<Rightarrow> Some (b # x, y)
      | None \<Rightarrow> if b = c then Some ([], bs) else None)"

text \<open>
  \<open>str::parse::<u16>\<close>: decimal digits behind an optional plus sign, at least one, and a value that
  fits.
\<close>

fun u16_digits :: "int \<Rightarrow> bytes \<Rightarrow> int option" where
  "u16_digits n [] = Some n"
| "u16_digits n (b # bs) =
     (if 48 \<le> b \<and> b \<le> 57 then
        let n = 10 * n + (uint b - 48) in if n < 2 ^ 16 then u16_digits n bs else None
      else None)"

definition u16_from_str :: "bytes \<Rightarrow> u16 option" where
  "u16_from_str bs =
     (if bs = [] \<or> bs = [43] \<or> bs = [45] then None
      else map_option word_of_int (u16_digits 0 (if hd bs = 43 then tl bs else bs)))"

section \<open>Tokens\<close>

definition scheme_token :: "bytes \<Rightarrow> (Scheme option \<times> bytes, InvalidUri) rust_result" where
  "scheme_token bs =
     (case position (\<lambda>b. b = 58) bs of
        None \<Rightarrow> Ok (None, bs)
      | Some index \<Rightarrow>
          if index \<noteq> 0 \<and> length (drop index bs) > 2
             \<and> eq_ignore_ascii_case (take 2 (drop (index + 1) bs)) (as_bytes ''//'')
          then
            if eq_ignore_ascii_case (take index bs) (as_bytes ''http'')
            then Ok (Some (Scheme Http), drop (length ''http://'') bs)
            else if eq_ignore_ascii_case (take index bs) (as_bytes ''https'')
            then Ok (Some (Scheme Https), drop (length ''https://'') bs)
            else Err InvalidScheme
          else if index = 0 then Err InvalidScheme
          else Ok (None, bs))"

text \<open>With \<open>colon_num\<close> colons outside of brackets.\<close>

definition host_port :: "bytes \<Rightarrow> nat \<Rightarrow> (Authority, InvalidUri) rust_result" where
  "host_port auth colon_num =
     (if colon_num \<noteq> 0 then
        (case rsplit_once 58 auth of
           Some (host, port) \<Rightarrow>
             if host = [] then Err UriMissHost
             else if port = [] then Ok \<lparr>au_host = Host (from_utf8_unchecked host), au_port = None\<rparr>
             else
               (case u16_from_str port of
                  None \<Rightarrow> Err InvalidPort
                | Some _ \<Rightarrow>
                    Ok \<lparr>au_host = Host (from_utf8_unchecked host),
                        au_port = Some (Port (from_utf8_unchecked port))\<rparr>)
         | None \<Rightarrow> Err UriMissAuthority)
      else Ok \<lparr>au_host = Host (from_utf8_unchecked auth), au_port = None\<rparr>)"

definition authority_parse ::
    "bytes \<Rightarrow> nat \<Rightarrow> nat \<Rightarrow> bool \<Rightarrow> bool \<Rightarrow> (Authority option \<times> bytes, InvalidUri) rust_result" where
  "authority_parse bs end_idx colon_num left_bracket right_bracket =
     (if end_idx = 0 then Ok (None, drop end_idx bs)
      else if left_bracket \<noteq> right_bracket then Err InvalidAuthority
      else if colon_num > 1 then Err InvalidAuthority
      else
        (case host_port (take end_idx bs) colon_num of
           Ok authority \<Rightarrow> Ok (Some authority, drop end_idx bs)
         | Err e \<Rightarrow> Err e
         | Panic \<Rightarrow> Panic))"

text \<open>
  The loop yields the end of the authority, the number of colons and whether the brackets were met;
  \<open>i\<close> is the index of the next byte.
\<close>

fun authority_loop ::
    "nat \<Rightarrow> bytes \<Rightarrow> nat \<Rightarrow> bool \<Rightarrow> bool \<Rightarrow> (nat \<times> nat \<times> bool \<times> bool, InvalidUri) rust_result" where
  "authority_loop i [] colon_num left_bracket right_bracket = Ok (i, colon_num, left_bracket, right_bracket)"
| "authority_loop i (b # bs) colon_num left_bracket right_bracket =
     (if b = 47 \<or> b = 63 \<or> b = 35 then Ok (i, colon_num, left_bracket, right_bracket)
      else if b = 91 then
        if i = 0 then authority_loop (i + 1) bs colon_num True right_bracket
        else if left_bracket then Err InvalidAuthority
        else authority_loop (i + 1) bs colon_num left_bracket right_bracket
      else if b = 93 then
        if left_bracket then
          if right_bracket then Err InvalidAuthority
          else authority_loop (i + 1) bs 0 left_bracket True
        else authority_loop (i + 1) bs colon_num left_bracket right_bracket
      else if b = 64 then Err UriContainUserinfo
      else if b = 58 then authority_loop (i + 1) bs (colon_num + 1) left_bracket right_bracket
      else if \<not> URI_VALUE_BYTES ! unat b then Err InvalidByte
      else authority_loop (i + 1) bs colon_num left_bracket right_bracket)"

definition authority_token :: "bytes \<Rightarrow> (Authority option \<times> bytes, InvalidUri) rust_result" where
  "authority_token bs =
     (case authority_loop 0 bs 0 False False of
        Ok (end_idx, colon_num, left_bracket, right_bracket) \<Rightarrow>
          authority_parse bs end_idx colon_num left_bracket right_bracket
      | Err e \<Rightarrow> Err e
      | Panic \<Rightarrow> Panic)"

fun path_loop :: "nat \<Rightarrow> bytes \<Rightarrow> (nat, InvalidUri) rust_result" where
  "path_loop i [] = Ok i"
| "path_loop i (b # bs) =
     (if b = 63 \<or> b = 35 then Ok i
      else if \<not> PATH_AND_QUERY_BYTES ! unat b then Err InvalidByte
      else path_loop (i + 1) bs)"

definition path_token :: "bytes \<Rightarrow> (Path option \<times> bytes, InvalidUri) rust_result" where
  "path_token bs =
     (case path_loop 0 bs of
        Ok end_idx \<Rightarrow>
          if end_idx \<noteq> 0 then Ok (Some (Path (from_utf8_unchecked (take end_idx bs))), drop end_idx bs)
          else Ok (None, drop end_idx bs)
      | Err e \<Rightarrow> Err e
      | Panic \<Rightarrow> Panic)"

fun query_loop :: "nat \<Rightarrow> bytes \<Rightarrow> (nat, InvalidUri) rust_result" where
  "query_loop i [] = Ok i"
| "query_loop i (b # bs) =
     (if b = 35 then Ok i
      else if b = 0x3F \<or> b = 0x60 \<or> b = 0x7B \<or> b = 0x7D then query_loop (i + 1) bs
      else if \<not> PATH_AND_QUERY_BYTES ! unat b then Err InvalidByte
      else query_loop (i + 1) bs)"

definition query_token :: "bytes \<Rightarrow> (Query option, InvalidUri) rust_result" where
  "query_token bs =
     (if bs = [] then Ok None
      else
        (case query_loop 0 bs of
           Ok end_idx \<Rightarrow>
             if end_idx = 0 then Ok None
             else Ok (Some (Query (from_utf8_unchecked (take end_idx bs))))
         | Err e \<Rightarrow> Err e
         | Panic \<Rightarrow> Panic))"

definition validity_check :: "Uri \<Rightarrow> (Uri, InvalidUri) rust_result" where
  "validity_check unchecked_uri =
     (case (uri_scheme unchecked_uri, uri_authority unchecked_uri, uri_path unchecked_uri, uri_query unchecked_uri) of
        (Some _, None, _, _) \<Rightarrow> Err UriMissAuthority
      | (None, Some _, Some _, _) \<Rightarrow> Err UriMissScheme
      | (None, Some _, _, Some _) \<Rightarrow> Err UriMissScheme
      | (None, None, None, None) \<Rightarrow> Err InvalidFormat
      | _ \<Rightarrow> Ok unchecked_uri)"

section \<open>Parsing\<close>

definition into_http_error :: "('a, InvalidUri) rust_result \<Rightarrow> ('a, HttpError) rust_result" where
  "into_http_error r = (case r of Ok x \<Rightarrow> Ok x | Err e \<Rightarrow> Err (HttpError (ErrorKind_Uri e)) | Panic \<Rightarrow> Panic)"

definition Uri_rest :: "Scheme option \<Rightarrow> Authority option \<Rightarrow> Path option \<Rightarrow> bytes \<Rightarrow> (Uri, InvalidUri) rust_result" where
  "Uri_rest scheme authority path rest =
     (case (case rest of
              [] \<Rightarrow> Ok None
            | b # rest \<Rightarrow> if b = 63 then query_token rest else if b = 35 then Ok None else Err UriMissQuery) of
        Ok query \<Rightarrow>
          validity_check \<lparr>uri_scheme = scheme, uri_authority = authority, uri_path = path, uri_query = query\<rparr>
      | Err e \<Rightarrow> Err e
      | Panic \<Rightarrow> Panic)"

definition Uri_from_bytes :: "bytes \<Rightarrow> (Uri, HttpError) rust_result" where
  "Uri_from_bytes bs =
     into_http_error
       (if length bs > MAX_URI_LEN then Err UriTooLong
        else if bs = [] then Err InvalidFormat
        else
          (case scheme_token bs of
             Ok (scheme, rest) \<Rightarrow>
               (case authority_token rest of
                  Ok (authority, rest) \<Rightarrow>
                    (case path_token rest of
                       Ok (path, rest) \<Rightarrow> Uri_rest scheme authority path rest
                     | Err e \<Rightarrow> Err e
                     | Panic \<Rightarrow> Panic)
                | Err e \<Rightarrow> Err e
                | Panic \<Rightarrow> Panic)
           | Err e \<Rightarrow> Err e
           | Panic \<Rightarrow> Panic))"

definition Scheme_from_bytes :: "bytes \<Rightarrow> (Scheme, InvalidUri) rust_result" where
  "Scheme_from_bytes bs =
     (if eq_ignore_ascii_case bs (as_bytes ''http'') then Ok (Scheme Http)
      else if eq_ignore_ascii_case bs (as_bytes ''https'') then Ok (Scheme Https)
      else Err InvalidScheme)"

definition Authority_from_bytes :: "bytes \<Rightarrow> (Authority, InvalidUri) rust_result" where
  "Authority_from_bytes bs =
     (if bs = [] then Err UriMissAuthority
      else
        (case authority_token bs of
           Ok (authority, rest) \<Rightarrow>
             (case (rest, authority) of ([], Some auth) \<Rightarrow> Ok auth | _ \<Rightarrow> Err InvalidAuthority)
         | Err e \<Rightarrow> Err e
         | Panic \<Rightarrow> Panic))"

definition Path_from_bytes :: "bytes \<Rightarrow> (Path, InvalidUri) rust_result" where
  "Path_from_bytes bs =
     (case path_token bs of
        Ok (path, rest) \<Rightarrow>
          if rest = [] then (case path of Some p \<Rightarrow> Ok p | None \<Rightarrow> Err UriMissPath) else Err InvalidPath
      | Err e \<Rightarrow> Err e
      | Panic \<Rightarrow> Panic)"

definition Query_from_bytes :: "bytes \<Rightarrow> (Query, InvalidUri) rust_result" where
  "Query_from_bytes bs =
     (case query_token bs of
        Ok (Some q) \<Rightarrow> Ok q
      | Ok None \<Rightarrow> Err UriMissQuery
      | Err e \<Rightarrow> Err e
      | Panic \<Rightarrow> Panic)"

section \<open>Printing\<close>

definition Scheme_as_str :: "Scheme \<Rightarrow> string" where
  "Scheme_as_str s = (case scheme_proto s of Http \<Rightarrow> ''http'' | Https \<Rightarrow> ''https'')"

definition Scheme_default_port :: "Scheme \<Rightarrow> u16" where
  "Scheme_default_port s = (if s = Scheme Http then 80 else 443)"

definition Port_as_u16 :: "Port \<Rightarrow> (u16, HttpError) rust_result" where
  "Port_as_u16 p =
     (case u16_from_str (as_bytes (port_str p)) of
        Some n \<Rightarrow> Ok n
      | None \<Rightarrow> Err (HttpError (ErrorKind_Uri InvalidPort)))"

definition Authority_to_string :: "Authority \<Rightarrow> string" where
  "Authority_to_string a =
     host_str (au_host a) @ (case au_port a of None \<Rightarrow> [] | Some p \<Rightarrow> '':'' @ port_str p)"

definition Uri_host :: "Uri \<Rightarrow> Host option" where
  "Uri_host u = map_option au_host (uri_authority u)"

definition Uri_port :: "Uri \<Rightarrow> Port option" where
  "Uri_port u = Option.bind (uri_authority u) au_port"

definition Uri_path_and_query :: "Uri \<Rightarrow> string option" where
  "Uri_path_and_query u =
     (let builder =
        (case uri_path u of None \<Rightarrow> [] | Some p \<Rightarrow> path_str p) @
        (case uri_query u of None \<Rightarrow> [] | Some q \<Rightarrow> ''?'' @ query_str q)
      in if builder = [] then None else Some builder)"

definition Uri_to_string :: "Uri \<Rightarrow> string" where
  "Uri_to_string u =
     (case uri_scheme u of None \<Rightarrow> [] | Some s \<Rightarrow> Scheme_as_str s @ ''://'') @
     (case Uri_host u of None \<Rightarrow> [] | Some h \<Rightarrow> host_str h) @
     (case Uri_port u of None \<Rightarrow> [] | Some p \<Rightarrow> '':'' @ port_str p) @
     (case uri_path u of None \<Rightarrow> [] | Some p \<Rightarrow> path_str p) @
     (case uri_query u of None \<Rightarrow> [] | Some q \<Rightarrow> ''?'' @ query_str q)"

section \<open>The builder\<close>

record UriBuilder =
  ub_unprocessed :: "(Uri, InvalidUri) rust_result"

definition UriBuilder_new :: UriBuilder where
  "UriBuilder_new =
     \<lparr>ub_unprocessed = Ok \<lparr>uri_scheme = None, uri_authority = None, uri_path = None, uri_query = None\<rparr>\<rparr>"

text \<open>A part that is given is set, unless it or an earlier one was refused.\<close>

definition builder_set :: "('a, InvalidUri) rust_result \<Rightarrow> (Uri \<Rightarrow> 'a \<Rightarrow> Uri) \<Rightarrow> UriBuilder \<Rightarrow> UriBuilder" where
  "builder_set part set_part b =
     b\<lparr>ub_unprocessed :=
       (case ub_unprocessed b of
          Ok u \<Rightarrow> (case part of Ok x \<Rightarrow> Ok (set_part u x) | Err e \<Rightarrow> Err e | Panic \<Rightarrow> Panic)
        | Err e \<Rightarrow> Err e
        | Panic \<Rightarrow> Panic)\<rparr>"

definition UriBuilder_scheme :: "bytes \<Rightarrow> UriBuilder \<Rightarrow> UriBuilder" where
  "UriBuilder_scheme scheme = builder_set (Scheme_from_bytes scheme) (\<lambda>u x. u\<lparr>uri_scheme := Some x\<rparr>)"

definition UriBuilder_authority :: "bytes \<Rightarrow> UriBuilder \<Rightarrow> UriBuilder" where
  "UriBuilder_authority auth = builder_set (Authority_from_bytes auth) (\<lambda>u x. u\<lparr>uri_authority := Some x\<rparr>)"

definition UriBuilder_path :: "bytes \<Rightarrow> UriBuilder \<Rightarrow> UriBuilder" where
  "UriBuilder_path path = builder_set (Path_from_bytes path) (\<lambda>u x. u\<lparr>uri_path := Some x\<rparr>)"

definition UriBuilder_query :: "bytes \<Rightarrow> UriBuilder \<Rightarrow> UriBuilder" where
  "UriBuilder_query query = builder_set (Query_from_bytes query) (\<lambda>u x. u\<lparr>uri_query := Some x\<rparr>)"

definition UriBuilder_build :: "UriBuilder \<Rightarrow> (Uri, HttpError) rust_result" where
  "UriBuilder_build b =
     into_http_error (case ub_unprocessed b of Ok u \<Rightarrow> validity_check u | Err e \<Rightarrow> Err e | Panic \<Rightarrow> Panic)"

end
