(* ===== verification/H1_Request.thy ===== *)
theory H1_Request
  imports Http_Message Uri
begin

text \<open>
  The encoder of request heads (\<open>ylong_http/src/h1/request/encoder.rs\<close>). A buffer to fill is its length;
  what an operation writes to its front is part of the result. The fields of the header map come as a
  list in the order in which the map yields them.
\<close>

section \<open>State\<close>

record RequestPart =
  rp_method :: Method
  rp_uri :: Uri
  rp_version :: Version
  rp_headers :: "(HeaderName \<times> HeaderValue) list"

datatype EncodeState =
    State_Method | State_MethodSp | State_Uri | State_UriSp | State_Version | State_VersionCrlf
  | State_Header | State_HeaderCrlf | State_EncodeFinished

text \<open>The bytes written now, and whether a component is complete.\<close>

datatype TokenStatus = Complete bytes | Unfinished bytes

type_synonym token_result = "(TokenStatus, HttpError) rust_result"

record EncodeMethod =
  em_inner :: Method
  em_src_idx :: nat

record EncodeUri =
  eu_origin :: bytes
  eu_absolute :: "bytes option"
  eu_raw :: Uri
  eu_src_idx :: nat
  eu_is_absolute :: bool

record EncodeVersion =
  ev_inner :: Version
  ev_src_idx :: nat

datatype HeaderStatus = Status_Name | Status_Colon | Status_Value | Status_Crlf nat | Status_EmptyHeader

record EncodeHeader =
  eh_inner :: "(HeaderName \<times> HeaderValue) list"
  eh_status :: "HeaderStatus option"
  eh_name :: HeaderName
  eh_value :: bytes
  eh_name_idx :: nat
  eh_colon_idx :: nat
  eh_value_idx :: nat

record RequestEncoder =
  re_encode_status :: EncodeState
  re_method_part :: EncodeMethod
  re_method_sp_part :: nat
  re_uri_part :: EncodeUri
  re_uri_sp_part :: nat
  re_version_part :: EncodeVersion
  re_version_crlf_part :: nat
  re_headers_part :: EncodeHeader
  re_headers_crlf_part :: nat
  re_is_absolute_uri :: bool

section \<open>Components\<close>

text \<open>
  \<open>WriteData::write\<close>: the index moves only when the component does not fit. An index behind the end of
  the source is an underflow.
\<close>

definition write_data :: "bytes \<Rightarrow> nat \<Rightarrow> nat \<Rightarrow> nat \<times> token_result" where
  "write_data src src_idx dst =
     (if src_idx > length src then (src_idx, Panic)
      else
        let input_len = length src - src_idx;
            written = take dst (drop src_idx src)
        in if dst \<ge> input_len then (src_idx, Ok (Complete written))
           else (src_idx + length written, Ok (Unfinished written)))"

definition origin_form :: "Uri \<Rightarrow> bytes" where
  "origin_form uri =
     (if uri_path uri = None \<and> uri_query uri = None then as_bytes ''/''
      else
        (case uri_path uri of None \<Rightarrow> [] | Some p \<Rightarrow> as_bytes (path_str p)) @
        (case uri_query uri of None \<Rightarrow> [] | Some q \<Rightarrow> [63] @ as_bytes (query_str q)))"

definition absolute_form :: "Uri \<Rightarrow> bytes" where
  "absolute_form uri =
     (case uri_scheme uri of None \<Rightarrow> [] | Some s \<Rightarrow> as_bytes (Scheme_as_str s) @ as_bytes ''://'') @
     (case Uri_host uri of None \<Rightarrow> [] | Some h \<Rightarrow> as_bytes (host_str h)) @
     (case Uri_port uri of None \<Rightarrow> [] | Some p \<Rightarrow> [58] @ as_bytes (port_str p)) @
     (case uri_path uri of None \<Rightarrow> [] | Some p \<Rightarrow> as_bytes (path_str p)) @
     (case uri_query uri of None \<Rightarrow> [] | Some q \<Rightarrow> [63] @ as_bytes (query_str q))"

definition EncodeMethod_new :: "Method \<Rightarrow> EncodeMethod" where
  "EncodeMethod_new m = \<lparr>em_inner = m, em_src_idx = 0\<rparr>"

definition EncodeMethod_encode :: "EncodeMethod \<Rightarrow> nat \<Rightarrow> EncodeMethod \<times> token_result" where
  "EncodeMethod_encode e buf =
     (case write_data (as_bytes (Method_as_str (em_inner e))) (em_src_idx e) buf of
        (i, r) \<Rightarrow> (e\<lparr>em_src_idx := i\<rparr>, r))"

definition EncodeUri_new :: "Uri \<Rightarrow> bool \<Rightarrow> EncodeUri" where
  "EncodeUri_new uri is_absolute =
     \<lparr>eu_origin = origin_form uri, eu_absolute = None, eu_raw = uri, eu_src_idx = 0, eu_is_absolute = is_absolute\<rparr>"

text \<open>The absolute form is computed when it is first needed.\<close>

definition EncodeUri_encode :: "EncodeUri \<Rightarrow> nat \<Rightarrow> EncodeUri \<times> token_result" where
  "EncodeUri_encode e buf =
     (let e = (if eu_is_absolute e \<and> eu_absolute e = None then e\<lparr>eu_absolute := Some (absolute_form (eu_raw e))\<rparr> else e);
          uri = (case (eu_is_absolute e, eu_absolute e) of (True, Some a) \<Rightarrow> a | _ \<Rightarrow> eu_origin e)
      in case write_data uri (eu_src_idx e) buf of (i, r) \<Rightarrow> (e\<lparr>eu_src_idx := i\<rparr>, r))"

definition EncodeVersion_new :: "Version \<Rightarrow> EncodeVersion" where
  "EncodeVersion_new v = \<lparr>ev_inner = v, ev_src_idx = 0\<rparr>"

definition EncodeVersion_encode :: "EncodeVersion \<Rightarrow> nat \<Rightarrow> EncodeVersion \<times> token_result" where
  "EncodeVersion_encode e buf =
     (case write_data (as_bytes (Version_as_str (ev_inner e))) (ev_src_idx e) buf of
        (i, r) \<Rightarrow> (e\<lparr>ev_src_idx := i\<rparr>, r))"

definition EncodeSp_encode :: "nat \<Rightarrow> nat \<Rightarrow> nat \<times> token_result" where
  "EncodeSp_encode src_idx buf = write_data [32] src_idx buf"

definition crlf_encode :: "nat \<Rightarrow> nat \<Rightarrow> nat \<times> token_result" where
  "crlf_encode src_idx buf = write_data [13, 10] src_idx buf"

section \<open>Header fields\<close>

text \<open>Without a field the name is never written; the code parses a blank to have one.\<close>

definition EncodeHeader_new :: "(HeaderName \<times> HeaderValue) list \<Rightarrow> EncodeHeader" where
  "EncodeHeader_new header =
     (case header of
        (name, value) # header_iter \<Rightarrow>
          \<lparr>eh_inner = header_iter, eh_status = Some Status_Name, eh_name = name, eh_value = HeaderValue_to_vec value,
           eh_name_idx = 0, eh_colon_idx = 0, eh_value_idx = 0\<rparr>
      | [] \<Rightarrow>
          \<lparr>eh_inner = [], eh_status = Some Status_EmptyHeader, eh_name = HeaderName '' '', eh_value = [],
           eh_name_idx = 0, eh_colon_idx = 0, eh_value_idx = 0\<rparr>)"

definition encode_name :: "EncodeHeader \<Rightarrow> nat \<Rightarrow> EncodeHeader \<times> token_result" where
  "encode_name e buf =
     (case write_data (HeaderName_as_bytes (eh_name e)) (eh_name_idx e) buf of
        (i, Ok (Complete w)) \<Rightarrow> (e\<lparr>eh_name_idx := i, eh_status := Some Status_Colon\<rparr>, Ok (Unfinished w))
      | (i, Ok (Unfinished w)) \<Rightarrow> (e\<lparr>eh_name_idx := i, eh_status := Some Status_Name\<rparr>, Ok (Unfinished w))
      | (i, r) \<Rightarrow> (e\<lparr>eh_name_idx := i\<rparr>, r))"

definition encode_colon :: "EncodeHeader \<Rightarrow> nat \<Rightarrow> EncodeHeader \<times> token_result" where
  "encode_colon e buf =
     (case write_data [58] (eh_colon_idx e) buf of
        (i, Ok (Complete w)) \<Rightarrow> (e\<lparr>eh_colon_idx := i, eh_status := Some Status_Value\<rparr>, Ok (Unfinished w))
      | (i, Ok (Unfinished w)) \<Rightarrow> (e\<lparr>eh_colon_idx := i, eh_status := Some Status_Colon\<rparr>, Ok (Unfinished w))
      | (i, r) \<Rightarrow> (e\<lparr>eh_colon_idx := i\<rparr>, r))"

definition encode_value :: "EncodeHeader \<Rightarrow> nat \<Rightarrow> EncodeHeader \<times> token_result" where
  "encode_value e buf =
     (case write_data (eh_value e) (eh_value_idx e) buf of
        (i, Ok (Complete w)) \<Rightarrow> (e\<lparr>eh_value_idx := i, eh_status := Some (Status_Crlf 0)\<rparr>, Ok (Unfinished w))
      | (i, Ok (Unfinished w)) \<Rightarrow> (e\<lparr>eh_value_idx := i, eh_status := Some Status_Value\<rparr>, Ok (Unfinished w))
      | (i, r) \<Rightarrow> (e\<lparr>eh_value_idx := i\<rparr>, r))"

definition encode_crlf :: "EncodeHeader \<Rightarrow> nat \<Rightarrow> nat \<Rightarrow> EncodeHeader \<times> token_result" where
  "encode_crlf e buf crlf =
     (case crlf_encode crlf buf of
        (i, Ok (Complete w)) \<Rightarrow>
          (case eh_inner e of
             (name, value) # header_iter \<Rightarrow>
               (e\<lparr>eh_inner := header_iter, eh_status := Some Status_Name, eh_name := name,
                  eh_value := HeaderValue_to_vec value, eh_name_idx := 0, eh_colon_idx := 0, eh_value_idx := 0\<rparr>,
                Ok (Unfinished w))
           | [] \<Rightarrow> (e, Ok (Complete w)))
      | (i, Ok (Unfinished w)) \<Rightarrow> (e\<lparr>eh_status := Some (Status_Crlf i)\<rparr>, Ok (Unfinished w))
      | (i, r) \<Rightarrow> (e, r))"

text \<open>The status is taken out and put back; without one \<open>unwrap\<close> panics.\<close>

definition EncodeHeader_encode :: "EncodeHeader \<Rightarrow> nat \<Rightarrow> EncodeHeader \<times> token_result" where
  "EncodeHeader_encode e buf =
     (let status = eh_status e;
          e = e\<lparr>eh_status := None\<rparr>
      in case status of
           None \<Rightarrow> (e, Panic)
         | Some Status_Name \<Rightarrow> encode_name e buf
         | Some Status_Colon \<Rightarrow> encode_colon e buf
         | Some Status_Value \<Rightarrow> encode_value e buf
         | Some (Status_Crlf crlf) \<Rightarrow> encode_crlf e buf crlf
         | Some Status_EmptyHeader \<Rightarrow> (e, Ok (Complete [])))"

section \<open>The request head\<close>

definition RequestEncoder_new :: "RequestPart \<Rightarrow> RequestEncoder" where
  "RequestEncoder_new part =
     \<lparr>re_encode_status = State_Method, re_method_part = EncodeMethod_new (rp_method part), re_method_sp_part = 0,
      re_uri_part = EncodeUri_new (rp_uri part) False, re_uri_sp_part = 0,
      re_version_part = EncodeVersion_new (rp_version part), re_version_crlf_part = 0,
      re_headers_part = EncodeHeader_new (rp_headers part), re_headers_crlf_part = 0, re_is_absolute_uri = False\<rparr>"

definition absolute_uri :: "RequestEncoder \<Rightarrow> bool \<Rightarrow> RequestEncoder" where
  "absolute_uri e is_absolute = e\<lparr>re_is_absolute_uri := is_absolute\<rparr>"

text \<open>A component that is complete moves the encoder on; \<open>now\<close> and \<open>then_state\<close> are the two states.\<close>

definition token_status ::
    "EncodeState \<Rightarrow> EncodeState \<Rightarrow> RequestEncoder \<times> token_result \<Rightarrow> RequestEncoder \<times> (bytes, HttpError) rust_result" where
  "token_status now then_state p =
     (case p of
        (e, Ok (Complete w)) \<Rightarrow> (e\<lparr>re_encode_status := then_state\<rparr>, Ok w)
      | (e, Ok (Unfinished w)) \<Rightarrow> (e\<lparr>re_encode_status := now\<rparr>, Ok w)
      | (e, Err x) \<Rightarrow> (e, Err x)
      | (e, Panic) \<Rightarrow> (e, Panic))"

definition method_encode :: "RequestEncoder \<Rightarrow> nat \<Rightarrow> RequestEncoder \<times> (bytes, HttpError) rust_result" where
  "method_encode e dst =
     token_status State_Method State_MethodSp
       (case EncodeMethod_encode (re_method_part e) dst of (p, r) \<Rightarrow> (e\<lparr>re_method_part := p\<rparr>, r))"

definition method_sp_encode :: "RequestEncoder \<Rightarrow> nat \<Rightarrow> RequestEncoder \<times> (bytes, HttpError) rust_result" where
  "method_sp_encode e dst =
     (case EncodeSp_encode (re_method_sp_part e) dst of
        (i, Ok (Complete w)) \<Rightarrow>
          (e\<lparr>re_method_sp_part := i, re_uri_part := (re_uri_part e)\<lparr>eu_is_absolute := re_is_absolute_uri e\<rparr>,
             re_encode_status := State_Uri\<rparr>, Ok w)
      | (i, Ok (Unfinished w)) \<Rightarrow> (e\<lparr>re_method_sp_part := i, re_encode_status := State_MethodSp\<rparr>, Ok w)
      | (i, Err x) \<Rightarrow> (e\<lparr>re_method_sp_part := i\<rparr>, Err x)
      | (i, Panic) \<Rightarrow> (e\<lparr>re_method_sp_part := i\<rparr>, Panic))"

definition uri_encode :: "RequestEncoder \<Rightarrow> nat \<Rightarrow> RequestEncoder \<times> (bytes, HttpError) rust_result" where
  "uri_encode e dst =
     token_status State_Uri State_UriSp
       (case EncodeUri_encode (re_uri_part e) dst of (p, r) \<Rightarrow> (e\<lparr>re_uri_part := p\<rparr>, r))"

definition uri_sp_encode :: "RequestEncoder \<Rightarrow> nat \<Rightarrow> RequestEncoder \<times> (bytes, HttpError) rust_result" where
  "uri_sp_encode e dst =
     token_status State_UriSp State_Version
       (case EncodeSp_encode (re_uri_sp_part e) dst of (i, r) \<Rightarrow> (e\<lparr>re_uri_sp_part := i\<rparr>, r))"

definition version_encode :: "RequestEncoder \<Rightarrow> nat \<Rightarrow> RequestEncoder \<times> (bytes, HttpError) rust_result" where
  "version_encode e dst =
     token_status State_Version State_VersionCrlf
       (case EncodeVersion_encode (re_version_part e) dst of (p, r) \<Rightarrow> (e\<lparr>re_version_part := p\<rparr>, r))"

definition version_crlf_encode :: "RequestEncoder \<Rightarrow> nat \<Rightarrow> RequestEncoder \<times> (bytes, HttpError) rust_result" where
  "version_crlf_encode e dst =
     token_status State_VersionCrlf State_Header
       (case crlf_encode (re_version_crlf_part e) dst of (i, r) \<Rightarrow> (e\<lparr>re_version_crlf_part := i\<rparr>, r))"

definition header_encode :: "RequestEncoder \<Rightarrow> nat \<Rightarrow> RequestEncoder \<times> (bytes, HttpError) rust_result" where
  "header_encode e dst =
     token_status State_Header State_HeaderCrlf
       (case EncodeHeader_encode (re_headers_part e) dst of (p, r) \<Rightarrow> (e\<lparr>re_headers_part := p\<rparr>, r))"

definition header_crlf_encode :: "RequestEncoder \<Rightarrow> nat \<Rightarrow> RequestEncoder \<times> (bytes, HttpError) rust_result" where
  "header_crlf_encode e dst =
     token_status State_HeaderCrlf State_EncodeFinished
       (case crlf_encode (re_headers_crlf_part e) dst of (i, r) \<Rightarrow> (e\<lparr>re_headers_crlf_part := i\<rparr>, r))"

definition encode_step :: "RequestEncoder \<Rightarrow> nat \<Rightarrow> RequestEncoder \<times> (bytes, HttpError) rust_result" where
  "encode_step e dst =
     (case re_encode_status e of
        State_Method \<Rightarrow> method_encode e dst
      | State_MethodSp \<Rightarrow> method_sp_encode e dst
      | State_Uri \<Rightarrow> uri_encode e dst
      | State_UriSp \<Rightarrow> uri_sp_encode e dst
      | State_Version \<Rightarrow> version_encode e dst
      | State_VersionCrlf \<Rightarrow> version_crlf_encode e dst
      | State_Header \<Rightarrow> header_encode e dst
      | State_HeaderCrlf \<Rightarrow> header_crlf_encode e dst
      | State_EncodeFinished \<Rightarrow> (e, Ok []))"

text \<open>
  The loop of \<open>encode\<close> ends: a step that writes nothing completes a component, and there are finitely many of
  them. \<open>header_rank\<close> and \<open>encoder_rank\<close> count the components that are left.
\<close>

definition header_rank :: "EncodeHeader \<Rightarrow> nat" where
  "header_rank h =
     5 * length (eh_inner h) +
     (case eh_status h of
        Some Status_Name \<Rightarrow> 4
      | Some Status_Colon \<Rightarrow> 3
      | Some Status_Value \<Rightarrow> 2
      | Some (Status_Crlf _) \<Rightarrow> 1
      | Some Status_EmptyHeader \<Rightarrow> 1
      | None \<Rightarrow> 0)"

definition encoder_rank :: "RequestEncoder \<Rightarrow> nat" where
  "encoder_rank e =
     header_rank (re_headers_part e) +
     (case re_encode_status e of
        State_Method \<Rightarrow> 8
      | State_MethodSp \<Rightarrow> 7
      | State_Uri \<Rightarrow> 6
      | State_UriSp \<Rightarrow> 5
      | State_Version \<Rightarrow> 4
      | State_VersionCrlf \<Rightarrow> 3
      | State_Header \<Rightarrow> 2
      | State_HeaderCrlf \<Rightarrow> 1
      | State_EncodeFinished \<Rightarrow> 0)"

lemma write_data_cases:
  obtains (panics) "write_data src i n = (i, Panic)" "length src < i"
  | (completes) "write_data src i n = (i, Ok (Complete (drop i src)))" "i \<le> length src" "length src - i \<le> n"
  | (continues) "write_data src i n = (i + n, Ok (Unfinished (take n (drop i src))))" "n < length src - i" "i \<le> length src"
  by (cases "i > length src"; cases "length src - i \<le> n") (auto simp: write_data_def Let_def not_less)

lemma header_encode_rank:
  assumes "EncodeHeader_encode h n = (h', Ok t)" "n > 0"
  shows "(\<exists>w. t = Complete w \<and> header_rank h' \<le> header_rank h)
    \<or> (\<exists>w. t = Unfinished w \<and> (w \<noteq> [] \<or> header_rank h' < header_rank h))"
proof (cases "eh_status h")
  case None
  then show ?thesis using assms by (simp add: EncodeHeader_encode_def)
next
  case (Some st)
  show ?thesis
  proof (cases st)
    case Status_Name
    then show ?thesis using assms Some
      by (rule_tac write_data_cases [of "HeaderName_as_bytes (eh_name h)" "eh_name_idx h" n])
        (auto simp: EncodeHeader_encode_def encode_name_def header_rank_def Let_def)
  next
    case Status_Colon
    then show ?thesis using assms Some
      by (rule_tac write_data_cases [of "[58]" "eh_colon_idx h" n])
        (auto simp: EncodeHeader_encode_def encode_colon_def header_rank_def Let_def)
  next
    case Status_Value
    then show ?thesis using assms Some
      by (rule_tac write_data_cases [of "eh_value h" "eh_value_idx h" n])
        (auto simp: EncodeHeader_encode_def encode_value_def header_rank_def Let_def)
  next
    case (Status_Crlf i)
    then show ?thesis using assms Some
      by (rule_tac write_data_cases [of "[13, 10]" i n])
        (auto simp: EncodeHeader_encode_def encode_crlf_def crlf_encode_def header_rank_def Let_def
          split: list.splits prod.splits)
  next
    case Status_EmptyHeader
    then show ?thesis using assms Some by (auto simp: EncodeHeader_encode_def header_rank_def Let_def)
  qed
qed

lemma token_status_rank:
  assumes "token_status now then_state (case write_data src i n of (j, r) \<Rightarrow> (f j, r)) = (e', Ok w)" "n > 0"
    and "\<And>j. encoder_rank ((f j)\<lparr>re_encode_status := then_state\<rparr>) < r"
  shows "w \<noteq> [] \<or> encoder_rank e' < r"
  using assms by (cases rule: write_data_cases [of src i n]) (auto simp: token_status_def)

lemma encode_step_rank:
  assumes "encode_step e n = (e', Ok w)" "n > 0" "re_encode_status e \<noteq> State_EncodeFinished"
  shows "w \<noteq> [] \<or> encoder_rank e' < encoder_rank e"
proof (cases "re_encode_status e")
  case State_Method
  then show ?thesis using assms(1)
    by (intro token_status_rank [OF _ assms(2), where now = State_Method and then_state = State_MethodSp and
          src = "as_bytes (Method_as_str (em_inner (re_method_part e)))" and i = "em_src_idx (re_method_part e)" and
          f = "\<lambda>j. e\<lparr>re_method_part := (re_method_part e)\<lparr>em_src_idx := j\<rparr>\<rparr>"])
      (auto simp: encode_step_def method_encode_def EncodeMethod_encode_def encoder_rank_def case_prod_unfold)
next
  case State_MethodSp
  then show ?thesis using assms(1,2)
    by (cases rule: write_data_cases [of "[32]" "re_method_sp_part e" n])
      (auto simp: encode_step_def method_sp_encode_def EncodeSp_encode_def encoder_rank_def)
next
  case State_Uri
  let ?u = "if eu_is_absolute (re_uri_part e) \<and> eu_absolute (re_uri_part e) = None
    then (re_uri_part e)\<lparr>eu_absolute := Some (absolute_form (eu_raw (re_uri_part e)))\<rparr> else re_uri_part e"
  from State_Uri show ?thesis using assms(1)
    by (intro token_status_rank [OF _ assms(2), where now = State_Uri and then_state = State_UriSp and
          src = "case (eu_is_absolute ?u, eu_absolute ?u) of (True, Some a) \<Rightarrow> a | _ \<Rightarrow> eu_origin ?u" and i = "eu_src_idx ?u" and
          f = "\<lambda>j. e\<lparr>re_uri_part := ?u\<lparr>eu_src_idx := j\<rparr>\<rparr>"])
      (auto simp: encode_step_def uri_encode_def EncodeUri_encode_def encoder_rank_def Let_def case_prod_unfold)
next
  case State_UriSp
  then show ?thesis using assms(1)
    by (intro token_status_rank [OF _ assms(2), where now = State_UriSp and then_state = State_Version and
          src = "[32]" and i = "re_uri_sp_part e" and f = "\<lambda>j. e\<lparr>re_uri_sp_part := j\<rparr>"])
      (auto simp: encode_step_def uri_sp_encode_def EncodeSp_encode_def encoder_rank_def)
next
  case State_Version
  then show ?thesis using assms(1)
    by (intro token_status_rank [OF _ assms(2), where now = State_Version and then_state = State_VersionCrlf and
          src = "as_bytes (Version_as_str (ev_inner (re_version_part e)))" and i = "ev_src_idx (re_version_part e)" and
          f = "\<lambda>j. e\<lparr>re_version_part := (re_version_part e)\<lparr>ev_src_idx := j\<rparr>\<rparr>"])
      (auto simp: encode_step_def version_encode_def EncodeVersion_encode_def encoder_rank_def case_prod_unfold)
next
  case State_VersionCrlf
  then show ?thesis using assms(1)
    by (intro token_status_rank [OF _ assms(2), where now = State_VersionCrlf and then_state = State_Header and
          src = "[13, 10]" and i = "re_version_crlf_part e" and f = "\<lambda>j. e\<lparr>re_version_crlf_part := j\<rparr>"])
      (auto simp: encode_step_def version_crlf_encode_def crlf_encode_def encoder_rank_def)
next
  case State_Header
  obtain h' r where h: "EncodeHeader_encode (re_headers_part e) n = (h', r)" by force
  then obtain t where "r = Ok t" using assms(1) State_Header
    by (cases r) (auto simp: encode_step_def header_encode_def token_status_def)
  with header_encode_rank [of "re_headers_part e" n h' t] h assms State_Header show ?thesis
    by (auto simp: encode_step_def header_encode_def token_status_def encoder_rank_def split: TokenStatus.splits)
next
  case State_HeaderCrlf
  then show ?thesis using assms(1)
    by (intro token_status_rank [OF _ assms(2), where now = State_HeaderCrlf and then_state = State_EncodeFinished and
          src = "[13, 10]" and i = "re_headers_crlf_part e" and f = "\<lambda>j. e\<lparr>re_headers_crlf_part := j\<rparr>"])
      (auto simp: encode_step_def header_crlf_encode_def crlf_encode_def encoder_rank_def)
qed (use assms(3) in simp)

text \<open>\<open>dst\<close> is the length of the rest of the buffer.\<close>

function encode_loop :: "RequestEncoder \<Rightarrow> nat \<Rightarrow> bytes \<Rightarrow> RequestEncoder \<times> (bytes, HttpError) rust_result" where
  "encode_loop e dst out =
     (if dst = 0 then (e, Ok out)
      else if re_encode_status e = State_EncodeFinished then (e, Ok out)
      else
        (case encode_step e dst of
           (e, Ok w) \<Rightarrow> encode_loop e (dst - length w) (out @ w)
         | (e, Err x) \<Rightarrow> (e, Err x)
         | (e, Panic) \<Rightarrow> (e, Panic)))"
  by pat_completeness auto

termination
proof (relation "inv_image (less_than <*lex*> less_than) (\<lambda>(e, dst, out). (dst, encoder_rank e))", goal_cases)
  case (2 e dst out)
  then show ?case using encode_step_rank [of e dst] by (metis (no_types, lifting) Pair_inject case_prod_conv
      diff_less in_inv_image in_lex_prod length_greater_0_conv less_than_iff list.size(3) minus_nat.diff_0 not_gr_zero)
qed (simp add: wf_lex_prod)

declare encode_loop.simps [simp del]

definition RequestEncoder_encode :: "RequestEncoder \<Rightarrow> nat \<Rightarrow> RequestEncoder \<times> (bytes, HttpError) rust_result" where
  "RequestEncoder_encode e dst =
     (if dst = 0 then (e, Err (HttpError InvalidInput)) else encode_loop e dst [])"

end
