(* ===== verification/Uri_Roundtrip.thy ===== *)
theory Uri_Roundtrip
  imports Uri
begin

text \<open>
  What the parser of URIs has read it reads again from the printed URI. The lemmas describe each token
  by the bytes in front of the byte that ends it.
\<close>

section \<open>Tokens end at a separator\<close>

definition stops :: "bytes \<Rightarrow> bool" where
  "stops bs \<longleftrightarrow> bs = [] \<or> hd bs = 47 \<or> hd bs = 63 \<or> hd bs = 35"

lemma authority_loop_append:
  "\<not> (\<exists>b \<in> set p. b = 47 \<or> b = 63 \<or> b = 35) \<Longrightarrow>
   authority_loop i (p @ q) c l r =
     (case authority_loop i p c l r of
        Ok (e, c, l, r) \<Rightarrow> authority_loop e q c l r
      | Err e \<Rightarrow> Err e
      | Panic \<Rightarrow> Panic)"
  by (induction p arbitrary: i c l r) simp_all

lemma authority_loop_stop: "stops q \<Longrightarrow> authority_loop i q c l r = Ok (i, c, l, r)"
  by (cases q) (auto simp: stops_def)

lemma authority_loop_split:
  "authority_loop i bs c l r = Ok (e, c', l', r') \<Longrightarrow>
   \<exists>p q. bs = p @ q \<and> e = i + length p \<and> stops q \<and> \<not> (\<exists>b \<in> set p. b = 47 \<or> b = 63 \<or> b = 35)
     \<and> authority_loop i p c l r = Ok (e, c', l', r')"
proof (induction bs arbitrary: i c l r)
  case Nil
  then show ?case by (simp add: stops_def)
next
  case (Cons b bs)
  show ?case
  proof (cases "b = 47 \<or> b = 63 \<or> b = 35")
    case True
    then show ?thesis using Cons.prems by (intro exI [of _ "[]"] exI [of _ "b # bs"]) (auto simp: stops_def)
  next
    case False
    then obtain c1 l1 r1 where next_loop: "\<And>bs. authority_loop i (b # bs) c l r = authority_loop (i + 1) bs c1 l1 r1"
      using Cons.prems by (auto split: if_splits)
    from Cons.prems have "authority_loop (i + 1) bs c1 l1 r1 = Ok (e, c', l', r')" by (simp only: next_loop)
    from Cons.IH [OF this] obtain p q where "bs = p @ q" "e = i + 1 + length p" "stops q"
      "\<not> (\<exists>b \<in> set p. b = 47 \<or> b = 63 \<or> b = 35)" "authority_loop (i + 1) p c1 l1 r1 = Ok (e, c', l', r')"
      by blast
    with False show ?thesis
      by (intro exI [of _ "b # p"] exI [of _ q]) (simp add: next_loop del: authority_loop.simps)
  qed
qed

lemma path_loop_eq:
  "path_loop i bs =
     (let p = takeWhile (\<lambda>b. b \<noteq> 63 \<and> b \<noteq> 35) bs
      in if list_all (\<lambda>b. PATH_AND_QUERY_BYTES ! unat b) p then Ok (i + length p) else Err InvalidByte)"
  by (induction bs arbitrary: i) (auto simp: Let_def)

definition query_byte :: "u8 \<Rightarrow> bool" where
  "query_byte b \<longleftrightarrow> b = 0x3F \<or> b = 0x60 \<or> b = 0x7B \<or> b = 0x7D \<or> PATH_AND_QUERY_BYTES ! unat b"

lemma query_loop_eq:
  "query_loop i bs =
     (let p = takeWhile (\<lambda>b. b \<noteq> 35) bs
      in if list_all query_byte p then Ok (i + length p) else Err InvalidByte)"
  by (induction bs arbitrary: i) (auto simp: Let_def query_byte_def)

lemma path_token_eq:
  "path_token bs =
     (let p = takeWhile (\<lambda>b. b \<noteq> 63 \<and> b \<noteq> 35) bs
      in if list_all (\<lambda>b. PATH_AND_QUERY_BYTES ! unat b) p
         then Ok (if p = [] then None else Some (Path (from_utf8_unchecked p)), drop (length p) bs)
         else Err InvalidByte)"
  by (auto simp: path_token_def path_loop_eq Let_def takeWhile_eq_take [symmetric])

lemma query_token_eq:
  "query_token bs =
     (let p = takeWhile (\<lambda>b. b \<noteq> 35) bs
      in if list_all query_byte p then Ok (if p = [] then None else Some (Query (from_utf8_unchecked p)))
         else Err InvalidByte)"
  by (auto simp: query_token_def query_loop_eq Let_def takeWhile_eq_take [symmetric])

lemma rsplit_once_None: "rsplit_once c bs = None \<longleftrightarrow> c \<notin> set bs"
  by (induction bs) (auto split: option.splits)

lemma rsplit_once_join [simp]:
  assumes "c \<notin> set y"
  shows "rsplit_once c (x @ c # y) = Some (x, y)"
proof -
  have "rsplit_once c y = None" using assms by (simp add: rsplit_once_None)
  then show ?thesis by (induction x) simp_all
qed

lemma rsplit_once_SomeD: "rsplit_once c bs = Some (x, y) \<Longrightarrow> bs = x @ c # y \<and> c \<notin> set y"
  by (induction bs arbitrary: x) (auto simp: rsplit_once_None split: option.splits if_splits)

section \<open>The printed authority\<close>

definition print_authority :: "Authority option \<Rightarrow> bytes" where
  "print_authority a = (case a of None \<Rightarrow> [] | Some a \<Rightarrow> as_bytes (Authority_to_string a))"

definition print_path :: "Path option \<Rightarrow> bytes" where
  "print_path p = (case p of None \<Rightarrow> [] | Some p \<Rightarrow> as_bytes (path_str p))"

definition print_query :: "Query option \<Rightarrow> bytes" where
  "print_query q = (case q of None \<Rightarrow> [] | Some q \<Rightarrow> 63 # as_bytes (query_str q))"

definition print_scheme :: "Scheme option \<Rightarrow> bytes" where
  "print_scheme s = (case s of None \<Rightarrow> [] | Some s \<Rightarrow> as_bytes (Scheme_as_str s @ ''://''))"

lemma as_bytes_append [simp]: "as_bytes (a @ b) = as_bytes a @ as_bytes b"
  by (simp add: as_bytes_def)

lemma as_bytes_separators:
  "as_bytes [] = []" "as_bytes (c # s) = byte_of_char c # as_bytes s"
  "byte_of_char CHR '':'' = 58" "byte_of_char CHR ''?'' = 63"
  by (simp_all add: as_bytes_def byte_of_char_def)

lemma Uri_to_string_print:
  "as_bytes (Uri_to_string u) = print_scheme (uri_scheme u) @ print_authority (uri_authority u) @
     print_path (uri_path u) @ print_query (uri_query u)"
  by (auto simp: Uri_to_string_def print_scheme_def print_authority_def print_path_def print_query_def
      Authority_to_string_def Uri_host_def Uri_port_def as_bytes_separators split: option.split)

text \<open>A colon without a port is the only thing that printing drops.\<close>

lemma host_port_printed:
  assumes "host_port auth c = Ok a" "auth \<noteq> []" "c \<le> 1"
    and loop: "authority_loop 0 auth 0 False False = Ok (length auth, c, l, r)"
    and free: "\<not> (\<exists>b \<in> set auth. b = 47 \<or> b = 63 \<or> b = 35)"
  obtains c' where "host_port (print_authority (Some a)) c' = Ok a" "c' \<le> 1"
    "print_authority (Some a) \<noteq> []"
    "authority_loop 0 (print_authority (Some a)) 0 False False = Ok (length (print_authority (Some a)), c', l, r)"
    "\<exists>t. auth = print_authority (Some a) @ t \<and> (t = [] \<or> t = [58])"
proof (cases "c \<noteq> 0 \<and> au_port a = None")
  case False
  then have "print_authority (Some a) = auth"
    using assms(1) by (auto simp: host_port_def print_authority_def Authority_to_string_def as_bytes_separators
        split: option.splits if_splits dest!: rsplit_once_SomeD)
  then show ?thesis using that [of c] assms by simp
next
  case True
  then have c: "c = 1" using assms(3) by simp
  then obtain host where auth: "auth = host @ [58]" and host: "host \<noteq> []"
    and a: "a = \<lparr>au_host = Host (from_utf8_unchecked host), au_port = None\<rparr>"
    using assms(1) True by (auto simp: host_port_def split: option.splits if_splits dest!: rsplit_once_SomeD)
  then have print: "print_authority (Some a) = host" by (simp add: print_authority_def Authority_to_string_def)
  from free auth have free': "\<not> (\<exists>b \<in> set host. b = 47 \<or> b = 63 \<or> b = 35)" by auto
  have "(case authority_loop 0 host 0 False False of
        Ok (e, c, l, r) \<Rightarrow> authority_loop e [58] c l r
      | Err e \<Rightarrow> Err e
      | Panic \<Rightarrow> Panic) = Ok (length auth, c, l, r)"
    using loop unfolding auth authority_loop_append [OF free'] .
  then have "authority_loop 0 host 0 False False = Ok (length host, 0, l, r)"
    using c auth by (auto split: rust_result.splits)
  then show ?thesis using that [of 0] host print auth by (simp add: a host_port_def)
qed

section \<open>The printed tokens are read again\<close>

lemma authority_printed:
  assumes "authority_token bs = Ok (a, rest)" and "stops tail"
  shows "authority_token (print_authority a @ tail) = Ok (a, tail)" "stops rest"
    "\<exists>t. bs = print_authority a @ t @ rest \<and> (t = [] \<or> a \<noteq> None \<and> t = [58])"
proof -
  obtain e c l r where loop: "authority_loop 0 bs 0 False False = Ok (e, c, l, r)"
    and parse: "authority_parse bs e c l r = Ok (a, rest)"
    using assms(1) by (auto simp: authority_token_def split: rust_result.splits)
  from authority_loop_split [OF loop] obtain p q where bs: "bs = p @ q" and e: "e = length p" and q: "stops q"
    and free: "\<not> (\<exists>b \<in> set p. b = 47 \<or> b = 63 \<or> b = 35)"
    and p: "authority_loop 0 p 0 False False = Ok (e, c, l, r)" by auto
  have rest: "rest = q" using parse bs e by (auto simp: authority_parse_def split: if_splits rust_result.splits)
  show "stops rest" using rest q by simp
  have "authority_token (print_authority a @ tail) = Ok (a, tail)
      \<and> (\<exists>t. bs = print_authority a @ t @ rest \<and> (t = [] \<or> a \<noteq> None \<and> t = [58]))"
  proof (cases "p = []")
    case True
    then have "a = None" using parse e by (simp add: authority_parse_def)
    then show ?thesis using True bs rest assms(2)
      by (simp add: print_authority_def authority_token_def authority_loop_stop authority_parse_def)
  next
    case False
    then obtain a1 where a: "a = Some a1" and hp: "host_port p c = Ok a1" and c: "c \<le> 1" and lr: "l = r"
      using parse bs e by (auto simp: authority_parse_def split: if_splits rust_result.splits)
    from host_port_printed [OF hp False c p [unfolded e] free] obtain c' t where
      hp': "host_port (print_authority a) c' = Ok a1" "c' \<le> 1" "print_authority a \<noteq> []"
      and loop': "authority_loop 0 (print_authority a) 0 False False = Ok (length (print_authority a), c', l, r)"
      and t: "p = print_authority a @ t" "t = [] \<or> t = [58]" unfolding a by metis
    from free t have "\<not> (\<exists>b \<in> set (print_authority a). b = 47 \<or> b = 63 \<or> b = 35)" by auto
    then have "authority_loop 0 (print_authority a @ tail) 0 False False = Ok (length (print_authority a), c', l, r)"
      using loop' assms(2) by (simp add: authority_loop_append authority_loop_stop)
    then have "authority_token (print_authority a @ tail) = Ok (a, tail)"
      using hp' lr a by (simp add: authority_token_def authority_parse_def)
    then show ?thesis using bs rest t a by simp
  qed
  then show "authority_token (print_authority a @ tail) = Ok (a, tail)"
    "\<exists>t. bs = print_authority a @ t @ rest \<and> (t = [] \<or> a \<noteq> None \<and> t = [58])" by blast+
qed

lemma path_printed:
  assumes "path_token bs = Ok (p, rest)"
  shows "path_token (print_path p @ print_query q) = Ok (p, print_query q)"
    "bs = print_path p @ rest" "rest = [] \<or> hd rest = 63 \<or> hd rest = 35"
    "list_all (\<lambda>b. PATH_AND_QUERY_BYTES ! unat b) (print_path p)"
proof -
  define sep where "sep b \<longleftrightarrow> b \<noteq> 63 \<and> b \<noteq> 35" for b :: u8
  define w where "w = takeWhile sep bs"
  have eq: "path_token cs =
      (if list_all (\<lambda>b. PATH_AND_QUERY_BYTES ! unat b) (takeWhile sep cs)
       then Ok (if takeWhile sep cs = [] then None else Some (Path (from_utf8_unchecked (takeWhile sep cs))),
         drop (length (takeWhile sep cs)) cs)
       else Err InvalidByte)" for cs
    unfolding path_token_eq sep_def Let_def ..
  have ok: "list_all (\<lambda>b. PATH_AND_QUERY_BYTES ! unat b) w"
    using assms by (simp add: eq w_def split: if_split_asm)
  then have "path_token bs = Ok (if w = [] then None else Some (Path (from_utf8_unchecked w)), drop (length w) bs)"
    unfolding w_def eq by (simp only: if_True)
  with assms have p: "p = (if w = [] then None else Some (Path (from_utf8_unchecked w)))"
    and rest: "rest = drop (length w) bs"
    by (simp_all only: rust_result.inject prod.inject)
  have print: "print_path p = w" by (simp add: p print_path_def)
  then show "list_all (\<lambda>b. PATH_AND_QUERY_BYTES ! unat b) (print_path p)" using ok by simp
  have "\<forall>b \<in> set w. sep b" by (auto simp: w_def dest: set_takeWhileD)
  moreover have "takeWhile sep (print_query q) = []" by (simp add: print_query_def sep_def split: option.split)
  ultimately have "takeWhile sep (w @ print_query q) = w" by simp
  then have "path_token (w @ print_query q) =
      Ok (if w = [] then None else Some (Path (from_utf8_unchecked w)), print_query q)"
    using ok by (simp add: eq)
  then show "path_token (print_path p @ print_query q) = Ok (p, print_query q)"
    by (simp only: print p [symmetric])
  have drop: "rest = dropWhile sep bs" by (simp add: rest w_def dropWhile_eq_drop)
  then show "bs = print_path p @ rest" by (simp add: print w_def)
  show "rest = [] \<or> hd rest = 63 \<or> hd rest = 35" using hd_dropWhile [of sep bs] drop by (auto simp: sep_def)
qed

lemma query_printed:
  assumes "query_token bs = Ok (Some q)"
  shows "query_token (as_bytes (query_str q)) = Ok (Some q)" "\<exists>t. bs = as_bytes (query_str q) @ t"
    "list_all query_byte (as_bytes (query_str q))"
proof -
  let ?w = "takeWhile (\<lambda>b. b \<noteq> 35) bs"
  have ok: "list_all query_byte ?w" "?w \<noteq> []" and q: "q = Query (from_utf8_unchecked ?w)"
    using assms by (auto simp: query_token_eq Let_def split: if_splits)
  have "takeWhile (\<lambda>b. b \<noteq> 35) ?w = ?w" by (simp add: takeWhile_idem)
  with ok q show "query_token (as_bytes (query_str q)) = Ok (Some q)" by (simp add: query_token_eq Let_def)
  show "list_all query_byte (as_bytes (query_str q))" using ok q by simp
  show "\<exists>t. bs = as_bytes (query_str q) @ t"
    by (rule exI [of _ "dropWhile (\<lambda>b. b \<noteq> 35) bs"]) (simp add: q)
qed

lemma scheme_prefix:
  assumes "scheme_token (a @ b) = Ok (None, a @ b)"
  shows "scheme_token a = Ok (None, a)"
proof (cases "position (\<lambda>b. b = 58) a")
  case None
  then show ?thesis by (simp add: scheme_token_def)
next
  case (Some i)
  have pos: "position p xs = Some i \<Longrightarrow> i < length xs \<and> position p (xs @ ys) = Some i" for p xs ys i
    by (induction xs arbitrary: i) (auto split: if_splits)
  from pos [OF Some] have i: "i < length a" "position (\<lambda>b. b = 58) (a @ b) = Some i" by blast+
  have "take 2 (drop (i + 1) (a @ b)) = take 2 (drop (i + 1) a)" if "length (drop i a) > 2"
    using that by simp
  then show ?thesis using assms i Some by (auto simp: scheme_token_def split: if_splits)
qed

lemma scheme_printed:
  "scheme_token (print_scheme (Some s) @ rest) = Ok (Some s, rest)"
  by (cases s; cases "scheme_proto s")
    (simp_all add: print_scheme_def Scheme_as_str_def scheme_token_def as_bytes_def byte_of_char_def
      eq_ignore_ascii_case_def ascii_lowercase_def)

lemma scheme_length:
  assumes "scheme_token bs = Ok (Some s, rest)"
  shows "length bs = length (print_scheme (Some s)) + length rest"
proof -
  obtain i where i: "length (drop i bs) > 2" and rest:
      "eq_ignore_ascii_case (take i bs) (as_bytes ''http'') \<and> s = Scheme Http \<and> rest = drop (length ''http://'') bs
       \<or> eq_ignore_ascii_case (take i bs) (as_bytes ''https'') \<and> s = Scheme Https \<and> rest = drop (length ''https://'') bs"
    using assms by (auto simp: scheme_token_def split: option.splits if_splits)
  have len: "eq_ignore_ascii_case x y \<Longrightarrow> length x = length y" for x y
    unfolding eq_ignore_ascii_case_def by (rule map_eq_imp_length_eq)
  from rest i show ?thesis
    by (auto simp: print_scheme_def Scheme_as_str_def dest!: len)
qed

section \<open>The round trip\<close>

lemma validity_check_Ok: "validity_check x = Ok u \<longleftrightarrow> x = u \<and> validity_check u = Ok u"
  by (auto simp: validity_check_def split: option.splits)

lemma Uri_eq_iff:
  "\<lparr>uri_scheme = s, uri_authority = a, uri_path = p, uri_query = q\<rparr> = u \<longleftrightarrow>
     uri_scheme u = s \<and> uri_authority u = a \<and> uri_path u = p \<and> uri_query u = q"
  by (cases u) auto

definition query_rest :: "bytes \<Rightarrow> Query option \<Rightarrow> bool" where
  "query_rest bs q \<longleftrightarrow>
     (case bs of
        [] \<Rightarrow> q = None
      | b # rest \<Rightarrow> b = 63 \<and> query_token rest = Ok q \<or> b = 35 \<and> q = None)"

lemma Uri_rest_Ok:
  "Uri_rest s a p bs = Ok u \<longleftrightarrow> uri_scheme u = s \<and> uri_authority u = a \<and> uri_path u = p \<and>
     query_rest bs (uri_query u) \<and> validity_check u = Ok u"
proof -
  have "Uri_rest s a p bs = Ok u \<longleftrightarrow> (\<exists>q. query_rest bs q \<and>
      validity_check \<lparr>uri_scheme = s, uri_authority = a, uri_path = p, uri_query = q\<rparr> = Ok u)"
    by (auto simp: Uri_rest_def query_rest_def try_Ok_iff split: list.split)
  moreover have "validity_check \<lparr>uri_scheme = s, uri_authority = a, uri_path = p, uri_query = q\<rparr> = Ok u \<longleftrightarrow>
      (uri_scheme u = s \<and> uri_authority u = a \<and> uri_path u = p \<and> uri_query u = q) \<and> validity_check u = Ok u" for q
    by (subst validity_check_Ok) (simp only: Uri_eq_iff)
  ultimately show ?thesis by auto
qed

lemma Uri_from_bytes_Ok:
  "Uri_from_bytes bs = Ok u \<longleftrightarrow>
     length bs \<le> MAX_URI_LEN \<and> bs \<noteq> [] \<and>
     (\<exists>rest1 rest2 rest3. scheme_token bs = Ok (uri_scheme u, rest1) \<and>
        authority_token rest1 = Ok (uri_authority u, rest2) \<and> path_token rest2 = Ok (uri_path u, rest3) \<and>
        query_rest rest3 (uri_query u) \<and> validity_check u = Ok u)"
proof -
  have "into_http_error r = Ok u \<longleftrightarrow> r = Ok u" for r :: "(Uri, InvalidUri) rust_result"
    by (cases r) (simp_all add: into_http_error_def)
  then show ?thesis
    by (auto simp add: Uri_from_bytes_def try_Ok_iff Uri_rest_Ok split_paired_Ex not_less)
qed

lemma stops_printed: "stops (print_path p @ print_query q)" if "path_token bs = Ok (p, rest)" "stops bs"
proof -
  have "bs = print_path p @ rest" using path_printed [OF that(1)] by blast
  then show ?thesis using that(2) path_printed(1) [OF that(1), of None]
    by (cases "print_path p") (auto simp: stops_def print_query_def split: option.split)
qed

lemma query_rest_printed:
  assumes "query_rest bs q"
  shows "query_rest (print_query q) q" "\<exists>t. bs = print_query q @ t"
  using assms query_printed by (force simp: query_rest_def print_query_def split: list.splits option.splits)+

text \<open>Without a scheme the printed URI is the beginning of what was read.\<close>

lemma printed_prefix:
  assumes "authority_token bs = Ok (a, rest2)" "path_token rest2 = Ok (p, rest3)" "query_rest rest3 q"
    and "a = None \<or> p = None \<and> q = None"
  shows "\<exists>t. bs = print_authority a @ print_path p @ print_query q @ t"
proof -
  obtain t where "bs = print_authority a @ t @ rest2" "a = None \<longrightarrow> t = []"
    using authority_printed(3) [OF assms(1), of "[]"] by (auto simp: stops_def)
  then show ?thesis using path_printed(2) [OF assms(2)] query_rest_printed(2) [OF assms(3)] assms(4)
    by (auto simp: print_path_def print_query_def)
qed

lemma uri_reparsed:
  assumes "Uri_from_bytes bs = Ok u"
  shows "Uri_from_bytes (as_bytes (Uri_to_string u)) = Ok u"
proof -
  obtain rest1 rest2 rest3 where len: "length bs \<le> MAX_URI_LEN" "bs \<noteq> []"
    and s: "scheme_token bs = Ok (uri_scheme u, rest1)" and a: "authority_token rest1 = Ok (uri_authority u, rest2)"
    and p: "path_token rest2 = Ok (uri_path u, rest3)" and q: "query_rest rest3 (uri_query u)"
    and valid: "validity_check u = Ok u"
    using assms unfolding Uri_from_bytes_Ok by blast
  let ?s = "as_bytes (Uri_to_string u)"
  let ?tail = "print_path (uri_path u) @ print_query (uri_query u)"
  let ?rest = "print_authority (uri_authority u) @ ?tail"
  have stop: "stops ?tail"
    using stops_printed [OF p] authority_printed(2) [OF a, of "[]"] by (simp add: stops_def)
  have auth: "authority_token ?rest = Ok (uri_authority u, ?tail)" by (rule authority_printed(1) [OF a stop])
  obtain t where t: "rest1 = print_authority (uri_authority u) @ t @ rest2"
    using authority_printed(3) [OF a stop] by blast
  obtain t' where t': "rest2 = ?tail @ t'"
    using path_printed(2) [OF p] query_rest_printed(2) [OF q] by auto
  have scheme: "scheme_token ?s = Ok (uri_scheme u, ?rest) \<and> length ?s \<le> length bs"
  proof (cases "uri_scheme u")
    case None
    then have bs: "rest1 = bs" using s by (auto simp: scheme_token_def split: option.splits if_splits)
    have "uri_authority u = None \<or> uri_path u = None \<and> uri_query u = None"
      using valid None by (auto simp: validity_check_def split: option.splits)
    then obtain t'' where "bs = ?rest @ t''" using printed_prefix [OF a p q] bs by auto
    then show ?thesis using scheme_prefix [of ?rest t''] s None bs
      by (simp add: Uri_to_string_print print_scheme_def)
  next
    case (Some sc)
    then show ?thesis using scheme_printed [of sc ?rest] scheme_length [of bs sc rest1] s t t'
      by (simp add: Uri_to_string_print)
  qed
  have "?s \<noteq> []"
  proof
    assume "?s = []"
    then have "print_scheme (uri_scheme u) = []" "?rest = []" "print_query (uri_query u) = []"
      by (simp_all add: Uri_to_string_print)
    then have "u = \<lparr>uri_scheme = None, uri_authority = None, uri_path = None, uri_query = None\<rparr>"
      using auth path_printed(1) [OF p, of "uri_query u"]
      by (cases u) (auto simp: print_scheme_def print_query_def as_bytes_def authority_token_def authority_parse_def
          path_token_def split: option.splits)
    then show False using valid by (simp add: validity_check_def)
  qed
  then show ?thesis
    unfolding Uri_from_bytes_Ok using scheme len auth path_printed(1) [OF p] query_rest_printed(1) [OF q] valid
    by (meson order_trans)
qed

text \<open>
  C37. What was parsed as a URI is parsed again from the printed URI, to the same scheme, host, port,
  path and query.
\<close>

theorem uri_roundtrip:
  assumes "Uri_from_bytes bs = Ok u"
  shows "Uri_from_bytes (as_bytes (Uri_to_string u)) = Ok u"
  by (rule uri_reparsed [OF assms])

definition example_uri :: Uri where
  "example_uri =
     \<lparr>uri_scheme = Some (Scheme Https),
      uri_authority = Some \<lparr>au_host = Host ''[::1]'', au_port = Some (Port ''80'')\<rparr>,
      uri_path = Some (Path ''/a''), uri_query = Some (Query ''b:c'')\<rparr>"

lemma example_uri_parsed: "Uri_from_bytes (as_bytes ''HTTPS://[::1]:80/a?b:c#d'') = Ok example_uri"
proof -
  let ?bs = "as_bytes ''HTTPS://[::1]:80/a?b:c#d''"
  have "length ?bs \<le> MAX_URI_LEN" "?bs \<noteq> []" by (simp_all add: MAX_URI_LEN_def as_bytes_def)
  moreover have "scheme_token ?bs = Ok (uri_scheme example_uri, as_bytes ''[::1]:80/a?b:c#d'')" by code_simp
  moreover have "authority_token (as_bytes ''[::1]:80/a?b:c#d'') =
      Ok (uri_authority example_uri, as_bytes ''/a?b:c#d'')" by code_simp
  moreover have "path_token (as_bytes ''/a?b:c#d'') = Ok (uri_path example_uri, as_bytes ''?b:c#d'')" by code_simp
  moreover have "query_rest (as_bytes ''?b:c#d'') (uri_query example_uri)" by code_simp
  moreover have "validity_check example_uri = Ok example_uri" by code_simp
  ultimately show ?thesis unfolding Uri_from_bytes_Ok by blast
qed

theorem uri_roundtrip_witness: "Uri_from_bytes (as_bytes (Uri_to_string example_uri)) = Ok example_uri"
  by (rule uri_roundtrip [OF example_uri_parsed])

section \<open>Visible bytes\<close>

definition visible :: "u8 \<Rightarrow> bool" where
  "visible b \<longleftrightarrow> 33 \<le> b \<and> b \<le> 126"

lemma uri_tables_visible:
  "list_all (\<lambda>i. URI_VALUE_BYTES ! i \<longrightarrow> visible (word_of_nat i)) [0..<256]"
  "list_all (\<lambda>i. PATH_AND_QUERY_BYTES ! i \<longrightarrow> visible (word_of_nat i)) [0..<256]"
  by code_simp+

lemma table_visible:
  "URI_VALUE_BYTES ! unat b \<Longrightarrow> visible b" "PATH_AND_QUERY_BYTES ! unat b \<Longrightarrow> visible b"
  using u8_table [OF uri_tables_visible(1), of b] u8_table [OF uri_tables_visible(2), of b] by simp_all

lemma authority_loop_visible:
  "authority_loop i bs c l r = Ok (e, c', l', r') \<Longrightarrow> i \<le> e \<and> list_all visible (take (e - i) bs)"
proof (induction bs arbitrary: i c l r)
  case (Cons b bs)
  show ?case
  proof (cases "b = 47 \<or> b = 63 \<or> b = 35")
    case False
    then have "visible b" using Cons.prems table_visible(1) [of b] by (auto simp: visible_def split: if_splits)
    moreover from False obtain c1 l1 r1 where "authority_loop (i + 1) bs c1 l1 r1 = Ok (e, c', l', r')"
      using Cons.prems by (auto split: if_splits)
    from Cons.IH [OF this] obtain n where "e = i + 1 + n" "list_all visible (take n bs)"
      by (metis add_diff_cancel_left' le_Suc_ex)
    ultimately show ?thesis by simp
  qed (use Cons.prems in auto)
qed simp

lemma authority_visible:
  assumes "authority_token bs = Ok (a, rest)"
  shows "list_all visible (print_authority a)"
proof -
  have "authority_token (print_authority a) = Ok (a, [])"
    using authority_printed(1) [OF assms, of "[]"] by (simp add: stops_def)
  then obtain e c l r where "authority_loop 0 (print_authority a) 0 False False = Ok (e, c, l, r)"
    and "drop e (print_authority a) = []"
    by (auto simp: authority_token_def authority_parse_def split: rust_result.splits if_splits)
  then show ?thesis using authority_loop_visible by fastforce
qed

text \<open>Every byte of a parsed URI is a visible ASCII character when it is printed.\<close>

lemma parsed_visible:
  assumes "Uri_from_bytes bs = Ok u"
  shows "list_all visible (print_scheme (uri_scheme u))" "list_all visible (print_authority (uri_authority u))"
    "list_all visible (print_path (uri_path u))" "list_all visible (print_query (uri_query u))"
proof -
  obtain rest1 rest2 rest3 where a: "authority_token rest1 = Ok (uri_authority u, rest2)"
    and p: "path_token rest2 = Ok (uri_path u, rest3)" and q: "query_rest rest3 (uri_query u)"
    using assms unfolding Uri_from_bytes_Ok by blast
  show "list_all visible (print_scheme (uri_scheme u))"
    by (simp add: print_scheme_def Scheme_as_str_def as_bytes_def byte_of_char_def visible_def
        split: option.split Protocol.split)
  show "list_all visible (print_path (uri_path u))"
    using path_printed(4) [OF p] by (simp add: list_all_iff table_visible)
  have "query_byte b \<Longrightarrow> visible b" for b
    using table_visible(2) [of b] by (auto simp: query_byte_def visible_def)
  then show "list_all visible (print_query (uri_query u))"
  proof (cases "uri_query u")
    case (Some x)
    then obtain rest where "query_token rest = Ok (Some x)" using q by (auto simp: query_rest_def split: list.splits)
    from query_printed(3) [OF this] show ?thesis
      using Some \<open>\<And>b. query_byte b \<Longrightarrow> visible b\<close> by (simp add: print_query_def list_all_iff visible_def)
  qed (simp add: print_query_def)
  show "list_all visible (print_authority (uri_authority u))" by (rule authority_visible [OF a])
qed

section \<open>The builder\<close>

definition build_uri :: "bytes \<Rightarrow> bytes \<Rightarrow> bytes \<Rightarrow> bytes \<Rightarrow> (Uri, HttpError) rust_result" where
  "build_uri s a p q =
     UriBuilder_build (UriBuilder_query q (UriBuilder_path p (UriBuilder_authority a (UriBuilder_scheme s UriBuilder_new))))"

lemma build_uri_Ok:
  assumes "build_uri s a p q = Ok u"
  obtains sc au pa qu where "authority_token a = Ok (Some au, [])" "path_token p = Ok (Some pa, [])"
    "query_token q = Ok (Some qu)"
    "u = \<lparr>uri_scheme = Some sc, uri_authority = Some au, uri_path = Some pa, uri_query = Some qu\<rparr>"
proof -
  have "into_http_error r = Ok u \<longleftrightarrow> r = Ok u" for r :: "(Uri, InvalidUri) rust_result"
    by (cases r) (simp_all add: into_http_error_def)
  then have "\<exists>sc au pa qu. Scheme_from_bytes s = Ok sc \<and> Authority_from_bytes a = Ok au \<and> Path_from_bytes p = Ok pa \<and>
      Query_from_bytes q = Ok qu \<and>
      validity_check \<lparr>uri_scheme = Some sc, uri_authority = Some au, uri_path = Some pa, uri_query = Some qu\<rparr> = Ok u"
    using assms
    by (auto simp: build_uri_def UriBuilder_build_def UriBuilder_query_def UriBuilder_path_def UriBuilder_authority_def
        UriBuilder_scheme_def UriBuilder_new_def builder_set_def try_Ok_iff)
  then show ?thesis
    by (auto simp: validity_check_def Authority_from_bytes_def Path_from_bytes_def Query_from_bytes_def
        split: rust_result.splits list.splits option.splits if_splits intro!: that)
qed

lemma parsed_path_slash:
  assumes "Uri_from_bytes bs = Ok u" "uri_path u = Some p"
  shows "hd (as_bytes (path_str p)) = 47"
proof -
  obtain rest1 rest2 rest3 where a: "authority_token rest1 = Ok (uri_authority u, rest2)"
    and p: "path_token rest2 = Ok (uri_path u, rest3)"
    using assms unfolding Uri_from_bytes_Ok by blast
  have "stops rest2" using authority_printed(2) [OF a, of "[]"] by (simp add: stops_def)
  with p assms(2) show ?thesis
    by (cases rest2) (auto simp: path_token_eq Let_def stops_def split: if_splits)
qed

text \<open>
  C38. A URI built from a scheme, an authority, a path and a query is read back from its printed form if and
  only if the path begins with a slash, as long as the printed form has at most \<open>MAX_URI_LEN\<close> characters. The builder accepts any other path too, and what such a path begins
  with is then read as a part of the host or the port.
\<close>

theorem builder_roundtrip:
  assumes "build_uri s a p q = Ok u" and "length (Uri_to_string u) \<le> MAX_URI_LEN"
  shows "Uri_from_bytes (as_bytes (Uri_to_string u)) = Ok u \<longleftrightarrow> hd p = 47"
proof -
  obtain sc au pa qu where a: "authority_token a = Ok (Some au, [])" and p: "path_token p = Ok (Some pa, [])"
    and q: "query_token q = Ok (Some qu)"
    and u: "u = \<lparr>uri_scheme = Some sc, uri_authority = Some au, uri_path = Some pa, uri_query = Some qu\<rparr>"
    by (rule build_uri_Ok [OF assms(1)])
  have path: "p = as_bytes (path_str pa)" using path_printed(2) [OF p] by (simp add: print_path_def)
  show ?thesis
  proof
    assume "Uri_from_bytes (as_bytes (Uri_to_string u)) = Ok u"
    from parsed_path_slash [OF this, of pa] show "hd p = 47" by (simp add: u path)
  next
    assume "hd p = 47"
    let ?tail = "print_path (Some pa) @ print_query (Some qu)"
    have "stops ?tail" using \<open>hd p = 47\<close> by (cases p) (auto simp: stops_def print_path_def print_query_def path [symmetric])
    from authority_printed(1) [OF a this] have "authority_token (print_authority (Some au) @ ?tail) = Ok (Some au, ?tail)" .
    moreover have "path_token ?tail = Ok (Some pa, print_query (Some qu))" by (rule path_printed(1) [OF p])
    moreover have "query_rest (print_query (Some qu)) (Some qu)"
      using query_printed(1) [OF q] by (simp add: query_rest_def print_query_def)
    moreover have "validity_check u = Ok u" by (simp add: u validity_check_def)
    moreover have printed: "as_bytes (Uri_to_string u) = print_scheme (Some sc) @ print_authority (Some au) @ ?tail"
      by (simp add: u Uri_to_string_print)
    moreover have "scheme_token (as_bytes (Uri_to_string u)) = Ok (Some sc, print_authority (Some au) @ ?tail)"
      unfolding printed by (rule scheme_printed)
    moreover have "as_bytes (Uri_to_string u) \<noteq> []" by (simp add: printed print_query_def)
    moreover have "length (as_bytes (Uri_to_string u)) \<le> MAX_URI_LEN" using assms(2) by simp
    moreover have "uri_scheme u = Some sc" "uri_authority u = Some au" "uri_path u = Some pa" "uri_query u = Some qu"
      by (simp_all add: u)
    ultimately show "Uri_from_bytes (as_bytes (Uri_to_string u)) = Ok u"
      unfolding Uri_from_bytes_Ok by metis
  qed
qed

theorem builder_roundtrip_witness:
  "\<exists>u. build_uri (as_bytes ''http'') (as_bytes ''a.com'') (as_bytes ''.org'') (as_bytes ''q'') = Ok u
     \<and> Uri_from_bytes (as_bytes (Uri_to_string u)) \<noteq> Ok u"
proof -
  let ?u = "\<lparr>uri_scheme = Some (Scheme Http), uri_authority = Some \<lparr>au_host = Host ''a.com'', au_port = None\<rparr>,
    uri_path = Some (Path ''.org''), uri_query = Some (Query ''q'')\<rparr>"
  have build: "build_uri (as_bytes ''http'') (as_bytes ''a.com'') (as_bytes ''.org'') (as_bytes ''q'') = Ok ?u"
    by code_simp
  have "length (Uri_to_string ?u) = 18" "hd (as_bytes ''.org'') \<noteq> 47" by code_simp+
  then show ?thesis using builder_roundtrip [OF build] build by (auto simp: MAX_URI_LEN_def)
qed

end
