(* ===== verification/H1_Request_Props.thy ===== *)
theory H1_Request_Props
  imports H1_Request Uri_Roundtrip
begin

text \<open>
  What the encoder of request heads writes over any sequence of buffers, and that the lines of a
  request are the ones it was built from.
\<close>

section \<open>The request head\<close>

abbreviation crlf :: bytes where
  "crlf \<equiv> [13, 10]"

definition field_line :: "HeaderName \<times> HeaderValue \<Rightarrow> bytes" where
  "field_line f = HeaderName_as_bytes (fst f) @ [58] @ HeaderValue_to_vec (snd f)"

definition field_lines :: "(HeaderName \<times> HeaderValue) list \<Rightarrow> bytes" where
  "field_lines fs = concat (map (\<lambda>f. field_line f @ crlf) fs)"

definition request_target :: "bool \<Rightarrow> Uri \<Rightarrow> bytes" where
  "request_target is_absolute uri = (if is_absolute then absolute_form uri else origin_form uri)"

definition request_line :: "bool \<Rightarrow> RequestPart \<Rightarrow> bytes" where
  "request_line is_absolute part =
     as_bytes (Method_as_str (rp_method part)) @ [32] @ request_target is_absolute (rp_uri part) @ [32] @
     as_bytes (Version_as_str (rp_version part))"

definition request_head :: "bool \<Rightarrow> RequestPart \<Rightarrow> bytes" where
  "request_head is_absolute part = request_line is_absolute part @ crlf @ field_lines (rp_headers part) @ crlf"

section \<open>What an encoder still has to write\<close>

definition header_owed :: "EncodeHeader \<Rightarrow> bytes" where
  "header_owed h =
     (case eh_status h of
        Some Status_Name \<Rightarrow>
          drop (eh_name_idx h) (HeaderName_as_bytes (eh_name h)) @ [58] @ eh_value h @ crlf @ field_lines (eh_inner h)
      | Some Status_Colon \<Rightarrow> [58] @ eh_value h @ crlf @ field_lines (eh_inner h)
      | Some Status_Value \<Rightarrow> drop (eh_value_idx h) (eh_value h) @ crlf @ field_lines (eh_inner h)
      | Some (Status_Crlf i) \<Rightarrow> drop i crlf @ field_lines (eh_inner h)
      | _ \<Rightarrow> [])"

text \<open>The indices are those of a suspended encoder, and a status is there.\<close>

definition header_ok :: "EncodeHeader \<Rightarrow> bool" where
  "header_ok h \<longleftrightarrow>
     (case eh_status h of
        Some Status_Name \<Rightarrow>
          eh_name_idx h \<le> length (HeaderName_as_bytes (eh_name h)) \<and> eh_colon_idx h = 0 \<and> eh_value_idx h = 0
      | Some Status_Colon \<Rightarrow> eh_colon_idx h = 0 \<and> eh_value_idx h = 0
      | Some Status_Value \<Rightarrow> eh_value_idx h \<le> length (eh_value h)
      | Some (Status_Crlf i) \<Rightarrow> i \<le> 2
      | Some Status_EmptyHeader \<Rightarrow> True
      | None \<Rightarrow> False)"

definition uri_ok :: "EncodeUri \<Rightarrow> bool" where
  "uri_ok u \<longleftrightarrow> eu_origin u = origin_form (eu_raw u) \<and>
     (eu_absolute u = None \<or> eu_absolute u = Some (absolute_form (eu_raw u)))"

definition uri_target :: "EncodeUri \<Rightarrow> bytes" where
  "uri_target u = request_target (eu_is_absolute u) (eu_raw u)"

definition owed :: "RequestEncoder \<Rightarrow> bytes" where
  "owed e =
     (let hd = header_owed (re_headers_part e) @ drop (re_headers_crlf_part e) crlf;
          vs = as_bytes (Version_as_str (ev_inner (re_version_part e)));
          after_uri = drop (re_uri_sp_part e) [32] @ vs @ drop (re_version_crlf_part e) crlf @ hd;
          target = request_target (re_is_absolute_uri e) (eu_raw (re_uri_part e))
      in case re_encode_status e of
           State_Method \<Rightarrow>
             drop (em_src_idx (re_method_part e)) (as_bytes (Method_as_str (em_inner (re_method_part e)))) @ [32] @ target @ after_uri
         | State_MethodSp \<Rightarrow> [32] @ target @ after_uri
         | State_Uri \<Rightarrow> drop (eu_src_idx (re_uri_part e)) (uri_target (re_uri_part e)) @ after_uri
         | State_UriSp \<Rightarrow> after_uri
         | State_Version \<Rightarrow> drop (ev_src_idx (re_version_part e)) vs @ drop (re_version_crlf_part e) crlf @ hd
         | State_VersionCrlf \<Rightarrow> drop (re_version_crlf_part e) crlf @ hd
         | State_Header \<Rightarrow> hd
         | State_HeaderCrlf \<Rightarrow> drop (re_headers_crlf_part e) crlf
         | State_EncodeFinished \<Rightarrow> [])"

definition encoder_ok :: "RequestEncoder \<Rightarrow> bool" where
  "encoder_ok e \<longleftrightarrow>
     uri_ok (re_uri_part e) \<and>
     (re_encode_status e \<notin> {State_HeaderCrlf, State_EncodeFinished} \<longrightarrow> header_ok (re_headers_part e)) \<and>
     (re_encode_status e \<notin> {State_HeaderCrlf, State_EncodeFinished} \<longrightarrow> re_headers_crlf_part e = 0) \<and>
     re_headers_crlf_part e \<le> 2 \<and>
     (case re_encode_status e of
        State_Method \<Rightarrow>
          em_src_idx (re_method_part e) \<le> length (Method_as_str (em_inner (re_method_part e))) \<and> re_method_sp_part e = 0 \<and>
          eu_src_idx (re_uri_part e) = 0 \<and> re_uri_sp_part e = 0 \<and> ev_src_idx (re_version_part e) = 0 \<and> re_version_crlf_part e = 0
      | State_MethodSp \<Rightarrow>
          re_method_sp_part e = 0 \<and> eu_src_idx (re_uri_part e) = 0 \<and> re_uri_sp_part e = 0 \<and>
          ev_src_idx (re_version_part e) = 0 \<and> re_version_crlf_part e = 0
      | State_Uri \<Rightarrow>
          eu_src_idx (re_uri_part e) \<le> length (uri_target (re_uri_part e)) \<and> re_uri_sp_part e = 0 \<and>
          ev_src_idx (re_version_part e) = 0 \<and> re_version_crlf_part e = 0
      | State_UriSp \<Rightarrow> re_uri_sp_part e = 0 \<and> ev_src_idx (re_version_part e) = 0 \<and> re_version_crlf_part e = 0
      | State_Version \<Rightarrow> ev_src_idx (re_version_part e) \<le> length (Version_as_str (ev_inner (re_version_part e))) \<and> re_version_crlf_part e = 0
      | State_VersionCrlf \<Rightarrow> re_version_crlf_part e \<le> 2
      | _ \<Rightarrow> True)"

declare drop_cut [simp] drop_cut_append [simp]

lemma field_step:
  assumes "header_ok h" "n > 0"
  shows "\<exists>h' t. EncodeHeader_encode h n = (h', Ok t) \<and>
    (case t of
       Complete w \<Rightarrow> header_owed h = w \<and> length w \<le> n
     | Unfinished w \<Rightarrow> header_ok h' \<and> header_owed h = w @ header_owed h' \<and> length w \<le> n)"
proof -
  obtain st where st: "eh_status h = Some st" using assms(1) by (cases "eh_status h") (auto simp: header_ok_def)
  show ?thesis
  proof (cases st)
    case Status_Name
    then show ?thesis using assms st
      by (cases rule: write_data_cases [of "HeaderName_as_bytes (eh_name h)" "eh_name_idx h" n])
        (auto simp: EncodeHeader_encode_def encode_name_def header_ok_def header_owed_def Let_def)
  next
    case Status_Colon
    then show ?thesis using assms st
      by (cases rule: write_data_cases [of "[58]" "eh_colon_idx h" n])
        (auto simp: EncodeHeader_encode_def encode_colon_def header_ok_def header_owed_def Let_def)
  next
    case Status_Value
    then show ?thesis using assms st
      by (cases rule: write_data_cases [of "eh_value h" "eh_value_idx h" n])
        (auto simp: EncodeHeader_encode_def encode_value_def header_ok_def header_owed_def Let_def)
  next
    case (Status_Crlf i)
    then show ?thesis using assms st
      by (cases rule: write_data_cases [of crlf i n])
        (auto simp: EncodeHeader_encode_def encode_crlf_def crlf_encode_def header_ok_def header_owed_def Let_def
          field_lines_def field_line_def split: list.splits)
  next
    case Status_EmptyHeader
    then show ?thesis using assms st by (auto simp: EncodeHeader_encode_def header_owed_def Let_def)
  qed
qed

abbreviation finished :: "RequestEncoder \<Rightarrow> bool" where
  "finished e \<equiv> re_encode_status e = State_EncodeFinished"

text \<open>One turn of the loop writes a front piece of what is owed.\<close>

definition advances :: "RequestEncoder \<Rightarrow> nat \<Rightarrow> RequestEncoder \<times> (bytes, HttpError) rust_result \<Rightarrow> bool" where
  "advances e n p \<longleftrightarrow>
     (\<exists>e' w. p = (e', Ok w) \<and> encoder_ok e' \<and> owed e = w @ owed e' \<and> length w \<le> n)"

lemmas step_defs = encode_step_def advances_def encoder_ok_def owed_def token_status_def Let_def uri_target_def

lemma uri_encode_advances:
  assumes "encoder_ok e" "n > 0" "re_encode_status e = State_Uri"
  shows "advances e n (uri_encode e n)"
proof -
  let ?u = "re_uri_part e"
  have "EncodeUri_encode ?u n = (case write_data (uri_target ?u) (eu_src_idx ?u) n of
      (i, r) \<Rightarrow> ((if eu_is_absolute ?u \<and> eu_absolute ?u = None then ?u\<lparr>eu_absolute := Some (absolute_form (eu_raw ?u))\<rparr> else ?u)\<lparr>eu_src_idx := i\<rparr>, r))"
    using assms(1)
    by (cases "eu_is_absolute ?u"; cases "eu_absolute ?u")
      (auto simp: EncodeUri_encode_def encoder_ok_def uri_ok_def uri_target_def request_target_def Let_def)
  with assms show ?thesis
    by (cases rule: write_data_cases [of "uri_target ?u" "eu_src_idx ?u" n])
      (auto simp: step_defs uri_encode_def uri_ok_def)
qed

lemma encode_step_advances:
  assumes "encoder_ok e" "n > 0" "\<not> finished e"
  shows "advances e n (encode_step e n)"
proof (cases "re_encode_status e")
  case State_Method
  then show ?thesis using assms(1,2)
    by (cases rule: write_data_cases [of "as_bytes (Method_as_str (em_inner (re_method_part e)))" "em_src_idx (re_method_part e)" n])
      (auto simp: step_defs method_encode_def EncodeMethod_encode_def)
next
  case State_MethodSp
  then show ?thesis using assms(1,2)
    by (cases rule: write_data_cases [of "[32]" "re_method_sp_part e" n])
      (auto simp: step_defs method_sp_encode_def EncodeSp_encode_def uri_ok_def)
next
  case State_Uri
  then show ?thesis using uri_encode_advances [OF assms(1,2)] by (simp add: encode_step_def)
next
  case State_UriSp
  then show ?thesis using assms(1,2)
    by (cases rule: write_data_cases [of "[32]" "re_uri_sp_part e" n])
      (auto simp: step_defs uri_sp_encode_def EncodeSp_encode_def)
next
  case State_Version
  then show ?thesis using assms(1,2)
    by (cases rule: write_data_cases [of "as_bytes (Version_as_str (ev_inner (re_version_part e)))" "ev_src_idx (re_version_part e)" n])
      (auto simp: step_defs version_encode_def EncodeVersion_encode_def)
next
  case State_VersionCrlf
  then show ?thesis using assms(1,2)
    by (cases rule: write_data_cases [of crlf "re_version_crlf_part e" n])
      (auto simp: step_defs version_crlf_encode_def crlf_encode_def)
next
  case State_Header
  then have "header_ok (re_headers_part e)" using assms(1) by (simp add: encoder_ok_def)
  from field_step [OF this assms(2)] obtain h' t where h: "EncodeHeader_encode (re_headers_part e) n = (h', Ok t)"
    "case t of
       Complete w \<Rightarrow> header_owed (re_headers_part e) = w \<and> length w \<le> n
     | Unfinished w \<Rightarrow> header_ok h' \<and> header_owed (re_headers_part e) = w @ header_owed h' \<and> length w \<le> n"
    by blast
  then show ?thesis using State_Header assms(1,2) by (cases t) (auto simp: step_defs header_encode_def)
next
  case State_HeaderCrlf
  then show ?thesis using assms(1,2)
    by (cases rule: write_data_cases [of crlf "re_headers_crlf_part e" n])
      (auto simp: step_defs header_crlf_encode_def crlf_encode_def)
qed (use assms in simp)

text \<open>A call fills the buffer from what is owed, and keeps the rest.\<close>

lemma encode_loop_writes:
  "encoder_ok e \<Longrightarrow>
   \<exists>e'. encode_loop e dst out = (e', Ok (out @ take dst (owed e))) \<and> encoder_ok e' \<and> owed e' = drop dst (owed e)"
proof (induction e dst out rule: encode_loop.induct)
  case (1 e dst out)
  show ?case
  proof (cases "dst = 0 \<or> finished e")
    case True
    then show ?thesis using "1.prems" by (auto simp: encode_loop.simps [of e dst out] owed_def Let_def)
  next
    case False
    then obtain e' w where step: "encode_step e dst = (e', Ok w)" "encoder_ok e'" "owed e = w @ owed e'" "length w \<le> dst"
      using encode_step_advances [OF "1.prems", of dst] by (auto simp: advances_def)
    then show ?thesis using "1.IH" [OF _ _ step(1) [symmetric] refl step(2)] False
      by (auto simp: encode_loop.simps [of e dst out])
  qed
qed

lemma encoder_new_owed: "owed (absolute_uri (RequestEncoder_new part) a) = request_head a part"
proof (cases "rp_headers part")
  case Nil
  then show ?thesis
    by (simp add: owed_def absolute_uri_def RequestEncoder_new_def EncodeMethod_new_def EncodeUri_new_def EncodeVersion_new_def
        EncodeHeader_new_def header_owed_def request_head_def request_line_def field_lines_def Let_def)
next
  case (Cons f fs)
  then show ?thesis
    by (cases f) (simp add: owed_def absolute_uri_def RequestEncoder_new_def EncodeMethod_new_def EncodeUri_new_def
        EncodeVersion_new_def EncodeHeader_new_def header_owed_def request_head_def request_line_def field_lines_def
        field_line_def Let_def)
qed

lemma encoder_new_ok: "encoder_ok (absolute_uri (RequestEncoder_new part) a)"
  by (auto simp: encoder_ok_def absolute_uri_def RequestEncoder_new_def EncodeMethod_new_def EncodeUri_new_def
      EncodeVersion_new_def EncodeHeader_new_def header_ok_def uri_ok_def split: list.splits)

section \<open>Calls\<close>

text \<open>A client that encodes into buffers of the given lengths, one after the other.\<close>

fun request_calls :: "RequestEncoder \<Rightarrow> nat list \<Rightarrow> (bytes list, HttpError) rust_result" where
  "request_calls e [] = Ok []"
| "request_calls e (n # ns) =
     (case RequestEncoder_encode e n of
        (e, Ok w) \<Rightarrow> (case request_calls e ns of Ok ws \<Rightarrow> Ok (w # ws) | Err x \<Rightarrow> Err x | Panic \<Rightarrow> Panic)
      | (e, Err x) \<Rightarrow> Err x
      | (e, Panic) \<Rightarrow> Panic)"

fun cut :: "nat list \<Rightarrow> bytes \<Rightarrow> bytes list" where
  "cut [] bs = []"
| "cut (n # ns) bs = take n bs # cut ns (drop n bs)"

lemma request_calls_cut:
  "encoder_ok e \<Longrightarrow> 0 \<notin> set ns \<Longrightarrow> request_calls e ns = Ok (cut ns (owed e))"
proof (induction ns arbitrary: e)
  case (Cons n ns)
  then show ?case using encode_loop_writes [of e n "[]"] by (auto simp: RequestEncoder_encode_def)
qed simp

text \<open>
  C39. Over any buffers the encoder writes the request head, cut at the ends of the buffers: the request line with
  the target in the chosen form, the fields in their order, and the empty line. Every call returns, none fails, no
  byte is lost, repeated or reordered, and a call after the end writes nothing.
\<close>

theorem request_written:
  assumes "0 \<notin> set ns"
  shows "request_calls (absolute_uri (RequestEncoder_new part) a) ns = Ok (cut ns (request_head a part))"
  using request_calls_cut [OF encoder_new_ok assms] by (simp add: encoder_new_owed)

definition example_part :: RequestPart where
  "example_part =
     \<lparr>rp_method = Method_GET, rp_uri = example_uri, rp_version = HTTP1_1,
      rp_headers = [(HeaderName ''accept'', \<lparr>hv_inner = [as_bytes ''text/html'', as_bytes ''*/*''], hv_is_sensitive = False\<rparr>),
                    (HeaderName ''x'', \<lparr>hv_inner = [[]], hv_is_sensitive = False\<rparr>)]\<rparr>"

theorem request_written_witness:
  "request_calls (absolute_uri (RequestEncoder_new example_part) True) [5, 1, 100, 3] =
     Ok (cut [5, 1, 100, 3] (request_head True example_part))"
  by (rule request_written) simp

section \<open>Lines\<close>

text \<open>The pieces between the separators, as a reader finds them that takes every line feed for a line end.\<close>

fun split :: "u8 \<Rightarrow> bytes \<Rightarrow> bytes list" where
  "split s [] = [[]]"
| "split s (b # bs) = (if b = s then [] # split s bs else (b # hd (split s bs)) # tl (split s bs))"

definition strip_cr :: "bytes \<Rightarrow> bytes" where
  "strip_cr l = (if l \<noteq> [] \<and> last l = 13 then butlast l else l)"

lemma split_append: "s \<notin> set l \<Longrightarrow> split s (l @ s # r) = l # split s r"
  by (induction l) auto

lemma split_none: "s \<notin> set l \<Longrightarrow> split s l = [l]"
  by (induction l) auto

lemma strip_cr_line [simp]: "strip_cr (l @ [13]) = l" "strip_cr [] = []"
  by (simp_all add: strip_cr_def)

lemma takeWhile_before: "s \<notin> set l \<Longrightarrow> takeWhile (\<lambda>b. b \<noteq> s) (l @ s # r) = l"
  by (induction l) auto

text \<open>A field whose name and values the constructors of the header types accept.\<close>

definition field_valid :: "HeaderName \<times> HeaderValue \<Rightarrow> bool" where
  "field_valid f \<longleftrightarrow>
     HeaderName_from_bytes (HeaderName_as_bytes (fst f)) = Ok (fst f) \<and>
     list_all (list_all HeaderValue_is_valid) (hv_inner (snd f))"

lemma HEADER_CHARS_token_only: "HEADER_CHARS ! 10 = 0" "HEADER_CHARS ! 58 = 0"
  by code_simp+

lemma field_name_bytes:
  assumes "field_valid f"
  shows "10 \<notin> set (HeaderName_as_bytes (fst f))" "58 \<notin> set (HeaderName_as_bytes (fst f))"
proof -
  have "HEADER_CHARS ! unat b \<noteq> 0" if "b \<in> set (HeaderName_as_bytes (fst f))" for b
    using assms that by (auto simp: field_valid_def from_bytes_eq list_all_iff split: if_splits)
  then show "10 \<notin> set (HeaderName_as_bytes (fst f))" "58 \<notin> set (HeaderName_as_bytes (fst f))"
    using HEADER_CHARS_token_only by fastforce+
qed

lemma value_join_bytes:
  "list_all (list_all HeaderValue_is_valid) vs \<Longrightarrow> 10 \<notin> set (HeaderValue_join n vs)"
  by (induction vs arbitrary: n) (auto simp: list_all_iff HeaderValue_is_valid_def as_bytes_def byte_of_char_def)

lemma field_line_bytes: "field_valid f \<Longrightarrow> 10 \<notin> set (field_line f)"
  using field_name_bytes [of f] value_join_bytes [of "hv_inner (snd f)" 0]
  by (auto simp: field_line_def field_valid_def HeaderValue_to_vec_def)

lemma field_lines_split:
  "list_all field_valid fs \<Longrightarrow>
   map strip_cr (split 10 (field_lines fs @ crlf)) = map field_line fs @ [[], []]"
proof (induction fs)
  case (Cons f fs)
  then have "10 \<notin> set (field_line f @ [13])" by (simp add: field_line_bytes)
  from split_append [OF this, of "field_lines fs @ crlf"] show ?case
    using Cons by (simp add: field_lines_def)
qed (simp add: field_lines_def strip_cr_def)

lemma visible_bytes: "list_all visible bs \<Longrightarrow> 10 \<notin> set bs \<and> 32 \<notin> set bs"
  by (auto simp: list_all_iff visible_def)

lemma request_target_visible:
  assumes "Uri_from_bytes bs = Ok u"
  shows "list_all visible (request_target a u)"
  using parsed_visible [OF assms]
  by (auto simp: request_target_def absolute_form_def origin_form_def print_scheme_def print_authority_def print_path_def
      print_query_def Uri_host_def Uri_port_def Authority_to_string_def as_bytes_separators visible_def byte_of_char_def split: option.splits)

lemma method_version_visible:
  "list_all visible (as_bytes (Method_as_str m))" "list_all visible (as_bytes (Version_as_str v))"
  by (cases m; simp add: Method_as_str_def as_bytes_def byte_of_char_def visible_def)
    (cases v; simp add: Version_as_str_def as_bytes_def byte_of_char_def visible_def)

text \<open>
  C40. Nothing can be smuggled into a request. When the URI was parsed and the header types accepted the fields, a
  reader that takes every line feed for a line end finds the request line, one line for each field and the empty line;
  the request line falls into method, target and version at its spaces, and a field line into its name and
  its value at the first colon.
\<close>

theorem request_unambiguous:
  assumes "Uri_from_bytes bs = Ok (rp_uri part)" "list_all field_valid (rp_headers part)"
  shows "map strip_cr (split 10 (request_head a part)) = request_line a part # map field_line (rp_headers part) @ [[], []]
    \<and> split 32 (request_line a part) =
        [as_bytes (Method_as_str (rp_method part)), request_target a (rp_uri part), as_bytes (Version_as_str (rp_version part))]
    \<and> map (takeWhile (\<lambda>b. b \<noteq> 58)) (map field_line (rp_headers part)) = map (HeaderName_as_bytes \<circ> fst) (rp_headers part)"
proof (intro conjI)
  note vis = method_version_visible [THEN visible_bytes] request_target_visible [OF assms(1), THEN visible_bytes]
  then have "10 \<notin> set (request_line a part @ [13])" by (simp add: request_line_def)
  from split_append [OF this, of "field_lines (rp_headers part) @ crlf"]
  show "map strip_cr (split 10 (request_head a part)) = request_line a part # map field_line (rp_headers part) @ [[], []]"
    using field_lines_split [OF assms(2)] by (simp add: request_head_def)
  show "split 32 (request_line a part) =
      [as_bytes (Method_as_str (rp_method part)), request_target a (rp_uri part), as_bytes (Version_as_str (rp_version part))]"
    using vis by (simp add: request_line_def split_append split_none)
  show "map (takeWhile (\<lambda>b. b \<noteq> 58)) (map field_line (rp_headers part)) = map (HeaderName_as_bytes \<circ> fst) (rp_headers part)"
    using assms(2) field_name_bytes(2) by (auto simp: field_line_def list_all_iff takeWhile_before)
qed

theorem request_unambiguous_witness:
  "map strip_cr (split 10 (request_head True example_part)) =
      request_line True example_part # map field_line (rp_headers example_part) @ [[], []]
    \<and> split 32 (request_line True example_part) =
        [as_bytes (Method_as_str (rp_method example_part)), request_target True (rp_uri example_part),
         as_bytes (Version_as_str (rp_version example_part))]
    \<and> map (takeWhile (\<lambda>b. b \<noteq> 58)) (map field_line (rp_headers example_part)) =
        map (HeaderName_as_bytes \<circ> fst) (rp_headers example_part)"
proof (rule request_unambiguous)
  show "Uri_from_bytes (as_bytes ''HTTPS://[::1]:80/a?b:c#d'') = Ok (rp_uri example_part)"
    using example_uri_parsed by (simp add: example_part_def)
  show "list_all field_valid (rp_headers example_part)" by code_simp
qed

end
