(* ===== verification/Spec2Isabelle.thy ===== *)
theory Spec2Isabelle
  imports Hpack_Roundtrip H2_Frame_Roundtrip H2_Frame_Errors H2_Manager_Flow H2_Manager_Recv Chunk_Roundtrip H1_Request_Props
begin

text \<open>
  \<^bold>\<open>What is verified.\<close> \<open>ylong_http\<close> (directory \<open>ylong_http/src\<close>) is a library of HTTP components, and
  \<open>ylong_http_client\<close> (directory \<open>ylong_http_client/src\<close>) is a client built on it. This development
  models the HTTP/2 side of both, from header compression up to the tasks that manage a connection and write to it,
  and the URIs, the request heads and the chunked bodies of HTTP/1.1, as functions and step relations of HOL, and proves what makes them
  correct. Paths below are relative to these two directories.

  \<^bold>\<open>How the parts interact.\<close> A request becomes \<open>Parts\<close> (pseudo headers and a header map). The HPACK
  encoder turns them into bytes with a dynamic table and the Huffman code; frames carry these bytes.
  In the other direction the frame decoder collects bytes of the socket into frames and hands header
  blocks to the HPACK decoder, which keeps the dynamic table of the peer. The connection manager of the
  client receives the decoded frames and the requests of the users; it owns the streams with their
  states, the queues of streams that wait to send, the flow control windows and the limit of concurrent
  streams, and it hands frames to the writing task, which encodes them and writes them to the connection. The chunk encoder and decoder are used by the HTTP/1.1
  side for bodies of unknown length.

  \<^bold>\<open>Conventions.\<close> A struct is a record with the fields of the code behind a prefix, an enum is a datatype,
  a method \<open>m\<close> of a type \<open>T\<close> is \<open>T_m\<close>. Octets, 16-bit and 32-bit integers are words of their width;
  \<open>usize\<close> is a natural number where the code cannot overflow it, and the wrap-around is written out where
  it can. A method that changes its receiver returns the new receiver, also when it fails. Results are
  \<open>Ok\<close>, \<open>Err\<close> or \<open>Panic\<close>: a slice out of range, an \<open>unwrap\<close> of nothing and an \<open>unreachable\<close> are panics.
  A destination buffer is its length and the bytes written to it. What a poll function yields is
  \<open>Ready\<close> or \<open>Pending\<close>. Sources of bytes, channels and the iteration order of hash maps are parameters.

  \<^bold>\<open>HPACK.\<close>
  \<^item> \<open>Prelude\<close>, \<open>Bit_Lists\<close>, \<open>Poll\<close>: bytes, results, bits of words, shared lemmas.
  \<^item> \<open>H2_Error\<close>: the error codes (\<open>h2/error.rs\<close>).
  \<^item> \<open>Hpack_Integer\<close>: prefixed integers (\<open>h2/hpack/integer.rs\<close>), with the round trip for every mask.
  \<^item> \<open>Huffman_Tables\<close>, \<open>Huffman\<close>: the tables of \<open>huffman/consts.rs\<close> and both decoders and the encoder of
    \<open>huffman/mod.rs\<close>. \<open>Huffman_Check\<close> evaluates the tables against the code; \<open>Huffman_Encode_Correct\<close>
    and \<open>Huffman_Correct\<close> show that the encoder writes the code words with padding, that the decoder
    accepts exactly these strings, and that the resumable decoder agrees with it on every cut.
  \<^item> \<open>Headers\<close>: names, values and the header map (\<open>headers.rs\<close>, \<open>util/header_bytes.rs\<close>).
  \<^item> \<open>Hpack_Table\<close>: static and dynamic table and the searcher (\<open>h2/hpack/table.rs\<close>), eviction included.
  \<^item> \<open>Resumable\<close>: the contracts of a decoder that may be suspended between two bytes and of a writer that
    may be suspended when its buffer is full, with their sequential composition.
  \<^item> \<open>Hpack_Repr\<close>, \<open>Hpack_Repr_Decoder\<close>, \<open>Hpack_Repr_Encoder\<close>: the representations of
    \<open>h2/hpack/representation\<close>, both sides instances of these contracts; \<open>Hpack_Repr_Roundtrip\<close> joins them.
  \<^item> \<open>H2_Parts\<close>, \<open>Hpack_Decoder\<close>, \<open>Hpack_Encoder\<close>: header lines and the two coders; \<open>Hpack_Roundtrip\<close>
    shows that parts survive any buffers on one side and any segments on the other, with equal tables, as long
    as no field hits the wrong match of the searcher, and which literal fields make the decoder panic.

  \<^bold>\<open>Frames.\<close>
  \<^item> \<open>H2_Frame\<close>: the frames (\<open>h2/frame.rs\<close>). \<open>H2_Frame_Decoder\<close>: the decoder of \<open>h2/decoder.rs\<close> with
    its buffer and its stages.
  \<^item> \<open>H2_Frame_Segments\<close>, \<open>H2_Frame_Props\<close>: the decoder refines one that sees whole frames, so that
    the cuts of the reads do not matter, a cut PRIORITY payload apart; header blocks cut into CONTINUATION frames.
    \<open>H2_Frame_Errors\<close>: the invariant that survives stream errors and the bound of the buffer; exactly which
    payloads make the decoder panic; what it makes of PUSH_PROMISE and of the frame after a stream error.
  \<^item> \<open>H2_Frame_Encoder\<close>: the resumable encoder (\<open>h2/encoder.rs\<close>), one function per part of a frame, with the
    places in the buffer as the code computes them. \<open>H2_Frame_Wire\<close>: the wire format of every frame.
    \<open>H2_Frame_Written\<close>: the bytes that an encoder still owes, of which every call over a buffer of at least 13 bytes
    writes a front piece; smaller buffers cut the headers of some frames wrongly.
  \<^item> \<open>H2_Send\<close>: the task that writes the frames (\<open>util/h2/input.rs\<close>), over a connection that takes what it likes of
    the bytes it is offered. \<open>H2_Send_Props\<close>: over any polls, what the connection has taken is a front piece of the
    bytes of the queued frames, and all of it when the task waits. \<open>H2_Frame_Roundtrip\<close>: the frame decoder
    reads these bytes as the frames that were queued, with equal dynamic tables.

  \<^bold>\<open>The connection.\<close>
  \<^item> \<open>H2_Window\<close>: the windows (\<open>util/h2/buffer\<close>). \<open>H2_Streams\<close>: the streams (\<open>util/h2/streams.rs\<close>).
    \<open>H2_Manager\<close>: the stream controller (\<open>util/dispatcher.rs\<close>), every handler of the manager
    (\<open>util/h2/manager.rs\<close>) and \<open>manager_step\<close>, the step relation of its loop. \<open>H2_Dispatcher\<close>: the state in
    which the manager starts.
  \<^item> \<open>H2_Stream_States\<close>: the handlers of frames and resets follow the state diagram, and what GOAWAY closes. \<open>H2_Manager_Invariant\<close>, \<open>H2_Calm\<close>,
    \<open>H2_Manager_Ids\<close>: what an invariant of the streams has to satisfy to hold in every run, as locales, and the
    classes of operations that leave most of the state alone. \<open>H2_Manager_Sending\<close>, \<open>H2_Manager_Account\<close>:
    the invariants. \<open>H2_Manager_Runs\<close>, \<open>H2_Manager_Flow\<close>: what follows for runs from the launch.
    \<open>H2_Manager_Recv\<close>: the receive window of the connection in every run.

  \<^bold>\<open>Chunked bodies\<close> (\<open>body/chunk.rs\<close>).
  \<^item> \<open>Chunk_Encoder\<close>, \<open>Chunk_Decoder\<close>: the two sides. \<open>Chunk_Segments\<close>, \<open>Chunk_Cuts\<close>, \<open>Chunk_Reads\<close>: the stages
    of the decoder and what a cut between two reads changes, for the trailer too. \<open>Chunk_Written\<close>, \<open>Chunk_Reader\<close>: what the
    encoder has written over any sequence of buffers. \<open>Chunk_Roundtrip\<close>: both together.

  \<^bold>\<open>HTTP/1.1 requests.\<close>
  \<^item> \<open>Uri\<close>: the parser, the printer and the builder of URIs (\<open>request/uri/mod.rs\<close>); \<open>Uri_Roundtrip\<close>: a parsed
    URI is printed so that it parses to itself, a built one exactly when its path begins with a slash.
  \<^item> \<open>Http_Message\<close>: methods, versions and status codes. \<open>H1_Request\<close>: the encoder of request heads
    (\<open>h1/request/encoder.rs\<close>). \<open>H1_Request_Props\<close>: what it writes over any buffers, and that its lines are
    those it was built from.

  \<^bold>\<open>Loops.\<close> Every loop of a decoder is a function with a termination proof: each turn consumes input. The loops of
  the chunk encoder and of the writing task may run for ever, so they are partial functions into an option, and the theorems
  about their results state that they return. No fuel is used.

  \<^bold>\<open>Not modelled.\<close> Code that calls the operating system, a foreign library or the asynchronous runtime
  has no behaviour to state apart from theirs: sockets and connectors, DNS, TLS over OpenSSL, QUIC, timers and
  the progress of uploads and downloads. The task that reads the frames and the half of the connection it owns are futures around the frame decoder.
  HTTP/3 and QPACK, the responses of HTTP/1.1,
  MIME bodies and the pools of the client are separate parts of the library which nothing above
  depends on.
\<close>

end
